(* ===== verification/Prelude.thy ===== *)
theory Prelude
  imports Main "HOL-Library.Word"
begin

text \<open>
  What every component shares: the machine types of the code, the outcome type that keeps
  undefined behaviour of C++ apart from ordinary results, the memory image of an \<open>int\<close>, the
  C string buffers (\<open>char ip[16]\<close>), the decimal rendering of integers by \<open>std::ostream\<close> and
  its inverse \<open>atoi\<close>, and lemmas on lists the components use.

  A \<open>std::string\<close>, a \<open>char *\<close> with its length and the bytes on a connection are all
  \<^typ>\<open>string\<close>, a list of 8-bit characters. A protobuf \<open>int32\<close> or enum is a 32-bit word, an
  \<open>int64\<close> a 64-bit word; a local \<open>int\<close> whose range the code bounds itself is an \<^typ>\<open>int\<close>.
  A member variable \<open>x_\<close> is the record field \<open>m_x\<close>.
\<close>

named_theorems size_simps \<open>lengths of encoded pieces\<close>
named_theorems codec_simps \<open>reading back an encoded piece\<close>

type_synonym int32 = "32 word"
type_synonym uint32 = "32 word"
type_synonym int64 = "64 word"
type_synonym uint64 = "64 word"

section \<open>Outcomes\<close>

text \<open>
  The ways in which the C++ code leaves the defined part of the language. A model function
  returns \<open>Inl u\<close> exactly where the code would do this, and \<open>Inr\<close> of its result otherwise.
\<close>

datatype ub =
    NullDeref         \<comment> \<open>a null pointer or an end iterator is dereferenced\<close>
  | OutOfBounds       \<comment> \<open>an access past the end of an array\<close>
  | UseAfterFree      \<comment> \<open>a member call on a deleted object\<close>
  | DivByZero         \<comment> \<open>\<open>%\<close> or \<open>/\<close> by zero\<close>
  | SignedOverflow    \<comment> \<open>an \<open>int\<close> result that does not fit\<close>

type_synonym 'a checked = "ub + 'a"

definition bind_ub :: "'a checked \<Rightarrow> ('a \<Rightarrow> 'b checked) \<Rightarrow> 'b checked" where
  "bind_ub m f = (case m of Inl u \<Rightarrow> Inl u | Inr x \<Rightarrow> f x)"

lemma bind_ub_simps [simp]:
  "bind_ub (Inl u) f = Inl u"
  "bind_ub (Inr x) f = f x"
  by (simp_all add: bind_ub_def)

lemma bind_ub_Inr_iff: "bind_ub m f = Inr y \<longleftrightarrow> (\<exists>x. m = Inr x \<and> f x = Inr y)"
  by (cases m) auto

definition int_fits :: "int \<Rightarrow> bool" where
  "int_fits i \<longleftrightarrow> - (2 ^ 31) \<le> i \<and> i < 2 ^ 31"

text \<open>An arithmetic result stored in an \<open>int\<close>: undefined when it does not fit.\<close>

definition chk_int :: "int \<Rightarrow> int checked" where
  "chk_int i = (if int_fits i then Inr i else Inl SignedOverflow)"

text \<open>\<open>a % b\<close> on \<open>int\<close>: the sign of the dividend, undefined for a zero divisor.\<close>

definition c_mod :: "int \<Rightarrow> int \<Rightarrow> int checked" where
  "c_mod a b = (if b = 0 then Inl DivByZero else Inr (sgn a * (abs a mod abs b)))"

lemma c_mod_nonneg: "0 \<le> a \<Longrightarrow> 0 < b \<Longrightarrow> c_mod a b = Inr (a mod b)"
  by (cases "a = 0") (simp_all add: c_mod_def)

text \<open>An element of a vector, \<open>v[i]\<close>: undefined outside.\<close>

definition vec_at :: "'a list \<Rightarrow> int \<Rightarrow> 'a checked" where
  "vec_at v i = (if 0 \<le> i \<and> nat i < length v then Inr (v ! nat i) else Inl OutOfBounds)"

lemma vec_at_nat [simp]: "i < length v \<Longrightarrow> vec_at v (int i) = Inr (v ! i)"
  by (simp add: vec_at_def)

section \<open>The memory image of an int\<close>

text \<open>
  \<open>readMsg(&size, sizeof(size))\<close> and \<open>writeMsg(&size, sizeof(size))\<close> move the bytes of an
  \<open>int\<close> as they lie in memory. The model is the little-endian host (x86, ARM) the build
  targets; the source says byte order is not considered. A read of fewer than four bytes
  leaves the higher ones as they were, here zero.
\<close>

definition mem_of_int32 :: "int32 \<Rightarrow> string" where
  "mem_of_int32 w = map (\<lambda>i. char_of (unat (drop_bit (8 * i) w))) [0, 1, 2, 3]"

definition int32_of_mem :: "string \<Rightarrow> int32" where
  "int32_of_mem bs = horner_sum of_char 256 bs"

lemma length_mem_of_int32 [simp, size_simps]: "length (mem_of_int32 w) = 4"
  by (simp add: mem_of_int32_def)

lemma int32_of_mem_Nil [simp]: "int32_of_mem [] = 0"
  by (simp add: int32_of_mem_def)

lemma of_char_char_of_nat: "(of_char (char_of (n :: nat)) :: 'b::len word) = of_nat (n mod 256)"
  by (metis of_char_of of_nat_of_char)

lemma int32_of_mem_of_int32 [simp, codec_simps]: "int32_of_mem (mem_of_int32 w) = w"
proof -
  let ?n = "unat w"
  have d: "unat (drop_bit k w) = ?n div 2 ^ k" for k
    by (simp add: unat_drop_bit_eq drop_bit_eq_div [symmetric])
  have lt: "?n < 2 ^ 32"
    using unsigned_less [of w, where ?'a = nat] by simp
  have top: "?n div 16777216 mod 256 = ?n div 16777216"
    using lt by simp
  have d2: "?n div 65536 = ?n div 256 div 256" "?n div 16777216 = ?n div 65536 div 256"
    by (simp_all add: div_mult2_eq [symmetric])
  have sum: "?n mod 256 + 256 * (?n div 256 mod 256 + 256 * (?n div 65536 mod 256
      + 256 * (?n div 16777216 mod 256))) = ?n"
    unfolding top unfolding d2 by (simp only: mod_mult_div_eq)
  have "int32_of_mem (mem_of_int32 w) =
      of_nat (?n mod 256 + 256 * (?n div 256 mod 256 + 256 * (?n div 65536 mod 256
      + 256 * (?n div 16777216 mod 256))))"
    by (simp add: int32_of_mem_def mem_of_int32_def of_char_char_of_nat d)
  then show ?thesis
    by (simp only: sum) simp
qed

section \<open>Decimal text\<close>

text \<open>
  \<open>std::ostream << int\<close> in its default format, and \<open>atoi\<close>: leading white space, an optional
  sign, then digits up to the first other character. (\<open>atoi\<close> is undefined on a value that
  does not fit an \<open>int\<close>; the callers read back what \<open>ostream\<close> or the database wrote.)
\<close>

definition digit_char :: "nat \<Rightarrow> char" where
  "digit_char d = char_of (48 + d)"

fun show_nat :: "nat \<Rightarrow> string" where
  "show_nat n = (if n < 10 then [digit_char n] else show_nat (n div 10) @ [digit_char (n mod 10)])"

declare show_nat.simps [simp del]

definition show_int :: "int \<Rightarrow> string" where
  "show_int i = (if i < 0 then CHR ''-'' # show_nat (nat (- i)) else show_nat (nat i))"

definition is_digit :: "char \<Rightarrow> bool" where
  "is_digit c \<longleftrightarrow> 48 \<le> (of_char c :: nat) \<and> (of_char c :: nat) \<le> 57"

definition is_space :: "char \<Rightarrow> bool" where
  "is_space c \<longleftrightarrow> (of_char c :: nat) = 32 \<or> 9 \<le> (of_char c :: nat) \<and> (of_char c :: nat) \<le> 13"

definition nat_of_digits :: "string \<Rightarrow> nat" where
  "nat_of_digits s = foldl (\<lambda>a c. 10 * a + (of_char c - 48)) 0 (takeWhile is_digit s)"

definition atoi :: "string \<Rightarrow> int" where
  "atoi s = (case dropWhile is_space s of
      [] \<Rightarrow> 0
    | c # t \<Rightarrow>
        if c = CHR ''-'' then - int (nat_of_digits t)
        else if c = CHR ''+'' then int (nat_of_digits t)
        else int (nat_of_digits (c # t)))"

lemma of_char_digit_char [simp]: "d < 10 \<Longrightarrow> (of_char (digit_char d) :: nat) = 48 + d"
  by (simp add: digit_char_def)

lemma is_digit_digit_char [simp]: "d < 10 \<Longrightarrow> is_digit (digit_char d)"
  by (simp add: is_digit_def)

lemma is_digit_sign [simp]:
  "\<not> is_digit (CHR ''-'')" "\<not> is_digit (CHR '':'')" "\<not> is_digit (CHR '' '')"
  "\<not> is_digit (CHR 0x27)"
  by (simp_all add: is_digit_def)

lemma digit_not_space: "is_digit c \<Longrightarrow> \<not> is_space c"
  by (auto simp: is_digit_def is_space_def)

lemma show_nat_digits: "\<forall>c \<in> set (show_nat n). is_digit c"
proof (induction n rule: show_nat.induct)
  case (1 n)
  then show ?case
    by (subst show_nat.simps) (auto simp: not_less)
qed

lemma show_nat_not_Nil [simp]: "show_nat n \<noteq> []"
  by (subst show_nat.simps) simp

lemma takeWhile_show_nat [simp]: "takeWhile is_digit (show_nat n) = show_nat n"
  using show_nat_digits by (simp add: takeWhile_eq_all_conv)

lemma nat_of_digits_show_nat [simp]: "nat_of_digits (show_nat n) = n"
proof (induction n rule: show_nat.induct)
  case (1 n)
  show ?case
  proof (cases "n < 10")
    case True
    then show ?thesis by (subst show_nat.simps) (simp add: nat_of_digits_def)
  next
    case False
    with "1.IH" have "nat_of_digits (show_nat (n div 10)) = n div 10" by simp
    moreover have "takeWhile is_digit (show_nat (n div 10) @ [digit_char (n mod 10)]) =
        show_nat (n div 10) @ [digit_char (n mod 10)]"
      using show_nat_digits by (simp add: takeWhile_append)
    ultimately show ?thesis
      using False by (subst show_nat.simps) (simp add: nat_of_digits_def)
  qed
qed

lemma show_nat_inject [simp]: "show_nat m = show_nat n \<longleftrightarrow> m = n"
  by (metis nat_of_digits_show_nat)

lemma hd_show_nat_digit: "is_digit (hd (show_nat n))"
  using show_nat_digits [of n] by (meson hd_in_set show_nat_not_Nil)

lemma atoi_show_int [simp]: "atoi (show_int i) = i"
proof (cases "i < 0")
  case True
  then show ?thesis by (simp add: atoi_def show_int_def is_space_def)
next
  case False
  obtain c t where ct: "show_nat (nat i) = c # t" by (meson neq_Nil_conv show_nat_not_Nil)
  then have "is_digit c" using hd_show_nat_digit [of "nat i"] by simp
  then have "\<not> is_space c" "c \<noteq> CHR ''-''" "c \<noteq> CHR ''+''"
    by (auto simp: digit_not_space is_digit_def)
  moreover have "nat_of_digits (c # t) = nat i"
    by (metis ct nat_of_digits_show_nat)
  ultimately show ?thesis
    using False by (simp add: atoi_def show_int_def ct)
qed

lemma show_int_inject [simp]: "show_int i = show_int j \<longleftrightarrow> i = j"
  by (metis atoi_show_int)

section \<open>C string buffers\<close>

text \<open>
  \<open>char ip[16] = { 0 }\<close> with \<open>strncpy(ip, s, 16)\<close>: the bytes of \<open>s\<close> up to its terminator, cut
  at 16 and padded with zero bytes, so a source of 16 or more bytes leaves no terminator.
  \<open>strcpy\<close> writes the terminator too and runs past the array when it does not fit. Reading the
  array as a C string stops at the first zero byte; without one it runs past the array.
\<close>

definition NUL :: char where
  "NUL = CHR 0x00"

definition strncpy :: "nat \<Rightarrow> string \<Rightarrow> string" where
  "strncpy n s = (let t = take n (takeWhile (\<lambda>c. c \<noteq> NUL) s) in t @ replicate (n - length t) NUL)"

definition strcpy :: "nat \<Rightarrow> string \<Rightarrow> string \<Rightarrow> string checked" where
  "strcpy n old s = (let t = takeWhile (\<lambda>c. c \<noteq> NUL) s in
     if length t < n then Inr (t @ NUL # drop (Suc (length t)) old) else Inl OutOfBounds)"

definition c_str :: "string \<Rightarrow> string checked" where
  "c_str buf = (if NUL \<in> set buf then Inr (takeWhile (\<lambda>c. c \<noteq> NUL) buf) else Inl OutOfBounds)"

abbreviation zero_buf :: "nat \<Rightarrow> string" where
  "zero_buf n \<equiv> replicate n NUL"

lemma length_strncpy [simp]: "length (strncpy n s) = n"
  by (simp add: strncpy_def Let_def)

lemma takeWhile_neq_all: "x \<notin> set xs \<Longrightarrow> takeWhile (\<lambda>y. y \<noteq> x) xs = xs"
  by (induction xs) auto

lemma takeWhile_replicate_neq [simp]: "takeWhile (\<lambda>y. y \<noteq> x) (replicate n x) = []"
  by (cases n) auto

lemma c_str_strncpy: "NUL \<notin> set s \<Longrightarrow> length s < n \<Longrightarrow> c_str (strncpy n s) = Inr s"
  by (simp add: c_str_def strncpy_def Let_def takeWhile_neq_all takeWhile_append)

lemma c_str_strncpy_long: "NUL \<notin> set s \<Longrightarrow> n \<le> length s \<Longrightarrow> c_str (strncpy n s) = Inl OutOfBounds"
  by (simp add: c_str_def strncpy_def Let_def takeWhile_neq_all) (meson in_set_takeD)

lemma c_str_strcpy:
  "NUL \<notin> set s \<Longrightarrow> length s < n \<Longrightarrow> bind_ub (strcpy n old s) c_str = Inr s"
  by (simp add: c_str_def strcpy_def Let_def takeWhile_neq_all takeWhile_append)

lemma c_str_zero_buf [simp]: "0 < n \<Longrightarrow> c_str (zero_buf n) = Inr []"
  by (simp add: c_str_def)

section \<open>Polling\<close>

text \<open>
  A loop that looks every 10 ms, at most \<open>n\<close> times, for what another thread provides: \<open>obs i\<close> is
  what it sees at look \<open>i\<close>. The result is what it found first, and when.
\<close>

fun poll :: "(nat \<Rightarrow> 'a option) \<Rightarrow> nat \<Rightarrow> nat \<Rightarrow> 'a option \<times> nat" where
  "poll obs i 0 = (None, i)"
| "poll obs i (Suc n) = (case obs i of Some x \<Rightarrow> (Some x, i) | None \<Rightarrow> poll obs (Suc i) n)"

lemma poll_finds:
  "\<forall>i' < j. obs (i + i') = None \<Longrightarrow> obs (i + j) = Some x \<Longrightarrow> j < n \<Longrightarrow> poll obs i n = (Some x, i + j)"
proof (induction n arbitrary: i j)
  case (Suc n)
  show ?case
  proof (cases j)
    case 0
    with Suc.prems show ?thesis by simp
  next
    case (Suc j')
    then have "obs i = None" using Suc.prems(1) [rule_format, of 0] by simp
    moreover have "poll obs (Suc i) n = (Some x, Suc i + j')"
      by (rule Suc.IH) (use Suc.prems Suc in \<open>auto simp: less_Suc_eq_0_disj\<close>)
    ultimately show ?thesis using Suc by simp
  qed
qed simp

text \<open>The \<open>int\<close> quotient of a timeout in milliseconds by 10, rounded towards zero.\<close>

definition ms_polls :: "int \<Rightarrow> int" where
  "ms_polls timeoutMs = sgn timeoutMs * (abs timeoutMs div 10)"

lemma ms_polls_pos: "0 \<le> timeoutMs \<Longrightarrow> ms_polls timeoutMs = timeoutMs div 10"
  by (cases "timeoutMs = 0") (simp_all add: ms_polls_def)

lemma ms_polls_neg: "timeoutMs < 10 \<Longrightarrow> ms_polls timeoutMs \<le> 0"
  by (cases "0 < timeoutMs") (simp_all add: ms_polls_def sgn_if pos_imp_zdiv_nonneg_iff)

end
