(* ===== verification/Msg.thy ===== *)
theory Msg
  imports Prelude
begin

text \<open>
  The receive buffer \<open>CMsg\<close> of \<open>cplatform/cmsg.h\<close> and the message types of
  \<open>cplatform/cmsgtype.proto\<close>. The contents of a fresh \<open>new char[s]\<close> are not initialised:
  they are the parameter \<open>junk\<close>, by position.
\<close>

section \<open>Message types\<close>

definition NONE_DO_NOT_USE :: int32 where "NONE_DO_NOT_USE = 0"
definition MSG_LOGIN_REQ :: int32 where "MSG_LOGIN_REQ = 1"
definition MSG_LOGIN_RES :: int32 where "MSG_LOGIN_RES = 2"
definition MSG_DIR_REQ :: int32 where "MSG_DIR_REQ = 3"
definition MSG_DIR_RES :: int32 where "MSG_DIR_RES = 4"
definition MSG_REGISTER_REQ :: int32 where "MSG_REGISTER_REQ = 5"
definition MSG_REGISTER_RES :: int32 where "MSG_REGISTER_RES = 6"
definition MSG_GET_SERVICE_REQ :: int32 where "MSG_GET_SERVICE_REQ = 7"
definition MSG_GET_SERVICE_RES :: int32 where "MSG_GET_SERVICE_RES = 8"
definition MSG_UPLOAD_CONFIG_REQ :: int32 where "MSG_UPLOAD_CONFIG_REQ = 9"
definition MSG_UPLOAD_CONFIG_RES :: int32 where "MSG_UPLOAD_CONFIG_RES = 10"
definition MSG_DOWNLOAD_CONFIG_REQ :: int32 where "MSG_DOWNLOAD_CONFIG_REQ = 11"
definition MSG_DOWNLOAD_CONFIG_RES :: int32 where "MSG_DOWNLOAD_CONFIG_RES = 12"
definition MSG_DOWNLOAD_ALL_CONFIG_REQ :: int32 where "MSG_DOWNLOAD_ALL_CONFIG_REQ = 13"
definition MSG_DOWNLOAD_ALL_CONFIG_RES :: int32 where "MSG_DOWNLOAD_ALL_CONFIG_RES = 14"
definition MSG_DELETE_CONFIG_REQ :: int32 where "MSG_DELETE_CONFIG_REQ = 15"
definition MSG_DELETE_CONFIG_RES :: int32 where "MSG_DELETE_CONFIG_RES = 16"
definition MSG_ADD_USER_REQ :: int32 where "MSG_ADD_USER_REQ = 17"
definition MSG_ADD_USER_RES :: int32 where "MSG_ADD_USER_RES = 18"
definition MSG_ADD_LOG_REQ :: int32 where "MSG_ADD_LOG_REQ = 211"
definition MSG_HEART_REQ :: int32 where "MSG_HEART_REQ = 65534"

lemmas msg_types = NONE_DO_NOT_USE_def MSG_LOGIN_REQ_def MSG_LOGIN_RES_def MSG_DIR_REQ_def
  MSG_DIR_RES_def MSG_REGISTER_REQ_def MSG_REGISTER_RES_def MSG_GET_SERVICE_REQ_def
  MSG_GET_SERVICE_RES_def MSG_UPLOAD_CONFIG_REQ_def MSG_UPLOAD_CONFIG_RES_def
  MSG_DOWNLOAD_CONFIG_REQ_def MSG_DOWNLOAD_CONFIG_RES_def MSG_DOWNLOAD_ALL_CONFIG_REQ_def
  MSG_DOWNLOAD_ALL_CONFIG_RES_def MSG_DELETE_CONFIG_REQ_def MSG_DELETE_CONFIG_RES_def
  MSG_ADD_USER_REQ_def MSG_ADD_USER_RES_def MSG_ADD_LOG_REQ_def MSG_HEART_REQ_def

section \<open>CMsg\<close>

definition MAX_MSG_SIZE :: int where
  "MAX_MSG_SIZE = 8192"

record CMsg =
  m_size :: int
  m_recvSize :: int
  m_data :: "string option"
  m_type :: int32

definition CMsg_new :: CMsg where
  "CMsg_new = \<lparr>m_size = 0, m_recvSize = 0, m_data = None, m_type = NONE_DO_NOT_USE\<rparr>"

definition alloc :: "(nat \<Rightarrow> char) \<Rightarrow> int \<Rightarrow> CMsg \<Rightarrow> bool \<times> CMsg" where
  "alloc junk s m =
     (if s \<le> 0 \<or> s > MAX_MSG_SIZE then (False, m)
      else (True, m\<lparr>m_data := Some (map junk [0..<nat s]), m_size := s, m_recvSize := 0\<rparr>))"

definition recved :: "CMsg \<Rightarrow> bool" where
  "recved m = (if m_size m < 0 then False else m_recvSize m = m_size m)"

definition CMsg_clear :: "CMsg \<Rightarrow> CMsg" where
  "CMsg_clear m = \<lparr>m_size = 0, m_recvSize = 0, m_data = None, m_type = 0\<rparr>"

lemma CMsg_clear_new: "CMsg_clear m = CMsg_new"
  by (simp add: CMsg_clear_def CMsg_new_def NONE_DO_NOT_USE_def)

lemma recved_new [simp]: "recved CMsg_new"
  by (simp add: recved_def CMsg_new_def)

section \<open>Reading into a buffer\<close>

text \<open>The bytes \<open>bs\<close> stored at \<open>data + off\<close>: only defined inside the array.\<close>

definition write_at :: "string \<Rightarrow> nat \<Rightarrow> string \<Rightarrow> string" where
  "write_at buf off bs = take off buf @ bs @ drop (off + length bs) buf"

lemma length_write_at [simp]:
  "off + length bs \<le> length buf \<Longrightarrow> length (write_at buf off bs) = length buf"
  by (simp add: write_at_def)

lemma write_at_Nil [simp]: "write_at buf n [] = buf"
  by (simp add: write_at_def)

lemma write_at_whole: "length bs = length buf \<Longrightarrow> write_at buf 0 bs = bs"
  by (simp add: write_at_def)

lemma take_write_at:
  "off \<le> length buf \<Longrightarrow> take (off + length bs) (write_at buf off bs) = take off buf @ bs"
  by (simp add: write_at_def)

text \<open>
  A buffer that is being filled: it has the announced size, room for what is missing, and never
  more bytes than announced.
\<close>

definition buf_ok :: "CMsg \<Rightarrow> bool" where
  "buf_ok m \<longleftrightarrow> 0 \<le> m_recvSize m \<and> m_recvSize m \<le> m_size m \<and> m_size m \<le> MAX_MSG_SIZE \<and>
     (0 < m_size m \<longrightarrow> (\<exists>b. m_data m = Some b \<and> length b = nat (m_size m)))"

lemma buf_ok_new [simp, intro]: "buf_ok CMsg_new"
  by (simp add: buf_ok_def CMsg_new_def MAX_MSG_SIZE_def)

lemma buf_ok_alloc: "alloc junk s m = (True, m') \<Longrightarrow> buf_ok m'"
  by (auto simp: alloc_def buf_ok_def split: if_splits)

end
