(* ===== verification/ComeTask.thy ===== *)
theory ComeTask
  imports Msg
begin

text \<open>
  A connection, \<open>cplatform/ccometask.cpp\<close> over \<open>cplatform/ctask.h\<close>: the bufferevent with its
  read and write wrappers, connecting and reconnecting, the two timers, the event callback and
  the release of the object. C++ inheritance is record extension: the operations are typed over
  every extension of the record.

  Libevent is not part of the repository. Its calls are the fields of the record \<open>libevent\<close>,
  with \<open>'b\<close> the state of a bufferevent; the calls an object made are kept in its field
  \<open>calls\<close>, in order. The field \<open>deleted\<close> notes \<open>delete this\<close>. The mutex of the object only
  brackets whole operations here, which are sequential; log output is left out.
\<close>

section \<open>Libevent\<close>

datatype timer_kind = TimerCb | AutoConnectTimerCb

datatype lib_call =
    Bev_new int
  | Bev_free
  | Bev_connect string int
  | Bev_set_timeouts int int
  | Bev_trigger_write
  | Event_new timer_kind nat
  | Event_add nat int int
  | Event_free nat

record 'b libevent =
  bufferevent_socket_new :: "lib_call list \<Rightarrow> nat option \<Rightarrow> int \<Rightarrow> 'b option"
  bufferevent_openssl_socket_new :: "lib_call list \<Rightarrow> nat option \<Rightarrow> int \<Rightarrow> bool \<Rightarrow> 'b option"
  bufferevent_socket_connect :: "'b \<Rightarrow> string \<Rightarrow> int \<Rightarrow> int \<times> 'b"
  bufferevent_read :: "'b \<Rightarrow> int \<Rightarrow> string \<times> 'b"
  bufferevent_write :: "'b \<Rightarrow> string \<Rightarrow> int \<times> 'b"
  event_new :: "lib_call list \<Rightarrow> nat option"

section \<open>The objects\<close>

record CTask =
  m_base :: "nat option"
  m_sock :: int
  m_threadId :: int

record 'b CComeTask = CTask +
  m_clientIp :: string
  m_clientPort :: int
  m_localIp :: string
  m_readTimeoutMs :: int
  m_sslCtx :: bool
  m_autoDelete :: bool
  m_autoConnect :: bool
  m_autoConnectTimerEvent :: "nat option"
  m_serverIp :: string
  m_serverPort :: int
  m_bev :: "'b option"
  m_task_msg :: CMsg
  m_isRecvMsg :: bool
  m_isConnecting :: bool
  m_isConnected :: bool
  m_timerEvent :: "nat option"
  m_timerMs :: int
  calls :: "lib_call list"
  deleted :: bool

definition CComeTask_new :: "'b CComeTask" where
  "CComeTask_new = \<lparr>m_base = None, m_sock = 0, m_threadId = 0, m_clientIp = zero_buf 16,
     m_clientPort = 0, m_localIp = zero_buf 16, m_readTimeoutMs = 0, m_sslCtx = False,
     m_autoDelete = True, m_autoConnect = False, m_autoConnectTimerEvent = None,
     m_serverIp = zero_buf 16, m_serverPort = 0, m_bev = None, m_task_msg = CMsg_new,
     m_isRecvMsg = True, m_isConnecting = True, m_isConnected = False, m_timerEvent = None,
     m_timerMs = 0, calls = [], deleted = False\<rparr>"

definition called :: "lib_call \<Rightarrow> ('b, 'a) CComeTask_scheme \<Rightarrow> ('b, 'a) CComeTask_scheme" where
  "called c t = t\<lparr>calls := calls t @ [c]\<rparr>"

definition setServerIp :: "string \<Rightarrow> ('b, 'a) CComeTask_scheme \<Rightarrow> ('b, 'a) CComeTask_scheme" where
  "setServerIp ip t = t\<lparr>m_serverIp := strncpy 16 ip\<rparr>"

definition setClientIp ::
    "string option \<Rightarrow> ('b, 'a) CComeTask_scheme \<Rightarrow> ('b, 'a) CComeTask_scheme" where
  "setClientIp ip t = (case ip of None \<Rightarrow> t | Some s \<Rightarrow> t\<lparr>m_clientIp := strncpy 16 s\<rparr>)"

definition setLocalIp :: "string \<Rightarrow> ('b, 'a) CComeTask_scheme \<Rightarrow> ('b, 'a) CComeTask_scheme" where
  "setLocalIp ip t = t\<lparr>m_localIp := strncpy 16 ip\<rparr>"

definition setAutoConnect :: "bool \<Rightarrow> ('b, 'a) CComeTask_scheme \<Rightarrow> ('b, 'a) CComeTask_scheme" where
  "setAutoConnect is t = (let t = t\<lparr>m_autoConnect := is\<rparr> in
     if is then t\<lparr>m_autoDelete := False\<rparr> else t)"

section \<open>Timers\<close>

definition setTimer ::
    "'b libevent \<Rightarrow> int \<Rightarrow> ('b, 'a) CComeTask_scheme \<Rightarrow> ('b, 'a) CComeTask_scheme" where
  "setTimer le ms t =
     (if m_base t = None then t
      else case event_new le (calls t) of
          None \<Rightarrow> t\<lparr>m_timerEvent := None\<rparr>
        | Some e \<Rightarrow>
            called (Event_add e (ms div 1000) (ms mod 1000 * 1000))
              (called (Event_new TimerCb e) (t\<lparr>m_timerEvent := Some e\<rparr>)))"

definition setAutoConnectTimer ::
    "'b libevent \<Rightarrow> int \<Rightarrow> ('b, 'a) CComeTask_scheme \<Rightarrow> ('b, 'a) CComeTask_scheme" where
  "setAutoConnectTimer le ms t =
     (if m_base t = None then t
      else
        let t = (case m_autoConnectTimerEvent t of None \<Rightarrow> t
                 | Some e \<Rightarrow> called (Event_free e) (t\<lparr>m_autoConnectTimerEvent := None\<rparr>)) in
        case event_new le (calls t) of
          None \<Rightarrow> t\<lparr>m_autoConnectTimerEvent := None\<rparr>
        | Some e \<Rightarrow>
            called (Event_add e (ms div 1000) (ms mod 1000 * 1000))
              (called (Event_new AutoConnectTimerCb e) (t\<lparr>m_autoConnectTimerEvent := Some e\<rparr>)))"

definition clearTimers :: "('b, 'a) CComeTask_scheme \<Rightarrow> ('b, 'a) CComeTask_scheme" where
  "clearTimers t =
     (let t = (case m_autoConnectTimerEvent t of None \<Rightarrow> t
               | Some e \<Rightarrow> called (Event_free e) (t\<lparr>m_autoConnectTimerEvent := None\<rparr>)) in
      case m_timerEvent t of None \<Rightarrow> t
      | Some e \<Rightarrow> called (Event_free e) (t\<lparr>m_timerEvent := None\<rparr>))"

section \<open>Reading and writing\<close>

text \<open>\<open>readMsg\<close> gives the bytes stored at \<open>data\<close>; the code's result is their number.\<close>

definition readMsg ::
    "'b libevent \<Rightarrow> int \<Rightarrow> ('b, 'a) CComeTask_scheme \<Rightarrow> string \<times> ('b, 'a) CComeTask_scheme" where
  "readMsg le n t =
     (case m_bev t of None \<Rightarrow> ([], t)
      | Some b \<Rightarrow> (let (bytes, b') = bufferevent_read le b n in (bytes, t\<lparr>m_bev := Some b'\<rparr>)))"

definition writeMsg ::
    "'b libevent \<Rightarrow> string option \<Rightarrow> int \<Rightarrow> ('b, 'a) CComeTask_scheme \<Rightarrow>
     bool \<times> ('b, 'a) CComeTask_scheme" where
  "writeMsg le data n t =
     (case (m_bev t, data) of
        (Some b, Some d) \<Rightarrow>
          if n \<le> 0 then (False, t)
          else (let (res, b') = bufferevent_write le b (take (nat n) d) in
                (res = 0, t\<lparr>m_bev := Some b'\<rparr>))
      | _ \<Rightarrow> (False, t))"

definition beginWrite :: "('b, 'a) CComeTask_scheme \<Rightarrow> ('b, 'a) CComeTask_scheme" where
  "beginWrite t = (if m_bev t = None then t else called Bev_trigger_write t)"

section \<open>Connecting\<close>

definition initBev ::
    "'b libevent \<Rightarrow> int \<Rightarrow> ('b, 'a) CComeTask_scheme \<Rightarrow> bool \<times> ('b, 'a) CComeTask_scheme" where
  "initBev le sock t =
     (let b = (if \<not> m_sslCtx t then bufferevent_socket_new le (calls t) (m_base t) sock
               else bufferevent_openssl_socket_new le (calls t) (m_base t) sock (sock < 0));
          t = t\<lparr>m_bev := b\<rparr> in
      if b = None then (False, t)
      else
        let t = called (Bev_new sock) t;
            t = (if m_readTimeoutMs t > 0
                 then called (Bev_set_timeouts (m_readTimeoutMs t div 1000) (m_readTimeoutMs t mod 1000 * 1000)) t
                 else t);
            t = (if m_timerMs t > 0 then setTimer le (m_timerMs t) t else t)
        in (True, t))"

definition connect ::
    "'b libevent \<Rightarrow> ('b, 'a) CComeTask_scheme \<Rightarrow> (bool \<times> ('b, 'a) CComeTask_scheme) checked" where
  "connect le t = bind_ub (c_str (m_serverIp t)) (\<lambda>ip.
     let t = t\<lparr>m_isConnected := False, m_isConnecting := False\<rparr>;
         t = (if m_bev t = None then snd (initBev le (- 1) t) else t) in
     Inr (case m_bev t of None \<Rightarrow> (False, t)
      | Some b \<Rightarrow>
          let (res, b') = bufferevent_socket_connect le b ip (m_serverPort t);
              t = called (Bev_connect ip (m_serverPort t)) (t\<lparr>m_bev := Some b'\<rparr>) in
          if res \<noteq> 0 then (False, t) else (True, t\<lparr>m_isConnecting := True\<rparr>)))"

definition CComeTask_init ::
    "'b libevent \<Rightarrow> ('b, 'a) CComeTask_scheme \<Rightarrow> (bool \<times> ('b, 'a) CComeTask_scheme) checked" where
  "CComeTask_init le t =
     (let comeSock = (if m_sock t \<le> 0 then - 1 else m_sock t);
          t = snd (initBev le comeSock t) in
      if m_serverIp t ! 0 = NUL then Inr (True, t)
      else connect le (setAutoConnectTimer le 3000 t))"

definition autoConnectTimerCb ::
    "'b libevent \<Rightarrow> ('b, 'a) CComeTask_scheme \<Rightarrow> ('b, 'a) CComeTask_scheme checked" where
  "autoConnectTimerCb le t =
     (if m_isConnected t then Inr t
      else if \<not> m_isConnecting t then bind_ub (connect le t) (\<lambda>(_, t). Inr t)
      else Inr t)"

text \<open>
  \<open>waitforConnected\<close> polls \<open>m_isConnected\<close>, which the thread of the connection sets: \<open>obs i\<close>
  is what the poll number \<open>i\<close> sees. The result comes with the number of 10 ms waits.
\<close>

fun wait_loop :: "(nat \<Rightarrow> bool) \<Rightarrow> nat \<Rightarrow> nat \<Rightarrow> bool \<times> nat" where
  "wait_loop obs i 0 = (obs i, i)"
| "wait_loop obs i (Suc n) = (if obs i then (True, i) else wait_loop obs (Suc i) n)"

definition waitforConnected :: "(nat \<Rightarrow> bool) \<Rightarrow> int \<Rightarrow> (bool \<times> nat) checked" where
  "waitforConnected obs timeoutSec =
     bind_ub (chk_int (timeoutSec * 100)) (\<lambda>milsec. Inr (wait_loop obs 0 (nat milsec)))"

definition autoConnect ::
    "'b libevent \<Rightarrow> (nat \<Rightarrow> bool) \<Rightarrow> int \<Rightarrow> ('b, 'a) CComeTask_scheme \<Rightarrow>
     (bool \<times> ('b, 'a) CComeTask_scheme) checked" where
  "autoConnect le obs timeoutSec t =
     (if m_isConnected t then Inr (True, t)
      else bind_ub (if \<not> m_isConnecting t then connect le t else Inr (True, t)) (\<lambda>(_, t).
        bind_ub (waitforConnected obs timeoutSec) (\<lambda>(r, _). Inr (r, t))))"

section \<open>Closing and events\<close>

definition closeBev :: "('b, 'a) CComeTask_scheme \<Rightarrow> ('b, 'a) CComeTask_scheme checked" where
  "closeBev t =
     (if deleted t then Inl UseAfterFree
      else
        let t = t\<lparr>m_isConnected := False, m_isConnecting := False\<rparr>;
            t = (if m_bev t = None then t else called Bev_free t);
            t = t\<lparr>m_bev := None, m_task_msg := CMsg_clear (m_task_msg t)\<rparr> in
        Inr (if m_autoDelete t then (clearTimers t)\<lparr>deleted := True\<rparr> else t))"

definition BEV_EVENT_EOF :: "16 word" where "BEV_EVENT_EOF = 0x10"
definition BEV_EVENT_ERROR :: "16 word" where "BEV_EVENT_ERROR = 0x20"
definition BEV_EVENT_TIMEOUT :: "16 word" where "BEV_EVENT_TIMEOUT = 0x40"
definition BEV_EVENT_CONNECTED :: "16 word" where "BEV_EVENT_CONNECTED = 0x80"

definition has_event :: "16 word \<Rightarrow> 16 word \<Rightarrow> bool" where
  "has_event what e \<longleftrightarrow> and what e \<noteq> 0"

text \<open>\<open>connected_cb\<close> is the virtual \<open>connetedCb\<close> of the object's class.\<close>

definition eventCb ::
    "(('b, 'a) CComeTask_scheme \<Rightarrow> ('b, 'a) CComeTask_scheme checked) \<Rightarrow> 16 word \<Rightarrow>
     ('b, 'a) CComeTask_scheme \<Rightarrow> ('b, 'a) CComeTask_scheme checked" where
  "eventCb connected_cb what t =
     bind_ub (if has_event what BEV_EVENT_CONNECTED
              then connected_cb (t\<lparr>m_isConnected := True, m_isConnecting := False\<rparr>) else Inr t) (\<lambda>t.
     bind_ub (if has_event what BEV_EVENT_ERROR then closeBev t else Inr t) (\<lambda>t.
     bind_ub (if has_event what BEV_EVENT_TIMEOUT then closeBev t else Inr t) (\<lambda>t.
     if has_event what BEV_EVENT_EOF then closeBev t else Inr t)))"

section \<open>What a state of the connection keeps\<close>

text \<open>Never connected and connecting at once, and connected only with a bufferevent.\<close>

definition conn_ok :: "('b, 'a) CComeTask_scheme \<Rightarrow> bool" where
  "conn_ok t \<longleftrightarrow> \<not> (m_isConnected t \<and> m_isConnecting t) \<and> (m_isConnected t \<longrightarrow> m_bev t \<noteq> None)"

lemma called_sel [simp]:
  "m_bev (called c t) = m_bev t" "m_isConnected (called c t) = m_isConnected t"
  "m_isConnecting (called c t) = m_isConnecting t" "m_autoDelete (called c t) = m_autoDelete t"
  "m_serverIp (called c t) = m_serverIp t" "m_serverPort (called c t) = m_serverPort t"
  "m_base (called c t) = m_base t" "deleted (called c t) = deleted t"
  "m_timerEvent (called c t) = m_timerEvent t" "m_timerMs (called c t) = m_timerMs t"
  "m_autoConnectTimerEvent (called c t) = m_autoConnectTimerEvent t"
  "calls (called c t) = calls t @ [c]"
  by (simp_all add: called_def)

lemma setTimer_sel [simp]:
  "m_bev (setTimer le ms t) = m_bev t" "m_isConnected (setTimer le ms t) = m_isConnected t"
  "m_isConnecting (setTimer le ms t) = m_isConnecting t"
  "m_autoDelete (setTimer le ms t) = m_autoDelete t"
  "m_serverIp (setTimer le ms t) = m_serverIp t" "m_serverPort (setTimer le ms t) = m_serverPort t"
  "m_base (setTimer le ms t) = m_base t" "m_timerMs (setTimer le ms t) = m_timerMs t"
  "m_autoConnectTimerEvent (setTimer le ms t) = m_autoConnectTimerEvent t"
  "deleted (setTimer le ms t) = deleted t"
  by (simp_all add: setTimer_def split: option.split)

lemma setAutoConnectTimer_sel [simp]:
  "m_bev (setAutoConnectTimer le ms t) = m_bev t"
  "m_isConnected (setAutoConnectTimer le ms t) = m_isConnected t"
  "m_isConnecting (setAutoConnectTimer le ms t) = m_isConnecting t"
  "m_serverIp (setAutoConnectTimer le ms t) = m_serverIp t"
  "deleted (setAutoConnectTimer le ms t) = deleted t"
  by (simp_all add: setAutoConnectTimer_def Let_def split: option.split)

lemma clearTimers_sel [simp]:
  "m_bev (clearTimers t) = m_bev t" "m_isConnected (clearTimers t) = m_isConnected t"
  "m_isConnecting (clearTimers t) = m_isConnecting t" "m_autoDelete (clearTimers t) = m_autoDelete t"
  "deleted (clearTimers t) = deleted t"
  "m_timerEvent (clearTimers t) = None" "m_autoConnectTimerEvent (clearTimers t) = None"
  by (simp_all add: clearTimers_def Let_def split: option.split)

lemma initBev_sel [simp]:
  "m_isConnected (snd (initBev le s t)) = m_isConnected t"
  "m_isConnecting (snd (initBev le s t)) = m_isConnecting t"
  "m_autoDelete (snd (initBev le s t)) = m_autoDelete t"
  "m_serverIp (snd (initBev le s t)) = m_serverIp t"
  "m_serverPort (snd (initBev le s t)) = m_serverPort t"
  "m_base (snd (initBev le s t)) = m_base t" "m_timerMs (snd (initBev le s t)) = m_timerMs t"
  "m_autoConnectTimerEvent (snd (initBev le s t)) = m_autoConnectTimerEvent t"
  "deleted (snd (initBev le s t)) = deleted t"
  "fst (initBev le s t) \<longleftrightarrow> m_bev (snd (initBev le s t)) \<noteq> None"
  by (simp_all add: initBev_def Let_def)

lemma connect_flags:
  assumes "connect le t = Inr (ok, t')"
  shows "m_isConnected t' = False" "m_isConnecting t' = ok" "ok \<Longrightarrow> m_bev t' \<noteq> None"
    "deleted t' = deleted t" "m_autoDelete t' = m_autoDelete t"
  using assms
  by (auto simp: connect_def bind_ub_Inr_iff Let_def case_prod_beta split: option.splits if_splits)

lemma closeBev_flags:
  assumes "closeBev t = Inr t'"
  shows "\<not> m_isConnected t'" "\<not> m_isConnecting t'" "m_bev t' = None"
    "deleted t' \<longleftrightarrow> m_autoDelete t" "m_autoDelete t' = m_autoDelete t" "\<not> deleted t"
  using assms by (auto simp: closeBev_def Let_def split: if_splits)

text \<open>
  The steps of a connection: what its event loop and its timers call on a live object.
  Events come only from a bufferevent, \<open>init\<close> runs before there is one.
\<close>

inductive task_step ::
    "'b libevent \<Rightarrow> ('b, 'a) CComeTask_scheme \<Rightarrow> ('b, 'a) CComeTask_scheme \<Rightarrow> bool"
  for le :: "'b libevent" where
  step_init: "\<not> deleted t \<Longrightarrow> m_bev t = None \<Longrightarrow> \<not> m_isConnected t \<Longrightarrow>
     CComeTask_init le t = Inr (ok, t') \<Longrightarrow> task_step le t t'"
| step_connect: "\<not> deleted t \<Longrightarrow> connect le t = Inr (ok, t') \<Longrightarrow> task_step le t t'"
| step_timer: "\<not> deleted t \<Longrightarrow> autoConnectTimerCb le t = Inr t' \<Longrightarrow> task_step le t t'"
| step_event: "\<not> deleted t \<Longrightarrow> m_bev t \<noteq> None \<Longrightarrow> eventCb Inr what t = Inr t' \<Longrightarrow> task_step le t t'"
| step_close: "closeBev t = Inr t' \<Longrightarrow> task_step le t t'"
| step_read: "\<not> deleted t \<Longrightarrow> readMsg le n t = (bytes, t') \<Longrightarrow> task_step le t t'"
| step_write: "\<not> deleted t \<Longrightarrow> writeMsg le d n t = (ok, t') \<Longrightarrow> task_step le t t'"

inductive task_reachable ::
    "'b libevent \<Rightarrow> ('b, 'a) CComeTask_scheme \<Rightarrow> ('b, 'a) CComeTask_scheme \<Rightarrow> bool"
  for le :: "'b libevent" and t0 :: "('b, 'a) CComeTask_scheme" where
  reach_start: "task_reachable le t0 t0"
| reach_step: "task_reachable le t0 t \<Longrightarrow> task_step le t t' \<Longrightarrow> task_reachable le t0 t'"

lemma conn_ok_connect: "connect le t = Inr (ok, t') \<Longrightarrow> conn_ok t'"
  using connect_flags [of le t ok t'] by (simp add: conn_ok_def)

lemma conn_ok_closeBev: "closeBev t = Inr t' \<Longrightarrow> conn_ok t'"
  using closeBev_flags [of t t'] by (simp add: conn_ok_def)

lemma conn_ok_eventCb:
  assumes "eventCb Inr what t = Inr t'" "conn_ok t" "m_bev t \<noteq> None"
  shows "conn_ok t'"
proof -
  let ?t = "if has_event what BEV_EVENT_CONNECTED then t\<lparr>m_isConnected := True, m_isConnecting := False\<rparr> else t"
  have "conn_ok ?t" using assms by (simp add: conn_ok_def)
  with assms(1) show ?thesis
    by (auto simp: eventCb_def bind_ub_Inr_iff split: if_splits intro: conn_ok_closeBev)
qed

lemma conn_ok_step:
  assumes "task_step le t t'" "conn_ok t"
  shows "conn_ok t'"
  using assms
proof (cases rule: task_step.cases)
  case (step_init ok)
  then show ?thesis
    by (auto simp: CComeTask_init_def Let_def conn_ok_def [of "snd _"] split: if_splits
        intro: conn_ok_connect)
next
  case (step_timer)
  then show ?thesis
    using assms(2)
    by (auto simp: autoConnectTimerCb_def bind_ub_Inr_iff split: if_splits intro: conn_ok_connect)
next
  case (step_event what)
  then show ?thesis using assms(2) conn_ok_eventCb by blast
next
  case (step_read n bytes)
  then show ?thesis
    using assms(2) by (auto simp: readMsg_def conn_ok_def split: option.splits prod.splits)
next
  case (step_write d n ok)
  then show ?thesis
    using assms(2) by (auto simp: writeMsg_def conn_ok_def split: option.splits prod.splits if_splits)
qed (auto intro: conn_ok_connect conn_ok_closeBev)

section \<open>Live timers\<close>

text \<open>The events of a kind that were made and not freed, by the calls of the object.\<close>

definition live_step :: "timer_kind \<Rightarrow> nat list \<Rightarrow> lib_call \<Rightarrow> nat list" where
  "live_step k l c = (case c of
      Event_new k' e \<Rightarrow> if k' = k then e # l else l
    | Event_free e \<Rightarrow> removeAll e l
    | _ \<Rightarrow> l)"

definition live :: "timer_kind \<Rightarrow> lib_call list \<Rightarrow> nat list" where
  "live k cs = foldl (live_step k) [] cs"

lemma live_Nil [simp]: "live k [] = []"
  by (simp add: live_def)

lemma live_append [simp]: "live k (cs @ ds) = foldl (live_step k) (live k cs) ds"
  by (simp add: live_def)

lemma live_step_simps [simp]:
  "live_step k l (Event_new k' e) = (if k' = k then e # l else l)"
  "live_step k l (Event_free e) = removeAll e l"
  "live_step k l (Event_add e s u) = l" "live_step k l (Bev_new s) = l"
  "live_step k l Bev_free = l" "live_step k l (Bev_connect ip p) = l"
  "live_step k l (Bev_set_timeouts s u) = l" "live_step k l Bev_trigger_write = l"
  by (simp_all add: live_step_def)

definition auto_tracked :: "('b, 'a) CComeTask_scheme \<Rightarrow> bool" where
  "auto_tracked t \<longleftrightarrow> live AutoConnectTimerCb (calls t) =
     (case m_autoConnectTimerEvent t of None \<Rightarrow> [] | Some e \<Rightarrow> [e])"

lemma auto_tracked_cong:
  "calls t = calls u \<Longrightarrow> m_autoConnectTimerEvent t = m_autoConnectTimerEvent u \<Longrightarrow>
   auto_tracked t \<longleftrightarrow> auto_tracked u"
  by (simp add: auto_tracked_def)

lemma auto_tracked_called [simp]:
  "auto_tracked (called (Bev_new s) t) = auto_tracked t"
  "auto_tracked (called Bev_free t) = auto_tracked t"
  "auto_tracked (called (Bev_connect ip p) t) = auto_tracked t"
  "auto_tracked (called (Bev_set_timeouts x y) t) = auto_tracked t"
  "auto_tracked (called (Event_add e x y) t) = auto_tracked t"
  "auto_tracked (called (Event_new TimerCb e) t) = auto_tracked t"
  by (simp_all add: auto_tracked_def)

lemma auto_tracked_upd [simp]:
  "auto_tracked (t\<lparr>m_timerEvent := x\<rparr>) = auto_tracked t"
  "auto_tracked (t\<lparr>m_bev := b\<rparr>) = auto_tracked t"
  "auto_tracked (t\<lparr>m_isConnected := c\<rparr>) = auto_tracked t"
  "auto_tracked (t\<lparr>m_isConnecting := d\<rparr>) = auto_tracked t"
  "auto_tracked (t\<lparr>m_task_msg := m\<rparr>) = auto_tracked t"
  "auto_tracked (t\<lparr>deleted := f\<rparr>) = auto_tracked t"
  by (simp_all add: auto_tracked_def)

lemma auto_tracked_setTimer [simp]: "auto_tracked (setTimer le ms t) = auto_tracked t"
  by (simp add: setTimer_def split: option.split)

lemma auto_tracked_initBev [simp]: "auto_tracked (snd (initBev le s t)) = auto_tracked t"
  by (simp add: initBev_def Let_def)

lemma auto_tracked_setAutoConnectTimer: "auto_tracked t \<Longrightarrow> auto_tracked (setAutoConnectTimer le ms t)"
  by (auto simp: setAutoConnectTimer_def auto_tracked_def Let_def split: option.split)

lemma auto_tracked_clearTimers: "auto_tracked t \<Longrightarrow> auto_tracked (clearTimers t)"
  by (auto simp: clearTimers_def auto_tracked_def Let_def split: option.split)

lemma auto_tracked_connect: "connect le t = Inr (ok, t') \<Longrightarrow> auto_tracked t' = auto_tracked t"
  by (auto simp: connect_def bind_ub_Inr_iff Let_def case_prod_beta split: option.splits if_splits)

lemma auto_tracked_closeBev: "closeBev t = Inr t' \<Longrightarrow> auto_tracked t \<Longrightarrow> auto_tracked t'"
  by (auto simp: closeBev_def Let_def auto_tracked_clearTimers split: if_splits)

lemma auto_tracked_eventCb:
  assumes "eventCb Inr what t = Inr t'" "auto_tracked t"
  shows "auto_tracked t'"
proof -
  have close: "(if c then closeBev u else Inr u) = Inr u' \<Longrightarrow> auto_tracked u \<Longrightarrow> auto_tracked u'"
    for c and u u' :: "('a, 'b) CComeTask_scheme"
    by (auto intro: auto_tracked_closeBev split: if_splits)
  from assms(1) obtain u v w where
    "(if has_event what BEV_EVENT_CONNECTED
      then Inr (t\<lparr>m_isConnected := True, m_isConnecting := False\<rparr>) else Inr t) =
     (Inr u :: ub + ('a, 'b) CComeTask_scheme)"
    and steps: "(if has_event what BEV_EVENT_ERROR then closeBev u else Inr u) = Inr v"
    "(if has_event what BEV_EVENT_TIMEOUT then closeBev v else Inr v) = Inr w"
    "(if has_event what BEV_EVENT_EOF then closeBev w else Inr w) = Inr t'"
    unfolding eventCb_def bind_ub_Inr_iff by (elim exE conjE) (rule that)
  then have "auto_tracked u" using assms(2) by (auto split: if_splits)
  with steps show ?thesis by (blast dest: close)
qed

lemma auto_tracked_step:
  assumes "task_step le t t'" "auto_tracked t"
  shows "auto_tracked t'"
  using assms
proof (cases rule: task_step.cases)
  case (step_init ok)
  then show ?thesis
    using assms(2) by (auto simp: CComeTask_init_def Let_def auto_tracked_setAutoConnectTimer
        dest: auto_tracked_connect split: if_splits)
next
  case (step_timer)
  then show ?thesis
    using assms(2) by (auto simp: autoConnectTimerCb_def bind_ub_Inr_iff
        dest: auto_tracked_connect split: if_splits)
next
  case (step_event what)
  then show ?thesis using assms(2) auto_tracked_eventCb by blast
next
  case (step_read n bytes)
  then show ?thesis
    using assms(2) by (auto simp: readMsg_def case_prod_beta split: option.splits)
next
  case (step_write d n ok)
  then show ?thesis
    using assms(2) by (auto simp: writeMsg_def case_prod_beta split: option.splits if_splits)
qed (use assms(2) in \<open>auto dest: auto_tracked_connect intro: auto_tracked_closeBev\<close>)

lemma task_reachable_invariant:
  assumes "task_reachable le t0 t" "P t0"
    and "\<And>t t'. task_step le t t' \<Longrightarrow> P t \<Longrightarrow> P t'"
  shows "P t"
  using assms(1,2) by (induction rule: task_reachable.induct) (auto intro: assms(3))

section \<open>Reading and writing through the bufferevent\<close>

text \<open>
  What \<open>event2/bufferevent.h\<close> documents: a read moves bytes from the front of the input
  buffer, at most as many as asked for; a write that succeeds (0) puts its data at the end of
  the output buffer.
\<close>

definition contents :: "('b \<Rightarrow> string) \<Rightarrow> 'b option \<Rightarrow> string" where
  "contents buf b = (case b of None \<Rightarrow> [] | Some b \<Rightarrow> buf b)"

definition pending :: "('b \<Rightarrow> string) \<Rightarrow> ('b, 'a) CComeTask_scheme \<Rightarrow> string" where
  "pending inb t = contents inb (m_bev t)"

definition sent :: "('b \<Rightarrow> string) \<Rightarrow> ('b, 'a) CComeTask_scheme \<Rightarrow> string" where
  "sent outb t = contents outb (m_bev t)"

locale bufferevent =
  fixes le :: "'b libevent" and inb outb :: "'b \<Rightarrow> string"
  assumes read_front: "bufferevent_read le b (int n) = (bytes, b') \<Longrightarrow>
      bytes = take n (inb b) \<and> inb b' = drop n (inb b) \<and> outb b' = outb b"
    and write_back: "bufferevent_write le b d = (0, b') \<Longrightarrow> outb b' = outb b @ d \<and> inb b' = inb b"
begin

lemma readMsg_pending:
  assumes "readMsg le (int n) t = (bytes, t')"
  shows "bytes = take n (pending inb t)" "pending inb t' = drop n (pending inb t)" "sent outb t' = sent outb t"
    "\<exists>b. t' = t\<lparr>m_bev := b\<rparr> \<and> (b = None \<longleftrightarrow> m_bev t = None)"
proof -
  show "bytes = take n (pending inb t)" "pending inb t' = drop n (pending inb t)" "sent outb t' = sent outb t"
    using assms read_front
    by (auto simp: readMsg_def pending_def sent_def contents_def split: option.splits prod.splits)
  show "\<exists>b. t' = t\<lparr>m_bev := b\<rparr> \<and> (b = None \<longleftrightarrow> m_bev t = None)"
  proof (cases "m_bev t")
    case None
    then show ?thesis using assms by (intro exI [of _ None]) (simp add: readMsg_def)
  next
    case (Some b)
    then show ?thesis
      using assms by (intro exI [of _ "Some (snd (bufferevent_read le b (int n)))"])
        (auto simp: readMsg_def case_prod_beta)
  qed
qed

lemma writeMsg_sent:
  assumes "writeMsg le (Some d) (int (length d)) t = (True, t')"
  shows "sent outb t' = sent outb t @ d" "pending inb t' = pending inb t" "d \<noteq> []" "m_bev t' \<noteq> None"
    "\<exists>b. t' = t\<lparr>m_bev := Some b\<rparr>"
  using assms write_back
  by (auto simp: writeMsg_def sent_def pending_def contents_def split: option.splits prod.splits if_splits)

end

text \<open>A bufferevent that is just its two buffers.\<close>

record buffers =
  inbuf :: string
  outbuf :: string

definition ref_libevent :: "buffers libevent" where
  "ref_libevent = \<lparr>
     bufferevent_socket_new = (\<lambda>_ _ _. Some \<lparr>inbuf = [], outbuf = []\<rparr>),
     bufferevent_openssl_socket_new = (\<lambda>_ _ _ _. Some \<lparr>inbuf = [], outbuf = []\<rparr>),
     bufferevent_socket_connect = (\<lambda>b _ _. (0, b)),
     bufferevent_read = (\<lambda>b n. (take (nat n) (inbuf b), b\<lparr>inbuf := drop (nat n) (inbuf b)\<rparr>)),
     bufferevent_write = (\<lambda>b d. (0, b\<lparr>outbuf := outbuf b @ d\<rparr>)),
     event_new = (\<lambda>cs. Some (length cs))\<rparr>"

interpretation bufs: bufferevent ref_libevent inbuf outbuf
  by unfold_locales (auto simp: ref_libevent_def)

section \<open>Properties\<close>

lemma has_event_single [simp]:
  "has_event BEV_EVENT_EOF BEV_EVENT_EOF" "\<not> has_event BEV_EVENT_EOF BEV_EVENT_CONNECTED"
  "\<not> has_event BEV_EVENT_EOF BEV_EVENT_ERROR" "\<not> has_event BEV_EVENT_EOF BEV_EVENT_TIMEOUT"
  by (simp_all add: has_event_def BEV_EVENT_EOF_def BEV_EVENT_CONNECTED_def BEV_EVENT_ERROR_def
      BEV_EVENT_TIMEOUT_def)

text \<open>
  C40. The connection flags. Whatever \<open>init\<close>, \<open>connect\<close>, the reconnect timer, the events of
  the bufferevent, closing, reading and writing do to a task that starts out not connected, it
  is never connected and connecting at once, and a connected task has its bufferevent.
\<close>

theorem task_flags_consistent:
  assumes "task_reachable le t0 t" "\<not> m_isConnected t0"
  shows "\<not> (m_isConnected t \<and> m_isConnecting t) \<and> (m_isConnected t \<longrightarrow> m_bev t \<noteq> None)"
proof -
  have "conn_ok t0" using assms(2) by (simp add: conn_ok_def)
  with assms(1) have "conn_ok t" by (rule task_reachable_invariant) (rule conn_ok_step)
  then show ?thesis by (simp add: conn_ok_def)
qed

definition sample_task :: "buffers CComeTask" where
  "sample_task = setServerIp ''127.0.0.1'' (CComeTask_new\<lparr>m_base := Some 0, m_serverPort := 20018,
     m_timerMs := 3000, m_autoDelete := False\<rparr>)"

lemma sample_task_sel [simp]:
  "c_str (m_serverIp sample_task) = Inr ''127.0.0.1''" "m_serverIp sample_task ! 0 = CHR ''1''"
  "m_base sample_task = Some 0" "m_serverPort sample_task = 20018" "m_timerMs sample_task = 3000"
  "\<not> m_autoDelete sample_task" "\<not> deleted sample_task" "m_bev sample_task = None"
  "\<not> m_isConnected sample_task" "calls sample_task = []" "\<not> m_sslCtx sample_task"
  "m_autoConnectTimerEvent sample_task = None" "m_sock sample_task = 0"
  "m_readTimeoutMs sample_task = 0"
  by (simp_all add: sample_task_def setServerIp_def CComeTask_new_def c_str_strncpy NUL_def)
     (simp add: strncpy_def NUL_def)

theorem task_flags_consistent_witness:
  "\<exists>t. task_reachable ref_libevent sample_task t \<and> m_isConnecting t \<and> \<not> m_isConnected t"
proof -
  let ?t = "snd (projr (connect ref_libevent sample_task))"
  have c: "connect ref_libevent sample_task = Inr (True, ?t)" "m_isConnecting ?t"
    by (simp_all add: connect_def initBev_def setTimer_def ref_libevent_def called_def)
  have r: "task_reachable ref_libevent sample_task ?t"
    by (rule reach_step [OF reach_start step_connect [OF _ c(1)]]) simp
  from task_flags_consistent [OF r] c(2) r show ?thesis by auto
qed

text \<open>
  The reconnect timer is not leaked. The auto-connect events a task has made and not freed
  are exactly the one its member \<open>autoConnectTimerEvent_\<close> points to, at every moment.
\<close>

theorem auto_timer_not_leaked:
  assumes "task_reachable le t0 t" "calls t0 = []" "m_autoConnectTimerEvent t0 = None"
  shows "live AutoConnectTimerCb (calls t) =
    (case m_autoConnectTimerEvent t of None \<Rightarrow> [] | Some e \<Rightarrow> [e])"
proof -
  have "auto_tracked t0" using assms(2,3) by (simp add: auto_tracked_def)
  with assms(1) have "auto_tracked t" by (rule task_reachable_invariant) (rule auto_tracked_step)
  then show ?thesis by (simp add: auto_tracked_def)
qed

theorem auto_timer_not_leaked_witness:
  "\<exists>t e. task_reachable ref_libevent sample_task t \<and> live AutoConnectTimerCb (calls t) = [e]"
proof -
  let ?t = "snd (projr (CComeTask_init ref_libevent sample_task))"
  have c: "CComeTask_init ref_libevent sample_task = Inr (True, ?t)"
    "m_autoConnectTimerEvent ?t = Some 3"
    by (simp_all add: CComeTask_init_def connect_def initBev_def setTimer_def
        setAutoConnectTimer_def ref_libevent_def called_def NUL_def)
  have r: "task_reachable ref_libevent sample_task ?t"
    by (rule reach_step [OF reach_start step_init [OF _ _ _ c(1)]]) simp_all
  from auto_timer_not_leaked [OF r] c(2) r show ?thesis by auto
qed

text \<open>One outage: the peer closes the connection and the reconnect timer fires.\<close>

fun outages ::
    "'b libevent \<Rightarrow> nat \<Rightarrow> ('b, 'a) CComeTask_scheme \<Rightarrow> ('b, 'a) CComeTask_scheme checked" where
  "outages le 0 t = Inr t"
| "outages le (Suc n) t =
     bind_ub (eventCb Inr BEV_EVENT_EOF t) (\<lambda>t. bind_ub (autoConnectTimerCb le t) (outages le n))"

definition keeps_connecting :: "string \<Rightarrow> ('b, 'a) CComeTask_scheme \<Rightarrow> bool" where
  "keeps_connecting ip t \<longleftrightarrow> \<not> deleted t \<and> \<not> m_autoDelete t \<and> m_base t \<noteq> None \<and> 0 < m_timerMs t \<and>
     c_str (m_serverIp t) = Inr ip"

lemma live_initBev:
  assumes "m_base t \<noteq> None" "0 < m_timerMs t" "m_bev (snd (initBev le s t)) \<noteq> None"
    and "\<And>cs. event_new le cs \<noteq> None"
  shows "length (live TimerCb (calls (snd (initBev le s t)))) = Suc (length (live TimerCb (calls t)))"
proof -
  define ev where "ev cs = the (event_new le cs)" for cs
  have ev: "event_new le cs = Some (ev cs)" for cs
    using assms(4) [of cs] by (simp add: ev_def option.the_def split: option.split)
  show ?thesis
    using assms(1-3) by (auto simp: initBev_def Let_def setTimer_def called_def ev split: if_splits)
qed

lemma initBev_succeeds:
  assumes "\<And>cs b s. bufferevent_socket_new le cs b s \<noteq> None"
    and "\<And>cs b s c. bufferevent_openssl_socket_new le cs b s c \<noteq> None"
  shows "m_bev (snd (initBev le s t)) \<noteq> None"
  using assms by (simp add: initBev_def Let_def)

lemma outage_step:
  assumes t: "keeps_connecting ip t"
    and bev: "\<And>cs b s. bufferevent_socket_new le cs b s \<noteq> None"
      "\<And>cs b s c. bufferevent_openssl_socket_new le cs b s c \<noteq> None"
    and ev: "\<And>cs. event_new le cs \<noteq> None"
  shows "\<exists>u v. eventCb Inr BEV_EVENT_EOF t = Inr u \<and> autoConnectTimerCb le u = Inr v \<and>
    keeps_connecting ip v \<and> length (live TimerCb (calls v)) = Suc (length (live TimerCb (calls t)))"
proof -
  define u where "u = (if m_bev t = None then t else called Bev_free t)
      \<lparr>m_isConnected := False, m_isConnecting := False, m_bev := None,
       m_task_msg := CMsg_clear (m_task_msg t)\<rparr>"
  have u: "eventCb Inr BEV_EVENT_EOF t = Inr u" "m_bev u = None" "keeps_connecting ip u"
    "live TimerCb (calls u) = live TimerCb (calls t)"
    "\<not> m_isConnected u" "\<not> m_isConnecting u"
    using t by (auto simp: u_def eventCb_def closeBev_def keeps_connecting_def Let_def called_def)
  define w where "w = snd (initBev le (- 1) (u\<lparr>m_isConnected := False, m_isConnecting := False\<rparr>))"
  have w: "m_bev w \<noteq> None" unfolding w_def by (rule initBev_succeeds [OF bev])
  then have len: "length (live TimerCb (calls w)) = Suc (length (live TimerCb (calls u)))"
    using u(3) live_initBev [of "u\<lparr>m_isConnected := False, m_isConnecting := False\<rparr>" le "- 1", OF _ _ _ ev]
    by (simp add: w_def keeps_connecting_def)
  have kc: "keeps_connecting ip w" using u(3) by (simp add: w_def keeps_connecting_def)
  obtain b where b: "m_bev w = Some b" using w by blast
  obtain r b' where c: "bufferevent_socket_connect le b ip (m_serverPort w) = (r, b')" by force
  obtain v where v: "connect le u = Inr (r = 0, v)"
    "v = called (Bev_connect ip (m_serverPort w)) (w\<lparr>m_bev := Some b'\<rparr>)
       \<lparr>m_isConnecting := (if r = 0 then True else m_isConnecting w)\<rparr>"
    using u(2,3) b c
    by (auto simp: connect_def keeps_connecting_def w_def [symmetric] Let_def called_def)
  have "autoConnectTimerCb le u = Inr v"
    using u(5,6) v(1) by (simp add: autoConnectTimerCb_def)
  moreover have "keeps_connecting ip v \<and>
      length (live TimerCb (calls v)) = Suc (length (live TimerCb (calls t)))"
    using kc len u(4) by (simp add: v(2) keeps_connecting_def)
  ultimately show ?thesis using u(1) by blast
qed

text \<open>
  Every outage leaks a timer. A task that reconnects by itself and has a timer set keeps
  its old timer event when \<open>initBev\<close> makes the next one: after \<open>n\<close> outages there are \<open>n\<close>
  more live events calling its \<open>timerCb\<close>, and only the last can still be freed.
\<close>

theorem reconnect_leaks_timers:
  assumes "keeps_connecting ip t"
    and "\<And>cs b s. bufferevent_socket_new le cs b s \<noteq> None"
    and "\<And>cs b s c. bufferevent_openssl_socket_new le cs b s c \<noteq> None"
    and "\<And>cs. event_new le cs \<noteq> None"
  shows "\<exists>t'. outages le n t = Inr t' \<and>
    length (live TimerCb (calls t')) = length (live TimerCb (calls t)) + n"
  using assms(1)
proof (induction n arbitrary: t)
  case (Suc n)
  from outage_step [OF Suc.prems assms(2-4)] obtain u v where
    "eventCb Inr BEV_EVENT_EOF t = Inr u" "autoConnectTimerCb le u = Inr v" "keeps_connecting ip v"
    "length (live TimerCb (calls v)) = Suc (length (live TimerCb (calls t)))" by blast
  with Suc.IH [of v] show ?case by auto
qed simp

theorem reconnect_leaks_timers_witness:
  "\<exists>t'. outages ref_libevent 5 sample_task = Inr t' \<and> length (live TimerCb (calls t')) = 5"
proof -
  have "keeps_connecting ''127.0.0.1'' sample_task"
    by (simp add: keeps_connecting_def)
  from reconnect_leaks_timers [OF this, of ref_libevent 5] show ?thesis
    by (simp add: ref_libevent_def)
qed

text \<open>
  When the event callback runs on a deleted object. For a live task that deletes itself on
  close, \<open>eventCb\<close> calls a member of the deleted object exactly when the event carries more
  than one of the flags error, timeout and end of file: each of them closes, and the first
  close deletes.
\<close>

theorem eventCb_use_after_free:
  assumes "\<not> deleted t"
  shows "eventCb Inr what t = Inl UseAfterFree \<longleftrightarrow>
    m_autoDelete t \<and> 2 \<le> length (filter (has_event what)
      [BEV_EVENT_ERROR, BEV_EVENT_TIMEOUT, BEV_EVENT_EOF])"
  using assms by (auto simp: eventCb_def closeBev_def Let_def)

theorem eventCb_use_after_free_witness:
  "eventCb Inr 0x30 (CComeTask_new :: buffers CComeTask) = Inl UseAfterFree"
  using eventCb_use_after_free [of "CComeTask_new :: buffers CComeTask" "0x30"]
  by (simp add: CComeTask_new_def has_event_def BEV_EVENT_ERROR_def BEV_EVENT_TIMEOUT_def
      BEV_EVENT_EOF_def)

lemma strncpy_sel [simp]: "m_serverIp (setServerIp ip t) = strncpy 16 ip"
  by (simp add: setServerIp_def)

text \<open>
  Which addresses can be connected to. After \<open>setServerIp\<close>, \<open>connect\<close> runs past the
  16-byte member exactly for an address of 16 bytes or more, which \<open>strncpy\<close> leaves without a
  terminator; for every shorter one it is defined, and starts connecting when it succeeds.
\<close>

theorem connect_server_ip:
  assumes "NUL \<notin> set ip"
  shows "if 16 \<le> length ip then connect le (setServerIp ip t) = Inl OutOfBounds
    else \<exists>ok t'. connect le (setServerIp ip t) = Inr (ok, t') \<and>
      m_isConnecting t' = ok \<and> \<not> m_isConnected t' \<and> (ok \<longrightarrow> m_bev t' \<noteq> None)"
proof (cases "16 \<le> length ip")
  case True
  with assms show ?thesis by (simp add: connect_def c_str_strncpy_long)
next
  case False
  then have "\<exists>ok t'. connect le (setServerIp ip t) = Inr (ok, t')"
    using assms by (simp add: connect_def c_str_strncpy Let_def)
  with False connect_flags [of le "setServerIp ip t"] show ?thesis by auto
qed

theorem connect_server_ip_witness:
  "connect ref_libevent (setServerIp ''255.255.255.2551'' sample_task) = Inl OutOfBounds"
  using connect_server_ip [of "''255.255.255.2551''" ref_libevent sample_task] by (simp add: NUL_def)

lemma wait_loop_result:
  "wait_loop obs i n = (r, k) \<Longrightarrow> (r \<longleftrightarrow> (\<exists>j. i \<le> j \<and> j \<le> i + n \<and> obs j)) \<and> k \<le> i + n"
proof (induction obs i n rule: wait_loop.induct)
  case (2 obs i n)
  show ?case
  proof (cases "obs i")
    case False
    then have "i \<le> j \<and> j \<le> i + Suc n \<and> obs j \<longleftrightarrow> Suc i \<le> j \<and> j \<le> Suc i + n \<and> obs j" for j
      by (cases "i = j") auto
    with 2 False show ?thesis by simp
  qed (use 2 in auto)
qed auto

text \<open>
  Waiting for a connection ends. With a timeout whose number of polls fits an \<open>int\<close>,
  \<open>waitforConnected\<close> says whether one of its polls saw the connection, and it never waits
  longer than \<open>timeoutSec\<close> seconds of 10 ms waits.
\<close>

theorem waitforConnected_bounded:
  assumes "0 \<le> timeoutSec" "timeoutSec * 100 < 2 ^ 31"
  shows "\<exists>r k. waitforConnected obs timeoutSec = Inr (r, k) \<and>
    (r \<longleftrightarrow> (\<exists>j \<le> nat (timeoutSec * 100). obs j)) \<and> int k \<le> timeoutSec * 100"
proof -
  obtain r k where w: "wait_loop obs 0 (nat (timeoutSec * 100)) = (r, k)" by force
  have "int_fits (timeoutSec * 100)" using assms by (simp add: int_fits_def)
  then have "waitforConnected obs timeoutSec = Inr (r, k)"
    by (simp add: waitforConnected_def chk_int_def w)
  with wait_loop_result [OF w] assms(1) show ?thesis by auto
qed

theorem waitforConnected_bounded_witness:
  "\<exists>r k. waitforConnected (\<lambda>i. i = 7) 1 = Inr (r, k) \<and> r \<and> k \<le> 100"
  using waitforConnected_bounded [of 1 "\<lambda>i. i = 7"] by auto

end
