(* ===== verification/ThreadPool.thy ===== *)
theory ThreadPool
  imports ComeTask
begin

text \<open>
  Threads and the thread pool, \<open>cplatform/cthread.cpp\<close> and \<open>cplatform/cthreadpool.cpp\<close>. A
  thread is its task list with the pipe that wakes it: \<open>th_pipe\<close> counts the bytes written to
  the pipe and not yet read. Objects of class \<open>CTask\<close> are referenced by number, threads by
  their position in the static vector \<open>allThreads\<close>. A dispatch runs under
  no lock but its own steps, so the interleavings with the thread are a step relation.
\<close>

section \<open>CThread\<close>

record CThread =
  th_id :: int
  th_isExit :: bool
  th_notifySendFd :: int
  th_base :: "nat option"
  th_tasks :: "nat list"
  th_pipe :: nat

definition CThread_new :: CThread where
  "CThread_new = \<lparr>th_id = 0, th_isExit = False, th_notifySendFd = 0, th_base = None,
     th_tasks = [], th_pipe = 0\<rparr>"

text \<open>\<open>pipe\<close> and \<open>event_base_new_with_config\<close> may fail; their results are arguments.\<close>

definition CThread_setup :: "(int \<times> int) option \<Rightarrow> nat option \<Rightarrow> CThread \<Rightarrow> bool \<times> CThread" where
  "CThread_setup fds base t =
     (case fds of None \<Rightarrow> (False, t)
      | Some (_, send_fd) \<Rightarrow>
          let t = t\<lparr>th_notifySendFd := send_fd, th_base := base\<rparr> in
          if base = None then (False, t) else (True, t\<lparr>th_pipe := 0\<rparr>))"

definition CThread_exit :: "CThread \<Rightarrow> CThread" where
  "CThread_exit t = t\<lparr>th_isExit := True\<rparr>"

text \<open>\<open>addTask\<close> gives, beside the thread, the event base it hands to the task's \<open>setBase\<close>.\<close>

definition addTask :: "nat \<Rightarrow> CThread \<Rightarrow> nat option \<times> CThread" where
  "addTask task t = (th_base t, t\<lparr>th_tasks := th_tasks t @ [task]\<rparr>)"

definition activate :: "bool \<Rightarrow> CThread \<Rightarrow> CThread" where
  "activate written t = (if written then t\<lparr>th_pipe := Suc (th_pipe t)\<rparr> else t)"

text \<open>\<open>notify\<close> gives the task whose \<open>init\<close> it calls, if any.\<close>

definition notify :: "CThread \<Rightarrow> nat option \<times> CThread" where
  "notify t =
     (if th_pipe t = 0 then (None, t)
      else
        let t = t\<lparr>th_pipe := th_pipe t - 1\<rparr> in
        case th_tasks t of
          [] \<Rightarrow> (None, t)
        | task # tasks \<Rightarrow> (Some task, t\<lparr>th_tasks := tasks\<rparr>))"

section \<open>CCThreadPool\<close>

record world =
  w_isAllExit :: bool
  w_allThreads :: "CThread list"

record CCThreadPool =
  tp_threadNums :: int
  tp_lastThread :: int
  tp_threads :: "nat list"

definition CCThreadPool_new :: CCThreadPool where
  "CCThreadPool_new = \<lparr>tp_threadNums = 0, tp_lastThread = - 1, tp_threads = []\<rparr>"

text \<open>\<open>os i\<close> holds the results of the system calls that set up the thread number \<open>i\<close>.\<close>

fun start_threads ::
    "(int \<Rightarrow> (int \<times> int) option \<times> nat option) \<Rightarrow> nat \<Rightarrow> int \<Rightarrow> world \<Rightarrow> CCThreadPool \<Rightarrow>
     world \<times> CCThreadPool" where
  "start_threads os 0 i w pool = (w, pool)"
| "start_threads os (Suc k) i w pool =
     (let thread = snd (CThread_setup (fst (os i)) (snd (os i)) (CThread_new\<lparr>th_id := i + 1\<rparr>)) in
      start_threads os k (i + 1)
        (w\<lparr>w_allThreads := w_allThreads w @ [thread]\<rparr>)
        (pool\<lparr>tp_threads := tp_threads pool @ [length (w_allThreads w)]\<rparr>))"

definition pool_init ::
    "(int \<Rightarrow> (int \<times> int) option \<times> nat option) \<Rightarrow> int \<Rightarrow> world \<Rightarrow> CCThreadPool \<Rightarrow>
     world \<times> CCThreadPool" where
  "pool_init os threadNums w pool =
     start_threads os (nat threadNums) 0 w (pool\<lparr>tp_threadNums := threadNums, tp_lastThread := - 1\<rparr>)"

text \<open>
  \<open>dispatch\<close>, with the result of the \<open>write\<close> to the pipe; first its choice of the thread. The
  result holds the event base the task is given.
\<close>

definition next_thread :: "CCThreadPool \<Rightarrow> (int \<times> CCThreadPool) checked" where
  "next_thread pool =
     bind_ub (c_mod (tp_lastThread pool + 1) (tp_threadNums pool)) (\<lambda>tid.
     Inr (tid, pool\<lparr>tp_lastThread := tid\<rparr>))"

definition dispatch ::
    "bool \<Rightarrow> nat option \<Rightarrow> world \<Rightarrow> CCThreadPool \<Rightarrow>
     (nat option \<times> world \<times> CCThreadPool) checked" where
  "dispatch written task w pool =
     (case task of None \<Rightarrow> Inr (None, w, pool)
      | Some task \<Rightarrow>
          bind_ub (next_thread pool) (\<lambda>(tid, pool).
          bind_ub (vec_at (tp_threads pool) tid) (\<lambda>r.
          bind_ub (vec_at (w_allThreads w) (int r)) (\<lambda>t.
          let (base, t) = addTask task t in
          Inr (base, w\<lparr>w_allThreads := (w_allThreads w)[r := activate written t]\<rparr>, pool)))))"

definition exitAllThread :: "world \<Rightarrow> world" where
  "exitAllThread w = w\<lparr>w_isAllExit := True, w_allThreads := map CThread_exit (w_allThreads w)\<rparr>"

text \<open>
  \<open>CThreadPoolFactory::create\<close>, over its static mutex and flag. \<open>None\<close> is a call that waits
  for the mutex for ever; \<open>sigpipe_ok\<close> says whether \<open>signal(SIGPIPE, SIG_IGN)\<close> works.
\<close>

record factory =
  f_locked :: bool
  f_isInit :: bool

definition pool_create :: "bool \<Rightarrow> factory \<Rightarrow> (CCThreadPool option \<times> factory) option" where
  "pool_create sigpipe_ok f =
     (if f_locked f then None
      else if \<not> f_isInit f \<and> \<not> sigpipe_ok then Some (None, f\<lparr>f_locked := True\<rparr>)
      else Some (Some CCThreadPool_new, f\<lparr>f_isInit := True, f_locked := False\<rparr>))"

section \<open>Round robin\<close>

text \<open>
  The cyclic choice that the thread pool makes here, and the message router elsewhere: the next
  index is one more than the previous, modulo the number of candidates. A client sees that
  \<open>pick\<close> gives an index, remembers it and keeps the number of candidates.
\<close>

lemma mod_next: "((a :: int) mod n + 1 + b) mod n = (a + 1 + b) mod n"
  by (simp only: add.assoc mod_add_left_eq)

fun picks :: "('s \<Rightarrow> (int \<times> 's) checked) \<Rightarrow> nat \<Rightarrow> 's \<Rightarrow> int list checked" where
  "picks pick 0 s = Inr []"
| "picks pick (Suc k) s =
     bind_ub (pick s) (\<lambda>(i, s). bind_ub (picks pick k s) (\<lambda>is. Inr (i # is)))"

locale round_robin =
  fixes pick :: "'s \<Rightarrow> (int \<times> 's) checked"
    and prev count :: "'s \<Rightarrow> int"
    and ok :: "'s \<Rightarrow> bool"
  assumes count_pos: "ok s \<Longrightarrow> 0 < count s"
    and pick_next: "ok s \<Longrightarrow> \<exists>s'. pick s = Inr ((prev s + 1) mod count s, s') \<and>
      prev s' = (prev s + 1) mod count s \<and> count s' = count s \<and> ok s'"
begin

lemma picks_eq:
  "ok s \<Longrightarrow> picks pick k s = Inr (map (\<lambda>j. (prev s + 1 + int j) mod count s) [0..<k])"
proof (induction k arbitrary: s)
  case (Suc k)
  obtain s' where s': "pick s = Inr ((prev s + 1) mod count s, s')"
    "prev s' = (prev s + 1) mod count s" "count s' = count s" "ok s'"
    using pick_next [OF Suc.prems] by blast
  have "(prev s' + 1 + int j) mod count s' = (prev s + 1 + int (Suc j)) mod count s" for j
    unfolding s' mod_next by (simp add: algebra_simps)
  then show ?case
    using s' Suc.IH [OF s'(4)]
    by (simp add: upt_conv_Cons map_Suc_upt [symmetric] comp_def del: upt_Suc)
qed simp

text \<open>As many picks in a row as there are candidates choose every candidate exactly once.\<close>

lemma picks_fair:
  assumes "ok s" "picks pick (nat (count s)) s = Inr is"
  shows "distinct is" "set is = {0..<count s}"
proof -
  have inj: "inj_on (\<lambda>j. (prev s + 1 + int j) mod count s) {0..<nat (count s)}"
  proof (rule inj_onI)
    fix a b assume "a \<in> {0..<nat (count s)}" "b \<in> {0..<nat (count s)}"
      and eq: "(prev s + 1 + int a) mod count s = (prev s + 1 + int b) mod count s"
    then have ab: "int a < count s" "int b < count s" by auto
    from eq have "int a mod count s = int b mod count s"
      by (metis add_diff_cancel_left' mod_diff_left_eq)
    with ab show "a = b" by simp
  qed
  have p: "is = map (\<lambda>j. (prev s + 1 + int j) mod count s) [0..<nat (count s)]"
    using picks_eq [OF assms(1)] assms(2) by simp
  from inj show d: "distinct is" by (simp add: p distinct_map)
  have "set is \<subseteq> {0..<count s}" using count_pos [OF assms(1)] by (auto simp: p)
  moreover have "card (set is) = card {0..<count s}"
    using distinct_card [OF d] by (simp add: p)
  ultimately show "set is = {0..<count s}" by (simp add: card_subset_eq)
qed

end

interpretation pool_rr: round_robin next_thread tp_lastThread tp_threadNums
  "\<lambda>pool. 0 < tp_threadNums pool \<and> - 1 \<le> tp_lastThread pool"
  by unfold_locales
     (auto simp: next_thread_def c_mod_nonneg intro: order_trans [OF _ pos_mod_sign])

section \<open>Dispatching on a pool that is running\<close>

definition pool_ok :: "nat \<Rightarrow> world \<Rightarrow> CCThreadPool \<Rightarrow> bool" where
  "pool_ok n w pool \<longleftrightarrow> 0 < n \<and> tp_threadNums pool = int n \<and> length (tp_threads pool) = n \<and>
     distinct (tp_threads pool) \<and> (\<forall>r \<in> set (tp_threads pool). r < length (w_allThreads w)) \<and>
     - 1 \<le> tp_lastThread pool"

lemma dispatch_ok:
  assumes "pool_ok n w pool"
  defines "j \<equiv> nat ((tp_lastThread pool + 1) mod int n)"
  defines "r \<equiv> tp_threads pool ! j"
  shows "dispatch b (Some task) w pool = Inr
    (th_base (w_allThreads w ! r),
     w\<lparr>w_allThreads := (w_allThreads w)[r := activate b (snd (addTask task (w_allThreads w ! r)))]\<rparr>,
     pool\<lparr>tp_lastThread := int j\<rparr>)"
    and "j < n" "r < length (w_allThreads w)"
proof -
  have n: "0 < n" using assms(1) by (simp add: pool_ok_def)
  then have j: "j < n" "int j = (tp_lastThread pool + 1) mod int n"
    by (simp_all add: j_def nat_less_iff)
  then show "j < n" by simp
  have r: "r < length (w_allThreads w)"
    using assms(1) j(1) unfolding r_def by (simp add: pool_ok_def)
  then show "r < length (w_allThreads w)" .
  have "next_thread pool = Inr (int j, pool\<lparr>tp_lastThread := int j\<rparr>)"
    using assms(1) n j(2) by (simp add: pool_ok_def next_thread_def c_mod_nonneg)
  moreover have "vec_at (tp_threads pool) (int j) = Inr r"
    using assms(1) j(1) by (simp add: pool_ok_def r_def)
  ultimately show "dispatch b (Some task) w pool = Inr
    (th_base (w_allThreads w ! r),
     w\<lparr>w_allThreads := (w_allThreads w)[r := activate b (snd (addTask task (w_allThreads w ! r)))]\<rparr>,
     pool\<lparr>tp_lastThread := int j\<rparr>)"
    using r by (simp add: dispatch_def addTask_def)
qed

lemma pool_ok_dispatch:
  assumes "pool_ok n w pool" "dispatch b task w pool = Inr (base, w', pool')"
  shows "pool_ok n w' pool'"
proof (cases task)
  case None
  with assms show ?thesis by (simp add: dispatch_def)
next
  case (Some k)
  define j where "j = nat ((tp_lastThread pool + 1) mod int n)"
  note d = dispatch_ok(1) [OF assms(1), of b k, folded j_def]
  have "- 1 \<le> int j" by simp
  with assms d Some show ?thesis by (auto simp: pool_ok_def)
qed

fun dispatch_all ::
    "nat list \<Rightarrow> world \<Rightarrow> CCThreadPool \<Rightarrow> (world \<times> CCThreadPool) checked" where
  "dispatch_all [] w pool = Inr (w, pool)"
| "dispatch_all (t # ts) w pool =
     bind_ub (dispatch True (Some t) w pool) (\<lambda>(_, w, pool). dispatch_all ts w pool)"

text \<open>The tasks that fall to the index \<open>j\<close> when the first goes to \<open>start\<close>.\<close>

definition share :: "int \<Rightarrow> nat \<Rightarrow> nat \<Rightarrow> 'x list \<Rightarrow> 'x list" where
  "share start n j ts = map ((!) ts) (filter (\<lambda>i. (start + int i) mod int n = int j) [0..<length ts])"

lemma share_Nil [simp]: "share start n j [] = []"
  by (simp add: share_def)

lemma share_Cons:
  "share start n j (t # ts) =
    (if start mod int n = int j then [t] else []) @ share (start mod int n + 1) n j ts"
proof -
  have "[0..<length (t # ts)] = 0 # map Suc [0..<length ts]"
    by (simp add: upt_conv_Cons map_Suc_upt del: upt_Suc)
  moreover have "(start + int (Suc i)) mod int n = (start mod int n + 1 + int i) mod int n" for i
    unfolding mod_next by (simp add: algebra_simps)
  ultimately show ?thesis
    by (simp add: share_def filter_map comp_def)
qed

lemma dispatch_all_ok:
  assumes "pool_ok n w pool"
  shows "\<exists>w' pool'. dispatch_all ts w pool = Inr (w', pool') \<and> pool_ok n w' pool' \<and>
    (\<forall>j < n. th_tasks (w_allThreads w' ! (tp_threads pool ! j)) =
       th_tasks (w_allThreads w ! (tp_threads pool ! j)) @ share (tp_lastThread pool + 1) n j ts)"
  using assms
proof (induction ts arbitrary: w pool)
  case (Cons t ts)
  let ?j = "nat ((tp_lastThread pool + 1) mod int n)"
  let ?r = "tp_threads pool ! ?j"
  let ?w = "w\<lparr>w_allThreads := (w_allThreads w)[?r := activate True (snd (addTask t (w_allThreads w ! ?r)))]\<rparr>"
  let ?pool = "pool\<lparr>tp_lastThread := int ?j\<rparr>"
  note d = dispatch_ok(1) [OF Cons.prems, of True t] dispatch_ok(2,3) [OF Cons.prems]
  have n: "0 < n" "int ?j = (tp_lastThread pool + 1) mod int n"
    using Cons.prems by (simp_all add: pool_ok_def)
  obtain w' pool' where IH: "dispatch_all ts ?w ?pool = Inr (w', pool')" "pool_ok n w' pool'"
    "\<And>j. j < n \<Longrightarrow> th_tasks (w_allThreads w' ! (tp_threads pool ! j)) =
       th_tasks (w_allThreads ?w ! (tp_threads pool ! j)) @ share (int ?j + 1) n j ts"
    using Cons.IH [OF pool_ok_dispatch [OF Cons.prems d(1)]] by auto
  have "th_tasks (w_allThreads w' ! (tp_threads pool ! j)) =
       th_tasks (w_allThreads w ! (tp_threads pool ! j)) @ share (tp_lastThread pool + 1) n j (t # ts)"
    if j: "j < n" for j
  proof (cases "j = ?j")
    case True
    then show ?thesis
      using IH(3) [OF j] d(3) n by (simp add: share_Cons addTask_def activate_def)
  next
    case False
    then have "tp_threads pool ! j \<noteq> ?r"
      using Cons.prems j d(2) by (simp add: pool_ok_def nth_eq_iff_index_eq)
    moreover have "(tp_lastThread pool + 1) mod int n \<noteq> int j" using False n by simp
    ultimately show ?thesis
      using IH(3) [OF j] n by (simp add: share_Cons)
  qed
  with IH(1,2) d(1) show ?case by auto
qed simp

definition new_threads :: "(int \<Rightarrow> (int \<times> int) option \<times> nat option) \<Rightarrow> nat \<Rightarrow> int \<Rightarrow> CThread list" where
  "new_threads os k i = map (\<lambda>j. snd (CThread_setup (fst (os (i + int j))) (snd (os (i + int j)))
     (CThread_new\<lparr>th_id := i + int j + 1\<rparr>))) [0..<k]"

lemma start_threads_ok:
  "start_threads os k i w pool =
    (w\<lparr>w_allThreads := w_allThreads w @ new_threads os k i\<rparr>,
     pool\<lparr>tp_threads := tp_threads pool @ [length (w_allThreads w)..<length (w_allThreads w) + k]\<rparr>)"
proof (induction k arbitrary: i w pool)
  case (Suc k)
  have "new_threads os (Suc k) i = snd (CThread_setup (fst (os i)) (snd (os i))
      (CThread_new\<lparr>th_id := i + 1\<rparr>)) # new_threads os k (i + 1)"
    by (simp add: new_threads_def upt_conv_Cons map_Suc_upt [symmetric] comp_def algebra_simps del: upt_Suc)
  moreover have "[n..<n + Suc k] = n # [Suc n..<Suc n + k]" for n
    by (simp add: upt_conv_Cons del: upt_Suc)
  ultimately show ?case
    by (simp only: start_threads.simps Suc.IH Let_def) (simp del: upt_Suc)
qed (simp add: new_threads_def)

lemma pool_init_ok:
  assumes "0 < k" "pool_init os (int k) w CCThreadPool_new = (w', pool)"
  shows "pool_ok k w' pool" "tp_threads pool = [length (w_allThreads w)..<length (w_allThreads w) + k]"
    "tp_lastThread pool = - 1"
    "\<And>j. j < k \<Longrightarrow> th_tasks (w_allThreads w' ! (tp_threads pool ! j)) = []"
proof -
  have s: "w_allThreads w' = w_allThreads w @ new_threads os k 0" "tp_threadNums pool = int k"
    and t: "tp_threads pool = [length (w_allThreads w)..<length (w_allThreads w) + k]"
      "tp_lastThread pool = - 1"
    using assms(2) by (auto simp: pool_init_def start_threads_ok CCThreadPool_new_def)
  then show "tp_threads pool = [length (w_allThreads w)..<length (w_allThreads w) + k]"
    "tp_lastThread pool = - 1" by simp_all
  show "pool_ok k w' pool"
    using s t assms(1) by (simp add: pool_ok_def new_threads_def)
  show "th_tasks (w_allThreads w' ! (tp_threads pool ! j)) = []" if "j < k" for j
    using that unfolding t(1) s(1)
    by (simp add: nth_append new_threads_def CThread_setup_def CThread_new_def Let_def
        split: option.split prod.split)
qed

section \<open>A thread and its dispatchers\<close>

text \<open>
  The interleavings of one thread with any number of dispatching threads. A dispatcher first
  adds its task and then wakes the thread; between the two it owes a wake-up. The state is the
  thread, the number of owed wake-ups, the tasks added and the tasks initialised so far.
\<close>

type_synonym thread_state = "CThread \<times> nat \<times> nat list \<times> nat list"

inductive thread_step :: "thread_state \<Rightarrow> thread_state \<Rightarrow> bool" where
  ts_add: "addTask task t = (base, t') \<Longrightarrow>
     thread_step (t, owed, added, fin) (t', Suc owed, added @ [task], fin)"
| ts_wake: "thread_step (t, Suc owed, added, fin) (activate True t, owed, added, fin)"
| ts_run: "notify t = (Some task, t') \<Longrightarrow>
     thread_step (t, owed, added, fin) (t', owed, added, fin @ [task])"
| ts_idle: "notify t = (None, t') \<Longrightarrow> thread_step (t, owed, added, fin) (t', owed, added, fin)"

inductive thread_reachable :: "thread_state \<Rightarrow> bool" where
  tr_start: "th_tasks t = [] \<Longrightarrow> thread_reachable (t, 0, [], [])"
| tr_step: "thread_reachable s \<Longrightarrow> thread_step s s' \<Longrightarrow> thread_reachable s'"

fun thread_inv :: "thread_state \<Rightarrow> bool" where
  "thread_inv (t, owed, added, fin) \<longleftrightarrow>
     added = fin @ th_tasks t \<and> length (th_tasks t) \<le> th_pipe t + owed"

lemma thread_inv_step: "thread_step s s' \<Longrightarrow> thread_inv s \<Longrightarrow> thread_inv s'"
  by (induction rule: thread_step.induct)
     (auto simp: addTask_def activate_def notify_def Let_def split: if_splits list.splits)

lemma thread_reachable_inv: "thread_reachable s \<Longrightarrow> thread_inv s"
  by (induction rule: thread_reachable.induct) (auto intro: thread_inv_step)

fun run_notify :: "nat \<Rightarrow> CThread \<Rightarrow> nat list \<times> CThread" where
  "run_notify 0 t = ([], t)"
| "run_notify (Suc k) t =
     (let (task, t) = notify t; (tasks, t) = run_notify k t in
      (case task of None \<Rightarrow> tasks | Some x \<Rightarrow> x # tasks, t))"

lemma run_notify_all:
  "length (th_tasks t) \<le> th_pipe t \<Longrightarrow> fst (run_notify (length (th_tasks t)) t) = th_tasks t"
proof (induction "th_tasks t" arbitrary: t)
  case (Cons x xs)
  let ?t = "t\<lparr>th_pipe := th_pipe t - 1, th_tasks := xs\<rparr>"
  have "notify t = (Some x, ?t)"
    using Cons.hyps(2) [symmetric] Cons.prems by (auto simp: notify_def Let_def)
  moreover have "fst (run_notify (length xs) ?t) = xs"
    using Cons.hyps(1) [of ?t] Cons.hyps(2) [symmetric] Cons.prems by simp
  ultimately show ?case
    using Cons.hyps(2) [symmetric] by (simp add: case_prod_beta Let_def)
qed simp

section \<open>Properties\<close>

text \<open>
  C34. Tasks are dealt out in turn. On a pool just started with \<open>k > 0\<close> threads, the task
  number \<open>i\<close> is queued on thread \<open>i mod k\<close>: every thread ends up with exactly its share, in
  the order of dispatch, and no dispatch fails.
\<close>

theorem dispatch_round_robin:
  assumes "0 < k" "pool_init os (int k) w CCThreadPool_new = (w0, pool)"
  shows "\<exists>w' pool'. dispatch_all ts w0 pool = Inr (w', pool') \<and>
    (\<forall>j < k. th_tasks (w_allThreads w' ! (tp_threads pool ! j)) =
       map ((!) ts) (filter (\<lambda>i. i mod k = j) [0..<length ts]))"
proof -
  note p = pool_init_ok [OF assms]
  have "int i mod int k = int j \<longleftrightarrow> i mod k = j" for i j
    by (metis of_nat_eq_iff of_nat_mod)
  with dispatch_all_ok [OF p(1), of ts] p(3,4) show ?thesis by (auto simp: share_def)
qed

text \<open>
  The choice of the thread is fair. On a pool with threads, any \<open>threadNums_\<close> choices in a
  row take every thread exactly once, whatever was dispatched before.
\<close>

theorem next_thread_fair:
  assumes "0 < tp_threadNums pool" "- 1 \<le> tp_lastThread pool"
    and "picks next_thread (nat (tp_threadNums pool)) pool = Inr is"
  shows "distinct is \<and> set is = {0..<tp_threadNums pool}"
  using pool_rr.picks_fair [of pool "is"] assms by simp

theorem next_thread_fair_witness:
  "distinct [2, 0, 1 :: int] \<and>
   picks next_thread 3 \<lparr>tp_threadNums = 3, tp_lastThread = 1, tp_threads = [0, 1, 2]\<rparr> = Inr [2, 0, 1]"
proof -
  have p: "picks next_thread 3 \<lparr>tp_threadNums = 3, tp_lastThread = 1, tp_threads = [0, 1, 2]\<rparr> = Inr [2, 0, 1]"
    by (simp add: eval_nat_numeral next_thread_def c_mod_def)
  show ?thesis
    using next_thread_fair [of "\<lparr>tp_threadNums = 3, tp_lastThread = 1, tp_threads = [0, 1, 2]\<rparr>" "[2, 0, 1]"] p
    by simp
qed

definition empty_world :: world where
  "empty_world = \<lparr>w_isAllExit = False, w_allThreads = []\<rparr>"

theorem dispatch_round_robin_witness:
  "\<exists>w' pool'. dispatch_all [10, 11, 12] (fst (pool_init (\<lambda>i. (Some (3, 4), Some 0)) 2 empty_world CCThreadPool_new))
       (snd (pool_init (\<lambda>i. (Some (3, 4), Some 0)) 2 empty_world CCThreadPool_new)) = Inr (w', pool') \<and>
     th_tasks (w_allThreads w' ! 0) = [10, 12] \<and> th_tasks (w_allThreads w' ! 1) = [11]"
proof -
  let ?i = "pool_init (\<lambda>i. (Some (3, 4), Some 0)) (int 2) empty_world CCThreadPool_new"
  have i: "?i = (fst ?i, snd ?i)" "tp_threads (snd ?i) = [0, 1]"
    by (simp_all add: pool_init_def start_threads_ok CCThreadPool_new_def empty_world_def upt_rec)
  show ?thesis
    using dispatch_round_robin [OF _ i(1), of "[10, 11, 12]"] i(2)
    by (auto simp: upt_rec less_2_cases_iff all_conj_distrib)
qed

text \<open>
  A pool that was never started. Dispatching a task to a pool of zero threads divides by
  zero: \<open>dispatch\<close> has no guard for \<open>init\<close> not having been called (or called with 0).
\<close>

theorem dispatch_before_init:
  "dispatch b (Some task) w CCThreadPool_new = Inl DivByZero"
  by (simp add: dispatch_def next_thread_def CCThreadPool_new_def c_mod_def)

text \<open>
  C35. No task is lost and none overtakes another. In every interleaving of dispatchers with the
  thread, the tasks initialised so far are a prefix of the tasks added, the rest is in the queue
  in order, and once no dispatcher is between its two steps, as many bytes as tasks are in the
  pipe: running \<open>notify\<close> that often initialises every queued task in order.
\<close>

theorem thread_loses_no_task:
  assumes "thread_reachable (t, 0, added, fin)"
  shows "added = fin @ fst (run_notify (length (th_tasks t)) t) \<and> length (th_tasks t) \<le> th_pipe t"
  using thread_reachable_inv [OF assms] by (simp add: run_notify_all)

theorem thread_loses_no_task_witness:
  "\<exists>t. thread_reachable (t, 0, [7], []) \<and> fst (run_notify (length (th_tasks t)) t) = [7]"
proof -
  have "thread_reachable (snd (addTask 7 CThread_new), Suc 0, [] @ [7], [])"
    by (rule tr_step [OF tr_start [of CThread_new] ts_add]) (auto simp: CThread_new_def addTask_def)
  then have r: "thread_reachable (activate True (snd (addTask 7 CThread_new)), 0, [7], [])"
    by (rule tr_step) (simp add: ts_wake)
  from thread_loses_no_task [OF r] r show ?thesis by auto
qed

text \<open>
  A failed \<open>create\<close> blocks every later one. When \<open>signal\<close> fails, \<open>create\<close> returns null
  without unlocking its static mutex, and the next call waits for ever.
\<close>

theorem create_failure_deadlocks:
  assumes "pool_create False f = Some (r, f')" "\<not> f_isInit f"
  shows "r = None \<and> pool_create sigpipe_ok f' = None"
  using assms by (auto simp: pool_create_def split: if_splits)

theorem create_failure_deadlocks_witness:
  "pool_create True \<lparr>f_locked = True, f_isInit = False\<rparr> = None"
  using create_failure_deadlocks [of "\<lparr>f_locked = False, f_isInit = False\<rparr>" None
      "\<lparr>f_locked = True, f_isInit = False\<rparr>" True]
  by (simp add: pool_create_def)

end
