(* ===== verification/Wire.thy ===== *)
theory Wire
  imports Prelude
begin

text \<open>
  The wire format of the messages: the writers, size computations and readers the generated
  code calls, from \<open>include/google/protobuf/io/coded_stream.h\<close>, \<open>wire_format_lite.h\<close> and
  \<open>stubs/port.h\<close>. A writer \<open>uint8* f(.., uint8* target)\<close> is modelled by the bytes it puts
  at \<open>target\<close>. A reader takes the bytes left in the \<open>CodedInputStream\<close> and gives the value
  with the bytes still left, or \<^term>\<open>None\<close> where it returns false.

  The headers hold only the hot paths of the readers; the out-of-line parts of the protobuf
  library are the fields of the record \<open>pb_rt\<close>, a parameter of every parser. The locale
  \<open>coded_input\<close> states what the headers document about them, and is interpreted at the end
  on readers written after that documentation.
\<close>

unbundle bit_operations_syntax

section \<open>Writing\<close>

definition byte_of :: "'a::len word \<Rightarrow> char" where
  "byte_of w = char_of (unat w)"

lemma ge_0x80_iff:
  "(v :: 64 word) \<ge> 0x80 \<longleftrightarrow> 128 \<le> unat v"
  "(w :: 32 word) \<ge> 0x80 \<longleftrightarrow> 128 \<le> unat w"
  by (simp_all add: word_le_nat_alt)

lemma unat_drop_bit_7: "unat (drop_bit 7 (v :: 'a::len word)) = unat v div 128"
proof -
  have "unat (drop_bit 7 v) = drop_bit 7 (unat v)" by (rule unat_drop_bit_eq)
  then show ?thesis by (simp add: drop_bit_eq_div [of 7 "unat v"])
qed

function WriteVarint64ToArray :: "uint64 \<Rightarrow> string" where
  "WriteVarint64ToArray v =
     (if v \<ge> 0x80 then byte_of (v OR 0x80) # WriteVarint64ToArray (drop_bit 7 v)
      else [byte_of v])"
  by pat_completeness auto
termination
  by (relation "measure unat") (auto simp only: in_measure unat_drop_bit_7 ge_0x80_iff)

function WriteVarint32ToArray :: "uint32 \<Rightarrow> string" where
  "WriteVarint32ToArray v =
     (if v \<ge> 0x80 then byte_of (v OR 0x80) # WriteVarint32ToArray (drop_bit 7 v)
      else [byte_of v])"
  by pat_completeness auto
termination
  by (relation "measure unat") (auto simp only: in_measure unat_drop_bit_7 ge_0x80_iff)

declare WriteVarint64ToArray.simps [simp del] WriteVarint32ToArray.simps [simp del]

definition WriteVarint32SignExtendedToArray :: "int32 \<Rightarrow> string" where
  "WriteVarint32SignExtendedToArray v = WriteVarint64ToArray (scast v)"

definition WIRETYPE_VARINT :: uint32 where "WIRETYPE_VARINT = 0"
definition WIRETYPE_LENGTH_DELIMITED :: uint32 where "WIRETYPE_LENGTH_DELIMITED = 2"

definition MakeTag :: "uint32 \<Rightarrow> uint32 \<Rightarrow> uint32" where
  "MakeTag field_number type = push_bit 3 field_number OR type"

definition GetTagFieldNumber :: "uint32 \<Rightarrow> uint32" where
  "GetTagFieldNumber tag = drop_bit 3 tag"

definition WriteTagToArray :: "uint32 \<Rightarrow> uint32 \<Rightarrow> string" where
  "WriteTagToArray field_number type = WriteVarint32ToArray (MakeTag field_number type)"

definition WriteInt32ToArray :: "uint32 \<Rightarrow> int32 \<Rightarrow> string" where
  "WriteInt32ToArray field_number value =
     WriteTagToArray field_number WIRETYPE_VARINT @ WriteVarint32SignExtendedToArray value"

definition WriteEnumToArray :: "uint32 \<Rightarrow> int32 \<Rightarrow> string" where
  "WriteEnumToArray field_number value =
     WriteTagToArray field_number WIRETYPE_VARINT @ WriteVarint32SignExtendedToArray value"

definition WriteInt64ToArray :: "uint32 \<Rightarrow> int64 \<Rightarrow> string" where
  "WriteInt64ToArray field_number value =
     WriteTagToArray field_number WIRETYPE_VARINT @ WriteVarint64ToArray value"

definition WriteMessageToArray :: "uint32 \<Rightarrow> nat \<Rightarrow> string \<Rightarrow> string" where
  "WriteMessageToArray field_number cached_size body =
     WriteTagToArray field_number WIRETYPE_LENGTH_DELIMITED @
     WriteVarint32ToArray (of_nat cached_size) @ body"

definition WriteBoolToArray :: "uint32 \<Rightarrow> bool \<Rightarrow> string" where
  "WriteBoolToArray field_number value =
     WriteTagToArray field_number WIRETYPE_VARINT @ [byte_of (if value then 1 else 0 :: uint32)]"

definition WriteStringWithSizeToArray :: "string \<Rightarrow> string" where
  "WriteStringWithSizeToArray str = WriteVarint32ToArray (of_nat (length str)) @ str"

definition WriteStringToArray :: "uint32 \<Rightarrow> string \<Rightarrow> string" where
  "WriteStringToArray field_number value =
     WriteTagToArray field_number WIRETYPE_LENGTH_DELIMITED @ WriteStringWithSizeToArray value"

section \<open>Sizes\<close>

text \<open>The portable \<open>Log2FloorNonZero\<close>: the shifts 16, 8, 4, 2, 1 of the loop, in its order.\<close>

fun log2_scan :: "nat list \<Rightarrow> uint32 \<Rightarrow> nat \<Rightarrow> nat" where
  "log2_scan [] value log = log"
| "log2_scan (shift # shifts) value log =
     (let x = drop_bit shift value in
      if x \<noteq> 0 then log2_scan shifts x (log + shift) else log2_scan shifts value log)"

definition Log2FloorNonZero :: "uint32 \<Rightarrow> nat" where
  "Log2FloorNonZero n = log2_scan [16, 8, 4, 2, 1] n 0"

definition Log2FloorNonZero64 :: "uint64 \<Rightarrow> nat" where
  "Log2FloorNonZero64 n = (let topbits = ucast (drop_bit 32 n) :: uint32 in
     if topbits = 0 then Log2FloorNonZero (ucast n) else 32 + Log2FloorNonZero topbits)"

definition VarintSize32 :: "uint32 \<Rightarrow> nat" where
  "VarintSize32 value = (Log2FloorNonZero (value OR 1) * 9 + 73) div 64"

definition VarintSize64 :: "uint64 \<Rightarrow> nat" where
  "VarintSize64 value = (Log2FloorNonZero64 (value OR 1) * 9 + 73) div 64"

definition VarintSize32SignExtended :: "int32 \<Rightarrow> nat" where
  "VarintSize32SignExtended value = (if value <s 0 then 10 else VarintSize32 value)"

definition Int32Size :: "int32 \<Rightarrow> nat" where "Int32Size v = VarintSize32SignExtended v"
definition EnumSize :: "int32 \<Rightarrow> nat" where "EnumSize v = VarintSize32SignExtended v"
definition Int64Size :: "int64 \<Rightarrow> nat" where "Int64Size v = VarintSize64 v"

definition LengthDelimitedSize :: "nat \<Rightarrow> nat" where
  "LengthDelimitedSize n = n + VarintSize32 (of_nat n)"

definition StringSize :: "string \<Rightarrow> nat" where
  "StringSize s = LengthDelimitedSize (length s)"

definition MessageSize :: "nat \<Rightarrow> nat" where
  "MessageSize byte_size = LengthDelimitedSize byte_size"

section \<open>Reading\<close>

text \<open>
  The out-of-line functions of the library. \<open>PushLimit\<close> stands for
  \<open>IncrementRecursionDepthAndPushLimit\<close> with the matching pop: it splits the input into the
  bytes under the limit and the bytes after it. \<open>ReadTagFallback\<close> also sets the stream's flag
  \<open>legitimate_message_end_\<close>, given back beside the tag. \<open>SkipField\<close> adds the skipped field to
  the message's unknown fields, which the model keeps as the bytes
  \<open>SerializeUnknownFieldsToArray\<close> writes for them.
\<close>

record pb_rt =
  ReadVarint32Fallback :: "uint32 \<Rightarrow> string \<Rightarrow> int \<times> string"
  ReadVarint64Fallback :: "string \<Rightarrow> (uint64 \<times> bool) \<times> string"
  ReadTagFallback :: "uint32 \<Rightarrow> string \<Rightarrow> (uint32 \<times> bool) \<times> string"
  ReadVarintSizeAsIntFallback :: "string \<Rightarrow> int \<times> string"
  PushLimit :: "int \<Rightarrow> string \<Rightarrow> (string \<times> string) option"
  ReadBytes :: "string \<Rightarrow> (string \<times> string) option"
  VerifyUtf8String :: "string \<Rightarrow> bool"
  SkipField :: "uint32 \<Rightarrow> string \<Rightarrow> string \<Rightarrow> (string \<times> string) option"

definition ReadVarint32 :: "pb_rt \<Rightarrow> string \<Rightarrow> (uint32 \<times> string) option" where
  "ReadVarint32 rt inp =
     (let v = (case inp of [] \<Rightarrow> 0 | c # _ \<Rightarrow> of_char c) in
      if inp \<noteq> [] \<and> v < 0x80 then Some (v, tl inp)
      else let (result, rest) = ReadVarint32Fallback rt v inp in
        if result \<ge> 0 then Some (word_of_int result, rest) else None)"

definition ReadVarint64 :: "pb_rt \<Rightarrow> string \<Rightarrow> (uint64 \<times> string) option" where
  "ReadVarint64 rt inp =
     (if inp \<noteq> [] \<and> (of_char (hd inp) :: uint64) < 0x80 then Some (of_char (hd inp), tl inp)
      else let ((value, ok), rest) = ReadVarint64Fallback rt inp in
        if ok then Some (value, rest) else None)"

definition ReadVarintSizeAsInt :: "pb_rt \<Rightarrow> string \<Rightarrow> (int \<times> string) option" where
  "ReadVarintSizeAsInt rt inp =
     (if inp \<noteq> [] \<and> (of_char (hd inp) :: int) < 0x80 then Some (of_char (hd inp), tl inp)
      else let (value, rest) = ReadVarintSizeAsIntFallback rt inp in
        if value \<ge> 0 then Some (value, rest) else None)"

definition ReadTagWithCutoffNoLastTag ::
    "pb_rt \<Rightarrow> uint32 \<Rightarrow> string \<Rightarrow> (uint32 \<times> bool) \<times> bool \<times> string" where
  "ReadTagWithCutoffNoLastTag rt cutoff inp =
     (let first_byte_or_zero = (case inp of [] \<Rightarrow> 0 | c # _ \<Rightarrow> of_char c) :: uint32;
          slow = (let ((tag, legit), rest) = ReadTagFallback rt first_byte_or_zero inp in
                  ((tag, tag - 1 < cutoff), legit, rest)) in
      if inp \<noteq> [] \<and> 0 < first_byte_or_zero \<and> first_byte_or_zero < 0x80 then
        ((first_byte_or_zero, cutoff \<ge> 0x7F \<or> first_byte_or_zero \<le> cutoff), False, tl inp)
      else if cutoff \<ge> 0x80 \<and> length inp > 1
          \<and> (first_byte_or_zero AND NOT (of_char (inp ! 1))) AND 0x80 \<noteq> 0 then
        (let tag = 0x80 * of_char (inp ! 1) + (first_byte_or_zero - 0x80) in
          ((tag, cutoff \<ge> 0x3FFF \<or> tag \<le> cutoff), False, drop 2 inp))
      else slow)"

text \<open>
  The \<open>switch\<close> arms of the generated parsers. An arm that matches reads its field and stores
  it; it gives \<open>Some None\<close> when the read fails (\<open>goto failure\<close>), and a tag no arm takes
  gives \<open>None\<close> (\<open>goto handle_unusual\<close>).
\<close>

type_synonym 'm field_case = "uint32 \<Rightarrow> string \<Rightarrow> 'm \<Rightarrow> ('m \<times> string) option option"

definition arm :: "uint32 \<Rightarrow> nat \<Rightarrow> ('m \<times> string) option \<Rightarrow> ('m \<times> string) option option" where
  "arm tag expected r = (if of_char (byte_of tag) = expected then Some r else None)"

definition read_int32 :: "pb_rt \<Rightarrow> (int32 \<Rightarrow> 'm \<Rightarrow> 'm) \<Rightarrow> string \<Rightarrow> 'm \<Rightarrow> ('m \<times> string) option" where
  "read_int32 rt set_f inp m =
     (case ReadVarint32 rt inp of None \<Rightarrow> None | Some (v, rest) \<Rightarrow> Some (set_f v m, rest))"

definition read_int64 :: "pb_rt \<Rightarrow> (int64 \<Rightarrow> 'm \<Rightarrow> 'm) \<Rightarrow> string \<Rightarrow> 'm \<Rightarrow> ('m \<times> string) option" where
  "read_int64 rt set_f inp m =
     (case ReadVarint64 rt inp of None \<Rightarrow> None | Some (v, rest) \<Rightarrow> Some (set_f v m, rest))"

definition read_bool :: "pb_rt \<Rightarrow> (bool \<Rightarrow> 'm \<Rightarrow> 'm) \<Rightarrow> string \<Rightarrow> 'm \<Rightarrow> ('m \<times> string) option" where
  "read_bool rt set_f inp m =
     (case ReadVarint64 rt inp of None \<Rightarrow> None | Some (v, rest) \<Rightarrow> Some (set_f (v \<noteq> 0) m, rest))"

definition read_bytes :: "pb_rt \<Rightarrow> (string \<Rightarrow> 'm \<Rightarrow> 'm) \<Rightarrow> string \<Rightarrow> 'm \<Rightarrow> ('m \<times> string) option" where
  "read_bytes rt set_f inp m =
     (case ReadBytes rt inp of None \<Rightarrow> None | Some (v, rest) \<Rightarrow> Some (set_f v m, rest))"

definition read_string :: "pb_rt \<Rightarrow> (string \<Rightarrow> 'm \<Rightarrow> 'm) \<Rightarrow> string \<Rightarrow> 'm \<Rightarrow> ('m \<times> string) option" where
  "read_string rt set_f inp m =
     (case ReadBytes rt inp of None \<Rightarrow> None
      | Some (v, rest) \<Rightarrow> if VerifyUtf8String rt v then Some (set_f v m, rest) else None)"

text \<open>
  The loop every \<open>MergePartialFromCodedStream\<close> has: read a tag, run the arm that takes it,
  or stop at tag 0, or skip the field. It gives the message with the stream's
  \<open>legitimate_message_end_\<close> and the bytes left. The first argument bounds the iterations:
  \<open>merge_partial\<close> starts it above the number of bytes, and every iteration but the last reads
  at least the byte of a tag.
\<close>

fun merge_loop ::
    "nat \<Rightarrow> pb_rt \<Rightarrow> 'm field_case \<Rightarrow> (uint32 \<Rightarrow> string \<Rightarrow> 'm \<Rightarrow> ('m \<times> string) option) \<Rightarrow>
     string \<Rightarrow> 'm \<Rightarrow> ('m \<times> bool \<times> string) option" where
  "merge_loop 0 rt cases skip inp m = None"
| "merge_loop (Suc n) rt cases skip inp m =
     (let ((tag, below), legit, rest) = ReadTagWithCutoffNoLastTag rt 127 inp;
          unusual = (if tag = 0 then Some (m, legit, rest)
                     else case skip tag rest m of None \<Rightarrow> None
                       | Some (m', rest') \<Rightarrow> merge_loop n rt cases skip rest' m') in
      if \<not> below then unusual
      else case cases tag rest m of
          None \<Rightarrow> unusual
        | Some None \<Rightarrow> None
        | Some (Some (m', rest')) \<Rightarrow> merge_loop n rt cases skip rest' m')"

definition skip_field ::
    "pb_rt \<Rightarrow> ('m \<Rightarrow> string) \<Rightarrow> (string \<Rightarrow> 'm \<Rightarrow> 'm) \<Rightarrow> uint32 \<Rightarrow> string \<Rightarrow> 'm \<Rightarrow> ('m \<times> string) option" where
  "skip_field rt unknown set_unknown tag inp m =
     (case SkipField rt tag inp (unknown m) of None \<Rightarrow> None
      | Some (u, rest) \<Rightarrow> Some (set_unknown u m, rest))"

definition merge_partial ::
    "pb_rt \<Rightarrow> 'm field_case \<Rightarrow> (uint32 \<Rightarrow> string \<Rightarrow> 'm \<Rightarrow> ('m \<times> string) option) \<Rightarrow>
     string \<Rightarrow> 'm \<Rightarrow> ('m \<times> bool \<times> string) option" where
  "merge_partial rt cases skip inp m = merge_loop (Suc (length inp)) rt cases skip inp m"

text \<open>
  \<open>ReadMessage\<close>: the size, the limit, the nested message's own parser on the bytes under the
  limit, and the check that it stopped at the limit.
\<close>

definition read_message ::
    "pb_rt \<Rightarrow> (string \<Rightarrow> ('s \<times> bool \<times> string) option) \<Rightarrow> ('s \<Rightarrow> 'm \<Rightarrow> 'm) \<Rightarrow>
     string \<Rightarrow> 'm \<Rightarrow> ('m \<times> string) option" where
  "read_message rt parse_sub set_f inp m =
     (case ReadVarintSizeAsInt rt inp of None \<Rightarrow> None
      | Some (len, rest) \<Rightarrow> (case PushLimit rt len rest of None \<Rightarrow> None
        | Some (sub, after) \<Rightarrow> (case parse_sub sub of
            Some (s, True, _) \<Rightarrow> Some (set_f s m, after)
          | _ \<Rightarrow> None)))"

text \<open>\<open>ParseFromArray\<close> on a cleared message: the whole array has to be consumed.\<close>

definition parse_all :: "('m \<times> bool \<times> string) option \<Rightarrow> 'm option" where
  "parse_all r = (case r of Some (m, True, _) \<Rightarrow> Some m | _ \<Rightarrow> None)"

end
