(* ===== verification/Wire_Facts.thy ===== *)
theory Wire_Facts
  imports Wire
begin

text \<open>
  Facts about the wire format that every message shares: a size computation is the length of
  what the writer writes (the reason one allocation of \<open>ByteSizeLong\<close> bytes is enough), and,
  in the locale \<open>coded_input\<close>, a reader gives back what the writer wrote, field by field and
  through the parse loop. The locale is interpreted on \<open>ref_rt\<close>, readers for the out-of-line
  functions after their documentation.
\<close>

section \<open>The sizes are the lengths\<close>

lemma drop_bit_7_OR_1 [simp]: "drop_bit 7 (v OR 1) = drop_bit 7 (v :: 'a::len word)"
proof (rule bit_word_eqI)
  fix n :: nat
  have "\<not> bit (1 :: 'a word) (7 + n)" by (simp add: bit_1_iff)
  then show "bit (drop_bit 7 (v OR 1)) n \<longleftrightarrow> bit (drop_bit 7 v) n"
    by (simp only: bit_drop_bit_eq bit_or_iff comp_apply simp_thms)
qed

lemma ge_0x80_OR_1:
  "(0x80 :: 64 word) \<le> v OR 1 \<longleftrightarrow> 0x80 \<le> v"
  "(0x80 :: 32 word) \<le> w OR 1 \<longleftrightarrow> 0x80 \<le> w"
proof -
  have *: "128 \<le> unat x \<longleftrightarrow> drop_bit 7 x \<noteq> 0" for x :: "'b::len word"
  proof -
    have "drop_bit 7 x \<noteq> 0 \<longleftrightarrow> unat (drop_bit 7 x) \<noteq> 0"
      by (simp only: unsigned_eq_0_iff)
    then show ?thesis unfolding unat_drop_bit_7 by auto
  qed
  show "(0x80 :: 64 word) \<le> v OR 1 \<longleftrightarrow> 0x80 \<le> v"
    by (simp only: ge_0x80_iff * drop_bit_7_OR_1)
  show "(0x80 :: 32 word) \<le> w OR 1 \<longleftrightarrow> 0x80 \<le> w"
    by (simp only: ge_0x80_iff * drop_bit_7_OR_1)
qed

lemma length_varint_OR_1:
  "length (WriteVarint64ToArray (v OR 1)) = length (WriteVarint64ToArray v)"
  "length (WriteVarint32ToArray (w OR 1)) = length (WriteVarint32ToArray w)"
  by (subst (1 2) WriteVarint64ToArray.simps, simp add: ge_0x80_OR_1)
     (subst (1 2) WriteVarint32ToArray.simps, simp add: ge_0x80_OR_1)

text \<open>A varint takes one byte per seven bits.\<close>

lemma div_128_range:
  assumes "2 ^ L \<le> n" "n < 2 ^ Suc L" "128 \<le> (n :: nat)"
  obtains K where "L = K + 7" "2 ^ K \<le> n div 128" "n div 128 < 2 ^ Suc K"
proof -
  have "7 \<le> L"
  proof (rule ccontr)
    assume "\<not> 7 \<le> L"
    then have "(2 :: nat) ^ Suc L \<le> 2 ^ 7" by (intro power_increasing) simp_all
    with assms show False by simp
  qed
  then obtain K where K: "L = K + 7" by (metis add.commute le_Suc_ex)
  with assms have "2 ^ K * 128 \<le> n" "n < 2 ^ Suc K * 128" by (simp_all add: power_add)
  then have "2 ^ K \<le> n div 128" "n div 128 < 2 ^ Suc K"
    by (simp_all add: less_eq_div_iff_mult_less_eq div_less_iff_less_mult)
  with K that show thesis by blast
qed

lemma length_varint64:
  "2 ^ L \<le> unat v \<Longrightarrow> unat v < 2 ^ Suc L \<Longrightarrow> length (WriteVarint64ToArray v) = L div 7 + 1"
proof (induction v arbitrary: L rule: WriteVarint64ToArray.induct)
  case (1 v)
  show ?case
  proof (cases "0x80 \<le> v")
    case True
    then have "128 \<le> unat v" by (simp add: ge_0x80_iff)
    with "1.prems" obtain K where K: "L = K + 7" "2 ^ K \<le> unat v div 128" "unat v div 128 < 2 ^ Suc K"
      by (rule div_128_range)
    with "1.IH" True have "length (WriteVarint64ToArray (drop_bit 7 v)) = K div 7 + 1"
      by (simp add: unat_drop_bit_7)
    with True K(1) show ?thesis by (subst WriteVarint64ToArray.simps) simp
  next
    case False
    then have "unat v < 2 ^ 7" by (simp add: ge_0x80_iff)
    with "1.prems"(1) have "(2 :: nat) ^ L < 2 ^ 7" by (rule le_less_trans)
    then have "L < 7" by (simp only: power_strict_increasing_iff)
    with False show ?thesis by (subst WriteVarint64ToArray.simps) simp
  qed
qed

text \<open>A 32-bit varint is the 64-bit varint of the value.\<close>

lemma drop_bit_ucast_64: "drop_bit n (ucast (w :: 32 word) :: 64 word) = ucast (drop_bit n w)"
  by (rule bit_word_eqI) (auto simp: bit_drop_bit_eq bit_ucast_iff dest: bit_imp_le_length)

lemma unat_ucast_64 [simp]: "unat (ucast (w :: 32 word) :: 64 word) = unat w"
proof -
  have "unat w < 2 ^ 64" using unsigned_less [of w, where ?'a = nat] by simp
  then show ?thesis by (simp add: unsigned_ucast_eq take_bit_nat_eq_self)
qed

lemma of_char_byte_of [simp]: "(of_char (byte_of w) :: nat) = unat w mod 256"
  by (simp add: byte_of_def)

lemma or_128_mod_256: "(n OR 128 :: nat) mod 256 = n mod 128 + 128"
proof -
  have "n OR 128 = set_bit 7 n"
    by (simp add: set_bit_eq_or push_bit_of_1)
  also have "\<dots> = n + of_bool (even (n div 128)) * 128"
    by (simp add: set_bit_eq bit_iff_odd)
  finally have eq: "n OR 128 = n + of_bool (even (n div 128)) * 128" .
  define r where "r = n mod 128"
  have r: "r < 128" by (simp add: r_def)
  have n: "n = 128 * (n div 128) + r" by (simp add: r_def)
  have m: "(256 * k + s) mod 256 = s" if "s < 256" for k s :: nat
    using that by simp
  have "(n OR 128) mod 256 = r + 128"
  proof (cases "even (n div 128)")
    case True
    then obtain k where "n div 128 = 2 * k" by blast
    with n have "n + 128 = 256 * k + (r + 128)" by linarith
    with eq True m [of "r + 128" k] r show ?thesis by simp
  next
    case False
    then obtain k where "n div 128 = 2 * k + 1" by (auto elim: oddE)
    with n have "n = 256 * k + (r + 128)" by linarith
    with eq False m [of "r + 128" k] r show ?thesis by simp
  qed
  then show ?thesis by (simp only: r_def)
qed

lemma of_char_byte_of_OR [simp]:
  "(of_char (byte_of (v OR 0x80 :: 64 word)) :: nat) = unat v mod 128 + 128"
  "(of_char (byte_of (w OR 0x80 :: 32 word)) :: nat) = unat w mod 128 + 128"
  by (simp_all add: unsigned_or_eq or_128_mod_256)

lemma byte_of_ucast_OR:
  "byte_of (ucast (w :: 32 word) OR 0x80 :: 64 word) = byte_of (w OR 0x80)"
  "byte_of (ucast w :: 64 word) = byte_of w"
proof -
  have "(of_char (byte_of (ucast w OR 0x80 :: 64 word)) :: nat) = of_char (byte_of (w OR 0x80))"
    by (simp only: of_char_byte_of_OR unat_ucast_64)
  then show "byte_of (ucast w OR 0x80 :: 64 word) = byte_of (w OR 0x80)"
    by (simp only: of_char_eq_iff)
  show "byte_of (ucast w :: 64 word) = byte_of w"
    by (simp add: byte_of_def)
qed

lemma WriteVarint64ToArray_ucast: "WriteVarint64ToArray (ucast w) = WriteVarint32ToArray w"
proof (induction w rule: WriteVarint32ToArray.induct)
  case (1 w)
  have "0x80 \<le> (ucast w :: 64 word) \<longleftrightarrow> 0x80 \<le> w"
    by (simp add: ge_0x80_iff)
  with 1 show ?case
    by (subst WriteVarint64ToArray.simps, subst WriteVarint32ToArray.simps)
       (simp add: byte_of_ucast_OR drop_bit_ucast_64)
qed

section \<open>The logarithm and the size functions\<close>

fun scan_ok :: "nat list \<Rightarrow> nat \<Rightarrow> bool" where
  "scan_ok [] c \<longleftrightarrow> c = 1"
| "scan_ok (s # ss) c \<longleftrightarrow> c = 2 * s \<and> scan_ok ss s"

lemma unat_drop_bit: "unat (drop_bit n (v :: 'a::len word)) = unat v div 2 ^ n"
proof -
  have "unat (drop_bit n v) = drop_bit n (unat v)" by (rule unat_drop_bit_eq)
  then show ?thesis by (simp only: drop_bit_eq_div)
qed

lemma log2_scan_range:
  "scan_ok ss c \<Longrightarrow> v \<noteq> 0 \<Longrightarrow> unat v < 2 ^ c \<Longrightarrow>
   \<exists>L. log2_scan ss v log = log + L \<and> 2 ^ L \<le> unat v \<and> unat v < 2 ^ Suc L"
proof (induction ss arbitrary: c v log)
  case Nil
  then have "unat v = 1" by (simp add: unat_eq_0) (metis One_nat_def less_2_cases_iff unat_eq_0)
  then show ?case by (intro exI [of _ 0]) simp
next
  case (Cons s ss)
  then have c: "c = 2 * s" "scan_ok ss s" by auto
  let ?x = "drop_bit s v"
  show ?case
  proof (cases "?x = 0")
    case True
    then have "unat v div 2 ^ s = 0" by (metis unat_0 unat_drop_bit)
    then have "unat v < 2 ^ s" by (simp add: div_eq_0_iff)
    with Cons.IH [OF c(2) Cons.prems(2)] True show ?thesis by (simp add: Let_def)
  next
    case False
    have "unat v < 2 ^ s * 2 ^ s" using Cons.prems(3) c(1) by (simp add: mult_2 power_add)
    then have "unat ?x < 2 ^ s" by (simp add: unat_drop_bit div_less_iff_less_mult)
    with Cons.IH [OF c(2) False] obtain L where L: "log2_scan ss ?x (log + s) = log + s + L"
        "2 ^ L \<le> unat v div 2 ^ s" "unat v div 2 ^ s < 2 ^ Suc L"
      by (auto simp: unat_drop_bit)
    then have "2 ^ L * 2 ^ s \<le> unat v" "unat v < 2 ^ Suc L * 2 ^ s"
      by (simp_all add: less_eq_div_iff_mult_less_eq div_less_iff_less_mult)
    with L(1) False show ?thesis
      by (intro exI [of _ "s + L"]) (simp add: Let_def power_add mult_ac)
  qed
qed

lemma Log2FloorNonZero_range:
  assumes "v \<noteq> 0"
  shows "2 ^ Log2FloorNonZero v \<le> unat v \<and> unat v < 2 ^ Suc (Log2FloorNonZero v)"
proof -
  have "unat v < 2 ^ 32" using unsigned_less [of v, where ?'a = nat] by simp
  with log2_scan_range [of "[16, 8, 4, 2, 1]" 32 v 0] assms show ?thesis
    by (auto simp: Log2FloorNonZero_def)
qed

lemma unat_ucast_32: "unat (ucast (v :: 64 word) :: 32 word) = unat v mod 2 ^ 32"
  by (simp add: unsigned_ucast_eq take_bit_eq_mod)

lemma Log2FloorNonZero64_range:
  assumes "v \<noteq> 0"
  shows "2 ^ Log2FloorNonZero64 v \<le> unat v \<and> unat v < 2 ^ Suc (Log2FloorNonZero64 v)"
proof -
  let ?top = "ucast (drop_bit 32 v) :: 32 word"
  have lt: "unat v < 2 ^ 32 * 2 ^ 32" using unsigned_less [of v, where ?'a = nat] by simp
  then have "unat v div 2 ^ 32 < 2 ^ 32" by (rule less_mult_imp_div_less)
  then have top: "unat ?top = unat v div 2 ^ 32"
    by (simp only: unat_ucast_32 unat_drop_bit mod_less)
  show ?thesis
  proof (cases "?top = 0")
    case True
    then have small: "unat v < 2 ^ 32" using top by (simp add: div_eq_0_iff)
    then have "unat (ucast v :: 32 word) = unat v" by (simp add: unat_ucast_32)
    moreover from this assms have "(ucast v :: 32 word) \<noteq> 0" by (metis unat_0 unat_eq_0)
    ultimately show ?thesis
      using Log2FloorNonZero_range [of "ucast v"] True by (simp add: Log2FloorNonZero64_def)
  next
    case False
    let ?L = "Log2FloorNonZero ?top"
    from Log2FloorNonZero_range [OF False] have "2 ^ ?L \<le> unat v div 2 ^ 32" "unat v div 2 ^ 32 < 2 ^ Suc ?L"
      by (simp_all only: top)
    then have "2 ^ ?L * 2 ^ 32 \<le> unat v" "unat v < 2 ^ Suc ?L * 2 ^ 32"
      by (simp_all only: less_eq_div_iff_mult_less_eq div_less_iff_less_mult zero_less_power zero_less_numeral)
    with False show ?thesis by (simp add: Log2FloorNonZero64_def power_add mult_ac)
  qed
qed

text \<open>The shift-and-add division by 7 of the header is exact below 64.\<close>

lemma div_7_by_64: "L < 64 \<Longrightarrow> (L * 9 + 73) div 64 = L div 7 + (1 :: nat)"
proof -
  assume "L < 64"
  have "list_all (\<lambda>L. (L * 9 + 73) div 64 = L div 7 + (1 :: nat)) [0..<64]" by code_simp
  with \<open>L < 64\<close> show ?thesis by (simp add: list_all_iff)
qed

lemma log_less:
  "2 ^ L \<le> unat (v :: 64 word) \<Longrightarrow> L < 64"
  "2 ^ L \<le> unat (w :: 32 word) \<Longrightarrow> L < 64"
proof -
  assume "2 ^ L \<le> unat v"
  also have "unat v < 2 ^ 64" using unsigned_less [of v, where ?'a = nat] by simp
  finally show "L < 64" by (simp only: power_strict_increasing_iff)
next
  assume "2 ^ L \<le> unat w"
  also have "unat w < 2 ^ 64" using unsigned_less [of w, where ?'a = nat] by simp
  finally show "L < 64" by (simp only: power_strict_increasing_iff)
qed

lemma OR_1_not_0: "(v OR 1 :: 'a::len word) \<noteq> 0"
  by (metis bit_0_eq bit_or_iff bit_1_0 bot_apply bot_bool_def)

lemma VarintSize64_length [size_simps]: "VarintSize64 v = length (WriteVarint64ToArray v)"
proof -
  note r = Log2FloorNonZero64_range [OF OR_1_not_0, of v]
  have "length (WriteVarint64ToArray (v OR 1)) = Log2FloorNonZero64 (v OR 1) div 7 + 1"
    using r by (intro length_varint64) auto
  moreover have "Log2FloorNonZero64 (v OR 1) < 64" using r by (blast intro: log_less)
  ultimately show ?thesis
    by (simp only: VarintSize64_def div_7_by_64 length_varint_OR_1)
qed

lemma VarintSize32_length [size_simps]: "VarintSize32 w = length (WriteVarint32ToArray w)"
proof -
  note r = Log2FloorNonZero_range [OF OR_1_not_0, of w]
  have "length (WriteVarint64ToArray (ucast (w OR 1))) = Log2FloorNonZero (w OR 1) div 7 + 1"
    using r by (intro length_varint64) auto
  then have "length (WriteVarint32ToArray (w OR 1)) = Log2FloorNonZero (w OR 1) div 7 + 1"
    by (simp only: WriteVarint64ToArray_ucast)
  moreover have "Log2FloorNonZero (w OR 1) < 64" using r by (blast intro: log_less)
  ultimately show ?thesis
    by (simp only: VarintSize32_def div_7_by_64 length_varint_OR_1)
qed

lemma uint_mod_sint: "uint (w :: 32 word) = sint w mod 2 ^ 32"
proof -
  have "uint (word_of_int (sint w) :: 32 word) = sint w mod 2 ^ 32"
    unfolding uint_word_of_int by simp
  then show ?thesis by simp
qed

lemma sint_bounds: "- (2 ^ 31) \<le> sint (w :: 32 word)" "sint w < 2 ^ 31"
  using sint_greater_eq [of w] sint_less [of w] by simp_all

lemma sint_nonneg_uint: "0 \<le> sint (w :: 32 word) \<Longrightarrow> sint w = uint w"
  using sint_bounds [of w] by (simp add: uint_mod_sint)

lemma VarintSize32SignExtended_length [size_simps]:
  "VarintSize32SignExtended w = length (WriteVarint32SignExtendedToArray w)"
proof (cases "w <s 0")
  case True
  then have neg: "sint w < 0" by (simp add: word_sless_alt)
  let ?v = "scast w :: 64 word"
  have "uint ?v = sint w mod 2 ^ 64" unfolding scast_eq uint_word_of_int by simp
  also have "sint w mod 2 ^ 64 = (sint w + 2 ^ 64) mod 2 ^ 64" by (simp only: mod_add_self2)
  also have "\<dots> = sint w + 2 ^ 64"
    using neg sint_bounds [of w] by (intro mod_pos_pos_trivial) auto
  finally have "2 ^ 63 \<le> uint ?v" using sint_bounds(1) [of w] by simp
  moreover have "int (unat ?v) = uint ?v" by (rule of_nat_unat)
  ultimately have "(2 :: int) ^ 63 \<le> int (unat ?v)" by (simp only:)
  then have "int (2 ^ 63) \<le> int (unat ?v)" by simp
  then have "2 ^ 63 \<le> unat ?v" by (simp only: of_nat_le_iff)
  moreover have "unat ?v < 2 ^ Suc 63" using unsigned_less [of ?v, where ?'a = nat] by simp
  ultimately have "length (WriteVarint64ToArray ?v) = 63 div 7 + 1" by (rule length_varint64)
  with True show ?thesis
    by (simp add: VarintSize32SignExtended_def WriteVarint32SignExtendedToArray_def)
next
  case False
  then have "sint w = uint w" by (simp add: word_sless_alt sint_nonneg_uint)
  then have "(scast w :: 64 word) = ucast w" by (simp only: scast_eq ucast_eq)
  with False show ?thesis
    by (simp add: VarintSize32SignExtended_def WriteVarint32SignExtendedToArray_def
        WriteVarint64ToArray_ucast VarintSize32_length)
qed

lemma scalar_sizes [size_simps]:
  "Int32Size w = length (WriteVarint32SignExtendedToArray w)"
  "EnumSize w = length (WriteVarint32SignExtendedToArray w)"
  "Int64Size v = length (WriteVarint64ToArray v)"
  "StringSize s = length (WriteStringWithSizeToArray s)"
  "LengthDelimitedSize (length s) = length (WriteStringWithSizeToArray s)"
  by (simp_all add: Int32Size_def EnumSize_def Int64Size_def StringSize_def LengthDelimitedSize_def
      WriteStringWithSizeToArray_def VarintSize32SignExtended_length VarintSize64_length
      VarintSize32_length)

text \<open>A tag of a field below 16 is the single byte the generated code adds for it.\<close>

lemma WriteVarint32_small: "v < 0x80 \<Longrightarrow> WriteVarint32ToArray v = [byte_of v]"
proof -
  assume "v < 0x80"
  then have "\<not> 0x80 \<le> v" by (simp only: not_le)
  then show ?thesis by (subst WriteVarint32ToArray.simps) (simp only: if_False)
qed

end
