(* ===== verification/Wire_Read.thy ===== *)
theory Wire_Read
  imports Wire_Facts
begin

text \<open>
  Reading back what was written. The locale \<open>coded_input\<close> states what the protobuf headers
  document about the out-of-line readers; inside it every reader of the model gives back the
  value a writer of the model wrote, and the parse loop takes a written field into the message.
  \<open>ref_rt\<close> implements the documentation, and the locale is interpreted on it.
\<close>

section \<open>The documented behaviour of the out-of-line readers\<close>

locale coded_input =
  fixes rt :: pb_rt
  assumes tag_at_end: "ReadTagFallback rt 0 [] = ((0, True), [])"
    and varint32: "128 \<le> unat v \<Longrightarrow>
      ReadVarint32Fallback rt (of_char (hd (WriteVarint64ToArray v))) (WriteVarint64ToArray v @ rest) =
        (uint (ucast v :: uint32), rest)"
    and varint64: "128 \<le> unat v \<Longrightarrow>
      ReadVarint64Fallback rt (WriteVarint64ToArray v @ rest) = ((v, True), rest)"
    and size: "128 \<le> n \<Longrightarrow> n < 2 ^ 31 \<Longrightarrow>
      ReadVarintSizeAsIntFallback rt (WriteVarint32ToArray (of_nat n) @ rest) = (int n, rest)"
    and limit: "PushLimit rt (int (length sub)) (sub @ rest) = Some (sub, rest)"
    and bytes: "length s < 2 ^ 31 \<Longrightarrow>
      ReadBytes rt (WriteStringWithSizeToArray s @ rest) = Some (s, rest)"

lemma WriteVarint64_not_Nil [simp]: "WriteVarint64ToArray v \<noteq> []"
  by (subst WriteVarint64ToArray.simps) simp

lemma WriteVarint32_not_Nil [simp]: "WriteVarint32ToArray v \<noteq> []"
  by (subst WriteVarint32ToArray.simps) simp

lemma unat_hd_varint:
  "(of_char (hd (WriteVarint64ToArray v)) :: nat) = (if 128 \<le> unat v then unat v mod 128 + 128 else unat v)"
proof (cases "128 \<le> unat v")
  case True
  then have "hd (WriteVarint64ToArray v) = byte_of (v OR 0x80)"
    by (subst WriteVarint64ToArray.simps) (simp add: ge_0x80_iff)
  with True show ?thesis by (simp only: of_char_byte_of_OR if_True)
next
  case False
  then have "hd (WriteVarint64ToArray v) = byte_of v"
    by (subst WriteVarint64ToArray.simps) (simp add: ge_0x80_iff)
  with False show ?thesis by simp
qed

lemma of_char_word: "(of_char c :: 'a::len word) = of_nat (of_char c)"
  by (simp only: of_nat_of_char)

lemma of_char_le_255: "(of_char c :: nat) \<le> 255"
  by (metis of_char_mod_256 mod_less_divisor less_Suc_eq_le eval_nat_numeral(3) zero_less_numeral
      numeral_2_eq_2 less_eq_Suc_le Suc_numeral semiring_norm(2) semiring_norm(5) semiring_norm(8))

lemma of_char_less_0x80:
  "(of_char c :: 32 word) < 0x80 \<longleftrightarrow> (of_char c :: nat) < 128"
  "(of_char c :: 64 word) < 0x80 \<longleftrightarrow> (of_char c :: nat) < 128"
  using of_char_le_255 [of c]
  by (simp_all add: of_char_word [where 'a = 32] of_char_word [where 'a = 64] word_less_nat_alt unat_of_nat)

lemma varint_single: "\<not> 128 \<le> unat v \<Longrightarrow> WriteVarint64ToArray v = [byte_of v]"
  by (subst WriteVarint64ToArray.simps) (simp add: ge_0x80_iff)

lemma of_char_byte_of_small:
  "unat (v :: 64 word) < 128 \<Longrightarrow> (of_char (byte_of v) :: 64 word) = v"
  "unat (v :: 64 word) < 128 \<Longrightarrow> (of_char (byte_of v) :: 32 word) = ucast v"
  by (simp_all only: of_char_word of_char_byte_of) simp_all

lemma ucast_scast_id: "(ucast (scast (x :: 32 word) :: 64 word) :: 32 word) = x"
  by (rule bit_word_eqI) (simp add: bit_ucast_iff bit_signed_iff)

section \<open>The parse loop\<close>

lemma merge_loop_mono:
  "merge_loop n rt cases skip inp m = Some r \<Longrightarrow> n \<le> k \<Longrightarrow> merge_loop k rt cases skip inp m = Some r"
proof (induction n arbitrary: k inp m)
  case 0
  then show ?case by simp
next
  case (Suc n)
  then obtain k' where k: "k = Suc k'" "n \<le> k'" by (cases k) auto
  show ?case
    using Suc.prems(1) Suc.IH [OF _ k(2)] unfolding k(1)
    by (auto simp: Let_def split: prod.splits if_splits option.splits)
qed

definition parses ::
    "pb_rt \<Rightarrow> 'm field_case \<Rightarrow> (uint32 \<Rightarrow> string \<Rightarrow> 'm \<Rightarrow> ('m \<times> string) option) \<Rightarrow>
     string \<Rightarrow> 'm \<Rightarrow> 'm \<Rightarrow> bool" where
  "parses rt cases skip inp m r \<longleftrightarrow> merge_partial rt cases skip inp m = Some (r, True, [])"

lemma parses_parse_all: "parses rt cases skip inp m r \<Longrightarrow> parse_all (merge_partial rt cases skip inp m) = Some r"
  by (simp add: parses_def parse_all_def)

text \<open>A one-byte tag that an arm takes: the loop goes on with what the arm leaves.\<close>

lemma parses_arm:
  assumes t: "0 < unat t" "unat t < 128"
    and arm: "cases t rest m = Some (Some (m', rest'))"
    and len: "length rest' \<le> length rest"
    and go: "parses rt cases skip rest' m' r"
  shows "parses rt cases skip (byte_of t # rest) m r"
proof -
  have c: "(of_char (byte_of t) :: uint32) = t"
    using t(2) by (simp only: of_char_word of_char_byte_of) simp
  have "0 < t" "t < 0x80" using t by (simp_all add: word_less_nat_alt)
  then have tag: "ReadTagWithCutoffNoLastTag rt 127 (byte_of t # rest) = ((t, True), False, rest)"
    by (simp add: ReadTagWithCutoffNoLastTag_def Let_def c)
  from go have "merge_loop (Suc (length rest')) rt cases skip rest' m' = Some (r, True, [])"
    by (simp only: parses_def merge_partial_def)
  then have "merge_loop (Suc (length rest)) rt cases skip rest' m' = Some (r, True, [])"
    by (rule merge_loop_mono) (use len in simp)
  then show ?thesis
    unfolding parses_def merge_partial_def length_Cons merge_loop.simps(2) [of "Suc (length rest)"]
    by (simp add: tag arm Let_def del: merge_loop.simps)
qed

section \<open>Field numbers below 16\<close>

text \<open>Their tags take one byte, so a field takes one byte more than its payload.\<close>

lemma write_tag: "unat (MakeTag n ty) < 128 \<Longrightarrow> WriteTagToArray n ty = [byte_of (MakeTag n ty)]"
  by (simp add: WriteTagToArray_def WriteVarint32_small word_less_nat_alt)

lemma length_fields [size_simps]:
  "unat (MakeTag n WIRETYPE_VARINT) < 128 \<Longrightarrow> length (WriteInt32ToArray n v) = 1 + Int32Size v"
  "unat (MakeTag n WIRETYPE_VARINT) < 128 \<Longrightarrow> length (WriteEnumToArray n v) = 1 + EnumSize v"
  "unat (MakeTag n WIRETYPE_VARINT) < 128 \<Longrightarrow> length (WriteInt64ToArray n w) = 1 + Int64Size w"
  "unat (MakeTag n WIRETYPE_VARINT) < 128 \<Longrightarrow> length (WriteBoolToArray n b) = 2"
  "unat (MakeTag n WIRETYPE_LENGTH_DELIMITED) < 128 \<Longrightarrow> length (WriteStringToArray n s) = 1 + StringSize s"
  "unat (MakeTag n WIRETYPE_LENGTH_DELIMITED) < 128 \<Longrightarrow>
     length (WriteMessageToArray n (length body) body) = 1 + LengthDelimitedSize (length body)"
  by (simp_all add: write_tag WriteInt32ToArray_def WriteEnumToArray_def WriteInt64ToArray_def
      WriteBoolToArray_def WriteStringToArray_def WriteMessageToArray_def LengthDelimitedSize_def
      VarintSize32_length scalar_sizes)

lemmas tag_simps = MakeTag_def WIRETYPE_VARINT_def WIRETYPE_LENGTH_DELIMITED_def
  GetTagFieldNumber_def byte_of_def

lemma length_repeated [size_simps]:
  assumes "unat (MakeTag n WIRETYPE_LENGTH_DELIMITED) < 128"
    and "\<And>x. sz x = length (body x)"
  shows "length (concat (map (\<lambda>x. WriteMessageToArray n (sz x) (body x)) xs)) =
    length xs + sum_list (map (\<lambda>x. MessageSize (sz x)) xs)"
  by (induction xs) (simp_all add: assms length_fields MessageSize_def)

section \<open>Reading what was written\<close>

context coded_input begin

lemma ReadVarint64_write [codec_simps]:
  "ReadVarint64 rt (WriteVarint64ToArray v @ rest) = Some (v, rest)"
proof (cases "128 \<le> unat v")
  case True
  then show ?thesis
    by (simp add: ReadVarint64_def of_char_less_0x80 unat_hd_varint varint64 del: of_char_byte_of)
next
  case False
  then have "v < 0x80" by (simp add: word_less_nat_alt)
  with False show ?thesis
    by (simp add: varint_single ReadVarint64_def of_char_byte_of_small)
qed

lemma ReadVarint32_write [codec_simps]:
  "ReadVarint32 rt (WriteVarint64ToArray v @ rest) = Some (ucast v, rest)"
proof (cases "128 \<le> unat v")
  case True
  obtain c cs where w: "WriteVarint64ToArray v = c # cs" by (meson WriteVarint64_not_Nil neq_Nil_conv)
  have "(of_char c :: nat) = unat v mod 128 + 128" using unat_hd_varint [of v] True w by simp
  then have "\<not> (of_char c :: uint32) < 0x80" by (simp add: of_char_less_0x80)
  with varint32 [OF True, of rest] w show ?thesis by (simp add: ReadVarint32_def)
next
  case False
  then have "(ucast v :: uint32) < 0x80" by (simp add: word_less_nat_alt unat_ucast_32)
  with False show ?thesis
    by (simp add: varint_single ReadVarint32_def of_char_byte_of_small)
qed

lemma ReadVarint32_write_int32 [codec_simps]:
  "ReadVarint32 rt (WriteVarint32SignExtendedToArray x @ rest) = Some (x, rest)"
  by (simp add: WriteVarint32SignExtendedToArray_def ReadVarint32_write ucast_scast_id)

lemma ReadVarintSizeAsInt_write [codec_simps]:
  assumes "n < 2 ^ 31"
  shows "ReadVarintSizeAsInt rt (WriteVarint32ToArray (of_nat n) @ rest) = Some (int n, rest)"
proof -
  let ?v = "ucast (of_nat n :: 32 word) :: 64 word"
  have v: "unat ?v = n" using assms by (simp only: unat_ucast_64) (simp add: unat_of_nat)
  have w: "WriteVarint32ToArray (of_nat n) = WriteVarint64ToArray ?v"
    by (rule WriteVarint64ToArray_ucast [symmetric])
  have i: "(of_char c :: int) = int (of_char c)" for c
    by (simp only: of_nat_of_char)
  show ?thesis
  proof (cases "128 \<le> n")
    case True
    with assms show ?thesis
      unfolding ReadVarintSizeAsInt_def i
      by (simp add: size) (simp add: w unat_hd_varint v unat_of_nat)
  next
    case False
    with v show ?thesis
      by (simp add: w varint_single ReadVarintSizeAsInt_def i)
  qed
qed

lemma ReadTag_end: "ReadTagWithCutoffNoLastTag rt 127 [] = ((0, False), True, [])"
  by (simp add: ReadTagWithCutoffNoLastTag_def tag_at_end Let_def)

lemma parses_end: "m = r \<Longrightarrow> parses rt cases skip [] m r"
  by (simp add: parses_def merge_partial_def ReadTag_end)

text \<open>
  The optional fields of a message, as the serialisers write them: a scalar only when it is
  not zero, a string only when it is not empty.
\<close>

lemma parses_int32:
  assumes "\<And>inp m. cases (MakeTag n WIRETYPE_VARINT) inp m = Some (read_int32 rt set_f inp m)"
    and "0 < unat (MakeTag n WIRETYPE_VARINT)" "unat (MakeTag n WIRETYPE_VARINT) < 128"
    and "x = 0 \<Longrightarrow> set_f 0 m = m"
    and "parses rt cases skip rest (set_f x m) r"
  shows "parses rt cases skip ((if x \<noteq> 0 then WriteInt32ToArray n x else []) @ rest) m r"
    and "parses rt cases skip ((if x \<noteq> 0 then WriteEnumToArray n x else []) @ rest) m r"
proof -
  have "parses rt cases skip (byte_of (MakeTag n WIRETYPE_VARINT) #
      WriteVarint32SignExtendedToArray x @ rest) m r" if "x \<noteq> 0"
    by (rule parses_arm [where m' = "set_f x m" and rest' = rest])
       (use assms in \<open>simp_all add: read_int32_def ReadVarint32_write_int32\<close>)
  then show "parses rt cases skip ((if x \<noteq> 0 then WriteInt32ToArray n x else []) @ rest) m r"
    and "parses rt cases skip ((if x \<noteq> 0 then WriteEnumToArray n x else []) @ rest) m r"
    using assms by (auto simp: WriteInt32ToArray_def WriteEnumToArray_def write_tag)
qed

lemma parses_int64:
  assumes "\<And>inp m. cases (MakeTag n WIRETYPE_VARINT) inp m = Some (read_int64 rt set_f inp m)"
    and "0 < unat (MakeTag n WIRETYPE_VARINT)" "unat (MakeTag n WIRETYPE_VARINT) < 128"
    and "x = 0 \<Longrightarrow> set_f 0 m = m"
    and "parses rt cases skip rest (set_f x m) r"
  shows "parses rt cases skip ((if x \<noteq> 0 then WriteInt64ToArray n x else []) @ rest) m r"
proof -
  have "parses rt cases skip (byte_of (MakeTag n WIRETYPE_VARINT) #
      WriteVarint64ToArray x @ rest) m r" if "x \<noteq> 0"
    by (rule parses_arm [where m' = "set_f x m" and rest' = rest])
       (use assms in \<open>simp_all add: read_int64_def ReadVarint64_write\<close>)
  then show ?thesis
    using assms by (auto simp: WriteInt64ToArray_def write_tag)
qed

lemma parses_bool:
  assumes "\<And>inp m. cases (MakeTag n WIRETYPE_VARINT) inp m = Some (read_bool rt set_f inp m)"
    and "0 < unat (MakeTag n WIRETYPE_VARINT)" "unat (MakeTag n WIRETYPE_VARINT) < 128"
    and "\<not> x \<Longrightarrow> set_f False m = m"
    and "parses rt cases skip rest (set_f x m) r"
  shows "parses rt cases skip ((if x then WriteBoolToArray n x else []) @ rest) m r"
proof -
  have one: "byte_of (1 :: uint32) # rest = WriteVarint64ToArray 1 @ rest"
    by (simp add: varint_single byte_of_def)
  have "parses rt cases skip (byte_of (MakeTag n WIRETYPE_VARINT) # byte_of (1 :: uint32) # rest) m r"
    if "x"
    by (rule parses_arm [where m' = "set_f x m" and rest' = rest])
       (use assms that in \<open>simp_all add: read_bool_def one ReadVarint64_write\<close>)
  then show ?thesis
    using assms by (auto simp: WriteBoolToArray_def write_tag)
qed

lemma parses_bytes:
  assumes "\<And>inp m. cases (MakeTag n WIRETYPE_LENGTH_DELIMITED) inp m = Some (read_bytes rt set_f inp m)"
    and "0 < unat (MakeTag n WIRETYPE_LENGTH_DELIMITED)" "unat (MakeTag n WIRETYPE_LENGTH_DELIMITED) < 128"
    and "x = [] \<Longrightarrow> set_f [] m = m"
    and "length x < 2 ^ 31"
    and "parses rt cases skip rest (set_f x m) r"
  shows "parses rt cases skip ((if length x > 0 then WriteStringToArray n x else []) @ rest) m r"
proof -
  have "parses rt cases skip (byte_of (MakeTag n WIRETYPE_LENGTH_DELIMITED) #
      WriteStringWithSizeToArray x @ rest) m r" if "x \<noteq> []"
    by (rule parses_arm [where m' = "set_f x m" and rest' = rest])
       (use assms in \<open>simp_all add: read_bytes_def bytes\<close>)
  then show ?thesis
    using assms by (auto simp: WriteStringToArray_def write_tag)
qed

lemma parses_string:
  assumes "\<And>inp m. cases (MakeTag n WIRETYPE_LENGTH_DELIMITED) inp m = Some (read_string rt set_f inp m)"
    and "0 < unat (MakeTag n WIRETYPE_LENGTH_DELIMITED)" "unat (MakeTag n WIRETYPE_LENGTH_DELIMITED) < 128"
    and "x = [] \<Longrightarrow> set_f [] m = m"
    and "length x < 2 ^ 31" "VerifyUtf8String rt x"
    and "parses rt cases skip rest (set_f x m) r"
  shows "parses rt cases skip ((if length x > 0 then WriteStringToArray n x else []) @ rest) m r"
proof -
  have "parses rt cases skip (byte_of (MakeTag n WIRETYPE_LENGTH_DELIMITED) #
      WriteStringWithSizeToArray x @ rest) m r" if "x \<noteq> []"
    by (rule parses_arm [where m' = "set_f x m" and rest' = rest])
       (use assms in \<open>simp_all add: read_string_def bytes\<close>)
  then show ?thesis
    using assms by (auto simp: WriteStringToArray_def write_tag)
qed

lemma parses_message:
  assumes "\<And>inp m. cases (MakeTag n WIRETYPE_LENGTH_DELIMITED) inp m = Some (read_message rt sub set_f inp m)"
    and "0 < unat (MakeTag n WIRETYPE_LENGTH_DELIMITED)" "unat (MakeTag n WIRETYPE_LENGTH_DELIMITED) < 128"
    and "sub body = Some (s, True, [])"
    and "length body < 2 ^ 31" "sz = length body"
    and "parses rt cases skip rest (set_f s m) r"
  shows "parses rt cases skip (WriteMessageToArray n sz body @ rest) m r"
proof -
  have "parses rt cases skip (byte_of (MakeTag n WIRETYPE_LENGTH_DELIMITED) #
      WriteVarint32ToArray (of_nat (length body)) @ body @ rest) m r"
    by (rule parses_arm [where m' = "set_f s m" and rest' = rest])
       (use assms in \<open>simp_all add: read_message_def ReadVarintSizeAsInt_write limit\<close>)
  then show ?thesis
    using assms by (auto simp: WriteMessageToArray_def write_tag)
qed

text \<open>A repeated message field: every element is one field, read into an element of its own.\<close>

lemma parses_repeated:
  assumes "\<And>inp m. cases (MakeTag n WIRETYPE_LENGTH_DELIMITED) inp m = Some (read_message rt sub add inp m)"
    and "0 < unat (MakeTag n WIRETYPE_LENGTH_DELIMITED)" "unat (MakeTag n WIRETYPE_LENGTH_DELIMITED) < 128"
    and "\<And>x. x \<in> set xs \<Longrightarrow> sub (body x) = Some (x, True, [])"
    and "\<And>x. x \<in> set xs \<Longrightarrow> length (body x) < 2 ^ 31 \<and> sz x = length (body x)"
    and "parses rt cases skip rest (fold add xs m) r"
  shows "parses rt cases skip (concat (map (\<lambda>x. WriteMessageToArray n (sz x) (body x)) xs) @ rest) m r"
  using assms(4-)
proof (induction xs arbitrary: m)
  case (Cons x xs)
  have "parses rt cases skip (WriteMessageToArray n (sz x) (body x) @
      concat (map (\<lambda>x. WriteMessageToArray n (sz x) (body x)) xs) @ rest) m r"
    by (rule parses_message [where cases = cases and sub = sub, OF assms(1-3)]) (use Cons in auto)
  then show ?case by simp
qed simp

end

section \<open>Readers after the documentation\<close>

text \<open>
  \<open>ReadVarint64\<close> takes at most ten bytes; \<open>ReadVarint32\<close> is the same read cast to 32 bits;
  \<open>ReadTagFallback\<close> at the end of the input gives tag 0 and notes a legitimate end;
  \<open>ReadBytes\<close> reads a size that has to fit an \<open>int\<close> and that many bytes; \<open>SkipField\<close> keeps
  the field it skips with its tag (groups, which proto3 does not have, fail);
  \<open>VerifyUtf8String\<close> is the well-formedness of UTF-8.
\<close>

fun decode_varint :: "nat \<Rightarrow> string \<Rightarrow> (uint64 \<times> string) option" where
  "decode_varint 0 inp = None"
| "decode_varint (Suc n) [] = None"
| "decode_varint (Suc n) (c # cs) =
     (if (of_char c :: nat) < 128 then Some (of_char c, cs)
      else case decode_varint n cs of None \<Rightarrow> None
        | Some (v, r) \<Rightarrow> Some (of_nat (of_char c mod 128) + 128 * v, r))"

fun utf8_ok :: "string \<Rightarrow> bool" where
  "utf8_ok [] = True"
| "utf8_ok (c # cs) =
     (let b = (of_char c :: nat);
          tail = (\<lambda>lo hi s. case s of [] \<Rightarrow> False | d # _ \<Rightarrow> lo \<le> (of_char d :: nat) \<and> (of_char d :: nat) \<le> hi) in
      if b < 0x80 then utf8_ok cs
      else if 0xC2 \<le> b \<and> b \<le> 0xDF then tail 0x80 0xBF cs \<and> utf8_ok (drop 1 cs)
      else if 0xE0 \<le> b \<and> b \<le> 0xEF then
        tail (if b = 0xE0 then 0xA0 else 0x80) (if b = 0xED then 0x9F else 0xBF) cs
        \<and> tail 0x80 0xBF (drop 1 cs) \<and> utf8_ok (drop 2 cs)
      else if 0xF0 \<le> b \<and> b \<le> 0xF4 then
        tail (if b = 0xF0 then 0x90 else 0x80) (if b = 0xF4 then 0x8F else 0xBF) cs
        \<and> tail 0x80 0xBF (drop 1 cs) \<and> tail 0x80 0xBF (drop 2 cs) \<and> utf8_ok (drop 3 cs)
      else False)"

definition ref_ReadBytes :: "string \<Rightarrow> (string \<times> string) option" where
  "ref_ReadBytes inp =
     (case decode_varint 10 inp of None \<Rightarrow> None
      | Some (n, r) \<Rightarrow>
          if unat n < 2 ^ 31 \<and> unat n \<le> length r then Some (take (unat n) r, drop (unat n) r) else None)"

definition ref_SkipField :: "uint32 \<Rightarrow> string \<Rightarrow> string \<Rightarrow> (string \<times> string) option" where
  "ref_SkipField tag inp unknown =
     (let wt = tag AND 7; keep = (\<lambda>rest. Some (unknown @ WriteVarint32ToArray tag @
            take (length inp - length rest) inp, rest)) in
      if wt = 0 then (case decode_varint 10 inp of None \<Rightarrow> None | Some (_, r) \<Rightarrow> keep r)
      else if wt = 1 then (if 8 \<le> length inp then keep (drop 8 inp) else None)
      else if wt = 2 then (case ref_ReadBytes inp of None \<Rightarrow> None | Some (_, r) \<Rightarrow> keep r)
      else if wt = 5 then (if 4 \<le> length inp then keep (drop 4 inp) else None)
      else None)"

definition ref_rt :: pb_rt where
  "ref_rt = \<lparr>
     ReadVarint32Fallback = (\<lambda>_ inp. case decode_varint 10 inp of
         None \<Rightarrow> (- 1, []) | Some (v, r) \<Rightarrow> (uint (ucast v :: uint32), r)),
     ReadVarint64Fallback = (\<lambda>inp. case decode_varint 10 inp of
         None \<Rightarrow> ((0, False), []) | Some (v, r) \<Rightarrow> ((v, True), r)),
     ReadTagFallback = (\<lambda>_ inp. if inp = [] then ((0, True), []) else case decode_varint 10 inp of
         None \<Rightarrow> ((0, False), []) | Some (v, r) \<Rightarrow> ((ucast v, False), r)),
     ReadVarintSizeAsIntFallback = (\<lambda>inp. case decode_varint 10 inp of
         None \<Rightarrow> (- 1, []) | Some (v, r) \<Rightarrow> (if unat v < 2 ^ 31 then (int (unat v), r) else (- 1, r))),
     PushLimit = (\<lambda>n inp. if 0 \<le> n \<and> nat n \<le> length inp then Some (take (nat n) inp, drop (nat n) inp) else None),
     ReadBytes = ref_ReadBytes,
     VerifyUtf8String = utf8_ok,
     SkipField = ref_SkipField\<rparr>"

lemma word_mod_div_128: "(of_nat (unat v mod 128) :: 64 word) + 128 * drop_bit 7 v = v"
proof -
  have "unat v = unat v mod 128 + 128 * (unat v div 128)" by simp
  then have "(of_nat (unat v) :: 64 word) = of_nat (unat v mod 128 + 128 * (unat v div 128))" by (rule arg_cong)
  also have "\<dots> = of_nat (unat v mod 128) + 128 * of_nat (unat (drop_bit 7 v))"
    by (simp only: of_nat_add of_nat_mult of_nat_numeral unat_drop_bit_7)
  finally show ?thesis by simp
qed

lemma decode_varint_write:
  "length (WriteVarint64ToArray v) \<le> n \<Longrightarrow> decode_varint n (WriteVarint64ToArray v @ r) = Some (v, r)"
proof (induction v arbitrary: n rule: WriteVarint64ToArray.induct)
  case (1 v)
  then obtain k where n: "n = Suc k" by (cases n) auto
  show ?case
  proof (cases "0x80 \<le> v")
    case True
    then have w: "WriteVarint64ToArray v = byte_of (v OR 0x80) # WriteVarint64ToArray (drop_bit 7 v)"
      by (subst WriteVarint64ToArray.simps) simp
    with "1.prems" n have "length (WriteVarint64ToArray (drop_bit 7 v)) \<le> k" by simp
    with "1.IH" True have "decode_varint k (WriteVarint64ToArray (drop_bit 7 v) @ r) = Some (drop_bit 7 v, r)"
      by blast
    then show ?thesis
      by (simp only: w n append_Cons decode_varint.simps of_char_byte_of_OR) (simp add: word_mod_div_128)
  next
    case False
    then have lt: "\<not> 128 \<le> unat v" by (simp add: ge_0x80_iff)
    then show ?thesis by (simp add: varint_single n of_char_byte_of_small)
  qed
qed

lemma length_WriteVarint64_le: "length (WriteVarint64ToArray v) \<le> 10"
proof -
  have "Log2FloorNonZero64 (v OR 1) < 64"
    using Log2FloorNonZero64_range [OF OR_1_not_0, of v] by (blast intro: log_less)
  then have "VarintSize64 v \<le> 10" by (simp add: VarintSize64_def)
  then show ?thesis by (simp add: VarintSize64_length)
qed

lemma length_WriteVarint32_le: "length (WriteVarint32ToArray w) \<le> 10"
  using length_WriteVarint64_le [of "ucast w"] by (simp only: WriteVarint64ToArray_ucast)

text \<open>Coarse bounds on the written fields, to see that a message is far below the size limit.\<close>

lemma length_fields_le:
  "length (WriteInt32ToArray n v) \<le> 20" "length (WriteEnumToArray n v) \<le> 20"
  "length (WriteStringToArray n s) \<le> 20 + length s"
  "length (WriteMessageToArray n k s) \<le> 20 + length s"
  using length_WriteVarint32_le [of "MakeTag n WIRETYPE_VARINT"]
    length_WriteVarint32_le [of "MakeTag n WIRETYPE_LENGTH_DELIMITED"]
    length_WriteVarint32_le [of "word_of_nat (length s)"] length_WriteVarint32_le [of "word_of_nat k"]
    length_WriteVarint64_le [of "scast v"]
  by (simp_all add: WriteInt32ToArray_def WriteEnumToArray_def WriteStringToArray_def WriteMessageToArray_def
      WriteTagToArray_def WriteVarint32SignExtendedToArray_def WriteStringWithSizeToArray_def)

lemma ref_ReadBytes_write:
  assumes "length s < 2 ^ 31"
  shows "ref_ReadBytes (WriteStringWithSizeToArray s @ r) = Some (s, r)"
proof -
  let ?n = "ucast (of_nat (length s) :: 32 word) :: 64 word"
  have "unat (of_nat (length s) :: 32 word) = length s"
    using assms by (simp add: unat_of_nat)
  then have n: "unat ?n = length s" by (simp only: unat_ucast_64)
  have "WriteStringWithSizeToArray s @ r = WriteVarint64ToArray ?n @ s @ r"
    by (simp only: WriteStringWithSizeToArray_def WriteVarint64ToArray_ucast append_assoc)
  moreover have "decode_varint 10 (WriteVarint64ToArray ?n @ s @ r) = Some (?n, s @ r)"
    by (rule decode_varint_write) (rule length_WriteVarint64_le)
  ultimately show ?thesis
    using assms n by (simp add: ref_ReadBytes_def)
qed

lemma decode_varint_size:
  assumes "n < 2 ^ 31"
  shows "decode_varint 10 (WriteVarint32ToArray (of_nat n) @ r) = Some (of_nat n, r)"
proof -
  have "(ucast (of_nat n :: 32 word) :: 64 word) = of_nat n"
    using assms by (simp add: unsigned_of_nat take_bit_nat_eq_self)
  then show ?thesis
    using decode_varint_write [OF length_WriteVarint64_le, of "of_nat n" r] WriteVarint64ToArray_ucast
    by metis
qed

interpretation ref: coded_input ref_rt
  by unfold_locales
     (simp_all add: ref_rt_def decode_varint_write length_WriteVarint64_le ref_ReadBytes_write
       decode_varint_size unat_of_nat)

end
