(* ===== verification/Msg_Head.thy ===== *)
theory Msg_Head
  imports Wire_Read
begin

text \<open>
  The head every message travels with, and the heartbeat. Per message, in the order of
  \<open>cplatform/cmsgcom.pb.cc\<close>: its fields (the unknown fields as the bytes they are written
  back with), \<open>Clear\<close>, \<open>InternalSerializeWithCachedSizesToArray\<close> (every caller runs
  \<open>ByteSizeLong\<close> first, so a cached size is the size), \<open>ByteSizeLong\<close>, the \<open>switch\<close> and the
  loop of \<open>MergePartialFromCodedStream\<close>, \<open>ParseFromArray\<close>, \<open>MergeFrom\<close> and \<open>CopyFrom\<close>
  (from another object). The lemmas: \<open>ByteSizeLong\<close> is the length of what is written,
  \<open>CopyFrom\<close> copies, and parsing what was written gives the message back.
\<close>

section \<open>CMsgHead\<close>

record CMsgHead =
  msg_size :: int32
  msg_type :: int32
  token :: string
  service_name :: string
  msg_id :: int64
  CMsgHead_unknown :: string

definition CMsgHead_Clear :: CMsgHead where
  "CMsgHead_Clear = \<lparr>msg_size = 0, msg_type = 0, token = [], service_name = [],
     msg_id = 0, CMsgHead_unknown = []\<rparr>"

definition CMsgHead_Serialize :: "CMsgHead \<Rightarrow> string" where
  "CMsgHead_Serialize m =
     (if msg_size m \<noteq> 0 then WriteInt32ToArray 1 (msg_size m) else []) @
     (if msg_type m \<noteq> 0 then WriteEnumToArray 2 (msg_type m) else []) @
     (if length (token m) > 0 then WriteStringToArray 3 (token m) else []) @
     (if length (service_name m) > 0 then WriteStringToArray 4 (service_name m) else []) @
     (if msg_id m \<noteq> 0 then WriteInt64ToArray 5 (msg_id m) else []) @
     CMsgHead_unknown m"

definition CMsgHead_ByteSizeLong :: "CMsgHead \<Rightarrow> nat" where
  "CMsgHead_ByteSizeLong m =
     length (CMsgHead_unknown m) +
     (if length (token m) > 0 then 1 + StringSize (token m) else 0) +
     (if length (service_name m) > 0 then 1 + StringSize (service_name m) else 0) +
     (if msg_size m \<noteq> 0 then 1 + Int32Size (msg_size m) else 0) +
     (if msg_type m \<noteq> 0 then 1 + EnumSize (msg_type m) else 0) +
     (if msg_id m \<noteq> 0 then 1 + Int64Size (msg_id m) else 0)"

definition CMsgHead_cases :: "pb_rt \<Rightarrow> CMsgHead field_case" where
  "CMsgHead_cases rt tag inp m =
     (let field = GetTagFieldNumber tag in
      if field = 1 then arm tag 8 (read_int32 rt (\<lambda>v m. m\<lparr>msg_size := v\<rparr>) inp m) else
      if field = 2 then arm tag 16 (read_int32 rt (\<lambda>v m. m\<lparr>msg_type := v\<rparr>) inp m) else
      if field = 3 then arm tag 26 (read_string rt (\<lambda>v m. m\<lparr>token := v\<rparr>) inp m) else
      if field = 4 then arm tag 34 (read_string rt (\<lambda>v m. m\<lparr>service_name := v\<rparr>) inp m) else
      if field = 5 then arm tag 40 (read_int64 rt (\<lambda>v m. m\<lparr>msg_id := v\<rparr>) inp m) else
      None)"

definition CMsgHead_MergePartial ::
    "pb_rt \<Rightarrow> string \<Rightarrow> CMsgHead \<Rightarrow> (CMsgHead \<times> bool \<times> string) option" where
  "CMsgHead_MergePartial rt =
     merge_partial rt (CMsgHead_cases rt) (skip_field rt CMsgHead_unknown (\<lambda>u m. m\<lparr>CMsgHead_unknown := u\<rparr>))"

definition CMsgHead_ParseFromArray :: "pb_rt \<Rightarrow> string \<Rightarrow> CMsgHead option" where
  "CMsgHead_ParseFromArray rt bytes = parse_all (CMsgHead_MergePartial rt bytes CMsgHead_Clear)"

definition CMsgHead_MergeFrom :: "CMsgHead \<Rightarrow> CMsgHead \<Rightarrow> CMsgHead" where
  "CMsgHead_MergeFrom from this = this\<lparr>
     CMsgHead_unknown := CMsgHead_unknown this @ CMsgHead_unknown from,
     token := (if length (token from) > 0 then token from else token this),
     service_name := (if length (service_name from) > 0 then service_name from else service_name this),
     msg_size := (if msg_size from \<noteq> 0 then msg_size from else msg_size this),
     msg_type := (if msg_type from \<noteq> 0 then msg_type from else msg_type this),
     msg_id := (if msg_id from \<noteq> 0 then msg_id from else msg_id this)\<rparr>"

definition CMsgHead_CopyFrom :: "CMsgHead \<Rightarrow> CMsgHead \<Rightarrow> CMsgHead" where
  "CMsgHead_CopyFrom from this = CMsgHead_MergeFrom from CMsgHead_Clear"

definition CMsgHead_wf :: "pb_rt \<Rightarrow> CMsgHead \<Rightarrow> bool" where
  "CMsgHead_wf rt m \<longleftrightarrow>
     CMsgHead_unknown m = [] \<and>
     length (token m) < 2 ^ 31 \<and>
     VerifyUtf8String rt (token m) \<and>
     length (service_name m) < 2 ^ 31 \<and>
     VerifyUtf8String rt (service_name m)"

lemma CMsgHead_ByteSizeLong [size_simps]: "CMsgHead_ByteSizeLong m = length (CMsgHead_Serialize m)"
  by (simp add: CMsgHead_ByteSizeLong_def CMsgHead_Serialize_def length_fields tag_simps)

lemma CMsgHead_CopyFrom_eq [simp]: "CMsgHead_CopyFrom from this = from"
  by (cases "from") (auto simp: CMsgHead_CopyFrom_def CMsgHead_MergeFrom_def CMsgHead_Clear_def)

lemma CMsgHead_arms:
  "CMsgHead_cases rt (MakeTag 1 WIRETYPE_VARINT) inp m =
     Some (read_int32 rt (\<lambda>v m. m\<lparr>msg_size := v\<rparr>) inp m)"
  "CMsgHead_cases rt (MakeTag 2 WIRETYPE_VARINT) inp m =
     Some (read_int32 rt (\<lambda>v m. m\<lparr>msg_type := v\<rparr>) inp m)"
  "CMsgHead_cases rt (MakeTag 3 WIRETYPE_LENGTH_DELIMITED) inp m =
     Some (read_string rt (\<lambda>v m. m\<lparr>token := v\<rparr>) inp m)"
  "CMsgHead_cases rt (MakeTag 4 WIRETYPE_LENGTH_DELIMITED) inp m =
     Some (read_string rt (\<lambda>v m. m\<lparr>service_name := v\<rparr>) inp m)"
  "CMsgHead_cases rt (MakeTag 5 WIRETYPE_VARINT) inp m =
     Some (read_int64 rt (\<lambda>v m. m\<lparr>msg_id := v\<rparr>) inp m)"
  by (simp_all add: CMsgHead_cases_def arm_def tag_simps)

context coded_input begin

lemma CMsgHead_parses:
  assumes "CMsgHead_wf rt m"
  shows "parses rt (CMsgHead_cases rt) skip (CMsgHead_Serialize m) CMsgHead_Clear m"
proof -
  have u: "CMsgHead_unknown m = []" using assms by (simp add: CMsgHead_wf_def)
  show ?thesis
    unfolding CMsgHead_Serialize_def u
    by (intro parses_int32(1) [where cases = "CMsgHead_cases rt", OF CMsgHead_arms(1)]
        parses_int32(2) [where cases = "CMsgHead_cases rt", OF CMsgHead_arms(2)]
        parses_string [where cases = "CMsgHead_cases rt", OF CMsgHead_arms(3)]
        parses_string [where cases = "CMsgHead_cases rt", OF CMsgHead_arms(4)]
        parses_int64 [where cases = "CMsgHead_cases rt", OF CMsgHead_arms(5)] parses_end)
       (use assms in \<open>auto simp: CMsgHead_wf_def CMsgHead_Clear_def tag_simps\<close>)
qed

lemma CMsgHead_roundtrip [codec_simps]:
  "CMsgHead_wf rt m \<Longrightarrow> CMsgHead_ParseFromArray rt (CMsgHead_Serialize m) = Some m"
  by (simp add: CMsgHead_ParseFromArray_def CMsgHead_MergePartial_def parses_parse_all [OF CMsgHead_parses])

end

section \<open>CMsgHeart\<close>

record CMsgHeart =
  CMsgHeart_count :: int64
  CMsgHeart_unknown :: string

definition CMsgHeart_Clear :: CMsgHeart where
  "CMsgHeart_Clear = \<lparr>CMsgHeart_count = 0, CMsgHeart_unknown = []\<rparr>"

definition CMsgHeart_Serialize :: "CMsgHeart \<Rightarrow> string" where
  "CMsgHeart_Serialize m =
     (if CMsgHeart_count m \<noteq> 0 then WriteInt64ToArray 1 (CMsgHeart_count m) else []) @
     CMsgHeart_unknown m"

definition CMsgHeart_ByteSizeLong :: "CMsgHeart \<Rightarrow> nat" where
  "CMsgHeart_ByteSizeLong m =
     length (CMsgHeart_unknown m) +
     (if CMsgHeart_count m \<noteq> 0 then 1 + Int64Size (CMsgHeart_count m) else 0)"

definition CMsgHeart_cases :: "pb_rt \<Rightarrow> CMsgHeart field_case" where
  "CMsgHeart_cases rt tag inp m =
     (let field = GetTagFieldNumber tag in
      if field = 1 then arm tag 8 (read_int64 rt (\<lambda>v m. m\<lparr>CMsgHeart_count := v\<rparr>) inp m) else
      None)"

definition CMsgHeart_MergePartial ::
    "pb_rt \<Rightarrow> string \<Rightarrow> CMsgHeart \<Rightarrow> (CMsgHeart \<times> bool \<times> string) option" where
  "CMsgHeart_MergePartial rt =
     merge_partial rt (CMsgHeart_cases rt) (skip_field rt CMsgHeart_unknown (\<lambda>u m. m\<lparr>CMsgHeart_unknown := u\<rparr>))"

definition CMsgHeart_ParseFromArray :: "pb_rt \<Rightarrow> string \<Rightarrow> CMsgHeart option" where
  "CMsgHeart_ParseFromArray rt bytes = parse_all (CMsgHeart_MergePartial rt bytes CMsgHeart_Clear)"

definition CMsgHeart_MergeFrom :: "CMsgHeart \<Rightarrow> CMsgHeart \<Rightarrow> CMsgHeart" where
  "CMsgHeart_MergeFrom from this = this\<lparr>
     CMsgHeart_unknown := CMsgHeart_unknown this @ CMsgHeart_unknown from,
     CMsgHeart_count := (if CMsgHeart_count from \<noteq> 0 then CMsgHeart_count from else CMsgHeart_count this)\<rparr>"

definition CMsgHeart_CopyFrom :: "CMsgHeart \<Rightarrow> CMsgHeart \<Rightarrow> CMsgHeart" where
  "CMsgHeart_CopyFrom from this = CMsgHeart_MergeFrom from CMsgHeart_Clear"

definition CMsgHeart_wf :: "pb_rt \<Rightarrow> CMsgHeart \<Rightarrow> bool" where
  "CMsgHeart_wf rt m \<longleftrightarrow>
     CMsgHeart_unknown m = []"

lemma CMsgHeart_ByteSizeLong [size_simps]: "CMsgHeart_ByteSizeLong m = length (CMsgHeart_Serialize m)"
  by (simp add: CMsgHeart_ByteSizeLong_def CMsgHeart_Serialize_def length_fields tag_simps)

lemma CMsgHeart_CopyFrom_eq [simp]: "CMsgHeart_CopyFrom from this = from"
  by (cases "from") (auto simp: CMsgHeart_CopyFrom_def CMsgHeart_MergeFrom_def CMsgHeart_Clear_def)

lemma CMsgHeart_arms:
  "CMsgHeart_cases rt (MakeTag 1 WIRETYPE_VARINT) inp m =
     Some (read_int64 rt (\<lambda>v m. m\<lparr>CMsgHeart_count := v\<rparr>) inp m)"
  by (simp add: CMsgHeart_cases_def arm_def tag_simps)

context coded_input begin

lemma CMsgHeart_parses:
  assumes "CMsgHeart_wf rt m"
  shows "parses rt (CMsgHeart_cases rt) skip (CMsgHeart_Serialize m) CMsgHeart_Clear m"
proof -
  have u: "CMsgHeart_unknown m = []" using assms by (simp add: CMsgHeart_wf_def)
  show ?thesis
    unfolding CMsgHeart_Serialize_def u
    by (intro parses_int64 [where cases = "CMsgHeart_cases rt", OF CMsgHeart_arms] parses_end)
       (use assms in \<open>auto simp: CMsgHeart_wf_def CMsgHeart_Clear_def tag_simps\<close>)
qed

lemma CMsgHeart_roundtrip [codec_simps]:
  "CMsgHeart_wf rt m \<Longrightarrow> CMsgHeart_ParseFromArray rt (CMsgHeart_Serialize m) = Some m"
  by (simp add: CMsgHeart_ParseFromArray_def CMsgHeart_MergePartial_def parses_parse_all [OF CMsgHeart_parses])

end

end
