(* ===== verification/MsgEvent.thy ===== *)
theory MsgEvent
  imports ComeTask Msg_Head
begin

text \<open>
  The message layer of a connection, \<open>cplatform/cmsgevent.cpp\<close>: receiving in three stages
  (size of the head, head, body), the dispatch loop \<open>readCb\<close>, the registry of callbacks, and
  the three \<open>sendMsg\<close>. A frame on the connection is the size of the serialised head as an
  \<open>int\<close> in memory order, the head, which holds the size of the body, and the body.

  The virtual \<open>readCb(head, msg)\<close> of the object's class is a parameter of the loop. It gets
  the message and the object; as \<open>head\<close> points to the member \<open>*pbHead_\<close>, it gives back what
  it leaves there with the object. The loop gives, beside the state, the calls it made of it.
\<close>

section \<open>State\<close>

text \<open>
  The surroundings of the object: libevent, the protobuf runtime, the contents of fresh memory,
  and what a parse that fails leaves in the message it parsed into.
\<close>

record 'b platform =
  p_libevent :: "'b libevent"
  p_protobuf :: pb_rt
  p_junk :: "nat \<Rightarrow> char"
  p_half_parsed :: "string \<Rightarrow> CMsgHead"

record 'b CMsgEvent = "'b CComeTask" +
  m_head :: CMsg
  m_msg :: CMsg
  m_pbHead :: "CMsgHead option"

definition CMsgEvent_new :: "'b CMsgEvent" where
  "CMsgEvent_new = CComeTask.extend CComeTask_new (CMsgEvent.fields CMsg_new CMsg_new None)"

lemma CMsgEvent_new_sel [simp]:
  "m_head CMsgEvent_new = CMsg_new" "m_msg CMsgEvent_new = CMsg_new"
  "m_pbHead CMsgEvent_new = None" "m_bev CMsgEvent_new = None" "\<not> deleted CMsgEvent_new"
  "m_autoDelete CMsgEvent_new" "m_clientIp CMsgEvent_new = zero_buf 16"
  "calls CMsgEvent_new = []" "m_base CMsgEvent_new = None"
  "m_isConnected CMsgEvent_new = False"
  by (simp_all add: CMsgEvent_new_def CComeTask.defs CMsgEvent.defs CComeTask_new_def)

type_synonym 's msg_cb = "CMsgHead \<Rightarrow> CMsg \<Rightarrow> 's \<Rightarrow> (CMsgHead \<times> 's) checked"

definition CMsgEvent_clear :: "('b, 'a) CMsgEvent_scheme \<Rightarrow> ('b, 'a) CMsgEvent_scheme" where
  "CMsgEvent_clear t = t\<lparr>m_head := CMsg_clear (m_head t), m_msg := CMsg_clear (m_msg t)\<rparr>"

definition CMsgEvent_close :: "('b, 'a) CMsgEvent_scheme \<Rightarrow> ('b, 'a) CMsgEvent_scheme checked" where
  "CMsgEvent_close t = closeBev (CMsgEvent_clear t)"

definition getMsg :: "('b, 'a) CMsgEvent_scheme \<Rightarrow> CMsg option" where
  "getMsg t = (if recved (m_msg t) then Some (m_msg t) else None)"

text \<open>The array a \<open>ParseFromArray(data_, size_)\<close> reads; a null pointer comes with size 0.\<close>

definition msg_bytes :: "CMsg \<Rightarrow> string" where
  "msg_bytes m = (case m_data m of None \<Rightarrow> [] | Some d \<Rightarrow> take (nat (m_size m)) d)"

section \<open>The registry of callbacks\<close>

type_synonym 's registry = "int32 \<rightharpoonup> 's msg_cb"

definition regCb :: "int32 \<Rightarrow> 's msg_cb \<Rightarrow> 's registry \<Rightarrow> 's registry" where
  "regCb type func msgCb = (if msgCb type \<noteq> None then msgCb else msgCb(type \<mapsto> func))"

definition default_readCb ::
    "('b, 'a) CMsgEvent_scheme registry \<Rightarrow> ('b, 'a) CMsgEvent_scheme msg_cb" where
  "default_readCb msgCb head msg t =
     (case msgCb (msg_type head) of
        None \<Rightarrow> Inr (head, CMsgEvent_clear t)
      | Some func \<Rightarrow> func head msg t)"

section \<open>Receiving\<close>

text \<open>Bytes read into the buffer at \<open>data_ + recvSize_\<close>.\<close>

definition received :: "string \<Rightarrow> CMsg \<Rightarrow> CMsg" where
  "received bytes m = m\<lparr>m_data := map_option (\<lambda>d. write_at d (nat (m_recvSize m)) bytes) (m_data m),
     m_recvSize := m_recvSize m + int (length bytes)\<rparr>"

text \<open>Stage 1: the size of the head. \<open>readMsg\<close> writes its bytes over the zero bytes of \<open>size_\<close>.\<close>

definition recv_size ::
    "'b platform \<Rightarrow> ('b, 'a) CMsgEvent_scheme \<Rightarrow> bool \<times> ('b, 'a) CMsgEvent_scheme" where
  "recv_size P t =
     (if m_size (m_head t) \<noteq> 0 then (True, t)
      else
        let (bytes, t) = readMsg (p_libevent P) 4 t;
            t = t\<lparr>m_head := (m_head t)\<lparr>m_size := sint (int32_of_mem bytes)\<rparr>\<rparr> in
        if bytes = [] \<or> m_size (m_head t) \<le> 0 then (False, t)
        else let (ok, head) = alloc (p_junk P) (m_size (m_head t)) (m_head t) in
          (ok, t\<lparr>m_head := head\<rparr>))"

text \<open>Stage 2: the head. \<open>Some r\<close> is an early return with \<open>r\<close>.\<close>

definition recv_head ::
    "'b platform \<Rightarrow> ('b, 'a) CMsgEvent_scheme \<Rightarrow> bool option \<times> ('b, 'a) CMsgEvent_scheme" where
  "recv_head P t =
     (if recved (m_head t) then (None, t)
      else
        let (bytes, t) = readMsg (p_libevent P) (m_size (m_head t) - m_recvSize (m_head t)) t in
        if bytes = [] then (Some True, t)
        else
          let t = t\<lparr>m_head := received bytes (m_head t)\<rparr> in
          if \<not> recved (m_head t) then (Some True, t)
          else
            case CMsgHead_ParseFromArray (p_protobuf P) (msg_bytes (m_head t)) of
              None \<Rightarrow> (Some False, t\<lparr>m_pbHead := Some (p_half_parsed P (msg_bytes (m_head t)))\<rparr>)
            | Some head \<Rightarrow>
                let t = t\<lparr>m_pbHead := Some head\<rparr> in
                if msg_size head = 0
                then (Some True, t\<lparr>m_msg := (m_msg t)\<lparr>m_type := msg_type head, m_size := 0\<rparr>\<rparr>)
                else let (ok, msg) = alloc (p_junk P) (sint (msg_size head)) (m_msg t) in
                  if \<not> ok then (Some False, t)
                  else (None, t\<lparr>m_msg := msg\<lparr>m_type := msg_type head\<rparr>\<rparr>))"

text \<open>Stage 3: the body.\<close>

definition recv_body ::
    "'b platform \<Rightarrow> ('b, 'a) CMsgEvent_scheme \<Rightarrow> bool \<times> ('b, 'a) CMsgEvent_scheme" where
  "recv_body P t =
     (if recved (m_msg t) then (True, t)
      else
        let (bytes, t) = readMsg (p_libevent P) (m_size (m_msg t) - m_recvSize (m_msg t)) t in
        if bytes = [] then (True, t)
        else (True, t\<lparr>m_msg := received bytes (m_msg t)\<rparr>))"

definition recvMsg ::
    "'b platform \<Rightarrow> ('b, 'a) CMsgEvent_scheme \<Rightarrow> bool \<times> ('b, 'a) CMsgEvent_scheme" where
  "recvMsg P t =
     (case recv_size P t of
        (False, t) \<Rightarrow> (False, t)
      | (True, t) \<Rightarrow>
          (case recv_head P t of
             (Some r, t) \<Rightarrow> (r, t)
           | (None, t) \<Rightarrow> recv_body P t))"

text \<open>
  The loop. It ends when nothing more can be read; that it always ends is a theorem below.
\<close>

partial_function (option) readCb ::
    "'b platform \<Rightarrow> ('b, 'a) CMsgEvent_scheme msg_cb \<Rightarrow> ('b, 'a) CMsgEvent_scheme \<Rightarrow>
     ((CMsgHead \<times> CMsg) list \<times> ('b, 'a) CMsgEvent_scheme) checked option" where
  "readCb P cb t =
     (case recvMsg P t of (ok, t) \<Rightarrow>
        if \<not> ok then Some (Inr ([], CMsgEvent_clear t))
        else case m_pbHead t of
          None \<Rightarrow> Some (Inr ([], t))
        | Some head \<Rightarrow> (case getMsg t of
            None \<Rightarrow> Some (Inr ([], t))
          | Some msg \<Rightarrow> (case cb head msg t of
              Inl u \<Rightarrow> Some (Inl u)
            | Inr (head', t) \<Rightarrow>
                if deleted t then Some (Inl UseAfterFree)
                else Option.bind (readCb P cb (CMsgEvent_clear (t\<lparr>m_pbHead := Some head'\<rparr>)))
                  (\<lambda>r. Some (bind_ub r (\<lambda>(ms, t). Inr ((head, msg) # ms, t)))))))"

section \<open>Sending\<close>

definition sendMsg ::
    "'b platform \<Rightarrow> CMsgHead option \<Rightarrow> CMsg option \<Rightarrow> ('b, 'a) CMsgEvent_scheme \<Rightarrow>
     bool \<times> CMsgHead option \<times> ('b, 'a) CMsgEvent_scheme" where
  "sendMsg P head msg t =
     (case (head, msg) of
        (Some head, Some msg) \<Rightarrow>
          let head = head\<lparr>msg_size := word_of_int (m_size msg)\<rparr>;
              headStr = CMsgHead_Serialize head;
              headSize = word_of_nat (length headStr) :: int32;
              (res, t) = writeMsg (p_libevent P) (Some (mem_of_int32 headSize)) 4 t in
          if \<not> res then (False, Some head, t)
          else let (res, t) = writeMsg (p_libevent P) (Some headStr) (int (length headStr)) t in
          if \<not> res then (False, Some head, t)
          else let (res, t) = writeMsg (p_libevent P) (m_data msg) (m_size msg) t in
          (res, Some head, t)
      | _ \<Rightarrow> (False, head, t))"

text \<open>The overloads for a message: \<open>message\<close> is what \<open>SerializeAsString\<close> gives for it.\<close>

definition sendMsg_message ::
    "'b platform \<Rightarrow> CMsgHead option \<Rightarrow> string option \<Rightarrow> ('b, 'a) CMsgEvent_scheme \<Rightarrow>
     bool \<times> CMsgHead option \<times> ('b, 'a) CMsgEvent_scheme" where
  "sendMsg_message P head message t =
     (case (message, head) of
        (Some msgStr, Some _) \<Rightarrow>
          sendMsg P head (Some (CMsg_new\<lparr>m_data := Some msgStr, m_size := int (length msgStr)\<rparr>)) t
      | _ \<Rightarrow> (False, head, t))"

definition sendMsg_type ::
    "'b platform \<Rightarrow> int32 \<Rightarrow> string option \<Rightarrow> ('b, 'a) CMsgEvent_scheme \<Rightarrow>
     bool \<times> ('b, 'a) CMsgEvent_scheme" where
  "sendMsg_type P type message t =
     (case message of None \<Rightarrow> (False, t)
      | Some _ \<Rightarrow> (case sendMsg_message P (Some (CMsgHead_Clear\<lparr>msg_type := type\<rparr>)) message t of
          (r, _, t) \<Rightarrow> (r, t)))"

text \<open>Sending changes nothing of the object but its bufferevent.\<close>

definition only_bev :: "('b, 'a) CMsgEvent_scheme \<Rightarrow> ('b, 'a) CMsgEvent_scheme \<Rightarrow> bool" where
  "only_bev t t' \<longleftrightarrow> (\<exists>b. t' = t\<lparr>m_bev := b\<rparr> \<and> (b = None) = (m_bev t = None))"

lemma only_bev_refl [simp]: "only_bev t t"
  unfolding only_bev_def by (rule exI [of _ "m_bev t"]) simp

lemma only_bev_upd: "(b = None) = (m_bev t = None) \<Longrightarrow> only_bev t (t\<lparr>m_bev := b\<rparr>)"
  unfolding only_bev_def by (rule exI, rule conjI [OF refl])

lemma only_bev_trans:
  assumes "only_bev t1 t2" "only_bev t2 t3"
  shows "only_bev t1 t3"
proof -
  obtain b2 where 2: "t2 = t1\<lparr>m_bev := b2\<rparr>" "(b2 = None) = (m_bev t1 = None)"
    using assms(1) unfolding only_bev_def by (elim exE conjE)
  obtain b3 where 3: "t3 = t2\<lparr>m_bev := b3\<rparr>" "(b3 = None) = (m_bev t2 = None)"
    using assms(2) unfolding only_bev_def by (elim exE conjE)
  have "t3 = t1\<lparr>m_bev := b3\<rparr>" by (simp add: 2(1) 3(1))
  moreover have "(b3 = None) = (m_bev t1 = None)" using 2 3(2) by simp
  ultimately show ?thesis unfolding only_bev_def by (intro exI conjI)
qed

lemma writeMsg_bev: "only_bev t (snd (writeMsg le data n t))"
  by (cases "m_bev t"; cases data) (simp_all add: writeMsg_def case_prod_beta only_bev_upd)

lemma writeMsg_step: "writeMsg le data n t1 = (r, t2) \<Longrightarrow> only_bev t1 t2"
  using writeMsg_bev [of t1 le data n] by (simp only: snd_conv)

lemma sendMsg_bev: "only_bev t (snd (snd (sendMsg P head msg t)))"
proof (cases "head = None \<or> msg = None")
  case True
  then show ?thesis by (auto simp: sendMsg_def split: option.split)
next
  case False
  then obtain h m where hm: "head = Some h" "msg = Some m" by auto
  let ?h = "h\<lparr>msg_size := word_of_int (m_size m)\<rparr>"
  obtain r1 t1 where 1: "writeMsg (p_libevent P)
      (Some (mem_of_int32 (word_of_nat (length (CMsgHead_Serialize ?h))))) 4 t = (r1, t1)" by fastforce
  obtain r2 t2 where 2: "writeMsg (p_libevent P) (Some (CMsgHead_Serialize ?h))
      (int (length (CMsgHead_Serialize ?h))) t1 = (r2, t2)" by fastforce
  obtain r3 t3 where 3: "writeMsg (p_libevent P) (m_data m) (m_size m) t2 = (r3, t3)" by fastforce
  have "only_bev t t1" "only_bev t t2" "only_bev t t3"
    using 1 2 3 by (blast intro: only_bev_trans dest: writeMsg_step)+
  with 1 2 3 show ?thesis by (simp add: sendMsg_def hm Let_def)
qed

lemma sendMsg_type_bev: "only_bev t (snd (sendMsg_type P type message t))"
  using sendMsg_bev [of t P "Some (CMsgHead_Clear\<lparr>msg_type := type\<rparr>)"]
  by (cases message) (auto simp: sendMsg_type_def sendMsg_message_def case_prod_beta)

section \<open>The abstract frame\<close>

definition frame :: "CMsgHead \<times> string \<Rightarrow> string" where
  "frame m = mem_of_int32 (word_of_nat (length (CMsgHead_Serialize (fst m)))) @
     CMsgHead_Serialize (fst m) @ snd m"

text \<open>What the receiving side takes: sizes within the limit, a head that announces the body.\<close>

definition frame_ok :: "pb_rt \<Rightarrow> CMsgHead \<times> string \<Rightarrow> bool" where
  "frame_ok rt m \<longleftrightarrow> CMsgHead_wf rt (fst m) \<and> 0 < length (CMsgHead_Serialize (fst m)) \<and>
     length (CMsgHead_Serialize (fst m)) \<le> 8192 \<and> length (snd m) \<le> 8192 \<and>
     msg_size (fst m) = word_of_nat (length (snd m))"

definition delivered :: "CMsgHead \<times> string \<Rightarrow> CMsgHead \<times> CMsg" where
  "delivered m = (fst m, \<lparr>m_size = int (length (snd m)), m_recvSize = int (length (snd m)),
     m_data = (if snd m = [] then None else Some (snd m)), m_type = msg_type (fst m)\<rparr>)"

definition clean :: "('b, 'a) CMsgEvent_scheme \<Rightarrow> bool" where
  "clean t \<longleftrightarrow> m_head t = CMsg_new \<and> m_msg t = CMsg_new"

lemma clean_clear [simp]: "clean (CMsgEvent_clear t)"
  by (simp add: clean_def CMsgEvent_clear_def CMsg_clear_new)

end
