(* ===== verification/Service.thy ===== *)
theory Service
  imports ThreadPool MsgEvent
begin

text \<open>
  Servers and clients, \<open>cplatform/cservice.cpp\<close>, \<open>cservicehandle.cpp\<close> and
  \<open>cserviceclient.cpp\<close>: a server has one thread that accepts connections and a pool that
  handles them; a client is a connection with a pool of one thread. \<open>createServiceHandle\<close> is
  virtual and may change the server, so it is a parameter from server to handle and server.
\<close>

section \<open>Byte order\<close>

text \<open>
  \<open>htons\<close> and \<open>ntohs\<close> on a little-endian host. The member \<open>sin_port\<close> of the address of a
  client on port \<open>p\<close> holds \<open>htons p\<close>.
\<close>

definition htons :: "16 word \<Rightarrow> 16 word" where
  "htons w = or (push_bit 8 w) (drop_bit 8 w)"

lemma unat_htons: "unat (htons p) = (unat p mod 256) * 256 + unat p div 256"
proof -
  have lt: "unat p < 65536" using unsigned_less [of p, where ?'a = nat] by simp
  have "and (push_bit 8 p) (drop_bit 8 p) = 0"
    by (rule bit_word_eqI) (auto simp: bit_simps dest: bit_imp_le_length)
  then have "htons p = push_bit 8 p + drop_bit 8 p"
    unfolding htons_def by (simp add: disjunctive_add_eq_or)
  moreover have "unat (push_bit 8 p) = (unat p mod 256) * 256"
    by (simp only: unsigned_push_bit_eq take_bit_push_bit)
       (simp add: take_bit_eq_mod push_bit_eq_mult [of 8 "_ mod _"])
  moreover have "unat (drop_bit 8 p) = unat p div 256"
    unfolding unat_drop_bit_eq by (simp add: drop_bit_eq_div [of 8 "unat p"])
  moreover have "(unat p mod 256) * 256 + unat p div 256 < 65536"
    using lt mod_less_divisor [of 256 "unat p"] by (simp add: less_mult_imp_div_less)
  ultimately show ?thesis
    by (simp add: unat_add_lem [THEN iffD1])
qed

lemma htons_same: "uint (htons p) = uint p \<longleftrightarrow> unat p mod 256 = unat p div 256"
proof -
  have "unat (htons p) = unat p \<longleftrightarrow> unat p mod 256 = unat p div 256"
    using mod_mult_div_eq [of "unat p" 256] unfolding unat_htons by linarith
  then show ?thesis by (simp only: uint_nat of_nat_eq_iff)
qed

section \<open>CService\<close>

record CService = CTask +
  sv_sslCtx :: bool
  sv_threadCount :: int
  sv_serverPort :: int
  sv_listenPool :: "CCThreadPool option"
  sv_clientPool :: "CCThreadPool option"

definition CService_new :: "bool \<Rightarrow> bool \<Rightarrow> factory \<Rightarrow> (CService \<times> factory) option" where
  "CService_new sig1 sig2 f =
     Option.bind (pool_create sig1 f) (\<lambda>(listen, f).
     Option.bind (pool_create sig2 f) (\<lambda>(client, f).
     Some (\<lparr>m_base = None, m_sock = 0, m_threadId = 0, sv_sslCtx = False, sv_threadCount = 10,
       sv_serverPort = 0, sv_listenPool = listen, sv_clientPool = client\<rparr>, f)))"

definition setServerPort :: "int \<Rightarrow> 'a CService_scheme \<Rightarrow> 'a CService_scheme" where
  "setServerPort port s = s\<lparr>sv_serverPort := port\<rparr>"

text \<open>\<open>listen base port\<close> is whether \<open>evconnlistener_new_bind\<close> gives a listener.\<close>

definition CService_init :: "(nat option \<Rightarrow> 16 word \<Rightarrow> bool) \<Rightarrow> 'a CService_scheme \<Rightarrow> bool" where
  "CService_init listen s =
     (if sv_serverPort s \<le> 0 then False
      else listen (m_base s) (word_of_int (sv_serverPort s)))"

definition deref :: "'a option \<Rightarrow> 'a checked" where
  "deref p = (case p of None \<Rightarrow> Inl NullDeref | Some x \<Rightarrow> Inr x)"

lemma deref_Some [simp]: "deref (Some x) = Inr x"
  by (simp add: deref_def)

definition CService_start ::
    "(int \<Rightarrow> (int \<times> int) option \<times> nat option) \<Rightarrow> bool \<Rightarrow> nat \<Rightarrow> world \<Rightarrow> 'a CService_scheme \<Rightarrow>
     (bool \<times> world \<times> 'a CService_scheme) checked" where
  "CService_start os written this w s =
     bind_ub (deref (sv_listenPool s)) (\<lambda>listen.
     let (w, listen) = pool_init os 1 w listen in
     bind_ub (deref (sv_clientPool s)) (\<lambda>client.
     let (w, client) = pool_init os (sv_threadCount s) w client in
     bind_ub (dispatch written (Some this) w listen) (\<lambda>(base, w, listen).
     Inr (True, w, s\<lparr>m_base := base, sv_listenPool := Some listen, sv_clientPool := Some client\<rparr>))))"

text \<open>
  \<open>listenCb\<close>: the client's socket, its address as text (what \<open>evutil_inet_ntop\<close> writes into
  the local \<open>ip\<close>) and the raw \<open>sin_port\<close>. The handle object is referenced by \<open>ref\<close>.
\<close>

definition listenCb ::
    "('a CService_scheme \<Rightarrow> ('b, 'c) CComeTask_scheme \<times> 'a CService_scheme) \<Rightarrow> bool \<Rightarrow> nat \<Rightarrow>
     int \<Rightarrow> string \<Rightarrow> 16 word \<Rightarrow> world \<Rightarrow> 'a CService_scheme \<Rightarrow>
     (('b, 'c) CComeTask_scheme \<times> world \<times> 'a CService_scheme) checked" where
  "listenCb createServiceHandle written ref clientSock ip sin_port w s =
     (let (handle, s) = createServiceHandle s;
          handle = handle\<lparr>m_sock := clientSock\<rparr>;
          handle = handle\<lparr>m_sslCtx := sv_sslCtx s\<rparr>;
          handle = setClientIp (Some ip) handle;
          handle = handle\<lparr>m_clientPort := uint sin_port\<rparr> in
      bind_ub (deref (sv_clientPool s)) (\<lambda>client.
      bind_ub (dispatch written (Some ref) w client) (\<lambda>(base, w, client).
      Inr (handle\<lparr>m_base := base\<rparr>, w, s\<lparr>sv_clientPool := Some client\<rparr>))))"

section \<open>CServiceClient\<close>

record 'b CServiceClient = "'b CMsgEvent" +
  cc_threadPool :: "CCThreadPool option"

definition startConnect ::
    "(int \<Rightarrow> (int \<times> int) option \<times> nat option) \<Rightarrow> bool \<Rightarrow> nat \<Rightarrow> world \<Rightarrow>
     ('b, 'a) CServiceClient_scheme \<Rightarrow> (world \<times> ('b, 'a) CServiceClient_scheme) checked" where
  "startConnect os written this w c =
     bind_ub (deref (cc_threadPool c)) (\<lambda>pool.
     let (w, pool) = pool_init os 1 w pool in
     bind_ub (dispatch written (Some this) w pool) (\<lambda>(base, w, pool).
     Inr (w, c\<lparr>m_base := base, cc_threadPool := Some pool, m_autoDelete := False\<rparr>)))"

section \<open>Properties\<close>

text \<open>
  A started server handles its connections. After \<open>start\<close> the pool for clients has ten
  threads in a defined state, the server itself is queued on the listening thread, and every
  connection accepted then is queued without failing, with the client's socket, address and
  the server's TLS context in its handle.
\<close>

theorem accepted_connection_is_queued:
  assumes "CService_new True True f = Some (s0, f')"
    and "CService_start os b this w s0 = Inr (ok, w1, s)"
    and "createServiceHandle s = (h, s)"
  shows "\<exists>handle w2 s2 r. listenCb createServiceHandle b2 ref sock ip port w1 s = Inr (handle, w2, s2) \<and>
    m_sock handle = sock \<and> m_sslCtx handle = sv_sslCtx s \<and> m_clientIp handle = strncpy 16 ip \<and>
    r < length (w_allThreads w2) \<and> last (th_tasks (w_allThreads w2 ! r)) = ref \<and>
    m_base handle = th_base (w_allThreads w2 ! r)"
proof -
  have s0: "sv_listenPool s0 = Some CCThreadPool_new" "sv_clientPool s0 = Some CCThreadPool_new"
    "sv_threadCount s0 = 10"
    using assms(1) by (auto simp: CService_new_def pool_create_def bind_eq_Some_conv split: if_splits)
  obtain wa la where a: "pool_init os (int 1) w CCThreadPool_new = (wa, la)" by force
  obtain wb cb where c: "pool_init os (int 10) wa CCThreadPool_new = (wb, cb)" by force
  note la = pool_init_ok [OF _ a, simplified]
  note cb = pool_init_ok [OF _ c, simplified]
  have "w_allThreads wb = w_allThreads wa @ new_threads os 10 0"
    using c by (auto simp: pool_init_def start_threads_ok)
  then have "pool_ok 1 wb la" using la(1) by (auto simp: pool_ok_def)
  from dispatch_ok(1) [OF this, of b this] obtain base la' where
    d: "dispatch b (Some this) wb la = Inr (base, w1, la')" and s: "s = s0\<lparr>m_base := base,
      sv_listenPool := Some la', sv_clientPool := Some cb\<rparr>"
    and len: "length (w_allThreads w1) = length (w_allThreads wb)"
    using assms(2) s0 a c by (auto simp: CService_start_def)
  have ok: "pool_ok 10 w1 cb" using cb(1) len by (simp add: pool_ok_def)
  let ?r = "tp_threads cb ! nat ((tp_lastThread cb + 1) mod int 10)"
  note dd = dispatch_ok [OF ok]
  have cp: "sv_clientPool s = Some cb" by (simp add: s)
  define w2 where "w2 = w1\<lparr>w_allThreads := (w_allThreads w1)
    [?r := activate b2 (snd (addTask ref (w_allThreads w1 ! ?r)))]\<rparr>"
  have "listenCb createServiceHandle b2 ref sock ip port w1 s =
      Inr (h\<lparr>m_sock := sock, m_sslCtx := sv_sslCtx s, m_clientIp := strncpy 16 ip,
        m_clientPort := uint port, m_base := th_base (w_allThreads w1 ! ?r)\<rparr>, w2,
        s\<lparr>sv_clientPool := Some (cb\<lparr>tp_lastThread := int (nat ((tp_lastThread cb + 1) mod int 10))\<rparr>)\<rparr>)"
    unfolding listenCb_def assms(3) Let_def case_prod_conv
    by (simp add: cp dd(1) w2_def setClientIp_def)
  moreover have "?r < length (w_allThreads w2)" "last (th_tasks (w_allThreads w2 ! ?r)) = ref"
    "th_base (w_allThreads w1 ! ?r) = th_base (w_allThreads w2 ! ?r)"
    using dd(3) by (simp_all add: w2_def addTask_def activate_def)
  ultimately show ?thesis by fastforce
qed

definition sample_server :: CService where
  "sample_server = fst (the (CService_new True True \<lparr>f_locked = False, f_isInit = False\<rparr>))"

lemma sample_server_new:
  "CService_new True True \<lparr>f_locked = False, f_isInit = False\<rparr> =
    Some (sample_server, \<lparr>f_locked = False, f_isInit = True\<rparr>)"
  by (simp add: sample_server_def CService_new_def pool_create_def)

theorem accepted_connection_is_queued_witness:
  "\<exists>ok w1 s handle w2 s2. CService_start (\<lambda>_. (Some (3, 4), Some 0)) True 1 empty_world sample_server = Inr (ok, w1, s) \<and>
     listenCb (\<lambda>s. (CMsgEvent_new :: buffers CMsgEvent, s)) True 2 9 ''10.0.0.7'' 80 w1 s = Inr (handle, w2, s2) \<and>
     m_sock handle = 9"
proof -
  have "sv_listenPool sample_server = Some CCThreadPool_new" "sv_clientPool sample_server = Some CCThreadPool_new"
    by (simp_all add: sample_server_def CService_new_def pool_create_def)
  then obtain ok w1 s where
    "CService_start (\<lambda>_. (Some (3, 4), Some 0)) True 1 empty_world sample_server = Inr (ok, w1, s)"
    by (simp add: CService_start_def case_prod_beta pool_init_def start_threads_ok CCThreadPool_new_def
        dispatch_def next_thread_def c_mod_def vec_at_def empty_world_def new_threads_def addTask_def)
  with accepted_connection_is_queued [OF sample_server_new this,
      of "\<lambda>s. (CMsgEvent_new :: buffers CMsgEvent, s)" CMsgEvent_new True 2 9 "''10.0.0.7''" 80]
  show ?thesis by blast
qed

text \<open>
  The port of a client is stored with its bytes swapped. \<open>listenCb\<close> copies \<open>sin_port\<close>,
  which is in network order: the handle of a client on port \<open>p\<close> holds \<open>htons p\<close>, which is
  \<open>p\<close> only when both bytes of \<open>p\<close> are the same.
\<close>

theorem client_port_swapped:
  assumes "listenCb createServiceHandle b ref sock ip (htons p) w s = Inr (handle, w', s')"
  shows "m_clientPort handle = uint (htons p) \<and>
    (m_clientPort handle = uint p \<longleftrightarrow> unat p mod 256 = unat p div 256)"
proof -
  have "m_clientPort handle = uint (htons p)"
    using assms by (auto simp: listenCb_def Let_def bind_ub_Inr_iff split: prod.splits)
  then show ?thesis by (simp add: htons_same)
qed

theorem client_port_swapped_witness:
  "\<exists>w (s :: CService) handle w' s'. listenCb (\<lambda>s. (CMsgEvent_new :: buffers CMsgEvent, s)) True 2 9 ''10.0.0.7''
     (htons 1) w s = Inr (handle, w', s') \<and> m_clientPort handle = 256"
proof -
  let ?w = "\<lparr>w_isAllExit = False, w_allThreads = [CThread_new\<lparr>th_base := Some 0\<rparr>]\<rparr>"
  let ?s = "sample_server\<lparr>sv_clientPool := Some \<lparr>tp_threadNums = 1, tp_lastThread = 0, tp_threads = [0]\<rparr>\<rparr>"
  obtain handle w' s' where l: "listenCb (\<lambda>s. (CMsgEvent_new :: buffers CMsgEvent, s)) True 2 9
      ''10.0.0.7'' (htons 1) ?w ?s = Inr (handle, w', s')"
    by (simp add: listenCb_def dispatch_def next_thread_def c_mod_def vec_at_def addTask_def)
  have "m_clientPort handle = uint (htons 1)" using client_port_swapped [OF l] by blast
  then have "m_clientPort handle = 256" by (simp add: htons_def)
  with l show ?thesis by blast
qed

end
