(* ===== verification/MsgEvent_Facts.thy ===== *)
theory MsgEvent_Facts
  imports MsgEvent
begin

text \<open>
  The message layer delivers what was sent. The locale \<open>channel\<close> joins the documented
  behaviour of the bufferevent and of the protobuf readers; the lemmas follow the three stages
  of \<open>recvMsg\<close> and then the loop.
\<close>

section \<open>Small facts\<close>

lemma sint_word_of_nat: "n < 2 ^ 31 \<Longrightarrow> sint (word_of_nat n :: int32) = int n"
  by (simp add: signed_of_nat signed_take_bit_int_eq_self)

lemma pending_upd [simp]:
  "pending inb (t\<lparr>m_head := x\<rparr>) = pending inb t" "pending inb (t\<lparr>m_msg := y\<rparr>) = pending inb t"
  "pending inb (t\<lparr>m_pbHead := z\<rparr>) = pending inb t"
  "sent outb (t\<lparr>m_head := x\<rparr>) = sent outb t" "sent outb (t\<lparr>m_msg := y\<rparr>) = sent outb t"
  "sent outb (t\<lparr>m_pbHead := z\<rparr>) = sent outb t"
  by (simp_all add: pending_def sent_def)

lemma clear_sel [simp]:
  "pending inb (CMsgEvent_clear t) = pending inb t" "sent outb (CMsgEvent_clear t) = sent outb t"
  "m_pbHead (CMsgEvent_clear t) = m_pbHead t" "m_bev (CMsgEvent_clear t) = m_bev t"
  "deleted (CMsgEvent_clear t) = deleted t"
  "m_head (CMsgEvent_clear t) = CMsg_new" "m_msg (CMsgEvent_clear t) = CMsg_new"
  by (simp_all add: CMsgEvent_clear_def CMsg_clear_new)

lemma msg_size_nat: "frame_ok rt m \<Longrightarrow> sint (msg_size (fst m)) = int (length (snd m))"
  by (simp add: frame_ok_def sint_word_of_nat)

lemma msg_size_zero: "frame_ok rt m \<Longrightarrow> msg_size (fst m) = 0 \<longleftrightarrow> snd m = []"
  using msg_size_nat [of rt m] by (auto simp: frame_ok_def)

text \<open>A callback that reads nothing itself, keeps the object alive and does not fail.\<close>

definition quiet :: "('b \<Rightarrow> string) \<Rightarrow> ('b, 'a) CMsgEvent_scheme msg_cb \<Rightarrow> bool" where
  "quiet inb cb \<longleftrightarrow> (\<forall>h m t. \<exists>h' t'. cb h m t = Inr (h', t') \<and>
     pending inb t' = pending inb t \<and> deleted t' = deleted t)"

text \<open>
  Both receive buffers are within their arrays and the size limit, and the body buffer is
  empty until the head is complete.
\<close>

definition recv_ok :: "('b, 'a) CMsgEvent_scheme \<Rightarrow> bool" where
  "recv_ok t \<longleftrightarrow> buf_ok (m_head t) \<and> buf_ok (m_msg t) \<and>
     (m_size (m_head t) = 0 \<or> \<not> recved (m_head t) \<longrightarrow> m_msg t = CMsg_new)"

lemma recv_ok_clean: "clean t \<Longrightarrow> recv_ok t"
  by (simp add: clean_def recv_ok_def)

text \<open>The head is there, and \<open>got\<close> of the \<open>n\<close> bytes of the body.\<close>

definition waiting :: "('b, 'a) CMsgEvent_scheme \<Rightarrow> CMsgHead \<Rightarrow> nat \<Rightarrow> string \<Rightarrow> bool" where
  "waiting t h n got \<longleftrightarrow> m_pbHead t = Some h \<and> recved (m_head t) \<and> m_size (m_head t) \<noteq> 0 \<and>
     length got < n \<and>
     (\<exists>d. m_msg t = \<lparr>m_size = int n, m_recvSize = int (length got), m_data = Some d,
        m_type = msg_type h\<rparr> \<and> length d = n \<and> take (length got) d = got)"

locale channel = bufferevent "p_libevent P" inb outb + coded_input "p_protobuf P"
  for P :: "'b platform" and inb outb :: "'b \<Rightarrow> string"
begin

section \<open>One frame\<close>

lemma recv_size_frame:
  assumes "clean t" "pending inb t = mem_of_int32 (word_of_nat n) @ rest" "0 < n" "n \<le> 8192"
  obtains b where
    "recv_size P t = (True, t\<lparr>m_bev := b, m_head := \<lparr>m_size = int n, m_recvSize = 0,
       m_data = Some (map (p_junk P) [0..<n]), m_type = NONE_DO_NOT_USE\<rparr>\<rparr>)"
    "contents inb b = rest" "contents outb b = sent outb t"
proof -
  obtain bytes t1 where r: "readMsg (p_libevent P) (int 4) t = (bytes, t1)" by force
  note rp = readMsg_pending [OF r]
  obtain b where t1: "t1 = t\<lparr>m_bev := b\<rparr>" using rp(4) by blast
  have bytes: "bytes = mem_of_int32 (word_of_nat n)" using rp(1) assms(2) by simp
  have "bytes \<noteq> []" using bytes length_mem_of_int32 [of "word_of_nat n"] by force
  then have "recv_size P t = (True, t\<lparr>m_bev := b, m_head := \<lparr>m_size = int n, m_recvSize = 0,
       m_data = Some (map (p_junk P) [0..<n]), m_type = NONE_DO_NOT_USE\<rparr>\<rparr>)"
    using assms r t1 bytes
    by (simp add: recv_size_def clean_def CMsg_new_def sint_word_of_nat alloc_def MAX_MSG_SIZE_def)
  moreover have "contents inb b = rest" "contents outb b = sent outb t" using rp(3) t1 rp(2) assms(2) by (simp_all add: pending_def sent_def)
  ultimately show ?thesis by (rule that)
qed

lemma recv_head_frame:
  assumes "frame_ok (p_protobuf P) m" "m_msg t = CMsg_new"
    and "m_head t = \<lparr>m_size = int (length (CMsgHead_Serialize (fst m))), m_recvSize = 0,
      m_data = Some d, m_type = ty\<rparr>" "length d = length (CMsgHead_Serialize (fst m))"
    and "pending inb t = CMsgHead_Serialize (fst m) @ rest"
  obtains b h where
    "recv_head P t = (if snd m = [] then Some True else None, t\<lparr>m_bev := b, m_head := h,
       m_pbHead := Some (fst m), m_msg := \<lparr>m_size = int (length (snd m)), m_recvSize = 0,
       m_data = (if snd m = [] then None else Some (map (p_junk P) [0..<length (snd m)])),
       m_type = msg_type (fst m)\<rparr>\<rparr>)"
    "contents inb b = rest" "contents outb b = sent outb t" "recved h" "m_size h \<noteq> 0"
proof -
  let ?hs = "CMsgHead_Serialize (fst m)"
  obtain bytes t1 where r: "readMsg (p_libevent P) (int (length ?hs)) t = (bytes, t1)" by force
  note rp = readMsg_pending [OF r]
  obtain b where t1: "t1 = t\<lparr>m_bev := b\<rparr>" using rp(4) by blast
  have bytes: "bytes = ?hs" using rp(1) assms(5) by simp
  have ne: "?hs \<noteq> []" "length (snd m) \<le> 8192" "CMsgHead_wf (p_protobuf P) (fst m)"
    using assms(1) by (auto simp: frame_ok_def)
  let ?h = "received ?hs (m_head t)"
  have h: "?h = \<lparr>m_size = int (length ?hs), m_recvSize = int (length ?hs), m_data = Some ?hs, m_type = ty\<rparr>"
    using assms(4) by (simp add: received_def assms(3) write_at_whole)
  have "recv_head P t = (if snd m = [] then Some True else None, t\<lparr>m_bev := b, m_head := ?h,
       m_pbHead := Some (fst m), m_msg := \<lparr>m_size = int (length (snd m)), m_recvSize = 0,
       m_data = (if snd m = [] then None else Some (map (p_junk P) [0..<length (snd m)])),
       m_type = msg_type (fst m)\<rparr>\<rparr>)"
    using ne r assms(2) msg_size_nat [OF assms(1)] msg_size_zero [OF assms(1)]
    unfolding t1 bytes
    by (auto simp: recv_head_def recved_def assms(3) h [unfolded assms(3)] msg_bytes_def
        CMsgHead_roundtrip alloc_def MAX_MSG_SIZE_def Let_def CMsg_new_def)
  moreover have "contents inb b = rest" "contents outb b = sent outb t" using rp(3) t1 rp(2) assms(5) by (simp_all add: pending_def sent_def)
  moreover have "recved ?h" "m_size ?h \<noteq> 0" using ne(1) by (simp_all add: h recved_def)
  ultimately show ?thesis by (rule that)
qed

lemma recv_body_waiting:
  assumes "waiting t h n got" "pending inb t = y @ rest" "length got + length y \<le> n"
    and "rest = [] \<or> length got + length y = n"
  obtains t1 where "recv_body P t = (True, t1)" "pending inb t1 = rest" "sent outb t1 = sent outb t"
    "deleted t1 = deleted t" "m_pbHead t1 = Some h"
    "if length got + length y = n then m_msg t1 = snd (delivered (h, got @ y))
     else waiting t1 h n (got @ y)"
proof -
  obtain d where m: "m_msg t = \<lparr>m_size = int n, m_recvSize = int (length got), m_data = Some d,
      m_type = msg_type h\<rparr>" "length d = n" "take (length got) d = got" "length got < n"
    and w: "m_pbHead t = Some h" "recved (m_head t)" "m_size (m_head t) \<noteq> 0"
    using assms(1) by (auto simp: waiting_def)
  obtain bytes t1 where r: "readMsg (p_libevent P) (int (n - length got)) t = (bytes, t1)" by force
  note rp = readMsg_pending [OF r]
  obtain b where t1: "t1 = t\<lparr>m_bev := b\<rparr>" using rp(4) by blast
  have bytes: "bytes = y" "pending inb t1 = rest" using rp(1,2) assms(2-4) by auto
  have n: "int (n - length got) = int n - int (length got)" using m(4) by simp
  define d' where "d' = write_at d (length got) y"
  have d': "length d' = n" "take (length got + length y) d' = got @ y"
    using m(2-4) assms(3) by (simp_all add: d'_def take_write_at)
  let ?m = "\<lparr>m_size = int n, m_recvSize = int (length got + length y), m_data = Some d', m_type = msg_type h\<rparr>"
  define t2 where "t2 = (if y = [] then t1 else t1\<lparr>m_msg := ?m\<rparr>)"
  have t2: "m_msg t2 = ?m" "m_pbHead t2 = Some h" "m_head t2 = m_head t" "m_bev t2 = b"
    "deleted t2 = deleted t"
    using m(1) w(1) by (simp_all add: t2_def t1 d'_def)
  have "recv_body P t = (True, t2)"
    using r m unfolding t1 bytes(1) n t2_def
    by (simp add: recv_body_def recved_def received_def d'_def)
  moreover have "if length got + length y = n then m_msg t2 = snd (delivered (h, got @ y))
     else waiting t2 h n (got @ y)"
  proof (cases "length got + length y = n")
    case True
    then have "d' = got @ y" "got @ y \<noteq> []" using d' m(4) by auto
    with True show ?thesis by (simp add: t2(1) delivered_def)
  next
    case False
    then have "length (got @ y) < n" using assms(3) by simp
    then have "waiting t2 h n (got @ y)"
      unfolding waiting_def t2(1-3) using w d' by simp
    with False show ?thesis by simp
  qed
  moreover have "pending inb t2 = rest" "sent outb t2 = sent outb t"
    using bytes(2) rp(3) t2(4) by (simp_all add: t1 pending_def sent_def)
  ultimately show ?thesis using t2(2,5) by (intro that)
qed

lemma recvMsg_waiting: "waiting t h n got \<Longrightarrow> recvMsg P t = recv_body P t"
  by (auto simp: recvMsg_def recv_size_def recv_head_def waiting_def)

lemma recvMsg_open:
  assumes "clean t" "frame_ok (p_protobuf P) m"
    and "pending inb t = mem_of_int32 (word_of_nat (length (CMsgHead_Serialize (fst m)))) @
      CMsgHead_Serialize (fst m) @ tail"
  obtains t1 where "recvMsg P t = (if snd m = [] then (True, t1) else recv_body P t1)"
    "pending inb t1 = tail" "sent outb t1 = sent outb t" "deleted t1 = deleted t"
    "m_pbHead t1 = Some (fst m)"
    "if snd m = [] then m_msg t1 = snd (delivered m) else waiting t1 (fst m) (length (snd m)) []"
proof -
  let ?hs = "CMsgHead_Serialize (fst m)"
  have hs: "0 < length ?hs" "length ?hs \<le> 8192" using assms(2) by (auto simp: frame_ok_def)
  obtain b1 where 1: "recv_size P t = (True, t\<lparr>m_bev := b1, m_head := \<lparr>m_size = int (length ?hs),
      m_recvSize = 0, m_data = Some (map (p_junk P) [0..<length ?hs]), m_type = NONE_DO_NOT_USE\<rparr>\<rparr>)"
    "contents inb b1 = ?hs @ tail" "contents outb b1 = sent outb t"
    by (rule recv_size_frame [OF assms(1,3) hs])
  let ?t1 = "t\<lparr>m_bev := b1, m_head := \<lparr>m_size = int (length ?hs), m_recvSize = 0,
      m_data = Some (map (p_junk P) [0..<length ?hs]), m_type = NONE_DO_NOT_USE\<rparr>\<rparr>"
  have q: "m_msg ?t1 = CMsg_new" "m_head ?t1 = \<lparr>m_size = int (length ?hs), m_recvSize = 0,
      m_data = Some (map (p_junk P) [0..<length ?hs]), m_type = NONE_DO_NOT_USE\<rparr>"
    "length (map (p_junk P) [0..<length ?hs]) = length ?hs" "pending inb ?t1 = ?hs @ tail"
    using 1 assms(1) by (simp_all add: clean_def pending_def)
  obtain b2 h where 2: "recv_head P ?t1 = (if snd m = [] then Some True else None,
      ?t1\<lparr>m_bev := b2, m_head := h, m_pbHead := Some (fst m),
        m_msg := \<lparr>m_size = int (length (snd m)), m_recvSize = 0,
          m_data = (if snd m = [] then None else Some (map (p_junk P) [0..<length (snd m)])),
          m_type = msg_type (fst m)\<rparr>\<rparr>)"
    "contents inb b2 = tail" "contents outb b2 = sent outb ?t1" "recved h" "m_size h \<noteq> 0"
    by (rule recv_head_frame [OF assms(2) q])
  let ?t2 = "?t1\<lparr>m_bev := b2, m_head := h, m_pbHead := Some (fst m),
        m_msg := \<lparr>m_size = int (length (snd m)), m_recvSize = 0,
          m_data = (if snd m = [] then None else Some (map (p_junk P) [0..<length (snd m)])),
          m_type = msg_type (fst m)\<rparr>\<rparr>"
  show ?thesis
  proof (rule that [of ?t2])
    show "recvMsg P t = (if snd m = [] then (True, ?t2) else recv_body P ?t2)"
      using 1 2 by (simp add: recvMsg_def)
    show "sent outb ?t2 = sent outb t" using 1 2 by (simp add: sent_def)
    show "if snd m = [] then m_msg ?t2 = snd (delivered m) else waiting ?t2 (fst m) (length (snd m)) []"
      using 2 by (simp add: delivered_def waiting_def)
  qed (use 2 in \<open>simp_all add: pending_def\<close>)
qed

lemma recvMsg_frame:
  assumes "clean t" "frame_ok (p_protobuf P) m" "pending inb t = frame m @ rest"
  obtains t1 where "recvMsg P t = (True, t1)" "pending inb t1 = rest" "sent outb t1 = sent outb t"
    "deleted t1 = deleted t" "m_pbHead t1 = Some (fst m)" "m_msg t1 = snd (delivered m)"
proof -
  obtain t1 where 1: "recvMsg P t = (if snd m = [] then (True, t1) else recv_body P t1)"
    "pending inb t1 = snd m @ rest" "sent outb t1 = sent outb t" "deleted t1 = deleted t"
    "m_pbHead t1 = Some (fst m)"
    "if snd m = [] then m_msg t1 = snd (delivered m) else waiting t1 (fst m) (length (snd m)) []"
    by (rule recvMsg_open [OF assms(1,2), of "snd m @ rest"]) (use assms(3) in \<open>simp_all add: frame_def\<close>)
  show ?thesis
  proof (cases "snd m = []")
    case True
    with 1 show ?thesis by (intro that [of t1]) simp_all
  next
    case False
    with 1 have w: "waiting t1 (fst m) (length (snd m)) []" by simp
    show ?thesis
      by (rule recv_body_waiting [OF w 1(2)]) (use 1 False that in simp_all)
  qed
qed

lemma recvMsg_nothing:
  assumes "clean t" "pending inb t = []"
  obtains b where "recvMsg P t = (False, t\<lparr>m_bev := b\<rparr>)" "contents inb b = []"
    "contents outb b = sent outb t"
proof -
  obtain bytes t1 where r: "readMsg (p_libevent P) (int 4) t = (bytes, t1)" by force
  note rp = readMsg_pending [OF r]
  obtain b where t1: "t1 = t\<lparr>m_bev := b\<rparr>" using rp(4) by blast
  have "m_head t = CMsg_new" "bytes = []" using assms rp(1) by (simp_all add: clean_def)
  then have "recvMsg P t = (False, t\<lparr>m_bev := b\<rparr>)"
    using r t1 by (simp add: recvMsg_def recv_size_def CMsg_new_def)
  with that rp assms(2) t1 show ?thesis by (simp add: pending_def sent_def)
qed

section \<open>The loop\<close>

lemma readCb_nothing:
  assumes "clean t" "pending inb t = []"
  obtains t' where "readCb P cb t = Some (Inr ([], t'))" "clean t'" "pending inb t' = []"
    "deleted t' = deleted t" "m_pbHead t' = m_pbHead t" "sent outb t' = sent outb t"
proof -
  obtain b where "recvMsg P t = (False, t\<lparr>m_bev := b\<rparr>)" "contents inb b = []"
    "contents outb b = sent outb t" by (rule recvMsg_nothing [OF assms])
  then show ?thesis
    by (intro that [of "CMsgEvent_clear (t\<lparr>m_bev := b\<rparr>)"])
       (simp_all add: readCb.simps [of P cb t] pending_def sent_def)
qed

lemma readCb_dispatch:
  assumes "recvMsg P t = (True, t1)" "m_pbHead t1 = Some h" "getMsg t1 = Some m"
    and "cb h m t1 = Inr (h', t2)" "\<not> deleted t2"
    and "readCb P cb (CMsgEvent_clear (t2\<lparr>m_pbHead := Some h'\<rparr>)) = Some (Inr (ms, t'))"
  shows "readCb P cb t = Some (Inr ((h, m) # ms, t'))"
  using assms by (simp add: readCb.simps [of P cb t])

lemma readCb_waits:
  assumes "recvMsg P t = (True, t1)" "m_pbHead t1 = Some h" "getMsg t1 = None"
  shows "readCb P cb t = Some (Inr ([], t1))"
  using assms by (simp add: readCb.simps [of P cb t])

lemma getMsg_delivered: "m_msg t = snd (delivered m) \<Longrightarrow> getMsg t = Some (snd (delivered m))"
  by (simp add: getMsg_def delivered_def recved_def)

lemma getMsg_waiting: "waiting t h n got \<Longrightarrow> getMsg t = None"
  by (auto simp: waiting_def getMsg_def recved_def)

lemma clean_after [simp]:
  "pending inb (CMsgEvent_clear (t\<lparr>m_pbHead := x\<rparr>)) = pending inb t"
  "deleted (CMsgEvent_clear (t\<lparr>m_pbHead := x\<rparr>)) = deleted t"
  by (simp_all add: CMsgEvent_clear_def pending_def)

lemma readCb_frames:
  assumes "quiet inb cb" "\<forall>m \<in> set ms. frame_ok (p_protobuf P) m"
    and "clean t" "\<not> deleted t" "pending inb t = concat (map frame ms) @ rest"
    and last: "\<And>u. clean u \<Longrightarrow> \<not> deleted u \<Longrightarrow> pending inb u = rest \<Longrightarrow>
      (ms \<noteq> [] \<longrightarrow> m_pbHead u \<noteq> None) \<Longrightarrow> (ms = [] \<longrightarrow> m_pbHead u = m_pbHead t) \<Longrightarrow>
      \<exists>ks t'. readCb P cb u = Some (Inr (ks, t')) \<and> Q ks t'"
  shows "\<exists>ks t'. readCb P cb t = Some (Inr (map delivered ms @ ks, t')) \<and> Q ks t'"
  using assms(2-)
proof (induction ms arbitrary: t)
  case Nil
  then show ?case using Nil.prems(5) [of t] by simp
next
  case (Cons m ms)
  have p: "pending inb t = frame m @ concat (map frame ms) @ rest" using Cons.prems(4) by simp
  obtain t1 where 1: "recvMsg P t = (True, t1)" "pending inb t1 = concat (map frame ms) @ rest"
    "deleted t1 = deleted t" "m_pbHead t1 = Some (fst m)" "m_msg t1 = snd (delivered m)"
    by (rule recvMsg_frame [OF Cons.prems(2) _ p]) (use Cons.prems(1) in auto)
  obtain h' t2 where 2: "cb (fst m) (snd (delivered m)) t1 = Inr (h', t2)"
    "pending inb t2 = pending inb t1" "deleted t2 = deleted t1"
    using assms(1) unfolding quiet_def by blast
  let ?u = "CMsgEvent_clear (t2\<lparr>m_pbHead := Some h'\<rparr>)"
  have "\<exists>ks t'. readCb P cb ?u = Some (Inr (map delivered ms @ ks, t')) \<and> Q ks t'"
  proof (rule Cons.IH)
    show "\<exists>ks t'. readCb P cb u = Some (Inr (ks, t')) \<and> Q ks t'"
      if "clean u" "\<not> deleted u" "pending inb u = rest" "ms \<noteq> [] \<longrightarrow> m_pbHead u \<noteq> None"
        "ms = [] \<longrightarrow> m_pbHead u = m_pbHead ?u" for u
      by (rule Cons.prems(5)) (use that in auto)
  qed (use Cons.prems(1,3) 1 2 in simp_all)
  then obtain ks t' where 3: "readCb P cb ?u = Some (Inr (map delivered ms @ ks, t'))" "Q ks t'"
    by blast
  have "readCb P cb t = Some (Inr ((fst m, snd (delivered m)) # map delivered ms @ ks, t'))"
    by (rule readCb_dispatch [OF 1(1,4) getMsg_delivered [OF 1(5)] 2(1) _ 3(1)])
       (use 1 2 Cons.prems(3) in simp)
  moreover have "(fst m, snd (delivered m)) = delivered m" by (simp add: delivered_def)
  ultimately show ?case using 3(2) by simp
qed

section \<open>Bounds and progress\<close>

lemma received_buf_ok:
  assumes "buf_ok m" "length bytes \<le> nat (m_size m - m_recvSize m)"
  shows "buf_ok (received bytes m)"
proof -
  have r: "0 \<le> m_recvSize m" "m_recvSize m \<le> m_size m" using assms(1) by (auto simp: buf_ok_def)
  then have l: "nat (m_recvSize m) + length bytes \<le> nat (m_size m)" using assms(2) by linarith
  then have "m_recvSize m + int (length bytes) \<le> m_size m" using r by linarith
  with l r assms(1) show ?thesis by (auto simp: buf_ok_def received_def)
qed

lemma recv_size_bounds:
  assumes "recv_size P t = (True, t1)" "recv_ok t"
  shows "recv_ok t1" "length (pending inb t1) \<le> length (pending inb t)"
    "m_size (m_head t) = 0 \<Longrightarrow> length (pending inb t1) < length (pending inb t)"
proof -
  obtain bytes t2 where r: "readMsg (p_libevent P) (int 4) t = (bytes, t2)" by force
  note rp = readMsg_pending [OF r]
  obtain b where t2: "t2 = t\<lparr>m_bev := b\<rparr>" using rp(4) by blast
  have c: "bytes \<noteq> [] \<Longrightarrow> length (contents inb b) < length (pending inb t)"
    using rp(1,2) t2 by (auto simp: pending_def)
  show "recv_ok t1" "length (pending inb t1) \<le> length (pending inb t)"
    "m_size (m_head t) = 0 \<Longrightarrow> length (pending inb t1) < length (pending inb t)"
    using assms r c
    by (auto simp: recv_size_def recv_ok_def t2 Let_def alloc_def buf_ok_def MAX_MSG_SIZE_def
        pending_def split: if_splits prod.splits)
qed

lemma recv_head_bounds:
  assumes "recv_head P t = (r, t1)" "recv_ok t"
  shows "recv_ok t1" "length (pending inb t1) \<le> length (pending inb t)"
proof -
  let ?n = "nat (m_size (m_head t) - m_recvSize (m_head t))"
  obtain bytes t2 where rd: "readMsg (p_libevent P) (int ?n) t = (bytes, t2)" by force
  note rp = readMsg_pending [OF rd]
  obtain b where t2: "t2 = t\<lparr>m_bev := b\<rparr>" using rp(4) by blast
  have c: "length (contents inb b) \<le> length (pending inb t)"
    using rp(2) t2 by (auto simp: pending_def)
  have "int ?n = m_size (m_head t) - m_recvSize (m_head t)"
    using assms(2) by (simp add: recv_ok_def buf_ok_def)
  then have rd': "readMsg (p_libevent P) (m_size (m_head t) - m_recvSize (m_head t)) t = (bytes, t\<lparr>m_bev := b\<rparr>)"
    using rd t2 by simp
  have h: "buf_ok (received bytes (m_head t))"
    by (rule received_buf_ok) (use assms(2) rp(1) in \<open>simp_all add: recv_ok_def\<close>)
  have sz: "m_size (received bytes (m_head t)) = m_size (m_head t)" by (simp add: received_def)
  have ty: "buf_ok (m\<lparr>m_type := y\<rparr>) = buf_ok m" for m y by (simp add: buf_ok_def)
  have e: "buf_ok (CMsg_new\<lparr>m_type := y, m_size := 0\<rparr>)" for y
    by (simp add: buf_ok_def CMsg_new_def MAX_MSG_SIZE_def)
  have al: "alloc (p_junk P) s m = (ok, m') \<Longrightarrow> buf_ok m \<Longrightarrow> buf_ok m'" for s m ok m'
    using buf_ok_alloc [of "p_junk P" s m m'] by (cases ok) (auto simp: alloc_def split: if_splits)
  show "recv_ok t1" "length (pending inb t1) \<le> length (pending inb t)"
  proof -
    show "recv_ok t1"
    proof (cases "recved (m_head t) \<or> bytes = []")
      case True
      with assms show ?thesis by (auto simp: recv_head_def rd' recv_ok_def split: if_splits)
    next
      case False
      then have new: "m_msg t = CMsg_new" "m_size (m_head t) \<noteq> 0"
        using assms(2) by (auto simp: recv_ok_def buf_ok_def recved_def)
      show ?thesis
      proof (cases "recved (received bytes (m_head t))")
        case True
        with False new assms h sz ty e show ?thesis
          unfolding recv_head_def recv_ok_def rd'
          by (auto simp: Let_def split: if_splits option.splits prod.splits dest: al)
      next
        case nr: False
        with False new assms h show ?thesis
          by (auto simp: recv_head_def recv_ok_def rd')
      qed
    qed
    show "length (pending inb t1) \<le> length (pending inb t)"
      using assms c
      by (auto simp: recv_head_def rd' Let_def pending_def split: if_splits option.splits prod.splits)
  qed
qed

lemma recv_body_bounds:
  assumes "recv_body P t = (r, t1)" "recv_ok t" "recved (m_head t)" "m_size (m_head t) \<noteq> 0"
  shows "recv_ok t1" "length (pending inb t1) \<le> length (pending inb t)"
proof -
  let ?n = "nat (m_size (m_msg t) - m_recvSize (m_msg t))"
  obtain bytes t2 where rd: "readMsg (p_libevent P) (int ?n) t = (bytes, t2)" by force
  note rp = readMsg_pending [OF rd]
  obtain b where t2: "t2 = t\<lparr>m_bev := b\<rparr>" using rp(4) by blast
  have c: "length (contents inb b) \<le> length (pending inb t)"
    using rp(2) t2 by (auto simp: pending_def)
  have "int ?n = m_size (m_msg t) - m_recvSize (m_msg t)"
    using assms(2) by (simp add: recv_ok_def buf_ok_def)
  then have rd': "readMsg (p_libevent P) (m_size (m_msg t) - m_recvSize (m_msg t)) t = (bytes, t\<lparr>m_bev := b\<rparr>)"
    using rd t2 by simp
  have "buf_ok (received bytes (m_msg t))"
    by (rule received_buf_ok) (use assms(2) rp(1) in \<open>simp_all add: recv_ok_def\<close>)
  then show "recv_ok t1"
    using assms by (auto simp: recv_body_def rd' recv_ok_def split: if_splits)
  show "length (pending inb t1) \<le> length (pending inb t)"
    using assms(1) c by (auto simp: recv_body_def rd' pending_def split: if_splits)
qed

lemma recv_head_continue:
  assumes "recv_head P t = (None, t1)" "recv_ok t" "m_size (m_head t) \<noteq> 0"
  shows "recved (m_head t1)" "m_size (m_head t1) \<noteq> 0"
  using assms
  by (auto simp: recv_head_def readMsg_def Let_def received_def case_prod_beta
      split: if_splits option.splits)

lemma recv_size_nonzero:
  "recv_size P t = (True, t1) \<Longrightarrow> m_size (m_head t1) \<noteq> 0"
  by (auto simp: recv_size_def Let_def alloc_def split: if_splits prod.splits)

lemma recvMsg_bounds:
  assumes "recvMsg P t = (True, t1)" "recv_ok t"
  shows "recv_ok t1" "length (pending inb t1) \<le> length (pending inb t)"
    "m_size (m_head t) = 0 \<Longrightarrow> length (pending inb t1) < length (pending inb t)"
proof -
  obtain t2 where 2: "recv_size P t = (True, t2)"
    using assms(1) by (cases "recv_size P t") (auto simp: recvMsg_def split: bool.splits)
  note s = recv_size_bounds [OF 2 assms(2)] recv_size_nonzero [OF 2]
  obtain r t3 where 3: "recv_head P t2 = (r, t3)" by force
  note h = recv_head_bounds [OF 3 s(1)]
  have "recv_ok t1 \<and> length (pending inb t1) \<le> length (pending inb t3)"
  proof (cases r)
    case None
    then have "recv_body P t3 = (True, t1)" using assms(1) 2 3 by (simp add: recvMsg_def)
    then show ?thesis
      using recv_body_bounds recv_head_continue [OF _ s(1,4)] 3 None h(1) by blast
  next
    case (Some x)
    then show ?thesis using assms(1) 2 3 h(1) by (simp add: recvMsg_def)
  qed
  then show "recv_ok t1" "length (pending inb t1) \<le> length (pending inb t)"
    "m_size (m_head t) = 0 \<Longrightarrow> length (pending inb t1) < length (pending inb t)"
    using h(2) s(2,3) by auto
qed

lemma readCb_returns_fresh:
  assumes "\<And>h m t h' t'. cb h m t = Inr (h', t') \<Longrightarrow> length (pending inb t') \<le> length (pending inb t)"
    and "clean t"
  shows "readCb P cb t \<noteq> None"
  using assms(2)
proof (induction "length (pending inb t)" arbitrary: t rule: less_induct)
  case less
  obtain ok t1 where r: "recvMsg P t = (ok, t1)" by force
  show ?case
  proof (cases "ok \<and> m_pbHead t1 \<noteq> None \<and> getMsg t1 \<noteq> None")
    case True
    then obtain h m where hm: "m_pbHead t1 = Some h" "getMsg t1 = Some m" by auto
    have lt: "length (pending inb t1) < length (pending inb t)"
      by (rule recvMsg_bounds(3)) (use r True less.prems in \<open>auto simp: recv_ok_clean clean_def CMsg_new_def\<close>)
    show ?thesis
    proof (cases "cb h m t1")
      case (Inl u)
      with r True hm show ?thesis by (simp add: readCb.simps [of P cb t])
    next
      case (Inr q)
      obtain h' t2 where q: "q = (h', t2)" by force
      have "readCb P cb (CMsgEvent_clear (t2\<lparr>m_pbHead := Some h'\<rparr>)) \<noteq> None"
        by (rule less.hyps) (use lt assms(1) [OF Inr [unfolded q]] in simp_all)
      with r True hm Inr q show ?thesis by (auto simp: readCb.simps [of P cb t])
    qed
  next
    case False
    with r show ?thesis by (auto simp: readCb.simps [of P cb t] split: option.splits)
  qed
qed

lemma readCb_returns:
  assumes cb: "\<And>h m t h' t'. cb h m t = Inr (h', t') \<Longrightarrow> length (pending inb t') \<le> length (pending inb t)"
  shows "readCb P cb t \<noteq> None"
proof -
  obtain ok t1 where r: "recvMsg P t = (ok, t1)" by force
  show ?thesis
  proof (cases "ok \<and> m_pbHead t1 \<noteq> None \<and> getMsg t1 \<noteq> None")
    case True
    then obtain h m where hm: "m_pbHead t1 = Some h" "getMsg t1 = Some m" by auto
    show ?thesis
    proof (cases "cb h m t1")
      case (Inl u)
      with r True hm show ?thesis by (simp add: readCb.simps [of P cb t])
    next
      case (Inr q)
      obtain h' t2 where q: "q = (h', t2)" by force
      have "readCb P cb (CMsgEvent_clear (t2\<lparr>m_pbHead := Some h'\<rparr>)) \<noteq> None"
        by (rule readCb_returns_fresh [OF cb]) simp_all
      with r True hm Inr q show ?thesis by (auto simp: readCb.simps [of P cb t])
    qed
  next
    case False
    with r show ?thesis by (auto simp: readCb.simps [of P cb t] split: option.splits)
  qed
qed

end

end
