(* ===== verification/MsgEvent_Props.thy ===== *)
theory MsgEvent_Props
  imports MsgEvent_Facts
begin

text \<open>
  What the message layer guarantees: frames are delivered as they were sent, also when a body
  arrives in pieces; the loop ends; the buffers stay within their bounds. And where it does
  not: a head that arrives in pieces, and messages with an empty body.
\<close>

section \<open>Sending\<close>

text \<open>The frame in which a message of a type is sent under a new head.\<close>

definition typed :: "int32 \<Rightarrow> string \<Rightarrow> CMsgHead \<times> string" where
  "typed type body = (CMsgHead_Clear\<lparr>msg_type := type, msg_size := word_of_nat (length body)\<rparr>, body)"

lemma typed_sel [simp]: "msg_type (fst (typed type body)) = type" "snd (typed type body) = body"
  by (simp_all add: typed_def)

lemma msg_bytes_delivered: "body \<noteq> [] \<Longrightarrow> msg_bytes (snd (delivered (h, body))) = body"
  by (simp add: delivered_def msg_bytes_def)

lemma msg_bytes_typed: "body \<noteq> [] \<Longrightarrow> msg_bytes (snd (delivered (typed type body))) = body"
  by (simp add: typed_def msg_bytes_delivered)

lemma typed_frame_ok:
  assumes "VerifyUtf8String rt []" "type \<noteq> 0" "length body \<le> 8192"
  shows "frame_ok rt (typed type body)"
proof -
  let ?h = "CMsgHead_Clear\<lparr>msg_type := type, msg_size := word_of_nat (length body)\<rparr>"
  have hs: "CMsgHead_Serialize ?h = (if msg_size ?h \<noteq> 0 then WriteInt32ToArray 1 (msg_size ?h) else []) @
      WriteEnumToArray 2 type"
    using assms(2) by (simp add: CMsgHead_Serialize_def CMsgHead_Clear_def)
  have "length (CMsgHead_Serialize ?h) \<le> 40"
    using length_fields_le(1) [of 1 "msg_size ?h"] length_fields_le(2) [of 2 type] by (simp add: hs)
  moreover have "CMsgHead_Serialize ?h \<noteq> []" by (simp add: hs WriteEnumToArray_def WriteTagToArray_def)
  moreover have "CMsgHead_wf rt ?h" using assms(1) by (simp add: CMsgHead_wf_def CMsgHead_Clear_def)
  ultimately show ?thesis using assms(3) by (simp add: frame_ok_def typed_def)
qed

context channel begin

lemma sendMsg_written:
  assumes "sendMsg P (Some h) (Some m) t = (True, h', t')" "m_data m = Some d" "m_size m = int (length d)"
  shows "sent outb t' = sent outb t @ frame (h\<lparr>msg_size := word_of_nat (length d)\<rparr>, d)"
    "h' = Some (h\<lparr>msg_size := word_of_nat (length d)\<rparr>)" "d \<noteq> []"
proof -
  let ?h = "h\<lparr>msg_size := word_of_nat (length d)\<rparr>"
  let ?hs = "CMsgHead_Serialize ?h"
  let ?n = "mem_of_int32 (word_of_nat (length ?hs))"
  have four: "(4 :: int) = int (length ?n)" by simp
  obtain t1 t2 where w: "writeMsg (p_libevent P) (Some ?n) (int (length ?n)) t = (True, t1)"
    "writeMsg (p_libevent P) (Some ?hs) (int (length ?hs)) t1 = (True, t2)"
    "writeMsg (p_libevent P) (Some d) (int (length d)) t2 = (True, t')"
    and h': "h' = Some ?h"
    using assms unfolding four
    by (auto simp: sendMsg_def Let_def split: prod.splits if_splits)
  show "sent outb t' = sent outb t @ frame (?h, d)"
    using writeMsg_sent(1) [OF w(1)] writeMsg_sent(1) [OF w(2)] writeMsg_sent(1) [OF w(3)]
    by (simp add: frame_def)
  show "h' = Some ?h" "d \<noteq> []" using h' writeMsg_sent(3) [OF w(3)] by simp_all
qed

lemma writeMsg_succeeds:
  assumes "\<And>b d. fst (bufferevent_write (p_libevent P) b d) = 0" "m_bev t \<noteq> None" "d \<noteq> []"
  obtains t' where "writeMsg (p_libevent P) (Some d) (int (length d)) t = (True, t')" "m_bev t' \<noteq> None"
  using assms(1) [of "the (m_bev t)" d] assms(2,3) that by (auto simp: writeMsg_def case_prod_beta)

lemma frame_head_only:
  "frame m = mem_of_int32 (word_of_nat (length (CMsgHead_Serialize (fst m)))) @
     CMsgHead_Serialize (fst m) @ snd m"
  by (simp add: frame_def)

lemma sendMsg_empty:
  assumes "\<And>b d. fst (bufferevent_write (p_libevent P) b d) = 0" "m_bev t \<noteq> None"
    and "CMsgHead_Serialize (h\<lparr>msg_size := 0\<rparr>) \<noteq> []"
  shows "\<exists>t'. sendMsg_message P (Some h) (Some []) t = (False, Some (h\<lparr>msg_size := 0\<rparr>), t') \<and>
    sent outb t' = sent outb t @ frame (h\<lparr>msg_size := 0\<rparr>, [])"
proof -
  let ?hs = "CMsgHead_Serialize (h\<lparr>msg_size := 0\<rparr>)"
  let ?n = "mem_of_int32 (word_of_nat (length ?hs))"
  have n: "?n \<noteq> []" "(4 :: int) = int (length ?n)"
    using length_mem_of_int32 [of "word_of_nat (length ?hs)"] by force+
  obtain t1 where 1: "writeMsg (p_libevent P) (Some ?n) (int (length ?n)) t = (True, t1)" "m_bev t1 \<noteq> None"
    by (rule writeMsg_succeeds [OF assms(1,2) n(1)])
  obtain t2 where 2: "writeMsg (p_libevent P) (Some ?hs) (int (length ?hs)) t1 = (True, t2)" "m_bev t2 \<noteq> None"
    by (rule writeMsg_succeeds [OF assms(1) 1(2) assms(3)])
  have 3: "writeMsg (p_libevent P) (Some []) 0 t2 = (False, t2)"
    by (simp add: writeMsg_def split: option.split)
  have "sendMsg_message P (Some h) (Some []) t = (False, Some (h\<lparr>msg_size := 0\<rparr>), t2)"
    using 1 2 3 unfolding sendMsg_message_def sendMsg_def
    by (simp add: Let_def CMsg_new_def n(2) del: length_mem_of_int32)
  with writeMsg_sent(1) [OF 1(1)] writeMsg_sent(1) [OF 2(1)] show ?thesis by (simp add: frame_def)
qed

lemma sendMsg_succeeds:
  assumes "\<And>b d. fst (bufferevent_write (p_libevent P) b d) = 0" "m_bev t \<noteq> None"
    and "m_data msg = Some body" "m_size msg = int (length body)" "body \<noteq> []" "msg_type h \<noteq> 0"
  shows "\<exists>t'. sendMsg P (Some h) (Some msg) t = (True, Some (h\<lparr>msg_size := word_of_nat (length body)\<rparr>), t') \<and>
    m_bev t' \<noteq> None \<and> sent outb t' = sent outb t @ frame (h\<lparr>msg_size := word_of_nat (length body)\<rparr>, body)"
proof -
  let ?h = "h\<lparr>msg_size := word_of_nat (length body)\<rparr>"
  let ?hs = "CMsgHead_Serialize ?h"
  let ?n = "mem_of_int32 (word_of_nat (length ?hs))"
  have n: "?n \<noteq> []" "(4 :: int) = int (length ?n)"
    using length_mem_of_int32 [of "word_of_nat (length ?hs)"] by force+
  have hs: "?hs \<noteq> []"
    using assms(6) by (simp add: CMsgHead_Serialize_def WriteEnumToArray_def WriteTagToArray_def)
  obtain t1 where 1: "writeMsg (p_libevent P) (Some ?n) (int (length ?n)) t = (True, t1)" "m_bev t1 \<noteq> None"
    by (rule writeMsg_succeeds [OF assms(1,2) n(1)])
  obtain t2 where 2: "writeMsg (p_libevent P) (Some ?hs) (int (length ?hs)) t1 = (True, t2)" "m_bev t2 \<noteq> None"
    by (rule writeMsg_succeeds [OF assms(1) 1(2) hs])
  obtain t3 where 3: "writeMsg (p_libevent P) (Some body) (int (length body)) t2 = (True, t3)" "m_bev t3 \<noteq> None"
    by (rule writeMsg_succeeds [OF assms(1) 2(2) assms(5)])
  have "sendMsg P (Some h) (Some msg) t = (True, Some ?h, t3)"
    using 1(1) 2(1) 3(1) assms(3,4) by (simp add: sendMsg_def n(2) Let_def del: length_mem_of_int32)
  with 3(2) writeMsg_sent(1) [OF 1(1)] writeMsg_sent(1) [OF 2(1)] writeMsg_sent(1) [OF 3(1)]
  show ?thesis by (simp add: frame_def)
qed

lemma sendMsg_message_succeeds:
  assumes "\<And>b d. fst (bufferevent_write (p_libevent P) b d) = 0" "m_bev t \<noteq> None"
    and "body \<noteq> []" "msg_type h \<noteq> 0"
  shows "\<exists>t'. sendMsg_message P (Some h) (Some body) t = (True, Some (h\<lparr>msg_size := word_of_nat (length body)\<rparr>), t') \<and>
    m_bev t' \<noteq> None \<and> sent outb t' = sent outb t @ frame (h\<lparr>msg_size := word_of_nat (length body)\<rparr>, body)"
proof -
  have eq: "sendMsg_message P (Some h) (Some body) t =
      sendMsg P (Some h) (Some (CMsg_new\<lparr>m_data := Some body, m_size := int (length body)\<rparr>)) t"
    by (simp add: sendMsg_message_def)
  show ?thesis unfolding eq by (rule sendMsg_succeeds [OF assms(1,2) _ _ assms(3,4)]) simp_all
qed

lemma sendMsg_type_succeeds:
  assumes "\<And>b d. fst (bufferevent_write (p_libevent P) b d) = 0" "m_bev t \<noteq> None"
    and "body \<noteq> []" "type \<noteq> 0"
  shows "\<exists>t'. sendMsg_type P type (Some body) t = (True, t') \<and> m_bev t' \<noteq> None \<and>
    sent outb t' = sent outb t @
      frame (CMsgHead_Clear\<lparr>msg_type := type, msg_size := word_of_nat (length body)\<rparr>, body)"
  using sendMsg_message_succeeds [OF assms(1-3), of "CMsgHead_Clear\<lparr>msg_type := type\<rparr>"] assms(4)
  by (auto simp: sendMsg_type_def)

lemma sendMsg_type_typed:
  assumes "\<And>b d. fst (bufferevent_write (p_libevent P) b d) = 0" "m_bev t \<noteq> None"
    and "body \<noteq> []" "type \<noteq> 0"
  shows "sent outb (snd (sendMsg_type P type (Some body) t)) = sent outb t @ frame (typed type body)"
    "m_bev (snd (sendMsg_type P type (Some body) t)) \<noteq> None"
  using sendMsg_type_succeeds [OF assms] by (auto simp: typed_def)

section \<open>A head in pieces\<close>

lemma recvMsg_part_of_head:
  assumes "clean t" "pending inb t = mem_of_int32 (word_of_nat n) @ part"
    and "0 < n" "n \<le> 8192" "length part < n"
  obtains t1 where "recvMsg P t = (True, t1)" "m_pbHead t1 = m_pbHead t" "m_msg t1 = CMsg_new"
    "pending inb t1 = []" "deleted t1 = deleted t"
proof -
  obtain b where 1: "recv_size P t = (True, t\<lparr>m_bev := b, m_head := \<lparr>m_size = int n, m_recvSize = 0,
       m_data = Some (map (p_junk P) [0..<n]), m_type = NONE_DO_NOT_USE\<rparr>\<rparr>)"
    "contents inb b = part"
    by (rule recv_size_frame [OF assms(1-4)])
  let ?t1 = "t\<lparr>m_bev := b, m_head := \<lparr>m_size = int n, m_recvSize = 0,
       m_data = Some (map (p_junk P) [0..<n]), m_type = NONE_DO_NOT_USE\<rparr>\<rparr>"
  obtain bytes t2 where r: "readMsg (p_libevent P) (int n) ?t1 = (bytes, t2)" by force
  note rp = readMsg_pending [OF r]
  obtain b' where t2: "t2 = ?t1\<lparr>m_bev := b'\<rparr>" using rp(4) by blast
  have bytes: "bytes = part" "contents inb b' = []"
    using rp(1,2) 1(2) assms(5) by (simp_all add: pending_def t2)
  define t3 where "t3 = (if part = [] then t2 else t2\<lparr>m_head := received part (m_head t2)\<rparr>)"
  have "recv_head P ?t1 = (Some True, t3)"
    using assms(3,5) r bytes(1) unfolding t3_def t2
    by (simp add: recv_head_def recved_def received_def)
  then have "recvMsg P t = (True, t3)" using 1(1) by (simp add: recvMsg_def)
  moreover have "m_pbHead t3 = m_pbHead t" "m_msg t3 = CMsg_new" "pending inb t3 = []"
    "deleted t3 = deleted t"
    using assms(1) bytes(2) by (simp_all add: t3_def t2 pending_def clean_def)
  ultimately show ?thesis by (rule that)
qed

lemma readCb_all:
  assumes "quiet inb cb" "\<forall>m \<in> set ms. frame_ok (p_protobuf P) m"
    and "clean t" "\<not> deleted t" "pending inb t = concat (map frame ms)"
  shows "\<exists>t'. readCb P cb t = Some (Inr (map delivered ms, t')) \<and> clean t' \<and> pending inb t' = []"
proof -
  have "\<exists>ks t'. readCb P cb t = Some (Inr (map delivered ms @ ks, t')) \<and>
      (ks = [] \<and> clean t' \<and> pending inb t' = [])"
  proof (rule readCb_frames [OF assms(1-4), where rest = "[]"])
    fix u :: "('b, 'a) CMsgEvent_scheme"
    assume "clean u" "pending inb u = []"
    then obtain t' where "readCb P cb u = Some (Inr ([], t'))" "clean t'" "pending inb t' = []"
      by (rule readCb_nothing)
    then show "\<exists>ks t'. readCb P cb u = Some (Inr (ks, t')) \<and> ks = [] \<and> clean t' \<and> pending inb t' = []"
      by blast
  qed (use assms(5) in simp)
  then show ?thesis by auto
qed

lemma readCb_resume:
  assumes "quiet inb cb" "waiting t h n x" "\<not> deleted t"
    and "pending inb t = y @ concat (map frame ms)" "length x + length y = n"
    and "\<forall>m \<in> set ms. frame_ok (p_protobuf P) m"
  shows "\<exists>t'. readCb P cb t = Some (Inr (map delivered ((h, x @ y) # ms), t')) \<and>
    clean t' \<and> pending inb t' = []"
proof -
  obtain t1 where 1: "recv_body P t = (True, t1)" "pending inb t1 = concat (map frame ms)"
    "deleted t1 = deleted t" "m_pbHead t1 = Some h" "m_msg t1 = snd (delivered (h, x @ y))"
    by (rule recv_body_waiting [OF assms(2,4)]) (use assms(5) in auto)
  obtain h' t2 where 2: "cb h (snd (delivered (h, x @ y))) t1 = Inr (h', t2)"
    "pending inb t2 = pending inb t1" "deleted t2 = deleted t1"
    using assms(1) unfolding quiet_def by blast
  let ?u = "CMsgEvent_clear (t2\<lparr>m_pbHead := Some h'\<rparr>)"
  obtain t' where 3: "readCb P cb ?u = Some (Inr (map delivered ms, t'))"
    "clean t'" "pending inb t' = []"
    using readCb_all [OF assms(1,6), of ?u] assms(3) 1 2 by auto
  have "readCb P cb t = Some (Inr ((h, snd (delivered (h, x @ y))) # map delivered ms, t'))"
    by (rule readCb_dispatch [OF _ 1(4) getMsg_delivered [OF 1(5)] 2(1) _ 3(1)])
       (use 1 2 assms(3) recvMsg_waiting [OF assms(2)] in simp_all)
  then show ?thesis using 3(2,3) by (simp add: delivered_def)
qed

lemma readCb_pieces:
  assumes "quiet inb cb" "clean t" "\<not> deleted t"
    and "\<forall>m \<in> set ms. frame_ok (p_protobuf P) m" "frame_ok (p_protobuf P) (h, x @ y)" "y \<noteq> []"
    and "pending inb t @ y = concat (map frame ms) @ frame (h, x @ y)"
  shows "\<exists>t'. readCb P cb t = Some (Inr (map delivered ms, t')) \<and> pending inb t' = [] \<and>
    (\<forall>b ms'. (\<forall>m \<in> set ms'. frame_ok (p_protobuf P) m) \<longrightarrow> inb b = y @ concat (map frame ms') \<longrightarrow>
      (\<exists>t''. readCb P cb (t'\<lparr>m_bev := Some b\<rparr>) =
         Some (Inr (map delivered ((h, x @ y) # ms'), t'')) \<and> clean t'' \<and> pending inb t'' = []))"
proof -
  let ?rest = "mem_of_int32 (word_of_nat (length (CMsgHead_Serialize h))) @ CMsgHead_Serialize h @ x"
  let ?n = "length (x @ y)"
  have p: "pending inb t = concat (map frame ms) @ ?rest" using assms(7) by (simp add: frame_def)
  have "\<exists>ks t'. readCb P cb t = Some (Inr (map delivered ms @ ks, t')) \<and>
      (ks = [] \<and> waiting t' h ?n x \<and> pending inb t' = [] \<and> \<not> deleted t')"
  proof (rule readCb_frames [OF assms(1,4,2,3) p])
    fix u :: "('b, 'a) CMsgEvent_scheme"
    assume u: "clean u" "\<not> deleted u" "pending inb u = ?rest"
    obtain t1 where 1: "recvMsg P u = recv_body P t1" "pending inb t1 = x" "deleted t1 = deleted u"
      "waiting t1 h ?n []"
      by (rule recvMsg_open [OF u(1) assms(5), of x]) (use u(3) assms(6) in simp_all)
    obtain t2 where 2: "recv_body P t1 = (True, t2)" "pending inb t2 = []" "deleted t2 = deleted t1"
      "m_pbHead t2 = Some h" "waiting t2 h ?n x"
      by (rule recv_body_waiting [OF 1(4), of x "[]"]) (use 1(2) assms(6) in auto)
    have "readCb P cb u = Some (Inr ([], t2))"
      by (rule readCb_waits [OF _ 2(4) getMsg_waiting [OF 2(5)]]) (simp add: 1(1) 2(1))
    then show "\<exists>ks t'. readCb P cb u = Some (Inr (ks, t')) \<and>
        (ks = [] \<and> waiting t' h ?n x \<and> pending inb t' = [] \<and> \<not> deleted t')"
      using 1 2 u(2) by auto
  qed
  then obtain t' where t': "readCb P cb t = Some (Inr (map delivered ms, t'))" "waiting t' h ?n x"
    "pending inb t' = []" "\<not> deleted t'" by auto
  have "\<exists>t''. readCb P cb (t'\<lparr>m_bev := Some b\<rparr>) =
      Some (Inr (map delivered ((h, x @ y) # ms'), t'')) \<and> clean t'' \<and> pending inb t'' = []"
    if "\<forall>m \<in> set ms'. frame_ok (p_protobuf P) m" "inb b = y @ concat (map frame ms')" for b ms'
    by (rule readCb_resume [OF assms(1), where n = ?n])
       (use t' that in \<open>simp_all add: waiting_def pending_def contents_def\<close>)
  with t' show ?thesis by blast
qed

lemma readCb_part_of_head:
  assumes "quiet inb cb" "clean t" "\<not> deleted t" "m_pbHead t = Some h"
    and "0 < n" "n \<le> 8192" "length part < n"
    and "pending inb t = mem_of_int32 (word_of_nat n) @ part"
  shows "\<exists>t'. readCb P cb t = Some (Inr ([(h, CMsg_new)], t')) \<and> clean t' \<and> pending inb t' = []"
proof -
  obtain t1 where 1: "recvMsg P t = (True, t1)" "m_pbHead t1 = m_pbHead t" "m_msg t1 = CMsg_new"
    "pending inb t1 = []" "deleted t1 = deleted t"
    by (rule recvMsg_part_of_head [OF assms(2,8,5,6,7)])
  obtain h' t2 where 2: "cb h CMsg_new t1 = Inr (h', t2)"
    "pending inb t2 = pending inb t1" "deleted t2 = deleted t1"
    using assms(1) unfolding quiet_def by blast
  obtain t' where 3: "readCb P cb (CMsgEvent_clear (t2\<lparr>m_pbHead := Some h'\<rparr>)) = Some (Inr ([], t'))"
    "clean t'" "pending inb t' = []"
    by (rule readCb_nothing [of "CMsgEvent_clear (t2\<lparr>m_pbHead := Some h'\<rparr>)" cb])
       (use 1 2 in simp_all)
  have "readCb P cb t = Some (Inr ([(h, CMsg_new)], t'))"
    by (rule readCb_dispatch [OF 1(1) _ _ 2(1) _ 3(1)]) (use 1 2 assms(3,4) in \<open>simp_all add: getMsg_def\<close>)
  with 3 show ?thesis by blast
qed

end

section \<open>Properties\<close>

text \<open>The platform the witnesses run on: the reference buffers and readers, zeroed memory.\<close>

definition ref_platform :: "buffers platform" where
  "ref_platform = \<lparr>p_libevent = ref_libevent, p_protobuf = ref_rt, p_junk = (\<lambda>_. NUL),
     p_half_parsed = (\<lambda>_. CMsgHead_Clear)\<rparr>"

interpretation ref_channel: channel ref_platform inbuf outbuf
  by (simp add: channel_def ref_platform_def bufs.bufferevent_axioms ref.coded_input_axioms)

definition sample_head :: CMsgHead where
  "sample_head = CMsgHead_Clear\<lparr>msg_type := MSG_REGISTER_REQ, msg_size := 3\<rparr>"

definition sample_event :: "string \<Rightarrow> buffers CMsgEvent" where
  "sample_event input = CMsgEvent_new\<lparr>m_bev := Some \<lparr>inbuf = input, outbuf = []\<rparr>\<rparr>"

lemma sample_event_sel [simp]:
  "clean (sample_event s)" "\<not> deleted (sample_event s)" "pending inbuf (sample_event s) = s"
  "m_pbHead (sample_event s) = None" "m_bev (sample_event s) = Some \<lparr>inbuf = s, outbuf = []\<rparr>"
  "sent outbuf (sample_event s) = []"
  by (simp_all add: sample_event_def clean_def pending_def sent_def contents_def)

lemma quiet_skip [simp]: "quiet inb (\<lambda>h m t. Inr (h, t))"
  by (simp add: quiet_def)

lemma ref_platform_sel [simp]:
  "p_protobuf ref_platform = ref_rt" "p_libevent ref_platform = ref_libevent"
  "VerifyUtf8String ref_rt [] " "fst (bufferevent_write ref_libevent b d) = 0"
  by (simp_all add: ref_platform_def ref_rt_def ref_libevent_def)

lemma sample_head_size: "length (CMsgHead_Serialize sample_head) = 4"
proof -
  have "CMsgHead_ByteSizeLong sample_head = 4"
    by (simp add: CMsgHead_ByteSizeLong_def sample_head_def CMsgHead_Clear_def MSG_REGISTER_REQ_def
        Int32Size_def EnumSize_def VarintSize32SignExtended_def VarintSize32_def
        Log2FloorNonZero_def Let_def word_sless_alt)
  then show ?thesis by (simp add: CMsgHead_ByteSizeLong)
qed

lemma sample_frame_ok [simp]: "frame_ok ref_rt (sample_head, ''abc'')"
  using sample_head_size
  by (simp add: frame_ok_def CMsgHead_wf_def) (simp add: sample_head_def CMsgHead_Clear_def)

text \<open>
  C1. Frames are delivered. When the input holds any number of complete frames of admissible
  size, one run of \<open>readCb\<close> hands exactly their heads and bodies to the callback, in order,
  and ends with cleared buffers and an empty input.
\<close>

theorem readCb_delivers_frames:
  assumes "channel P inb outb" "quiet inb cb" "clean t" "\<not> deleted t"
    and "\<forall>m \<in> set ms. frame_ok (p_protobuf P) m" "pending inb t = concat (map frame ms)"
  shows "\<exists>t'. readCb P cb t = Some (Inr (map delivered ms, t')) \<and> clean t' \<and> pending inb t' = []"
  by (rule channel.readCb_all [OF assms(1,2,5,3,4,6)])

theorem readCb_delivers_frames_witness:
  "\<exists>t'. readCb ref_platform (\<lambda>h m t. Inr (h, t))
     (sample_event (frame (sample_head, ''abc'') @ frame (sample_head, ''abc''))) =
     Some (Inr ([delivered (sample_head, ''abc''), delivered (sample_head, ''abc'')], t'))"
  using readCb_delivers_frames [OF ref_channel.channel_axioms quiet_skip,
      of "sample_event (frame (sample_head, ''abc'') @ frame (sample_head, ''abc''))"
         "[(sample_head, ''abc''), (sample_head, ''abc'')]"]
  by auto

text \<open>
  A body may arrive in pieces. When the input ends inside a body, the complete frames
  before it are delivered, and when the rest of the body arrives (with more frames behind it)
  the next run delivers that message whole and goes on with the frames.
\<close>

theorem readCb_body_in_pieces:
  assumes "channel P inb outb" "quiet inb cb" "clean t" "\<not> deleted t"
    and "\<forall>m \<in> set ms. frame_ok (p_protobuf P) m" "frame_ok (p_protobuf P) (h, x @ y)" "y \<noteq> []"
    and "pending inb t @ y = concat (map frame ms) @ frame (h, x @ y)"
  shows "\<exists>t'. readCb P cb t = Some (Inr (map delivered ms, t')) \<and> pending inb t' = [] \<and>
    (\<forall>b ms'. (\<forall>m \<in> set ms'. frame_ok (p_protobuf P) m) \<longrightarrow> inb b = y @ concat (map frame ms') \<longrightarrow>
      (\<exists>t''. readCb P cb (t'\<lparr>m_bev := Some b\<rparr>) =
         Some (Inr (map delivered ((h, x @ y) # ms'), t'')) \<and> clean t'' \<and> pending inb t'' = []))"
  by (rule channel.readCb_pieces [OF assms])

theorem readCb_body_in_pieces_witness:
  "\<exists>t'. readCb ref_platform (\<lambda>h m t. Inr (h, t))
     (sample_event (mem_of_int32 4 @ CMsgHead_Serialize sample_head @ ''ab'')) = Some (Inr ([], t'))"
  using readCb_body_in_pieces [OF ref_channel.channel_axioms quiet_skip,
      of "sample_event (mem_of_int32 4 @ CMsgHead_Serialize sample_head @ ''ab'')" "[]" sample_head
         "''ab''" "''c''"]
  by (auto simp: frame_def sample_head_size)

text \<open>
  A head may not arrive in pieces. After at least one message, when the input ends inside
  a head, the loop calls the callback with the head of the previous message and an empty body,
  and the bytes of the new head are dropped: the stream is out of step from there on.
\<close>

theorem readCb_stale_head:
  assumes "channel P inb outb" "quiet inb cb" "clean t" "\<not> deleted t" "m_pbHead t = Some h"
    and "0 < n" "n \<le> 8192" "length part < n"
    and "pending inb t = mem_of_int32 (word_of_nat n) @ part"
  shows "\<exists>t'. readCb P cb t = Some (Inr ([(h, CMsg_new)], t')) \<and> clean t' \<and> pending inb t' = []"
  by (rule channel.readCb_part_of_head [OF assms])

theorem readCb_stale_head_witness:
  "\<exists>t'. readCb ref_platform (\<lambda>h m t. Inr (h, t))
     ((sample_event (mem_of_int32 4 @ ''ab''))\<lparr>m_pbHead := Some sample_head\<rparr>) =
     Some (Inr ([(sample_head, CMsg_new)], t')) \<and> pending inbuf t' = []"
proof -
  let ?t = "(sample_event (mem_of_int32 4 @ ''ab''))\<lparr>m_pbHead := Some sample_head\<rparr>"
  have "clean ?t" "\<not> deleted ?t" "m_pbHead ?t = Some sample_head"
    "pending inbuf ?t = mem_of_int32 (word_of_nat 4) @ ''ab''"
    using sample_event_sel(1) [of "mem_of_int32 4 @ ''ab''"] by (simp_all add: clean_def)
  from readCb_stale_head [OF ref_channel.channel_axioms quiet_skip this(1-3), of 4 "''ab''", OF _ _ _ this(4)]
  show ?thesis by auto
qed

text \<open>
  C19. The loop returns. Whatever bytes a peer sends and whatever the state of the receive
  buffers, \<open>readCb\<close> ends, as long as the callback does not itself make more input appear.
\<close>

theorem readCb_terminates:
  assumes "channel P inb outb"
    and "\<And>h m t h' t'. cb h m t = Inr (h', t') \<Longrightarrow> length (pending inb t') \<le> length (pending inb t)"
  shows "\<exists>r. readCb P cb t = Some r"
  using channel.readCb_returns [OF assms(1), of cb t] assms(2) by blast

theorem readCb_terminates_witness:
  "\<exists>r. readCb ref_platform (\<lambda>h m t. Inr (h, t)) (sample_event ''garbage from a stranger'') = Some r"
  by (rule readCb_terminates [OF ref_channel.channel_axioms]) simp

text \<open>
  C20. The receive buffers stay in bounds. A call of \<open>recvMsg\<close> that succeeds keeps, for head and
  body, an array of the announced size, at most 8192 bytes, with no more received than
  announced, whatever sizes the peer announces, and it reads something when it starts a frame.
\<close>

theorem recvMsg_in_bounds:
  assumes "channel P inb outb" "recv_ok t" "recvMsg P t = (True, t')"
  shows "buf_ok (m_head t') \<and> buf_ok (m_msg t') \<and> recv_ok t' \<and>
    (m_size (m_head t) = 0 \<longrightarrow> length (pending inb t') < length (pending inb t))"
  using channel.recvMsg_bounds [OF assms(1,3,2)] by (simp add: recv_ok_def)

theorem recvMsg_in_bounds_witness:
  "\<exists>t'. recvMsg ref_platform (sample_event (frame (sample_head, ''abc''))) = (True, t') \<and>
     buf_ok (m_msg t')"
proof -
  have "pending inbuf (sample_event (frame (sample_head, ''abc''))) = frame (sample_head, ''abc'') @ []"
    by simp
  then obtain t' where t': "recvMsg ref_platform (sample_event (frame (sample_head, ''abc''))) = (True, t')"
    using ref_channel.recvMsg_frame [of "sample_event (frame (sample_head, ''abc''))" "(sample_head, ''abc'')" "[]"]
    by (metis ref_platform_sel(1) sample_event_sel(1) sample_frame_ok)
  from recvMsg_in_bounds [OF ref_channel.channel_axioms recv_ok_clean t'] t' show ?thesis by auto
qed

text \<open>
  What a successful send puts on the connection. When \<open>sendMsg\<close> returns true for a head
  and a message, the output has grown by exactly one frame: the head with its \<open>msg_size\<close> set
  to the size of the body, and the body, which is not empty.
\<close>

theorem sendMsg_sends_frame:
  assumes "channel P inb outb" "sendMsg_message P (Some h) (Some body) t = (True, h', t')"
  shows "sent outb t' = sent outb t @ frame (h\<lparr>msg_size := word_of_nat (length body)\<rparr>, body) \<and>
    h' = Some (h\<lparr>msg_size := word_of_nat (length body)\<rparr>) \<and> body \<noteq> []"
  using channel.sendMsg_written [OF assms(1), of h _ t h' t' body] assms(2)
  by (simp add: sendMsg_message_def)

lemma sample_send:
  "sendMsg_message ref_platform (Some sample_head) (Some ''abc'') (sample_event []) =
    (True, Some sample_head, CMsgEvent_new\<lparr>m_bev := Some \<lparr>inbuf = [], outbuf = frame (sample_head, ''abc'')\<rparr>\<rparr>)"
proof -
  have "sample_head\<lparr>msg_size := 3\<rparr> = sample_head" by (simp add: sample_head_def)
  moreover have "CMsgHead_Serialize sample_head \<noteq> []" using sample_head_size by force
  ultimately show ?thesis
    by (simp add: sendMsg_message_def sendMsg_def writeMsg_def ref_platform_def ref_libevent_def
        CMsg_new_def sample_event_def frame_def Let_def)
qed

theorem sendMsg_sends_frame_witness:
  "\<exists>t'. sendMsg_message ref_platform (Some sample_head) (Some ''abc'') (sample_event []) =
     (True, Some sample_head, t') \<and> sent outbuf t' = frame (sample_head, ''abc'')"
  using sendMsg_sends_frame [OF ref_channel.channel_axioms sample_send] sample_send
  by (simp add: sample_head_def)

text \<open>
  An empty body is sent but reported as failed. For a message that serialises to no bytes
  (every field at its default) the frame, which is complete without a body, is written, and
  \<open>sendMsg\<close> still returns false, because its last \<open>writeMsg\<close> refuses a size of 0.
\<close>

theorem sendMsg_empty_body_fails:
  assumes "channel P inb outb" "\<And>b d. fst (bufferevent_write (p_libevent P) b d) = 0"
    and "m_bev t \<noteq> None" "CMsgHead_Serialize (h\<lparr>msg_size := 0\<rparr>) \<noteq> []"
  shows "\<exists>t'. sendMsg_message P (Some h) (Some []) t = (False, Some (h\<lparr>msg_size := 0\<rparr>), t') \<and>
    sent outb t' = sent outb t @ frame (h\<lparr>msg_size := 0\<rparr>, [])"
  by (rule channel.sendMsg_empty [OF assms])

theorem sendMsg_empty_body_fails_witness:
  "\<exists>t'. sendMsg_message ref_platform (Some sample_head) (Some []) (sample_event []) =
    (False, Some (sample_head\<lparr>msg_size := 0\<rparr>), t') \<and>
    sent outbuf t' = frame (sample_head\<lparr>msg_size := 0\<rparr>, [])"
proof -
  have "CMsgHead_Serialize (sample_head\<lparr>msg_size := 0\<rparr>) \<noteq> []"
    by (simp add: CMsgHead_Serialize_def sample_head_def CMsgHead_Clear_def MSG_REGISTER_REQ_def
        WriteEnumToArray_def WriteTagToArray_def)
  from sendMsg_empty_body_fails [OF ref_channel.channel_axioms _ _ this, of "sample_event []"]
  show ?thesis by simp
qed



text \<open>
  One callback per type. However callbacks are registered, the first registration of a type
  is the one a message of that type is dispatched to; a message of a type never registered
  only clears the buffers.
\<close>

theorem dispatch_first_registered:
  "default_readCb (fold (\<lambda>(type, f). regCb type f) regs Map.empty) head msg t =
    (case map_of regs (msg_type head) of
       None \<Rightarrow> Inr (head, CMsgEvent_clear t)
     | Some f \<Rightarrow> f head msg t)"
proof -
  have "fold (\<lambda>(type, f). regCb type f) regs m x = (case m x of Some f \<Rightarrow> Some f | None \<Rightarrow> map_of regs x)"
    for m :: "('a, 'b) CMsgEvent_scheme registry" and x
    by (induction regs arbitrary: m) (auto simp: regCb_def split: option.split if_splits)
  then show ?thesis by (simp add: default_readCb_def)
qed

end
