(* ===== verification/Msg_Registry.thy ===== *)
theory Msg_Registry
  imports Wire_Read
begin

text \<open>
  The messages of the register centre. Per message, in the order of
  \<open>cplatform/cmsgcom.pb.cc\<close>: its fields (the unknown fields as the bytes they are written
  back with), \<open>Clear\<close>, \<open>InternalSerializeWithCachedSizesToArray\<close> (every caller runs
  \<open>ByteSizeLong\<close> first, so a cached size is the size), \<open>ByteSizeLong\<close>, the \<open>switch\<close> and the
  loop of \<open>MergePartialFromCodedStream\<close>, \<open>ParseFromArray\<close>, \<open>MergeFrom\<close> and \<open>CopyFrom\<close>
  (from another object). The lemmas: \<open>ByteSizeLong\<close> is the length of what is written,
  \<open>CopyFrom\<close> copies, and parsing what was written gives the message back.
\<close>

section \<open>CRegisterReq\<close>

record CRegisterReq =
  CRegisterReq_name :: string
  CRegisterReq_port :: int32
  CRegisterReq_ip :: string
  CRegisterReq_unknown :: string

definition CRegisterReq_Clear :: CRegisterReq where
  "CRegisterReq_Clear = \<lparr>CRegisterReq_name = [], CRegisterReq_port = 0,
     CRegisterReq_ip = [], CRegisterReq_unknown = []\<rparr>"

definition CRegisterReq_Serialize :: "CRegisterReq \<Rightarrow> string" where
  "CRegisterReq_Serialize m =
     (if length (CRegisterReq_name m) > 0 then WriteStringToArray 1 (CRegisterReq_name m) else []) @
     (if CRegisterReq_port m \<noteq> 0 then WriteInt32ToArray 2 (CRegisterReq_port m) else []) @
     (if length (CRegisterReq_ip m) > 0 then WriteStringToArray 3 (CRegisterReq_ip m) else []) @
     CRegisterReq_unknown m"

definition CRegisterReq_ByteSizeLong :: "CRegisterReq \<Rightarrow> nat" where
  "CRegisterReq_ByteSizeLong m =
     length (CRegisterReq_unknown m) +
     (if length (CRegisterReq_name m) > 0 then 1 + StringSize (CRegisterReq_name m) else 0) +
     (if length (CRegisterReq_ip m) > 0 then 1 + StringSize (CRegisterReq_ip m) else 0) +
     (if CRegisterReq_port m \<noteq> 0 then 1 + Int32Size (CRegisterReq_port m) else 0)"

definition CRegisterReq_cases :: "pb_rt \<Rightarrow> CRegisterReq field_case" where
  "CRegisterReq_cases rt tag inp m =
     (let field = GetTagFieldNumber tag in
      if field = 1 then arm tag 10 (read_string rt (\<lambda>v m. m\<lparr>CRegisterReq_name := v\<rparr>) inp m) else
      if field = 2 then arm tag 16 (read_int32 rt (\<lambda>v m. m\<lparr>CRegisterReq_port := v\<rparr>) inp m) else
      if field = 3 then arm tag 26 (read_string rt (\<lambda>v m. m\<lparr>CRegisterReq_ip := v\<rparr>) inp m) else
      None)"

definition CRegisterReq_MergePartial ::
    "pb_rt \<Rightarrow> string \<Rightarrow> CRegisterReq \<Rightarrow> (CRegisterReq \<times> bool \<times> string) option" where
  "CRegisterReq_MergePartial rt =
     merge_partial rt (CRegisterReq_cases rt) (skip_field rt CRegisterReq_unknown (\<lambda>u m. m\<lparr>CRegisterReq_unknown := u\<rparr>))"

definition CRegisterReq_ParseFromArray :: "pb_rt \<Rightarrow> string \<Rightarrow> CRegisterReq option" where
  "CRegisterReq_ParseFromArray rt bytes = parse_all (CRegisterReq_MergePartial rt bytes CRegisterReq_Clear)"

definition CRegisterReq_MergeFrom :: "CRegisterReq \<Rightarrow> CRegisterReq \<Rightarrow> CRegisterReq" where
  "CRegisterReq_MergeFrom from this = this\<lparr>
     CRegisterReq_unknown := CRegisterReq_unknown this @ CRegisterReq_unknown from,
     CRegisterReq_name := (if length (CRegisterReq_name from) > 0 then CRegisterReq_name from else CRegisterReq_name this),
     CRegisterReq_ip := (if length (CRegisterReq_ip from) > 0 then CRegisterReq_ip from else CRegisterReq_ip this),
     CRegisterReq_port := (if CRegisterReq_port from \<noteq> 0 then CRegisterReq_port from else CRegisterReq_port this)\<rparr>"

definition CRegisterReq_CopyFrom :: "CRegisterReq \<Rightarrow> CRegisterReq \<Rightarrow> CRegisterReq" where
  "CRegisterReq_CopyFrom from this = CRegisterReq_MergeFrom from CRegisterReq_Clear"

definition CRegisterReq_wf :: "pb_rt \<Rightarrow> CRegisterReq \<Rightarrow> bool" where
  "CRegisterReq_wf rt m \<longleftrightarrow>
     CRegisterReq_unknown m = [] \<and>
     length (CRegisterReq_name m) < 2 ^ 31 \<and>
     VerifyUtf8String rt (CRegisterReq_name m) \<and>
     length (CRegisterReq_ip m) < 2 ^ 31 \<and>
     VerifyUtf8String rt (CRegisterReq_ip m)"

lemma CRegisterReq_ByteSizeLong [size_simps]: "CRegisterReq_ByteSizeLong m = length (CRegisterReq_Serialize m)"
  by (simp add: CRegisterReq_ByteSizeLong_def CRegisterReq_Serialize_def length_fields tag_simps)

lemma CRegisterReq_CopyFrom_eq [simp]: "CRegisterReq_CopyFrom from this = from"
  by (cases "from") (auto simp: CRegisterReq_CopyFrom_def CRegisterReq_MergeFrom_def CRegisterReq_Clear_def)

lemma CRegisterReq_arms:
  "CRegisterReq_cases rt (MakeTag 1 WIRETYPE_LENGTH_DELIMITED) inp m =
     Some (read_string rt (\<lambda>v m. m\<lparr>CRegisterReq_name := v\<rparr>) inp m)"
  "CRegisterReq_cases rt (MakeTag 2 WIRETYPE_VARINT) inp m =
     Some (read_int32 rt (\<lambda>v m. m\<lparr>CRegisterReq_port := v\<rparr>) inp m)"
  "CRegisterReq_cases rt (MakeTag 3 WIRETYPE_LENGTH_DELIMITED) inp m =
     Some (read_string rt (\<lambda>v m. m\<lparr>CRegisterReq_ip := v\<rparr>) inp m)"
  by (simp_all add: CRegisterReq_cases_def arm_def tag_simps)

context coded_input begin

lemma CRegisterReq_parses:
  assumes "CRegisterReq_wf rt m"
  shows "parses rt (CRegisterReq_cases rt) skip (CRegisterReq_Serialize m) CRegisterReq_Clear m"
proof -
  have u: "CRegisterReq_unknown m = []" using assms by (simp add: CRegisterReq_wf_def)
  show ?thesis
    unfolding CRegisterReq_Serialize_def u
    by (intro parses_string [where cases = "CRegisterReq_cases rt", OF CRegisterReq_arms(1)]
        parses_int32(1) [where cases = "CRegisterReq_cases rt", OF CRegisterReq_arms(2)]
        parses_string [where cases = "CRegisterReq_cases rt", OF CRegisterReq_arms(3)]
        parses_end)
       (use assms in \<open>auto simp: CRegisterReq_wf_def CRegisterReq_Clear_def tag_simps\<close>)
qed

lemma CRegisterReq_roundtrip [codec_simps]:
  "CRegisterReq_wf rt m \<Longrightarrow> CRegisterReq_ParseFromArray rt (CRegisterReq_Serialize m) = Some m"
  by (simp add: CRegisterReq_ParseFromArray_def CRegisterReq_MergePartial_def parses_parse_all [OF CRegisterReq_parses])

end

section \<open>CMessageRes\<close>

record CMessageRes =
  CMessageRes_return :: int32
  CMessageRes_msg :: string
  CMessageRes_unknown :: string

definition CMessageRes_Clear :: CMessageRes where
  "CMessageRes_Clear = \<lparr>CMessageRes_return = 0, CMessageRes_msg = [],
     CMessageRes_unknown = []\<rparr>"

definition CMessageRes_Serialize :: "CMessageRes \<Rightarrow> string" where
  "CMessageRes_Serialize m =
     (if CMessageRes_return m \<noteq> 0 then WriteEnumToArray 1 (CMessageRes_return m) else []) @
     (if length (CMessageRes_msg m) > 0 then WriteStringToArray 2 (CMessageRes_msg m) else []) @
     CMessageRes_unknown m"

definition CMessageRes_ByteSizeLong :: "CMessageRes \<Rightarrow> nat" where
  "CMessageRes_ByteSizeLong m =
     length (CMessageRes_unknown m) +
     (if length (CMessageRes_msg m) > 0 then 1 + StringSize (CMessageRes_msg m) else 0) +
     (if CMessageRes_return m \<noteq> 0 then 1 + EnumSize (CMessageRes_return m) else 0)"

definition CMessageRes_cases :: "pb_rt \<Rightarrow> CMessageRes field_case" where
  "CMessageRes_cases rt tag inp m =
     (let field = GetTagFieldNumber tag in
      if field = 1 then arm tag 8 (read_int32 rt (\<lambda>v m. m\<lparr>CMessageRes_return := v\<rparr>) inp m) else
      if field = 2 then arm tag 18 (read_bytes rt (\<lambda>v m. m\<lparr>CMessageRes_msg := v\<rparr>) inp m) else
      None)"

definition CMessageRes_MergePartial ::
    "pb_rt \<Rightarrow> string \<Rightarrow> CMessageRes \<Rightarrow> (CMessageRes \<times> bool \<times> string) option" where
  "CMessageRes_MergePartial rt =
     merge_partial rt (CMessageRes_cases rt) (skip_field rt CMessageRes_unknown (\<lambda>u m. m\<lparr>CMessageRes_unknown := u\<rparr>))"

definition CMessageRes_ParseFromArray :: "pb_rt \<Rightarrow> string \<Rightarrow> CMessageRes option" where
  "CMessageRes_ParseFromArray rt bytes = parse_all (CMessageRes_MergePartial rt bytes CMessageRes_Clear)"

definition CMessageRes_MergeFrom :: "CMessageRes \<Rightarrow> CMessageRes \<Rightarrow> CMessageRes" where
  "CMessageRes_MergeFrom from this = this\<lparr>
     CMessageRes_unknown := CMessageRes_unknown this @ CMessageRes_unknown from,
     CMessageRes_msg := (if length (CMessageRes_msg from) > 0 then CMessageRes_msg from else CMessageRes_msg this),
     CMessageRes_return := (if CMessageRes_return from \<noteq> 0 then CMessageRes_return from else CMessageRes_return this)\<rparr>"

definition CMessageRes_CopyFrom :: "CMessageRes \<Rightarrow> CMessageRes \<Rightarrow> CMessageRes" where
  "CMessageRes_CopyFrom from this = CMessageRes_MergeFrom from CMessageRes_Clear"

definition CMessageRes_wf :: "pb_rt \<Rightarrow> CMessageRes \<Rightarrow> bool" where
  "CMessageRes_wf rt m \<longleftrightarrow>
     CMessageRes_unknown m = [] \<and>
     length (CMessageRes_msg m) < 2 ^ 31"

lemma CMessageRes_ByteSizeLong [size_simps]: "CMessageRes_ByteSizeLong m = length (CMessageRes_Serialize m)"
  by (simp add: CMessageRes_ByteSizeLong_def CMessageRes_Serialize_def length_fields tag_simps)

lemma CMessageRes_CopyFrom_eq [simp]: "CMessageRes_CopyFrom from this = from"
  by (cases "from") (auto simp: CMessageRes_CopyFrom_def CMessageRes_MergeFrom_def CMessageRes_Clear_def)

lemma CMessageRes_arms:
  "CMessageRes_cases rt (MakeTag 1 WIRETYPE_VARINT) inp m =
     Some (read_int32 rt (\<lambda>v m. m\<lparr>CMessageRes_return := v\<rparr>) inp m)"
  "CMessageRes_cases rt (MakeTag 2 WIRETYPE_LENGTH_DELIMITED) inp m =
     Some (read_bytes rt (\<lambda>v m. m\<lparr>CMessageRes_msg := v\<rparr>) inp m)"
  by (simp_all add: CMessageRes_cases_def arm_def tag_simps)

context coded_input begin

lemma CMessageRes_parses:
  assumes "CMessageRes_wf rt m"
  shows "parses rt (CMessageRes_cases rt) skip (CMessageRes_Serialize m) CMessageRes_Clear m"
proof -
  have u: "CMessageRes_unknown m = []" using assms by (simp add: CMessageRes_wf_def)
  show ?thesis
    unfolding CMessageRes_Serialize_def u
    by (intro parses_int32(2) [where cases = "CMessageRes_cases rt", OF CMessageRes_arms(1)]
        parses_bytes [where cases = "CMessageRes_cases rt", OF CMessageRes_arms(2)] parses_end)
       (use assms in \<open>auto simp: CMessageRes_wf_def CMessageRes_Clear_def tag_simps\<close>)
qed

lemma CMessageRes_roundtrip [codec_simps]:
  "CMessageRes_wf rt m \<Longrightarrow> CMessageRes_ParseFromArray rt (CMessageRes_Serialize m) = Some m"
  by (simp add: CMessageRes_ParseFromArray_def CMessageRes_MergePartial_def parses_parse_all [OF CMessageRes_parses])

lemma CMessageRes_MergePartial_sub:
  "CMessageRes_wf rt m \<Longrightarrow> CMessageRes_MergePartial rt (CMessageRes_Serialize m) CMessageRes_Clear = Some (m, True, [])"
  using CMessageRes_parses [of m] by (simp add: CMessageRes_MergePartial_def parses_def)

end

section \<open>CGetServiceReq\<close>

record CGetServiceReq =
  CGetServiceReq_name :: string
  CGetServiceReq_type :: int32
  CGetServiceReq_unknown :: string

definition CGetServiceReq_Clear :: CGetServiceReq where
  "CGetServiceReq_Clear = \<lparr>CGetServiceReq_name = [], CGetServiceReq_type = 0,
     CGetServiceReq_unknown = []\<rparr>"

definition CGetServiceReq_Serialize :: "CGetServiceReq \<Rightarrow> string" where
  "CGetServiceReq_Serialize m =
     (if length (CGetServiceReq_name m) > 0 then WriteStringToArray 1 (CGetServiceReq_name m) else []) @
     (if CGetServiceReq_type m \<noteq> 0 then WriteEnumToArray 2 (CGetServiceReq_type m) else []) @
     CGetServiceReq_unknown m"

definition CGetServiceReq_ByteSizeLong :: "CGetServiceReq \<Rightarrow> nat" where
  "CGetServiceReq_ByteSizeLong m =
     length (CGetServiceReq_unknown m) +
     (if length (CGetServiceReq_name m) > 0 then 1 + StringSize (CGetServiceReq_name m) else 0) +
     (if CGetServiceReq_type m \<noteq> 0 then 1 + EnumSize (CGetServiceReq_type m) else 0)"

definition CGetServiceReq_cases :: "pb_rt \<Rightarrow> CGetServiceReq field_case" where
  "CGetServiceReq_cases rt tag inp m =
     (let field = GetTagFieldNumber tag in
      if field = 1 then arm tag 10 (read_string rt (\<lambda>v m. m\<lparr>CGetServiceReq_name := v\<rparr>) inp m) else
      if field = 2 then arm tag 16 (read_int32 rt (\<lambda>v m. m\<lparr>CGetServiceReq_type := v\<rparr>) inp m) else
      None)"

definition CGetServiceReq_MergePartial ::
    "pb_rt \<Rightarrow> string \<Rightarrow> CGetServiceReq \<Rightarrow> (CGetServiceReq \<times> bool \<times> string) option" where
  "CGetServiceReq_MergePartial rt =
     merge_partial rt (CGetServiceReq_cases rt) (skip_field rt CGetServiceReq_unknown (\<lambda>u m. m\<lparr>CGetServiceReq_unknown := u\<rparr>))"

definition CGetServiceReq_ParseFromArray :: "pb_rt \<Rightarrow> string \<Rightarrow> CGetServiceReq option" where
  "CGetServiceReq_ParseFromArray rt bytes = parse_all (CGetServiceReq_MergePartial rt bytes CGetServiceReq_Clear)"

definition CGetServiceReq_MergeFrom :: "CGetServiceReq \<Rightarrow> CGetServiceReq \<Rightarrow> CGetServiceReq" where
  "CGetServiceReq_MergeFrom from this = this\<lparr>
     CGetServiceReq_unknown := CGetServiceReq_unknown this @ CGetServiceReq_unknown from,
     CGetServiceReq_name := (if length (CGetServiceReq_name from) > 0 then CGetServiceReq_name from else CGetServiceReq_name this),
     CGetServiceReq_type := (if CGetServiceReq_type from \<noteq> 0 then CGetServiceReq_type from else CGetServiceReq_type this)\<rparr>"

definition CGetServiceReq_CopyFrom :: "CGetServiceReq \<Rightarrow> CGetServiceReq \<Rightarrow> CGetServiceReq" where
  "CGetServiceReq_CopyFrom from this = CGetServiceReq_MergeFrom from CGetServiceReq_Clear"

definition CGetServiceReq_wf :: "pb_rt \<Rightarrow> CGetServiceReq \<Rightarrow> bool" where
  "CGetServiceReq_wf rt m \<longleftrightarrow>
     CGetServiceReq_unknown m = [] \<and>
     length (CGetServiceReq_name m) < 2 ^ 31 \<and>
     VerifyUtf8String rt (CGetServiceReq_name m)"

lemma CGetServiceReq_ByteSizeLong [size_simps]: "CGetServiceReq_ByteSizeLong m = length (CGetServiceReq_Serialize m)"
  by (simp add: CGetServiceReq_ByteSizeLong_def CGetServiceReq_Serialize_def length_fields tag_simps)

lemma CGetServiceReq_CopyFrom_eq [simp]: "CGetServiceReq_CopyFrom from this = from"
  by (cases "from") (auto simp: CGetServiceReq_CopyFrom_def CGetServiceReq_MergeFrom_def CGetServiceReq_Clear_def)

lemma CGetServiceReq_arms:
  "CGetServiceReq_cases rt (MakeTag 1 WIRETYPE_LENGTH_DELIMITED) inp m =
     Some (read_string rt (\<lambda>v m. m\<lparr>CGetServiceReq_name := v\<rparr>) inp m)"
  "CGetServiceReq_cases rt (MakeTag 2 WIRETYPE_VARINT) inp m =
     Some (read_int32 rt (\<lambda>v m. m\<lparr>CGetServiceReq_type := v\<rparr>) inp m)"
  by (simp_all add: CGetServiceReq_cases_def arm_def tag_simps)

context coded_input begin

lemma CGetServiceReq_parses:
  assumes "CGetServiceReq_wf rt m"
  shows "parses rt (CGetServiceReq_cases rt) skip (CGetServiceReq_Serialize m) CGetServiceReq_Clear m"
proof -
  have u: "CGetServiceReq_unknown m = []" using assms by (simp add: CGetServiceReq_wf_def)
  show ?thesis
    unfolding CGetServiceReq_Serialize_def u
    by (intro
        parses_string [where cases = "CGetServiceReq_cases rt", OF CGetServiceReq_arms(1)]
        parses_int32(2) [where cases = "CGetServiceReq_cases rt", OF CGetServiceReq_arms(2)]
        parses_end)
       (use assms in \<open>auto simp: CGetServiceReq_wf_def CGetServiceReq_Clear_def tag_simps\<close>)
qed

lemma CGetServiceReq_roundtrip [codec_simps]:
  "CGetServiceReq_wf rt m \<Longrightarrow> CGetServiceReq_ParseFromArray rt (CGetServiceReq_Serialize m) = Some m"
  by (simp add: CGetServiceReq_ParseFromArray_def CGetServiceReq_MergePartial_def parses_parse_all [OF CGetServiceReq_parses])

end

section \<open>CServiceMap::CService\<close>

record CServiceMap_CService =
  CService_name :: string
  CService_ip :: string
  CService_port :: int32
  CService_unknown :: string

definition CServiceMap_CService_Clear :: CServiceMap_CService where
  "CServiceMap_CService_Clear = \<lparr>CService_name = [], CService_ip = [],
     CService_port = 0, CService_unknown = []\<rparr>"

definition CServiceMap_CService_Serialize :: "CServiceMap_CService \<Rightarrow> string" where
  "CServiceMap_CService_Serialize m =
     (if length (CService_name m) > 0 then WriteStringToArray 1 (CService_name m) else []) @
     (if length (CService_ip m) > 0 then WriteStringToArray 2 (CService_ip m) else []) @
     (if CService_port m \<noteq> 0 then WriteInt32ToArray 3 (CService_port m) else []) @
     CService_unknown m"

definition CServiceMap_CService_ByteSizeLong :: "CServiceMap_CService \<Rightarrow> nat" where
  "CServiceMap_CService_ByteSizeLong m =
     length (CService_unknown m) +
     (if length (CService_name m) > 0 then 1 + StringSize (CService_name m) else 0) +
     (if length (CService_ip m) > 0 then 1 + StringSize (CService_ip m) else 0) +
     (if CService_port m \<noteq> 0 then 1 + Int32Size (CService_port m) else 0)"

definition CServiceMap_CService_cases :: "pb_rt \<Rightarrow> CServiceMap_CService field_case" where
  "CServiceMap_CService_cases rt tag inp m =
     (let field = GetTagFieldNumber tag in
      if field = 1 then arm tag 10 (read_string rt (\<lambda>v m. m\<lparr>CService_name := v\<rparr>) inp m) else
      if field = 2 then arm tag 18 (read_string rt (\<lambda>v m. m\<lparr>CService_ip := v\<rparr>) inp m) else
      if field = 3 then arm tag 24 (read_int32 rt (\<lambda>v m. m\<lparr>CService_port := v\<rparr>) inp m) else
      None)"

definition CServiceMap_CService_MergePartial ::
    "pb_rt \<Rightarrow> string \<Rightarrow> CServiceMap_CService \<Rightarrow> (CServiceMap_CService \<times> bool \<times> string) option" where
  "CServiceMap_CService_MergePartial rt =
     merge_partial rt (CServiceMap_CService_cases rt) (skip_field rt CService_unknown (\<lambda>u m. m\<lparr>CService_unknown := u\<rparr>))"

definition CServiceMap_CService_ParseFromArray :: "pb_rt \<Rightarrow> string \<Rightarrow> CServiceMap_CService option" where
  "CServiceMap_CService_ParseFromArray rt bytes = parse_all (CServiceMap_CService_MergePartial rt bytes CServiceMap_CService_Clear)"

definition CServiceMap_CService_MergeFrom :: "CServiceMap_CService \<Rightarrow> CServiceMap_CService \<Rightarrow> CServiceMap_CService" where
  "CServiceMap_CService_MergeFrom from this = this\<lparr>
     CService_unknown := CService_unknown this @ CService_unknown from,
     CService_name := (if length (CService_name from) > 0 then CService_name from else CService_name this),
     CService_ip := (if length (CService_ip from) > 0 then CService_ip from else CService_ip this),
     CService_port := (if CService_port from \<noteq> 0 then CService_port from else CService_port this)\<rparr>"

definition CServiceMap_CService_CopyFrom :: "CServiceMap_CService \<Rightarrow> CServiceMap_CService \<Rightarrow> CServiceMap_CService" where
  "CServiceMap_CService_CopyFrom from this = CServiceMap_CService_MergeFrom from CServiceMap_CService_Clear"

definition CServiceMap_CService_wf :: "pb_rt \<Rightarrow> CServiceMap_CService \<Rightarrow> bool" where
  "CServiceMap_CService_wf rt m \<longleftrightarrow>
     CService_unknown m = [] \<and>
     length (CService_name m) < 2 ^ 31 \<and>
     VerifyUtf8String rt (CService_name m) \<and>
     length (CService_ip m) < 2 ^ 31 \<and>
     VerifyUtf8String rt (CService_ip m)"

lemma CServiceMap_CService_ByteSizeLong [size_simps]: "CServiceMap_CService_ByteSizeLong m = length (CServiceMap_CService_Serialize m)"
  by (simp add: CServiceMap_CService_ByteSizeLong_def CServiceMap_CService_Serialize_def length_fields tag_simps)

lemma CServiceMap_CService_CopyFrom_eq [simp]: "CServiceMap_CService_CopyFrom from this = from"
  by (cases "from") (auto simp: CServiceMap_CService_CopyFrom_def CServiceMap_CService_MergeFrom_def CServiceMap_CService_Clear_def)

lemma CServiceMap_CService_arms:
  "CServiceMap_CService_cases rt (MakeTag 1 WIRETYPE_LENGTH_DELIMITED) inp m =
     Some (read_string rt (\<lambda>v m. m\<lparr>CService_name := v\<rparr>) inp m)"
  "CServiceMap_CService_cases rt (MakeTag 2 WIRETYPE_LENGTH_DELIMITED) inp m =
     Some (read_string rt (\<lambda>v m. m\<lparr>CService_ip := v\<rparr>) inp m)"
  "CServiceMap_CService_cases rt (MakeTag 3 WIRETYPE_VARINT) inp m =
     Some (read_int32 rt (\<lambda>v m. m\<lparr>CService_port := v\<rparr>) inp m)"
  by (simp_all add: CServiceMap_CService_cases_def arm_def tag_simps)

context coded_input begin

lemma CServiceMap_CService_parses:
  assumes "CServiceMap_CService_wf rt m"
  shows "parses rt (CServiceMap_CService_cases rt) skip (CServiceMap_CService_Serialize m) CServiceMap_CService_Clear m"
proof -
  have u: "CService_unknown m = []" using assms by (simp add: CServiceMap_CService_wf_def)
  show ?thesis
    unfolding CServiceMap_CService_Serialize_def u
    by (intro
        parses_string [where cases = "CServiceMap_CService_cases rt", OF CServiceMap_CService_arms(1)]
        parses_string [where cases = "CServiceMap_CService_cases rt", OF CServiceMap_CService_arms(2)]
        parses_int32(1) [where cases = "CServiceMap_CService_cases rt", OF CServiceMap_CService_arms(3)]
        parses_end)
       (use assms in \<open>auto simp: CServiceMap_CService_wf_def CServiceMap_CService_Clear_def tag_simps\<close>)
qed

lemma CServiceMap_CService_roundtrip [codec_simps]:
  "CServiceMap_CService_wf rt m \<Longrightarrow> CServiceMap_CService_ParseFromArray rt (CServiceMap_CService_Serialize m) = Some m"
  by (simp add: CServiceMap_CService_ParseFromArray_def CServiceMap_CService_MergePartial_def parses_parse_all [OF CServiceMap_CService_parses])

lemma CServiceMap_CService_MergePartial_sub:
  "CServiceMap_CService_wf rt m \<Longrightarrow> CServiceMap_CService_MergePartial rt (CServiceMap_CService_Serialize m) CServiceMap_CService_Clear = Some (m, True, [])"
  using CServiceMap_CService_parses [of m] by (simp add: CServiceMap_CService_MergePartial_def parses_def)

end

section \<open>CServiceMap::CServiceList\<close>

record CServiceMap_CServiceList =
  CServiceList_service :: "CServiceMap_CService list"
  CServiceList_unknown :: string

definition CServiceMap_CServiceList_Clear :: CServiceMap_CServiceList where
  "CServiceMap_CServiceList_Clear = \<lparr>CServiceList_service = [],
     CServiceList_unknown = []\<rparr>"

definition CServiceMap_CServiceList_Serialize :: "CServiceMap_CServiceList \<Rightarrow> string" where
  "CServiceMap_CServiceList_Serialize m =
     concat (map (\<lambda>x. WriteMessageToArray 1 (CServiceMap_CService_ByteSizeLong x) (CServiceMap_CService_Serialize x)) (CServiceList_service m)) @
     CServiceList_unknown m"

definition CServiceMap_CServiceList_ByteSizeLong :: "CServiceMap_CServiceList \<Rightarrow> nat" where
  "CServiceMap_CServiceList_ByteSizeLong m =
     length (CServiceList_unknown m) +
     (1 * length (CServiceList_service m) + sum_list (map (\<lambda>x. MessageSize (CServiceMap_CService_ByteSizeLong x)) (CServiceList_service m)))"

definition CServiceMap_CServiceList_cases :: "pb_rt \<Rightarrow> CServiceMap_CServiceList field_case" where
  "CServiceMap_CServiceList_cases rt tag inp m =
     (let field = GetTagFieldNumber tag in
      if field = 1 then arm tag 10
        (read_message rt (\<lambda>i. CServiceMap_CService_MergePartial rt i CServiceMap_CService_Clear) (\<lambda>v m. m\<lparr>CServiceList_service := CServiceList_service m @ [v]\<rparr>) inp m) else
      None)"

definition CServiceMap_CServiceList_MergePartial ::
    "pb_rt \<Rightarrow> string \<Rightarrow> CServiceMap_CServiceList \<Rightarrow> (CServiceMap_CServiceList \<times> bool \<times> string) option" where
  "CServiceMap_CServiceList_MergePartial rt =
     merge_partial rt (CServiceMap_CServiceList_cases rt) (skip_field rt CServiceList_unknown (\<lambda>u m. m\<lparr>CServiceList_unknown := u\<rparr>))"

definition CServiceMap_CServiceList_ParseFromArray :: "pb_rt \<Rightarrow> string \<Rightarrow> CServiceMap_CServiceList option" where
  "CServiceMap_CServiceList_ParseFromArray rt bytes = parse_all (CServiceMap_CServiceList_MergePartial rt bytes CServiceMap_CServiceList_Clear)"

definition CServiceMap_CServiceList_MergeFrom :: "CServiceMap_CServiceList \<Rightarrow> CServiceMap_CServiceList \<Rightarrow> CServiceMap_CServiceList" where
  "CServiceMap_CServiceList_MergeFrom from this = this\<lparr>
     CServiceList_unknown := CServiceList_unknown this @ CServiceList_unknown from,
     CServiceList_service := CServiceList_service this @ CServiceList_service from\<rparr>"

definition CServiceMap_CServiceList_CopyFrom :: "CServiceMap_CServiceList \<Rightarrow> CServiceMap_CServiceList \<Rightarrow> CServiceMap_CServiceList" where
  "CServiceMap_CServiceList_CopyFrom from this = CServiceMap_CServiceList_MergeFrom from CServiceMap_CServiceList_Clear"

definition CServiceMap_CServiceList_wf :: "pb_rt \<Rightarrow> CServiceMap_CServiceList \<Rightarrow> bool" where
  "CServiceMap_CServiceList_wf rt m \<longleftrightarrow>
     CServiceList_unknown m = [] \<and>
     (\<forall>x \<in> set (CServiceList_service m). CServiceMap_CService_wf rt x \<and> length (CServiceMap_CService_Serialize x) < 2 ^ 31)"

lemma CServiceMap_CServiceList_ByteSizeLong [size_simps]: "CServiceMap_CServiceList_ByteSizeLong m = length (CServiceMap_CServiceList_Serialize m)"
  by (simp add: CServiceMap_CServiceList_ByteSizeLong_def CServiceMap_CServiceList_Serialize_def length_fields tag_simps length_repeated CServiceMap_CService_ByteSizeLong)

lemma CServiceMap_CServiceList_CopyFrom_eq [simp]: "CServiceMap_CServiceList_CopyFrom from this = from"
  by (cases "from") (auto simp: CServiceMap_CServiceList_CopyFrom_def CServiceMap_CServiceList_MergeFrom_def CServiceMap_CServiceList_Clear_def)

lemma fold_CServiceList_service [simp]:
  "fold (\<lambda>v m. m\<lparr>CServiceList_service := CServiceList_service m @ [v]\<rparr>) xs m = m\<lparr>CServiceList_service := CServiceList_service m @ xs\<rparr>"
  by (induction xs arbitrary: m) simp_all

lemma CServiceMap_CServiceList_arms:
  "CServiceMap_CServiceList_cases rt (MakeTag 1 WIRETYPE_LENGTH_DELIMITED) inp m =
     Some (read_message rt (\<lambda>i. CServiceMap_CService_MergePartial rt i CServiceMap_CService_Clear) (\<lambda>v m. m\<lparr>CServiceList_service := CServiceList_service m @ [v]\<rparr>) inp m)"
  by (simp add: CServiceMap_CServiceList_cases_def arm_def tag_simps)

context coded_input begin

lemma CServiceMap_CServiceList_parses:
  assumes "CServiceMap_CServiceList_wf rt m"
  shows "parses rt (CServiceMap_CServiceList_cases rt) skip (CServiceMap_CServiceList_Serialize m) CServiceMap_CServiceList_Clear m"
proof -
  have u: "CServiceList_unknown m = []" using assms by (simp add: CServiceMap_CServiceList_wf_def)
  show ?thesis
    unfolding CServiceMap_CServiceList_Serialize_def u
    by (intro
        parses_repeated [where cases = "CServiceMap_CServiceList_cases rt", OF CServiceMap_CServiceList_arms]
        parses_end)
       (use assms in \<open>auto simp: CServiceMap_CServiceList_wf_def CServiceMap_CServiceList_Clear_def tag_simps CServiceMap_CService_ByteSizeLong CServiceMap_CService_MergePartial_sub\<close>)
qed

lemma CServiceMap_CServiceList_roundtrip [codec_simps]:
  "CServiceMap_CServiceList_wf rt m \<Longrightarrow> CServiceMap_CServiceList_ParseFromArray rt (CServiceMap_CServiceList_Serialize m) = Some m"
  by (simp add: CServiceMap_CServiceList_ParseFromArray_def CServiceMap_CServiceList_MergePartial_def parses_parse_all [OF CServiceMap_CServiceList_parses])

lemma CServiceMap_CServiceList_MergePartial_sub:
  "CServiceMap_CServiceList_wf rt m \<Longrightarrow> CServiceMap_CServiceList_MergePartial rt (CServiceMap_CServiceList_Serialize m) CServiceMap_CServiceList_Clear = Some (m, True, [])"
  using CServiceMap_CServiceList_parses [of m] by (simp add: CServiceMap_CServiceList_MergePartial_def parses_def)

end

end
