(* ===== verification/Msg_ServiceMap.thy ===== *)
theory Msg_ServiceMap
  imports Msg_Registry
begin

text \<open>
  The message \<open>CServiceMap\<close> of \<open>cplatform/cmsgcom.pb.cc\<close>, with its map field from
  \<open>google/protobuf/map_entry_lite.h\<close>: the entries are written as messages of a key and a
  value, and read by the entry parser with its fast path (a key, then a value, then the end)
  and the general loop it falls back to. The iteration order of a protobuf \<open>Map\<close> is not
  specified: it is the parameter \<open>order\<close>, which lists the keys.
\<close>

unbundle bit_operations_syntax

section \<open>Map entries\<close>

definition ReadTagNoLastTag :: "pb_rt \<Rightarrow> string \<Rightarrow> uint32 \<times> bool \<times> string" where
  "ReadTagNoLastTag rt inp =
     (let v = (case inp of [] \<Rightarrow> 0 | c # _ \<Rightarrow> of_char c) :: uint32;
          slow = (let ((tag, legit), rest) = ReadTagFallback rt v inp in (tag, legit, rest)) in
      if inp \<noteq> [] \<and> v < 0x80 then (v, False, tl inp) else slow)"

type_synonym service_map = "string \<rightharpoonup> CServiceMap_CServiceList"

definition ServiceMapEntry_Serialize :: "string \<Rightarrow> CServiceMap_CServiceList \<Rightarrow> string" where
  "ServiceMapEntry_Serialize k v =
     WriteStringToArray 1 k @
     WriteMessageToArray 2 (CServiceMap_CServiceList_ByteSizeLong v) (CServiceMap_CServiceList_Serialize v)"

definition ServiceMapEntry_ByteSizeLong :: "string \<Rightarrow> CServiceMap_CServiceList \<Rightarrow> nat" where
  "ServiceMapEntry_ByteSizeLong k v =
     (1 + StringSize k) + (1 + MessageSize (CServiceMap_CServiceList_ByteSizeLong v))"

text \<open>
  \<open>MapEntryImpl::MergePartialFromCodedStream\<close>; the bound is as in \<open>merge_loop\<close>. An end of the
  entry within its limit is a legitimate end of the message.
\<close>

fun ServiceMapEntry_loop ::
    "nat \<Rightarrow> pb_rt \<Rightarrow> string \<Rightarrow> string \<times> CServiceMap_CServiceList \<Rightarrow>
     ((string \<times> CServiceMap_CServiceList) \<times> bool \<times> string) option" where
  "ServiceMapEntry_loop 0 rt inp e = None"
| "ServiceMapEntry_loop (Suc n) rt inp e =
     (let (tag, legit, rest) = ReadTagNoLastTag rt inp in
      if tag = 10 then
        (case ReadBytes rt rest of None \<Rightarrow> None
         | Some (k, rest) \<Rightarrow> ServiceMapEntry_loop n rt rest (k, snd e))
      else if tag = 18 then
        (case read_message rt (\<lambda>i. CServiceMap_CServiceList_MergePartial rt i (snd e))
                (\<lambda>v e. (fst e, v)) rest e of None \<Rightarrow> None
         | Some (e, rest) \<Rightarrow>
             if rest = [] then Some (e, True, []) else ServiceMapEntry_loop n rt rest e)
      else if tag = 0 \<or> tag AND 7 = 4 then Some (e, legit, rest)
      else
        (case SkipField rt tag rest [] of None \<Rightarrow> None
         | Some (_, rest) \<Rightarrow> ServiceMapEntry_loop n rt rest e))"

text \<open>\<open>Parser::MergePartialFromCodedStream\<close>: the map with the entry, and the key.\<close>

definition use_entry ::
    "service_map \<Rightarrow> ((string \<times> CServiceMap_CServiceList) \<times> bool \<times> string) option \<Rightarrow>
     ((string \<times> service_map) \<times> bool \<times> string) option" where
  "use_entry m r = (case r of None \<Rightarrow> None
     | Some ((k, v), legit, rest) \<Rightarrow> Some ((k, m(k \<mapsto> v)), legit, rest))"

definition ServiceMapEntry_parse ::
    "pb_rt \<Rightarrow> service_map \<Rightarrow> string \<Rightarrow> ((string \<times> service_map) \<times> bool \<times> string) option" where
  "ServiceMapEntry_parse rt m inp =
     (let slow = (\<lambda>inp k v. use_entry m (ServiceMapEntry_loop (Suc (length inp)) rt inp (k, v))) in
      if inp \<noteq> [] \<and> (of_char (hd inp) :: nat) = 10 then
        (case ReadBytes rt (tl inp) of None \<Rightarrow> None
         | Some (key, inp) \<Rightarrow>
             if inp \<noteq> [] \<and> (of_char (hd inp) :: nat) = 18 \<and> m key = None then
               (case read_message rt
                    (\<lambda>i. CServiceMap_CServiceList_MergePartial rt i CServiceMap_CServiceList_Clear)
                    (\<lambda>v _. v) (tl inp) CServiceMap_CServiceList_Clear of
                  None \<Rightarrow> None
                | Some (v, inp) \<Rightarrow>
                    if inp = [] then Some ((key, m(key \<mapsto> v)), True, []) else slow inp key v)
             else slow inp key CServiceMap_CServiceList_Clear)
      else slow inp [] CServiceMap_CServiceList_Clear)"

section \<open>CServiceMap\<close>

record CServiceMap =
  sm_serviceMap :: service_map
  sm_res :: "CMessageRes option"
  sm_type :: int32
  sm_unknown :: string

definition CServiceMap_Clear :: CServiceMap where
  "CServiceMap_Clear = \<lparr>sm_serviceMap = Map.empty, sm_res = None, sm_type = 0, sm_unknown = []\<rparr>"

definition CServiceMap_mutable_res :: "CServiceMap \<Rightarrow> CMessageRes" where
  "CServiceMap_mutable_res m = (case sm_res m of None \<Rightarrow> CMessageRes_Clear | Some r \<Rightarrow> r)"

definition CServiceMap_Serialize :: "(service_map \<Rightarrow> string list) \<Rightarrow> CServiceMap \<Rightarrow> string" where
  "CServiceMap_Serialize order m =
     concat (map (\<lambda>k. WriteMessageToArray 1
         (ServiceMapEntry_ByteSizeLong k (the (sm_serviceMap m k)))
         (ServiceMapEntry_Serialize k (the (sm_serviceMap m k)))) (order (sm_serviceMap m))) @
     (case sm_res m of None \<Rightarrow> []
      | Some r \<Rightarrow> WriteMessageToArray 2 (CMessageRes_ByteSizeLong r) (CMessageRes_Serialize r)) @
     (if sm_type m \<noteq> 0 then WriteEnumToArray 3 (sm_type m) else []) @
     sm_unknown m"

definition CServiceMap_ByteSizeLong :: "(service_map \<Rightarrow> string list) \<Rightarrow> CServiceMap \<Rightarrow> nat" where
  "CServiceMap_ByteSizeLong order m =
     length (sm_unknown m) +
     (1 * length (order (sm_serviceMap m)) +
      sum_list (map (\<lambda>k. MessageSize (ServiceMapEntry_ByteSizeLong k (the (sm_serviceMap m k))))
        (order (sm_serviceMap m)))) +
     (case sm_res m of None \<Rightarrow> 0 | Some r \<Rightarrow> 1 + MessageSize (CMessageRes_ByteSizeLong r)) +
     (if sm_type m \<noteq> 0 then 1 + EnumSize (sm_type m) else 0)"

text \<open>\<open>ReadMessageNoVirtual\<close> with the entry parser, then the check of the key.\<close>

definition read_map_entry :: "pb_rt \<Rightarrow> string \<Rightarrow> CServiceMap \<Rightarrow> (CServiceMap \<times> string) option" where
  "read_map_entry rt inp m =
     (case ReadVarintSizeAsInt rt inp of None \<Rightarrow> None
      | Some (len, rest) \<Rightarrow> (case PushLimit rt len rest of None \<Rightarrow> None
        | Some (sub, after) \<Rightarrow> (case ServiceMapEntry_parse rt (sm_serviceMap m) sub of
            Some ((key, mp), True, _) \<Rightarrow>
              if VerifyUtf8String rt key then Some (m\<lparr>sm_serviceMap := mp\<rparr>, after) else None
          | _ \<Rightarrow> None)))"

definition CServiceMap_cases :: "pb_rt \<Rightarrow> CServiceMap field_case" where
  "CServiceMap_cases rt tag inp m =
     (let field = GetTagFieldNumber tag in
      if field = 1 then arm tag 10 (read_map_entry rt inp m) else
      if field = 2 then arm tag 18
        (read_message rt (\<lambda>i. CMessageRes_MergePartial rt i (CServiceMap_mutable_res m))
          (\<lambda>v m. m\<lparr>sm_res := Some v\<rparr>) inp m) else
      if field = 3 then arm tag 24 (read_int32 rt (\<lambda>v m. m\<lparr>sm_type := v\<rparr>) inp m) else
      None)"

definition CServiceMap_MergePartial ::
    "pb_rt \<Rightarrow> string \<Rightarrow> CServiceMap \<Rightarrow> (CServiceMap \<times> bool \<times> string) option" where
  "CServiceMap_MergePartial rt =
     merge_partial rt (CServiceMap_cases rt) (skip_field rt sm_unknown (\<lambda>u m. m\<lparr>sm_unknown := u\<rparr>))"

definition CServiceMap_ParseFromArray :: "pb_rt \<Rightarrow> string \<Rightarrow> CServiceMap option" where
  "CServiceMap_ParseFromArray rt bytes = parse_all (CServiceMap_MergePartial rt bytes CServiceMap_Clear)"

definition CServiceMap_MergeFrom :: "CServiceMap \<Rightarrow> CServiceMap \<Rightarrow> CServiceMap" where
  "CServiceMap_MergeFrom from this = this\<lparr>
     sm_unknown := sm_unknown this @ sm_unknown from,
     sm_serviceMap := sm_serviceMap this ++ sm_serviceMap from,
     sm_res := (case sm_res from of None \<Rightarrow> sm_res this
       | Some r \<Rightarrow> Some (CMessageRes_MergeFrom r (CServiceMap_mutable_res this))),
     sm_type := (if sm_type from \<noteq> 0 then sm_type from else sm_type this)\<rparr>"

definition CServiceMap_CopyFrom :: "CServiceMap \<Rightarrow> CServiceMap \<Rightarrow> CServiceMap" where
  "CServiceMap_CopyFrom from this = CServiceMap_MergeFrom from CServiceMap_Clear"

text \<open>An order lists the keys of a map, each once.\<close>

definition lists_keys :: "(service_map \<Rightarrow> string list) \<Rightarrow> service_map \<Rightarrow> bool" where
  "lists_keys order m \<longleftrightarrow> distinct (order m) \<and> set (order m) = dom m"

definition entry_wf :: "pb_rt \<Rightarrow> string \<Rightarrow> CServiceMap_CServiceList \<Rightarrow> bool" where
  "entry_wf rt k v \<longleftrightarrow> length k < 2 ^ 31 \<and> VerifyUtf8String rt k \<and> CServiceMap_CServiceList_wf rt v \<and>
     length (CServiceMap_CServiceList_Serialize v) < 2 ^ 31 \<and> length (ServiceMapEntry_Serialize k v) < 2 ^ 31"

definition CServiceMap_wf :: "pb_rt \<Rightarrow> CServiceMap \<Rightarrow> bool" where
  "CServiceMap_wf rt m \<longleftrightarrow> sm_unknown m = [] \<and>
     (\<forall>k v. sm_serviceMap m k = Some v \<longrightarrow> entry_wf rt k v) \<and>
     (\<forall>r. sm_res m = Some r \<longrightarrow> CMessageRes_wf rt r \<and> length (CMessageRes_Serialize r) < 2 ^ 31)"

section \<open>Sizes and round trip\<close>

lemma ServiceMapEntry_ByteSizeLong [size_simps]:
  "ServiceMapEntry_ByteSizeLong k v = length (ServiceMapEntry_Serialize k v)"
  by (simp add: ServiceMapEntry_ByteSizeLong_def ServiceMapEntry_Serialize_def length_fields tag_simps
      MessageSize_def CServiceMap_CServiceList_ByteSizeLong)

lemma CServiceMap_ByteSizeLong [size_simps]:
  "CServiceMap_ByteSizeLong order m = length (CServiceMap_Serialize order m)"
  by (auto simp: CServiceMap_ByteSizeLong_def CServiceMap_Serialize_def length_fields tag_simps
      length_repeated [where sz = "\<lambda>k. length (ServiceMapEntry_Serialize k (the (sm_serviceMap m k)))"
        and body = "\<lambda>k. ServiceMapEntry_Serialize k (the (sm_serviceMap m k))"]
      ServiceMapEntry_ByteSizeLong MessageSize_def CMessageRes_ByteSizeLong split: option.split)

lemma CServiceMap_CopyFrom_eq [simp]: "CServiceMap_CopyFrom from this = from"
proof -
  have "CMessageRes_MergeFrom r CMessageRes_Clear = r" for r
    by (metis CMessageRes_CopyFrom_def CMessageRes_CopyFrom_eq)
  then show ?thesis
    by (cases "from")
       (auto simp: CServiceMap_CopyFrom_def CServiceMap_MergeFrom_def CServiceMap_Clear_def
          CServiceMap_mutable_res_def split: option.split)
qed

lemma CServiceMap_arms:
  "CServiceMap_cases rt (MakeTag 1 WIRETYPE_LENGTH_DELIMITED) inp m = Some (read_map_entry rt inp m)"
  "CServiceMap_cases rt (MakeTag 2 WIRETYPE_LENGTH_DELIMITED) inp m =
     Some (read_message rt (\<lambda>i. CMessageRes_MergePartial rt i (CServiceMap_mutable_res m))
          (\<lambda>v m. m\<lparr>sm_res := Some v\<rparr>) inp m)"
  "CServiceMap_cases rt (MakeTag 3 WIRETYPE_VARINT) inp m =
     Some (read_int32 rt (\<lambda>v m. m\<lparr>sm_type := v\<rparr>) inp m)"
  by (simp_all add: CServiceMap_cases_def arm_def tag_simps)

context coded_input begin

lemma ServiceMapEntry_parse_write:
  assumes "entry_wf rt k v" "m k = None"
  shows "ServiceMapEntry_parse rt m (ServiceMapEntry_Serialize k v) = Some ((k, m(k \<mapsto> v)), True, [])"
proof -
  have tags: "WriteTagToArray 1 WIRETYPE_LENGTH_DELIMITED = [char_of (10 :: nat)]"
    "WriteTagToArray 2 WIRETYPE_LENGTH_DELIMITED = [char_of (18 :: nat)]"
    by (simp_all add: write_tag tag_simps)
  let ?b = "CServiceMap_CServiceList_Serialize v"
  have "ServiceMapEntry_Serialize k v = char_of (10 :: nat) # (WriteStringWithSizeToArray k @
      (char_of (18 :: nat) # WriteVarint32ToArray (of_nat (length ?b)) @ ?b))"
    by (simp add: ServiceMapEntry_Serialize_def WriteStringToArray_def WriteMessageToArray_def tags
        CServiceMap_CServiceList_ByteSizeLong)
  moreover have "ReadBytes rt (WriteStringWithSizeToArray k @
      (char_of (18 :: nat) # WriteVarint32ToArray (of_nat (length ?b)) @ ?b)) =
      Some (k, char_of (18 :: nat) # WriteVarint32ToArray (of_nat (length ?b)) @ ?b)"
    using assms(1) by (intro bytes) (simp add: entry_wf_def)
  moreover have "read_message rt
      (\<lambda>i. CServiceMap_CServiceList_MergePartial rt i CServiceMap_CServiceList_Clear) (\<lambda>v _. v)
      (WriteVarint32ToArray (of_nat (length ?b)) @ ?b) CServiceMap_CServiceList_Clear = Some (v, [])"
    using assms(1) limit [of ?b "[]"]
    by (simp add: entry_wf_def read_message_def ReadVarintSizeAsInt_write CServiceMap_CServiceList_MergePartial_sub)
  ultimately show ?thesis
    using assms(2) by (simp add: ServiceMapEntry_parse_def Let_def)
qed

lemma parses_map_entry:
  assumes "entry_wf rt k v" "sm_serviceMap m k = None"
    and "parses rt (CServiceMap_cases rt) skip rest (m\<lparr>sm_serviceMap := (sm_serviceMap m)(k \<mapsto> v)\<rparr>) r"
  shows "parses rt (CServiceMap_cases rt) skip (WriteMessageToArray 1 (ServiceMapEntry_ByteSizeLong k v)
    (ServiceMapEntry_Serialize k v) @ rest) m r"
proof -
  let ?b = "ServiceMapEntry_Serialize k v"
  have "read_map_entry rt (WriteVarint32ToArray (of_nat (length ?b)) @ ?b @ rest) m =
      Some (m\<lparr>sm_serviceMap := (sm_serviceMap m)(k \<mapsto> v)\<rparr>, rest)"
    using assms(1,2)
    by (simp add: read_map_entry_def ReadVarintSizeAsInt_write limit ServiceMapEntry_parse_write entry_wf_def)
  then have "parses rt (CServiceMap_cases rt) skip (byte_of (MakeTag 1 WIRETYPE_LENGTH_DELIMITED) #
      WriteVarint32ToArray (of_nat (length ?b)) @ ?b @ rest) m r"
    by (intro parses_arm [OF _ _ _ _ assms(3)]) (simp_all add: CServiceMap_cases_def arm_def tag_simps)
  then show ?thesis
    by (simp add: WriteMessageToArray_def write_tag tag_simps ServiceMapEntry_ByteSizeLong)
qed

lemma parses_map_entries:
  assumes "distinct ks" "\<And>k. k \<in> set ks \<Longrightarrow> \<exists>v. mp k = Some v \<and> entry_wf rt k v"
    and "set ks \<inter> dom (sm_serviceMap m) = {}"
    and "parses rt (CServiceMap_cases rt) skip rest
      (m\<lparr>sm_serviceMap := sm_serviceMap m ++ (mp |` set ks)\<rparr>) r"
  shows "parses rt (CServiceMap_cases rt) skip (concat (map (\<lambda>k. WriteMessageToArray 1
      (ServiceMapEntry_ByteSizeLong k (the (mp k))) (ServiceMapEntry_Serialize k (the (mp k)))) ks) @ rest) m r"
  using assms
proof (induction ks arbitrary: m)
  case (Cons k ks)
  obtain v where v: "mp k = Some v" "entry_wf rt k v" using Cons.prems(2) [of k] by auto
  let ?m = "m\<lparr>sm_serviceMap := (sm_serviceMap m)(k \<mapsto> v)\<rparr>"
  have upd: "(sm_serviceMap m)(k \<mapsto> v) ++ (mp |` set ks) = sm_serviceMap m ++ (mp |` set (k # ks))"
    using v Cons.prems(1) by (auto simp: fun_eq_iff map_add_def restrict_map_def split: option.split)
  have "parses rt (CServiceMap_cases rt) skip (concat (map (\<lambda>k. WriteMessageToArray 1
      (ServiceMapEntry_ByteSizeLong k (the (mp k))) (ServiceMapEntry_Serialize k (the (mp k)))) ks) @ rest) ?m r"
  proof (rule Cons.IH)
    show "set ks \<inter> dom (sm_serviceMap ?m) = {}" using Cons.prems(1,3) by auto
    show "parses rt (CServiceMap_cases rt) skip rest
        (?m\<lparr>sm_serviceMap := sm_serviceMap ?m ++ (mp |` set ks)\<rparr>) r"
      using Cons.prems(4) upd by simp
  qed (use Cons.prems(1,2) in simp_all)
  then have "parses rt (CServiceMap_cases rt) skip (WriteMessageToArray 1 (ServiceMapEntry_ByteSizeLong k v)
      (ServiceMapEntry_Serialize k v) @ concat (map (\<lambda>k. WriteMessageToArray 1
      (ServiceMapEntry_ByteSizeLong k (the (mp k))) (ServiceMapEntry_Serialize k (the (mp k)))) ks) @ rest) m r"
    using Cons.prems(3) v(2) by (intro parses_map_entry) auto
  then show ?case by (simp add: v(1))
qed (simp add: restrict_map_def)

lemma CServiceMap_parses:
  assumes "CServiceMap_wf rt m" "lists_keys order (sm_serviceMap m)"
  shows "parses rt (CServiceMap_cases rt) skip (CServiceMap_Serialize order m) CServiceMap_Clear m"
proof -
  have u: "sm_unknown m = []" using assms by (simp add: CServiceMap_wf_def)
  have t: "m\<lparr>sm_type := sm_type m, sm_unknown := []\<rparr> = m" using u by (cases m) simp
  let ?m1 = "CServiceMap_Clear\<lparr>sm_serviceMap := sm_serviceMap m\<rparr>"
  let ?ty = "if sm_type m \<noteq> 0 then WriteEnumToArray 3 (sm_type m) else []"
  have ty: "parses rt (CServiceMap_cases rt) skip (?ty @ []) (?m1\<lparr>sm_res := sm_res m\<rparr>) m"
    by (rule parses_int32(2) [where cases = "CServiceMap_cases rt", OF CServiceMap_arms(3)])
       (use u in \<open>cases m; simp add: tag_simps CServiceMap_Clear_def parses_end\<close>)+
  have res: "parses rt (CServiceMap_cases rt) skip ((case sm_res m of None \<Rightarrow> []
      | Some r \<Rightarrow> WriteMessageToArray 2 (CMessageRes_ByteSizeLong r) (CMessageRes_Serialize r)) @ ?ty @ []) ?m1 m"
  proof (cases "sm_res m")
    case None
    with ty show ?thesis by (simp add: CServiceMap_Clear_def)
  next
    case (Some r)
    have w: "CMessageRes_wf rt r" "length (CMessageRes_Serialize r) < 2 ^ 31"
      using assms(1) Some by (auto simp: CServiceMap_wf_def)
    have "parses rt (CServiceMap_cases rt) skip (byte_of (MakeTag 2 WIRETYPE_LENGTH_DELIMITED) #
        WriteVarint32ToArray (of_nat (length (CMessageRes_Serialize r))) @ CMessageRes_Serialize r @ ?ty @ []) ?m1 m"
      by (rule parses_arm [where m' = "?m1\<lparr>sm_res := Some r\<rparr>" and rest' = "?ty @ []"])
         (use w ty Some in \<open>simp_all add: CServiceMap_cases_def arm_def read_message_def ReadVarintSizeAsInt_write limit
            CMessageRes_MergePartial_sub CServiceMap_mutable_res_def CServiceMap_Clear_def tag_simps\<close>)
    with Some show ?thesis
      by (simp add: WriteMessageToArray_def write_tag tag_simps CMessageRes_ByteSizeLong)
  qed
  have "sm_serviceMap m |` set (order (sm_serviceMap m)) = sm_serviceMap m"
    using assms(2) by (simp add: lists_keys_def restrict_map_def fun_eq_iff domIff)
  then show ?thesis
    unfolding CServiceMap_Serialize_def u
    by (intro parses_map_entries)
       (use assms res in \<open>auto simp: lists_keys_def CServiceMap_wf_def CServiceMap_Clear_def domIff\<close>)
qed

lemma CServiceMap_roundtrip [codec_simps]:
  "CServiceMap_wf rt m \<Longrightarrow> lists_keys order (sm_serviceMap m) \<Longrightarrow>
   CServiceMap_ParseFromArray rt (CServiceMap_Serialize order m) = Some m"
  by (simp add: CServiceMap_ParseFromArray_def CServiceMap_MergePartial_def
      parses_parse_all [OF CServiceMap_parses])

end

end
