(* ===== verification/RegisterServer.thy ===== *)
theory RegisterServer
  imports Service MsgEvent_Props Msg_ServiceMap
begin

text \<open>
  The register centre, \<open>registerserver/\<close>: services register their name, address and port;
  clients ask for the services of a name or for all. The table is the static \<open>serviceMap\<close>,
  shared by all connections under a mutex; a handler is a step from connection and table to
  connection and table. Log output is left out.
\<close>

section \<open>CRegisterHandle\<close>

definition CReturn_OK :: int32 where "CReturn_OK = 0"
definition CReturn_ERROR :: int32 where "CReturn_ERROR = 1"
definition ServiceType_ONE :: int32 where "ServiceType_ONE = 0"
definition ServiceType_ALL :: int32 where "ServiceType_ALL = 1"

definition message_res :: "int32 \<Rightarrow> string \<Rightarrow> CMessageRes" where
  "message_res ret m = CMessageRes_Clear\<lparr>CMessageRes_return := ret, CMessageRes_msg := m\<rparr>"

definition heartRes :: "('b, 'a) CMsgEvent_scheme \<Rightarrow> ('b, 'a) CMsgEvent_scheme" where
  "heartRes t = t"

text \<open>The answer to a request: \<open>res\<close> under the type \<open>MSG_REGISTER_RES\<close>; its result is ignored.\<close>

definition register_res ::
    "'b platform \<Rightarrow> int32 \<Rightarrow> string \<Rightarrow> ('b, 'a) CMsgEvent_scheme \<Rightarrow> ('b, 'a) CMsgEvent_scheme" where
  "register_res P ret m t =
     snd (sendMsg_type P MSG_REGISTER_RES (Some (CMessageRes_Serialize (message_res ret m))) t)"

definition invalid_port_text :: "int \<Rightarrow> string" where
  "invalid_port_text port = ''invalid servicePort'' @ [CHR 0xA3, CHR 0xBA, CHR '' ''] @ show_int port @
     '' out of range: 1 ~ 65535!''"

definition registed_text :: "string \<Rightarrow> string \<Rightarrow> int \<Rightarrow> string" where
  "registed_text name ip port = ''service ['' @ takeWhile (\<lambda>c. c \<noteq> NUL) name @ ''->'' @ ip @ '':'' @
     show_int port @ ''] already registed!''"

definition same_service :: "string \<Rightarrow> int \<Rightarrow> CServiceMap_CService \<Rightarrow> bool" where
  "same_service ip port s \<longleftrightarrow> CService_ip s = ip \<and> sint (CService_port s) = port"

definition new_service :: "string \<Rightarrow> string \<Rightarrow> int \<Rightarrow> CServiceMap_CService" where
  "new_service name ip port = CServiceMap_CService_Clear
     \<lparr>CService_ip := ip, CService_port := word_of_int port, CService_name := name\<rparr>"

text \<open>
  The locked part of \<open>registerReq\<close>: find or make the list of the name, look for the same
  address and port, else add. \<open>False\<close> means already registered.
\<close>

definition register_service ::
    "string \<Rightarrow> string \<Rightarrow> int \<Rightarrow> CServiceMap option \<Rightarrow> bool \<times> CServiceMap option" where
  "register_service serviceName serviceIp servicePort serviceMap =
     (let m = (case serviceMap of None \<Rightarrow> CServiceMap_Clear | Some m \<Rightarrow> m);
          m = (if sm_serviceMap m serviceName = None
               then m\<lparr>sm_serviceMap := (sm_serviceMap m)(serviceName \<mapsto> CServiceMap_CServiceList_Clear)\<rparr>
               else m);
          serviceList = the (sm_serviceMap m serviceName) in
      if \<exists>s \<in> set (CServiceList_service serviceList). same_service serviceIp servicePort s
      then (False, Some m)
      else (True, Some (m\<lparr>sm_serviceMap := (sm_serviceMap m)(serviceName \<mapsto>
        serviceList\<lparr>CServiceList_service := CServiceList_service serviceList @
          [new_service serviceName serviceIp servicePort]\<rparr>)\<rparr>)))"

definition registerReq ::
    "'b platform \<Rightarrow> CMsg \<Rightarrow> CServiceMap option \<Rightarrow> ('b, 'a) CMsgEvent_scheme \<Rightarrow>
     (CServiceMap option \<times> ('b, 'a) CMsgEvent_scheme) checked" where
  "registerReq P msg serviceMap t =
     (case CRegisterReq_ParseFromArray (p_protobuf P) (msg_bytes msg) of
        None \<Rightarrow> Inr (serviceMap, register_res P CReturn_ERROR ''CRegisterReq ParseFromArray failed!'' t)
      | Some req \<Rightarrow>
          let serviceName = CRegisterReq_name req in
          if serviceName = [] then
            Inr (serviceMap, register_res P CReturn_ERROR ''serviceName is empty!'' t)
          else
            bind_ub (if CRegisterReq_ip req = [] then c_str (m_clientIp t) else Inr (CRegisterReq_ip req))
              (\<lambda>serviceIp.
            let servicePort = sint (CRegisterReq_port req) in
            if servicePort \<le> 0 \<or> servicePort \<ge> 65536 then
              Inr (serviceMap, register_res P CReturn_ERROR (invalid_port_text servicePort) t)
            else
              let (added, serviceMap) = register_service serviceName serviceIp servicePort serviceMap in
              if \<not> added then
                Inr (serviceMap, register_res P CReturn_ERROR (registed_text serviceName serviceIp servicePort) t)
              else Inr (serviceMap, register_res P CReturn_OK ''OK'' t)))"

text \<open>
  \<open>getServiceReq\<close>. For all services the answer is the static table itself, into which the
  type and the result code are written. \<open>order\<close> is the iteration order of the map.
\<close>

definition get_services ::
    "int32 \<Rightarrow> string \<Rightarrow> CServiceMap option \<Rightarrow> CServiceMap \<times> CServiceMap option" where
  "get_services type serviceName serviceMap =
     (let res = CServiceMap_Clear\<lparr>sm_res := Some (CMessageRes_Clear\<lparr>CMessageRes_return := CReturn_ERROR\<rparr>)\<rparr>;
          m = (case serviceMap of None \<Rightarrow> CServiceMap_Clear | Some m \<Rightarrow> m);
          sendMap = (if type = ServiceType_ALL then m
            else case sm_serviceMap m serviceName of None \<Rightarrow> res
              | Some l \<Rightarrow> res\<lparr>sm_serviceMap := (sm_serviceMap res)(serviceName \<mapsto> l)\<rparr>);
          sendMap = sendMap\<lparr>sm_type := type\<rparr>;
          sendMap = sendMap\<lparr>sm_res := Some ((CServiceMap_mutable_res sendMap)\<lparr>CMessageRes_return := CReturn_OK\<rparr>)\<rparr> in
      (sendMap, Some (if type = ServiceType_ALL then sendMap else m)))"

definition getServiceReq ::
    "'b platform \<Rightarrow> (service_map \<Rightarrow> string list) \<Rightarrow> CMsg \<Rightarrow> CServiceMap option \<Rightarrow>
     ('b, 'a) CMsgEvent_scheme \<Rightarrow> CServiceMap option \<times> ('b, 'a) CMsgEvent_scheme" where
  "getServiceReq P order msg serviceMap t =
     (case CGetServiceReq_ParseFromArray (p_protobuf P) (msg_bytes msg) of
        None \<Rightarrow>
          let res = CServiceMap_Clear\<lparr>sm_res := Some (message_res CReturn_ERROR ''req.ParseFromArray failed!'')\<rparr> in
          (serviceMap, snd (sendMsg_type P MSG_GET_SERVICE_RES (Some (CServiceMap_Serialize order res)) t))
      | Some req \<Rightarrow>
          let (sendMap, serviceMap) =
                get_services (CGetServiceReq_type req) (CGetServiceReq_name req) serviceMap in
          (serviceMap, snd (sendMsg_type P MSG_GET_SERVICE_RES (Some (CServiceMap_Serialize order sendMap)) t)))"

section \<open>CRegisterServer\<close>

definition REGISTER_PORT :: int where "REGISTER_PORT = 20018"

definition register_createServiceHandle :: "'a CService_scheme \<Rightarrow> 'b CMsgEvent \<times> 'a CService_scheme" where
  "register_createServiceHandle s = (CMsgEvent_new\<lparr>m_readTimeoutMs := 5000\<rparr>, s)"

text \<open>The handlers \<open>regMsgCallback\<close> registers, by type.\<close>

datatype register_handler = HeartRes | RegisterReq | GetServiceReq

definition register_regMsgCallback :: "(int32 \<times> register_handler) list" where
  "register_regMsgCallback =
     [(MSG_HEART_REQ, HeartRes), (MSG_REGISTER_REQ, RegisterReq), (MSG_GET_SERVICE_REQ, GetServiceReq)]"

definition register_mainFunc :: "string list \<Rightarrow> 'a CService_scheme \<Rightarrow> 'a CService_scheme" where
  "register_mainFunc argv s =
     setServerPort (if length argv > 1 then atoi (argv ! 1) else REGISTER_PORT) s"

definition register_dispatch ::
    "'b platform \<Rightarrow> (service_map \<Rightarrow> string list) \<Rightarrow> CMsgHead \<Rightarrow> CMsg \<Rightarrow>
     CServiceMap option \<Rightarrow> ('b, 'a) CMsgEvent_scheme \<Rightarrow>
     (CServiceMap option \<times> ('b, 'a) CMsgEvent_scheme) checked" where
  "register_dispatch P order head msg serviceMap t =
     (case map_of register_regMsgCallback (msg_type head) of
        None \<Rightarrow> Inr (serviceMap, CMsgEvent_clear t)
      | Some HeartRes \<Rightarrow> Inr (serviceMap, heartRes t)
      | Some RegisterReq \<Rightarrow> registerReq P msg serviceMap t
      | Some GetServiceReq \<Rightarrow> Inr (getServiceReq P order msg serviceMap t))"

section \<open>The registry\<close>

text \<open>The table as what it stands for: which endpoints a name has.\<close>

definition services :: "CServiceMap option \<Rightarrow> string \<Rightarrow> CServiceMap_CService list" where
  "services m name = (case m of None \<Rightarrow> [] | Some m \<Rightarrow> (case sm_serviceMap m name of
     None \<Rightarrow> [] | Some l \<Rightarrow> CServiceList_service l))"

definition endpoint :: "CServiceMap_CService \<Rightarrow> string \<times> int" where
  "endpoint s = (CService_ip s, sint (CService_port s))"

definition registry :: "CServiceMap option \<Rightarrow> (string \<times> string \<times> int) set" where
  "registry m = {(name, e). e \<in> endpoint ` set (services m name)}"

definition table_ok :: "CServiceMap option \<Rightarrow> bool" where
  "table_ok m \<longleftrightarrow> (\<forall>name. distinct (map endpoint (services m name)) \<and>
     (\<forall>s \<in> set (services m name). name \<noteq> [] \<and> CService_name s = name \<and>
        1 \<le> sint (CService_port s) \<and> sint (CService_port s) \<le> 65535))"

lemma services_None [simp]: "services None = (\<lambda>_. [])"
  by (simp add: services_def fun_eq_iff)

lemma services_Clear [simp]: "services (Some CServiceMap_Clear) = (\<lambda>_. [])"
  by (simp add: services_def fun_eq_iff CServiceMap_Clear_def)

lemma services_upd [simp]:
  "services (Some (m\<lparr>sm_type := x\<rparr>)) = services (Some m)"
  "services (Some (m\<lparr>sm_res := r\<rparr>)) = services (Some m)"
  by (simp_all add: services_def fun_eq_iff)

lemma endpoint_new_service:
  "1 \<le> port \<Longrightarrow> port \<le> 65535 \<Longrightarrow> endpoint (new_service name ip port) = (ip, port)"
  by (simp add: endpoint_def new_service_def signed_of_int signed_take_bit_int_eq_self)

lemma new_service_sel [simp]:
  "CService_name (new_service name ip port) = name"
  by (simp add: new_service_def)

lemma same_service_endpoint: "same_service ip port s \<longleftrightarrow> endpoint s = (ip, port)"
  by (simp add: same_service_def endpoint_def)

text \<open>What \<open>register_service\<close> does to the services of each name.\<close>

lemma services_register_service:
  assumes "register_service name ip port m = (added, m')"
  shows "added \<longleftrightarrow> (ip, port) \<notin> endpoint ` set (services m name)"
    "services m' = (services m)(name := services m name @ (if added then [new_service name ip port] else []))"
proof -
  define t where "t = (case m of None \<Rightarrow> CServiceMap_Clear | Some m \<Rightarrow> m)"
  have t: "services m = services (Some t)" by (cases m) (simp_all add: t_def)
  define l where "l = (case sm_serviceMap t name of None \<Rightarrow> CServiceMap_CServiceList_Clear | Some l \<Rightarrow> l)"
  have l: "CServiceList_service l = services m name"
    unfolding t services_def by (simp add: l_def CServiceMap_CServiceList_Clear_def split: option.split)
  let ?t = "if sm_serviceMap t name = None
    then t\<lparr>sm_serviceMap := (sm_serviceMap t)(name \<mapsto> CServiceMap_CServiceList_Clear)\<rparr> else t"
  have l': "sm_serviceMap ?t name = Some l" by (auto simp: l_def)
  have s: "services (Some ?t) = services m"
    unfolding t services_def by (auto simp: fun_eq_iff CServiceMap_CServiceList_Clear_def)
  have dup: "(\<exists>s \<in> set (CServiceList_service l). same_service ip port s) \<longleftrightarrow>
      (ip, port) \<in> endpoint ` set (services m name)"
    by (auto simp: l same_service_endpoint image_iff eq_commute)
  have r: "register_service name ip port m =
      (if (ip, port) \<in> endpoint ` set (services m name) then (False, Some ?t)
       else (True, Some (?t\<lparr>sm_serviceMap := (sm_serviceMap ?t)(name \<mapsto>
         l\<lparr>CServiceList_service := services m name @ [new_service name ip port]\<rparr>)\<rparr>)))"
    unfolding register_service_def Let_def t_def [symmetric] l' option.sel dup by (simp add: l)
  show "added \<longleftrightarrow> (ip, port) \<notin> endpoint ` set (services m name)"
    using assms r by (auto split: if_splits)
  have upd: "services (Some (?t\<lparr>sm_serviceMap := (sm_serviceMap ?t)(name \<mapsto> l\<lparr>CServiceList_service := xs\<rparr>)\<rparr>)) =
      (services m)(name := xs)" for xs
    unfolding s [symmetric] by (rule ext) (simp add: services_def)
  show "services m' = (services m)(name := services m name @ (if added then [new_service name ip port] else []))"
  proof (cases added)
    case True
    then have "m' = Some (?t\<lparr>sm_serviceMap := (sm_serviceMap ?t)(name \<mapsto>
         l\<lparr>CServiceList_service := services m name @ [new_service name ip port]\<rparr>)\<rparr>)"
      using assms r by (simp split: if_splits)
    with True upd show ?thesis by (simp only: if_True)
  next
    case False
    then have "m' = Some ?t" using assms r by (cases "sm_serviceMap t name") (auto split: if_splits)
    with False s show ?thesis by (simp only: if_False append_Nil2 fun_upd_triv)
  qed
qed

lemma registry_register_service:
  assumes "register_service name ip port m = (added, m')" "1 \<le> port" "port \<le> 65535"
  shows "registry m' = insert (name, ip, port) (registry m)"
    "added \<longleftrightarrow> (name, ip, port) \<notin> registry m"
  using services_register_service [OF assms(1)] assms(2,3)
  by (auto simp: registry_def endpoint_new_service split: if_splits)

lemma table_ok_register_service:
  assumes "register_service name ip port m = (added, m')" "1 \<le> port" "port \<le> 65535" "name \<noteq> []" "table_ok m"
  shows "table_ok m'"
proof -
  have p: "sint (CService_port (new_service name ip port)) = port"
    using endpoint_new_service [OF assms(2,3), of name ip] by (simp add: endpoint_def)
  show ?thesis
    using services_register_service [OF assms(1)] assms(2-5) p
    by (auto simp: table_ok_def endpoint_new_service)
qed

lemma get_services_table:
  assumes "get_services type name m = (r, m')"
  shows "services m' = services m"
    "services (Some r) = (\<lambda>n. if type = ServiceType_ALL \<or> n = name then services m n else [])"
    "sm_type r = type" "CMessageRes_return (CServiceMap_mutable_res r) = CReturn_OK"
    "type \<noteq> ServiceType_ALL \<Longrightarrow> r = CServiceMap_Clear\<lparr>
       sm_serviceMap := (case m of None \<Rightarrow> Map.empty | Some t \<Rightarrow> sm_serviceMap t |` {name}), sm_type := type,
       sm_res := Some (CMessageRes_Clear\<lparr>CMessageRes_return := CReturn_OK\<rparr>)\<rparr>"
proof -
  show "services m' = services m"
    using assms by (cases m) (auto simp: get_services_def Let_def)
  show "sm_type r = type" "CMessageRes_return (CServiceMap_mutable_res r) = CReturn_OK"
    using assms by (auto simp: get_services_def Let_def CServiceMap_mutable_res_def)
  have one: "sm_serviceMap t |` {name} = (case sm_serviceMap t name of None \<Rightarrow> Map.empty | Some l \<Rightarrow> [name \<mapsto> l])" for t
    by (auto simp: fun_eq_iff restrict_map_def split: option.split)
  show r: "r = CServiceMap_Clear\<lparr>
       sm_serviceMap := (case m of None \<Rightarrow> Map.empty | Some t \<Rightarrow> sm_serviceMap t |` {name}), sm_type := type,
       sm_res := Some (CMessageRes_Clear\<lparr>CMessageRes_return := CReturn_OK\<rparr>)\<rparr>" if ty: "type \<noteq> ServiceType_ALL"
    using assms ty by (cases m) (auto simp: get_services_def Let_def one CServiceMap_Clear_def
        CServiceMap_mutable_res_def split: option.split)
  show "services (Some r) = (\<lambda>n. if type = ServiceType_ALL \<or> n = name then services m n else [])"
  proof (cases "type = ServiceType_ALL")
    case True
    with assms show ?thesis by (cases m) (auto simp: get_services_def Let_def)
  next
    case False
    with r show ?thesis by (cases m) (auto simp: services_def fun_eq_iff CServiceMap_Clear_def)
  qed
qed

end
