(* ===== verification/RegisterServer_Props.thy ===== *)
theory RegisterServer_Props
  imports RegisterServer
begin

text \<open>
  What the register centre guarantees: an abstract registry, a set of endpoints per name, that
  the handlers refine; an invariant of the table over all requests; what a registered service
  is answered, and what a lookup answers.
\<close>

section \<open>Handlers\<close>

text \<open>A registration the handler accepts: its name, address and port.\<close>

definition accepts :: "'b platform \<Rightarrow> CMsg \<Rightarrow> ('b, 'a) CMsgEvent_scheme \<Rightarrow> (string \<times> string \<times> int) option" where
  "accepts P msg t =
     (case CRegisterReq_ParseFromArray (p_protobuf P) (msg_bytes msg) of None \<Rightarrow> None
      | Some req \<Rightarrow>
          (case (if CRegisterReq_ip req = [] then c_str (m_clientIp t) else Inr (CRegisterReq_ip req)) of
             Inl u \<Rightarrow> None
           | Inr ip \<Rightarrow>
               if CRegisterReq_name req \<noteq> [] \<and> 1 \<le> sint (CRegisterReq_port req) \<and>
                  sint (CRegisterReq_port req) \<le> 65535
               then Some (CRegisterReq_name req, ip, sint (CRegisterReq_port req)) else None))"

lemma registerReq_accepts:
  assumes "accepts P msg t = Some (name, ip, port)"
  obtains added m' where "register_service name ip port m = (added, m')" "name \<noteq> []" "1 \<le> port" "port \<le> 65535"
    "registerReq P msg m t = Inr (m', if added then register_res P CReturn_OK ''OK'' t
       else register_res P CReturn_ERROR (registed_text name ip port) t)"
proof -
  obtain added m' where r: "register_service name ip port m = (added, m')" by force
  have *: "name \<noteq> []" "1 \<le> port" "port \<le> 65535"
    using assms by (auto simp: accepts_def split: option.splits sum.splits if_splits)
  have "registerReq P msg m t = Inr (m', if added then register_res P CReturn_OK ''OK'' t
       else register_res P CReturn_ERROR (registed_text name ip port) t)"
    using assms r by (auto simp: accepts_def registerReq_def Let_def bind_ub_def split: option.splits sum.splits if_splits)
  with r * that show thesis by blast
qed

lemma registerReq_rejected:
  assumes "accepts P msg t = None" "registerReq P msg m t = Inr (m', t')"
  shows "m' = m \<and> (\<exists>text. t' = register_res P CReturn_ERROR text t)"
  using assms by (auto simp: accepts_def registerReq_def Let_def bind_ub_def split: option.splits sum.splits if_splits)

lemma registerReq_cases:
  assumes "registerReq P msg m t = Inr (m', t')"
  obtains (rejected) "accepts P msg t = None" "m' = m"
    | (accepted) name ip port added where "accepts P msg t = Some (name, ip, port)" "name \<noteq> []"
      "1 \<le> port" "port \<le> 65535" "register_service name ip port m = (added, m')"
proof (cases "accepts P msg t")
  case None
  with registerReq_rejected [OF None assms] rejected show thesis by blast
next
  case (Some r)
  obtain name ip port where r: "r = (name, ip, port)" by (cases r) auto
  obtain added m'' where *: "register_service name ip port m = (added, m'')" "name \<noteq> []" "1 \<le> port" "port \<le> 65535"
    "registerReq P msg m t = Inr (m'', if added then register_res P CReturn_OK ''OK'' t
       else register_res P CReturn_ERROR (registed_text name ip port) t)"
    by (rule registerReq_accepts [OF Some [unfolded r], of m])
  with assms have "m'' = m'" by simp
  with * Some r accepted show thesis by blast
qed

lemma getServiceReq_services: "services (fst (getServiceReq P order msg m t)) = services m"
  by (auto simp: getServiceReq_def Let_def get_services_table(1) split: option.split prod.split)

text \<open>One request, whatever it is, against the table.\<close>

lemma register_dispatch_cases:
  assumes "register_dispatch P order head msg m t = Inr (m', t')"
  obtains (same) "services m' = services m"
    | (register) name ip port added where "msg_type head = MSG_REGISTER_REQ"
      "accepts P msg t = Some (name, ip, port)" "name \<noteq> []"
      "1 \<le> port" "port \<le> 65535" "register_service name ip port m = (added, m')"
proof (cases "map_of register_regMsgCallback (msg_type head)")
  case None
  with assms same show thesis by (simp add: register_dispatch_def)
next
  case (Some h)
  show thesis
  proof (cases h)
    case HeartRes
    with assms Some same show thesis by (simp add: register_dispatch_def)
  next
    case RegisterReq
    then have ty: "msg_type head = MSG_REGISTER_REQ"
      using Some by (auto simp: register_regMsgCallback_def split: if_splits)
    from assms Some RegisterReq have "registerReq P msg m t = Inr (m', t')"
      by (simp add: register_dispatch_def)
    then show thesis
    proof (cases rule: registerReq_cases)
      case rejected
      then show thesis by (intro same) simp
    next
      case (accepted name ip port added)
      with ty show thesis by (intro register)
    qed
  next
    case GetServiceReq
    with assms Some have "getServiceReq P order msg m t = (m', t')" by (simp add: register_dispatch_def)
    then show thesis using getServiceReq_services [of P order msg m t] same by simp
  qed
qed

section \<open>All requests\<close>

inductive register_reachable ::
    "'b platform \<Rightarrow> (service_map \<Rightarrow> string list) \<Rightarrow> CServiceMap option \<Rightarrow> bool" for P order where
  start: "register_reachable P order None"
| request: "register_reachable P order m \<Longrightarrow>
    register_dispatch P order head msg m (t :: 'b CMsgEvent) = Inr (m', t') \<Longrightarrow> register_reachable P order m'"

lemma table_ok_services: "services m' = services m \<Longrightarrow> table_ok m' = table_ok m"
  by (simp add: table_ok_def)

lemma registry_services: "services m' = services m \<Longrightarrow> registry m' = registry m"
  by (simp add: registry_def)

text \<open>
  C4. The table of the register centre stays well formed. After any sequence of requests from
  any connections, valid or not, every registered service stands under its own name, which is
  not empty, its port is from 1 to 65535, and no name has the same address and port twice.
\<close>

theorem register_table_invariant:
  assumes "register_reachable P order m"
  shows "table_ok m"
  using assms
proof induction
  case start
  show ?case by (simp add: table_ok_def)
next
  case (request m head msg t m' t')
  from request.hyps(2) show ?case
  proof (cases rule: register_dispatch_cases)
    case same
    then show ?thesis using request.IH table_ok_services [OF same] by simp
  next
    case (register name ip port added)
    show ?thesis
      by (rule table_ok_register_service [OF register(6,4,5,3) request.IH])
  qed
qed

section \<open>Sample requests\<close>

definition request_msg :: "int32 \<Rightarrow> string \<Rightarrow> CMsg" where
  "request_msg type body = \<lparr>m_size = int (length body), m_recvSize = int (length body),
     m_data = Some body, m_type = type\<rparr>"

lemma request_msg_sel [simp]: "msg_bytes (request_msg type body) = body"
  by (simp add: request_msg_def msg_bytes_def)

definition sample_register :: "string \<Rightarrow> int32 \<Rightarrow> CRegisterReq" where
  "sample_register name port =
     CRegisterReq_Clear\<lparr>CRegisterReq_name := name, CRegisterReq_port := port, CRegisterReq_ip := ''10.0.0.7''\<rparr>"

lemma sample_register_parses [simp]:
  "CRegisterReq_ParseFromArray ref_rt (CRegisterReq_Serialize (sample_register ''log'' 80)) =
     Some (sample_register ''log'' 80)"
  by (rule ref.CRegisterReq_roundtrip)
     (simp add: CRegisterReq_wf_def sample_register_def CRegisterReq_Clear_def ref_rt_def)

definition sample_request :: CMsg where
  "sample_request = request_msg MSG_REGISTER_REQ (CRegisterReq_Serialize (sample_register ''log'' 80))"

lemma sample_request_accepted [simp]:
  "accepts ref_platform sample_request t = Some (''log'', ''10.0.0.7'', 80)"
  by (simp add: accepts_def sample_request_def) (simp add: sample_register_def CRegisterReq_Clear_def)

lemma registry_None [simp]: "registry None = {}"
  by (simp add: registry_def)

definition key_order :: "service_map \<Rightarrow> string list" where
  "key_order m = (if m ''log'' = None then [] else [''log''])"

lemma sample_reachable:
  "\<exists>m. register_reachable ref_platform key_order m \<and> registry m = {(''log'', ''10.0.0.7'', 80)}"
proof -
  obtain added m' where r: "register_service ''log'' ''10.0.0.7'' 80 None = (added, m')"
    "registerReq ref_platform sample_request None (sample_event []) = Inr (m',
       if added then register_res ref_platform CReturn_OK ''OK'' (sample_event [])
       else register_res ref_platform CReturn_ERROR (registed_text ''log'' ''10.0.0.7'' 80) (sample_event []))"
    by (rule registerReq_accepts [OF sample_request_accepted, of None])
  have "register_reachable ref_platform key_order m'"
    by (rule register_reachable.request [OF register_reachable.start,
          where head = sample_head and msg = sample_request and t = "sample_event []"])
       (use r(2) in \<open>simp add: register_dispatch_def register_regMsgCallback_def sample_head_def
         MSG_REGISTER_REQ_def MSG_HEART_REQ_def\<close>)
  moreover have "registry m' = {(''log'', ''10.0.0.7'', 80)}"
    using registry_register_service [OF r(1)] by simp
  ultimately show ?thesis by blast
qed

theorem register_table_invariant_witness:
  "\<exists>m. register_reachable ref_platform key_order m \<and> registry m \<noteq> {} \<and> table_ok m"
  using sample_reachable register_table_invariant by (metis insert_not_empty)

text \<open>
  C28. Registration. A request that parses, with a name, an address (its own, or that of the
  connection) and a port in range, adds exactly that endpoint to the registry, and is answered
  OK when the endpoint is new. When it is there already the table keeps its services, and the
  answer is an ERROR (the comment in the code has registered services updated or skipped).
\<close>

theorem registerReq_registers:
  assumes "accepts P msg t = Some (name, ip, port)"
  shows "\<exists>m' text. registerReq P msg m t = Inr (m', register_res P
      (if (name, ip, port) \<in> registry m then CReturn_ERROR else CReturn_OK) text t) \<and>
    registry m' = insert (name, ip, port) (registry m) \<and>
    services m' = (if (name, ip, port) \<in> registry m then services m
      else (services m)(name := services m name @ [new_service name ip port]))"
proof -
  obtain added m' where r: "register_service name ip port m = (added, m')" "1 \<le> port" "port \<le> 65535"
    "registerReq P msg m t = Inr (m', if added then register_res P CReturn_OK ''OK'' t
       else register_res P CReturn_ERROR (registed_text name ip port) t)"
    by (rule registerReq_accepts [OF assms, of m])
  note s = registry_register_service [OF r(1-3)] services_register_service(2) [OF r(1)]
  show ?thesis
  proof (cases added)
    case True
    with r(4) s show ?thesis by (intro exI [of _ m'] exI [of _ "''OK''"]) simp
  next
    case False
    with r(4) s show ?thesis by (intro exI [of _ m'] exI [of _ "registed_text name ip port"]) (simp add: insert_absorb)
  qed
qed

theorem registerReq_registers_witness:
  "\<exists>m' text. registerReq ref_platform sample_request None (sample_event []) =
     Inr (m', register_res ref_platform CReturn_OK text (sample_event [])) \<and>
     registry m' = {(''log'', ''10.0.0.7'', 80)}"
  using registerReq_registers [OF sample_request_accepted, of None "sample_event []"] by auto

text \<open>
  The registry only grows. No request of any kind takes an endpoint out of the registry,
  and only a registration that parses, with a name, an address and a port in range, adds one,
  its own. (So a service that is gone stays listed: the heartbeat handler does nothing.)
\<close>

theorem registry_only_grows:
  assumes "register_dispatch P order head msg m t = Inr (m', t')"
  shows "registry m \<subseteq> registry m' \<and>
    (\<forall>e \<in> registry m' - registry m. msg_type head = MSG_REGISTER_REQ \<and> accepts P msg t = Some e)"
  using assms
proof (cases rule: register_dispatch_cases)
  case same
  then show ?thesis by (simp add: registry_services [OF same])
next
  case (register name ip port added)
  from registry_register_service(1) [OF register(6,4,5)] register(1,2) show ?thesis by auto
qed

theorem registry_only_grows_witness:
  "\<exists>m' t'. register_dispatch ref_platform key_order sample_head sample_request None (sample_event []) = Inr (m', t') \<and>
     registry None \<subseteq> registry m'"
proof -
  obtain added m' where "registerReq ref_platform sample_request None (sample_event []) = Inr (m',
       if added then register_res ref_platform CReturn_OK ''OK'' (sample_event [])
       else register_res ref_platform CReturn_ERROR (registed_text ''log'' ''10.0.0.7'' 80) (sample_event []))"
    by (rule registerReq_accepts [OF sample_request_accepted, of None])
  then have d: "register_dispatch ref_platform key_order sample_head sample_request None (sample_event []) = Inr (m',
       if added then register_res ref_platform CReturn_OK ''OK'' (sample_event [])
       else register_res ref_platform CReturn_ERROR (registed_text ''log'' ''10.0.0.7'' 80) (sample_event []))"
    by (simp add: register_dispatch_def register_regMsgCallback_def sample_head_def MSG_REGISTER_REQ_def MSG_HEART_REQ_def)
  from registry_only_grows [OF d] d show ?thesis by blast
qed

text \<open>
  Lookup. A request for the services of a name is answered with a message that the client
  parses back: it is marked OK and holds, for that name, exactly the registered endpoints, and
  nothing for another name. The table stays as it was.
\<close>

theorem getServiceReq_answers:
  assumes "coded_input (p_protobuf P)"
    and "CGetServiceReq_ParseFromArray (p_protobuf P) (msg_bytes msg) = Some req"
    and "CGetServiceReq_type req \<noteq> ServiceType_ALL"
    and "\<And>l. Option.bind m (\<lambda>m. sm_serviceMap m (CGetServiceReq_name req)) = Some l \<Longrightarrow>
      entry_wf (p_protobuf P) (CGetServiceReq_name req) l"
    and "\<And>t. dom t \<subseteq> {CGetServiceReq_name req} \<Longrightarrow> lists_keys order t"
  shows "\<exists>body r m'. getServiceReq P order msg m t =
      (m', snd (sendMsg_type P MSG_GET_SERVICE_RES (Some body) t)) \<and>
    CServiceMap_ParseFromArray (p_protobuf P) body = Some r \<and>
    CMessageRes_return (CServiceMap_mutable_res r) = CReturn_OK \<and>
    registry (Some r) = {e \<in> registry m. fst e = CGetServiceReq_name req} \<and> registry m' = registry m"
proof -
  let ?n = "CGetServiceReq_name req"
  obtain r m' where g: "get_services (CGetServiceReq_type req) ?n m = (r, m')" by force
  note s = get_services_table [OF g]
  have "CServiceMap_wf (p_protobuf P) r"
    unfolding s(5) [OF assms(3)] using assms(4)
    by (cases m) (auto simp: CServiceMap_wf_def CServiceMap_Clear_def CMessageRes_wf_def CMessageRes_Clear_def
        CMessageRes_Serialize_def CReturn_OK_def restrict_map_def split: if_splits)
  moreover have "dom (sm_serviceMap r) \<subseteq> {?n}"
    unfolding s(5) [OF assms(3)] by (cases m) (auto simp: restrict_map_def split: if_splits)
  ultimately have p: "CServiceMap_ParseFromArray (p_protobuf P) (CServiceMap_Serialize order r) = Some r"
    using assms(5) by (intro coded_input.CServiceMap_roundtrip [OF assms(1)])
  have "registry (Some r) = {e \<in> registry m. fst e = ?n}"
    using assms(3) by (auto simp: registry_def s(2) split: if_splits)
  moreover have "registry m' = registry m" by (rule registry_services [OF s(1)])
  moreover have "getServiceReq P order msg m t =
      (m', snd (sendMsg_type P MSG_GET_SERVICE_RES (Some (CServiceMap_Serialize order r)) t))"
    by (simp add: getServiceReq_def assms(2) g)
  ultimately show ?thesis using p s(4) by blast
qed

definition sample_lookup :: CMsg where
  "sample_lookup = request_msg MSG_GET_SERVICE_REQ
     (CGetServiceReq_Serialize (CGetServiceReq_Clear\<lparr>CGetServiceReq_name := ''log''\<rparr>))"

lemma sample_lookup_parses:
  "CGetServiceReq_ParseFromArray (p_protobuf ref_platform) (msg_bytes sample_lookup) =
     Some (CGetServiceReq_Clear\<lparr>CGetServiceReq_name := ''log''\<rparr>)"
  unfolding sample_lookup_def request_msg_sel ref_platform_sel
  by (rule ref.CGetServiceReq_roundtrip)
     (simp add: CGetServiceReq_wf_def CGetServiceReq_Clear_def ref_rt_def)

definition sample_table :: "CServiceMap option" where
  "sample_table = Some (CServiceMap_Clear\<lparr>sm_serviceMap := [''log'' \<mapsto> CServiceMap_CServiceList_Clear
     \<lparr>CServiceList_service := [new_service ''log'' ''10.0.0.7'' 80]\<rparr>]\<rparr>)"

lemma sample_table_registry: "registry sample_table = {(''log'', ''10.0.0.7'', 80)}"
  by (auto simp: registry_def sample_table_def services_def CServiceMap_CServiceList_Clear_def
      CServiceMap_Clear_def endpoint_new_service split: if_splits)

lemma sample_entry_wf:
  "entry_wf ref_rt ''log'' (CServiceMap_CServiceList_Clear
     \<lparr>CServiceList_service := [new_service ''log'' ''10.0.0.7'' 80]\<rparr>)"
proof -
  let ?s = "new_service ''log'' ''10.0.0.7'' 80"
  let ?l = "CServiceMap_CServiceList_Clear\<lparr>CServiceList_service := [?s]\<rparr>"
  have s: "length (CServiceMap_CService_Serialize ?s) \<le> 100"
    using length_fields_le(1) [of 3 80] length_fields_le(3) [of 2 "''10.0.0.7''"] length_fields_le(3) [of 1 "''log''"]
    by (simp add: CServiceMap_CService_Serialize_def new_service_def CServiceMap_CService_Clear_def)
  have l: "length (CServiceMap_CServiceList_Serialize ?l) \<le> 200"
    using s length_fields_le(4) [of 1 "CServiceMap_CService_ByteSizeLong ?s" "CServiceMap_CService_Serialize ?s"]
    by (simp add: CServiceMap_CServiceList_Serialize_def CServiceMap_CServiceList_Clear_def)
  have e: "length (ServiceMapEntry_Serialize ''log'' ?l) \<le> 300"
    using l length_fields_le(3) [of 1 "''log''"]
      length_fields_le(4) [of 2 "CServiceMap_CServiceList_ByteSizeLong ?l" "CServiceMap_CServiceList_Serialize ?l"]
    by (simp add: ServiceMapEntry_Serialize_def)
  have "CServiceMap_CServiceList_wf ref_rt ?l"
    using s by (simp add: CServiceMap_CServiceList_wf_def CServiceMap_CServiceList_Clear_def CServiceMap_CService_wf_def
        new_service_def CServiceMap_CService_Clear_def ref_rt_def)
  with l e show ?thesis by (simp add: entry_wf_def ref_rt_def)
qed

theorem getServiceReq_answers_witness:
  "\<exists>body r m'. getServiceReq ref_platform key_order sample_lookup sample_table (sample_event []) =
      (m', snd (sendMsg_type ref_platform MSG_GET_SERVICE_RES (Some body) (sample_event []))) \<and>
    CServiceMap_ParseFromArray ref_rt body = Some r \<and>
    registry (Some r) = {(''log'', ''10.0.0.7'', 80)}"
proof -
  let ?req = "CGetServiceReq_Clear\<lparr>CGetServiceReq_name := ''log''\<rparr>"
  have name: "CGetServiceReq_name ?req = ''log''" by simp
  have "\<exists>body r m'. getServiceReq ref_platform key_order sample_lookup sample_table (sample_event []) =
      (m', snd (sendMsg_type ref_platform MSG_GET_SERVICE_RES (Some body) (sample_event []))) \<and>
    CServiceMap_ParseFromArray (p_protobuf ref_platform) body = Some r \<and>
    CMessageRes_return (CServiceMap_mutable_res r) = CReturn_OK \<and>
    registry (Some r) = {e \<in> registry sample_table. fst e = CGetServiceReq_name ?req} \<and>
    registry m' = registry sample_table"
  proof (rule getServiceReq_answers [OF _ sample_lookup_parses])
    show "coded_input (p_protobuf ref_platform)" by (simp add: ref.coded_input_axioms)
    show "CGetServiceReq_type ?req \<noteq> ServiceType_ALL"
      by (simp add: CGetServiceReq_Clear_def ServiceType_ALL_def)
    show "entry_wf (p_protobuf ref_platform) (CGetServiceReq_name ?req) l"
      if "Option.bind sample_table (\<lambda>m. sm_serviceMap m (CGetServiceReq_name ?req)) = Some l" for l
      using that sample_entry_wf unfolding name by (simp add: sample_table_def)
    show "lists_keys key_order t" if "dom t \<subseteq> {CGetServiceReq_name ?req}" for t
      using that unfolding name by (auto simp: lists_keys_def key_order_def dom_def)
  qed
  moreover have "{e \<in> {(''log'', ''10.0.0.7'', 80 :: int)}. fst e = ''log''} = {(''log'', ''10.0.0.7'', 80)}"
    by auto
  ultimately show ?thesis unfolding name sample_table_registry ref_platform_sel by metis
qed

end
