(* ===== verification/Msg_Config.thy ===== *)
theory Msg_Config
  imports Wire_Read
begin

text \<open>
  The messages of the configuration centre. Per message, in the order of
  \<open>cplatform/cmsgcom.pb.cc\<close>: its fields (the unknown fields as the bytes they are written
  back with), \<open>Clear\<close>, \<open>InternalSerializeWithCachedSizesToArray\<close> (every caller runs
  \<open>ByteSizeLong\<close> first, so a cached size is the size), \<open>ByteSizeLong\<close>, the \<open>switch\<close> and the
  loop of \<open>MergePartialFromCodedStream\<close>, \<open>ParseFromArray\<close>, \<open>MergeFrom\<close> and \<open>CopyFrom\<close>
  (from another object). The lemmas: \<open>ByteSizeLong\<close> is the length of what is written,
  \<open>CopyFrom\<close> copies, and parsing what was written gives the message back.
\<close>

section \<open>CConfig\<close>

record CConfig =
  CConfig_serviceName :: string
  CConfig_servicePort :: int32
  CConfig_serviceIp :: string
  CConfig_privatePb :: string
  CConfig_proto :: string
  CConfig_unknown :: string

definition CConfig_Clear :: CConfig where
  "CConfig_Clear = \<lparr>CConfig_serviceName = [], CConfig_servicePort = 0,
     CConfig_serviceIp = [], CConfig_privatePb = [], CConfig_proto = [], CConfig_unknown = []\<rparr>"

definition CConfig_Serialize :: "CConfig \<Rightarrow> string" where
  "CConfig_Serialize m =
     (if length (CConfig_serviceName m) > 0 then WriteStringToArray 1 (CConfig_serviceName m) else []) @
     (if CConfig_servicePort m \<noteq> 0 then WriteInt32ToArray 2 (CConfig_servicePort m) else []) @
     (if length (CConfig_serviceIp m) > 0 then WriteStringToArray 3 (CConfig_serviceIp m) else []) @
     (if length (CConfig_privatePb m) > 0 then WriteStringToArray 4 (CConfig_privatePb m) else []) @
     (if length (CConfig_proto m) > 0 then WriteStringToArray 5 (CConfig_proto m) else []) @
     CConfig_unknown m"

definition CConfig_ByteSizeLong :: "CConfig \<Rightarrow> nat" where
  "CConfig_ByteSizeLong m =
     length (CConfig_unknown m) +
     (if length (CConfig_serviceName m) > 0 then 1 + StringSize (CConfig_serviceName m) else 0) +
     (if length (CConfig_serviceIp m) > 0 then 1 + StringSize (CConfig_serviceIp m) else 0) +
     (if length (CConfig_privatePb m) > 0 then 1 + StringSize (CConfig_privatePb m) else 0) +
     (if length (CConfig_proto m) > 0 then 1 + StringSize (CConfig_proto m) else 0) +
     (if CConfig_servicePort m \<noteq> 0 then 1 + Int32Size (CConfig_servicePort m) else 0)"

definition CConfig_cases :: "pb_rt \<Rightarrow> CConfig field_case" where
  "CConfig_cases rt tag inp m =
     (let field = GetTagFieldNumber tag in
      if field = 1 then arm tag 10 (read_string rt (\<lambda>v m. m\<lparr>CConfig_serviceName := v\<rparr>) inp m) else
      if field = 2 then arm tag 16 (read_int32 rt (\<lambda>v m. m\<lparr>CConfig_servicePort := v\<rparr>) inp m) else
      if field = 3 then arm tag 26 (read_string rt (\<lambda>v m. m\<lparr>CConfig_serviceIp := v\<rparr>) inp m) else
      if field = 4 then arm tag 34 (read_bytes rt (\<lambda>v m. m\<lparr>CConfig_privatePb := v\<rparr>) inp m) else
      if field = 5 then arm tag 42 (read_bytes rt (\<lambda>v m. m\<lparr>CConfig_proto := v\<rparr>) inp m) else
      None)"

definition CConfig_MergePartial ::
    "pb_rt \<Rightarrow> string \<Rightarrow> CConfig \<Rightarrow> (CConfig \<times> bool \<times> string) option" where
  "CConfig_MergePartial rt =
     merge_partial rt (CConfig_cases rt) (skip_field rt CConfig_unknown (\<lambda>u m. m\<lparr>CConfig_unknown := u\<rparr>))"

definition CConfig_ParseFromArray :: "pb_rt \<Rightarrow> string \<Rightarrow> CConfig option" where
  "CConfig_ParseFromArray rt bytes = parse_all (CConfig_MergePartial rt bytes CConfig_Clear)"

definition CConfig_MergeFrom :: "CConfig \<Rightarrow> CConfig \<Rightarrow> CConfig" where
  "CConfig_MergeFrom from this = this\<lparr>
     CConfig_unknown := CConfig_unknown this @ CConfig_unknown from,
     CConfig_serviceName := (if length (CConfig_serviceName from) > 0 then CConfig_serviceName from else CConfig_serviceName this),
     CConfig_serviceIp := (if length (CConfig_serviceIp from) > 0 then CConfig_serviceIp from else CConfig_serviceIp this),
     CConfig_privatePb := (if length (CConfig_privatePb from) > 0 then CConfig_privatePb from else CConfig_privatePb this),
     CConfig_proto := (if length (CConfig_proto from) > 0 then CConfig_proto from else CConfig_proto this),
     CConfig_servicePort := (if CConfig_servicePort from \<noteq> 0 then CConfig_servicePort from else CConfig_servicePort this)\<rparr>"

definition CConfig_CopyFrom :: "CConfig \<Rightarrow> CConfig \<Rightarrow> CConfig" where
  "CConfig_CopyFrom from this = CConfig_MergeFrom from CConfig_Clear"

definition CConfig_wf :: "pb_rt \<Rightarrow> CConfig \<Rightarrow> bool" where
  "CConfig_wf rt m \<longleftrightarrow>
     CConfig_unknown m = [] \<and>
     length (CConfig_serviceName m) < 2 ^ 31 \<and>
     VerifyUtf8String rt (CConfig_serviceName m) \<and>
     length (CConfig_serviceIp m) < 2 ^ 31 \<and>
     VerifyUtf8String rt (CConfig_serviceIp m) \<and>
     length (CConfig_privatePb m) < 2 ^ 31 \<and>
     length (CConfig_proto m) < 2 ^ 31"

lemma CConfig_ByteSizeLong [size_simps]: "CConfig_ByteSizeLong m = length (CConfig_Serialize m)"
  by (simp add: CConfig_ByteSizeLong_def CConfig_Serialize_def length_fields tag_simps)

lemma CConfig_CopyFrom_eq [simp]: "CConfig_CopyFrom from this = from"
  by (cases "from") (auto simp: CConfig_CopyFrom_def CConfig_MergeFrom_def CConfig_Clear_def)

lemma CConfig_arms:
  "CConfig_cases rt (MakeTag 1 WIRETYPE_LENGTH_DELIMITED) inp m =
     Some (read_string rt (\<lambda>v m. m\<lparr>CConfig_serviceName := v\<rparr>) inp m)"
  "CConfig_cases rt (MakeTag 2 WIRETYPE_VARINT) inp m =
     Some (read_int32 rt (\<lambda>v m. m\<lparr>CConfig_servicePort := v\<rparr>) inp m)"
  "CConfig_cases rt (MakeTag 3 WIRETYPE_LENGTH_DELIMITED) inp m =
     Some (read_string rt (\<lambda>v m. m\<lparr>CConfig_serviceIp := v\<rparr>) inp m)"
  "CConfig_cases rt (MakeTag 4 WIRETYPE_LENGTH_DELIMITED) inp m =
     Some (read_bytes rt (\<lambda>v m. m\<lparr>CConfig_privatePb := v\<rparr>) inp m)"
  "CConfig_cases rt (MakeTag 5 WIRETYPE_LENGTH_DELIMITED) inp m =
     Some (read_bytes rt (\<lambda>v m. m\<lparr>CConfig_proto := v\<rparr>) inp m)"
  by (simp_all add: CConfig_cases_def arm_def tag_simps)

context coded_input begin

lemma CConfig_parses:
  assumes "CConfig_wf rt m"
  shows "parses rt (CConfig_cases rt) skip (CConfig_Serialize m) CConfig_Clear m"
proof -
  have u: "CConfig_unknown m = []" using assms by (simp add: CConfig_wf_def)
  show ?thesis
    unfolding CConfig_Serialize_def u
    by (intro parses_string [where cases = "CConfig_cases rt", OF CConfig_arms(1)]
        parses_int32(1) [where cases = "CConfig_cases rt", OF CConfig_arms(2)]
        parses_string [where cases = "CConfig_cases rt", OF CConfig_arms(3)]
        parses_bytes [where cases = "CConfig_cases rt", OF CConfig_arms(4)]
        parses_bytes [where cases = "CConfig_cases rt", OF CConfig_arms(5)] parses_end)
       (use assms in \<open>auto simp: CConfig_wf_def CConfig_Clear_def tag_simps\<close>)
qed

lemma CConfig_roundtrip [codec_simps]:
  "CConfig_wf rt m \<Longrightarrow> CConfig_ParseFromArray rt (CConfig_Serialize m) = Some m"
  by (simp add: CConfig_ParseFromArray_def CConfig_MergePartial_def parses_parse_all [OF CConfig_parses])

lemma CConfig_MergePartial_sub:
  "CConfig_wf rt m \<Longrightarrow> CConfig_MergePartial rt (CConfig_Serialize m) CConfig_Clear = Some (m, True, [])"
  using CConfig_parses [of m] by (simp add: CConfig_MergePartial_def parses_def)

end

section \<open>CDownloadconfigReq\<close>

record CDownloadconfigReq =
  CDownloadconfigReq_servicePort :: int32
  CDownloadconfigReq_serviceIp :: string
  CDownloadconfigReq_unknown :: string

definition CDownloadconfigReq_Clear :: CDownloadconfigReq where
  "CDownloadconfigReq_Clear = \<lparr>CDownloadconfigReq_servicePort = 0,
     CDownloadconfigReq_serviceIp = [], CDownloadconfigReq_unknown = []\<rparr>"

definition CDownloadconfigReq_Serialize :: "CDownloadconfigReq \<Rightarrow> string" where
  "CDownloadconfigReq_Serialize m =
     (if CDownloadconfigReq_servicePort m \<noteq> 0 then WriteInt32ToArray 1 (CDownloadconfigReq_servicePort m) else []) @
     (if length (CDownloadconfigReq_serviceIp m) > 0 then WriteStringToArray 2 (CDownloadconfigReq_serviceIp m) else []) @
     CDownloadconfigReq_unknown m"

definition CDownloadconfigReq_ByteSizeLong :: "CDownloadconfigReq \<Rightarrow> nat" where
  "CDownloadconfigReq_ByteSizeLong m =
     length (CDownloadconfigReq_unknown m) +
     (if length (CDownloadconfigReq_serviceIp m) > 0 then 1 + StringSize (CDownloadconfigReq_serviceIp m) else 0) +
     (if CDownloadconfigReq_servicePort m \<noteq> 0 then 1 + Int32Size (CDownloadconfigReq_servicePort m) else 0)"

definition CDownloadconfigReq_cases :: "pb_rt \<Rightarrow> CDownloadconfigReq field_case" where
  "CDownloadconfigReq_cases rt tag inp m =
     (let field = GetTagFieldNumber tag in
      if field = 1 then arm tag 8 (read_int32 rt (\<lambda>v m. m\<lparr>CDownloadconfigReq_servicePort := v\<rparr>) inp m) else
      if field = 2 then arm tag 18 (read_string rt (\<lambda>v m. m\<lparr>CDownloadconfigReq_serviceIp := v\<rparr>) inp m) else
      None)"

definition CDownloadconfigReq_MergePartial ::
    "pb_rt \<Rightarrow> string \<Rightarrow> CDownloadconfigReq \<Rightarrow> (CDownloadconfigReq \<times> bool \<times> string) option" where
  "CDownloadconfigReq_MergePartial rt =
     merge_partial rt (CDownloadconfigReq_cases rt) (skip_field rt CDownloadconfigReq_unknown (\<lambda>u m. m\<lparr>CDownloadconfigReq_unknown := u\<rparr>))"

definition CDownloadconfigReq_ParseFromArray :: "pb_rt \<Rightarrow> string \<Rightarrow> CDownloadconfigReq option" where
  "CDownloadconfigReq_ParseFromArray rt bytes = parse_all (CDownloadconfigReq_MergePartial rt bytes CDownloadconfigReq_Clear)"

definition CDownloadconfigReq_MergeFrom :: "CDownloadconfigReq \<Rightarrow> CDownloadconfigReq \<Rightarrow> CDownloadconfigReq" where
  "CDownloadconfigReq_MergeFrom from this = this\<lparr>
     CDownloadconfigReq_unknown := CDownloadconfigReq_unknown this @ CDownloadconfigReq_unknown from,
     CDownloadconfigReq_serviceIp := (if length (CDownloadconfigReq_serviceIp from) > 0 then CDownloadconfigReq_serviceIp from else CDownloadconfigReq_serviceIp this),
     CDownloadconfigReq_servicePort := (if CDownloadconfigReq_servicePort from \<noteq> 0 then CDownloadconfigReq_servicePort from else CDownloadconfigReq_servicePort this)\<rparr>"

definition CDownloadconfigReq_CopyFrom :: "CDownloadconfigReq \<Rightarrow> CDownloadconfigReq \<Rightarrow> CDownloadconfigReq" where
  "CDownloadconfigReq_CopyFrom from this = CDownloadconfigReq_MergeFrom from CDownloadconfigReq_Clear"

definition CDownloadconfigReq_wf :: "pb_rt \<Rightarrow> CDownloadconfigReq \<Rightarrow> bool" where
  "CDownloadconfigReq_wf rt m \<longleftrightarrow>
     CDownloadconfigReq_unknown m = [] \<and>
     length (CDownloadconfigReq_serviceIp m) < 2 ^ 31 \<and>
     VerifyUtf8String rt (CDownloadconfigReq_serviceIp m)"

lemma CDownloadconfigReq_ByteSizeLong [size_simps]: "CDownloadconfigReq_ByteSizeLong m = length (CDownloadconfigReq_Serialize m)"
  by (simp add: CDownloadconfigReq_ByteSizeLong_def CDownloadconfigReq_Serialize_def length_fields tag_simps)

lemma CDownloadconfigReq_CopyFrom_eq [simp]: "CDownloadconfigReq_CopyFrom from this = from"
  by (cases "from") (auto simp: CDownloadconfigReq_CopyFrom_def CDownloadconfigReq_MergeFrom_def CDownloadconfigReq_Clear_def)

lemma CDownloadconfigReq_arms:
  "CDownloadconfigReq_cases rt (MakeTag 1 WIRETYPE_VARINT) inp m =
     Some (read_int32 rt (\<lambda>v m. m\<lparr>CDownloadconfigReq_servicePort := v\<rparr>) inp m)"
  "CDownloadconfigReq_cases rt (MakeTag 2 WIRETYPE_LENGTH_DELIMITED) inp m =
     Some (read_string rt (\<lambda>v m. m\<lparr>CDownloadconfigReq_serviceIp := v\<rparr>) inp m)"
  by (simp_all add: CDownloadconfigReq_cases_def arm_def tag_simps)

context coded_input begin

lemma CDownloadconfigReq_parses:
  assumes "CDownloadconfigReq_wf rt m"
  shows "parses rt (CDownloadconfigReq_cases rt) skip (CDownloadconfigReq_Serialize m) CDownloadconfigReq_Clear m"
proof -
  have u: "CDownloadconfigReq_unknown m = []" using assms by (simp add: CDownloadconfigReq_wf_def)
  show ?thesis
    unfolding CDownloadconfigReq_Serialize_def u
    by (intro
        parses_int32(1) [where cases = "CDownloadconfigReq_cases rt", OF CDownloadconfigReq_arms(1)]
        parses_string [where cases = "CDownloadconfigReq_cases rt", OF CDownloadconfigReq_arms(2)]
        parses_end)
       (use assms in \<open>auto simp: CDownloadconfigReq_wf_def CDownloadconfigReq_Clear_def tag_simps\<close>)
qed

lemma CDownloadconfigReq_roundtrip [codec_simps]:
  "CDownloadconfigReq_wf rt m \<Longrightarrow> CDownloadconfigReq_ParseFromArray rt (CDownloadconfigReq_Serialize m) = Some m"
  by (simp add: CDownloadconfigReq_ParseFromArray_def CDownloadconfigReq_MergePartial_def parses_parse_all [OF CDownloadconfigReq_parses])

end

section \<open>CConfigList\<close>

record CConfigList =
  CConfigList_config :: "CConfig list"
  CConfigList_unknown :: string

definition CConfigList_Clear :: CConfigList where
  "CConfigList_Clear = \<lparr>CConfigList_config = [], CConfigList_unknown = []\<rparr>"

definition CConfigList_Serialize :: "CConfigList \<Rightarrow> string" where
  "CConfigList_Serialize m =
     concat (map (\<lambda>x. WriteMessageToArray 1 (CConfig_ByteSizeLong x) (CConfig_Serialize x)) (CConfigList_config m)) @
     CConfigList_unknown m"

definition CConfigList_ByteSizeLong :: "CConfigList \<Rightarrow> nat" where
  "CConfigList_ByteSizeLong m =
     length (CConfigList_unknown m) +
     (1 * length (CConfigList_config m) + sum_list (map (\<lambda>x. MessageSize (CConfig_ByteSizeLong x)) (CConfigList_config m)))"

definition CConfigList_cases :: "pb_rt \<Rightarrow> CConfigList field_case" where
  "CConfigList_cases rt tag inp m =
     (let field = GetTagFieldNumber tag in
      if field = 1 then arm tag 10
        (read_message rt (\<lambda>i. CConfig_MergePartial rt i CConfig_Clear) (\<lambda>v m. m\<lparr>CConfigList_config := CConfigList_config m @ [v]\<rparr>) inp m) else
      None)"

definition CConfigList_MergePartial ::
    "pb_rt \<Rightarrow> string \<Rightarrow> CConfigList \<Rightarrow> (CConfigList \<times> bool \<times> string) option" where
  "CConfigList_MergePartial rt =
     merge_partial rt (CConfigList_cases rt) (skip_field rt CConfigList_unknown (\<lambda>u m. m\<lparr>CConfigList_unknown := u\<rparr>))"

definition CConfigList_ParseFromArray :: "pb_rt \<Rightarrow> string \<Rightarrow> CConfigList option" where
  "CConfigList_ParseFromArray rt bytes = parse_all (CConfigList_MergePartial rt bytes CConfigList_Clear)"

definition CConfigList_MergeFrom :: "CConfigList \<Rightarrow> CConfigList \<Rightarrow> CConfigList" where
  "CConfigList_MergeFrom from this = this\<lparr>
     CConfigList_unknown := CConfigList_unknown this @ CConfigList_unknown from,
     CConfigList_config := CConfigList_config this @ CConfigList_config from\<rparr>"

definition CConfigList_CopyFrom :: "CConfigList \<Rightarrow> CConfigList \<Rightarrow> CConfigList" where
  "CConfigList_CopyFrom from this = CConfigList_MergeFrom from CConfigList_Clear"

definition CConfigList_wf :: "pb_rt \<Rightarrow> CConfigList \<Rightarrow> bool" where
  "CConfigList_wf rt m \<longleftrightarrow>
     CConfigList_unknown m = [] \<and>
     (\<forall>x \<in> set (CConfigList_config m). CConfig_wf rt x \<and> length (CConfig_Serialize x) < 2 ^ 31)"

lemma CConfigList_ByteSizeLong [size_simps]: "CConfigList_ByteSizeLong m = length (CConfigList_Serialize m)"
  by (simp add: CConfigList_ByteSizeLong_def CConfigList_Serialize_def length_fields tag_simps length_repeated CConfig_ByteSizeLong)

lemma CConfigList_CopyFrom_eq [simp]: "CConfigList_CopyFrom from this = from"
  by (cases "from") (auto simp: CConfigList_CopyFrom_def CConfigList_MergeFrom_def CConfigList_Clear_def)

lemma fold_CConfigList_config [simp]:
  "fold (\<lambda>v m. m\<lparr>CConfigList_config := CConfigList_config m @ [v]\<rparr>) xs m = m\<lparr>CConfigList_config := CConfigList_config m @ xs\<rparr>"
  by (induction xs arbitrary: m) simp_all

lemma CConfigList_arms:
  "CConfigList_cases rt (MakeTag 1 WIRETYPE_LENGTH_DELIMITED) inp m =
     Some (read_message rt (\<lambda>i. CConfig_MergePartial rt i CConfig_Clear) (\<lambda>v m. m\<lparr>CConfigList_config := CConfigList_config m @ [v]\<rparr>) inp m)"
  by (simp add: CConfigList_cases_def arm_def tag_simps)

context coded_input begin

lemma CConfigList_parses:
  assumes "CConfigList_wf rt m"
  shows "parses rt (CConfigList_cases rt) skip (CConfigList_Serialize m) CConfigList_Clear m"
proof -
  have u: "CConfigList_unknown m = []" using assms by (simp add: CConfigList_wf_def)
  show ?thesis
    unfolding CConfigList_Serialize_def u
    by (intro parses_repeated [where cases = "CConfigList_cases rt", OF CConfigList_arms]
        parses_end)
       (use assms in \<open>auto simp: CConfigList_wf_def CConfigList_Clear_def tag_simps CConfig_ByteSizeLong CConfig_MergePartial_sub\<close>)
qed

lemma CConfigList_roundtrip [codec_simps]:
  "CConfigList_wf rt m \<Longrightarrow> CConfigList_ParseFromArray rt (CConfigList_Serialize m) = Some m"
  by (simp add: CConfigList_ParseFromArray_def CConfigList_MergePartial_def parses_parse_all [OF CConfigList_parses])

end

section \<open>CDownloadAllConfigReq\<close>

record CDownloadAllConfigReq =
  CDownloadAllConfigReq_page :: int32
  CDownloadAllConfigReq_pageCount :: int32
  CDownloadAllConfigReq_unknown :: string

definition CDownloadAllConfigReq_Clear :: CDownloadAllConfigReq where
  "CDownloadAllConfigReq_Clear = \<lparr>CDownloadAllConfigReq_page = 0,
     CDownloadAllConfigReq_pageCount = 0, CDownloadAllConfigReq_unknown = []\<rparr>"

definition CDownloadAllConfigReq_Serialize :: "CDownloadAllConfigReq \<Rightarrow> string" where
  "CDownloadAllConfigReq_Serialize m =
     (if CDownloadAllConfigReq_page m \<noteq> 0 then WriteInt32ToArray 1 (CDownloadAllConfigReq_page m) else []) @
     (if CDownloadAllConfigReq_pageCount m \<noteq> 0 then WriteInt32ToArray 2 (CDownloadAllConfigReq_pageCount m) else []) @
     CDownloadAllConfigReq_unknown m"

definition CDownloadAllConfigReq_ByteSizeLong :: "CDownloadAllConfigReq \<Rightarrow> nat" where
  "CDownloadAllConfigReq_ByteSizeLong m =
     length (CDownloadAllConfigReq_unknown m) +
     (if CDownloadAllConfigReq_page m \<noteq> 0 then 1 + Int32Size (CDownloadAllConfigReq_page m) else 0) +
     (if CDownloadAllConfigReq_pageCount m \<noteq> 0 then 1 + Int32Size (CDownloadAllConfigReq_pageCount m) else 0)"

definition CDownloadAllConfigReq_cases :: "pb_rt \<Rightarrow> CDownloadAllConfigReq field_case" where
  "CDownloadAllConfigReq_cases rt tag inp m =
     (let field = GetTagFieldNumber tag in
      if field = 1 then arm tag 8 (read_int32 rt (\<lambda>v m. m\<lparr>CDownloadAllConfigReq_page := v\<rparr>) inp m) else
      if field = 2 then arm tag 16 (read_int32 rt (\<lambda>v m. m\<lparr>CDownloadAllConfigReq_pageCount := v\<rparr>) inp m) else
      None)"

definition CDownloadAllConfigReq_MergePartial ::
    "pb_rt \<Rightarrow> string \<Rightarrow> CDownloadAllConfigReq \<Rightarrow> (CDownloadAllConfigReq \<times> bool \<times> string) option" where
  "CDownloadAllConfigReq_MergePartial rt =
     merge_partial rt (CDownloadAllConfigReq_cases rt) (skip_field rt CDownloadAllConfigReq_unknown (\<lambda>u m. m\<lparr>CDownloadAllConfigReq_unknown := u\<rparr>))"

definition CDownloadAllConfigReq_ParseFromArray :: "pb_rt \<Rightarrow> string \<Rightarrow> CDownloadAllConfigReq option" where
  "CDownloadAllConfigReq_ParseFromArray rt bytes = parse_all (CDownloadAllConfigReq_MergePartial rt bytes CDownloadAllConfigReq_Clear)"

definition CDownloadAllConfigReq_MergeFrom :: "CDownloadAllConfigReq \<Rightarrow> CDownloadAllConfigReq \<Rightarrow> CDownloadAllConfigReq" where
  "CDownloadAllConfigReq_MergeFrom from this = this\<lparr>
     CDownloadAllConfigReq_unknown := CDownloadAllConfigReq_unknown this @ CDownloadAllConfigReq_unknown from,
     CDownloadAllConfigReq_page := (if CDownloadAllConfigReq_page from \<noteq> 0 then CDownloadAllConfigReq_page from else CDownloadAllConfigReq_page this),
     CDownloadAllConfigReq_pageCount := (if CDownloadAllConfigReq_pageCount from \<noteq> 0 then CDownloadAllConfigReq_pageCount from else CDownloadAllConfigReq_pageCount this)\<rparr>"

definition CDownloadAllConfigReq_CopyFrom :: "CDownloadAllConfigReq \<Rightarrow> CDownloadAllConfigReq \<Rightarrow> CDownloadAllConfigReq" where
  "CDownloadAllConfigReq_CopyFrom from this = CDownloadAllConfigReq_MergeFrom from CDownloadAllConfigReq_Clear"

definition CDownloadAllConfigReq_wf :: "pb_rt \<Rightarrow> CDownloadAllConfigReq \<Rightarrow> bool" where
  "CDownloadAllConfigReq_wf rt m \<longleftrightarrow>
     CDownloadAllConfigReq_unknown m = []"

lemma CDownloadAllConfigReq_ByteSizeLong [size_simps]: "CDownloadAllConfigReq_ByteSizeLong m = length (CDownloadAllConfigReq_Serialize m)"
  by (simp add: CDownloadAllConfigReq_ByteSizeLong_def CDownloadAllConfigReq_Serialize_def length_fields tag_simps)

lemma CDownloadAllConfigReq_CopyFrom_eq [simp]: "CDownloadAllConfigReq_CopyFrom from this = from"
  by (cases "from") (auto simp: CDownloadAllConfigReq_CopyFrom_def CDownloadAllConfigReq_MergeFrom_def CDownloadAllConfigReq_Clear_def)

lemma CDownloadAllConfigReq_arms:
  "CDownloadAllConfigReq_cases rt (MakeTag 1 WIRETYPE_VARINT) inp m =
     Some (read_int32 rt (\<lambda>v m. m\<lparr>CDownloadAllConfigReq_page := v\<rparr>) inp m)"
  "CDownloadAllConfigReq_cases rt (MakeTag 2 WIRETYPE_VARINT) inp m =
     Some (read_int32 rt (\<lambda>v m. m\<lparr>CDownloadAllConfigReq_pageCount := v\<rparr>) inp m)"
  by (simp_all add: CDownloadAllConfigReq_cases_def arm_def tag_simps)

context coded_input begin

lemma CDownloadAllConfigReq_parses:
  assumes "CDownloadAllConfigReq_wf rt m"
  shows "parses rt (CDownloadAllConfigReq_cases rt) skip (CDownloadAllConfigReq_Serialize m) CDownloadAllConfigReq_Clear m"
proof -
  have u: "CDownloadAllConfigReq_unknown m = []" using assms by (simp add: CDownloadAllConfigReq_wf_def)
  show ?thesis
    unfolding CDownloadAllConfigReq_Serialize_def u
    by (intro
        parses_int32(1) [where cases = "CDownloadAllConfigReq_cases rt", OF CDownloadAllConfigReq_arms(1)]
        parses_int32(1) [where cases = "CDownloadAllConfigReq_cases rt", OF CDownloadAllConfigReq_arms(2)]
        parses_end)
       (use assms in \<open>auto simp: CDownloadAllConfigReq_wf_def CDownloadAllConfigReq_Clear_def tag_simps\<close>)
qed

lemma CDownloadAllConfigReq_roundtrip [codec_simps]:
  "CDownloadAllConfigReq_wf rt m \<Longrightarrow> CDownloadAllConfigReq_ParseFromArray rt (CDownloadAllConfigReq_Serialize m) = Some m"
  by (simp add: CDownloadAllConfigReq_ParseFromArray_def CDownloadAllConfigReq_MergePartial_def parses_parse_all [OF CDownloadAllConfigReq_parses])

end

section \<open>CGatewayConfig\<close>

record CGatewayConfig =
  CGatewayConfig_isSSL :: bool
  CGatewayConfig_crtPath :: string
  CGatewayConfig_keyPath :: string
  CGatewayConfig_caPath :: string
  CGatewayConfig_unknown :: string

definition CGatewayConfig_Clear :: CGatewayConfig where
  "CGatewayConfig_Clear = \<lparr>CGatewayConfig_isSSL = False, CGatewayConfig_crtPath = [],
     CGatewayConfig_keyPath = [], CGatewayConfig_caPath = [], CGatewayConfig_unknown = []\<rparr>"

definition CGatewayConfig_Serialize :: "CGatewayConfig \<Rightarrow> string" where
  "CGatewayConfig_Serialize m =
     (if CGatewayConfig_isSSL m then WriteBoolToArray 1 (CGatewayConfig_isSSL m) else []) @
     (if length (CGatewayConfig_crtPath m) > 0 then WriteStringToArray 2 (CGatewayConfig_crtPath m) else []) @
     (if length (CGatewayConfig_keyPath m) > 0 then WriteStringToArray 3 (CGatewayConfig_keyPath m) else []) @
     (if length (CGatewayConfig_caPath m) > 0 then WriteStringToArray 4 (CGatewayConfig_caPath m) else []) @
     CGatewayConfig_unknown m"

definition CGatewayConfig_ByteSizeLong :: "CGatewayConfig \<Rightarrow> nat" where
  "CGatewayConfig_ByteSizeLong m =
     length (CGatewayConfig_unknown m) +
     (if length (CGatewayConfig_crtPath m) > 0 then 1 + StringSize (CGatewayConfig_crtPath m) else 0) +
     (if length (CGatewayConfig_keyPath m) > 0 then 1 + StringSize (CGatewayConfig_keyPath m) else 0) +
     (if length (CGatewayConfig_caPath m) > 0 then 1 + StringSize (CGatewayConfig_caPath m) else 0) +
     (if CGatewayConfig_isSSL m then 1 + 1 else 0)"

definition CGatewayConfig_cases :: "pb_rt \<Rightarrow> CGatewayConfig field_case" where
  "CGatewayConfig_cases rt tag inp m =
     (let field = GetTagFieldNumber tag in
      if field = 1 then arm tag 8 (read_bool rt (\<lambda>v m. m\<lparr>CGatewayConfig_isSSL := v\<rparr>) inp m) else
      if field = 2 then arm tag 18 (read_string rt (\<lambda>v m. m\<lparr>CGatewayConfig_crtPath := v\<rparr>) inp m) else
      if field = 3 then arm tag 26 (read_string rt (\<lambda>v m. m\<lparr>CGatewayConfig_keyPath := v\<rparr>) inp m) else
      if field = 4 then arm tag 34 (read_string rt (\<lambda>v m. m\<lparr>CGatewayConfig_caPath := v\<rparr>) inp m) else
      None)"

definition CGatewayConfig_MergePartial ::
    "pb_rt \<Rightarrow> string \<Rightarrow> CGatewayConfig \<Rightarrow> (CGatewayConfig \<times> bool \<times> string) option" where
  "CGatewayConfig_MergePartial rt =
     merge_partial rt (CGatewayConfig_cases rt) (skip_field rt CGatewayConfig_unknown (\<lambda>u m. m\<lparr>CGatewayConfig_unknown := u\<rparr>))"

definition CGatewayConfig_ParseFromArray :: "pb_rt \<Rightarrow> string \<Rightarrow> CGatewayConfig option" where
  "CGatewayConfig_ParseFromArray rt bytes = parse_all (CGatewayConfig_MergePartial rt bytes CGatewayConfig_Clear)"

definition CGatewayConfig_MergeFrom :: "CGatewayConfig \<Rightarrow> CGatewayConfig \<Rightarrow> CGatewayConfig" where
  "CGatewayConfig_MergeFrom from this = this\<lparr>
     CGatewayConfig_unknown := CGatewayConfig_unknown this @ CGatewayConfig_unknown from,
     CGatewayConfig_crtPath := (if length (CGatewayConfig_crtPath from) > 0 then CGatewayConfig_crtPath from else CGatewayConfig_crtPath this),
     CGatewayConfig_keyPath := (if length (CGatewayConfig_keyPath from) > 0 then CGatewayConfig_keyPath from else CGatewayConfig_keyPath this),
     CGatewayConfig_caPath := (if length (CGatewayConfig_caPath from) > 0 then CGatewayConfig_caPath from else CGatewayConfig_caPath this),
     CGatewayConfig_isSSL := (if CGatewayConfig_isSSL from then CGatewayConfig_isSSL from else CGatewayConfig_isSSL this)\<rparr>"

definition CGatewayConfig_CopyFrom :: "CGatewayConfig \<Rightarrow> CGatewayConfig \<Rightarrow> CGatewayConfig" where
  "CGatewayConfig_CopyFrom from this = CGatewayConfig_MergeFrom from CGatewayConfig_Clear"

definition CGatewayConfig_wf :: "pb_rt \<Rightarrow> CGatewayConfig \<Rightarrow> bool" where
  "CGatewayConfig_wf rt m \<longleftrightarrow>
     CGatewayConfig_unknown m = [] \<and>
     length (CGatewayConfig_crtPath m) < 2 ^ 31 \<and>
     VerifyUtf8String rt (CGatewayConfig_crtPath m) \<and>
     length (CGatewayConfig_keyPath m) < 2 ^ 31 \<and>
     VerifyUtf8String rt (CGatewayConfig_keyPath m) \<and>
     length (CGatewayConfig_caPath m) < 2 ^ 31 \<and>
     VerifyUtf8String rt (CGatewayConfig_caPath m)"

lemma CGatewayConfig_ByteSizeLong [size_simps]: "CGatewayConfig_ByteSizeLong m = length (CGatewayConfig_Serialize m)"
  by (simp add: CGatewayConfig_ByteSizeLong_def CGatewayConfig_Serialize_def length_fields tag_simps)

lemma CGatewayConfig_CopyFrom_eq [simp]: "CGatewayConfig_CopyFrom from this = from"
  by (cases "from") (auto simp: CGatewayConfig_CopyFrom_def CGatewayConfig_MergeFrom_def CGatewayConfig_Clear_def)

lemma CGatewayConfig_arms:
  "CGatewayConfig_cases rt (MakeTag 1 WIRETYPE_VARINT) inp m =
     Some (read_bool rt (\<lambda>v m. m\<lparr>CGatewayConfig_isSSL := v\<rparr>) inp m)"
  "CGatewayConfig_cases rt (MakeTag 2 WIRETYPE_LENGTH_DELIMITED) inp m =
     Some (read_string rt (\<lambda>v m. m\<lparr>CGatewayConfig_crtPath := v\<rparr>) inp m)"
  "CGatewayConfig_cases rt (MakeTag 3 WIRETYPE_LENGTH_DELIMITED) inp m =
     Some (read_string rt (\<lambda>v m. m\<lparr>CGatewayConfig_keyPath := v\<rparr>) inp m)"
  "CGatewayConfig_cases rt (MakeTag 4 WIRETYPE_LENGTH_DELIMITED) inp m =
     Some (read_string rt (\<lambda>v m. m\<lparr>CGatewayConfig_caPath := v\<rparr>) inp m)"
  by (simp_all add: CGatewayConfig_cases_def arm_def tag_simps)

context coded_input begin

lemma CGatewayConfig_parses:
  assumes "CGatewayConfig_wf rt m"
  shows "parses rt (CGatewayConfig_cases rt) skip (CGatewayConfig_Serialize m) CGatewayConfig_Clear m"
proof -
  have u: "CGatewayConfig_unknown m = []" using assms by (simp add: CGatewayConfig_wf_def)
  show ?thesis
    unfolding CGatewayConfig_Serialize_def u
    by (intro parses_bool [where cases = "CGatewayConfig_cases rt", OF CGatewayConfig_arms(1)]
        parses_string [where cases = "CGatewayConfig_cases rt", OF CGatewayConfig_arms(2)]
        parses_string [where cases = "CGatewayConfig_cases rt", OF CGatewayConfig_arms(3)]
        parses_string [where cases = "CGatewayConfig_cases rt", OF CGatewayConfig_arms(4)]
        parses_end)
       (use assms in \<open>auto simp: CGatewayConfig_wf_def CGatewayConfig_Clear_def tag_simps\<close>)
qed

lemma CGatewayConfig_roundtrip [codec_simps]:
  "CGatewayConfig_wf rt m \<Longrightarrow> CGatewayConfig_ParseFromArray rt (CGatewayConfig_Serialize m) = Some m"
  by (simp add: CGatewayConfig_ParseFromArray_def CGatewayConfig_MergePartial_def parses_parse_all [OF CGatewayConfig_parses])

end

section \<open>CDirConfig\<close>

record CDirConfig =
  CDirConfig_root :: string
  CDirConfig_unknown :: string

definition CDirConfig_Clear :: CDirConfig where
  "CDirConfig_Clear = \<lparr>CDirConfig_root = [], CDirConfig_unknown = []\<rparr>"

definition CDirConfig_Serialize :: "CDirConfig \<Rightarrow> string" where
  "CDirConfig_Serialize m =
     (if length (CDirConfig_root m) > 0 then WriteStringToArray 1 (CDirConfig_root m) else []) @
     CDirConfig_unknown m"

definition CDirConfig_ByteSizeLong :: "CDirConfig \<Rightarrow> nat" where
  "CDirConfig_ByteSizeLong m =
     length (CDirConfig_unknown m) +
     (if length (CDirConfig_root m) > 0 then 1 + StringSize (CDirConfig_root m) else 0)"

definition CDirConfig_cases :: "pb_rt \<Rightarrow> CDirConfig field_case" where
  "CDirConfig_cases rt tag inp m =
     (let field = GetTagFieldNumber tag in
      if field = 1 then arm tag 10 (read_string rt (\<lambda>v m. m\<lparr>CDirConfig_root := v\<rparr>) inp m) else
      None)"

definition CDirConfig_MergePartial ::
    "pb_rt \<Rightarrow> string \<Rightarrow> CDirConfig \<Rightarrow> (CDirConfig \<times> bool \<times> string) option" where
  "CDirConfig_MergePartial rt =
     merge_partial rt (CDirConfig_cases rt) (skip_field rt CDirConfig_unknown (\<lambda>u m. m\<lparr>CDirConfig_unknown := u\<rparr>))"

definition CDirConfig_ParseFromArray :: "pb_rt \<Rightarrow> string \<Rightarrow> CDirConfig option" where
  "CDirConfig_ParseFromArray rt bytes = parse_all (CDirConfig_MergePartial rt bytes CDirConfig_Clear)"

definition CDirConfig_MergeFrom :: "CDirConfig \<Rightarrow> CDirConfig \<Rightarrow> CDirConfig" where
  "CDirConfig_MergeFrom from this = this\<lparr>
     CDirConfig_unknown := CDirConfig_unknown this @ CDirConfig_unknown from,
     CDirConfig_root := (if length (CDirConfig_root from) > 0 then CDirConfig_root from else CDirConfig_root this)\<rparr>"

definition CDirConfig_CopyFrom :: "CDirConfig \<Rightarrow> CDirConfig \<Rightarrow> CDirConfig" where
  "CDirConfig_CopyFrom from this = CDirConfig_MergeFrom from CDirConfig_Clear"

definition CDirConfig_wf :: "pb_rt \<Rightarrow> CDirConfig \<Rightarrow> bool" where
  "CDirConfig_wf rt m \<longleftrightarrow>
     CDirConfig_unknown m = [] \<and>
     length (CDirConfig_root m) < 2 ^ 31 \<and>
     VerifyUtf8String rt (CDirConfig_root m)"

lemma CDirConfig_ByteSizeLong [size_simps]: "CDirConfig_ByteSizeLong m = length (CDirConfig_Serialize m)"
  by (simp add: CDirConfig_ByteSizeLong_def CDirConfig_Serialize_def length_fields tag_simps)

lemma CDirConfig_CopyFrom_eq [simp]: "CDirConfig_CopyFrom from this = from"
  by (cases "from") (auto simp: CDirConfig_CopyFrom_def CDirConfig_MergeFrom_def CDirConfig_Clear_def)

lemma CDirConfig_arms:
  "CDirConfig_cases rt (MakeTag 1 WIRETYPE_LENGTH_DELIMITED) inp m =
     Some (read_string rt (\<lambda>v m. m\<lparr>CDirConfig_root := v\<rparr>) inp m)"
  by (simp add: CDirConfig_cases_def arm_def tag_simps)

context coded_input begin

lemma CDirConfig_parses:
  assumes "CDirConfig_wf rt m"
  shows "parses rt (CDirConfig_cases rt) skip (CDirConfig_Serialize m) CDirConfig_Clear m"
proof -
  have u: "CDirConfig_unknown m = []" using assms by (simp add: CDirConfig_wf_def)
  show ?thesis
    unfolding CDirConfig_Serialize_def u
    by (intro parses_string [where cases = "CDirConfig_cases rt", OF CDirConfig_arms]
        parses_end)
       (use assms in \<open>auto simp: CDirConfig_wf_def CDirConfig_Clear_def tag_simps\<close>)
qed

lemma CDirConfig_roundtrip [codec_simps]:
  "CDirConfig_wf rt m \<Longrightarrow> CDirConfig_ParseFromArray rt (CDirConfig_Serialize m) = Some m"
  by (simp add: CDirConfig_ParseFromArray_def CDirConfig_MergePartial_def parses_parse_all [OF CDirConfig_parses])

end

end
