(* ===== verification/Msg_Auth.thy ===== *)
theory Msg_Auth
  imports Wire_Read
begin

text \<open>
  The messages of the authentication service. Per message, in the order of
  \<open>cplatform/cmsgcom.pb.cc\<close>: its fields (the unknown fields as the bytes they are written
  back with), \<open>Clear\<close>, \<open>InternalSerializeWithCachedSizesToArray\<close> (every caller runs
  \<open>ByteSizeLong\<close> first, so a cached size is the size), \<open>ByteSizeLong\<close>, the \<open>switch\<close> and the
  loop of \<open>MergePartialFromCodedStream\<close>, \<open>ParseFromArray\<close>, \<open>MergeFrom\<close> and \<open>CopyFrom\<close>
  (from another object). The lemmas: \<open>ByteSizeLong\<close> is the length of what is written,
  \<open>CopyFrom\<close> copies, and parsing what was written gives the message back.
\<close>

section \<open>CLoginReq\<close>

record CLoginReq =
  CLoginReq_username :: string
  CLoginReq_password :: string
  CLoginReq_unknown :: string

definition CLoginReq_Clear :: CLoginReq where
  "CLoginReq_Clear = \<lparr>CLoginReq_username = [], CLoginReq_password = [],
     CLoginReq_unknown = []\<rparr>"

definition CLoginReq_Serialize :: "CLoginReq \<Rightarrow> string" where
  "CLoginReq_Serialize m =
     (if length (CLoginReq_username m) > 0 then WriteStringToArray 1 (CLoginReq_username m) else []) @
     (if length (CLoginReq_password m) > 0 then WriteStringToArray 2 (CLoginReq_password m) else []) @
     CLoginReq_unknown m"

definition CLoginReq_ByteSizeLong :: "CLoginReq \<Rightarrow> nat" where
  "CLoginReq_ByteSizeLong m =
     length (CLoginReq_unknown m) +
     (if length (CLoginReq_username m) > 0 then 1 + StringSize (CLoginReq_username m) else 0) +
     (if length (CLoginReq_password m) > 0 then 1 + StringSize (CLoginReq_password m) else 0)"

definition CLoginReq_cases :: "pb_rt \<Rightarrow> CLoginReq field_case" where
  "CLoginReq_cases rt tag inp m =
     (let field = GetTagFieldNumber tag in
      if field = 1 then arm tag 10 (read_string rt (\<lambda>v m. m\<lparr>CLoginReq_username := v\<rparr>) inp m) else
      if field = 2 then arm tag 18 (read_string rt (\<lambda>v m. m\<lparr>CLoginReq_password := v\<rparr>) inp m) else
      None)"

definition CLoginReq_MergePartial ::
    "pb_rt \<Rightarrow> string \<Rightarrow> CLoginReq \<Rightarrow> (CLoginReq \<times> bool \<times> string) option" where
  "CLoginReq_MergePartial rt =
     merge_partial rt (CLoginReq_cases rt) (skip_field rt CLoginReq_unknown (\<lambda>u m. m\<lparr>CLoginReq_unknown := u\<rparr>))"

definition CLoginReq_ParseFromArray :: "pb_rt \<Rightarrow> string \<Rightarrow> CLoginReq option" where
  "CLoginReq_ParseFromArray rt bytes = parse_all (CLoginReq_MergePartial rt bytes CLoginReq_Clear)"

definition CLoginReq_MergeFrom :: "CLoginReq \<Rightarrow> CLoginReq \<Rightarrow> CLoginReq" where
  "CLoginReq_MergeFrom from this = this\<lparr>
     CLoginReq_unknown := CLoginReq_unknown this @ CLoginReq_unknown from,
     CLoginReq_username := (if length (CLoginReq_username from) > 0 then CLoginReq_username from else CLoginReq_username this),
     CLoginReq_password := (if length (CLoginReq_password from) > 0 then CLoginReq_password from else CLoginReq_password this)\<rparr>"

definition CLoginReq_CopyFrom :: "CLoginReq \<Rightarrow> CLoginReq \<Rightarrow> CLoginReq" where
  "CLoginReq_CopyFrom from this = CLoginReq_MergeFrom from CLoginReq_Clear"

definition CLoginReq_wf :: "pb_rt \<Rightarrow> CLoginReq \<Rightarrow> bool" where
  "CLoginReq_wf rt m \<longleftrightarrow>
     CLoginReq_unknown m = [] \<and>
     length (CLoginReq_username m) < 2 ^ 31 \<and>
     VerifyUtf8String rt (CLoginReq_username m) \<and>
     length (CLoginReq_password m) < 2 ^ 31 \<and>
     VerifyUtf8String rt (CLoginReq_password m)"

lemma CLoginReq_ByteSizeLong [size_simps]: "CLoginReq_ByteSizeLong m = length (CLoginReq_Serialize m)"
  by (simp add: CLoginReq_ByteSizeLong_def CLoginReq_Serialize_def length_fields tag_simps)

lemma CLoginReq_CopyFrom_eq [simp]: "CLoginReq_CopyFrom from this = from"
  by (cases "from") (auto simp: CLoginReq_CopyFrom_def CLoginReq_MergeFrom_def CLoginReq_Clear_def)

lemma CLoginReq_arms:
  "CLoginReq_cases rt (MakeTag 1 WIRETYPE_LENGTH_DELIMITED) inp m =
     Some (read_string rt (\<lambda>v m. m\<lparr>CLoginReq_username := v\<rparr>) inp m)"
  "CLoginReq_cases rt (MakeTag 2 WIRETYPE_LENGTH_DELIMITED) inp m =
     Some (read_string rt (\<lambda>v m. m\<lparr>CLoginReq_password := v\<rparr>) inp m)"
  by (simp_all add: CLoginReq_cases_def arm_def tag_simps)

context coded_input begin

lemma CLoginReq_parses:
  assumes "CLoginReq_wf rt m"
  shows "parses rt (CLoginReq_cases rt) skip (CLoginReq_Serialize m) CLoginReq_Clear m"
proof -
  have u: "CLoginReq_unknown m = []" using assms by (simp add: CLoginReq_wf_def)
  show ?thesis
    unfolding CLoginReq_Serialize_def u
    by (intro parses_string [where cases = "CLoginReq_cases rt", OF CLoginReq_arms(1)]
        parses_string [where cases = "CLoginReq_cases rt", OF CLoginReq_arms(2)] parses_end)
       (use assms in \<open>auto simp: CLoginReq_wf_def CLoginReq_Clear_def tag_simps\<close>)
qed

lemma CLoginReq_roundtrip [codec_simps]:
  "CLoginReq_wf rt m \<Longrightarrow> CLoginReq_ParseFromArray rt (CLoginReq_Serialize m) = Some m"
  by (simp add: CLoginReq_ParseFromArray_def CLoginReq_MergePartial_def parses_parse_all [OF CLoginReq_parses])

end

section \<open>CLoginRes\<close>

record CLoginRes =
  CLoginRes_res :: int32
  CLoginRes_token :: string
  CLoginRes_expired_time :: int32
  CLoginRes_rolename :: string
  CLoginRes_username :: string
  CLoginRes_unknown :: string

definition CLoginRes_Clear :: CLoginRes where
  "CLoginRes_Clear = \<lparr>CLoginRes_res = 0, CLoginRes_token = [],
     CLoginRes_expired_time = 0, CLoginRes_rolename = [], CLoginRes_username = [],
     CLoginRes_unknown = []\<rparr>"

definition CLoginRes_Serialize :: "CLoginRes \<Rightarrow> string" where
  "CLoginRes_Serialize m =
     (if CLoginRes_res m \<noteq> 0 then WriteEnumToArray 1 (CLoginRes_res m) else []) @
     (if length (CLoginRes_token m) > 0 then WriteStringToArray 2 (CLoginRes_token m) else []) @
     (if CLoginRes_expired_time m \<noteq> 0 then WriteInt32ToArray 3 (CLoginRes_expired_time m) else []) @
     (if length (CLoginRes_rolename m) > 0 then WriteStringToArray 4 (CLoginRes_rolename m) else []) @
     (if length (CLoginRes_username m) > 0 then WriteStringToArray 5 (CLoginRes_username m) else []) @
     CLoginRes_unknown m"

definition CLoginRes_ByteSizeLong :: "CLoginRes \<Rightarrow> nat" where
  "CLoginRes_ByteSizeLong m =
     length (CLoginRes_unknown m) +
     (if length (CLoginRes_token m) > 0 then 1 + StringSize (CLoginRes_token m) else 0) +
     (if length (CLoginRes_rolename m) > 0 then 1 + StringSize (CLoginRes_rolename m) else 0) +
     (if length (CLoginRes_username m) > 0 then 1 + StringSize (CLoginRes_username m) else 0) +
     (if CLoginRes_res m \<noteq> 0 then 1 + EnumSize (CLoginRes_res m) else 0) +
     (if CLoginRes_expired_time m \<noteq> 0 then 1 + Int32Size (CLoginRes_expired_time m) else 0)"

definition CLoginRes_cases :: "pb_rt \<Rightarrow> CLoginRes field_case" where
  "CLoginRes_cases rt tag inp m =
     (let field = GetTagFieldNumber tag in
      if field = 1 then arm tag 8 (read_int32 rt (\<lambda>v m. m\<lparr>CLoginRes_res := v\<rparr>) inp m) else
      if field = 2 then arm tag 18 (read_string rt (\<lambda>v m. m\<lparr>CLoginRes_token := v\<rparr>) inp m) else
      if field = 3 then arm tag 24 (read_int32 rt (\<lambda>v m. m\<lparr>CLoginRes_expired_time := v\<rparr>) inp m) else
      if field = 4 then arm tag 34 (read_string rt (\<lambda>v m. m\<lparr>CLoginRes_rolename := v\<rparr>) inp m) else
      if field = 5 then arm tag 42 (read_string rt (\<lambda>v m. m\<lparr>CLoginRes_username := v\<rparr>) inp m) else
      None)"

definition CLoginRes_MergePartial ::
    "pb_rt \<Rightarrow> string \<Rightarrow> CLoginRes \<Rightarrow> (CLoginRes \<times> bool \<times> string) option" where
  "CLoginRes_MergePartial rt =
     merge_partial rt (CLoginRes_cases rt) (skip_field rt CLoginRes_unknown (\<lambda>u m. m\<lparr>CLoginRes_unknown := u\<rparr>))"

definition CLoginRes_ParseFromArray :: "pb_rt \<Rightarrow> string \<Rightarrow> CLoginRes option" where
  "CLoginRes_ParseFromArray rt bytes = parse_all (CLoginRes_MergePartial rt bytes CLoginRes_Clear)"

definition CLoginRes_MergeFrom :: "CLoginRes \<Rightarrow> CLoginRes \<Rightarrow> CLoginRes" where
  "CLoginRes_MergeFrom from this = this\<lparr>
     CLoginRes_unknown := CLoginRes_unknown this @ CLoginRes_unknown from,
     CLoginRes_token := (if length (CLoginRes_token from) > 0 then CLoginRes_token from else CLoginRes_token this),
     CLoginRes_rolename := (if length (CLoginRes_rolename from) > 0 then CLoginRes_rolename from else CLoginRes_rolename this),
     CLoginRes_username := (if length (CLoginRes_username from) > 0 then CLoginRes_username from else CLoginRes_username this),
     CLoginRes_res := (if CLoginRes_res from \<noteq> 0 then CLoginRes_res from else CLoginRes_res this),
     CLoginRes_expired_time := (if CLoginRes_expired_time from \<noteq> 0 then CLoginRes_expired_time from else CLoginRes_expired_time this)\<rparr>"

definition CLoginRes_CopyFrom :: "CLoginRes \<Rightarrow> CLoginRes \<Rightarrow> CLoginRes" where
  "CLoginRes_CopyFrom from this = CLoginRes_MergeFrom from CLoginRes_Clear"

definition CLoginRes_wf :: "pb_rt \<Rightarrow> CLoginRes \<Rightarrow> bool" where
  "CLoginRes_wf rt m \<longleftrightarrow>
     CLoginRes_unknown m = [] \<and>
     length (CLoginRes_token m) < 2 ^ 31 \<and>
     VerifyUtf8String rt (CLoginRes_token m) \<and>
     length (CLoginRes_rolename m) < 2 ^ 31 \<and>
     VerifyUtf8String rt (CLoginRes_rolename m) \<and>
     length (CLoginRes_username m) < 2 ^ 31 \<and>
     VerifyUtf8String rt (CLoginRes_username m)"

lemma CLoginRes_ByteSizeLong [size_simps]: "CLoginRes_ByteSizeLong m = length (CLoginRes_Serialize m)"
  by (simp add: CLoginRes_ByteSizeLong_def CLoginRes_Serialize_def length_fields tag_simps)

lemma CLoginRes_CopyFrom_eq [simp]: "CLoginRes_CopyFrom from this = from"
  by (cases "from") (auto simp: CLoginRes_CopyFrom_def CLoginRes_MergeFrom_def CLoginRes_Clear_def)

lemma CLoginRes_arms:
  "CLoginRes_cases rt (MakeTag 1 WIRETYPE_VARINT) inp m =
     Some (read_int32 rt (\<lambda>v m. m\<lparr>CLoginRes_res := v\<rparr>) inp m)"
  "CLoginRes_cases rt (MakeTag 2 WIRETYPE_LENGTH_DELIMITED) inp m =
     Some (read_string rt (\<lambda>v m. m\<lparr>CLoginRes_token := v\<rparr>) inp m)"
  "CLoginRes_cases rt (MakeTag 3 WIRETYPE_VARINT) inp m =
     Some (read_int32 rt (\<lambda>v m. m\<lparr>CLoginRes_expired_time := v\<rparr>) inp m)"
  "CLoginRes_cases rt (MakeTag 4 WIRETYPE_LENGTH_DELIMITED) inp m =
     Some (read_string rt (\<lambda>v m. m\<lparr>CLoginRes_rolename := v\<rparr>) inp m)"
  "CLoginRes_cases rt (MakeTag 5 WIRETYPE_LENGTH_DELIMITED) inp m =
     Some (read_string rt (\<lambda>v m. m\<lparr>CLoginRes_username := v\<rparr>) inp m)"
  by (simp_all add: CLoginRes_cases_def arm_def tag_simps)

context coded_input begin

lemma CLoginRes_parses:
  assumes "CLoginRes_wf rt m"
  shows "parses rt (CLoginRes_cases rt) skip (CLoginRes_Serialize m) CLoginRes_Clear m"
proof -
  have u: "CLoginRes_unknown m = []" using assms by (simp add: CLoginRes_wf_def)
  show ?thesis
    unfolding CLoginRes_Serialize_def u
    by (intro parses_int32(2) [where cases = "CLoginRes_cases rt", OF CLoginRes_arms(1)]
        parses_string [where cases = "CLoginRes_cases rt", OF CLoginRes_arms(2)]
        parses_int32(1) [where cases = "CLoginRes_cases rt", OF CLoginRes_arms(3)]
        parses_string [where cases = "CLoginRes_cases rt", OF CLoginRes_arms(4)]
        parses_string [where cases = "CLoginRes_cases rt", OF CLoginRes_arms(5)] parses_end)
       (use assms in \<open>auto simp: CLoginRes_wf_def CLoginRes_Clear_def tag_simps\<close>)
qed

lemma CLoginRes_roundtrip [codec_simps]:
  "CLoginRes_wf rt m \<Longrightarrow> CLoginRes_ParseFromArray rt (CLoginRes_Serialize m) = Some m"
  by (simp add: CLoginRes_ParseFromArray_def CLoginRes_MergePartial_def parses_parse_all [OF CLoginRes_parses])

end

section \<open>CAddUserReq\<close>

record CAddUserReq =
  CAddUserReq_username :: string
  CAddUserReq_password :: string
  CAddUserReq_rolename :: string
  CAddUserReq_unknown :: string

definition CAddUserReq_Clear :: CAddUserReq where
  "CAddUserReq_Clear = \<lparr>CAddUserReq_username = [], CAddUserReq_password = [],
     CAddUserReq_rolename = [], CAddUserReq_unknown = []\<rparr>"

definition CAddUserReq_Serialize :: "CAddUserReq \<Rightarrow> string" where
  "CAddUserReq_Serialize m =
     (if length (CAddUserReq_username m) > 0 then WriteStringToArray 1 (CAddUserReq_username m) else []) @
     (if length (CAddUserReq_password m) > 0 then WriteStringToArray 2 (CAddUserReq_password m) else []) @
     (if length (CAddUserReq_rolename m) > 0 then WriteStringToArray 3 (CAddUserReq_rolename m) else []) @
     CAddUserReq_unknown m"

definition CAddUserReq_ByteSizeLong :: "CAddUserReq \<Rightarrow> nat" where
  "CAddUserReq_ByteSizeLong m =
     length (CAddUserReq_unknown m) +
     (if length (CAddUserReq_username m) > 0 then 1 + StringSize (CAddUserReq_username m) else 0) +
     (if length (CAddUserReq_password m) > 0 then 1 + StringSize (CAddUserReq_password m) else 0) +
     (if length (CAddUserReq_rolename m) > 0 then 1 + StringSize (CAddUserReq_rolename m) else 0)"

definition CAddUserReq_cases :: "pb_rt \<Rightarrow> CAddUserReq field_case" where
  "CAddUserReq_cases rt tag inp m =
     (let field = GetTagFieldNumber tag in
      if field = 1 then arm tag 10 (read_string rt (\<lambda>v m. m\<lparr>CAddUserReq_username := v\<rparr>) inp m) else
      if field = 2 then arm tag 18 (read_string rt (\<lambda>v m. m\<lparr>CAddUserReq_password := v\<rparr>) inp m) else
      if field = 3 then arm tag 26 (read_string rt (\<lambda>v m. m\<lparr>CAddUserReq_rolename := v\<rparr>) inp m) else
      None)"

definition CAddUserReq_MergePartial ::
    "pb_rt \<Rightarrow> string \<Rightarrow> CAddUserReq \<Rightarrow> (CAddUserReq \<times> bool \<times> string) option" where
  "CAddUserReq_MergePartial rt =
     merge_partial rt (CAddUserReq_cases rt) (skip_field rt CAddUserReq_unknown (\<lambda>u m. m\<lparr>CAddUserReq_unknown := u\<rparr>))"

definition CAddUserReq_ParseFromArray :: "pb_rt \<Rightarrow> string \<Rightarrow> CAddUserReq option" where
  "CAddUserReq_ParseFromArray rt bytes = parse_all (CAddUserReq_MergePartial rt bytes CAddUserReq_Clear)"

definition CAddUserReq_MergeFrom :: "CAddUserReq \<Rightarrow> CAddUserReq \<Rightarrow> CAddUserReq" where
  "CAddUserReq_MergeFrom from this = this\<lparr>
     CAddUserReq_unknown := CAddUserReq_unknown this @ CAddUserReq_unknown from,
     CAddUserReq_username := (if length (CAddUserReq_username from) > 0 then CAddUserReq_username from else CAddUserReq_username this),
     CAddUserReq_password := (if length (CAddUserReq_password from) > 0 then CAddUserReq_password from else CAddUserReq_password this),
     CAddUserReq_rolename := (if length (CAddUserReq_rolename from) > 0 then CAddUserReq_rolename from else CAddUserReq_rolename this)\<rparr>"

definition CAddUserReq_CopyFrom :: "CAddUserReq \<Rightarrow> CAddUserReq \<Rightarrow> CAddUserReq" where
  "CAddUserReq_CopyFrom from this = CAddUserReq_MergeFrom from CAddUserReq_Clear"

definition CAddUserReq_wf :: "pb_rt \<Rightarrow> CAddUserReq \<Rightarrow> bool" where
  "CAddUserReq_wf rt m \<longleftrightarrow>
     CAddUserReq_unknown m = [] \<and>
     length (CAddUserReq_username m) < 2 ^ 31 \<and>
     VerifyUtf8String rt (CAddUserReq_username m) \<and>
     length (CAddUserReq_password m) < 2 ^ 31 \<and>
     VerifyUtf8String rt (CAddUserReq_password m) \<and>
     length (CAddUserReq_rolename m) < 2 ^ 31 \<and>
     VerifyUtf8String rt (CAddUserReq_rolename m)"

lemma CAddUserReq_ByteSizeLong [size_simps]: "CAddUserReq_ByteSizeLong m = length (CAddUserReq_Serialize m)"
  by (simp add: CAddUserReq_ByteSizeLong_def CAddUserReq_Serialize_def length_fields tag_simps)

lemma CAddUserReq_CopyFrom_eq [simp]: "CAddUserReq_CopyFrom from this = from"
  by (cases "from") (auto simp: CAddUserReq_CopyFrom_def CAddUserReq_MergeFrom_def CAddUserReq_Clear_def)

lemma CAddUserReq_arms:
  "CAddUserReq_cases rt (MakeTag 1 WIRETYPE_LENGTH_DELIMITED) inp m =
     Some (read_string rt (\<lambda>v m. m\<lparr>CAddUserReq_username := v\<rparr>) inp m)"
  "CAddUserReq_cases rt (MakeTag 2 WIRETYPE_LENGTH_DELIMITED) inp m =
     Some (read_string rt (\<lambda>v m. m\<lparr>CAddUserReq_password := v\<rparr>) inp m)"
  "CAddUserReq_cases rt (MakeTag 3 WIRETYPE_LENGTH_DELIMITED) inp m =
     Some (read_string rt (\<lambda>v m. m\<lparr>CAddUserReq_rolename := v\<rparr>) inp m)"
  by (simp_all add: CAddUserReq_cases_def arm_def tag_simps)

context coded_input begin

lemma CAddUserReq_parses:
  assumes "CAddUserReq_wf rt m"
  shows "parses rt (CAddUserReq_cases rt) skip (CAddUserReq_Serialize m) CAddUserReq_Clear m"
proof -
  have u: "CAddUserReq_unknown m = []" using assms by (simp add: CAddUserReq_wf_def)
  show ?thesis
    unfolding CAddUserReq_Serialize_def u
    by (intro parses_string [where cases = "CAddUserReq_cases rt", OF CAddUserReq_arms(1)]
        parses_string [where cases = "CAddUserReq_cases rt", OF CAddUserReq_arms(2)]
        parses_string [where cases = "CAddUserReq_cases rt", OF CAddUserReq_arms(3)]
        parses_end)
       (use assms in \<open>auto simp: CAddUserReq_wf_def CAddUserReq_Clear_def tag_simps\<close>)
qed

lemma CAddUserReq_roundtrip [codec_simps]:
  "CAddUserReq_wf rt m \<Longrightarrow> CAddUserReq_ParseFromArray rt (CAddUserReq_Serialize m) = Some m"
  by (simp add: CAddUserReq_ParseFromArray_def CAddUserReq_MergePartial_def parses_parse_all [OF CAddUserReq_parses])

end

end
