(* ===== verification/Msg_Service.thy ===== *)
theory Msg_Service
  imports Wire_Read
begin

text \<open>
  The messages of the log service and of the directory service. Per message, in the order of
  \<open>cplatform/cmsgcom.pb.cc\<close>: its fields (the unknown fields as the bytes they are written
  back with), \<open>Clear\<close>, \<open>InternalSerializeWithCachedSizesToArray\<close> (every caller runs
  \<open>ByteSizeLong\<close> first, so a cached size is the size), \<open>ByteSizeLong\<close>, the \<open>switch\<close> and the
  loop of \<open>MergePartialFromCodedStream\<close>, \<open>ParseFromArray\<close>, \<open>MergeFrom\<close> and \<open>CopyFrom\<close>
  (from another object). The lemmas: \<open>ByteSizeLong\<close> is the length of what is written,
  \<open>CopyFrom\<close> copies, and parsing what was written gives the message back.
\<close>

section \<open>CAddLogReq\<close>

record CAddLogReq =
  CAddLogReq_service_ip :: string
  CAddLogReq_service_port :: int32
  CAddLogReq_service_name :: string
  CAddLogReq_log_txt :: string
  CAddLogReq_log_time :: int32
  CAddLogReq_log_level :: int32
  CAddLogReq_filename :: string
  CAddLogReq_line :: int32
  CAddLogReq_unknown :: string

definition CAddLogReq_Clear :: CAddLogReq where
  "CAddLogReq_Clear = \<lparr>CAddLogReq_service_ip = [], CAddLogReq_service_port = 0,
     CAddLogReq_service_name = [], CAddLogReq_log_txt = [], CAddLogReq_log_time = 0,
     CAddLogReq_log_level = 0, CAddLogReq_filename = [], CAddLogReq_line = 0,
     CAddLogReq_unknown = []\<rparr>"

definition CAddLogReq_Serialize :: "CAddLogReq \<Rightarrow> string" where
  "CAddLogReq_Serialize m =
     (if length (CAddLogReq_service_ip m) > 0 then WriteStringToArray 1 (CAddLogReq_service_ip m) else []) @
     (if CAddLogReq_service_port m \<noteq> 0 then WriteInt32ToArray 2 (CAddLogReq_service_port m) else []) @
     (if length (CAddLogReq_service_name m) > 0 then WriteStringToArray 3 (CAddLogReq_service_name m) else []) @
     (if length (CAddLogReq_log_txt m) > 0 then WriteStringToArray 4 (CAddLogReq_log_txt m) else []) @
     (if CAddLogReq_log_time m \<noteq> 0 then WriteInt32ToArray 5 (CAddLogReq_log_time m) else []) @
     (if CAddLogReq_log_level m \<noteq> 0 then WriteEnumToArray 6 (CAddLogReq_log_level m) else []) @
     (if length (CAddLogReq_filename m) > 0 then WriteStringToArray 7 (CAddLogReq_filename m) else []) @
     (if CAddLogReq_line m \<noteq> 0 then WriteInt32ToArray 8 (CAddLogReq_line m) else []) @
     CAddLogReq_unknown m"

definition CAddLogReq_ByteSizeLong :: "CAddLogReq \<Rightarrow> nat" where
  "CAddLogReq_ByteSizeLong m =
     length (CAddLogReq_unknown m) +
     (if length (CAddLogReq_service_ip m) > 0 then 1 + StringSize (CAddLogReq_service_ip m) else 0) +
     (if length (CAddLogReq_service_name m) > 0 then 1 + StringSize (CAddLogReq_service_name m) else 0) +
     (if length (CAddLogReq_log_txt m) > 0 then 1 + StringSize (CAddLogReq_log_txt m) else 0) +
     (if length (CAddLogReq_filename m) > 0 then 1 + StringSize (CAddLogReq_filename m) else 0) +
     (if CAddLogReq_service_port m \<noteq> 0 then 1 + Int32Size (CAddLogReq_service_port m) else 0) +
     (if CAddLogReq_log_time m \<noteq> 0 then 1 + Int32Size (CAddLogReq_log_time m) else 0) +
     (if CAddLogReq_log_level m \<noteq> 0 then 1 + EnumSize (CAddLogReq_log_level m) else 0) +
     (if CAddLogReq_line m \<noteq> 0 then 1 + Int32Size (CAddLogReq_line m) else 0)"

definition CAddLogReq_cases :: "pb_rt \<Rightarrow> CAddLogReq field_case" where
  "CAddLogReq_cases rt tag inp m =
     (let field = GetTagFieldNumber tag in
      if field = 1 then arm tag 10 (read_string rt (\<lambda>v m. m\<lparr>CAddLogReq_service_ip := v\<rparr>) inp m) else
      if field = 2 then arm tag 16 (read_int32 rt (\<lambda>v m. m\<lparr>CAddLogReq_service_port := v\<rparr>) inp m) else
      if field = 3 then arm tag 26 (read_string rt (\<lambda>v m. m\<lparr>CAddLogReq_service_name := v\<rparr>) inp m) else
      if field = 4 then arm tag 34 (read_bytes rt (\<lambda>v m. m\<lparr>CAddLogReq_log_txt := v\<rparr>) inp m) else
      if field = 5 then arm tag 40 (read_int32 rt (\<lambda>v m. m\<lparr>CAddLogReq_log_time := v\<rparr>) inp m) else
      if field = 6 then arm tag 48 (read_int32 rt (\<lambda>v m. m\<lparr>CAddLogReq_log_level := v\<rparr>) inp m) else
      if field = 7 then arm tag 58 (read_string rt (\<lambda>v m. m\<lparr>CAddLogReq_filename := v\<rparr>) inp m) else
      if field = 8 then arm tag 64 (read_int32 rt (\<lambda>v m. m\<lparr>CAddLogReq_line := v\<rparr>) inp m) else
      None)"

definition CAddLogReq_MergePartial ::
    "pb_rt \<Rightarrow> string \<Rightarrow> CAddLogReq \<Rightarrow> (CAddLogReq \<times> bool \<times> string) option" where
  "CAddLogReq_MergePartial rt =
     merge_partial rt (CAddLogReq_cases rt) (skip_field rt CAddLogReq_unknown (\<lambda>u m. m\<lparr>CAddLogReq_unknown := u\<rparr>))"

definition CAddLogReq_ParseFromArray :: "pb_rt \<Rightarrow> string \<Rightarrow> CAddLogReq option" where
  "CAddLogReq_ParseFromArray rt bytes = parse_all (CAddLogReq_MergePartial rt bytes CAddLogReq_Clear)"

definition CAddLogReq_MergeFrom :: "CAddLogReq \<Rightarrow> CAddLogReq \<Rightarrow> CAddLogReq" where
  "CAddLogReq_MergeFrom from this = this\<lparr>
     CAddLogReq_unknown := CAddLogReq_unknown this @ CAddLogReq_unknown from,
     CAddLogReq_service_ip := (if length (CAddLogReq_service_ip from) > 0 then CAddLogReq_service_ip from else CAddLogReq_service_ip this),
     CAddLogReq_service_name := (if length (CAddLogReq_service_name from) > 0 then CAddLogReq_service_name from else CAddLogReq_service_name this),
     CAddLogReq_log_txt := (if length (CAddLogReq_log_txt from) > 0 then CAddLogReq_log_txt from else CAddLogReq_log_txt this),
     CAddLogReq_filename := (if length (CAddLogReq_filename from) > 0 then CAddLogReq_filename from else CAddLogReq_filename this),
     CAddLogReq_service_port := (if CAddLogReq_service_port from \<noteq> 0 then CAddLogReq_service_port from else CAddLogReq_service_port this),
     CAddLogReq_log_time := (if CAddLogReq_log_time from \<noteq> 0 then CAddLogReq_log_time from else CAddLogReq_log_time this),
     CAddLogReq_log_level := (if CAddLogReq_log_level from \<noteq> 0 then CAddLogReq_log_level from else CAddLogReq_log_level this),
     CAddLogReq_line := (if CAddLogReq_line from \<noteq> 0 then CAddLogReq_line from else CAddLogReq_line this)\<rparr>"

definition CAddLogReq_CopyFrom :: "CAddLogReq \<Rightarrow> CAddLogReq \<Rightarrow> CAddLogReq" where
  "CAddLogReq_CopyFrom from this = CAddLogReq_MergeFrom from CAddLogReq_Clear"

definition CAddLogReq_wf :: "pb_rt \<Rightarrow> CAddLogReq \<Rightarrow> bool" where
  "CAddLogReq_wf rt m \<longleftrightarrow>
     CAddLogReq_unknown m = [] \<and>
     length (CAddLogReq_service_ip m) < 2 ^ 31 \<and>
     VerifyUtf8String rt (CAddLogReq_service_ip m) \<and>
     length (CAddLogReq_service_name m) < 2 ^ 31 \<and>
     VerifyUtf8String rt (CAddLogReq_service_name m) \<and>
     length (CAddLogReq_log_txt m) < 2 ^ 31 \<and>
     length (CAddLogReq_filename m) < 2 ^ 31 \<and>
     VerifyUtf8String rt (CAddLogReq_filename m)"

lemma CAddLogReq_ByteSizeLong [size_simps]: "CAddLogReq_ByteSizeLong m = length (CAddLogReq_Serialize m)"
  by (simp add: CAddLogReq_ByteSizeLong_def CAddLogReq_Serialize_def length_fields tag_simps)

lemma CAddLogReq_CopyFrom_eq [simp]: "CAddLogReq_CopyFrom from this = from"
  by (cases "from") (auto simp: CAddLogReq_CopyFrom_def CAddLogReq_MergeFrom_def CAddLogReq_Clear_def)

lemma CAddLogReq_arms:
  "CAddLogReq_cases rt (MakeTag 1 WIRETYPE_LENGTH_DELIMITED) inp m =
     Some (read_string rt (\<lambda>v m. m\<lparr>CAddLogReq_service_ip := v\<rparr>) inp m)"
  "CAddLogReq_cases rt (MakeTag 2 WIRETYPE_VARINT) inp m =
     Some (read_int32 rt (\<lambda>v m. m\<lparr>CAddLogReq_service_port := v\<rparr>) inp m)"
  "CAddLogReq_cases rt (MakeTag 3 WIRETYPE_LENGTH_DELIMITED) inp m =
     Some (read_string rt (\<lambda>v m. m\<lparr>CAddLogReq_service_name := v\<rparr>) inp m)"
  "CAddLogReq_cases rt (MakeTag 4 WIRETYPE_LENGTH_DELIMITED) inp m =
     Some (read_bytes rt (\<lambda>v m. m\<lparr>CAddLogReq_log_txt := v\<rparr>) inp m)"
  "CAddLogReq_cases rt (MakeTag 5 WIRETYPE_VARINT) inp m =
     Some (read_int32 rt (\<lambda>v m. m\<lparr>CAddLogReq_log_time := v\<rparr>) inp m)"
  "CAddLogReq_cases rt (MakeTag 6 WIRETYPE_VARINT) inp m =
     Some (read_int32 rt (\<lambda>v m. m\<lparr>CAddLogReq_log_level := v\<rparr>) inp m)"
  "CAddLogReq_cases rt (MakeTag 7 WIRETYPE_LENGTH_DELIMITED) inp m =
     Some (read_string rt (\<lambda>v m. m\<lparr>CAddLogReq_filename := v\<rparr>) inp m)"
  "CAddLogReq_cases rt (MakeTag 8 WIRETYPE_VARINT) inp m =
     Some (read_int32 rt (\<lambda>v m. m\<lparr>CAddLogReq_line := v\<rparr>) inp m)"
  by (simp_all add: CAddLogReq_cases_def arm_def tag_simps)

context coded_input begin

lemma CAddLogReq_parses:
  assumes "CAddLogReq_wf rt m"
  shows "parses rt (CAddLogReq_cases rt) skip (CAddLogReq_Serialize m) CAddLogReq_Clear m"
proof -
  have u: "CAddLogReq_unknown m = []" using assms by (simp add: CAddLogReq_wf_def)
  show ?thesis
    unfolding CAddLogReq_Serialize_def u
    by (intro parses_string [where cases = "CAddLogReq_cases rt", OF CAddLogReq_arms(1)]
        parses_int32(1) [where cases = "CAddLogReq_cases rt", OF CAddLogReq_arms(2)]
        parses_string [where cases = "CAddLogReq_cases rt", OF CAddLogReq_arms(3)]
        parses_bytes [where cases = "CAddLogReq_cases rt", OF CAddLogReq_arms(4)]
        parses_int32(1) [where cases = "CAddLogReq_cases rt", OF CAddLogReq_arms(5)]
        parses_int32(2) [where cases = "CAddLogReq_cases rt", OF CAddLogReq_arms(6)]
        parses_string [where cases = "CAddLogReq_cases rt", OF CAddLogReq_arms(7)]
        parses_int32(1) [where cases = "CAddLogReq_cases rt", OF CAddLogReq_arms(8)]
        parses_end)
       (use assms in \<open>auto simp: CAddLogReq_wf_def CAddLogReq_Clear_def tag_simps\<close>)
qed

lemma CAddLogReq_roundtrip [codec_simps]:
  "CAddLogReq_wf rt m \<Longrightarrow> CAddLogReq_ParseFromArray rt (CAddLogReq_Serialize m) = Some m"
  by (simp add: CAddLogReq_ParseFromArray_def CAddLogReq_MergePartial_def parses_parse_all [OF CAddLogReq_parses])

end

section \<open>CDirReq\<close>

record CDirReq =
  CDirReq_path :: string
  CDirReq_unknown :: string

definition CDirReq_Clear :: CDirReq where
  "CDirReq_Clear = \<lparr>CDirReq_path = [], CDirReq_unknown = []\<rparr>"

definition CDirReq_Serialize :: "CDirReq \<Rightarrow> string" where
  "CDirReq_Serialize m =
     (if length (CDirReq_path m) > 0 then WriteStringToArray 1 (CDirReq_path m) else []) @
     CDirReq_unknown m"

definition CDirReq_ByteSizeLong :: "CDirReq \<Rightarrow> nat" where
  "CDirReq_ByteSizeLong m =
     length (CDirReq_unknown m) +
     (if length (CDirReq_path m) > 0 then 1 + StringSize (CDirReq_path m) else 0)"

definition CDirReq_cases :: "pb_rt \<Rightarrow> CDirReq field_case" where
  "CDirReq_cases rt tag inp m =
     (let field = GetTagFieldNumber tag in
      if field = 1 then arm tag 10 (read_string rt (\<lambda>v m. m\<lparr>CDirReq_path := v\<rparr>) inp m) else
      None)"

definition CDirReq_MergePartial ::
    "pb_rt \<Rightarrow> string \<Rightarrow> CDirReq \<Rightarrow> (CDirReq \<times> bool \<times> string) option" where
  "CDirReq_MergePartial rt =
     merge_partial rt (CDirReq_cases rt) (skip_field rt CDirReq_unknown (\<lambda>u m. m\<lparr>CDirReq_unknown := u\<rparr>))"

definition CDirReq_ParseFromArray :: "pb_rt \<Rightarrow> string \<Rightarrow> CDirReq option" where
  "CDirReq_ParseFromArray rt bytes = parse_all (CDirReq_MergePartial rt bytes CDirReq_Clear)"

definition CDirReq_MergeFrom :: "CDirReq \<Rightarrow> CDirReq \<Rightarrow> CDirReq" where
  "CDirReq_MergeFrom from this = this\<lparr>
     CDirReq_unknown := CDirReq_unknown this @ CDirReq_unknown from,
     CDirReq_path := (if length (CDirReq_path from) > 0 then CDirReq_path from else CDirReq_path this)\<rparr>"

definition CDirReq_CopyFrom :: "CDirReq \<Rightarrow> CDirReq \<Rightarrow> CDirReq" where
  "CDirReq_CopyFrom from this = CDirReq_MergeFrom from CDirReq_Clear"

definition CDirReq_wf :: "pb_rt \<Rightarrow> CDirReq \<Rightarrow> bool" where
  "CDirReq_wf rt m \<longleftrightarrow>
     CDirReq_unknown m = [] \<and>
     length (CDirReq_path m) < 2 ^ 31 \<and>
     VerifyUtf8String rt (CDirReq_path m)"

lemma CDirReq_ByteSizeLong [size_simps]: "CDirReq_ByteSizeLong m = length (CDirReq_Serialize m)"
  by (simp add: CDirReq_ByteSizeLong_def CDirReq_Serialize_def length_fields tag_simps)

lemma CDirReq_CopyFrom_eq [simp]: "CDirReq_CopyFrom from this = from"
  by (cases "from") (auto simp: CDirReq_CopyFrom_def CDirReq_MergeFrom_def CDirReq_Clear_def)

lemma CDirReq_arms:
  "CDirReq_cases rt (MakeTag 1 WIRETYPE_LENGTH_DELIMITED) inp m =
     Some (read_string rt (\<lambda>v m. m\<lparr>CDirReq_path := v\<rparr>) inp m)"
  by (simp add: CDirReq_cases_def arm_def tag_simps)

context coded_input begin

lemma CDirReq_parses:
  assumes "CDirReq_wf rt m"
  shows "parses rt (CDirReq_cases rt) skip (CDirReq_Serialize m) CDirReq_Clear m"
proof -
  have u: "CDirReq_unknown m = []" using assms by (simp add: CDirReq_wf_def)
  show ?thesis
    unfolding CDirReq_Serialize_def u
    by (intro parses_string [where cases = "CDirReq_cases rt", OF CDirReq_arms] parses_end)
       (use assms in \<open>auto simp: CDirReq_wf_def CDirReq_Clear_def tag_simps\<close>)
qed

lemma CDirReq_roundtrip [codec_simps]:
  "CDirReq_wf rt m \<Longrightarrow> CDirReq_ParseFromArray rt (CDirReq_Serialize m) = Some m"
  by (simp add: CDirReq_ParseFromArray_def CDirReq_MergePartial_def parses_parse_all [OF CDirReq_parses])

end

section \<open>CDirRes::CDir\<close>

record CDirRes_CDir =
  CDir_filename :: string
  CDir_filesize :: int32
  CDir_unknown :: string

definition CDirRes_CDir_Clear :: CDirRes_CDir where
  "CDirRes_CDir_Clear = \<lparr>CDir_filename = [], CDir_filesize = 0, CDir_unknown = []\<rparr>"

definition CDirRes_CDir_Serialize :: "CDirRes_CDir \<Rightarrow> string" where
  "CDirRes_CDir_Serialize m =
     (if length (CDir_filename m) > 0 then WriteStringToArray 1 (CDir_filename m) else []) @
     (if CDir_filesize m \<noteq> 0 then WriteInt32ToArray 2 (CDir_filesize m) else []) @
     CDir_unknown m"

definition CDirRes_CDir_ByteSizeLong :: "CDirRes_CDir \<Rightarrow> nat" where
  "CDirRes_CDir_ByteSizeLong m =
     length (CDir_unknown m) +
     (if length (CDir_filename m) > 0 then 1 + StringSize (CDir_filename m) else 0) +
     (if CDir_filesize m \<noteq> 0 then 1 + Int32Size (CDir_filesize m) else 0)"

definition CDirRes_CDir_cases :: "pb_rt \<Rightarrow> CDirRes_CDir field_case" where
  "CDirRes_CDir_cases rt tag inp m =
     (let field = GetTagFieldNumber tag in
      if field = 1 then arm tag 10 (read_string rt (\<lambda>v m. m\<lparr>CDir_filename := v\<rparr>) inp m) else
      if field = 2 then arm tag 16 (read_int32 rt (\<lambda>v m. m\<lparr>CDir_filesize := v\<rparr>) inp m) else
      None)"

definition CDirRes_CDir_MergePartial ::
    "pb_rt \<Rightarrow> string \<Rightarrow> CDirRes_CDir \<Rightarrow> (CDirRes_CDir \<times> bool \<times> string) option" where
  "CDirRes_CDir_MergePartial rt =
     merge_partial rt (CDirRes_CDir_cases rt) (skip_field rt CDir_unknown (\<lambda>u m. m\<lparr>CDir_unknown := u\<rparr>))"

definition CDirRes_CDir_ParseFromArray :: "pb_rt \<Rightarrow> string \<Rightarrow> CDirRes_CDir option" where
  "CDirRes_CDir_ParseFromArray rt bytes = parse_all (CDirRes_CDir_MergePartial rt bytes CDirRes_CDir_Clear)"

definition CDirRes_CDir_MergeFrom :: "CDirRes_CDir \<Rightarrow> CDirRes_CDir \<Rightarrow> CDirRes_CDir" where
  "CDirRes_CDir_MergeFrom from this = this\<lparr>
     CDir_unknown := CDir_unknown this @ CDir_unknown from,
     CDir_filename := (if length (CDir_filename from) > 0 then CDir_filename from else CDir_filename this),
     CDir_filesize := (if CDir_filesize from \<noteq> 0 then CDir_filesize from else CDir_filesize this)\<rparr>"

definition CDirRes_CDir_CopyFrom :: "CDirRes_CDir \<Rightarrow> CDirRes_CDir \<Rightarrow> CDirRes_CDir" where
  "CDirRes_CDir_CopyFrom from this = CDirRes_CDir_MergeFrom from CDirRes_CDir_Clear"

definition CDirRes_CDir_wf :: "pb_rt \<Rightarrow> CDirRes_CDir \<Rightarrow> bool" where
  "CDirRes_CDir_wf rt m \<longleftrightarrow>
     CDir_unknown m = [] \<and>
     length (CDir_filename m) < 2 ^ 31 \<and>
     VerifyUtf8String rt (CDir_filename m)"

lemma CDirRes_CDir_ByteSizeLong [size_simps]: "CDirRes_CDir_ByteSizeLong m = length (CDirRes_CDir_Serialize m)"
  by (simp add: CDirRes_CDir_ByteSizeLong_def CDirRes_CDir_Serialize_def length_fields tag_simps)

lemma CDirRes_CDir_CopyFrom_eq [simp]: "CDirRes_CDir_CopyFrom from this = from"
  by (cases "from") (auto simp: CDirRes_CDir_CopyFrom_def CDirRes_CDir_MergeFrom_def CDirRes_CDir_Clear_def)

lemma CDirRes_CDir_arms:
  "CDirRes_CDir_cases rt (MakeTag 1 WIRETYPE_LENGTH_DELIMITED) inp m =
     Some (read_string rt (\<lambda>v m. m\<lparr>CDir_filename := v\<rparr>) inp m)"
  "CDirRes_CDir_cases rt (MakeTag 2 WIRETYPE_VARINT) inp m =
     Some (read_int32 rt (\<lambda>v m. m\<lparr>CDir_filesize := v\<rparr>) inp m)"
  by (simp_all add: CDirRes_CDir_cases_def arm_def tag_simps)

context coded_input begin

lemma CDirRes_CDir_parses:
  assumes "CDirRes_CDir_wf rt m"
  shows "parses rt (CDirRes_CDir_cases rt) skip (CDirRes_CDir_Serialize m) CDirRes_CDir_Clear m"
proof -
  have u: "CDir_unknown m = []" using assms by (simp add: CDirRes_CDir_wf_def)
  show ?thesis
    unfolding CDirRes_CDir_Serialize_def u
    by (intro parses_string [where cases = "CDirRes_CDir_cases rt", OF CDirRes_CDir_arms(1)]
        parses_int32(1) [where cases = "CDirRes_CDir_cases rt", OF CDirRes_CDir_arms(2)]
        parses_end)
       (use assms in \<open>auto simp: CDirRes_CDir_wf_def CDirRes_CDir_Clear_def tag_simps\<close>)
qed

lemma CDirRes_CDir_roundtrip [codec_simps]:
  "CDirRes_CDir_wf rt m \<Longrightarrow> CDirRes_CDir_ParseFromArray rt (CDirRes_CDir_Serialize m) = Some m"
  by (simp add: CDirRes_CDir_ParseFromArray_def CDirRes_CDir_MergePartial_def parses_parse_all [OF CDirRes_CDir_parses])

lemma CDirRes_CDir_MergePartial_sub:
  "CDirRes_CDir_wf rt m \<Longrightarrow> CDirRes_CDir_MergePartial rt (CDirRes_CDir_Serialize m) CDirRes_CDir_Clear = Some (m, True, [])"
  using CDirRes_CDir_parses [of m] by (simp add: CDirRes_CDir_MergePartial_def parses_def)

end

section \<open>CDirRes\<close>

record CDirRes =
  CDirRes_res :: int32
  CDirRes_dirs :: "CDirRes_CDir list"
  CDirRes_unknown :: string

definition CDirRes_Clear :: CDirRes where
  "CDirRes_Clear = \<lparr>CDirRes_res = 0, CDirRes_dirs = [], CDirRes_unknown = []\<rparr>"

definition CDirRes_Serialize :: "CDirRes \<Rightarrow> string" where
  "CDirRes_Serialize m =
     (if CDirRes_res m \<noteq> 0 then WriteEnumToArray 1 (CDirRes_res m) else []) @
     concat (map (\<lambda>x. WriteMessageToArray 2 (CDirRes_CDir_ByteSizeLong x) (CDirRes_CDir_Serialize x)) (CDirRes_dirs m)) @
     CDirRes_unknown m"

definition CDirRes_ByteSizeLong :: "CDirRes \<Rightarrow> nat" where
  "CDirRes_ByteSizeLong m =
     length (CDirRes_unknown m) +
     (1 * length (CDirRes_dirs m) + sum_list (map (\<lambda>x. MessageSize (CDirRes_CDir_ByteSizeLong x)) (CDirRes_dirs m))) +
     (if CDirRes_res m \<noteq> 0 then 1 + EnumSize (CDirRes_res m) else 0)"

definition CDirRes_cases :: "pb_rt \<Rightarrow> CDirRes field_case" where
  "CDirRes_cases rt tag inp m =
     (let field = GetTagFieldNumber tag in
      if field = 1 then arm tag 8 (read_int32 rt (\<lambda>v m. m\<lparr>CDirRes_res := v\<rparr>) inp m) else
      if field = 2 then arm tag 18
        (read_message rt (\<lambda>i. CDirRes_CDir_MergePartial rt i CDirRes_CDir_Clear) (\<lambda>v m. m\<lparr>CDirRes_dirs := CDirRes_dirs m @ [v]\<rparr>) inp m) else
      None)"

definition CDirRes_MergePartial ::
    "pb_rt \<Rightarrow> string \<Rightarrow> CDirRes \<Rightarrow> (CDirRes \<times> bool \<times> string) option" where
  "CDirRes_MergePartial rt =
     merge_partial rt (CDirRes_cases rt) (skip_field rt CDirRes_unknown (\<lambda>u m. m\<lparr>CDirRes_unknown := u\<rparr>))"

definition CDirRes_ParseFromArray :: "pb_rt \<Rightarrow> string \<Rightarrow> CDirRes option" where
  "CDirRes_ParseFromArray rt bytes = parse_all (CDirRes_MergePartial rt bytes CDirRes_Clear)"

definition CDirRes_MergeFrom :: "CDirRes \<Rightarrow> CDirRes \<Rightarrow> CDirRes" where
  "CDirRes_MergeFrom from this = this\<lparr>
     CDirRes_unknown := CDirRes_unknown this @ CDirRes_unknown from,
     CDirRes_dirs := CDirRes_dirs this @ CDirRes_dirs from,
     CDirRes_res := (if CDirRes_res from \<noteq> 0 then CDirRes_res from else CDirRes_res this)\<rparr>"

definition CDirRes_CopyFrom :: "CDirRes \<Rightarrow> CDirRes \<Rightarrow> CDirRes" where
  "CDirRes_CopyFrom from this = CDirRes_MergeFrom from CDirRes_Clear"

definition CDirRes_wf :: "pb_rt \<Rightarrow> CDirRes \<Rightarrow> bool" where
  "CDirRes_wf rt m \<longleftrightarrow>
     CDirRes_unknown m = [] \<and>
     (\<forall>x \<in> set (CDirRes_dirs m). CDirRes_CDir_wf rt x \<and> length (CDirRes_CDir_Serialize x) < 2 ^ 31)"

lemma CDirRes_ByteSizeLong [size_simps]: "CDirRes_ByteSizeLong m = length (CDirRes_Serialize m)"
  by (simp add: CDirRes_ByteSizeLong_def CDirRes_Serialize_def length_fields tag_simps length_repeated CDirRes_CDir_ByteSizeLong)

lemma CDirRes_CopyFrom_eq [simp]: "CDirRes_CopyFrom from this = from"
  by (cases "from") (auto simp: CDirRes_CopyFrom_def CDirRes_MergeFrom_def CDirRes_Clear_def)

lemma fold_CDirRes_dirs [simp]:
  "fold (\<lambda>v m. m\<lparr>CDirRes_dirs := CDirRes_dirs m @ [v]\<rparr>) xs m = m\<lparr>CDirRes_dirs := CDirRes_dirs m @ xs\<rparr>"
  by (induction xs arbitrary: m) simp_all

lemma CDirRes_arms:
  "CDirRes_cases rt (MakeTag 1 WIRETYPE_VARINT) inp m =
     Some (read_int32 rt (\<lambda>v m. m\<lparr>CDirRes_res := v\<rparr>) inp m)"
  "CDirRes_cases rt (MakeTag 2 WIRETYPE_LENGTH_DELIMITED) inp m =
     Some (read_message rt (\<lambda>i. CDirRes_CDir_MergePartial rt i CDirRes_CDir_Clear) (\<lambda>v m. m\<lparr>CDirRes_dirs := CDirRes_dirs m @ [v]\<rparr>) inp m)"
  by (simp_all add: CDirRes_cases_def arm_def tag_simps)

context coded_input begin

lemma CDirRes_parses:
  assumes "CDirRes_wf rt m"
  shows "parses rt (CDirRes_cases rt) skip (CDirRes_Serialize m) CDirRes_Clear m"
proof -
  have u: "CDirRes_unknown m = []" using assms by (simp add: CDirRes_wf_def)
  show ?thesis
    unfolding CDirRes_Serialize_def u
    by (intro parses_int32(2) [where cases = "CDirRes_cases rt", OF CDirRes_arms(1)]
        parses_repeated [where cases = "CDirRes_cases rt", OF CDirRes_arms(2)] parses_end)
       (use assms in \<open>auto simp: CDirRes_wf_def CDirRes_Clear_def tag_simps CDirRes_CDir_ByteSizeLong CDirRes_CDir_MergePartial_sub\<close>)
qed

lemma CDirRes_roundtrip [codec_simps]:
  "CDirRes_wf rt m \<Longrightarrow> CDirRes_ParseFromArray rt (CDirRes_Serialize m) = Some m"
  by (simp add: CDirRes_ParseFromArray_def CDirRes_MergePartial_def parses_parse_all [OF CDirRes_parses])

end

end
