(* ===== verification/Codec_Props.thy ===== *)
theory Codec_Props
  imports RegisterServer_Props Msg_Config Msg_Auth Msg_Service
begin

text \<open>
  The codec of the messages: what is serialised is parsed back, and the size that is announced
  before serialising is the size that is written.
\<close>

text \<open>
  The head of a message survives the connection. For every head, with text fields that are
  UTF-8 and shorter than 2 GB, parsing what was serialised gives the head back.
\<close>

theorem head_roundtrip:
  assumes "coded_input rt" "CMsgHead_wf rt h"
  shows "CMsgHead_ParseFromArray rt (CMsgHead_Serialize h) = Some h"
  using coded_input.CMsgHead_roundtrip [OF assms(1)] assms(2) .

theorem head_roundtrip_witness:
  "CMsgHead_ParseFromArray ref_rt (CMsgHead_Serialize sample_head) = Some sample_head"
  using head_roundtrip [OF ref.coded_input_axioms, of sample_head]
  by (simp add: CMsgHead_wf_def sample_head_def CMsgHead_Clear_def ref_rt_def)

text \<open>
  C27. The table of services survives the connection, whatever the order in which the map is
  written. The entries are nested messages of nested messages, read through the fast path of
  the entry parser.
\<close>

theorem service_map_roundtrip:
  assumes "coded_input rt" "CServiceMap_wf rt m" "lists_keys order (sm_serviceMap m)"
  shows "CServiceMap_ParseFromArray rt (CServiceMap_Serialize order m) = Some m"
  using coded_input.CServiceMap_roundtrip [OF assms] .

theorem service_map_roundtrip_witness:
  "CServiceMap_ParseFromArray ref_rt (CServiceMap_Serialize key_order (the sample_table)) = sample_table"
proof -
  have "CServiceMap_wf ref_rt (the sample_table)"
    using sample_entry_wf by (auto simp: CServiceMap_wf_def sample_table_def CServiceMap_Clear_def split: if_splits)
  moreover have "lists_keys key_order (sm_serviceMap (the sample_table))"
    by (auto simp: lists_keys_def key_order_def sample_table_def)
  ultimately show ?thesis
    using service_map_roundtrip [OF ref.coded_input_axioms] by (simp add: sample_table_def)
qed

text \<open>
  A page of configurations survives the connection: a repeated field of nested messages.
\<close>

theorem config_list_roundtrip:
  assumes "coded_input rt" "CConfigList_wf rt m"
  shows "CConfigList_ParseFromArray rt (CConfigList_Serialize m) = Some m"
  using coded_input.CConfigList_roundtrip [OF assms(1)] assms(2) .

definition sample_config :: CConfig where
  "sample_config = CConfig_Clear\<lparr>CConfig_serviceIp := ''10.0.0.7'', CConfig_servicePort := 80\<rparr>"

theorem config_list_roundtrip_witness:
  "CConfigList_ParseFromArray ref_rt (CConfigList_Serialize (CConfigList_Clear\<lparr>CConfigList_config := [sample_config]\<rparr>)) =
    Some (CConfigList_Clear\<lparr>CConfigList_config := [sample_config]\<rparr>)"
proof (rule config_list_roundtrip [OF ref.coded_input_axioms])
  have "length (CConfig_Serialize sample_config) < 2 ^ 31"
    using length_fields_le(1) [of 2 80] length_fields_le(3) [of 3 "''10.0.0.7''"]
    by (simp add: CConfig_Serialize_def sample_config_def CConfig_Clear_def)
  then show "CConfigList_wf ref_rt (CConfigList_Clear\<lparr>CConfigList_config := [sample_config]\<rparr>)"
    by (simp add: CConfigList_wf_def CConfigList_Clear_def CConfig_wf_def sample_config_def CConfig_Clear_def ref_rt_def)
qed

text \<open>
  C26. The size computed before serialising is the number of bytes written. The generated code
  computes it field by field with a logarithm, and the frame of a message rests on it.
\<close>

theorem announced_sizes:
  "CMsgHead_ByteSizeLong h = length (CMsgHead_Serialize h) \<and>
   CServiceMap_ByteSizeLong order m = length (CServiceMap_Serialize order m) \<and>
   CConfigList_ByteSizeLong c = length (CConfigList_Serialize c) \<and>
   CLoginRes_ByteSizeLong l = length (CLoginRes_Serialize l) \<and>
   CDirRes_ByteSizeLong d = length (CDirRes_Serialize d)"
  by (simp add: CMsgHead_ByteSizeLong CServiceMap_ByteSizeLong CConfigList_ByteSizeLong
      CLoginRes_ByteSizeLong CDirRes_ByteSizeLong)

end
