(* ===== verification/RegisterClient.thy ===== *)
theory RegisterClient
  imports RegisterServer
begin

text \<open>
  The client of the register centre, \<open>registerclient/cregisterclient.cpp\<close>: it registers the
  service of its process, asks for services, and caches the answers in memory and in a file.
  The static variables are the record \<open>register_cache\<close>, with the files of the working
  directory. \<open>half\<close> is what a parse that fails leaves in the message; \<open>order\<close> is the iteration
  order of a protobuf map.
\<close>

section \<open>State\<close>

record 'b CRegisterClient = "'b CServiceClient" +
  rc_serviceName :: string
  rc_serviceIp :: string
  rc_servicePort :: int

record register_cache =
  pbServiceMap :: "CServiceMap option"
  pbClientMap :: "CServiceMap option"
  heart_count :: int64
  disk :: "string \<rightharpoonup> string"

definition CRegisterClient_new :: "CCThreadPool option \<Rightarrow> 'b CRegisterClient" where
  "CRegisterClient_new pool = CServiceClient.extend (CMsgEvent.extend CMsgEvent_new (CServiceClient.fields pool))
     (CRegisterClient.fields (zero_buf 32) (zero_buf 16) 0)"

section \<open>Requests\<close>

definition register_timerCb ::
    "'b platform \<Rightarrow> register_cache \<Rightarrow> 'b CRegisterClient \<Rightarrow> register_cache \<times> 'b CRegisterClient" where
  "register_timerCb P s c =
     (let s = s\<lparr>heart_count := heart_count s + 1\<rparr>;
          req = CMsgHeart_Clear\<lparr>CMsgHeart_count := heart_count s\<rparr> in
      (s, snd (sendMsg_type P MSG_HEART_REQ (Some (CMsgHeart_Serialize req)) c)))"

definition register_connetedCb :: "'b platform \<Rightarrow> 'b CRegisterClient \<Rightarrow> 'b CRegisterClient checked" where
  "register_connetedCb P c =
     bind_ub (c_str (rc_serviceName c)) (\<lambda>name.
     bind_ub (c_str (rc_serviceIp c)) (\<lambda>ip.
     let req = CRegisterReq_Clear\<lparr>CRegisterReq_name := name, CRegisterReq_ip := ip,
           CRegisterReq_port := word_of_int (rc_servicePort c)\<rparr> in
     Inr (snd (sendMsg_type P MSG_REGISTER_REQ (Some (CRegisterReq_Serialize req)) c))))"

text \<open>The name of the cache file; the two arrays are written as C strings.\<close>

definition cache_file :: "'b CRegisterClient \<Rightarrow> string checked" where
  "cache_file c =
     bind_ub (c_str (rc_serviceName c)) (\<lambda>name.
     bind_ub (c_str (rc_serviceIp c)) (\<lambda>ip.
     Inr (''register_'' @ name @ ip @ show_int (rc_servicePort c) @ ''.cache'')))"

definition loadLocalFile ::
    "pb_rt \<Rightarrow> (string \<Rightarrow> CServiceMap) \<Rightarrow> 'b CRegisterClient \<Rightarrow> register_cache \<Rightarrow>
     (bool \<times> register_cache) checked" where
  "loadLocalFile rt half c s =
     (let s = (if pbServiceMap s = None then s\<lparr>pbServiceMap := Some CServiceMap_Clear\<rparr> else s) in
      bind_ub (cache_file c) (\<lambda>name.
      case disk s name of None \<Rightarrow> Inr (False, s)
      | Some bytes \<Rightarrow> Inr (True, s\<lparr>pbServiceMap := Some (case CServiceMap_ParseFromArray rt bytes of
          None \<Rightarrow> half bytes | Some m \<Rightarrow> m)\<rparr>)))"

definition registerServer ::
    "'b platform \<Rightarrow> (string \<Rightarrow> CServiceMap) \<Rightarrow> (int \<Rightarrow> (int \<times> int) option \<times> nat option) \<Rightarrow> bool \<Rightarrow> nat \<Rightarrow>
     string option \<Rightarrow> int \<Rightarrow> string option \<Rightarrow> world \<Rightarrow> register_cache \<Rightarrow> 'b CRegisterClient \<Rightarrow>
     (world \<times> register_cache \<times> 'b CRegisterClient) checked" where
  "registerServer P half os written this serviceName port ip w s c =
     bind_ub (case serviceName of None \<Rightarrow> Inr (rc_serviceName c)
       | Some n \<Rightarrow> strcpy 32 (rc_serviceName c) n) (\<lambda>name.
     bind_ub (case ip of None \<Rightarrow> Inr (rc_serviceIp c)
       | Some i \<Rightarrow> strcpy 16 (rc_serviceIp c) i) (\<lambda>ip.
     let c = c\<lparr>rc_serviceName := name, rc_serviceIp := ip, rc_servicePort := port\<rparr>;
         c = setAutoConnect True c;
         c = c\<lparr>m_timerMs := 3000\<rparr>;
         c = (if m_serverIp c ! 0 = NUL then setServerIp ''127.0.0.1'' c else c);
         c = (if m_serverPort c \<le> 0 then c\<lparr>m_serverPort := REGISTER_PORT\<rparr> else c) in
     bind_ub (startConnect os written this w c) (\<lambda>(w, c).
     bind_ub (loadLocalFile (p_protobuf P) half c s) (\<lambda>(_, s).
     Inr (w, s, c)))))"

definition client_getServiceReq :: "'b platform \<Rightarrow> string option \<Rightarrow> 'b CRegisterClient \<Rightarrow> 'b CRegisterClient" where
  "client_getServiceReq P serviceName c =
     (let req = CGetServiceReq_Clear;
          req = (case serviceName of
             Some n \<Rightarrow> req\<lparr>CGetServiceReq_type := ServiceType_ONE, CGetServiceReq_name := n\<rparr>
           | None \<Rightarrow> req\<lparr>CGetServiceReq_type := ServiceType_ALL\<rparr>) in
      snd (sendMsg_type P MSG_GET_SERVICE_REQ (Some (CGetServiceReq_Serialize req)) c))"

definition getAllService ::
    "pb_rt \<Rightarrow> (string \<Rightarrow> CServiceMap) \<Rightarrow> 'b CRegisterClient \<Rightarrow> register_cache \<Rightarrow>
     (CServiceMap option \<times> register_cache) checked" where
  "getAllService rt half c s =
     bind_ub (loadLocalFile rt half c s) (\<lambda>(_, s).
     case pbServiceMap s of None \<Rightarrow> Inr (None, s)
     | Some m \<Rightarrow>
         let old = (case pbClientMap s of None \<Rightarrow> CServiceMap_Clear | Some o' \<Rightarrow> o');
             copy = CServiceMap_CopyFrom m old in
         Inr (Some copy, s\<lparr>pbClientMap := Some copy\<rparr>))"

text \<open>
  \<open>getServices\<close> polls what the thread of the connection changes: \<open>up i\<close> is the connection and
  \<open>maps i\<close> the cache at poll \<open>i\<close>, counted in units of 10 ms. The loop for the answer gives the
  list with the number of requests it sent again.
\<close>

function answer_loop ::
    "(int \<Rightarrow> CServiceMap option) \<Rightarrow> string \<Rightarrow> int \<Rightarrow> int \<Rightarrow> nat \<Rightarrow> CServiceMap_CServiceList \<times> nat" where
  "answer_loop maps serviceName totalTm curTm sends =
     (if curTm < totalTm then
        (case maps curTm of
           None \<Rightarrow> answer_loop maps serviceName totalTm (curTm + 1) sends
         | Some m \<Rightarrow> (case sm_serviceMap m serviceName of
             None \<Rightarrow> answer_loop maps serviceName totalTm (curTm + 10) (Suc sends)
           | Some l \<Rightarrow> (CServiceMap_CServiceList_CopyFrom l CServiceMap_CServiceList_Clear, sends)))
      else (CServiceMap_CServiceList_Clear, sends))"
  by pat_completeness auto
termination
  by (relation "measure (\<lambda>(maps, name, total, cur, sends). nat (total - cur))") auto

declare answer_loop.simps [simp del]

fun sends :: "nat \<Rightarrow> ('b CRegisterClient \<Rightarrow> 'b CRegisterClient) \<Rightarrow> 'b CRegisterClient \<Rightarrow> 'b CRegisterClient" where
  "sends 0 f c = c"
| "sends (Suc n) f c = sends n f (f c)"

definition getServices ::
    "'b platform \<Rightarrow> (string \<Rightarrow> CServiceMap) \<Rightarrow> (nat \<Rightarrow> bool) \<Rightarrow> (int \<Rightarrow> CServiceMap option) \<Rightarrow> string \<Rightarrow> int \<Rightarrow>
     register_cache \<Rightarrow> 'b CRegisterClient \<Rightarrow>
     (CServiceMap_CServiceList \<times> register_cache \<times> 'b CRegisterClient) checked" where
  "getServices P half up maps serviceName timeoutSec s c =
     bind_ub (chk_int (timeoutSec * 100)) (\<lambda>totalTm.
     let (connected, curTm) = wait_loop up 0 (nat totalTm) in
     if \<not> connected then
       bind_ub (if pbServiceMap s = None then loadLocalFile (p_protobuf P) half c s else Inr (True, s)) (\<lambda>(_, s).
       Inr (CServiceMap_CServiceList_Clear, s, c))
     else
       let c = client_getServiceReq P (Some serviceName) c;
           (l, n) = answer_loop maps serviceName totalTm (int curTm) 0 in
       Inr (l, s, sends n (client_getServiceReq P (Some serviceName)) c))"

section \<open>Answers\<close>

definition registerRes :: "CMsg \<Rightarrow> 'b CRegisterClient \<Rightarrow> 'b CRegisterClient" where
  "registerRes msg c = c"

text \<open>
  The refresh of the cache in memory by an answer: the first answer is parsed into the cache
  itself; after that all services are replaced, or the first entry of the answer is.
  \<open>Some m\<close> is the cache to be written to the file, \<open>None\<close> an early return.
\<close>

definition refresh_cache ::
    "pb_rt \<Rightarrow> (string \<Rightarrow> CServiceMap) \<Rightarrow> (service_map \<Rightarrow> string list) \<Rightarrow> string \<Rightarrow> CServiceMap option \<Rightarrow>
     CServiceMap \<times> CServiceMap option" where
  "refresh_cache rt half order bytes cache =
     (case cache of
        None \<Rightarrow> (case CServiceMap_ParseFromArray rt bytes of
            None \<Rightarrow> (half bytes, None)
          | Some m \<Rightarrow> (m, Some m))
      | Some old \<Rightarrow> (case CServiceMap_ParseFromArray rt bytes of
            None \<Rightarrow> (old, None)
          | Some m \<Rightarrow>
              if sm_type m = ServiceType_ALL then
                let new = CServiceMap_CopyFrom m old in (new, Some new)
              else (case order (sm_serviceMap m) of
                  [] \<Rightarrow> (old, None)
                | one # _ \<Rightarrow>
                    let new = old\<lparr>sm_serviceMap := (sm_serviceMap old)(one \<mapsto> the (sm_serviceMap m one))\<rparr> in
                    (new, Some new))))"

definition getServiceRes ::
    "pb_rt \<Rightarrow> (string \<Rightarrow> CServiceMap) \<Rightarrow> (service_map \<Rightarrow> string list) \<Rightarrow> bool \<Rightarrow> CMsg \<Rightarrow>
     'b CRegisterClient \<Rightarrow> register_cache \<Rightarrow> register_cache checked" where
  "getServiceRes rt half order opens msg c s =
     (let (m, save) = refresh_cache rt half order (msg_bytes msg) (pbServiceMap s);
          s = s\<lparr>pbServiceMap := Some m\<rparr> in
      case save of None \<Rightarrow> Inr s
      | Some m \<Rightarrow> bind_ub (cache_file c) (\<lambda>name.
          Inr (if \<not> opens then s else s\<lparr>disk := (disk s)(name \<mapsto> CServiceMap_Serialize order m)\<rparr>)))"

end
