(* ===== verification/Mysql.thy ===== *)
theory Mysql
  imports Prelude "HOL-Library.List_Lexorder" "HOL-Library.Char_ord"
begin

text \<open>
  The wrapper of the MySQL client library, \<open>cmysql/\<close>: values, the texts of the statements, and
  the calls of the library with their results. The library and the server behind it are not
  part of the repository: the record \<open>mysql_api\<close>, over a state \<open>'m\<close> of both. The data a
  \<open>CData\<close> points to are the bytes of the object; a text there ends with a zero byte.
\<close>

section \<open>CData\<close>

definition CMYSQL_TYPE_LONG :: int where "CMYSQL_TYPE_LONG = 3"
definition CMYSQL_TYPE_BLOB :: int where "CMYSQL_TYPE_BLOB = 252"
definition CMYSQL_TYPE_STRING :: int where "CMYSQL_TYPE_STRING = 254"
definition CMYSQL_OPT_CONNECT_TIMEOUT :: int where "CMYSQL_OPT_CONNECT_TIMEOUT = 0"
definition CMYSQL_OPT_RECONNECT :: int where "CMYSQL_OPT_RECONNECT = 15"

record CData =
  d_data :: "string option"
  d_size :: int
  d_type :: int

definition strlen :: "string \<Rightarrow> nat" where
  "strlen s = length (takeWhile (\<lambda>c. c \<noteq> NUL) s)"

definition CData_chars :: "string option \<Rightarrow> CData" where
  "CData_chars data = (case data of
     None \<Rightarrow> \<lparr>d_data = None, d_size = 0, d_type = CMYSQL_TYPE_STRING\<rparr>
   | Some s \<Rightarrow> \<lparr>d_data = Some s, d_size = int (strlen s), d_type = CMYSQL_TYPE_STRING\<rparr>)"

definition CData_int :: "int32 \<Rightarrow> CData" where
  "CData_int d = \<lparr>d_data = Some (mem_of_int32 d), d_size = 4, d_type = CMYSQL_TYPE_LONG\<rparr>"

text \<open>\<open>c_str()\<close> of a \<open>std::string\<close>: its bytes and a zero byte.\<close>

definition string_c_str :: "string \<Rightarrow> string" where
  "string_c_str s = s @ [NUL]"

text \<open>\<open>+=\<close> or a conversion from a \<open>const char *\<close>.\<close>

definition chars_of :: "CData \<Rightarrow> string checked" where
  "chars_of d = (case d_data d of None \<Rightarrow> Inl NullDeref | Some s \<Rightarrow> c_str s)"

text \<open>\<open>loadFile\<close> and \<open>saveFile\<close>, with the contents of the file, if it opens, and what is written.\<close>

definition CData_loadFile :: "string option \<Rightarrow> CData \<Rightarrow> bool \<times> CData" where
  "CData_loadFile file d =
     (case file of None \<Rightarrow> (False, d)
      | Some bytes \<Rightarrow>
          let d = d\<lparr>d_size := int (length bytes)\<rparr> in
          if d_size d \<le> 0 then (False, d)
          else (True, d\<lparr>d_data := Some bytes, d_type := CMYSQL_TYPE_BLOB\<rparr>))"

definition CData_saveFile :: "bool \<Rightarrow> CData \<Rightarrow> string option" where
  "CData_saveFile opens d =
     (case d_data d of None \<Rightarrow> None
      | Some bytes \<Rightarrow> if d_size d \<le> 0 \<or> \<not> opens then None else Some (take (nat (d_size d)) bytes))"

definition CData_drop :: "CData \<Rightarrow> CData" where
  "CData_drop d = d\<lparr>d_data := None\<rparr>"

text \<open>\<open>MData\<close>, a \<open>std::map\<close>: its entries in the order of the keys.\<close>

type_synonym MData = "(string \<times> CData) list"

fun mdata_set :: "string \<Rightarrow> CData \<Rightarrow> MData \<Rightarrow> MData" where
  "mdata_set k v [] = [(k, v)]"
| "mdata_set k v ((k', v') # kv) =
     (if k < k' then (k, v) # (k', v') # kv
      else if k = k' then (k, v) # kv
      else (k', v') # mdata_set k v kv)"

section \<open>The library\<close>

record 'm mysql_api =
  mysql_init :: "'m \<Rightarrow> bool \<times> 'm"
  mysql_close :: "'m \<Rightarrow> 'm"
  mysql_real_connect :: "'m \<Rightarrow> string \<Rightarrow> string \<Rightarrow> string \<Rightarrow> string \<Rightarrow> int \<Rightarrow> bool \<times> 'm"
  mysql_options :: "'m \<Rightarrow> int \<Rightarrow> int \<Rightarrow> int \<times> 'm"
  mysql_real_query :: "'m \<Rightarrow> string \<Rightarrow> int \<times> 'm"
  mysql_store_result :: "'m \<Rightarrow> CData list list option \<times> 'm"
  mysql_use_result :: "'m \<Rightarrow> CData list list option \<times> 'm"
  mysql_affected_rows :: "'m \<Rightarrow> uint64"
  mysql_insert_id :: "'m \<Rightarrow> uint64"
  mysql_stmt_init :: "'m \<Rightarrow> bool \<times> 'm"
  mysql_stmt_prepare :: "'m \<Rightarrow> string \<Rightarrow> int \<times> 'm"
  mysql_stmt_bind_param :: "'m \<Rightarrow> CData list \<Rightarrow> int \<times> 'm"
  mysql_stmt_execute :: "'m \<Rightarrow> int \<times> 'm"
  mysql_stmt_affected_rows :: "'m \<Rightarrow> uint64"
  mysql_stmt_close :: "'m \<Rightarrow> 'm"

text \<open>A \<open>my_ulonglong\<close> in an \<open>int\<close>: the error value, all bits set, becomes -1.\<close>

definition int_of_ulonglong :: "uint64 \<Rightarrow> int" where
  "int_of_ulonglong w = sint (ucast w :: int32)"

section \<open>CMysql\<close>

text \<open>The object, with the library it calls: whether \<open>mysql_\<close> is set, and the rows left of \<open>result_\<close>.\<close>

record 'm CMysql =
  my_db :: 'm
  my_mysql :: bool
  my_result :: "CData list list option"

definition CMysql_freeResult :: "'m CMysql \<Rightarrow> 'm CMysql" where
  "CMysql_freeResult c = c\<lparr>my_result := None\<rparr>"

definition CMysql_close :: "'m mysql_api \<Rightarrow> 'm CMysql \<Rightarrow> 'm CMysql" where
  "CMysql_close api c =
     (let c = CMysql_freeResult c in
      if my_mysql c then c\<lparr>my_db := mysql_close api (my_db c), my_mysql := False\<rparr> else c)"

definition CMysql_init :: "'m mysql_api \<Rightarrow> 'm CMysql \<Rightarrow> bool \<times> 'm CMysql" where
  "CMysql_init api c =
     (let c = CMysql_close api c;
          (ok, db) = mysql_init api (my_db c) in
      (ok, c\<lparr>my_db := db, my_mysql := ok\<rparr>))"

definition CMysql_connect ::
    "'m mysql_api \<Rightarrow> string \<Rightarrow> string \<Rightarrow> string \<Rightarrow> string \<Rightarrow> int \<Rightarrow> 'm CMysql \<Rightarrow> bool \<times> 'm CMysql" where
  "CMysql_connect api host user password db port c =
     (let (ok, c) = (if my_mysql c then (True, c) else CMysql_init api c) in
      if \<not> ok then (False, c)
      else let (ok, m) = mysql_real_connect api (my_db c) host user password db port in
        (ok, c\<lparr>my_db := m\<rparr>))"

text \<open>
  \<open>inputDBConfig\<close>: the database and account that the configuration file holds (\<open>file\<close>, when it
  can be read whole), or else those the user types, which are then saved if the file can be
  written. The result has the file afterwards.
\<close>

record MysqlInfo =
  db_host :: string
  db_user :: string
  db_pass :: string
  db_name :: string
  db_port :: int

definition CMysql_inputDBConfig ::
    "'m mysql_api \<Rightarrow> bool \<Rightarrow> MysqlInfo \<Rightarrow> MysqlInfo option \<Rightarrow> 'm CMysql \<Rightarrow>
     bool \<times> MysqlInfo option \<times> 'm CMysql" where
  "CMysql_inputDBConfig api writable entered file c =
     (let (ok, c) = (if my_mysql c then (True, c) else CMysql_init api c) in
      if \<not> ok then (False, file, c)
      else
        let (db, file) = (case file of Some db \<Rightarrow> (db, file)
              | None \<Rightarrow> (entered, if writable then Some entered else None));
            (ok, c) = CMysql_connect api (db_host db) (db_user db) (db_pass db) (db_name db) (db_port db) c in
        (ok, file, c))"

definition CMysql_query ::
    "'m mysql_api \<Rightarrow> string option \<Rightarrow> nat \<Rightarrow> 'm CMysql \<Rightarrow> bool \<times> 'm CMysql" where
  "CMysql_query api sql sqlLen c =
     (if \<not> my_mysql c then (False, c)
      else case sql of None \<Rightarrow> (False, c)
      | Some sql \<Rightarrow>
          let sqlLen = (if sqlLen \<le> 0 then strlen sql else sqlLen) in
          if sqlLen \<le> 0 then (False, c)
          else let (res, db) = mysql_real_query api (my_db c) (take sqlLen sql) in
            (res = 0, c\<lparr>my_db := db\<rparr>))"

definition CMysql_option :: "'m mysql_api \<Rightarrow> int \<Rightarrow> int \<Rightarrow> 'm CMysql \<Rightarrow> bool \<times> 'm CMysql" where
  "CMysql_option api opt arg c =
     (if \<not> my_mysql c then (False, c)
      else let (res, db) = mysql_options api (my_db c) opt arg in (res = 0, c\<lparr>my_db := db\<rparr>))"

definition CMysql_setConnectTimeout :: "'m mysql_api \<Rightarrow> int \<Rightarrow> 'm CMysql \<Rightarrow> bool \<times> 'm CMysql" where
  "CMysql_setConnectTimeout api sec = CMysql_option api CMYSQL_OPT_CONNECT_TIMEOUT sec"

definition CMysql_setReconnect :: "'m mysql_api \<Rightarrow> bool \<Rightarrow> 'm CMysql \<Rightarrow> bool \<times> 'm CMysql" where
  "CMysql_setReconnect api is = CMysql_option api CMYSQL_OPT_RECONNECT (if is then 1 else 0)"

definition CMysql_storeResult :: "'m mysql_api \<Rightarrow> 'm CMysql \<Rightarrow> bool \<times> 'm CMysql" where
  "CMysql_storeResult api c =
     (if \<not> my_mysql c then (False, c)
      else let c = CMysql_freeResult c; (r, db) = mysql_store_result api (my_db c) in
        (r \<noteq> None, c\<lparr>my_db := db, my_result := r\<rparr>))"

definition CMysql_useResult :: "'m mysql_api \<Rightarrow> 'm CMysql \<Rightarrow> bool \<times> 'm CMysql" where
  "CMysql_useResult api c =
     (if \<not> my_mysql c then (False, c)
      else let c = CMysql_freeResult c; (r, db) = mysql_use_result api (my_db c) in
        (r \<noteq> None, c\<lparr>my_db := db, my_result := r\<rparr>))"

definition CMysql_getInsertId :: "'m mysql_api \<Rightarrow> 'm CMysql \<Rightarrow> int" where
  "CMysql_getInsertId api c =
     (if \<not> my_mysql c then 0 else int_of_ulonglong (mysql_insert_id api (my_db c)))"

text \<open>\<open>mysql_fetch_row\<close> takes the next row of the result, in order, until there is none.\<close>

definition CMysql_fetchRow :: "'m CMysql \<Rightarrow> CData list \<times> 'm CMysql" where
  "CMysql_fetchRow c =
     (case my_result c of None \<Rightarrow> ([], c)
      | Some [] \<Rightarrow> ([], c)
      | Some (row # rows) \<Rightarrow> (row, c\<lparr>my_result := Some rows\<rparr>))"

function fetch_rows :: "'m CMysql \<Rightarrow> CData list list \<times> 'm CMysql" where
  "fetch_rows c = (let (row, c') = CMysql_fetchRow c in
     if row = [] then ([], c')
     else let (rows, c'') = fetch_rows c' in (row # rows, c''))"
  by pat_completeness auto
termination
  by (relation "measure (\<lambda>c. length (case my_result c of None \<Rightarrow> [] | Some rows \<Rightarrow> rows))")
     (auto simp: CMysql_fetchRow_def split: option.splits list.splits)

declare fetch_rows.simps [simp del]

definition CMysql_getResult :: "'m mysql_api \<Rightarrow> string \<Rightarrow> 'm CMysql \<Rightarrow> CData list list \<times> 'm CMysql" where
  "CMysql_getResult api sql c =
     (let (ok, c) = CMysql_query api (Some sql) 0 (CMysql_freeResult c) in
      if \<not> ok then ([], c)
      else let (ok, c) = CMysql_storeResult api c in
      if \<not> ok then ([], c) else fetch_rows c)"

section \<open>Statements\<close>

text \<open>\<open>s[s.size() - 1] = ' '\<close>: the trailing comma becomes a space.\<close>

definition blank_last :: "string \<Rightarrow> string" where
  "blank_last s = butlast s @ '' ''"

definition at_key :: "string \<Rightarrow> bool" where
  "at_key k \<longleftrightarrow> (case k of [] \<Rightarrow> False | c # _ \<Rightarrow> c = CHR ''@'')"

fun insert_lists :: "MData \<Rightarrow> string \<Rightarrow> string \<Rightarrow> (string \<times> string) checked" where
  "insert_lists [] keys vals = Inr (keys, vals)"
| "insert_lists ((k, d) # kv) keys vals =
     bind_ub (chars_of d) (\<lambda>v.
     let keys = keys @ ''`'' @ (if at_key k then tl k else k) @ ''`,'';
         vals = vals @ (if at_key k then v else [CHR 0x27] @ v @ [CHR 0x27]) @ '','' in
     insert_lists kv keys vals)"

definition CMysql_getInsertSql :: "MData \<Rightarrow> string \<Rightarrow> string checked" where
  "CMysql_getInsertSql kv table =
     (if kv = [] \<or> table = [] then Inr []
      else bind_ub (insert_lists kv [] []) (\<lambda>(keys, vals).
        Inr (''insert into `'' @ table @ ''`('' @ blank_last keys @ '')values('' @ blank_last vals @ '')'')))"

definition CMysql_insert ::
    "'m mysql_api \<Rightarrow> MData \<Rightarrow> string \<Rightarrow> 'm CMysql \<Rightarrow> (bool \<times> 'm CMysql) checked" where
  "CMysql_insert api kv table c =
     (if \<not> my_mysql c then Inr (False, c)
      else bind_ub (CMysql_getInsertSql kv table) (\<lambda>sql.
        if sql = [] then Inr (False, c)
        else let (ok, c) = CMysql_query api (Some (string_c_str sql)) 0 c in
          if \<not> ok then Inr (False, c)
          else Inr (0 < int_of_ulonglong (mysql_affected_rows api (my_db c)), c)))"

text \<open>
  A prepared statement, as \<open>insertBin\<close> and \<open>updateBin\<close> both run it: initialise, prepare, bind,
  execute, close; a step that fails closes the statement. \<open>Some rows\<close> is success.
\<close>

definition run_statement ::
    "'m mysql_api \<Rightarrow> string \<Rightarrow> CData list \<Rightarrow> 'm \<Rightarrow> int option \<times> 'm" where
  "run_statement api sql binds db =
     (let (stmt, db) = mysql_stmt_init api db in
      if \<not> stmt then (None, db)
      else let (res, db) = mysql_stmt_prepare api db sql in
      if res \<noteq> 0 then (None, mysql_stmt_close api db)
      else let (res, db) = mysql_stmt_bind_param api db binds in
      if res \<noteq> 0 then (None, mysql_stmt_close api db)
      else let (res, db) = mysql_stmt_execute api db in
      if res \<noteq> 0 then (None, mysql_stmt_close api db)
      else (Some (int_of_ulonglong (mysql_stmt_affected_rows api db)), mysql_stmt_close api db))"

text \<open>\<open>bind[256]\<close>: one more binding is written past the array.\<close>

definition bindings :: "MData \<Rightarrow> CData list checked" where
  "bindings kv = (if length kv \<le> 256 then Inr (map snd kv) else Inl OutOfBounds)"

definition insertBin_sql :: "MData \<Rightarrow> string \<Rightarrow> string" where
  "insertBin_sql kv table = ''insert into `'' @ table @ ''`('' @
     blank_last (concat (map (\<lambda>(k, d). ''`'' @ k @ ''`,'') kv)) @ '')values('' @
     blank_last (concat (map (\<lambda>_. ''?,'') kv)) @ '')''"

definition CMysql_insertBin ::
    "'m mysql_api \<Rightarrow> MData \<Rightarrow> string \<Rightarrow> 'm CMysql \<Rightarrow> (bool \<times> 'm CMysql) checked" where
  "CMysql_insertBin api kv table c =
     (if kv = [] \<or> table = [] \<or> \<not> my_mysql c then Inr (False, c)
      else bind_ub (bindings kv) (\<lambda>binds.
        let (rows, db) = run_statement api (insertBin_sql kv table) binds (my_db c) in
        Inr (rows \<noteq> None, c\<lparr>my_db := db\<rparr>)))"

fun update_list :: "MData \<Rightarrow> string \<Rightarrow> string checked" where
  "update_list [] sql = Inr sql"
| "update_list ((k, d) # kv) sql =
     bind_ub (chars_of d) (\<lambda>v.
     update_list kv (sql @ ''`'' @ k @ ''`='' @ [CHR 0x27] @ v @ [CHR 0x27] @ '',''))"

definition CMysql_getUpdateSql :: "MData \<Rightarrow> string \<Rightarrow> string \<Rightarrow> string checked" where
  "CMysql_getUpdateSql kv table where_text =
     (if kv = [] \<or> table = [] then Inr []
      else bind_ub (update_list kv (''update `'' @ table @ ''` set '')) (\<lambda>sql.
        Inr (blank_last sql @ '' '' @ where_text)))"

definition CMysql_update ::
    "'m mysql_api \<Rightarrow> MData \<Rightarrow> string \<Rightarrow> string \<Rightarrow> 'm CMysql \<Rightarrow> (int \<times> 'm CMysql) checked" where
  "CMysql_update api kv table where_text c =
     (if \<not> my_mysql c then Inr (- 1, c)
      else bind_ub (CMysql_getUpdateSql kv table where_text) (\<lambda>sql.
        if sql = [] then Inr (- 1, c)
        else let (ok, c) = CMysql_query api (Some (string_c_str sql)) 0 c in
          if \<not> ok then Inr (- 1, c)
          else Inr (int_of_ulonglong (mysql_affected_rows api (my_db c)), c)))"

definition updateBin_sql :: "MData \<Rightarrow> string \<Rightarrow> string \<Rightarrow> string" where
  "updateBin_sql kv table where_text =
     blank_last (''update `'' @ table @ ''` set '' @
       concat (map (\<lambda>(k, d). ''`'' @ k @ ''`=?,'') kv)) @ '' '' @ where_text"

definition CMysql_updateBin ::
    "'m mysql_api \<Rightarrow> MData \<Rightarrow> string \<Rightarrow> string \<Rightarrow> 'm CMysql \<Rightarrow> (int \<times> 'm CMysql) checked" where
  "CMysql_updateBin api kv table where_text c =
     (if \<not> my_mysql c \<or> kv = [] \<or> table = [] then Inr (- 1, c)
      else bind_ub (bindings kv) (\<lambda>binds.
        let (rows, db) = run_statement api (updateBin_sql kv table where_text) binds (my_db c) in
        Inr (case rows of None \<Rightarrow> - 1 | Some n \<Rightarrow> n, c\<lparr>my_db := db\<rparr>)))"

definition CMysql_startTransaction :: "'m mysql_api \<Rightarrow> 'm CMysql \<Rightarrow> bool \<times> 'm CMysql" where
  "CMysql_startTransaction api = CMysql_query api (Some ''set autocommit=0'') 0"

definition CMysql_stopTransaction :: "'m mysql_api \<Rightarrow> 'm CMysql \<Rightarrow> bool \<times> 'm CMysql" where
  "CMysql_stopTransaction api = CMysql_query api (Some ''set autocommit=1'') 0"

definition CMysql_commit :: "'m mysql_api \<Rightarrow> 'm CMysql \<Rightarrow> bool \<times> 'm CMysql" where
  "CMysql_commit api = CMysql_query api (Some ''commit'') 0"

definition CMysql_rollback :: "'m mysql_api \<Rightarrow> 'm CMysql \<Rightarrow> bool \<times> 'm CMysql" where
  "CMysql_rollback api = CMysql_query api (Some ''rollback'') 0"

section \<open>What a query gives\<close>

lemma strlen_c_str: "NUL \<notin> set s \<Longrightarrow> strlen (string_c_str s) = length s"
  by (simp add: strlen_def string_c_str_def takeWhile_append takeWhile_neq_all)

lemma CMysql_query_c_str:
  assumes "NUL \<notin> set sql" "sql \<noteq> []" "my_mysql c"
  shows "CMysql_query api (Some (string_c_str sql)) 0 c =
    (let (res, db) = mysql_real_query api (my_db c) sql in (res = 0, c\<lparr>my_db := db\<rparr>))"
  using assms by (simp add: CMysql_query_def strlen_c_str) (simp add: string_c_str_def)

lemma fetch_rows_all:
  "my_result c = Some rows \<Longrightarrow> [] \<notin> set rows \<Longrightarrow> fetch_rows c = (rows, c\<lparr>my_result := Some []\<rparr>)"
proof (induction rows arbitrary: c)
  case Nil
  then show ?case by (subst fetch_rows.simps) (simp add: CMysql_fetchRow_def)
next
  case (Cons row rows)
  have "fetch_rows (c\<lparr>my_result := Some rows\<rparr>) = (rows, c\<lparr>my_result := Some []\<rparr>)"
    using Cons.IH [of "c\<lparr>my_result := Some rows\<rparr>"] Cons.prems by simp
  moreover have "row \<noteq> []" using Cons.prems by auto
  ultimately show ?case using Cons.prems by (subst fetch_rows.simps) (simp add: CMysql_fetchRow_def)
qed

lemma CMysql_getResult_rows:
  assumes "my_mysql c" "NUL \<notin> set sql" "sql \<noteq> []"
    and "mysql_real_query api (my_db c) sql = (0, m)" "mysql_store_result api m = (Some rows, m')"
    and "[] \<notin> set rows"
  shows "CMysql_getResult api (string_c_str sql) c = (rows, c\<lparr>my_db := m', my_result := Some []\<rparr>)"
  using assms fetch_rows_all [of "c\<lparr>my_db := m', my_result := Some rows\<rparr>" rows]
  by (simp add: CMysql_getResult_def CMysql_freeResult_def CMysql_query_c_str CMysql_storeResult_def)

lemma chars_of_c_str: "NUL \<notin> set s \<Longrightarrow> d_data d = Some (string_c_str s) \<Longrightarrow> chars_of d = Inr s"
  by (simp add: chars_of_def c_str_def string_c_str_def takeWhile_append takeWhile_neq_all)

end
