(* ===== verification/ConfigServer.thy ===== *)
theory ConfigServer
  imports RegisterClient Mysql Msg_Config
begin

text \<open>
  The configuration centre, \<open>configserver/\<close>: it keeps one configuration per address and port in
  a table of the database. A handler is a step from connection and \<open>ConfigDAO\<close> to both; the DAO
  is its pointer \<open>mysql_\<close>, guarded by one mutex. \<open>half\<close> is what a parse that fails leaves.
\<close>

section \<open>ConfigDAO\<close>

type_synonym 'm ConfigDAO = "'m CMysql option"

definition CONFIG_TABLE :: string where
  "CONFIG_TABLE = ''cms_service_config''"

definition CMysql_new :: "'m \<Rightarrow> 'm CMysql" where
  "CMysql_new db = \<lparr>my_db = db, my_mysql = False, my_result = None\<rparr>"

text \<open>\<open>db\<close> is the state of the library when the object is made.\<close>

definition ConfigDAO_init ::
    "'m mysql_api \<Rightarrow> 'm \<Rightarrow> string \<Rightarrow> string \<Rightarrow> string \<Rightarrow> string \<Rightarrow> int \<Rightarrow> 'm ConfigDAO \<Rightarrow> bool \<times> 'm ConfigDAO" where
  "ConfigDAO_init api db ip user password dbname port dao =
     (let c = (case dao of None \<Rightarrow> CMysql_new db | Some c \<Rightarrow> c);
          (ok, c) = CMysql_init api c in
      if \<not> ok then (False, Some c)
      else
        let (_, c) = CMysql_setReconnect api True c;
            (_, c) = CMysql_setConnectTimeout api 3 c;
            (ok, c) = CMysql_connect api ip user password dbname port c in
        (ok, Some c))"

definition createTbSql :: string where
  "createTbSql =
     (let sp = replicate 28 (CHR '' '') in
      ''CREATE TABLE IF NOT EXISTS `cms_service_config` ( '' @
      sp @ ''`id` INT AUTO_INCREMENT, '' @
      sp @ ''`service_name` VARCHAR(16), '' @
      sp @ ''`service_port` INT, '' @
      sp @ ''`service_ip` VARCHAR(16), '' @
      sp @ ''`private_pb` VARCHAR(4096), '' @
      sp @ ''`proto` VARCHAR(4096), '' @
      sp @ ''PRIMARY KEY(`id`)); '')"

definition ConfigDAO_install :: "'m mysql_api \<Rightarrow> 'm ConfigDAO \<Rightarrow> bool \<times> 'm ConfigDAO" where
  "ConfigDAO_install api dao =
     (case dao of None \<Rightarrow> (False, dao)
      | Some c \<Rightarrow> (case CMysql_query api (Some (string_c_str createTbSql)) 0 c of (ok, c) \<Rightarrow> (ok, Some c)))"

definition where_text :: "string \<Rightarrow> int \<Rightarrow> string" where
  "where_text ip port = '' where service_ip='' @ [CHR 0x27] @ ip @ [CHR 0x27] @ '' and service_port='' @ show_int port"

text \<open>The values of a configuration, by column.\<close>

definition config_data :: "CConfig \<Rightarrow> MData" where
  "config_data conf =
     (let data = mdata_set ''service_name'' (CData_chars (Some (string_c_str (CConfig_serviceName conf)))) [];
          data = mdata_set ''service_port'' (CData_int (CConfig_servicePort conf)) data;
          data = mdata_set ''service_ip'' (CData_chars (Some (string_c_str (CConfig_serviceIp conf)))) data;
          privatePb = CConfig_Serialize conf;
          data = mdata_set ''private_pb'' ((CData_chars None)\<lparr>d_data := Some (string_c_str privatePb),
            d_size := int (length privatePb)\<rparr>) data in
      mdata_set ''proto'' ((CData_chars None)\<lparr>d_data := Some (string_c_str (CConfig_proto conf)),
        d_size := int (length (CConfig_proto conf))\<rparr>) data)"

definition select_id_sql :: "string \<Rightarrow> int \<Rightarrow> string" where
  "select_id_sql ip port = ''select id from '' @ CONFIG_TABLE @ where_text ip port"

definition ConfigDAO_uploadConfig ::
    "'m mysql_api \<Rightarrow> CConfig option \<Rightarrow> 'm ConfigDAO \<Rightarrow> (bool \<times> 'm ConfigDAO) checked" where
  "ConfigDAO_uploadConfig api conf dao =
     (case dao of None \<Rightarrow> Inr (False, dao)
      | Some c \<Rightarrow>
     (case conf of None \<Rightarrow> Inr (False, dao)
      | Some conf \<Rightarrow>
          if CConfig_serviceIp conf = [] then Inr (False, dao)
          else
            let data = config_data conf;
                wh = where_text (CConfig_serviceIp conf) (sint (CConfig_servicePort conf));
                (rows, c) = CMysql_getResult api (string_c_str
                  (select_id_sql (CConfig_serviceIp conf) (sint (CConfig_servicePort conf)))) c in
            if length rows > 0 then
              bind_ub (CMysql_updateBin api data CONFIG_TABLE wh c) (\<lambda>(affectedRows, c).
              Inr (affectedRows \<ge> 0, Some c))
            else
              bind_ub (CMysql_insertBin api data CONFIG_TABLE c) (\<lambda>(res, c). Inr (res, Some c))))"

text \<open>The bytes a \<open>CData\<close> gives to a parser: \<open>size\<close> bytes from \<open>data\<close>.\<close>

definition CData_bytes :: "CData \<Rightarrow> string" where
  "CData_bytes d = (case d_data d of None \<Rightarrow> [] | Some s \<Rightarrow> take (nat (d_size d)) s)"

definition select_pb_sql :: "string \<Rightarrow> int \<Rightarrow> string" where
  "select_pb_sql ip port = ''select private_pb from '' @ CONFIG_TABLE @ where_text ip port"

definition ConfigDAO_downloadConfig ::
    "'m mysql_api \<Rightarrow> pb_rt \<Rightarrow> (string \<Rightarrow> CConfig) \<Rightarrow> string option \<Rightarrow> int \<Rightarrow> 'm ConfigDAO \<Rightarrow>
     (CConfig \<times> 'm ConfigDAO) checked" where
  "ConfigDAO_downloadConfig api rt half ip port dao =
     (let conf = CConfig_Clear in
      case dao of None \<Rightarrow> Inr (conf, dao)
      | Some c \<Rightarrow>
     (case ip of None \<Rightarrow> Inr (conf, dao)
      | Some ip \<Rightarrow>
          if port \<le> 0 \<or> port \<ge> 65536 \<or> ip = [] then Inr (conf, dao)
          else
            let (rows, c) = CMysql_getResult api (string_c_str (select_pb_sql ip port)) c;
                conf = conf\<lparr>CConfig_serviceIp := ip, CConfig_servicePort := word_of_int port\<rparr> in
            (case rows of [] \<Rightarrow> Inr (conf, Some c)
             | row # _ \<Rightarrow>
                 bind_ub (vec_at row 0) (\<lambda>d.
                 case CConfig_ParseFromArray rt (CData_bytes d) of
                   None \<Rightarrow> Inr (half (CData_bytes d), Some c)
                 | Some conf \<Rightarrow> Inr (conf, Some c)))))"

definition select_page_sql :: "int \<Rightarrow> int \<Rightarrow> string" where
  "select_page_sql off pageCount = ''select `service_name`,`service_ip`,`service_port` from '' @ CONFIG_TABLE @
     '' order by id desc'' @ '' limit '' @ show_int off @ '','' @ show_int pageCount"

fun configs_of_rows :: "CData list list \<Rightarrow> CConfig list checked" where
  "configs_of_rows [] = Inr []"
| "configs_of_rows (row # rows) =
     bind_ub (bind_ub (vec_at row 0) chars_of) (\<lambda>name.
     bind_ub (bind_ub (vec_at row 1) chars_of) (\<lambda>ip.
     bind_ub (bind_ub (vec_at row 2) chars_of) (\<lambda>port.
     bind_ub (configs_of_rows rows) (\<lambda>confs.
     Inr (CConfig_Clear\<lparr>CConfig_serviceName := name, CConfig_serviceIp := ip,
       CConfig_servicePort := word_of_int (atoi port)\<rparr> # confs)))))"

definition ConfigDAO_downloadAllConfig ::
    "'m mysql_api \<Rightarrow> int \<Rightarrow> int \<Rightarrow> 'm ConfigDAO \<Rightarrow> (CConfigList \<times> 'm ConfigDAO) checked" where
  "ConfigDAO_downloadAllConfig api page pageCount dao =
     (case dao of None \<Rightarrow> Inr (CConfigList_Clear, dao)
      | Some c \<Rightarrow>
          if page \<le> 0 \<or> pageCount \<le> 0 then Inr (CConfigList_Clear, dao)
          else bind_ub (chk_int ((page - 1) * pageCount)) (\<lambda>off.
            let (rows, c) = CMysql_getResult api (string_c_str (select_page_sql off pageCount)) c in
            bind_ub (configs_of_rows rows) (\<lambda>confs.
            Inr (CConfigList_Clear\<lparr>CConfigList_config := confs\<rparr>, Some c))))"

definition delete_sql :: "string \<Rightarrow> int \<Rightarrow> string" where
  "delete_sql ip port = ''delete from '' @ CONFIG_TABLE @ where_text ip port"

definition ConfigDAO_deleteConfig ::
    "'m mysql_api \<Rightarrow> string option \<Rightarrow> int \<Rightarrow> 'm ConfigDAO \<Rightarrow> bool \<times> 'm ConfigDAO" where
  "ConfigDAO_deleteConfig api ip port dao =
     (case dao of None \<Rightarrow> (False, dao)
      | Some c \<Rightarrow>
     (case ip of None \<Rightarrow> (False, dao)
      | Some ip \<Rightarrow>
          if port \<le> 0 \<or> port \<ge> 65536 \<or> ip = [] then (False, dao)
          else (case CMysql_query api (Some (string_c_str (delete_sql ip port))) 0 c of (ok, c) \<Rightarrow> (ok, Some c))))"

section \<open>CConfigHandle\<close>

text \<open>An answer, as bytes under a type; whether it could be sent is ignored.\<close>

definition reply :: "'b platform \<Rightarrow> int32 \<Rightarrow> string \<Rightarrow> ('b, 'a) CMsgEvent_scheme \<Rightarrow> ('b, 'a) CMsgEvent_scheme" where
  "reply P type body t = snd (sendMsg_type P type (Some body) t)"

definition CConfigHandle_uploadConfig ::
    "'b platform \<Rightarrow> 'm mysql_api \<Rightarrow> CMsg \<Rightarrow> 'm ConfigDAO \<Rightarrow> ('b, 'a) CMsgEvent_scheme \<Rightarrow>
     ('m ConfigDAO \<times> ('b, 'a) CMsgEvent_scheme) checked" where
  "CConfigHandle_uploadConfig P api msg dao t =
     (case CConfig_ParseFromArray (p_protobuf P) (msg_bytes msg) of
        None \<Rightarrow> Inr (dao, reply P MSG_UPLOAD_CONFIG_RES
          (CMessageRes_Serialize (message_res CReturn_ERROR ''format error!'')) t)
      | Some conf \<Rightarrow>
          bind_ub (if CConfig_serviceIp conf = [] then c_str (m_clientIp t) else Inr (CConfig_serviceIp conf)) (\<lambda>ip.
          bind_ub (ConfigDAO_uploadConfig api (Some (conf\<lparr>CConfig_serviceIp := ip\<rparr>)) dao) (\<lambda>(ok, dao).
          if ok then Inr (dao, reply P MSG_UPLOAD_CONFIG_RES (CMessageRes_Serialize (message_res CReturn_OK ''OK'')) t)
          else Inr (dao, reply P MSG_UPLOAD_CONFIG_RES
            (CMessageRes_Serialize (message_res CReturn_ERROR ''insert to db failed!'')) t))))"

text \<open>\<open>ip.c_str()\<close> passed as a C string: up to its first zero byte.\<close>

definition as_c_str :: "string \<Rightarrow> string" where
  "as_c_str s = takeWhile (\<lambda>c. c \<noteq> NUL) s"

definition CConfigHandle_downloadConfig ::
    "'b platform \<Rightarrow> 'm mysql_api \<Rightarrow> (string \<Rightarrow> CConfig) \<Rightarrow> CMsg \<Rightarrow> 'm ConfigDAO \<Rightarrow> ('b, 'a) CMsgEvent_scheme \<Rightarrow>
     ('m ConfigDAO \<times> ('b, 'a) CMsgEvent_scheme) checked" where
  "CConfigHandle_downloadConfig P api half msg dao t =
     (case CDownloadconfigReq_ParseFromArray (p_protobuf P) (msg_bytes msg) of
        None \<Rightarrow> Inr (dao, t)
      | Some req \<Rightarrow>
          bind_ub (if CDownloadconfigReq_serviceIp req = [] then c_str (m_clientIp t)
                   else Inr (CDownloadconfigReq_serviceIp req)) (\<lambda>ip.
          bind_ub (ConfigDAO_downloadConfig api (p_protobuf P) half (Some (as_c_str ip))
              (sint (CDownloadconfigReq_servicePort req)) dao) (\<lambda>(conf, dao).
          Inr (dao, reply P MSG_DOWNLOAD_CONFIG_RES (CConfig_Serialize conf) t))))"

definition CConfigHandle_downloadAllConfig ::
    "'b platform \<Rightarrow> 'm mysql_api \<Rightarrow> CMsg \<Rightarrow> 'm ConfigDAO \<Rightarrow> ('b, 'a) CMsgEvent_scheme \<Rightarrow>
     ('m ConfigDAO \<times> ('b, 'a) CMsgEvent_scheme) checked" where
  "CConfigHandle_downloadAllConfig P api msg dao t =
     (case CDownloadAllConfigReq_ParseFromArray (p_protobuf P) (msg_bytes msg) of
        None \<Rightarrow> Inr (dao, t)
      | Some req \<Rightarrow>
          bind_ub (ConfigDAO_downloadAllConfig api (sint (CDownloadAllConfigReq_page req))
              (sint (CDownloadAllConfigReq_pageCount req)) dao) (\<lambda>(configs, dao).
          Inr (dao, reply P MSG_DOWNLOAD_ALL_CONFIG_RES (CConfigList_Serialize configs) t)))"

definition CConfigHandle_deleteConfig ::
    "'b platform \<Rightarrow> 'm mysql_api \<Rightarrow> CMsg \<Rightarrow> 'm ConfigDAO \<Rightarrow> ('b, 'a) CMsgEvent_scheme \<Rightarrow>
     'm ConfigDAO \<times> ('b, 'a) CMsgEvent_scheme" where
  "CConfigHandle_deleteConfig P api msg dao t =
     (case CDownloadconfigReq_ParseFromArray (p_protobuf P) (msg_bytes msg) of
        None \<Rightarrow> (dao, t)
      | Some req \<Rightarrow>
          let (ok, dao) = ConfigDAO_deleteConfig api (Some (as_c_str (CDownloadconfigReq_serviceIp req)))
                (sint (CDownloadconfigReq_servicePort req)) dao in
          if ok then (dao, reply P MSG_DELETE_CONFIG_RES (CMessageRes_Serialize (message_res CReturn_OK ''OK'')) t)
          else (dao, reply P MSG_DOWNLOAD_CONFIG_RES
            (CMessageRes_Serialize (message_res CReturn_ERROR ''ConfigDAO::get()->deleteConfig failed!'')) t))"

datatype config_handler = UploadConfig | DownloadConfig | DownloadAllConfig | DeleteConfig

definition config_regMsgCallback :: "(int32 \<times> config_handler) list" where
  "config_regMsgCallback =
     [(MSG_UPLOAD_CONFIG_REQ, UploadConfig), (MSG_DOWNLOAD_CONFIG_REQ, DownloadConfig),
      (MSG_DOWNLOAD_ALL_CONFIG_REQ, DownloadAllConfig), (MSG_DELETE_CONFIG_REQ, DeleteConfig)]"

definition config_dispatch ::
    "'b platform \<Rightarrow> 'm mysql_api \<Rightarrow> (string \<Rightarrow> CConfig) \<Rightarrow> CMsgHead \<Rightarrow> CMsg \<Rightarrow> 'm ConfigDAO \<Rightarrow>
     ('b, 'a) CMsgEvent_scheme \<Rightarrow> ('m ConfigDAO \<times> ('b, 'a) CMsgEvent_scheme) checked" where
  "config_dispatch P api half head msg dao t =
     (case map_of config_regMsgCallback (msg_type head) of
        None \<Rightarrow> Inr (dao, CMsgEvent_clear t)
      | Some UploadConfig \<Rightarrow> CConfigHandle_uploadConfig P api msg dao t
      | Some DownloadConfig \<Rightarrow> CConfigHandle_downloadConfig P api half msg dao t
      | Some DownloadAllConfig \<Rightarrow> CConfigHandle_downloadAllConfig P api msg dao t
      | Some DeleteConfig \<Rightarrow> Inr (CConfigHandle_deleteConfig P api msg dao t))"

section \<open>CConfigServer\<close>

definition CONFIG_NAME :: string where "CONFIG_NAME = ''CONFIG''"
definition CONFIG_PORT :: int where "CONFIG_PORT = 20019"

definition config_createServiceHandle :: "'a CService_scheme \<Rightarrow> 'b CMsgEvent \<times> 'a CService_scheme" where
  "config_createServiceHandle s = (CMsgEvent_new, s)"

definition config_mainFunc ::
    "'b platform \<Rightarrow> (string \<Rightarrow> CServiceMap) \<Rightarrow> (int \<Rightarrow> (int \<times> int) option \<times> nat option) \<Rightarrow> bool \<Rightarrow> nat \<Rightarrow>
     string list \<Rightarrow> 'a CService_scheme \<Rightarrow> world \<Rightarrow> register_cache \<Rightarrow> 'b CRegisterClient \<Rightarrow>
     ('a CService_scheme \<times> world \<times> register_cache \<times> 'b CRegisterClient) checked" where
  "config_mainFunc P half os written this argv s w cache c =
     (let registerIp = (if length argv > 1 then argv ! 1 else ''127.0.0.1'');
          registerPort = (if length argv > 2 then atoi (argv ! 2) else REGISTER_PORT);
          servicePort = (if length argv > 3 then atoi (argv ! 3) else CONFIG_PORT);
          s = setServerPort servicePort s;
          c = setServerIp registerIp c;
          c = c\<lparr>m_serverPort := registerPort\<rparr> in
      bind_ub (registerServer P half os written this (Some CONFIG_NAME) servicePort None w cache c)
        (\<lambda>(w, cache, c). Inr (s, w, cache, c)))"

end
