(* ===== verification/Tools.thy ===== *)
theory Tools
  imports Prelude
begin

text \<open>
  The helpers of \<open>cplatform/ctools.cpp\<close>: base64 and MD5 over OpenSSL, the listing of a directory
  and the formatting of a time. OpenSSL's \<open>BIO\<close> objects are the record \<open>bio_api\<close>, its MD5, the
  directory calls and \<open>strftime\<close> are arguments.
\<close>

section \<open>Base64 and MD5\<close>

text \<open>
  A \<open>BIO\<close> is a value; \<open>BIO_push\<close> gives the chain. \<open>None\<close> is an object that could not be made, a
  null \<open>BUF_MEM\<close>, or a read that failed and set no size.
\<close>

record 'b bio_api =
  BIO_new_mem :: "'b option"
  BIO_new_mem_buf :: "string \<Rightarrow> 'b option"
  BIO_new_base64 :: "'b option"
  BIO_set_flags :: "'b \<Rightarrow> nat \<Rightarrow> 'b"
  BIO_push :: "'b \<Rightarrow> 'b \<Rightarrow> 'b"
  BIO_write :: "'b \<Rightarrow> string \<Rightarrow> int \<times> 'b"
  BIO_flush :: "'b \<Rightarrow> 'b"
  BIO_get_mem_ptr :: "'b \<Rightarrow> string option"
  BIO_read_ex :: "'b \<Rightarrow> nat \<Rightarrow> string option"

definition BIO_FLAGS_BASE64_NO_NL :: nat where "BIO_FLAGS_BASE64_NO_NL = 0x100"

text \<open>Reading \<open>n\<close> bytes of an array, and copying into one.\<close>

definition mem_read :: "string \<Rightarrow> int \<Rightarrow> string checked" where
  "mem_read src n = (if nat n \<le> length src then Inr (take (nat n) src) else Inl OutOfBounds)"

definition memcpy :: "string \<Rightarrow> string \<Rightarrow> string checked" where
  "memcpy dst src = (if length src \<le> length dst then Inr (src @ drop (length src) dst) else Inl OutOfBounds)"

text \<open>The result is the number returned and the array that was written to.\<close>

definition base64Encode ::
    "'b bio_api \<Rightarrow> string option \<Rightarrow> int \<Rightarrow> string option \<Rightarrow> (int \<times> string option) checked" where
  "base64Encode B inp len outBase64 =
     (case (inp, outBase64) of
        (Some inp, Some out) \<Rightarrow>
          if len \<le> 0 then Inr (0, Some out)
          else (case BIO_new_mem B of None \<Rightarrow> Inr (0, Some out)
          | Some memBio \<Rightarrow> (case BIO_new_base64 B of None \<Rightarrow> Inr (0, Some out)
          | Some b64Bio \<Rightarrow>
              let b64Bio = BIO_set_flags B b64Bio BIO_FLAGS_BASE64_NO_NL;
                  b64Bio = BIO_push B b64Bio memBio in
              bind_ub (mem_read inp len) (\<lambda>data.
              let (res, b64Bio) = BIO_write B b64Bio data in
              if res \<le> 0 then Inr (0, Some out)
              else
                let b64Bio = BIO_flush B b64Bio in
                (case BIO_get_mem_ptr B b64Bio of None \<Rightarrow> Inr (0, Some out)
                 | Some pData \<Rightarrow> bind_ub (memcpy out pData) (\<lambda>out. Inr (int (length pData), Some out))))))
      | _ \<Rightarrow> Inr (0, outBase64))"

definition base64Decode ::
    "'b bio_api \<Rightarrow> string option \<Rightarrow> int \<Rightarrow> string option \<Rightarrow> (int \<times> string option) checked" where
  "base64Decode B inp len outData =
     (case (inp, outData) of
        (Some inp, Some out) \<Rightarrow>
          if len \<le> 0 then Inr (0, Some out)
          else bind_ub (mem_read inp len) (\<lambda>buf.
            case BIO_new_mem_buf B buf of None \<Rightarrow> Inr (0, Some out)
          | Some memBio \<Rightarrow> (case BIO_new_base64 B of None \<Rightarrow> Inr (0, Some out)
          | Some b64Bio \<Rightarrow>
              let b64Bio = BIO_set_flags B b64Bio BIO_FLAGS_BASE64_NO_NL;
                  b64Bio = BIO_push B b64Bio memBio in
              (case BIO_read_ex B b64Bio (nat len) of None \<Rightarrow> Inr (0, Some out)
               | Some data \<Rightarrow> bind_ub (memcpy out data) (\<lambda>out. Inr (int (length data), Some out)))))
      | _ \<Rightarrow> Inr (0, outData))"

definition CMD5 :: "(string \<Rightarrow> string) \<Rightarrow> string \<Rightarrow> string \<Rightarrow> string checked" where
  "CMD5 md5 inData outMd = memcpy outMd (md5 inData)"

definition CMD5Base64 :: "'b bio_api \<Rightarrow> (string \<Rightarrow> string) \<Rightarrow> string \<Rightarrow> string checked" where
  "CMD5Base64 B md5 inData =
     bind_ub (CMD5 md5 inData (zero_buf 16)) (\<lambda>buf.
     bind_ub (base64Encode B (Some buf) 16 (Some (zero_buf 25))) (\<lambda>(_, base64).
     c_str ((the base64)[24 := NUL])))"

section \<open>Directories\<close>

text \<open>
  The branch for Linux. \<open>opendir cwd path\<close> gives the names that \<open>readdir\<close> finds, \<open>chdir\<close> the new
  working directory, \<open>lstat cwd name\<close> whether the entry is a directory, and its size; when it fails
  \<open>statBuf\<close> stays as it was, at first as the stack held it. The line \<open>buf\<close> has 1024 bytes.
\<close>

record dir_api =
  opendir :: "string \<Rightarrow> string \<Rightarrow> string list option"
  chdir :: "string \<Rightarrow> string \<Rightarrow> string option"
  lstat :: "string \<Rightarrow> string \<Rightarrow> (bool \<times> int) option"

fun dir_loop :: "dir_api \<Rightarrow> string \<Rightarrow> string list \<Rightarrow> bool \<times> int \<Rightarrow> string \<Rightarrow> string checked" where
  "dir_loop D cwd [] statBuf data = Inr data"
| "dir_loop D cwd (entry # es) statBuf data =
     (let statBuf = (case lstat D cwd entry of None \<Rightarrow> statBuf | Some s \<Rightarrow> s) in
      if fst statBuf then dir_loop D cwd es statBuf data
      else
        let line = entry @ '','' @ show_int (snd statBuf) @ '';'' in
        if length line < 1024 then dir_loop D cwd es statBuf (data @ line) else Inl OutOfBounds)"

definition getDirData :: "dir_api \<Rightarrow> string \<Rightarrow> bool \<times> int \<Rightarrow> string \<Rightarrow> (string \<times> string) checked" where
  "getDirData D cwd statBuf path =
     (case opendir D cwd path of None \<Rightarrow> Inr ([], cwd)
      | Some names \<Rightarrow>
          let cwd = (case chdir D cwd path of None \<Rightarrow> cwd | Some d \<Rightarrow> d) in
          bind_ub (dir_loop D cwd names statBuf []) (\<lambda>data.
          Inr (if data \<noteq> [] then butlast data else data, cwd)))"

section \<open>Times\<close>

text \<open>\<open>strftime fmt tm buf\<close> is what the call leaves in \<open>buf\<close>; the time is in UTC (\<open>gmtime\<close>).\<close>

definition cgetTime :: "(string \<Rightarrow> int \<Rightarrow> string \<Rightarrow> string) \<Rightarrow> int \<Rightarrow> int \<Rightarrow> string \<Rightarrow> string checked" where
  "cgetTime strftime now timestamp fmt =
     (let tm = (if timestamp \<le> 0 then now else timestamp) in
      c_str (strftime fmt tm (zero_buf 128)))"

end
