(* ===== verification/Auth.thy ===== *)
theory Auth
  imports ConfigServer Msg_Auth Tools
begin

text \<open>
  The login service and its client, \<open>cauth/\<close>: users and tokens are tables of a database; the
  client caches the answer of a login. \<open>now\<close> is the clock; \<open>B\<close> and \<open>md5\<close> are the OpenSSL calls of
  \<open>Tools\<close>, by which a password is made a text.
\<close>

section \<open>CAuthDAO\<close>

definition CAuthDAO_init ::
    "'m mysql_api \<Rightarrow> bool \<Rightarrow> MysqlInfo \<Rightarrow> MysqlInfo option \<Rightarrow> 'm CMysql \<Rightarrow>
     bool \<times> MysqlInfo option \<times> 'm CMysql" where
  "CAuthDAO_init api writable entered file c =
     (let (ok, c) = CMysql_init api c in
      if \<not> ok then (False, file, c)
      else
        let (_, c) = CMysql_setReconnect api True c;
            (_, c) = CMysql_setConnectTimeout api 3 c in
        CMysql_inputDBConfig api writable entered file c)"

definition blanks :: "nat \<Rightarrow> string" where
  "blanks n = replicate n (CHR '' '')"

definition auth_table_sql :: string where
  "auth_table_sql =
     blanks 20 @ ''CREATE TABLE IF NOT EXISTS `cms_auth` ('' @
     blanks 20 @ ''`id` INT AUTO_INCREMENT, '' @
     blanks 20 @ ''`cms_username` VARCHAR(128), '' @
     blanks 20 @ ''`cms_password` VARCHAR(1024), '' @
     blanks 20 @ ''`cms_rolename` VARCHAR(128), '' @
     blanks 20 @ ''PRIMARY KEY(`id`), '' @
     blanks 22 @ ''UNIQUE KEY `cms_username_UNIQUE` (`cms_username`));''"

definition token_table_sql :: string where
  "token_table_sql =
     blanks 8 @ ''CREATE TABLE IF NOT EXISTS `cms_token` ('' @
     blanks 8 @ ''`id` INT AUTO_INCREMENT, '' @
     blanks 8 @ ''`cms_username` VARCHAR(1024), '' @
     blanks 8 @ ''`cms_rolename` VARCHAR(128), '' @
     blanks 8 @ ''`token` VARCHAR(64), '' @
     blanks 8 @ ''`expired_time` int, '' @
     blanks 8 @ ''PRIMARY KEY(`id`));''"

definition CAuthDAO_install :: "'m mysql_api \<Rightarrow> 'm CMysql \<Rightarrow> bool \<times> 'm CMysql" where
  "CAuthDAO_install api c =
     (let (ok, c) = CMysql_query api (Some (string_c_str auth_table_sql)) 0 c in
      if \<not> ok then (False, c)
      else let (ok, c) = CMysql_query api (Some (string_c_str token_table_sql)) 0 c in (ok, c))"

definition user_data :: "CAddUserReq \<Rightarrow> MData" where
  "user_data user =
     (let data = mdata_set ''cms_username'' (CData_chars (Some (string_c_str (CAddUserReq_username user)))) [];
          data = mdata_set ''cms_password'' (CData_chars (Some (string_c_str (CAddUserReq_password user)))) data in
      mdata_set ''cms_rolename'' (CData_chars (Some (string_c_str (CAddUserReq_rolename user)))) data)"

definition CAuthDAO_addUser :: "'m mysql_api \<Rightarrow> CAddUserReq \<Rightarrow> 'm CMysql \<Rightarrow> (bool \<times> 'm CMysql) checked" where
  "CAuthDAO_addUser api user c =
     bind_ub (CMysql_insert api (user_data user) ''cms_auth'' c) (\<lambda>(ok, c). Inr (ok, c))"

definition CLoginRes_OK :: int32 where "CLoginRes_OK = 0"
definition CLoginRes_ERROR :: int32 where "CLoginRes_ERROR = 1"

definition login_sql :: "string \<Rightarrow> string \<Rightarrow> string" where
  "login_sql username password = ''select cms_username,cms_rolename from cms_auth '' @
     '' where cms_username='' @ [CHR 0x27] @ username @ [CHR 0x27] @
     '' and cms_password='' @ [CHR 0x27] @ password @ [CHR 0x27]"

definition token_data :: "string \<Rightarrow> string \<Rightarrow> int \<Rightarrow> MData" where
  "token_data username rolename expiredTime =
     (let data = mdata_set ''@token'' (CData_chars (Some (string_c_str ''UUID()''))) [];
          data = mdata_set ''cms_username'' (CData_chars (Some (string_c_str username))) data;
          data = mdata_set ''cms_rolename'' (CData_chars (Some (string_c_str rolename))) data in
      mdata_set ''expired_time'' (CData_chars (Some (string_c_str (show_int expiredTime)))) data)"

definition token_sql :: "int \<Rightarrow> string" where
  "token_sql insertId = ''select token from cms_token where id='' @ show_int insertId"

definition expire_sql :: "int \<Rightarrow> string" where
  "expire_sql now = ''delete from cms_token where expired_time<'' @ show_int now"

definition row_at :: "CData list list \<Rightarrow> nat \<Rightarrow> nat \<Rightarrow> CData checked" where
  "row_at rows i j = bind_ub (vec_at rows (int i)) (\<lambda>row. vec_at row (int j))"

definition CAuthDAO_login ::
    "'m mysql_api \<Rightarrow> int \<Rightarrow> CLoginReq \<Rightarrow> CLoginRes \<Rightarrow> int \<Rightarrow> 'm CMysql \<Rightarrow> (bool \<times> CLoginRes \<times> 'm CMysql) checked" where
  "CAuthDAO_login api now userReq userRes timeoutSec c =
     (let username = CLoginReq_username userReq in
      if CHR '';'' \<in> set username \<or> CHR 0x27 \<in> set username then Inr (False, userRes, c)
      else
        let (rows, c) = CMysql_getResult api
              (string_c_str (login_sql (CLoginReq_username userReq) (CLoginReq_password userReq))) c in
        if rows = [] then
          Inr (False, userRes\<lparr>CLoginRes_res := CLoginRes_ERROR, CLoginRes_token := ''username or password error!''\<rparr>, c)
        else
          bind_ub (row_at rows 0 1) (\<lambda>cell.
          bind_ub (if d_data cell = None then Inr [] else chars_of cell) (\<lambda>rolename.
          let userRes = userRes\<lparr>CLoginRes_username := username, CLoginRes_rolename := rolename\<rparr> in
          bind_ub (chk_int (now + timeoutSec)) (\<lambda>expiredTime.
          bind_ub (CMysql_insert api (token_data username rolename expiredTime) ''cms_token'' c) (\<lambda>(ok, c).
          if \<not> ok then
            Inr (False, userRes\<lparr>CLoginRes_res := CLoginRes_ERROR, CLoginRes_token := ''1 make token error!''\<rparr>, c)
          else
            let insertId = CMysql_getInsertId api c;
                (rows, c) = CMysql_getResult api (string_c_str (token_sql insertId)) c in
            if rows = [] then
              Inr (False, userRes\<lparr>CLoginRes_res := CLoginRes_ERROR, CLoginRes_token := ''2 make token error!''\<rparr>, c)
            else
              bind_ub (bind_ub (row_at rows 0 0) chars_of) (\<lambda>token.
              let userRes = userRes\<lparr>CLoginRes_res := CLoginRes_OK, CLoginRes_token := token,
                    CLoginRes_expired_time := word_of_int expiredTime\<rparr>;
                  (_, c) = CMysql_query api (Some (string_c_str (expire_sql now))) 0 c in
              Inr (True, userRes, c)))))))"

section \<open>CAuthHandle\<close>

text \<open>\<open>loginReq\<close> answers under the head of the request, \<open>addUserReq\<close> under a new one.\<close>

definition CAuthHandle_loginReq ::
    "'b platform \<Rightarrow> 'm mysql_api \<Rightarrow> int \<Rightarrow> CMsgHead \<Rightarrow> CMsg \<Rightarrow> 'm CMysql \<Rightarrow> ('b, 'a) CMsgEvent_scheme \<Rightarrow>
     (CMsgHead \<times> 'm CMysql \<times> ('b, 'a) CMsgEvent_scheme) checked" where
  "CAuthHandle_loginReq P api now head msg c t =
     (case CLoginReq_ParseFromArray (p_protobuf P) (msg_bytes msg) of
        None \<Rightarrow> Inr (head, c, t)
      | Some req \<Rightarrow>
          bind_ub (CAuthDAO_login api now req CLoginRes_Clear 1800 c) (\<lambda>(_, res, c).
          let head = head\<lparr>msg_type := MSG_LOGIN_RES\<rparr>;
              (_, head', t) = sendMsg_message P (Some head) (Some (CLoginRes_Serialize res)) t in
          Inr (case head' of None \<Rightarrow> head | Some h \<Rightarrow> h, c, t)))"

definition CAuthHandle_addUserReq ::
    "'b platform \<Rightarrow> 'm mysql_api \<Rightarrow> CMsg \<Rightarrow> 'm CMysql \<Rightarrow> ('b, 'a) CMsgEvent_scheme \<Rightarrow>
     ('m CMysql \<times> ('b, 'a) CMsgEvent_scheme) checked" where
  "CAuthHandle_addUserReq P api msg c t =
     (case CAddUserReq_ParseFromArray (p_protobuf P) (msg_bytes msg) of
        None \<Rightarrow> Inr (c, reply P MSG_ADD_USER_RES (CMessageRes_Serialize
          (message_res CReturn_ERROR ''CAuthHandle::addUserReq failed: ParseFromArray failed!'')) t)
      | Some req \<Rightarrow>
          bind_ub (CAuthDAO_addUser api req c) (\<lambda>(ok, c).
          if \<not> ok then Inr (c, reply P MSG_ADD_USER_RES (CMessageRes_Serialize
            (message_res CReturn_ERROR ''CAuthDAO::get()->addUser failed: addUser failed!'')) t)
          else Inr (c, reply P MSG_ADD_USER_RES (CMessageRes_Serialize
            (message_res CReturn_OK ''CAuthHandle::addUserReq OK'')) t)))"

datatype auth_handler = LoginReq | AddUserReq

definition auth_regMsgCallback :: "(int32 \<times> auth_handler) list" where
  "auth_regMsgCallback = [(MSG_LOGIN_REQ, LoginReq), (MSG_ADD_USER_REQ, AddUserReq)]"

text \<open>A message of a connection of the service; the result has the head as the handler leaves it.\<close>

definition auth_dispatch ::
    "'b platform \<Rightarrow> 'm mysql_api \<Rightarrow> int \<Rightarrow> CMsgHead \<Rightarrow> CMsg \<Rightarrow> 'm CMysql \<Rightarrow> ('b, 'a) CMsgEvent_scheme \<Rightarrow>
     (CMsgHead \<times> 'm CMysql \<times> ('b, 'a) CMsgEvent_scheme) checked" where
  "auth_dispatch P api now head msg c t =
     (case map_of auth_regMsgCallback (msg_type head) of
        None \<Rightarrow> Inr (head, c, CMsgEvent_clear t)
      | Some LoginReq \<Rightarrow> CAuthHandle_loginReq P api now head msg c t
      | Some AddUserReq \<Rightarrow> bind_ub (CAuthHandle_addUserReq P api msg c t) (\<lambda>(c, t). Inr (head, c, t)))"

definition auth_createServiceHandle :: "'a CService_scheme \<Rightarrow> 'b CMsgEvent \<times> 'a CService_scheme" where
  "auth_createServiceHandle s = (CMsgEvent_new, s)"

section \<open>CAuthClient\<close>

record 'b CAuthClient = "'b CServiceClient" +
  loginMap :: "string \<rightharpoonup> CLoginRes"

definition CAuthClient_LoginReq ::
    "'b platform \<Rightarrow> 'o bio_api \<Rightarrow> (string \<Rightarrow> string) \<Rightarrow> string \<Rightarrow> string \<Rightarrow> 'b CAuthClient \<Rightarrow> 'b CAuthClient checked" where
  "CAuthClient_LoginReq P B md5 username password c =
     (let req = CLoginReq_Clear\<lparr>CLoginReq_username := username\<rparr> in
      bind_ub (CMD5Base64 B md5 password) (\<lambda>md5Password.
      let req = req\<lparr>CLoginReq_password := md5Password\<rparr>;
          c = c\<lparr>loginMap := (loginMap c)(username := None)\<rparr> in
      Inr (snd (sendMsg_type P MSG_LOGIN_REQ (Some (CLoginReq_Serialize req)) c))))"

definition CAuthClient_LoginRes :: "pb_rt \<Rightarrow> CMsg \<Rightarrow> 'b CAuthClient \<Rightarrow> 'b CAuthClient" where
  "CAuthClient_LoginRes rt msg c =
     (case CLoginRes_ParseFromArray rt (msg_bytes msg) of None \<Rightarrow> c
      | Some res \<Rightarrow> if CLoginRes_username res = [] then c
          else c\<lparr>loginMap := (loginMap c)(CLoginRes_username res \<mapsto> res)\<rparr>)"

definition CAuthClient_addUserRes :: "CMsg \<Rightarrow> 'b CAuthClient \<Rightarrow> 'b CAuthClient" where
  "CAuthClient_addUserRes msg c = c"

definition CAuthClient_addUserReq ::
    "'b platform \<Rightarrow> 'o bio_api \<Rightarrow> (string \<Rightarrow> string) \<Rightarrow> CAddUserReq option \<Rightarrow> 'b CAuthClient \<Rightarrow> 'b CAuthClient checked" where
  "CAuthClient_addUserReq P B md5 user c =
     (case user of None \<Rightarrow> Inr c
      | Some user \<Rightarrow>
          let req = CAddUserReq_CopyFrom user CAddUserReq_Clear;
              pass = CAddUserReq_password user in
          bind_ub (CMD5Base64 B md5 pass) (\<lambda>passMd.
          let req = req\<lparr>CAddUserReq_password := passMd\<rparr> in
          Inr (snd (sendMsg_type P MSG_ADD_USER_REQ (Some (CAddUserReq_Serialize req)) c))))"

datatype auth_client_handler = LoginRes | AddUserRes

definition auth_client_regMsgCallback :: "(int32 \<times> auth_client_handler) list" where
  "auth_client_regMsgCallback = [(MSG_LOGIN_RES, LoginRes), (MSG_ADD_USER_RES, AddUserRes)]"

definition auth_client_dispatch ::
    "pb_rt \<Rightarrow> CMsgHead \<Rightarrow> CMsg \<Rightarrow> 'b CAuthClient \<Rightarrow> 'b CAuthClient" where
  "auth_client_dispatch rt head msg c =
     (case map_of auth_client_regMsgCallback (msg_type head) of
        None \<Rightarrow> CMsgEvent_clear c
      | Some LoginRes \<Rightarrow> CAuthClient_LoginRes rt msg c
      | Some AddUserRes \<Rightarrow> CAuthClient_addUserRes msg c)"

text \<open>
  \<open>getLoginInfo\<close> polls the cache every 10 ms; \<open>maps i\<close> is the cache at poll \<open>i\<close>. It gives
  whether it succeeds and the information, and at which poll it returns.
\<close>

definition CAuthClient_getLoginInfo ::
    "(nat \<Rightarrow> string \<rightharpoonup> CLoginRes) \<Rightarrow> string \<Rightarrow> CLoginRes option \<Rightarrow> int \<Rightarrow> bool \<times> CLoginRes option \<times> nat" where
  "CAuthClient_getLoginInfo maps username outInfo timeoutMs =
     (case outInfo of None \<Rightarrow> (False, None, 0)
      | Some out \<Rightarrow>
          let count = ms_polls timeoutMs;
              count = (if count \<le> 0 then 1 else count) in
          (case poll (\<lambda>i. maps i username) 0 (nat count) of
             (None, i) \<Rightarrow> (False, Some out, i)
           | (Some loginInfo, i) \<Rightarrow>
               if CLoginRes_res loginInfo \<noteq> CLoginRes_OK then (False, Some out, i)
               else (True, Some (CLoginRes_CopyFrom loginInfo out), i)))"

end
