(* ===== verification/ConfigServer_Facts.thy ===== *)
theory ConfigServer_Facts
  imports ConfigServer MsgEvent_Props
begin

text \<open>
  What the configuration centre guarantees: a store with one configuration per address and port,
  which uploads and deletions update and downloads read, through the texts of the statements
  and the protobuf encoding of the column. The locale \<open>config_sql\<close> states what the database does
  with exactly these texts; \<open>ConfigServer_Props\<close> interprets it on a database in memory.
\<close>

section \<open>The database\<close>

record config_row =
  row_ip :: string
  row_port :: int
  row_name :: string
  row_pb :: string
  row_proto :: string

definition endpoint_is :: "string \<Rightarrow> int \<Rightarrow> config_row \<Rightarrow> bool" where
  "endpoint_is ip port r \<longleftrightarrow> row_ip r = ip \<and> row_port r = port"

text \<open>The values bound to the five columns, in the order of their names.\<close>

definition row_of_binds :: "CData list \<Rightarrow> config_row option" where
  "row_of_binds binds = (case map CData_bytes binds of
     [pb, proto, ip, name, port] \<Rightarrow> Some \<lparr>row_ip = ip, row_port = sint (int32_of_mem port), row_name = name,
       row_pb = pb, row_proto = proto\<rparr>
   | _ \<Rightarrow> None)"

text \<open>An address that needs no escaping inside quotes.\<close>

definition clean_ip :: "string \<Rightarrow> bool" where
  "clean_ip ip \<longleftrightarrow> ip \<noteq> [] \<and> (\<forall>c \<in> set ip. is_digit c \<or> c = CHR ''.'')"

definition insert_text :: string where
  "insert_text = ''insert into `cms_service_config`(`private_pb`,`proto`,`service_ip`,`service_name`,`service_port` )values(?,?,?,?,? )''"

definition update_text :: string where
  "update_text = ''update `cms_service_config` set `private_pb`=?,`proto`=?,`service_ip`=?,`service_name`=?,`service_port`=?  ''"

text \<open>A row of a page: name, address and port as texts.\<close>

definition page_row :: "CData list \<Rightarrow> config_row \<Rightarrow> bool" where
  "page_row row r \<longleftrightarrow> map chars_of row = [Inr (as_c_str (row_name r)), Inr (as_c_str (row_ip r)), Inr (show_int (row_port r))]"

text \<open>
  \<open>up\<close>: the server is connected and answers. \<open>storable\<close>: the columns hold the row as it is
  (their lengths and character set). Nothing is assumed where either fails.
\<close>

locale config_sql =
  fixes api :: "'m mysql_api" and table :: "'m \<Rightarrow> config_row list" and up :: "'m \<Rightarrow> bool"
    and storable :: "config_row \<Rightarrow> bool"
  assumes select_id: "up m \<Longrightarrow> clean_ip ip \<Longrightarrow> \<exists>m' m'' rows.
      mysql_real_query api m (select_id_sql ip port) = (0, m') \<and> mysql_store_result api m' = (Some rows, m'') \<and>
      up m'' \<and> table m'' = table m \<and> [] \<notin> set rows \<and>
      length rows = length (filter (endpoint_is ip port) (table m))"
    and select_pb: "up m \<Longrightarrow> clean_ip ip \<Longrightarrow> \<exists>m' m'' rows.
      mysql_real_query api m (select_pb_sql ip port) = (0, m') \<and> mysql_store_result api m' = (Some rows, m'') \<and>
      up m'' \<and> table m'' = table m \<and>
      map (map CData_bytes) rows = map (\<lambda>r. [row_pb r]) (filter (endpoint_is ip port) (table m))"
    and select_page: "up m \<Longrightarrow> 0 \<le> off \<Longrightarrow> 0 < n \<Longrightarrow> \<exists>m' m'' rows.
      mysql_real_query api m (select_page_sql off n) = (0, m') \<and> mysql_store_result api m' = (Some rows, m'') \<and>
      up m'' \<and> table m'' = table m \<and>
      list_all2 page_row rows (take (nat n) (drop (nat off) (rev (table m))))"
    and insert_row: "up m \<Longrightarrow> row_of_binds binds = Some r \<Longrightarrow> storable r \<Longrightarrow> \<exists>n m'.
      run_statement api insert_text binds m = (Some n, m') \<and> up m' \<and> table m' = table m @ [r]"
    and update_rows: "up m \<Longrightarrow> clean_ip ip \<Longrightarrow> row_of_binds binds = Some r \<Longrightarrow> storable r \<Longrightarrow>
      length (filter (endpoint_is ip port) (table m)) < 2 ^ 31 \<Longrightarrow> \<exists>n m'.
      run_statement api (update_text @ where_text ip port) binds m = (Some n, m') \<and> 0 \<le> n \<and> up m' \<and>
      table m' = map (\<lambda>r'. if endpoint_is ip port r' then r else r') (table m)"
    and delete_rows: "up m \<Longrightarrow> clean_ip ip \<Longrightarrow> \<exists>m'.
      mysql_real_query api m (delete_sql ip port) = (0, m') \<and> up m' \<and>
      table m' = filter (\<lambda>r. \<not> endpoint_is ip port r) (table m)"

section \<open>The statements of the code\<close>

lemma config_data_eq:
  "config_data conf =
    [(''private_pb'', \<lparr>d_data = Some (string_c_str (CConfig_Serialize conf)),
        d_size = int (length (CConfig_Serialize conf)), d_type = CMYSQL_TYPE_STRING\<rparr>),
     (''proto'', \<lparr>d_data = Some (string_c_str (CConfig_proto conf)), d_size = int (length (CConfig_proto conf)),
        d_type = CMYSQL_TYPE_STRING\<rparr>),
     (''service_ip'', CData_chars (Some (string_c_str (CConfig_serviceIp conf)))),
     (''service_name'', CData_chars (Some (string_c_str (CConfig_serviceName conf)))),
     (''service_port'', CData_int (CConfig_servicePort conf))]"
  by (simp add: config_data_def Let_def CData_chars_def less_char_def)

lemma insert_text_eq: "insertBin_sql (config_data conf) CONFIG_TABLE = insert_text"
  by (simp add: config_data_eq insertBin_sql_def insert_text_def CONFIG_TABLE_def blank_last_def)

lemma update_text_eq:
  "updateBin_sql (config_data conf) CONFIG_TABLE wh = update_text @ wh"
  by (simp add: config_data_eq updateBin_sql_def update_text_def CONFIG_TABLE_def blank_last_def)

text \<open>The row a configuration is stored as.\<close>

definition row_of :: "CConfig \<Rightarrow> config_row" where
  "row_of conf = \<lparr>row_ip = CConfig_serviceIp conf, row_port = sint (CConfig_servicePort conf),
     row_name = as_c_str (CConfig_serviceName conf), row_pb = CConfig_Serialize conf,
     row_proto = CConfig_proto conf\<rparr>"

lemma CData_bytes_chars: "CData_bytes (CData_chars (Some (string_c_str s))) = as_c_str s"
proof -
  have "takeWhile (\<lambda>c. c \<noteq> NUL) (s @ [NUL]) = takeWhile (\<lambda>c. c \<noteq> NUL) s"
    by (induction s) auto
  then show ?thesis
    using takeWhile_eq_take [of "\<lambda>c. c \<noteq> NUL" "s @ [NUL]"]
    by (simp add: CData_bytes_def CData_chars_def strlen_def as_c_str_def string_c_str_def)
qed

lemma row_of_config_data:
  assumes "NUL \<notin> set (CConfig_serviceIp conf)"
  shows "row_of_binds (map snd (config_data conf)) = Some (row_of conf)"
proof -
  have ip: "as_c_str (CConfig_serviceIp conf) = CConfig_serviceIp conf"
    using assms by (simp add: as_c_str_def takeWhile_neq_all)
  have "CData_bytes (CData_int (CConfig_servicePort conf)) = mem_of_int32 (CConfig_servicePort conf)"
    by (simp add: CData_bytes_def CData_int_def)
  then show ?thesis
    by (simp add: config_data_eq row_of_binds_def row_of_def CData_bytes_chars ip)
       (simp add: CData_bytes_def string_c_str_def)
qed

lemma clean_ip_chars:
  assumes "clean_ip ip"
  shows "NUL \<notin> set ip" "CHR 0x27 \<notin> set ip" "ip \<noteq> []"
  using assms by (auto simp: clean_ip_def NUL_def is_digit_def)

lemma digits_no_NUL: "NUL \<notin> set (show_int i)"
proof -
  have "\<not> is_digit NUL" "NUL \<noteq> CHR ''-''" by (simp_all add: NUL_def is_digit_def)
  then show ?thesis using show_nat_digits by (auto simp: show_int_def)
qed

lemma texts_no_NUL:
  assumes "clean_ip ip"
  shows "NUL \<notin> set (where_text ip port)" "NUL \<notin> set (select_id_sql ip port)"
    "NUL \<notin> set (select_pb_sql ip port)" "NUL \<notin> set (delete_sql ip port)"
  using clean_ip_chars [OF assms] digits_no_NUL [of port]
  by (simp_all add: where_text_def select_id_sql_def select_pb_sql_def delete_sql_def CONFIG_TABLE_def) (simp_all add: NUL_def)

lemma page_text_no_NUL: "NUL \<notin> set (select_page_sql off n)"
  using digits_no_NUL [of off] digits_no_NUL [of n] by (simp add: select_page_sql_def CONFIG_TABLE_def) (simp add: NUL_def)

section \<open>The store\<close>

text \<open>The table as what it stands for: the row of an address and a port.\<close>

definition endpoint_of :: "config_row \<Rightarrow> string \<times> int" where
  "endpoint_of r = (row_ip r, row_port r)"

definition stored :: "config_row list \<Rightarrow> string \<times> int \<Rightarrow> config_row option" where
  "stored t = map_of (map (\<lambda>r. (endpoint_of r, r)) t)"

definition one_per_endpoint :: "config_row list \<Rightarrow> bool" where
  "one_per_endpoint t \<longleftrightarrow> distinct (map endpoint_of t)"

lemma endpoint_is_of: "endpoint_is ip port r \<longleftrightarrow> endpoint_of r = (ip, port)"
  by (simp add: endpoint_is_def endpoint_of_def)

lemma filter_stored:
  "one_per_endpoint t \<Longrightarrow>
   filter (endpoint_is ip port) t = (case stored t (ip, port) of None \<Rightarrow> [] | Some r \<Rightarrow> [r])"
proof (induction t)
  case (Cons r t)
  show ?case
  proof (cases "endpoint_of r = (ip, port)")
    case True
    then have "(ip, port) \<notin> endpoint_of ` set t" using Cons.prems by (simp add: one_per_endpoint_def)
    then have "filter (endpoint_is ip port) t = []"
      by (force simp: filter_empty_conv endpoint_is_of)
    moreover have "endpoint_is ip port r" using True by (simp add: endpoint_is_of)
    ultimately show ?thesis using True by (simp add: stored_def)
  next
    case False
    then have "\<not> endpoint_is ip port r" by (simp add: endpoint_is_of)
    with False Cons show ?thesis by (simp add: stored_def one_per_endpoint_def)
  qed
qed (simp add: stored_def)

lemma stored_append:
  "stored (t @ [r]) e = (case stored t e of Some x \<Rightarrow> Some x | None \<Rightarrow> if endpoint_of r = e then Some r else None)"
  by (auto simp: stored_def map_add_def split: option.split)

lemma one_per_endpoint_append:
  "one_per_endpoint t \<Longrightarrow> stored t (endpoint_of r) = None \<Longrightarrow> one_per_endpoint (t @ [r])"
  by (force simp: one_per_endpoint_def stored_def map_of_eq_None_iff)

lemma replace_rows:
  assumes "endpoint_of r = (ip, port)"
  defines "f \<equiv> \<lambda>r'. if endpoint_is ip port r' then r else r'"
  shows "map endpoint_of (map f t) = map endpoint_of t"
    "stored t (ip, port) \<noteq> None \<Longrightarrow> stored (map f t) = (stored t)((ip, port) \<mapsto> r)"
proof -
  have e: "endpoint_of (f r') = endpoint_of r'" for r'
    using assms(1) by (simp add: f_def endpoint_is_of)
  then show "map endpoint_of (map f t) = map endpoint_of t" by simp
  have "stored (map f t) e' = map_option f (stored t e')" for e'
    by (induction t) (simp_all add: stored_def e)
  moreover have "stored t e' = Some x \<Longrightarrow> endpoint_of x = e'" for e' x
    by (auto simp: stored_def dest: map_of_SomeD)
  ultimately show "stored (map f t) = (stored t)((ip, port) \<mapsto> r)" if "stored t (ip, port) \<noteq> None"
  proof (intro ext)
    fix e'
    show "stored (map f t) e' = ((stored t)((ip, port) \<mapsto> r)) e'"
      if "\<And>e'. stored (map f t) e' = map_option f (stored t e')"
        "\<And>e' x. stored t e' = Some x \<Longrightarrow> endpoint_of x = e'"
      using that(1) [of e'] that(2) [of e'] \<open>stored t (ip, port) \<noteq> None\<close>
      by (cases "stored t e'") (auto simp: f_def endpoint_is_of)
  qed
qed

lemma remove_rows:
  "one_per_endpoint t \<Longrightarrow> one_per_endpoint (filter (\<lambda>r. \<not> endpoint_is ip port r) t)"
  "stored (filter (\<lambda>r. \<not> endpoint_is ip port r) t) = (stored t)((ip, port) := None)"
proof -
  show "one_per_endpoint t \<Longrightarrow> one_per_endpoint (filter (\<lambda>r. \<not> endpoint_is ip port r) t)"
    by (simp add: one_per_endpoint_def distinct_map_filter)
  show "stored (filter (\<lambda>r. \<not> endpoint_is ip port r) t) = (stored t)((ip, port) := None)"
    by (induction t) (auto simp: stored_def endpoint_is_of fun_eq_iff)
qed

text \<open>A DAO that can be used: initialised, with a server that answers.\<close>

definition ready :: "('m \<Rightarrow> bool) \<Rightarrow> 'm CMysql \<Rightarrow> bool" where
  "ready up c \<longleftrightarrow> my_mysql c \<and> up (my_db c)"

lemma texts_not_Nil: "select_id_sql ip port \<noteq> []" "select_pb_sql ip port \<noteq> []" "delete_sql ip port \<noteq> []"
    "select_page_sql off n \<noteq> []"
  by (simp_all add: select_id_sql_def select_pb_sql_def delete_sql_def select_page_sql_def)

lemma sint_port_word: "0 < port \<Longrightarrow> port < 65536 \<Longrightarrow> sint (word_of_int port :: int32) = port"
  by (simp add: signed_of_int signed_take_bit_int_eq_self)

context config_sql begin

lemma uploadConfig_stores:
  assumes "ready up c" "one_per_endpoint (table (my_db c))" "clean_ip (CConfig_serviceIp conf)"
    and "storable (row_of conf)"
  obtains c' where "ConfigDAO_uploadConfig api (Some conf) (Some c) = Inr (True, Some c')" "ready up c'"
    "one_per_endpoint (table (my_db c'))"
    "stored (table (my_db c')) = (stored (table (my_db c)))(endpoint_of (row_of conf) \<mapsto> row_of conf)"
proof -
  let ?ip = "CConfig_serviceIp conf" and ?port = "sint (CConfig_servicePort conf)"
  let ?t = "table (my_db c)" and ?r = "row_of conf"
  have e: "endpoint_of ?r = (?ip, ?port)" by (simp add: row_of_def endpoint_of_def)
  have up: "my_mysql c" "up (my_db c)" using assms(1) by (simp_all add: ready_def)
  note ip = clean_ip_chars [OF assms(3)] and binds = row_of_config_data [OF clean_ip_chars(1) [OF assms(3)]]
  obtain m' m'' rows where q: "mysql_real_query api (my_db c) (select_id_sql ?ip ?port) = (0, m')"
    "mysql_store_result api m' = (Some rows, m'')" "up m''" "table m'' = ?t" "[] \<notin> set rows"
    "length rows = length (filter (endpoint_is ?ip ?port) ?t)"
    using select_id [OF up(2) assms(3)] by blast
  define c1 where "c1 = c\<lparr>my_db := m'', my_result := Some []\<rparr>"
  have c1: "CMysql_getResult api (string_c_str (select_id_sql ?ip ?port)) c = (rows, c1)" "my_mysql c1"
    "my_db c1 = m''"
    unfolding c1_def using up(1) texts_no_NUL(2) [OF assms(3)] texts_not_Nil(1) q(1,2,5)
    by (auto intro: CMysql_getResult_rows)
  have b: "bindings (config_data conf) = Inr (map snd (config_data conf))"
    by (simp add: bindings_def config_data_eq)
  have ne: "config_data conf \<noteq> []" "CONFIG_TABLE \<noteq> []" by (simp_all add: config_data_eq CONFIG_TABLE_def)
  note f = filter_stored [OF assms(2), of ?ip ?port]
  show thesis
  proof (cases "stored ?t (?ip, ?port)")
    case None
    then have "rows = []" using q(6) f by simp
    obtain n m3 where i: "run_statement api insert_text (map snd (config_data conf)) m'' = (Some n, m3)"
      "up m3" "table m3 = ?t @ [?r]"
      using insert_row [OF q(3) binds assms(4)] q(4) by auto
    have "CMysql_insertBin api (config_data conf) CONFIG_TABLE c1 = Inr (True, c1\<lparr>my_db := m3\<rparr>)"
      using ne c1 i(1) b by (simp add: CMysql_insertBin_def insert_text_eq)
    then have "ConfigDAO_uploadConfig api (Some conf) (Some c) = Inr (True, Some (c1\<lparr>my_db := m3\<rparr>))"
      using ip(3) c1(1) \<open>rows = []\<close> by (simp add: ConfigDAO_uploadConfig_def)
    then show thesis
    proof (rule that)
      show "ready up (c1\<lparr>my_db := m3\<rparr>)" using c1(2) i(2) by (simp add: ready_def)
      show "one_per_endpoint (table (my_db (c1\<lparr>my_db := m3\<rparr>)))"
        using None e i(3) assms(2) by (simp add: one_per_endpoint_append)
      show "stored (table (my_db (c1\<lparr>my_db := m3\<rparr>))) = (stored ?t)(endpoint_of ?r \<mapsto> ?r)"
        using None e i(3) by (auto simp: fun_eq_iff stored_append split: option.split)
    qed
  next
    case (Some old)
    then have l: "rows \<noteq> []" "length (filter (endpoint_is ?ip ?port) (table m'')) < 2 ^ 31"
      using q(4,6) f by auto
    obtain n m3 where i: "run_statement api (update_text @ where_text ?ip ?port) (map snd (config_data conf)) m'' =
        (Some n, m3)" "0 \<le> n" "up m3" "table m3 = map (\<lambda>r'. if endpoint_is ?ip ?port r' then ?r else r') ?t"
      using update_rows [OF q(3) assms(3) binds assms(4) l(2)] q(4) by auto
    have "CMysql_updateBin api (config_data conf) CONFIG_TABLE (where_text ?ip ?port) c1 = Inr (n, c1\<lparr>my_db := m3\<rparr>)"
      using ne c1 i(1) b by (simp add: CMysql_updateBin_def update_text_eq)
    then have "ConfigDAO_uploadConfig api (Some conf) (Some c) = Inr (True, Some (c1\<lparr>my_db := m3\<rparr>))"
      using ip(3) c1(1) l(1) i(2) by (simp add: ConfigDAO_uploadConfig_def Let_def)
    then show thesis
    proof (rule that)
      show "ready up (c1\<lparr>my_db := m3\<rparr>)" using c1(2) i(3) by (simp add: ready_def)
      show "one_per_endpoint (table (my_db (c1\<lparr>my_db := m3\<rparr>)))"
        using replace_rows(1) [OF e] i(4) assms(2) by (simp add: one_per_endpoint_def del: map_map)
      show "stored (table (my_db (c1\<lparr>my_db := m3\<rparr>))) = (stored ?t)(endpoint_of ?r \<mapsto> ?r)"
        using replace_rows(2) [OF e, of ?t] Some e i(4) by simp
    qed
  qed
qed

lemma downloadConfig_reads:
  assumes "ready up c" "one_per_endpoint (table (my_db c))" "clean_ip ip" "0 < port" "port < 65536"
  obtains c' where "ConfigDAO_downloadConfig api rt half (Some ip) port (Some c) = Inr
      (case stored (table (my_db c)) (ip, port) of
         None \<Rightarrow> CConfig_Clear\<lparr>CConfig_serviceIp := ip, CConfig_servicePort := word_of_int port\<rparr>
       | Some r \<Rightarrow> (case CConfig_ParseFromArray rt (row_pb r) of None \<Rightarrow> half (row_pb r) | Some conf \<Rightarrow> conf),
       Some c')" "ready up c'" "table (my_db c') = table (my_db c)"
proof -
  let ?t = "table (my_db c)"
  have up: "my_mysql c" "up (my_db c)" using assms(1) by (simp_all add: ready_def)
  obtain m' m'' rows where q: "mysql_real_query api (my_db c) (select_pb_sql ip port) = (0, m')"
    "mysql_store_result api m' = (Some rows, m'')" "up m''" "table m'' = ?t"
    "map (map CData_bytes) rows = map (\<lambda>r. [row_pb r]) (filter (endpoint_is ip port) ?t)"
    using select_pb [OF up(2) assms(3)] by blast
  have "[] \<notin> set rows"
  proof
    assume "[] \<in> set rows"
    then have "[] \<in> set (map (map CData_bytes) rows)" by force
    then show False unfolding q(5) by auto
  qed
  then have g: "CMysql_getResult api (string_c_str (select_pb_sql ip port)) c =
      (rows, c\<lparr>my_db := m'', my_result := Some []\<rparr>)"
    using up(1) texts_no_NUL(3) [OF assms(3)] texts_not_Nil(2) q(1,2) by (auto intro: CMysql_getResult_rows)
  let ?c = "c\<lparr>my_db := m'', my_result := Some []\<rparr>"
  have "ConfigDAO_downloadConfig api rt half (Some ip) port (Some c) = Inr
      (case stored ?t (ip, port) of
         None \<Rightarrow> CConfig_Clear\<lparr>CConfig_serviceIp := ip, CConfig_servicePort := word_of_int port\<rparr>
       | Some r \<Rightarrow> (case CConfig_ParseFromArray rt (row_pb r) of None \<Rightarrow> half (row_pb r) | Some conf \<Rightarrow> conf),
       Some ?c)"
  proof (cases "stored ?t (ip, port)")
    case None
    then have "rows = []" using q(5) filter_stored [OF assms(2), of ip port] by simp
    with None g clean_ip_chars(3) [OF assms(3)] assms(4,5) show ?thesis
      by (simp add: ConfigDAO_downloadConfig_def)
  next
    case (Some r)
    then obtain d where "rows = [[d]]" "CData_bytes d = row_pb r"
      using q(5) filter_stored [OF assms(2), of ip port] by auto
    with Some g clean_ip_chars(3) [OF assms(3)] assms(4,5) show ?thesis
      by (auto simp: ConfigDAO_downloadConfig_def vec_at_def split: option.split)
  qed
  then show thesis by (rule that) (use up q(3,4) in \<open>simp_all add: ready_def\<close>)
qed

lemma deleteConfig_removes:
  assumes "ready up c" "one_per_endpoint (table (my_db c))" "clean_ip ip" "0 < port" "port < 65536"
  obtains c' where "ConfigDAO_deleteConfig api (Some ip) port (Some c) = (True, Some c')" "ready up c'"
    "one_per_endpoint (table (my_db c'))"
    "stored (table (my_db c')) = (stored (table (my_db c)))((ip, port) := None)"
proof -
  have up: "my_mysql c" "up (my_db c)" using assms(1) by (simp_all add: ready_def)
  obtain m' where q: "mysql_real_query api (my_db c) (delete_sql ip port) = (0, m')" "up m'"
    "table m' = filter (\<lambda>r. \<not> endpoint_is ip port r) (table (my_db c))"
    using delete_rows [OF up(2) assms(3)] by blast
  have "ConfigDAO_deleteConfig api (Some ip) port (Some c) = (True, Some (c\<lparr>my_db := m'\<rparr>))"
    using CMysql_query_c_str [OF texts_no_NUL(4) [OF assms(3), of port] texts_not_Nil(3) up(1), of api] q(1)
      clean_ip_chars(3) [OF assms(3)] assms(4,5)
    by (simp add: ConfigDAO_deleteConfig_def)
  then show thesis by (rule that) (use up q(2,3) remove_rows assms(2) in \<open>simp_all add: ready_def\<close>)
qed

end

text \<open>What a page lists of a row.\<close>

definition listed :: "config_row \<Rightarrow> CConfig" where
  "listed r = CConfig_Clear\<lparr>CConfig_serviceName := as_c_str (row_name r), CConfig_serviceIp := as_c_str (row_ip r),
     CConfig_servicePort := word_of_int (row_port r)\<rparr>"

lemma configs_of_page:
  "list_all2 page_row rows rs \<Longrightarrow> configs_of_rows rows = Inr (map listed rs)"
proof (induction rule: list_all2_induct)
  case (Cons row rows r rs)
  obtain a b d where "row = [a, b, d]" "chars_of a = Inr (as_c_str (row_name r))" "chars_of b = Inr (as_c_str (row_ip r))"
    "chars_of d = Inr (show_int (row_port r))"
    using Cons.hyps by (auto simp: page_row_def)
  with Cons.IH show ?case by (simp add: vec_at_def listed_def)
qed simp

context config_sql begin

lemma downloadAllConfig_page:
  assumes "ready up c" "0 < page" "0 < n" "int_fits ((page - 1) * n)"
  obtains c' where "ConfigDAO_downloadAllConfig api page n (Some c) = Inr (CConfigList_Clear\<lparr>CConfigList_config :=
      map listed (take (nat n) (drop (nat ((page - 1) * n)) (rev (table (my_db c)))))\<rparr>, Some c')"
    "ready up c'" "table (my_db c') = table (my_db c)"
proof -
  let ?off = "(page - 1) * n"
  have up: "my_mysql c" "up (my_db c)" using assms(1) by (simp_all add: ready_def)
  have off: "0 \<le> ?off" using assms(2,3) by simp
  obtain m' m'' rows where q: "mysql_real_query api (my_db c) (select_page_sql ?off n) = (0, m')"
    "mysql_store_result api m' = (Some rows, m'')" "up m''" "table m'' = table (my_db c)"
    "list_all2 page_row rows (take (nat n) (drop (nat ?off) (rev (table (my_db c)))))"
    using select_page [OF up(2) off assms(3)] by blast
  have "page_row [] r \<Longrightarrow> False" for r by (simp add: page_row_def)
  then have "[] \<notin> set rows" using q(5) by (metis in_set_conv_nth list_all2_nthD)
  then have g: "CMysql_getResult api (string_c_str (select_page_sql ?off n)) c =
      (rows, c\<lparr>my_db := m'', my_result := Some []\<rparr>)"
    using up(1) page_text_no_NUL texts_not_Nil(4) q(1,2) by (auto intro: CMysql_getResult_rows)
  then have "ConfigDAO_downloadAllConfig api page n (Some c) = Inr (CConfigList_Clear\<lparr>CConfigList_config :=
      map listed (take (nat n) (drop (nat ?off) (rev (table (my_db c)))))\<rparr>,
      Some (c\<lparr>my_db := m'', my_result := Some []\<rparr>))"
    using assms(2-4) configs_of_page [OF q(5)] by (simp add: ConfigDAO_downloadAllConfig_def chk_int_def)
  then show thesis by (rule that) (use up q(3,4) in \<open>simp_all add: ready_def\<close>)
qed

end

lemma pages_all:
  "0 < n \<Longrightarrow> length xs \<le> k * n \<Longrightarrow> concat (map (\<lambda>i. take n (drop (i * n) xs)) [0..<k]) = xs"
proof (induction k arbitrary: xs)
  case (Suc k)
  have "concat (map (\<lambda>i. take n (drop (i * n) (drop n xs))) [0..<k]) = drop n xs"
    using Suc.prems by (intro Suc.IH) simp_all
  moreover have "[0..<Suc k] = 0 # map Suc [0..<k]" by (simp add: upt_conv_Cons map_Suc_upt del: upt_Suc)
  ultimately show ?case by (simp add: comp_def add.commute del: upt_Suc)
qed simp

end
