(* ===== verification/Auth_Facts.thy ===== *)
theory Auth_Facts
  imports Auth ConfigServer_Facts
begin

text \<open>
  The login service against a database: the locale \<open>auth_sql\<close> states what the database does with the
  statements of \<open>CAuthDAO\<close>; from it follows what \<open>login\<close> and \<open>addUser\<close> do to the tables.
\<close>

section \<open>The database\<close>

record user_row =
  u_name :: string
  u_pass :: string
  u_role :: string

record token_row =
  t_id :: int
  t_name :: string
  t_role :: string
  t_token :: string
  t_expires :: int

text \<open>A text that needs no escaping inside quotes.\<close>

definition plain :: "string \<Rightarrow> bool" where
  "plain s \<longleftrightarrow> NUL \<notin> set s \<and> CHR 0x27 \<notin> set s \<and> CHR 0x5C \<notin> set s"

definition add_user_text :: "string \<Rightarrow> string \<Rightarrow> string \<Rightarrow> string" where
  "add_user_text name pass role =
     ''insert into `cms_auth`(`cms_password`,`cms_rolename`,`cms_username` )values('' @ [CHR 0x27] @ pass @
     [CHR 0x27] @ '','' @ [CHR 0x27] @ role @ [CHR 0x27] @ '','' @ [CHR 0x27] @ name @ [CHR 0x27] @ '' )''"

definition add_token_text :: "string \<Rightarrow> string \<Rightarrow> int \<Rightarrow> string" where
  "add_token_text name role expires =
     ''insert into `cms_token`(`token`,`cms_rolename`,`cms_username`,`expired_time` )values(UUID(),'' @ [CHR 0x27] @ role @
     [CHR 0x27] @ '','' @ [CHR 0x27] @ name @ [CHR 0x27] @ '','' @ [CHR 0x27] @ show_int expires @ [CHR 0x27] @ '' )''"

definition user_cells :: "CData list \<Rightarrow> user_row \<Rightarrow> bool" where
  "user_cells row r \<longleftrightarrow> map chars_of row = [Inr (u_name r), Inr (u_role r)]"

definition account :: "(string \<Rightarrow> string \<Rightarrow> bool) \<Rightarrow> string \<Rightarrow> string \<Rightarrow> user_row \<Rightarrow> bool" where
  "account same name pass r \<longleftrightarrow> same (u_name r) name \<and> same (u_pass r) pass"

text \<open>What \<open>UUID()\<close> gives: 36 hexadecimal digits and dashes.\<close>

definition uuid :: "string \<Rightarrow> bool" where
  "uuid s \<longleftrightarrow> length s = 36 \<and> set s \<subseteq> set ''0123456789abcdef-''"

lemma uuid_chars: "uuid s \<Longrightarrow> c \<in> set s \<Longrightarrow> c \<noteq> NUL \<and> (of_char c :: nat) < 128"
proof -
  have "\<forall>c \<in> set ''0123456789abcdef-''. c \<noteq> NUL \<and> (of_char c :: nat) < 128" by (simp add: NUL_def)
  then show "uuid s \<Longrightarrow> c \<in> set s \<Longrightarrow> c \<noteq> NUL \<and> (of_char c :: nat) < 128"
    unfolding uuid_def by blast
qed

text \<open>The \<open>INT\<close> ids have not run out.\<close>

definition ids_left :: "token_row list \<Rightarrow> bool" where
  "ids_left t \<longleftrightarrow> (\<forall>r \<in> set t. t_id r < 2 ^ 31 - 1)"

text \<open>
  \<open>same\<close> is the comparison of the column's collation, which need not be equality; \<open>up\<close> is a server
  that is connected and answers. A user name is a unique key.
\<close>

locale auth_sql =
  fixes api :: "'m mysql_api" and users :: "'m \<Rightarrow> user_row list" and tokens :: "'m \<Rightarrow> token_row list"
    and up :: "'m \<Rightarrow> bool" and same :: "string \<Rightarrow> string \<Rightarrow> bool"
  assumes same_refl: "same s s"
    and select_user: "up m \<Longrightarrow> plain name \<Longrightarrow> plain pass \<Longrightarrow> \<exists>m' m'' rows.
      mysql_real_query api m (login_sql name pass) = (0, m') \<and> mysql_store_result api m' = (Some rows, m'') \<and>
      up m'' \<and> users m'' = users m \<and> tokens m'' = tokens m \<and>
      list_all2 user_cells rows (filter (account same name pass) (users m))"
    and add_user: "up m \<Longrightarrow> plain name \<Longrightarrow> plain pass \<Longrightarrow> plain role \<Longrightarrow> \<forall>r \<in> set (users m). \<not> same (u_name r) name \<Longrightarrow>
      \<exists>m'. mysql_real_query api m (add_user_text name pass role) = (0, m') \<and> mysql_affected_rows api m' = 1 \<and>
      up m' \<and> tokens m' = tokens m \<and> users m' = users m @ [\<lparr>u_name = name, u_pass = pass, u_role = role\<rparr>]"
    and add_user_again: "up m \<Longrightarrow> plain name \<Longrightarrow> plain pass \<Longrightarrow> plain role \<Longrightarrow> \<exists>r \<in> set (users m). same (u_name r) name \<Longrightarrow>
      \<exists>res m'. mysql_real_query api m (add_user_text name pass role) = (res, m') \<and> res \<noteq> 0 \<and>
      up m' \<and> tokens m' = tokens m \<and> users m' = users m"
    and add_token: "up m \<Longrightarrow> ids_left (tokens m) \<Longrightarrow> plain name \<Longrightarrow> plain role \<Longrightarrow> \<exists>m' k token.
      mysql_real_query api m (add_token_text name role expires) = (0, m') \<and> mysql_affected_rows api m' = 1 \<and>
      mysql_insert_id api m' = word_of_int k \<and> 0 < k \<and> k < 2 ^ 31 \<and> k \<notin> t_id ` set (tokens m) \<and> up m' \<and>
      users m' = users m \<and> uuid token \<and>
      tokens m' = tokens m @ [\<lparr>t_id = k, t_name = name, t_role = role, t_token = token, t_expires = expires\<rparr>]"
    and select_token: "up m \<Longrightarrow> \<exists>m' m'' rows.
      mysql_real_query api m (token_sql k) = (0, m') \<and> mysql_store_result api m' = (Some rows, m'') \<and>
      up m'' \<and> users m'' = users m \<and> tokens m'' = tokens m \<and>
      map (map chars_of) rows = map (\<lambda>r. [Inr (t_token r)]) (filter (\<lambda>r. t_id r = k) (tokens m))"
    and expire_tokens: "up m \<Longrightarrow> \<exists>m'. mysql_real_query api m (expire_sql now) = (0, m') \<and> up m' \<and>
      users m' = users m \<and> tokens m' = filter (\<lambda>r. \<not> t_expires r < now) (tokens m)"

section \<open>The statements of the code\<close>

lemma chars_of_literal: "NUL \<notin> set s \<Longrightarrow> chars_of (CData_chars (Some (string_c_str s))) = Inr s"
  by (rule chars_of_c_str) (simp_all add: CData_chars_def)

lemma user_data_eq:
  "user_data u = [(''cms_password'', CData_chars (Some (string_c_str (CAddUserReq_password u)))),
     (''cms_rolename'', CData_chars (Some (string_c_str (CAddUserReq_rolename u)))),
     (''cms_username'', CData_chars (Some (string_c_str (CAddUserReq_username u))))]"
  by (simp add: user_data_def Let_def less_char_def)

lemma token_data_eq:
  "token_data name role expires = [(''@token'', CData_chars (Some (string_c_str ''UUID()''))),
     (''cms_rolename'', CData_chars (Some (string_c_str role))),
     (''cms_username'', CData_chars (Some (string_c_str name))),
     (''expired_time'', CData_chars (Some (string_c_str (show_int expires))))]"
  by (simp add: token_data_def Let_def less_char_def)

lemma user_text:
  assumes "plain (CAddUserReq_username u)" "plain (CAddUserReq_password u)" "plain (CAddUserReq_rolename u)"
  shows "CMysql_getInsertSql (user_data u) ''cms_auth'' =
    Inr (add_user_text (CAddUserReq_username u) (CAddUserReq_password u) (CAddUserReq_rolename u))"
  using assms by (simp add: plain_def user_data_eq CMysql_getInsertSql_def chars_of_literal at_key_def blank_last_def
      add_user_text_def butlast_append)

lemma token_text:
  assumes "NUL \<notin> set name" "NUL \<notin> set role"
  shows "CMysql_getInsertSql (token_data name role expires) ''cms_token'' = Inr (add_token_text name role expires)"
proof -
  have "NUL \<notin> set ''UUID()''" by (simp add: NUL_def)
  with assms digits_no_NUL [of expires] show ?thesis
    by (simp add: token_data_eq CMysql_getInsertSql_def chars_of_literal at_key_def blank_last_def
        add_token_text_def butlast_append)
qed

lemma plain_texts:
  "plain name \<Longrightarrow> plain pass \<Longrightarrow> NUL \<notin> set (login_sql name pass)"
  "plain name \<Longrightarrow> plain pass \<Longrightarrow> plain role \<Longrightarrow> NUL \<notin> set (add_user_text name pass role)"
  "plain name \<Longrightarrow> plain role \<Longrightarrow> NUL \<notin> set (add_token_text name role expires)"
  "NUL \<notin> set (token_sql k)" "NUL \<notin> set (expire_sql now)"
  using digits_no_NUL [of expires] digits_no_NUL [of k] digits_no_NUL [of now]
  unfolding plain_def login_sql_def add_user_text_def add_token_text_def token_sql_def expire_sql_def
  by (simp_all, simp_all add: NUL_def)

lemma auth_texts_not_Nil:
  "login_sql name pass \<noteq> []" "add_user_text name pass role \<noteq> []" "add_token_text name role expires \<noteq> []"
  "token_sql k \<noteq> []" "expire_sql now \<noteq> []"
  by (simp_all add: login_sql_def add_user_text_def add_token_text_def token_sql_def expire_sql_def)

lemma int_of_ulonglong_int: "0 \<le> k \<Longrightarrow> k < 2 ^ 31 \<Longrightarrow> int_of_ulonglong (word_of_int k) = k"
proof -
  have "(ucast (word_of_int k :: uint64) :: int32) = word_of_int k"
    by (rule bit_word_eqI) (auto simp: bit_simps)
  then show "0 \<le> k \<Longrightarrow> k < 2 ^ 31 \<Longrightarrow> int_of_ulonglong (word_of_int k) = k"
    by (simp add: int_of_ulonglong_def signed_of_int signed_take_bit_int_eq_self)
qed

lemma CMysql_insert_runs:
  assumes "my_mysql c" "CMysql_getInsertSql kv tb = Inr sql" "NUL \<notin> set sql" "sql \<noteq> []"
    and "mysql_real_query api (my_db c) sql = (res, m)"
  shows "CMysql_insert api kv tb c =
    Inr (res = 0 \<and> 0 < int_of_ulonglong (mysql_affected_rows api m), c\<lparr>my_db := m\<rparr>)"
  using assms by (simp add: CMysql_insert_def CMysql_query_c_str)

lemma user_cells_at:
  assumes "list_all2 user_cells rows (r # rs)"
  shows "rows \<noteq> []" "[] \<notin> set rows"
    "bind_ub (row_at rows 0 1) (\<lambda>cell. bind_ub (if d_data cell = None then Inr [] else chars_of cell) f) = f (u_role r)"
proof -
  obtain row rest where rows: "rows = row # rest" "user_cells row r" using assms by (auto simp: list_all2_Cons2)
  then obtain a b where row: "row = [a, b]" "chars_of b = Inr (u_role r)" by (auto simp: user_cells_def)
  have "d_data b \<noteq> None" using row(2) by (auto simp: chars_of_def split: option.splits)
  then show "bind_ub (row_at rows 0 1) (\<lambda>cell. bind_ub (if d_data cell = None then Inr [] else chars_of cell) f) = f (u_role r)"
    by (auto simp: rows(1) row row_at_def vec_at_def)
  show "rows \<noteq> []" by (simp add: rows(1))
  have "user_cells [] x \<Longrightarrow> False" for x by (simp add: user_cells_def)
  then show "[] \<notin> set rows" using assms by (metis in_set_conv_nth list_all2_nthD)
qed

context auth_sql begin

lemma users_selected:
  assumes "ready up c" "plain name" "plain pass"
  obtains rows c' where "CMysql_getResult api (string_c_str (login_sql name pass)) c = (rows, c')" "ready up c'"
    "users (my_db c') = users (my_db c)" "tokens (my_db c') = tokens (my_db c)"
    "list_all2 user_cells rows (filter (account same name pass) (users (my_db c)))"
proof -
  have up: "my_mysql c" "up (my_db c)" using assms(1) by (simp_all add: ready_def)
  obtain m' m'' rows where q: "mysql_real_query api (my_db c) (login_sql name pass) = (0, m')"
    "mysql_store_result api m' = (Some rows, m'')" "up m''" "users m'' = users (my_db c)" "tokens m'' = tokens (my_db c)"
    "list_all2 user_cells rows (filter (account same name pass) (users (my_db c)))"
    using select_user [OF up(2) assms(2,3)] by blast
  have "[] \<notin> set rows"
    using q(6) user_cells_at(2) [of rows] by (cases "filter (account same name pass) (users (my_db c))") auto
  then have "CMysql_getResult api (string_c_str (login_sql name pass)) c =
      (rows, c\<lparr>my_db := m'', my_result := Some []\<rparr>)"
    using up(1) plain_texts(1) [OF assms(2,3)] auth_texts_not_Nil(1) q(1,2) by (auto intro: CMysql_getResult_rows)
  then show thesis by (rule that) (use up q in \<open>simp_all add: ready_def\<close>)
qed

lemma login_refused:
  assumes "ready up c" "plain (CLoginReq_username req)" "CHR '';'' \<notin> set (CLoginReq_username req)"
    and "plain (CLoginReq_password req)"
    and "filter (account same (CLoginReq_username req) (CLoginReq_password req)) (users (my_db c)) = []"
  obtains c' where "CAuthDAO_login api now req res timeoutSec c = Inr (False,
      res\<lparr>CLoginRes_res := CLoginRes_ERROR, CLoginRes_token := ''username or password error!''\<rparr>, c')"
    "ready up c'" "users (my_db c') = users (my_db c)" "tokens (my_db c') = tokens (my_db c)"
proof -
  obtain rows c1 where 1: "CMysql_getResult api (string_c_str (login_sql (CLoginReq_username req) (CLoginReq_password req))) c =
      (rows, c1)" "ready up c1" "users (my_db c1) = users (my_db c)" "tokens (my_db c1) = tokens (my_db c)"
    "list_all2 user_cells rows (filter (account same (CLoginReq_username req) (CLoginReq_password req)) (users (my_db c)))"
    by (rule users_selected [OF assms(1,2,4)])
  have "rows = []" using 1(5) assms(5) by simp
  then have "CAuthDAO_login api now req res timeoutSec c = Inr (False,
      res\<lparr>CLoginRes_res := CLoginRes_ERROR, CLoginRes_token := ''username or password error!''\<rparr>, c1)"
    using assms(2,3) 1(1) by (simp add: CAuthDAO_login_def plain_def)
  then show thesis by (rule that) (use 1 in simp_all)
qed

lemma token_made:
  assumes "ready up c" "plain name" "plain role" "ids_left (tokens (my_db c))"
  obtains c1 rows c2 token k where
    "CMysql_insert api (token_data name role expires) ''cms_token'' c = Inr (True, c1)"
    "CMysql_getResult api (string_c_str (token_sql (CMysql_getInsertId api c1))) c1 = (rows, c2)" "rows \<noteq> []"
    "bind_ub (row_at rows 0 0) chars_of = Inr token" "uuid token" "ready up c2" "users (my_db c2) = users (my_db c)"
    "tokens (my_db c2) = tokens (my_db c) @
       [\<lparr>t_id = k, t_name = name, t_role = role, t_token = token, t_expires = expires\<rparr>]"
proof -
  have up: "my_mysql c" "up (my_db c)" using assms(1) by (simp_all add: ready_def)
  obtain m k token where i: "mysql_real_query api (my_db c) (add_token_text name role expires) = (0, m)"
    "mysql_affected_rows api m = 1" "mysql_insert_id api m = word_of_int k" "0 < k" "k < 2 ^ 31"
    "k \<notin> t_id ` set (tokens (my_db c))" "up m" "users m = users (my_db c)" "uuid token"
    "tokens m = tokens (my_db c) @ [\<lparr>t_id = k, t_name = name, t_role = role, t_token = token, t_expires = expires\<rparr>]"
    using add_token [OF up(2) assms(4,2,3)] by blast
  have nul: "NUL \<notin> set name" "NUL \<notin> set role" using assms(2,3) by (simp_all add: plain_def)
  have "0 < int_of_ulonglong 1" using int_of_ulonglong_int [of 1] by simp
  then have 1: "CMysql_insert api (token_data name role expires) ''cms_token'' c = Inr (True, c\<lparr>my_db := m\<rparr>)"
    using CMysql_insert_runs [OF up(1) token_text [OF nul] plain_texts(3) [OF assms(2,3)] auth_texts_not_Nil(3) i(1)] i(2)
    by simp
  have k: "CMysql_getInsertId api (c\<lparr>my_db := m\<rparr>) = k"
    using up(1) i(3-5) int_of_ulonglong_int [of k] by (simp add: CMysql_getInsertId_def)
  obtain m' m'' rows where q: "mysql_real_query api m (token_sql k) = (0, m')"
    "mysql_store_result api m' = (Some rows, m'')" "up m''" "users m'' = users m" "tokens m'' = tokens m"
    "map (map chars_of) rows = map (\<lambda>r. [Inr (t_token r)]) (filter (\<lambda>r. t_id r = k) (tokens m))"
    using select_token [OF i(7)] by blast
  have "filter (\<lambda>r. t_id r = k) (tokens (my_db c)) = []" using i(6) by (force simp: filter_empty_conv)
  then have rows: "map (map chars_of) rows = [[Inr token]]" using q(6) i(10) by simp
  then obtain d where d: "rows = [[d]]" "chars_of d = Inr token" by auto
  have 2: "CMysql_getResult api (string_c_str (token_sql k)) (c\<lparr>my_db := m\<rparr>) =
      (rows, c\<lparr>my_db := m\<rparr>\<lparr>my_db := m'', my_result := Some []\<rparr>)"
    using up(1) plain_texts(4) auth_texts_not_Nil(4) q(1,2) d(1) by (intro CMysql_getResult_rows) auto
  show thesis
    by (rule that [OF 1, unfolded k, OF 2, where token = token and k = k])
       (use d up q(3-5) i(8-10) in \<open>simp_all add: row_at_def vec_at_def ready_def\<close>)
qed

lemma login_accepted:
  assumes "ready up c" "plain (CLoginReq_username req)" "CHR '';'' \<notin> set (CLoginReq_username req)"
    and "plain (CLoginReq_password req)" "int_fits (now + timeoutSec)"
    and "filter (account same (CLoginReq_username req) (CLoginReq_password req)) (users (my_db c)) = r # rs"
    and "plain (u_role r)" "ids_left (tokens (my_db c))"
  obtains c' token k where "CAuthDAO_login api now req res timeoutSec c = Inr (True,
      res\<lparr>CLoginRes_username := CLoginReq_username req, CLoginRes_rolename := u_role r, CLoginRes_res := CLoginRes_OK,
        CLoginRes_token := token, CLoginRes_expired_time := word_of_int (now + timeoutSec)\<rparr>, c')"
    "uuid token" "ready up c'" "users (my_db c') = users (my_db c)"
    "tokens (my_db c') = filter (\<lambda>t. \<not> t_expires t < now) (tokens (my_db c) @
       [\<lparr>t_id = k, t_name = CLoginReq_username req, t_role = u_role r, t_token = token,
         t_expires = now + timeoutSec\<rparr>])"
proof -
  obtain rows c1 where 1: "CMysql_getResult api (string_c_str (login_sql (CLoginReq_username req) (CLoginReq_password req))) c =
      (rows, c1)" "ready up c1" "users (my_db c1) = users (my_db c)" "tokens (my_db c1) = tokens (my_db c)"
    "list_all2 user_cells rows (r # rs)"
    using users_selected [OF assms(1,2,4)] assms(6) by metis
  note rows = user_cells_at [OF 1(5)]
  obtain c2 rows2 c3 token k where 2:
    "CMysql_insert api (token_data (CLoginReq_username req) (u_role r) (now + timeoutSec)) ''cms_token'' c1 = Inr (True, c2)"
    "CMysql_getResult api (string_c_str (token_sql (CMysql_getInsertId api c2))) c2 = (rows2, c3)" "rows2 \<noteq> []"
    "bind_ub (row_at rows2 0 0) chars_of = Inr token" "uuid token" "ready up c3" "users (my_db c3) = users (my_db c1)"
    "tokens (my_db c3) = tokens (my_db c1) @ [\<lparr>t_id = k, t_name = CLoginReq_username req, t_role = u_role r,
       t_token = token, t_expires = now + timeoutSec\<rparr>]"
    by (rule token_made [OF 1(2) assms(2,7)]) (use 1(4) assms(8) in simp)
  have up: "my_mysql c3" "up (my_db c3)" using 2(6) by (simp_all add: ready_def)
  obtain m where e: "mysql_real_query api (my_db c3) (expire_sql now) = (0, m)" "up m" "users m = users (my_db c3)"
    "tokens m = filter (\<lambda>r. \<not> t_expires r < now) (tokens (my_db c3))"
    using expire_tokens [OF up(2)] by blast
  have q: "CMysql_query api (Some (string_c_str (expire_sql now))) 0 c3 = (True, c3\<lparr>my_db := m\<rparr>)"
    using CMysql_query_c_str [OF plain_texts(5) auth_texts_not_Nil(5) up(1)] e(1) by simp
  have q': "CHR 0x27 \<notin> set (CLoginReq_username req)" using assms(2) by (simp add: plain_def)
  have "CAuthDAO_login api now req res timeoutSec c = Inr (True,
      res\<lparr>CLoginRes_username := CLoginReq_username req, CLoginRes_rolename := u_role r, CLoginRes_res := CLoginRes_OK,
        CLoginRes_token := token, CLoginRes_expired_time := word_of_int (now + timeoutSec)\<rparr>, c3\<lparr>my_db := m\<rparr>)"
    unfolding CAuthDAO_login_def Let_def 1(1) prod.case rows(3) chk_int_def
    using assms(3,5) q' rows(1) by (simp add: 2(1-4) q)
  then show thesis by (rule that) (use up 1(3,4) 2(5,7,8) e in \<open>simp_all add: ready_def\<close>)
qed

lemma addUser_adds:
  assumes "ready up c" "plain (CAddUserReq_username u)" "plain (CAddUserReq_password u)" "plain (CAddUserReq_rolename u)"
  obtains c' where "CAuthDAO_addUser api u c = Inr (\<forall>r \<in> set (users (my_db c)). \<not> same (u_name r) (CAddUserReq_username u), c')"
    "ready up c'" "tokens (my_db c') = tokens (my_db c)"
    "users (my_db c') = users (my_db c) @ (if \<forall>r \<in> set (users (my_db c)). \<not> same (u_name r) (CAddUserReq_username u)
       then [\<lparr>u_name = CAddUserReq_username u, u_pass = CAddUserReq_password u, u_role = CAddUserReq_rolename u\<rparr>] else [])"
proof -
  have up: "my_mysql c" "up (my_db c)" using assms(1) by (simp_all add: ready_def)
  note run = CMysql_insert_runs [OF up(1) user_text [OF assms(2-4)] plain_texts(2) [OF assms(2-4)] auth_texts_not_Nil(2)]
  show thesis
  proof (cases "\<forall>r \<in> set (users (my_db c)). \<not> same (u_name r) (CAddUserReq_username u)")
    case True
    obtain m where q: "mysql_real_query api (my_db c) (add_user_text (CAddUserReq_username u) (CAddUserReq_password u)
        (CAddUserReq_rolename u)) = (0, m)" "mysql_affected_rows api m = 1" "up m" "tokens m = tokens (my_db c)"
      "users m = users (my_db c) @ [\<lparr>u_name = CAddUserReq_username u, u_pass = CAddUserReq_password u,
         u_role = CAddUserReq_rolename u\<rparr>]"
      using add_user [OF up(2) assms(2-4) True] by blast
    have "0 < int_of_ulonglong 1" using int_of_ulonglong_int [of 1] by simp
    then have "CAuthDAO_addUser api u c = Inr (True, c\<lparr>my_db := m\<rparr>)"
      using run [OF q(1)] q(2) by (simp add: CAuthDAO_addUser_def)
    with True up q(3-5) show thesis by (intro that [of "c\<lparr>my_db := m\<rparr>"]) (simp_all add: ready_def)
  next
    case False
    then have "\<exists>r \<in> set (users (my_db c)). same (u_name r) (CAddUserReq_username u)" by blast
    from add_user_again [OF up(2) assms(2-4) this] obtain res m where q:
      "mysql_real_query api (my_db c) (add_user_text (CAddUserReq_username u) (CAddUserReq_password u)
        (CAddUserReq_rolename u)) = (res, m)" "res \<noteq> 0" "up m" "tokens m = tokens (my_db c)" "users m = users (my_db c)"
      by blast
    have "CAuthDAO_addUser api u c = Inr (False, c\<lparr>my_db := m\<rparr>)"
      using run [OF q(1)] q(2) by (simp add: CAuthDAO_addUser_def)
    then have "CAuthDAO_addUser api u c = Inr (\<forall>r \<in> set (users (my_db c)). \<not> same (u_name r) (CAddUserReq_username u),
        c\<lparr>my_db := m\<rparr>)" using False by auto
    then show thesis by (rule that) (use False up q(3-5) in \<open>auto simp: ready_def\<close>)
  qed
qed

end

end
