(* ===== verification/ConfigServer_Props.thy ===== *)
theory ConfigServer_Props
  imports ConfigServer_Facts RegisterServer_Props
begin

text \<open>
  A database in memory that reads the texts of the statements, as an instance of \<open>config_sql\<close>;
  then what the configuration centre guarantees over any database with these laws.
\<close>

section \<open>A database in memory\<close>

record memory_db =
  md_rows :: "config_row list"
  md_result :: "CData list list option"
  md_stmt :: string
  md_binds :: "CData list"
  md_affected :: uint64

definition cell :: "string \<Rightarrow> CData" where
  "cell s = \<lparr>d_data = Some (string_c_str s), d_size = int (length s), d_type = CMYSQL_TYPE_STRING\<rparr>"

lemma cell_sel [simp]: "CData_bytes (cell s) = s" "chars_of (cell s) = Inr (as_c_str s)"
proof -
  show "CData_bytes (cell s) = s" by (simp add: CData_bytes_def cell_def string_c_str_def)
  have "takeWhile (\<lambda>c. c \<noteq> NUL) (s @ [NUL]) = takeWhile (\<lambda>c. c \<noteq> NUL) s" by (induction s) auto
  then show "chars_of (cell s) = Inr (as_c_str s)"
    by (simp add: chars_of_def cell_def c_str_def string_c_str_def as_c_str_def)
qed

definition strip :: "string \<Rightarrow> string \<Rightarrow> string option" where
  "strip p s = (if take (length p) s = p then Some (drop (length p) s) else None)"

lemma strip_append [simp]: "strip p (p @ s) = Some s"
  by (simp add: strip_def)

text \<open>A row matches a condition when it is the text of its address and port.\<close>

definition matches :: "string \<Rightarrow> config_row \<Rightarrow> bool" where
  "matches wh r \<longleftrightarrow> where_text (row_ip r) (row_port r) = wh"

definition page_prefix :: string where
  "page_prefix = ''select `service_name`,`service_ip`,`service_port` from '' @ CONFIG_TABLE @ '' order by id desc limit ''"

definition memory_page :: "string \<Rightarrow> config_row list \<Rightarrow> CData list list" where
  "memory_page limits t = map (\<lambda>r. [cell (row_name r), cell (row_ip r), cell (show_int (row_port r))])
     (take (nat (atoi (tl (dropWhile (\<lambda>c. c \<noteq> CHR '','') limits)))) (drop (nat (atoi limits)) (rev t)))"

definition memory_query :: "memory_db \<Rightarrow> string \<Rightarrow> int \<times> memory_db" where
  "memory_query db sql =
     (case strip (''select id from '' @ CONFIG_TABLE) sql of
        Some wh \<Rightarrow> (0, db\<lparr>md_result := Some (map (\<lambda>r. [cell ''1'']) (filter (matches wh) (md_rows db)))\<rparr>)
      | None \<Rightarrow>
     (case strip (''select private_pb from '' @ CONFIG_TABLE) sql of
        Some wh \<Rightarrow> (0, db\<lparr>md_result := Some (map (\<lambda>r. [cell (row_pb r)]) (filter (matches wh) (md_rows db)))\<rparr>)
      | None \<Rightarrow>
     (case strip (''delete from '' @ CONFIG_TABLE) sql of
        Some wh \<Rightarrow> (0, db\<lparr>md_rows := filter (\<lambda>r. \<not> matches wh r) (md_rows db)\<rparr>)
      | None \<Rightarrow>
     (case strip page_prefix sql of
        Some limits \<Rightarrow> (0, db\<lparr>md_result := Some (memory_page limits (md_rows db))\<rparr>)
      | None \<Rightarrow> (1, db)))))"

definition memory_execute :: "memory_db \<Rightarrow> int \<times> memory_db" where
  "memory_execute db =
     (case row_of_binds (md_binds db) of None \<Rightarrow> (1, db)
      | Some r \<Rightarrow>
          if md_stmt db = insert_text then (0, db\<lparr>md_rows := md_rows db @ [r], md_affected := 1\<rparr>)
          else (case strip update_text (md_stmt db) of None \<Rightarrow> (1, db)
            | Some wh \<Rightarrow> (0, db\<lparr>md_rows := map (\<lambda>r'. if matches wh r' then r else r') (md_rows db),
                md_affected := of_nat (length (filter (matches wh) (md_rows db)))\<rparr>)))"

definition memory_api :: "memory_db mysql_api" where
  "memory_api = \<lparr>mysql_init = \<lambda>db. (True, db), mysql_close = \<lambda>db. db,
     mysql_real_connect = \<lambda>db _ _ _ _ _. (True, db), mysql_options = \<lambda>db _ _. (0, db),
     mysql_real_query = memory_query,
     mysql_store_result = \<lambda>db. (md_result db, db\<lparr>md_result := None\<rparr>),
     mysql_use_result = \<lambda>db. (md_result db, db\<lparr>md_result := None\<rparr>),
     mysql_affected_rows = md_affected, mysql_insert_id = \<lambda>db. of_nat (length (md_rows db)),
     mysql_stmt_init = \<lambda>db. (True, db), mysql_stmt_prepare = \<lambda>db sql. (0, db\<lparr>md_stmt := sql\<rparr>),
     mysql_stmt_bind_param = \<lambda>db binds. (0, db\<lparr>md_binds := binds\<rparr>), mysql_stmt_execute = memory_execute,
     mysql_stmt_affected_rows = md_affected, mysql_stmt_close = \<lambda>db. db\<rparr>"

text \<open>The condition tells its address and port.\<close>

lemma last_quote:
  assumes "xs @ q # ys = xs' @ q # ys'" "q \<notin> set ys" "q \<notin> set ys'"
  shows "xs = xs' \<and> ys = ys'"
  using assms by (auto simp: append_eq_append_conv2 Cons_eq_append_conv append_eq_Cons_conv)

lemma digits_only: "\<not> is_digit c \<Longrightarrow> c \<noteq> CHR ''-'' \<Longrightarrow> c \<notin> set (show_int i)"
  using show_nat_digits by (auto simp: show_int_def)

lemma digits_no_quote: "CHR 0x27 \<notin> set (show_int i)" "CHR '','' \<notin> set (show_int i)"
  by (rule digits_only; simp add: is_digit_def)+

lemma where_text_inject: "where_text ip port = where_text ip' port' \<longleftrightarrow> ip = ip' \<and> port = port'"
proof
  assume "where_text ip port = where_text ip' port'"
  then have "ip @ CHR 0x27 # ('' and service_port='' @ show_int port) =
      ip' @ CHR 0x27 # ('' and service_port='' @ show_int port')"
    by (simp add: where_text_def)
  from last_quote [OF this] digits_no_quote show "ip = ip' \<and> port = port'" by simp
qed simp

lemma matches_where: "matches (where_text ip port) = endpoint_is ip port"
  by (simp add: fun_eq_iff matches_def endpoint_is_def where_text_inject)

lemma atoi_prefix: "atoi (show_int i @ CHR '','' # s) = i"
proof -
  have d: "nat_of_digits (show_nat n @ CHR '','' # s) = n" for n
  proof -
    have "\<not> is_digit (CHR '','')" by (simp add: is_digit_def)
    then have "takeWhile is_digit (show_nat n @ CHR '','' # s) = show_nat n"
      using show_nat_digits [of n] by (simp add: takeWhile_append)
    then show ?thesis using nat_of_digits_show_nat [of n] by (simp add: nat_of_digits_def)
  qed
  show ?thesis
  proof (cases "i < 0")
    case True
    then show ?thesis by (simp add: atoi_def show_int_def is_space_def d)
  next
    case False
    obtain c t where ct: "show_nat (nat i) = c # t" by (meson neq_Nil_conv show_nat_not_Nil)
    then have "is_digit c" using hd_show_nat_digit [of "nat i"] by simp
    then have "\<not> is_space c" "c \<noteq> CHR ''-''" "c \<noteq> CHR ''+''"
      by (auto simp: digit_not_space is_digit_def)
    moreover have "nat_of_digits (c # t @ CHR '','' # s) = nat i" using d [of "nat i"] ct by simp
    ultimately show ?thesis using False by (simp add: atoi_def show_int_def ct)
  qed
qed

lemma int_of_ulonglong_nat: "n < 2 ^ 31 \<Longrightarrow> int_of_ulonglong (word_of_nat n) = int n"
proof -
  have "(ucast (word_of_nat n :: uint64) :: int32) = word_of_nat n"
    by (rule bit_word_eqI) (auto simp: bit_simps)
  then show "n < 2 ^ 31 \<Longrightarrow> int_of_ulonglong (word_of_nat n) = int n"
    by (simp add: int_of_ulonglong_def sint_word_of_nat)
qed

definition fits_columns :: "config_row \<Rightarrow> bool" where
  "fits_columns r \<longleftrightarrow> length (row_name r) \<le> 16 \<and> length (row_ip r) \<le> 16 \<and>
     length (row_pb r) \<le> 4096 \<and> length (row_proto r) \<le> 4096"

lemma memory_select:
  "memory_query db (select_id_sql ip port) =
     (0, db\<lparr>md_result := Some (map (\<lambda>r. [cell ''1'']) (filter (endpoint_is ip port) (md_rows db)))\<rparr>)"
  "memory_query db (select_pb_sql ip port) =
     (0, db\<lparr>md_result := Some (map (\<lambda>r. [cell (row_pb r)]) (filter (endpoint_is ip port) (md_rows db)))\<rparr>)"
  "memory_query db (delete_sql ip port) =
     (0, db\<lparr>md_rows := filter (\<lambda>r. \<not> endpoint_is ip port r) (md_rows db)\<rparr>)"
  "memory_query db (select_page_sql off n) =
     (0, db\<lparr>md_result := Some (map (\<lambda>r. [cell (row_name r), cell (row_ip r), cell (show_int (row_port r))])
       (take (nat n) (drop (nat off) (rev (md_rows db)))))\<rparr>)"
proof -
  have "select_id_sql ip port = (''select id from '' @ CONFIG_TABLE) @ where_text ip port"
    by (simp add: select_id_sql_def)
  then show "memory_query db (select_id_sql ip port) =
     (0, db\<lparr>md_result := Some (map (\<lambda>r. [cell ''1'']) (filter (endpoint_is ip port) (md_rows db)))\<rparr>)"
    by (simp only: memory_query_def strip_append option.case matches_where)
  show "memory_query db (select_pb_sql ip port) =
     (0, db\<lparr>md_result := Some (map (\<lambda>r. [cell (row_pb r)]) (filter (endpoint_is ip port) (md_rows db)))\<rparr>)"
    by (simp add: memory_query_def select_pb_sql_def strip_def CONFIG_TABLE_def matches_where)
  show "memory_query db (delete_sql ip port) =
     (0, db\<lparr>md_rows := filter (\<lambda>r. \<not> endpoint_is ip port r) (md_rows db)\<rparr>)"
    by (simp add: memory_query_def delete_sql_def strip_def CONFIG_TABLE_def matches_where)
  have "atoi (show_int n) = n" by simp
  moreover have "dropWhile (\<lambda>c. c \<noteq> CHR '','') (show_int off @ CHR '','' # show_int n) = CHR '','' # show_int n"
    using digits_no_quote(2) [of off] by (simp add: dropWhile_append)
  moreover have "strip page_prefix (select_page_sql off n) = Some (show_int off @ CHR '','' # show_int n)"
    by (simp add: strip_def page_prefix_def select_page_sql_def CONFIG_TABLE_def)
  moreover have "strip (''select id from '' @ CONFIG_TABLE) (select_page_sql off n) = None"
    "strip (''select private_pb from '' @ CONFIG_TABLE) (select_page_sql off n) = None"
    "strip (''delete from '' @ CONFIG_TABLE) (select_page_sql off n) = None"
    by (simp_all add: strip_def select_page_sql_def CONFIG_TABLE_def)
  ultimately show "memory_query db (select_page_sql off n) =
     (0, db\<lparr>md_result := Some (map (\<lambda>r. [cell (row_name r), cell (row_ip r), cell (show_int (row_port r))])
       (take (nat n) (drop (nat off) (rev (md_rows db)))))\<rparr>)"
    by (simp add: memory_query_def memory_page_def atoi_prefix)
qed

lemma as_c_str_show_int: "as_c_str (show_int i) = show_int i"
  using digits_no_NUL [of i] by (simp add: as_c_str_def takeWhile_neq_all)

interpretation memory: config_sql memory_api md_rows "\<lambda>_. True" fits_columns
proof
  fix m :: memory_db and ip :: string and port :: int
  show "\<exists>m' m'' rows. mysql_real_query memory_api m (select_id_sql ip port) = (0, m') \<and>
      mysql_store_result memory_api m' = (Some rows, m'') \<and> True \<and> md_rows m'' = md_rows m \<and> [] \<notin> set rows \<and>
      length rows = length (filter (endpoint_is ip port) (md_rows m))"
    by (auto simp: memory_api_def memory_select)
  show "\<exists>m' m'' rows. mysql_real_query memory_api m (select_pb_sql ip port) = (0, m') \<and>
      mysql_store_result memory_api m' = (Some rows, m'') \<and> True \<and> md_rows m'' = md_rows m \<and>
      map (map CData_bytes) rows = map (\<lambda>r. [row_pb r]) (filter (endpoint_is ip port) (md_rows m))"
    by (simp add: memory_api_def memory_select comp_def)
  show "\<exists>m'. mysql_real_query memory_api m (delete_sql ip port) = (0, m') \<and> True \<and>
      md_rows m' = filter (\<lambda>r. \<not> endpoint_is ip port r) (md_rows m)"
    by (simp add: memory_api_def memory_select)
  fix off n :: int
  show "\<exists>m' m'' rows. mysql_real_query memory_api m (select_page_sql off n) = (0, m') \<and>
      mysql_store_result memory_api m' = (Some rows, m'') \<and> True \<and> md_rows m'' = md_rows m \<and>
      list_all2 page_row rows (take (nat n) (drop (nat off) (rev (md_rows m))))"
    by (simp add: memory_api_def memory_select list_all2_map1 list_all2_same page_row_def as_c_str_show_int)
  fix binds r assume r: "row_of_binds binds = Some r"
  show "\<exists>n m'. run_statement memory_api insert_text binds m = (Some n, m') \<and> True \<and> md_rows m' = md_rows m @ [r]"
    using r by (simp add: run_statement_def memory_api_def memory_execute_def)
  assume l: "length (filter (endpoint_is ip port) (md_rows m)) < 2 ^ 31"
  have "update_text @ wh \<noteq> insert_text" for wh by (simp add: update_text_def insert_text_def)
  with r l show "\<exists>n m'. run_statement memory_api (update_text @ where_text ip port) binds m = (Some n, m') \<and> 0 \<le> n \<and>
      True \<and> md_rows m' = map (\<lambda>r'. if endpoint_is ip port r' then r else r') (md_rows m)"
    by (simp add: run_statement_def memory_api_def memory_execute_def matches_where int_of_ulonglong_nat)
qed

text \<open>A DAO over the database in memory, and a configuration.\<close>

definition memory_with :: "config_row list \<Rightarrow> memory_db CMysql" where
  "memory_with t = \<lparr>my_db = \<lparr>md_rows = t, md_result = None, md_stmt = [], md_binds = [], md_affected = 0\<rparr>,
     my_mysql = True, my_result = None\<rparr>"

definition sample_upload :: CConfig where
  "sample_upload = CConfig_Clear\<lparr>CConfig_serviceName := ''log'', CConfig_serviceIp := ''10.0.0.7'',
     CConfig_servicePort := 80, CConfig_proto := ''message''\<rparr>"

lemma memory_with_sel [simp]: "ready (\<lambda>_. True) (memory_with t)" "md_rows (my_db (memory_with t)) = t"
  by (simp_all add: memory_with_def ready_def)

lemma sample_upload_sel [simp]:
  "CConfig_serviceIp sample_upload = ''10.0.0.7''" "CConfig_servicePort sample_upload = 80"
  by (simp_all add: sample_upload_def)

lemma clean_sample [simp]: "clean_ip ''10.0.0.7''"
  by (simp add: clean_ip_def is_digit_def)

lemma sample_upload_fits: "fits_columns (row_of sample_upload)"
proof -
  have "length (CConfig_Serialize sample_upload) \<le> 4096"
    using length_fields_le(1) [of 2 80] length_fields_le(3) [of 1 "''log''"] length_fields_le(3) [of 3 "''10.0.0.7''"]
      length_fields_le(3) [of 5 "''message''"]
    by (simp add: CConfig_Serialize_def sample_upload_def CConfig_Clear_def)
  moreover have "length (as_c_str ''log'') \<le> 16" by (simp add: as_c_str_def NUL_def)
  ultimately show ?thesis
    by (simp add: fits_columns_def row_of_def) (simp add: sample_upload_def)
qed

lemma sample_upload_wf: "CConfig_wf ref_rt sample_upload"
  by (simp add: CConfig_wf_def sample_upload_def CConfig_Clear_def ref_rt_def)

definition sample_endpoint :: CDownloadconfigReq where
  "sample_endpoint = CDownloadconfigReq_Clear\<lparr>CDownloadconfigReq_serviceIp := ''10.0.0.7'',
     CDownloadconfigReq_servicePort := 80\<rparr>"

lemma sample_endpoint_sel [simp]:
  "CDownloadconfigReq_serviceIp sample_endpoint = ''10.0.0.7''" "CDownloadconfigReq_servicePort sample_endpoint = 80"
  by (simp_all add: sample_endpoint_def)

definition sample_endpoint_msg :: CMsg where
  "sample_endpoint_msg = request_msg MSG_DOWNLOAD_CONFIG_REQ (CDownloadconfigReq_Serialize sample_endpoint)"

lemma sample_endpoint_parses:
  "CDownloadconfigReq_ParseFromArray (p_protobuf ref_platform) (msg_bytes sample_endpoint_msg) = Some sample_endpoint"
  unfolding sample_endpoint_msg_def request_msg_sel ref_platform_sel
  by (rule ref.CDownloadconfigReq_roundtrip)
     (simp add: CDownloadconfigReq_wf_def sample_endpoint_def CDownloadconfigReq_Clear_def ref_rt_def)

definition sample_upload_msg :: CMsg where
  "sample_upload_msg = request_msg MSG_UPLOAD_CONFIG_REQ (CConfig_Serialize sample_upload)"

lemma sample_upload_parses:
  "CConfig_ParseFromArray (p_protobuf ref_platform) (msg_bytes sample_upload_msg) = Some sample_upload"
  unfolding sample_upload_msg_def request_msg_sel ref_platform_sel
  by (rule ref.CConfig_roundtrip [OF sample_upload_wf])

section \<open>Uploads and downloads\<close>

lemma row_of_sel [simp]:
  "row_ip (row_of conf) = CConfig_serviceIp conf" "row_port (row_of conf) = sint (CConfig_servicePort conf)"
  "row_pb (row_of conf) = CConfig_Serialize conf"
  by (simp_all add: row_of_def)

text \<open>The address a request is for: its own, or that of the connection.\<close>

definition request_ip :: "string \<Rightarrow> ('b, 'a) CMsgEvent_scheme \<Rightarrow> string checked" where
  "request_ip ip t = (if ip = [] then c_str (m_clientIp t) else Inr ip)"

lemma as_c_str_clean: "clean_ip ip \<Longrightarrow> as_c_str ip = ip"
  using clean_ip_chars(1) [of ip] by (simp add: as_c_str_def takeWhile_neq_all)

lemma uploadConfig_answers:
  assumes "config_sql api table up storable" "ready up c" "one_per_endpoint (table (my_db c))"
    and "CConfig_ParseFromArray (p_protobuf P) (msg_bytes msg) = Some conf"
    and "request_ip (CConfig_serviceIp conf) t = Inr ip" "conf' = conf\<lparr>CConfig_serviceIp := ip\<rparr>"
    and "clean_ip ip" "storable (row_of conf')"
  obtains c1 where "CConfigHandle_uploadConfig P api msg (Some c) t = Inr (Some c1,
      reply P MSG_UPLOAD_CONFIG_RES (CMessageRes_Serialize (message_res CReturn_OK ''OK'')) t)"
    "ready up c1" "one_per_endpoint (table (my_db c1))"
    "stored (table (my_db c1)) = (stored (table (my_db c)))((ip, sint (CConfig_servicePort conf)) \<mapsto> row_of conf')"
proof -
  let ?p = "sint (CConfig_servicePort conf)"
  have conf': "CConfig_serviceIp conf' = ip" "CConfig_servicePort conf' = CConfig_servicePort conf"
    by (simp_all add: assms(6))
  obtain c1 where 1: "ConfigDAO_uploadConfig api (Some conf') (Some c) = Inr (True, Some c1)" "ready up c1"
    "one_per_endpoint (table (my_db c1))"
    "stored (table (my_db c1)) = (stored (table (my_db c)))((ip, ?p) \<mapsto> row_of conf')"
    by (rule config_sql.uploadConfig_stores [OF assms(1,2,3), of conf'])
       (use assms(7,8) conf' in \<open>simp_all add: endpoint_of_def\<close>)
  have "CConfigHandle_uploadConfig P api msg (Some c) t = Inr (Some c1,
      reply P MSG_UPLOAD_CONFIG_RES (CMessageRes_Serialize (message_res CReturn_OK ''OK'')) t)"
    using assms(4,5) 1(1) unfolding assms(6) request_ip_def by (simp add: CConfigHandle_uploadConfig_def)
  then show thesis by (rule that) (use 1 in simp_all)
qed

lemma downloadConfig_answers:
  assumes "config_sql api table up storable" "coded_input (p_protobuf P)" "ready up c" "one_per_endpoint (table (my_db c))"
    and "stored (table (my_db c)) (ip, sint port) = Some (row_of conf)" "CConfig_wf (p_protobuf P) conf"
    and "clean_ip ip" "0 < sint port" "sint port < 65536"
    and "CDownloadconfigReq_ParseFromArray (p_protobuf P) (msg_bytes msg) = Some req"
    and "request_ip (CDownloadconfigReq_serviceIp req) t = Inr ip" "CDownloadconfigReq_servicePort req = port"
  obtains c' where "CConfigHandle_downloadConfig P api half msg (Some c) t = Inr (Some c',
      reply P MSG_DOWNLOAD_CONFIG_RES (CConfig_Serialize conf) t)"
    "ready up c'" "table (my_db c') = table (my_db c)"
proof -
  have parse: "CConfig_ParseFromArray (p_protobuf P) (row_pb (row_of conf)) = Some conf"
    using coded_input.CConfig_roundtrip [OF assms(2,6)] by simp
  obtain c' where 2: "ConfigDAO_downloadConfig api (p_protobuf P) half (Some ip) (sint port) (Some c) = Inr (conf, Some c')"
    "ready up c'" "table (my_db c') = table (my_db c)"
    using config_sql.downloadConfig_reads [OF assms(1,3,4,7,8,9), where rt = "p_protobuf P" and half = half]
    unfolding assms(5) option.case parse by metis
  have "CConfigHandle_downloadConfig P api half msg (Some c) t = Inr (Some c',
      reply P MSG_DOWNLOAD_CONFIG_RES (CConfig_Serialize conf) t)"
    using assms(10,11,12) 2(1) as_c_str_clean [OF assms(7)] unfolding request_ip_def
    by (simp add: CConfigHandle_downloadConfig_def)
  then show thesis by (rule that) (use 2 in simp_all)
qed



text \<open>
  C30. What is deleted is gone. After a delete request for a stored endpoint, answered OK, a download
  of it gives an empty configuration with this address and port, and the rest of the store is
  as it was.
\<close>

theorem deleted_config_is_gone:
  assumes "config_sql api table up storable" "ready up c" "one_per_endpoint (table (my_db c))"
    and "CDownloadconfigReq_ParseFromArray (p_protobuf P) (msg_bytes msg) = Some req"
    and "clean_ip (CDownloadconfigReq_serviceIp req)"
    and "0 < sint (CDownloadconfigReq_servicePort req)" "sint (CDownloadconfigReq_servicePort req) < 65536"
  shows "\<exists>c1 c2. CConfigHandle_deleteConfig P api msg (Some c) t = (Some c1,
      reply P MSG_DELETE_CONFIG_RES (CMessageRes_Serialize (message_res CReturn_OK ''OK'')) t) \<and>
    CConfigHandle_downloadConfig P api half msg (Some c1) t2 = Inr (Some c2, reply P MSG_DOWNLOAD_CONFIG_RES
      (CConfig_Serialize (CConfig_Clear\<lparr>CConfig_serviceIp := CDownloadconfigReq_serviceIp req,
         CConfig_servicePort := CDownloadconfigReq_servicePort req\<rparr>)) t2) \<and>
    stored (table (my_db c2)) = (stored (table (my_db c)))
      ((CDownloadconfigReq_serviceIp req, sint (CDownloadconfigReq_servicePort req)) := None)"
proof -
  let ?ip = "CDownloadconfigReq_serviceIp req" and ?p = "sint (CDownloadconfigReq_servicePort req)"
  obtain c1 where 1: "ConfigDAO_deleteConfig api (Some ?ip) ?p (Some c) = (True, Some c1)" "ready up c1"
    "one_per_endpoint (table (my_db c1))" "stored (table (my_db c1)) = (stored (table (my_db c)))((?ip, ?p) := None)"
    by (rule config_sql.deleteConfig_removes [OF assms(1-3,5-7)])
  have st: "stored (table (my_db c1)) (?ip, ?p) = None" by (simp add: 1(4))
  obtain c2 where 2: "ConfigDAO_downloadConfig api (p_protobuf P) half (Some ?ip) ?p (Some c1) = Inr
      (CConfig_Clear\<lparr>CConfig_serviceIp := ?ip, CConfig_servicePort := word_of_int ?p\<rparr>, Some c2)"
    "table (my_db c2) = table (my_db c1)"
    using config_sql.downloadConfig_reads [OF assms(1) 1(2,3) assms(5-7), where rt = "p_protobuf P" and half = half]
    unfolding st option.case by metis
  have "CConfigHandle_deleteConfig P api msg (Some c) t = (Some c1,
      reply P MSG_DELETE_CONFIG_RES (CMessageRes_Serialize (message_res CReturn_OK ''OK'')) t)"
    using assms(4) 1(1) as_c_str_clean [OF assms(5)] by (simp add: CConfigHandle_deleteConfig_def)
  moreover have "CConfigHandle_downloadConfig P api half msg (Some c1) t2 = Inr (Some c2, reply P MSG_DOWNLOAD_CONFIG_RES
      (CConfig_Serialize (CConfig_Clear\<lparr>CConfig_serviceIp := ?ip,
         CConfig_servicePort := CDownloadconfigReq_servicePort req\<rparr>)) t2)"
    using assms(4) 2(1) as_c_str_clean [OF assms(5)] clean_ip_chars(3) [OF assms(5)]
    by (simp add: CConfigHandle_downloadConfig_def)
  ultimately show ?thesis using 1(4) 2(2) by auto
qed

theorem deleted_config_is_gone_witness:
  "\<exists>c1 c2. CConfigHandle_deleteConfig ref_platform memory_api sample_endpoint_msg (Some (memory_with [row_of sample_upload]))
      (sample_event []) = (Some c1, reply ref_platform MSG_DELETE_CONFIG_RES
        (CMessageRes_Serialize (message_res CReturn_OK ''OK'')) (sample_event [])) \<and>
    CConfigHandle_downloadConfig ref_platform memory_api (\<lambda>_. CConfig_Clear) sample_endpoint_msg (Some c1) (sample_event []) =
      Inr (Some c2, reply ref_platform MSG_DOWNLOAD_CONFIG_RES (CConfig_Serialize
        (CConfig_Clear\<lparr>CConfig_serviceIp := CDownloadconfigReq_serviceIp sample_endpoint,
           CConfig_servicePort := CDownloadconfigReq_servicePort sample_endpoint\<rparr>)) (sample_event []))"
proof -
  have start: "ready (\<lambda>_. True) (memory_with [row_of sample_upload])"
    "one_per_endpoint (md_rows (my_db (memory_with [row_of sample_upload])))"
    by (simp_all add: one_per_endpoint_def)
  have req: "clean_ip (CDownloadconfigReq_serviceIp sample_endpoint)"
    "0 < sint (CDownloadconfigReq_servicePort sample_endpoint)"
    "sint (CDownloadconfigReq_servicePort sample_endpoint) < 65536"
    by simp_all
  show ?thesis
    using deleted_config_is_gone [OF memory.config_sql_axioms start sample_endpoint_parses req,
        where half = "\<lambda>_. CConfig_Clear" and t = "sample_event []" and ?t2.0 = "sample_event []"]
    by (elim exE conjE, intro exI conjI)
qed

lemma int_fits_nat: "int m < 2 ^ 31 \<Longrightarrow> int_fits (int m)"
  unfolding int_fits_def by linarith

text \<open>
  C31. The pages list everything. Pages of any size, asked for one after the other, give together
  the name, address and port of every stored configuration, newest first, none twice and none
  left out, and change nothing.
\<close>

theorem pages_list_everything:
  assumes "config_sql api table up storable" "ready up c" "0 < n"
    and "length (table (my_db c)) \<le> k * n" "int k * int n < 2 ^ 31"
  shows "\<exists>pages. (\<forall>i < k. \<exists>c'. ConfigDAO_downloadAllConfig api (int i + 1) (int n) (Some c) = Inr (pages i, Some c') \<and>
      table (my_db c') = table (my_db c)) \<and>
    concat (map (\<lambda>i. CConfigList_config (pages i)) [0..<k]) = map listed (rev (table (my_db c)))"
proof -
  let ?t = "table (my_db c)"
  define pages where "pages = (\<lambda>i. CConfigList_Clear\<lparr>CConfigList_config :=
    map listed (take n (drop (i * n) (rev ?t)))\<rparr>)"
  have "\<exists>c'. ConfigDAO_downloadAllConfig api (int i + 1) (int n) (Some c) = Inr (pages i, Some c') \<and>
      table (my_db c') = ?t" if i: "i < k" for i
  proof -
    have off: "(int i + 1 - 1) * int n = int (i * n)" by simp
    have "i * n \<le> k * n" using i by simp
    moreover have "int (k * n) < 2 ^ 31" using assms(5) by simp
    ultimately have "int (i * n) < 2 ^ 31" by (metis of_nat_le_iff order_le_less_trans)
    then have "int_fits (int (i * n))" by (rule int_fits_nat)
    then have fits: "int_fits ((int i + 1 - 1) * int n)" unfolding off .
    have pos: "0 < int i + 1" "0 < int n" using assms(3) by simp_all
    show ?thesis
      using config_sql.downloadAllConfig_page [OF assms(1,2) pos fits]
      unfolding off nat_int pages_def by metis
  qed
  moreover have "concat (map (\<lambda>i. CConfigList_config (pages i)) [0..<k]) = map listed (rev ?t)"
  proof -
    have "concat (map (\<lambda>i. map listed (take n (drop (i * n) (rev ?t)))) [0..<k]) =
        map listed (concat (map (\<lambda>i. take n (drop (i * n) (rev ?t))) [0..<k]))"
      by (simp add: map_concat comp_def)
    with pages_all [of n "rev ?t" k] assms(3,4) show ?thesis by (simp add: pages_def)
  qed
  ultimately show ?thesis by blast
qed

theorem pages_list_everything_witness:
  "\<exists>pages. concat (map (\<lambda>i. CConfigList_config (pages i)) [0..<2]) =
      [listed (row_of sample_upload), listed (row_of (sample_upload\<lparr>CConfig_servicePort := 81\<rparr>))] \<and>
    (\<forall>i < 2. \<exists>c'. ConfigDAO_downloadAllConfig memory_api (int i + 1) 1
      (Some (memory_with [row_of (sample_upload\<lparr>CConfig_servicePort := 81\<rparr>), row_of sample_upload])) = Inr (pages i, Some c'))"
  using pages_list_everything [OF memory.config_sql_axioms, where n = 1 and k = 2 and
      c = "memory_with [row_of (sample_upload\<lparr>CConfig_servicePort := 81\<rparr>), row_of sample_upload]"]
  by simp metis

text \<open>
  A page too far is undefined. For a page and a page size that are positive but whose product
  reaches \<open>2^31\<close>, the offset of the page does not fit an \<open>int\<close>: any client can send such a
  request.
\<close>

theorem page_overflows:
  assumes "0 < page" "0 < pageCount" "2 ^ 31 \<le> (page - 1) * pageCount"
  shows "ConfigDAO_downloadAllConfig api page pageCount (Some c) = Inl SignedOverflow"
  using assms by (simp add: ConfigDAO_downloadAllConfig_def chk_int_def int_fits_def)

theorem page_overflows_witness:
  "ConfigDAO_downloadAllConfig memory_api 65537 32768 (Some (memory_with [])) = Inl SignedOverflow"
  using page_overflows [of 65537 32768 memory_api "memory_with []"] by simp

section \<open>All requests\<close>

text \<open>
  Uploads, downloads, pages and deletions in any order, from any connections, with clean addresses
  and configurations the columns hold.
\<close>

inductive config_reachable ::
    "'m mysql_api \<Rightarrow> ('m \<Rightarrow> config_row list) \<Rightarrow> ('m \<Rightarrow> bool) \<Rightarrow> (config_row \<Rightarrow> bool) \<Rightarrow> pb_rt \<Rightarrow> 'm CMysql \<Rightarrow> bool"
    for api table up storable rt where
  start: "ready up c \<Longrightarrow> table (my_db c) = [] \<Longrightarrow> config_reachable api table up storable rt c"
| upload: "config_reachable api table up storable rt c \<Longrightarrow> clean_ip (CConfig_serviceIp conf) \<Longrightarrow>
    storable (row_of conf) \<Longrightarrow> CConfig_wf rt conf \<Longrightarrow>
    ConfigDAO_uploadConfig api (Some conf) (Some c) = Inr (ok, Some c') \<Longrightarrow>
    config_reachable api table up storable rt c'"
| download: "config_reachable api table up storable rt c \<Longrightarrow> clean_ip ip \<Longrightarrow>
    ConfigDAO_downloadConfig api rt half (Some ip) port (Some c) = Inr (conf, Some c') \<Longrightarrow>
    config_reachable api table up storable rt c'"
| page: "config_reachable api table up storable rt c \<Longrightarrow>
    ConfigDAO_downloadAllConfig api page pageCount (Some c) = Inr (confs, Some c') \<Longrightarrow>
    config_reachable api table up storable rt c'"
| delete: "config_reachable api table up storable rt c \<Longrightarrow> clean_ip ip \<Longrightarrow>
    ConfigDAO_deleteConfig api (Some ip) port (Some c) = (ok, Some c') \<Longrightarrow>
    config_reachable api table up storable rt c'"

definition store_ok :: "pb_rt \<Rightarrow> config_row list \<Rightarrow> bool" where
  "store_ok rt t \<longleftrightarrow> one_per_endpoint t \<and> (\<forall>e r. stored t e = Some r \<longrightarrow>
     endpoint_of r = e \<and> (\<exists>conf. CConfig_ParseFromArray rt (row_pb r) = Some conf \<and> row_of conf = r))"

lemma ConfigDAO_refused:
  "\<not> (0 < port \<and> port < 65536) \<Longrightarrow> ConfigDAO_downloadConfig api rt half (Some ip) port (Some c) = Inr (CConfig_Clear, Some c)"
  "\<not> (0 < port \<and> port < 65536) \<Longrightarrow> ConfigDAO_deleteConfig api (Some ip) port (Some c) = (False, Some c)"
  "\<not> (0 < page \<and> 0 < n) \<Longrightarrow> ConfigDAO_downloadAllConfig api page n (Some c) = Inr (CConfigList_Clear, Some c)"
  by (auto simp: ConfigDAO_downloadConfig_def ConfigDAO_deleteConfig_def ConfigDAO_downloadAllConfig_def)

context config_sql begin

lemma downloadConfig_keeps:
  assumes "ready up c" "one_per_endpoint (table (my_db c))" "clean_ip ip"
    and "ConfigDAO_downloadConfig api rt half (Some ip) port (Some c) = Inr (conf, Some c')"
  shows "ready up c' \<and> table (my_db c') = table (my_db c)"
proof (cases "0 < port \<and> port < 65536")
  case True
  show ?thesis
    by (rule downloadConfig_reads [OF assms(1-3), of port rt half]) (use True assms(4) in auto)
next
  case False
  with assms(1,4) ConfigDAO_refused(1) [OF False, of api rt half ip c] show ?thesis by simp
qed

lemma downloadAllConfig_keeps:
  assumes "ready up c" "ConfigDAO_downloadAllConfig api page n (Some c) = Inr (confs, Some c')"
  shows "ready up c' \<and> table (my_db c') = table (my_db c)"
proof (cases "0 < page \<and> 0 < n")
  case True
  have "int_fits ((page - 1) * n)"
    using assms(2) True by (auto simp: ConfigDAO_downloadAllConfig_def chk_int_def split: if_splits)
  then show ?thesis
    using downloadAllConfig_page [OF assms(1) conjunct1 [OF True] conjunct2 [OF True]] assms(2)
    by (metis (no_types, lifting) Pair_inject option.inject sum.inject(2))
next
  case False
  with assms ConfigDAO_refused(3) [OF False, of api c] show ?thesis by simp
qed

end



section \<open>Failures\<close>

text \<open>
  A failed deletion is answered as a download. A delete request that names no address (which
  uploads and downloads take as that of the connection) deletes nothing, and its error is sent
  under the type of a downloaded configuration.
\<close>

theorem failed_delete_answers_download:
  assumes "CDownloadconfigReq_ParseFromArray (p_protobuf P) (msg_bytes msg) = Some req"
    and "as_c_str (CDownloadconfigReq_serviceIp req) = []"
  shows "\<exists>text. CConfigHandle_deleteConfig P api msg dao t =
    (dao, reply P MSG_DOWNLOAD_CONFIG_RES (CMessageRes_Serialize (message_res CReturn_ERROR text)) t)"
  using assms by (auto simp: CConfigHandle_deleteConfig_def ConfigDAO_deleteConfig_def split: option.split)

theorem failed_delete_answers_download_witness:
  "\<exists>text. CConfigHandle_deleteConfig ref_platform memory_api (request_msg MSG_DELETE_CONFIG_REQ [])
      (Some (memory_with [row_of sample_upload])) (sample_event []) =
    (Some (memory_with [row_of sample_upload]),
     reply ref_platform MSG_DOWNLOAD_CONFIG_RES (CMessageRes_Serialize (message_res CReturn_ERROR text)) (sample_event []))"
proof -
  have "CDownloadconfigReq_wf ref_rt CDownloadconfigReq_Clear"
    by (simp add: CDownloadconfigReq_wf_def CDownloadconfigReq_Clear_def ref_rt_def)
  moreover have "CDownloadconfigReq_Serialize CDownloadconfigReq_Clear = []"
    by (simp add: CDownloadconfigReq_Serialize_def CDownloadconfigReq_Clear_def)
  ultimately have "CDownloadconfigReq_ParseFromArray (p_protobuf ref_platform) (msg_bytes (request_msg MSG_DELETE_CONFIG_REQ [])) =
      Some CDownloadconfigReq_Clear"
    using ref.CDownloadconfigReq_roundtrip [of CDownloadconfigReq_Clear] by simp
  then show ?thesis
    by (rule failed_delete_answers_download) (simp add: CDownloadconfigReq_Clear_def as_c_str_def)
qed

text \<open>
  The address is not escaped. A delete request chooses the condition of the statement the
  server runs: for this address the statement is one that matches every row, whatever the port.
\<close>

theorem delete_runs_injected_condition:
  assumes "my_mysql c" "0 < port" "port < 65536"
  shows "\<exists>rest. ConfigDAO_deleteConfig api (Some (''x'' @ [CHR 0x27] @ '' or 1=1 -- '')) port (Some c) =
    (let (res, db) = mysql_real_query api (my_db c)
       (''delete from cms_service_config where service_ip='' @ [CHR 0x27] @ ''x'' @ [CHR 0x27] @ '' or 1=1 -- '' @ rest)
     in (res = 0, Some (c\<lparr>my_db := db\<rparr>)))"
proof -
  let ?ip = "''x'' @ [CHR 0x27] @ '' or 1=1 -- ''"
  let ?rest = "[CHR 0x27] @ '' and service_port='' @ show_int port"
  have sql: "delete_sql ?ip port =
      ''delete from cms_service_config where service_ip='' @ [CHR 0x27] @ ''x'' @ [CHR 0x27] @ '' or 1=1 -- '' @ ?rest"
    by (simp add: delete_sql_def where_text_def CONFIG_TABLE_def)
  have "NUL \<notin> set (delete_sql ?ip port)"
    unfolding sql using digits_no_NUL [of port] by simp (simp add: NUL_def)
  from CMysql_query_c_str [OF this texts_not_Nil(3) assms(1), of api]
  have "ConfigDAO_deleteConfig api (Some ?ip) port (Some c) =
    (let (res, db) = mysql_real_query api (my_db c) (delete_sql ?ip port) in (res = 0, Some (c\<lparr>my_db := db\<rparr>)))"
    using assms(2,3) by (simp add: ConfigDAO_deleteConfig_def case_prod_beta Let_def)
  then show ?thesis unfolding sql by blast
qed

theorem delete_runs_injected_condition_witness:
  "\<exists>rest. ConfigDAO_deleteConfig memory_api (Some (''x'' @ [CHR 0x27] @ '' or 1=1 -- '')) 1 (Some (memory_with [])) =
    (let (res, db) = mysql_real_query memory_api (my_db (memory_with []))
       (''delete from cms_service_config where service_ip='' @ [CHR 0x27] @ ''x'' @ [CHR 0x27] @ '' or 1=1 -- '' @ rest)
     in (res = 0, Some ((memory_with [])\<lparr>my_db := db\<rparr>)))"
  by (rule delete_runs_injected_condition) (simp_all add: memory_with_def)

end
