(* ===== verification/RegisterClient_Props.thy ===== *)
theory RegisterClient_Props
  imports RegisterClient RegisterServer_Props
begin

text \<open>
  The register client against the register centre: its registration is one the centre accepts,
  an answer of the centre brings the cache up to date, the cache survives a restart through its
  file, and what a lookup gives when the centre cannot be reached.
\<close>

section \<open>Requests\<close>

lemma CRegisterReq_Serialize_nonempty: "CRegisterReq_name r \<noteq> [] \<Longrightarrow> CRegisterReq_Serialize r \<noteq> []"
  by (simp add: CRegisterReq_Serialize_def WriteStringToArray_def WriteTagToArray_def)

text \<open>
  C14. Registering. Once connected, a client with a name, an address and a port in range sends one
  frame; a register centre that receives it, whatever its table and its connection, accepts
  it: the registry then has exactly this endpoint more.
\<close>

theorem client_registers:
  assumes "channel P inb outb" "\<And>b d. fst (bufferevent_write (p_libevent P) b d) = 0" "m_bev c \<noteq> None"
    and "coded_input (p_protobuf P')"
    and "c_str (rc_serviceName c) = Inr name" "name \<noteq> []" "length name < 32"
    and "c_str (rc_serviceIp c) = Inr ip" "ip \<noteq> []" "length ip < 16"
    and "VerifyUtf8String (p_protobuf P') name" "VerifyUtf8String (p_protobuf P') ip"
    and "1 \<le> rc_servicePort c" "rc_servicePort c \<le> 65535"
  shows "\<exists>c' head body. register_connetedCb P c = Inr c' \<and> sent outb c' = sent outb c @ frame (head, body) \<and>
    (\<forall>table (t :: 'd CMsgEvent). \<exists>table' ret text.
      register_dispatch P' order head (snd (delivered (head, body))) table t =
        Inr (table', register_res P' ret text t) \<and>
      registry table' = insert (name, ip, rc_servicePort c) (registry table))"
proof -
  define req where "req = CRegisterReq_Clear\<lparr>CRegisterReq_name := name, CRegisterReq_ip := ip,
    CRegisterReq_port := word_of_int (rc_servicePort c)\<rparr>"
  let ?body = "CRegisterReq_Serialize req"
  let ?h = "CMsgHead_Clear\<lparr>msg_type := MSG_REGISTER_REQ, msg_size := word_of_nat (length ?body)\<rparr>"
  have body: "?body \<noteq> []" using assms(6) by (simp add: req_def CRegisterReq_Serialize_nonempty)
  have p: "sint (word_of_int (rc_servicePort c) :: int32) = rc_servicePort c"
    using assms(13,14) by (simp add: signed_of_int signed_take_bit_int_eq_self)
  have "CRegisterReq_wf (p_protobuf P') req"
    using assms(7,10-12) by (simp add: CRegisterReq_wf_def req_def CRegisterReq_Clear_def)
  then have parse: "CRegisterReq_ParseFromArray (p_protobuf P') ?body = Some req"
    by (rule coded_input.CRegisterReq_roundtrip [OF assms(4)])
  have acc: "accepts P' (snd (delivered (?h, ?body))) t = Some (name, ip, rc_servicePort c)"
    for t :: "'d CMsgEvent"
    unfolding accepts_def msg_bytes_delivered [OF body] parse
    using assms(6,9,13,14) by (simp add: req_def p)
  have srv: "\<exists>table' ret text. register_dispatch P' order ?h (snd (delivered (?h, ?body))) table t =
        Inr (table', register_res P' ret text t) \<and>
      registry table' = insert (name, ip, rc_servicePort c) (registry table)" for table and t :: "'d CMsgEvent"
  proof -
    obtain added m' where r: "register_service name ip (rc_servicePort c) table = (added, m')"
      "registerReq P' (snd (delivered (?h, ?body))) table t = Inr (m',
         if added then register_res P' CReturn_OK ''OK'' t
         else register_res P' CReturn_ERROR (registed_text name ip (rc_servicePort c)) t)"
      by (rule registerReq_accepts [OF acc])
    have "register_dispatch P' order ?h m table t = registerReq P' m table t" for m
      by (simp add: register_dispatch_def register_regMsgCallback_def MSG_REGISTER_REQ_def MSG_HEART_REQ_def)
    with r registry_register_service(1) [OF r(1) assms(13,14)] show ?thesis by (cases added) auto
  qed
  have nz: "MSG_REGISTER_REQ \<noteq> 0" by (simp add: MSG_REGISTER_REQ_def)
  obtain c' where c': "sendMsg_type P MSG_REGISTER_REQ (Some ?body) c = (True, c')"
    "sent outb c' = sent outb c @ frame (?h, ?body)"
    using channel.sendMsg_type_succeeds [OF assms(1-3) body nz] by metis
  then have "register_connetedCb P c = Inr c'"
    by (simp add: register_connetedCb_def assms(5,8) req_def)
  with c'(2) srv show ?thesis by blast
qed

definition sample_register_client :: "buffers CRegisterClient" where
  "sample_register_client = (CRegisterClient_new (Some CCThreadPool_new))
     \<lparr>m_bev := Some \<lparr>inbuf = [], outbuf = []\<rparr>, rc_serviceName := ''log'' @ zero_buf 29,
      rc_serviceIp := ''10.0.0.7'' @ zero_buf 8, rc_servicePort := 80\<rparr>"

lemma sample_register_client_sel [simp]:
  "m_bev sample_register_client = Some \<lparr>inbuf = [], outbuf = []\<rparr>"
  "c_str (rc_serviceName sample_register_client) = Inr ''log''"
  "c_str (rc_serviceIp sample_register_client) = Inr ''10.0.0.7''"
  "rc_servicePort sample_register_client = 80"
  by (simp_all add: sample_register_client_def c_str_def NUL_def)

lemma ref_libevent_write: "fst (bufferevent_write ref_libevent b d) = 0"
  by (simp add: ref_libevent_def)

lemma ref_rt_utf8: "VerifyUtf8String ref_rt = utf8_ok"
  by (simp add: ref_rt_def)

theorem client_registers_witness:
  "\<exists>c' head body. register_connetedCb ref_platform sample_register_client = Inr c' \<and>
    sent outbuf c' = frame (head, body) \<and>
    (\<exists>table' ret text. register_dispatch ref_platform key_order head (snd (delivered (head, body))) None
       (CMsgEvent_new :: buffers CMsgEvent) = Inr (table', register_res ref_platform ret text CMsgEvent_new) \<and>
      registry table' = {(''log'', ''10.0.0.7'', 80)})"
proof -
  have "\<exists>c' head body. register_connetedCb ref_platform sample_register_client = Inr c' \<and>
    sent outbuf c' = sent outbuf sample_register_client @ frame (head, body) \<and>
    (\<forall>table (t :: buffers CMsgEvent). \<exists>table' ret text.
      register_dispatch ref_platform key_order head (snd (delivered (head, body))) table t =
        Inr (table', register_res ref_platform ret text t) \<and>
      registry table' = insert (''log'', ''10.0.0.7'', rc_servicePort sample_register_client) (registry table))"
    by (rule client_registers [OF ref_channel.channel_axioms])
      (simp_all add: ref.coded_input_axioms ref_libevent_write ref_rt_utf8)
  then show ?thesis by (simp add: sent_def contents_def) (metis registry_None)
qed

section \<open>The cache\<close>

lemma disk_getServiceRes:
  assumes "getServiceRes rt half order True msg c s = Inr s'" "cache_file c = Inr f"
    and "refresh_cache rt half order (msg_bytes msg) (pbServiceMap s) = (m, Some m)"
  shows "pbServiceMap s' = Some m" "disk s' = (disk s)(f \<mapsto> CServiceMap_Serialize order m)"
  using assms by (auto simp: getServiceRes_def)

lemma pbServiceMap_getServiceRes:
  assumes "getServiceRes rt half order opens msg c s = Inr s'"
  shows "pbServiceMap s' = Some (fst (refresh_cache rt half order (msg_bytes msg) (pbServiceMap s)))"
  using assms by (auto simp: getServiceRes_def Let_def bind_ub_Inr_iff split: prod.splits option.splits if_splits)

lemma order_single:
  assumes "lists_keys order m" "dom m = {name}"
  shows "order m = [name]"
proof -
  have "distinct (order m)" "set (order m) = {name}" using assms by (simp_all add: lists_keys_def)
  then have "length (order m) = 1" using distinct_card by force
  with \<open>set (order m) = {name}\<close> show ?thesis by (cases "order m") auto
qed

text \<open>
  C15. An answer brings the cache up to date. Whatever the register centre answers to a request for
  all services, or for the services of a name, once the client has handled it: after ALL the
  cache lists exactly the services of the centre's table; after ONE only the services of that
  name have changed, to those of the table, and when the table does not know the name the
  cache keeps what it had.
\<close>

theorem answer_updates_cache:
  assumes "coded_input rt" "get_services type name table = (answer, table')"
    and "CServiceMap_wf rt answer" "lists_keys order (sm_serviceMap answer)"
    and "lists_keys order' (sm_serviceMap answer)"
    and "msg_bytes msg = CServiceMap_Serialize order answer"
    and "getServiceRes rt half order' opens msg c s = Inr s'"
  shows "services (pbServiceMap s') =
    (if type = ServiceType_ALL then services table
     else if Option.bind table (\<lambda>t. sm_serviceMap t name) = None then services (pbServiceMap s)
     else (services (pbServiceMap s))(name := services table name))"
proof -
  note g = get_services_table [OF assms(2)]
  have p: "CServiceMap_ParseFromArray rt (msg_bytes msg) = Some answer"
    unfolding assms(6) by (rule coded_input.CServiceMap_roundtrip [OF assms(1,3,4)])
  note s' = pbServiceMap_getServiceRes [OF assms(7)]
  show ?thesis
  proof (cases "type = ServiceType_ALL")
    case True
    then have "services (Some answer) = services table" using g(2) by simp
    with True show ?thesis unfolding s'
      by (simp add: refresh_cache_def p g(3) split: option.split)
  next
    case False
    show ?thesis
    proof (cases "Option.bind table (\<lambda>t. sm_serviceMap t name)")
      case None
      then have "sm_serviceMap answer = Map.empty" "services (Some answer) = (\<lambda>_. [])"
        unfolding g(5) [OF False] by (auto simp: services_def restrict_map_def fun_eq_iff split: option.split)
      moreover from this have "order' (sm_serviceMap answer) = []"
        using assms(5) by (simp add: lists_keys_def)
      ultimately show ?thesis unfolding s' using False None
        by (cases "pbServiceMap s") (simp_all add: refresh_cache_def p g(3))
    next
      case (Some l)
      then obtain t where t: "table = Some t" "sm_serviceMap t name = Some l" by (cases table) auto
      then have a: "sm_serviceMap answer = [name \<mapsto> l]"
        unfolding g(5) [OF False] by (auto simp: restrict_map_def fun_eq_iff)
      then have "order' (sm_serviceMap answer) = [name]"
        by (intro order_single [OF assms(5)]) simp
      with False Some t a show ?thesis unfolding s'
        by (cases "pbServiceMap s")
           (auto simp: refresh_cache_def p g(3) services_def fun_eq_iff Let_def)
    qed
  qed
qed

definition sample_answer :: CServiceMap where
  "sample_answer = fst (get_services ServiceType_ONE ''log'' sample_table)"

lemma sample_answer_get:
  "get_services ServiceType_ONE ''log'' sample_table = (sample_answer, sample_table)"
  by (simp add: sample_answer_def get_services_def sample_table_def ServiceType_ALL_def ServiceType_ONE_def Let_def)

lemma sample_answer_eq:
  "sample_answer = CServiceMap_Clear\<lparr>sm_serviceMap := sm_serviceMap (the sample_table), sm_type := ServiceType_ONE,
     sm_res := Some (CMessageRes_Clear\<lparr>CMessageRes_return := CReturn_OK\<rparr>)\<rparr>"
proof -
  have "sm_serviceMap (the sample_table) |` {''log''} = sm_serviceMap (the sample_table)"
    by (simp add: sample_table_def restrict_map_def fun_eq_iff)
  then show ?thesis
    using get_services_table(5) [OF sample_answer_get]
    by (simp add: ServiceType_ALL_def ServiceType_ONE_def sample_table_def)
qed

lemma sample_answer_keys: "lists_keys key_order (sm_serviceMap sample_answer)"
  by (auto simp: lists_keys_def key_order_def sample_answer_eq sample_table_def)

lemma sample_answer_wf: "CServiceMap_wf ref_rt sample_answer"
  using sample_entry_wf
  by (auto simp: CServiceMap_wf_def sample_answer_eq sample_table_def CServiceMap_Clear_def CMessageRes_wf_def
      CMessageRes_Clear_def CMessageRes_Serialize_def CReturn_OK_def ref_rt_utf8 utf8_ok.simps split: if_splits)

definition sample_answer_msg :: CMsg where
  "sample_answer_msg = request_msg MSG_GET_SERVICE_RES (CServiceMap_Serialize key_order sample_answer)"

lemma sample_cache_file: "\<exists>f. cache_file sample_register_client = Inr f"
  by (simp add: cache_file_def)

definition fresh_cache :: "(string \<rightharpoonup> string) \<Rightarrow> register_cache" where
  "fresh_cache d = \<lparr>pbServiceMap = None, pbClientMap = None, heart_count = 0, disk = d\<rparr>"

lemma getServiceRes_returns:
  assumes "cache_file c = Inr f"
  shows "\<exists>s'. getServiceRes rt half order opens msg c s = Inr s'"
  using assms by (auto simp: getServiceRes_def Let_def split: prod.split option.split)

theorem answer_updates_cache_witness:
  "\<exists>s'. getServiceRes ref_rt (\<lambda>_. CServiceMap_Clear) key_order True sample_answer_msg sample_register_client
      (fresh_cache Map.empty) = Inr s' \<and>
    services (pbServiceMap s') ''log'' = [new_service ''log'' ''10.0.0.7'' 80]"
proof -
  obtain f where f: "cache_file sample_register_client = Inr f" using sample_cache_file by blast
  obtain s' where s': "getServiceRes ref_rt (\<lambda>_. CServiceMap_Clear) key_order True sample_answer_msg
      sample_register_client (fresh_cache Map.empty) = Inr s'" using getServiceRes_returns [OF f] by blast
  have "services sample_table ''log'' = [new_service ''log'' ''10.0.0.7'' 80]"
    by (simp add: services_def sample_table_def)
  with s' answer_updates_cache [OF ref.coded_input_axioms sample_answer_get sample_answer_wf sample_answer_keys
      sample_answer_keys _ s'] show ?thesis
    by (simp add: sample_answer_msg_def) (simp add: sample_table_def ServiceType_ALL_def ServiceType_ONE_def)
qed

text \<open>
  C29. The cache survives a restart. When an answer that parses has brought the cache up to date and
  the file could be written, a process that starts again with the same name, address and port
  loads from that file exactly the cache the first one had, type and result included.
\<close>

theorem cache_survives_restart:
  assumes "coded_input rt" "cache_file c = Inr f" "cache_file c' = Inr f"
    and "CServiceMap_ParseFromArray rt (msg_bytes msg) = Some answer" "CServiceMap_wf rt answer"
    and "\<And>old. pbServiceMap s = Some old \<Longrightarrow> CServiceMap_wf rt old"
    and "pbServiceMap s = None \<or> sm_type answer = ServiceType_ALL \<or> order (sm_serviceMap answer) \<noteq> []"
    and "set (order (sm_serviceMap answer)) \<subseteq> dom (sm_serviceMap answer)"
    and "getServiceRes rt half order True msg c s = Inr s'"
    and "lists_keys order (sm_serviceMap (the (pbServiceMap s')))"
    and "disk fresh = disk s'"
  shows "\<exists>loaded. loadLocalFile rt half c' fresh = Inr (True, loaded) \<and> pbServiceMap loaded = pbServiceMap s'"
proof -
  obtain m where r: "refresh_cache rt half order (msg_bytes msg) (pbServiceMap s) = (m, Some m)" "CServiceMap_wf rt m"
  proof (cases "pbServiceMap s")
    case None
    with that assms(4,5) show thesis by (simp add: refresh_cache_def)
  next
    case (Some old)
    show thesis
    proof (cases "sm_type answer = ServiceType_ALL")
      case True
      with that assms(4,5) Some show thesis by (simp add: refresh_cache_def)
    next
      case False
      with Some assms(7) obtain k ks where k: "order (sm_serviceMap answer) = k # ks"
        by (cases "order (sm_serviceMap answer)") auto
      then obtain l where l: "sm_serviceMap answer k = Some l" using assms(8) by auto
      let ?m = "old\<lparr>sm_serviceMap := (sm_serviceMap old)(k \<mapsto> l)\<rparr>"
      have "CServiceMap_wf rt ?m" using assms(5) assms(6) [OF Some] l by (auto simp: CServiceMap_wf_def)
      moreover have "refresh_cache rt half order (msg_bytes msg) (pbServiceMap s) = (?m, Some ?m)"
        using Some False assms(4) k l by (simp add: refresh_cache_def Let_def)
      ultimately show thesis by (intro that)
    qed
  qed
  note d = disk_getServiceRes [OF assms(9,2) r(1)]
  have "CServiceMap_ParseFromArray rt (CServiceMap_Serialize order m) = Some m"
    using assms(10) d(1) by (intro coded_input.CServiceMap_roundtrip [OF assms(1) r(2)]) simp
  with assms(3,11) d show ?thesis by (auto simp: loadLocalFile_def Let_def)
qed

theorem cache_survives_restart_witness:
  "\<exists>s' loaded. getServiceRes ref_rt (\<lambda>_. CServiceMap_Clear) key_order True sample_answer_msg
      sample_register_client (fresh_cache Map.empty) = Inr s' \<and> pbServiceMap s' = Some sample_answer \<and>
    loadLocalFile ref_rt (\<lambda>_. CServiceMap_Clear) sample_register_client (fresh_cache (disk s')) = Inr (True, loaded) \<and>
    pbServiceMap loaded = Some sample_answer"
proof -
  obtain f where f: "cache_file sample_register_client = Inr f" using sample_cache_file by blast
  obtain s' where s': "getServiceRes ref_rt (\<lambda>_. CServiceMap_Clear) key_order True sample_answer_msg
      sample_register_client (fresh_cache Map.empty) = Inr s'" using getServiceRes_returns [OF f] by blast
  have p: "CServiceMap_ParseFromArray ref_rt (msg_bytes sample_answer_msg) = Some sample_answer"
    unfolding sample_answer_msg_def request_msg_sel by (rule ref.CServiceMap_roundtrip [OF sample_answer_wf sample_answer_keys])
  have m: "pbServiceMap s' = Some sample_answer"
    using pbServiceMap_getServiceRes [OF s'] p by (simp add: refresh_cache_def fresh_cache_def)
  have k: "order (sm_serviceMap sample_answer) = order (sm_serviceMap sample_answer)" for order by simp
  have "\<exists>loaded. loadLocalFile ref_rt (\<lambda>_. CServiceMap_Clear) sample_register_client (fresh_cache (disk s')) =
      Inr (True, loaded) \<and> pbServiceMap loaded = pbServiceMap s'"
    by (rule cache_survives_restart [OF ref.coded_input_axioms f f p sample_answer_wf _ _ _ s'])
       (use sample_answer_keys m in \<open>simp_all add: fresh_cache_def lists_keys_def\<close>)
  with s' m show ?thesis by simp
qed

section \<open>Lookups\<close>

text \<open>\<open>found\<close>: the list the loop gives is an entry of the cache at one of its polls.\<close>

definition found :: "(int \<Rightarrow> CServiceMap option) \<Rightarrow> string \<Rightarrow> int \<Rightarrow> int \<Rightarrow> CServiceMap_CServiceList \<Rightarrow> bool" where
  "found maps name cur limit l \<longleftrightarrow>
     (\<exists>i m. cur \<le> i \<and> i < limit \<and> maps i = Some m \<and> sm_serviceMap m name = Some l)"

lemma found_later: "found maps name (cur + d) limit l \<Longrightarrow> 0 \<le> d \<Longrightarrow> found maps name cur limit l"
  unfolding found_def by (meson add_increasing2 dual_order.trans order_refl zle_add1_eq_le)

lemma answer_loop_result:
  assumes "answer_loop maps name limit cur k = (l, n)"
  shows "l = CServiceMap_CServiceList_Clear \<or> found maps name cur limit l"
    "\<lbrakk>\<forall>i. j \<le> i \<and> i < limit \<longrightarrow> (\<exists>m l. maps i = Some m \<and> sm_serviceMap m name = Some l);
      max cur j + 9 < limit\<rbrakk> \<Longrightarrow> found maps name cur limit l"
proof -
  have "(l = CServiceMap_CServiceList_Clear \<or> found maps name cur limit l) \<and>
    ((\<forall>i. j \<le> i \<and> i < limit \<longrightarrow> (\<exists>m l. maps i = Some m \<and> sm_serviceMap m name = Some l)) \<longrightarrow>
      cur < limit \<longrightarrow> (cur < j \<longrightarrow> j + 9 < limit) \<longrightarrow> found maps name cur limit l)"
    using assms
  proof (induction maps name limit cur k arbitrary: l n rule: answer_loop.induct)
    case (1 maps name limit cur k)
    show ?case
    proof (cases "cur < limit")
      case False
      with "1.prems" show ?thesis by (simp add: answer_loop.simps)
    next
      case True
      show ?thesis
      proof (cases "maps cur")
        case None
        with True "1.prems" have "answer_loop maps name limit (cur + 1) k = (l, n)" by (simp add: answer_loop.simps)
        note ih = "1.IH"(1) [OF True None this]
        show ?thesis
        proof (intro conjI impI)
          show "l = CServiceMap_CServiceList_Clear \<or> found maps name cur limit l"
            using ih found_later [of maps name cur 1 limit l] by auto
        next
          assume h: "\<forall>i. j \<le> i \<and> i < limit \<longrightarrow> (\<exists>m l. maps i = Some m \<and> sm_serviceMap m name = Some l)"
            "cur < j \<longrightarrow> j + 9 < limit"
          with True  None have "cur < j" by (metis not_less option.distinct(1))
          with h(2) have "cur + 1 < limit" "j + 9 < limit" by simp_all
          with h(1) ih have "found maps name (cur + 1) limit l" by blast
          then show "found maps name cur limit l" by (rule found_later) simp
        qed
      next
        case (Some m)
        show ?thesis
        proof (cases "sm_serviceMap m name")
          case None
          with True Some "1.prems" have "answer_loop maps name limit (cur + 10) (Suc k) = (l, n)"
            by (simp add: answer_loop.simps)
          note ih = "1.IH"(2) [OF True Some None this]
          show ?thesis
          proof (intro conjI impI)
            show "l = CServiceMap_CServiceList_Clear \<or> found maps name cur limit l"
              using ih found_later [of maps name cur 10 limit l] by auto
          next
            assume h: "\<forall>i. j \<le> i \<and> i < limit \<longrightarrow> (\<exists>m l. maps i = Some m \<and> sm_serviceMap m name = Some l)"
              "cur < j \<longrightarrow> j + 9 < limit"
            with True Some None have "cur < j" by (metis not_less option.distinct(1) option.inject)
            with h(2) have "cur + 10 < limit" "j + 9 < limit" by simp_all
            with h(1) ih have "found maps name (cur + 10) limit l" by blast
            then show "found maps name cur limit l" by (rule found_later) simp
          qed
        next
          case (Some l')
          with True \<open>maps cur = Some m\<close> "1.prems" have "l = l'" by (simp add: answer_loop.simps)
          with True Some \<open>maps cur = Some m\<close> show ?thesis by (auto simp: found_def)
        qed
      qed
    qed
  qed
  then show "l = CServiceMap_CServiceList_Clear \<or> found maps name cur limit l"
    "\<lbrakk>\<forall>i. j \<le> i \<and> i < limit \<longrightarrow> (\<exists>m l. maps i = Some m \<and> sm_serviceMap m name = Some l);
      max cur j + 9 < limit\<rbrakk> \<Longrightarrow> found maps name cur limit l"
    by auto
qed

text \<open>
  A lookup finds a service the cache gets in time. When the connection is up after \<open>k\<close> polls of
  10 ms, and from poll \<open>j\<close> on the cache knows the name, \<open>getServices\<close> returns an entry the cache
  had during the call, as long as both come at least ten polls before the timeout: the loop
  that asks again skips ten polls at a time.
\<close>

theorem getServices_finds:
  assumes "0 \<le> timeoutSec" "int_fits (timeoutSec * 100)"
    and "wait_loop up 0 (nat (timeoutSec * 100)) = (True, k)"
    and "\<forall>i. j \<le> i \<and> i < timeoutSec * 100 \<longrightarrow> (\<exists>m l. maps i = Some m \<and> sm_serviceMap m name = Some l)"
    and "max (int k) j + 9 < timeoutSec * 100"
  shows "\<exists>l c'. getServices P half up maps name timeoutSec s c = Inr (l, s, c') \<and>
    (\<exists>i m. int k \<le> i \<and> i < timeoutSec * 100 \<and> maps i = Some m \<and> sm_serviceMap m name = Some l)"
proof -
  obtain l n where l: "answer_loop maps name (timeoutSec * 100) (int k) 0 = (l, n)" by force
  have "found maps name (int k) (timeoutSec * 100) l"
    by (rule answer_loop_result(2) [OF l assms(4,5)])
  with l assms(2,3) show ?thesis
    by (simp add: getServices_def chk_int_def found_def Let_def)
qed

theorem getServices_finds_witness:
  "\<exists>l c'. getServices ref_platform (\<lambda>_. CServiceMap_Clear) (\<lambda>i. i = 2)
     (\<lambda>i. if i < 50 then None else sample_table) ''log'' 1 (fresh_cache Map.empty) sample_register_client =
     Inr (l, fresh_cache Map.empty, c') \<and> CServiceList_service l = [new_service ''log'' ''10.0.0.7'' 80]"
proof -
  have w: "wait_loop (\<lambda>i. i = 2) 0 (nat (1 * 100)) = (True, 2)"
    by (simp add: eval_nat_numeral)
  have "\<exists>l c'. getServices ref_platform (\<lambda>_. CServiceMap_Clear) (\<lambda>i. i = 2)
     (\<lambda>i. if i < 50 then None else sample_table) ''log'' 1 (fresh_cache Map.empty) sample_register_client =
     Inr (l, fresh_cache Map.empty, c') \<and>
    (\<exists>i m. int 2 \<le> i \<and> i < 1 * 100 \<and> (if i < 50 then None else sample_table) = Some m \<and> sm_serviceMap m ''log'' = Some l)"
    by (rule getServices_finds [OF _ _ w, where j = 50]) (auto simp: int_fits_def sample_table_def)
  then show ?thesis by (auto simp: sample_table_def split: if_splits)
qed

text \<open>
  Without a connection a lookup finds nothing. When the connection does not come up within the
  timeout, \<open>getServices\<close> loads the cache from its file, as its comment announces, and then
  returns an empty list, whatever the cache lists for the name.
\<close>

theorem getServices_offline:
  assumes "int_fits (timeoutSec * 100)" "\<forall>i \<le> nat (timeoutSec * 100). \<not> up i"
    and "cache_file c = Inr f" "pbServiceMap s = None" "disk s f = Some bytes"
    and "CServiceMap_ParseFromArray (p_protobuf P) bytes = Some m"
  shows "\<exists>s'. getServices P half up maps name timeoutSec s c = Inr (CServiceMap_CServiceList_Clear, s', c) \<and>
    pbServiceMap s' = Some m"
proof -
  obtain k where "wait_loop up 0 (nat (timeoutSec * 100)) = (False, k)"
    using wait_loop_result [of up 0 "nat (timeoutSec * 100)"] assms(2)
    by (metis add_0 surj_pair)
  with assms(1,3-6) show ?thesis
    by (simp add: getServices_def chk_int_def loadLocalFile_def Let_def)
qed

theorem getServices_offline_witness:
  "\<exists>s' f. cache_file sample_register_client = Inr f \<and>
    getServices ref_platform (\<lambda>_. CServiceMap_Clear) (\<lambda>_. False) (\<lambda>_. None) ''log'' 1
     (fresh_cache [f \<mapsto> CServiceMap_Serialize key_order sample_answer]) sample_register_client =
     Inr (CServiceMap_CServiceList_Clear, s', sample_register_client) \<and> pbServiceMap s' = Some sample_answer"
proof -
  obtain f where f: "cache_file sample_register_client = Inr f" using sample_cache_file by blast
  have p: "CServiceMap_ParseFromArray (p_protobuf ref_platform) (CServiceMap_Serialize key_order sample_answer) =
      Some sample_answer"
    using ref.CServiceMap_roundtrip [OF sample_answer_wf sample_answer_keys] by simp
  have "\<exists>s'. getServices ref_platform (\<lambda>_. CServiceMap_Clear) (\<lambda>_. False) (\<lambda>_. None) ''log'' 1
     (fresh_cache [f \<mapsto> CServiceMap_Serialize key_order sample_answer]) sample_register_client =
     Inr (CServiceMap_CServiceList_Clear, s', sample_register_client) \<and> pbServiceMap s' = Some sample_answer"
    by (rule getServices_offline [OF _ _ f _ _ p]) (simp_all add: int_fits_def fresh_cache_def)
  with f show ?thesis by blast
qed

text \<open>
  Where the client registers. With a name of at most 31 and an address of at most 15 bytes,
  \<open>registerServer\<close> queues the client on a thread of its pool, to connect by itself and to send
  a heartbeat every three seconds, and fills in the default centre where none is set. A longer
  name is written past the end of its array.
\<close>

theorem registerServer_starts:
  assumes "NUL \<notin> set name" "NUL \<notin> set ip" "length ip < 16" "length (rc_serviceName c) = 32"
    and "length (rc_serviceIp c) = 16" "cc_threadPool c = Some CCThreadPool_new"
  shows "if length name < 32 then
      (\<exists>w' s' c'. registerServer P half os b this (Some name) port (Some ip) w s c = Inr (w', s', c') \<and>
        c_str (rc_serviceName c') = Inr name \<and> c_str (rc_serviceIp c') = Inr ip \<and> rc_servicePort c' = port \<and>
        m_autoConnect c' \<and> \<not> m_autoDelete c' \<and> m_timerMs c' = 3000 \<and> 0 < m_serverPort c' \<and>
        m_serverIp c' = (if m_serverIp c ! 0 = NUL then strncpy 16 ''127.0.0.1'' else m_serverIp c) \<and>
        th_tasks (w_allThreads w' ! length (w_allThreads w)) = [this] \<and> pbServiceMap s' \<noteq> None)
    else registerServer P half os b this (Some name) port (Some ip) w s c = Inl OutOfBounds"
proof (cases "length name < 32")
  case False
  with assms(1) show ?thesis by (simp add: registerServer_def strcpy_def takeWhile_neq_all Let_def)
next
  case True
  obtain name' ip' where n: "strcpy 32 (rc_serviceName c) name = Inr name'" "c_str name' = Inr name"
    "strcpy 16 (rc_serviceIp c) ip = Inr ip'" "c_str ip' = Inr ip"
    using c_str_strcpy [OF assms(1) True, of "rc_serviceName c"] c_str_strcpy [OF assms(2,3), of "rc_serviceIp c"]
    by (auto simp: bind_ub_Inr_iff)
  define c1 where "c1 = (let c = c\<lparr>rc_serviceName := name', rc_serviceIp := ip', rc_servicePort := port\<rparr>;
    c = (setAutoConnect True c)\<lparr>m_timerMs := 3000\<rparr>;
    c = (if m_serverIp c ! 0 = NUL then setServerIp ''127.0.0.1'' c else c) in
    if m_serverPort c \<le> 0 then c\<lparr>m_serverPort := REGISTER_PORT\<rparr> else c)"
  have c1: "rc_serviceName c1 = name'" "rc_serviceIp c1 = ip'" "rc_servicePort c1 = port" "m_autoConnect c1"
    "m_timerMs c1 = 3000" "0 < m_serverPort c1" "cc_threadPool c1 = Some CCThreadPool_new"
    "m_serverIp c1 = (if m_serverIp c ! 0 = NUL then strncpy 16 ''127.0.0.1'' else m_serverIp c)"
    using assms(6) by (auto simp: c1_def Let_def setAutoConnect_def setServerIp_def REGISTER_PORT_def)
  obtain w0 pool where i: "pool_init os (int 1) w CCThreadPool_new = (w0, pool)" by force
  note p = pool_init_ok [OF zero_less_one i]
  have r: "tp_threads pool ! 0 = length (w_allThreads w)" "tp_lastThread pool = - 1" using p(2,3) by simp_all
  let ?r = "length (w_allThreads w)"
  obtain base w' pool' where d: "dispatch b (Some this) w0 pool = Inr (base, w', pool')"
    "th_tasks (w_allThreads w' ! ?r) = [this]"
    using dispatch_ok(1) [OF p(1), of b this] dispatch_ok(3) [OF p(1)] p(4) [of 0] r by (simp add: addTask_def activate_def)
  let ?c' = "c1\<lparr>m_base := base, cc_threadPool := Some pool', m_autoDelete := False\<rparr>"
  have st: "startConnect os b this w c1 = Inr (w', ?c')"
    using i d(1) c1(7) by (simp add: startConnect_def deref_def)
  obtain f where f: "cache_file ?c' = Inr f" using n c1(1,2) by (simp add: cache_file_def)
  obtain ok s' where l: "loadLocalFile (p_protobuf P) half ?c' s = Inr (ok, s')" "pbServiceMap s' \<noteq> None"
    using f by (cases "disk s f"; cases "pbServiceMap s") (auto simp: loadLocalFile_def Let_def)
  have "registerServer P half os b this (Some name) port (Some ip) w s c = Inr (w', s', ?c')"
    using n st l(1) unfolding c1_def registerServer_def by (simp add: Let_def)
  with True n c1 d(2) l(2) show ?thesis by simp
qed

theorem registerServer_starts_witness:
  "\<exists>w' s' c'. registerServer ref_platform (\<lambda>_. CServiceMap_Clear) (\<lambda>_. (Some (3, 4), Some 0)) True 4
      (Some ''log'') 80 (Some ''10.0.0.7'') empty_world (fresh_cache Map.empty) sample_register_client =
      Inr (w', s', c') \<and> c_str (rc_serviceName c') = Inr ''log'' \<and> th_tasks (w_allThreads w' ! 0) = [4]"
proof -
  have l: "length (rc_serviceName sample_register_client) = 32" "length (rc_serviceIp sample_register_client) = 16"
    "cc_threadPool sample_register_client = Some CCThreadPool_new"
    by (simp_all add: sample_register_client_def CRegisterClient_new_def CRegisterClient.defs CServiceClient.defs CMsgEvent.defs
        CComeTask.defs CMsgEvent_new_def)
  have n: "NUL \<notin> set ''log''" "NUL \<notin> set ''10.0.0.7''" "length ''10.0.0.7'' < 16" by (simp_all add: NUL_def)
  show ?thesis
    using registerServer_starts [OF n l, where P = ref_platform and half = "\<lambda>_. CServiceMap_Clear"
        and os = "\<lambda>_. (Some (3, 4), Some 0)" and b = True and this = 4 and port = 80 and w = empty_world
        and s = "fresh_cache Map.empty"]
    by (simp add: empty_world_def) blast
qed

end
