(* ===== verification/Proxy.thy ===== *)
theory Proxy
  imports Service MsgEvent_Props Msg_ServiceMap
begin

text \<open>
  The message gateway, \<open>cmsgateway/\<close>: the proxy keeps connections to every service, forwards
  the requests of its clients to them round robin, and routes the answers back by the
  \<open>msg_id\<close> of the head, which is the address of the client's connection object.

  The state holds the members of the one \<open>CServiceProxy\<close> and what it points to or calls: the
  \<open>CServiceProxyClient\<close>s by their position in \<open>clients\<close>, which only grows, the live
  \<open>CRouterHandle\<close>s in \<open>routers\<close>, by address, the threads and the factory of the pools. The mutexes bracket whole operations; log output
  is left out.
\<close>

section \<open>CServiceProxyClient\<close>

type_synonym address = int64

record 'b CServiceProxyClient = "'b CServiceClient" +
  callbackTasks :: "address \<rightharpoonup> address"

record 'b gateway =
  clientMap :: "string \<rightharpoonup> nat list"
  clientMapLastIdx :: "string \<rightharpoonup> int"
  clientCbs :: "address \<rightharpoonup> nat"
  clients :: "'b CServiceProxyClient list"
  routers :: "address \<rightharpoonup> 'b CMsgEvent"
  gw_world :: world
  gw_factory :: factory

definition regEvent :: "address \<Rightarrow> 'b CServiceProxyClient \<Rightarrow> 'b CServiceProxyClient" where
  "regEvent ev c = c\<lparr>callbackTasks := (callbackTasks c)(ev \<mapsto> ev)\<rparr>"

definition client_delEvent :: "address \<Rightarrow> 'b CServiceProxyClient \<Rightarrow> 'b CServiceProxyClient" where
  "client_delEvent ev c = c\<lparr>callbackTasks := (callbackTasks c)(ev := None)\<rparr>"

definition client_sendMsg ::
    "'b platform \<Rightarrow> CMsgHead \<Rightarrow> CMsg \<Rightarrow> address \<Rightarrow> 'b CServiceProxyClient \<Rightarrow>
     bool \<times> CMsgHead option \<times> 'b CServiceProxyClient" where
  "client_sendMsg P head msg ev c =
     (let c = regEvent ev c;
          head = head\<lparr>msg_id := ev\<rparr> in
      sendMsg P (Some head) (Some msg) c)"

text \<open>The answer of a service, to the connection registered under its \<open>msg_id\<close>.\<close>

definition client_readCb ::
    "'b platform \<Rightarrow> CMsgHead option \<Rightarrow> CMsg option \<Rightarrow> nat \<Rightarrow> 'b gateway \<Rightarrow>
     (CMsgHead option \<times> 'b gateway) checked" where
  "client_readCb P head msg this g =
     (case (head, msg) of
        (Some h, Some m) \<Rightarrow>
          bind_ub (vec_at (clients g) (int this)) (\<lambda>c.
          case callbackTasks c (msg_id h) of
            None \<Rightarrow> Inr (head, g)
          | Some ev \<Rightarrow> (case routers g ev of
              None \<Rightarrow> Inl UseAfterFree
            | Some r \<Rightarrow> (case sendMsg P head msg r of
                (_, head, r) \<Rightarrow> Inr (head, g\<lparr>routers := (routers g)(ev \<mapsto> r)\<rparr>))))
      | _ \<Rightarrow> Inr (head, g))"

section \<open>CServiceProxy\<close>

text \<open>
  The loop of \<open>sendMsg\<close> over the connections of a service, from the index after the last; it
  gives the connection it finds and the index it leaves.
\<close>

fun find_connected ::
    "nat \<Rightarrow> nat list \<Rightarrow> 'b CServiceProxyClient list \<Rightarrow> int \<Rightarrow> (nat option \<times> int) checked" where
  "find_connected 0 list cs curIdx = Inr (None, curIdx)"
| "find_connected (Suc n) list cs curIdx =
     bind_ub (chk_int (curIdx + 1)) (\<lambda>curIdx.
     bind_ub (c_mod curIdx (int (length list))) (\<lambda>curIdx.
     bind_ub (vec_at list curIdx) (\<lambda>r.
     bind_ub (vec_at cs (int r)) (\<lambda>client.
     if m_isConnected client then Inr (Some r, curIdx)
     else find_connected n list cs curIdx))))"

definition proxy_sendMsg ::
    "'b platform \<Rightarrow> CMsgHead option \<Rightarrow> CMsg option \<Rightarrow> address \<Rightarrow> 'b gateway \<Rightarrow>
     (bool \<times> CMsgHead option \<times> 'b gateway) checked" where
  "proxy_sendMsg P head msg ev g =
     (case (head, msg) of
        (Some h, Some m) \<Rightarrow>
          let serviceName = service_name h in
          (case clientMap g serviceName of
             None \<Rightarrow> Inr (False, head, g)
           | Some list \<Rightarrow>
               let curIdx = (case clientMapLastIdx g serviceName of None \<Rightarrow> 0 | Some i \<Rightarrow> i) in
               bind_ub (find_connected (length list) list (clients g) curIdx) (\<lambda>(found, curIdx).
               let g = g\<lparr>clientMapLastIdx := (clientMapLastIdx g)(serviceName \<mapsto> curIdx)\<rparr> in
               case found of
                 None \<Rightarrow> Inr (False, head, g)
               | Some r \<Rightarrow>
                   let g = g\<lparr>clientCbs := (clientCbs g)(ev \<mapsto> r)\<rparr> in
                   (case client_sendMsg P h m ev (clients g ! r) of
                      (ok, head, c) \<Rightarrow> Inr (ok, head, g\<lparr>clients := (clients g)[r := c]\<rparr>))))
      | _ \<Rightarrow> Inr (False, head, g))"

text \<open>A null pointer is address 0. For an unknown event the end iterator is dereferenced.\<close>

definition proxy_delEvent :: "address \<Rightarrow> 'b gateway \<Rightarrow> 'b gateway checked" where
  "proxy_delEvent ev g =
     (if ev = 0 then Inr g
      else bind_ub (deref (clientCbs g ev)) (\<lambda>r.
        bind_ub (vec_at (clients g) (int r)) (\<lambda>c.
        Inr (g\<lparr>clients := (clients g)[r := client_delEvent ev c]\<rparr>))))"

section \<open>Connecting to the services\<close>

definition API_GATEWAY_NAME :: string where "API_GATEWAY_NAME = ''GW''"

text \<open>
  \<open>mainFunc\<close> looks for a connection to an address and port, and adds one where there is none.
  The result \<open>None\<close> is a call that never returns: the constructor of the new object asks the
  factory for a pool. \<open>os\<close>, \<open>written\<close> and \<open>sigpipe_ok\<close> are the results of the system calls.
\<close>

fun has_connection ::
    "'b CServiceProxyClient list \<Rightarrow> string \<Rightarrow> int \<Rightarrow> nat list \<Rightarrow> bool checked" where
  "has_connection cs ip port [] = Inr False"
| "has_connection cs ip port (r # rs) =
     bind_ub (vec_at cs (int r)) (\<lambda>c.
     bind_ub (c_str (m_serverIp c)) (\<lambda>serverIp.
     if ip = serverIp \<and> port = m_serverPort c then Inr True else has_connection cs ip port rs))"

record system =
  sys_thread :: "int \<Rightarrow> (int \<times> int) option \<times> nat option"
  sys_written :: bool
  sys_sigpipe :: bool

definition CServiceProxyClient_new ::
    "bool \<Rightarrow> factory \<Rightarrow> ('b CServiceProxyClient \<times> factory) option" where
  "CServiceProxyClient_new sigpipe_ok f = map_option (\<lambda>(pool, f).
     (CServiceClient.extend (CMsgEvent.extend CMsgEvent_new (CServiceClient.fields pool))
        (CServiceProxyClient.fields Map.empty), f)) (pool_create sigpipe_ok f)"

definition bind_call :: "'a checked option \<Rightarrow> ('a \<Rightarrow> 'c checked option) \<Rightarrow> 'c checked option" where
  "bind_call m f = (case m of None \<Rightarrow> None | Some (Inl u) \<Rightarrow> Some (Inl u) | Some (Inr x) \<Rightarrow> f x)"

definition add_connection ::
    "system \<Rightarrow> string \<Rightarrow> CServiceMap_CService \<Rightarrow> 'b gateway \<Rightarrow> 'b gateway checked option" where
  "add_connection sys serviceName s g =
     (let g = (if clientMap g serviceName = None
               then g\<lparr>clientMap := (clientMap g)(serviceName \<mapsto> [])\<rparr> else g);
          list = the (clientMap g serviceName) in
      bind_call (Some (has_connection (clients g) (CService_ip s) (sint (CService_port s)) list)) (\<lambda>isFind.
      if isFind then Some (Inr g)
      else Option.bind (CServiceProxyClient_new (sys_sigpipe sys) (gw_factory g)) (\<lambda>(proxy, f).
        let this = length (clients g);
            proxy = setServerIp (CService_ip s) proxy;
            proxy = proxy\<lparr>m_serverPort := sint (CService_port s)\<rparr>;
            proxy = proxy\<lparr>m_autoDelete := False\<rparr> in
        Some (bind_ub (startConnect (sys_thread sys) (sys_written sys) this (gw_world g) proxy) (\<lambda>(w, proxy).
          Inr (g\<lparr>clients := clients g @ [proxy], gw_world := w, gw_factory := f,
                 clientMap := (clientMap g)(serviceName \<mapsto> list @ [this]),
                 clientMapLastIdx := (clientMapLastIdx g)(serviceName \<mapsto> 0)\<rparr>))))))"

fun for_each :: "('x \<Rightarrow> 's \<Rightarrow> 's checked option) \<Rightarrow> 'x list \<Rightarrow> 's \<Rightarrow> 's checked option" where
  "for_each f [] s = Some (Inr s)"
| "for_each f (x # xs) s = bind_call (f x s) (for_each f xs)"

definition add_connections ::
    "(service_map \<Rightarrow> string list) \<Rightarrow> system \<Rightarrow> CServiceMap \<Rightarrow> 'b gateway \<Rightarrow> 'b gateway checked option" where
  "add_connections order sys m = for_each (\<lambda>serviceName.
     if serviceName = API_GATEWAY_NAME then (\<lambda>g. Some (Inr g))
     else for_each (add_connection sys serviceName)
       (CServiceList_service (the (sm_serviceMap m serviceName)))) (order (sm_serviceMap m))"

definition reconnect :: "'b libevent \<Rightarrow> nat \<Rightarrow> 'b gateway \<Rightarrow> 'b gateway checked option" where
  "reconnect le r g = Some (bind_ub (vec_at (clients g) (int r)) (\<lambda>c.
     if m_isConnected c then Inr g
     else if \<not> m_isConnecting c then
       bind_ub (connect le c) (\<lambda>(_, c). Inr (g\<lparr>clients := (clients g)[r := c]\<rparr>))
     else Inr g))"

text \<open>
  One pass of the loop, with what \<open>getAllService\<close> gives; \<open>keys\<close> is the iteration order of
  \<open>clientMap\<close>, which is copied for the loop.
\<close>

definition proxy_mainFunc_pass ::
    "'b libevent \<Rightarrow> (service_map \<Rightarrow> string list) \<Rightarrow> ((string \<rightharpoonup> nat list) \<Rightarrow> string list) \<Rightarrow> system \<Rightarrow>
     CServiceMap option \<Rightarrow> 'b gateway \<Rightarrow> 'b gateway checked option" where
  "proxy_mainFunc_pass le order keys sys serviceMap g =
     (case serviceMap of None \<Rightarrow> Some (Inr g)
      | Some m \<Rightarrow> bind_call (add_connections order sys m g) (\<lambda>g.
          for_each (\<lambda>name. for_each (reconnect le) (the (clientMap g name))) (keys (clientMap g)) g))"

section \<open>CRouterHandle, CRouterServer\<close>

text \<open>\<open>readCb\<close> of a router handle at \<open>this\<close>; the result of \<open>sendMsg\<close> is ignored.\<close>

definition router_readCb ::
    "'b platform \<Rightarrow> CMsgHead \<Rightarrow> CMsg \<Rightarrow> address \<Rightarrow> 'b gateway \<Rightarrow> (CMsgHead \<times> 'b gateway) checked" where
  "router_readCb P head msg this g =
     bind_ub (proxy_sendMsg P (Some head) (Some msg) this g) (\<lambda>(_, h, g). Inr (the h, g))"

text \<open>
  An event of the connection of a router handle: \<open>eventCb\<close> releases the bufferevent with
  \<open>closeBev\<close> and deletes the object. Nothing calls the \<open>close\<close> of the class.
\<close>

definition router_eventCb :: "16 word \<Rightarrow> address \<Rightarrow> 'b gateway \<Rightarrow> 'b gateway checked" where
  "router_eventCb what this g =
     (case routers g this of None \<Rightarrow> Inl UseAfterFree
      | Some r \<Rightarrow> bind_ub (eventCb Inr what r) (\<lambda>r.
          Inr (g\<lparr>routers := (routers g)(this := if deleted r then None else Some r)\<rparr>)))"

text \<open>\<open>close\<close>: the connection first, which may delete the object, then the callbacks.\<close>

definition router_close :: "address \<Rightarrow> 'b gateway \<Rightarrow> 'b gateway checked" where
  "router_close this g =
     (case routers g this of None \<Rightarrow> Inl UseAfterFree
      | Some r \<Rightarrow> bind_ub (CMsgEvent_close r) (\<lambda>r.
          proxy_delEvent this (g\<lparr>routers := (routers g)(this := if deleted r then None else Some r)\<rparr>)))"

text \<open>
  The configuration is a parameter. The context is set whatever \<open>initServer\<close> returns, and is
  kept as whether there is one; a server that has one keeps it.
\<close>

definition router_createServiceHandle :: "(string \<Rightarrow> bool) \<Rightarrow> 'a CService_scheme \<Rightarrow> 'b CMsgEvent \<times> 'a CService_scheme" where
  "router_createServiceHandle getBool s =
     (let router = CMsgEvent_new;
          isSSL = getBool ''isSSL'' in
      if \<not> isSSL then (router, s)
      else if sv_sslCtx s then (router, s)
      else (router, s\<lparr>sv_sslCtx := True\<rparr>))"

end
