(* ===== verification/Proxy_Props.thy ===== *)
theory Proxy_Props
  imports Proxy
begin

text \<open>
  What the gateway guarantees: a request goes to one connected service of its name, round
  robin; the answer goes back to the connection that asked; the proxy keeps one connection per
  address and port. And where it does not: events that end.
\<close>

section \<open>The search for a connection\<close>

definition connected :: "'b CServiceProxyClient list \<Rightarrow> nat \<Rightarrow> bool" where
  "connected cs r \<longleftrightarrow> m_isConnected (cs ! r)"

definition list_ok :: "'b CServiceProxyClient list \<Rightarrow> nat list \<Rightarrow> bool" where
  "list_ok cs l \<longleftrightarrow> (\<forall>r \<in> set l. r < length cs) \<and> length l < 2 ^ 31"

lemma find_connected_step:
  assumes "list_ok cs l" "l \<noteq> []" "0 \<le> i" "i < int (length l)"
  defines "j \<equiv> (i + 1) mod int (length l)"
  shows "find_connected (Suc n) l cs i =
    (if connected cs (l ! nat j) then Inr (Some (l ! nat j), j) else find_connected n l cs j)"
    and "0 \<le> j" "j < int (length l)"
proof -
  have len: "0 < int (length l)" using assms(2) by simp
  show j: "0 \<le> j" "j < int (length l)" using len by (simp_all add: j_def)
  have "chk_int (i + 1) = Inr (i + 1)" using assms by (simp add: chk_int_def int_fits_def list_ok_def)
  moreover have "c_mod (i + 1) (int (length l)) = Inr j"
    using assms(3) len by (simp add: j_def c_mod_nonneg)
  moreover have "vec_at l j = Inr (l ! nat j)"
    using vec_at_nat [of "nat j" l] j by (simp add: nat_less_iff)
  moreover have "vec_at cs (int (l ! nat j)) = Inr (cs ! (l ! nat j))"
    using assms(1) j by (intro vec_at_nat) (simp add: list_ok_def nat_less_iff)
  ultimately show "find_connected (Suc n) l cs i =
    (if connected cs (l ! nat j) then Inr (Some (l ! nat j), j) else find_connected n l cs j)"
    by (simp add: connected_def)
qed

text \<open>
  The first connection in cyclic order after the last index, or none when the whole list was
  searched; then the index has gone round.
\<close>

lemma find_connected_spec:
  assumes "list_ok cs l" "l \<noteq> []" "0 \<le> i" "i < int (length l)"
  shows "find_connected n l cs i =
    (case find (\<lambda>k. connected cs (l ! nat ((i + 1 + int k) mod int (length l)))) [0..<n] of
       None \<Rightarrow> Inr (None, (i + int n) mod int (length l))
     | Some k \<Rightarrow> let j = (i + 1 + int k) mod int (length l) in Inr (Some (l ! nat j), j))"
  using assms(3,4)
proof (induction n arbitrary: i)
  case 0
  then show ?case by simp
next
  case (Suc n)
  let ?j = "(i + 1) mod int (length l)"
  note step = find_connected_step [OF assms(1,2) Suc.prems]
  have shift: "(?j + 1 + int k) mod int (length l) = (i + 1 + int (Suc k)) mod int (length l)" for k
    using mod_next [of "i + 1" "int (length l)" "int k"] by (simp add: algebra_simps)
  have find_map: "find p (map f xs) = map_option f (find (p \<circ> f) xs)" for p :: "nat \<Rightarrow> bool" and f :: "nat \<Rightarrow> nat" and xs
    by (induction xs) auto
  have up: "[0..<Suc n] = 0 # map Suc [0..<n]" by (simp add: upt_conv_Cons map_Suc_upt del: upt_Suc)
  have "(?j + int n) mod int (length l) = (i + int (Suc n)) mod int (length l)"
    unfolding mod_add_left_eq by (simp add: algebra_simps)
  then show ?case
    unfolding step(1) up Suc.IH [OF step(2,3)] shift
    by (auto simp: find_map comp_def Let_def algebra_simps split: option.split)
qed

text \<open>The state of a service's list in the gateway.\<close>

definition last_idx :: "'b gateway \<Rightarrow> string \<Rightarrow> int" where
  "last_idx g name = (case clientMapLastIdx g name of None \<Rightarrow> 0 | Some i \<Rightarrow> i)"

definition service_list :: "'b gateway \<Rightarrow> string \<Rightarrow> nat list" where
  "service_list g name = (case clientMap g name of None \<Rightarrow> [] | Some l \<Rightarrow> l)"

definition route_ok :: "'b gateway \<Rightarrow> string \<Rightarrow> bool" where
  "route_ok g name \<longleftrightarrow> list_ok (clients g) (service_list g name) \<and> 0 \<le> last_idx g name \<and>
     (service_list g name \<noteq> [] \<longrightarrow> last_idx g name < int (length (service_list g name)))"

definition next_connected :: "'b gateway \<Rightarrow> string \<Rightarrow> int option" where
  "next_connected g name =
     map_option (\<lambda>k. (last_idx g name + 1 + int k) mod int (length (service_list g name)))
       (find (\<lambda>k. connected (clients g) (service_list g name !
           nat ((last_idx g name + 1 + int k) mod int (length (service_list g name)))))
         [0..<length (service_list g name)])"

lemma route_ok_set_idx:
  assumes "route_ok g name" "0 \<le> i" "service_list g name \<noteq> [] \<Longrightarrow> i < int (length (service_list g name))"
  shows "route_ok (g\<lparr>clientMapLastIdx := (clientMapLastIdx g)(name \<mapsto> i)\<rparr>) name"
  using assms by (simp add: route_ok_def service_list_def last_idx_def)

lemma proxy_sendMsg_none:
  assumes "route_ok g (service_name h)" "next_connected g (service_name h) = None"
  shows "\<exists>idx. proxy_sendMsg P (Some h) (Some m) ev g = Inr (False, Some h, g\<lparr>clientMapLastIdx := idx\<rparr>) \<and>
    route_ok (g\<lparr>clientMapLastIdx := idx\<rparr>) (service_name h)"
proof (cases "clientMap g (service_name h)")
  case None
  with assms(1) show ?thesis
    by (intro exI [of _ "clientMapLastIdx g"]) (simp add: proxy_sendMsg_def)
next
  case (Some l)
  let ?i = "last_idx g (service_name h)"
  have l: "service_list g (service_name h) = l" using Some by (simp add: service_list_def)
  have "\<exists>j. find_connected (length l) l (clients g) ?i = Inr (None, j) \<and> 0 \<le> j \<and> (l \<noteq> [] \<longrightarrow> j < int (length l))"
  proof (cases "l = []")
    case True
    with assms(1) show ?thesis by (simp add: route_ok_def)
  next
    case False
    then have "0 < int (length l)" by simp
    then have "0 \<le> (?i + int (length l)) mod int (length l) \<and> (?i + int (length l)) mod int (length l) < int (length l)"
      by (simp only: pos_mod_sign pos_mod_bound)
    moreover have "find_connected (length l) l (clients g) ?i = Inr (None, (?i + int (length l)) mod int (length l))"
      using find_connected_spec [of "clients g" l ?i "length l"] assms l False
      by (simp add: route_ok_def next_connected_def)
    ultimately show ?thesis by blast
  qed
  then obtain j where "find_connected (length l) l (clients g) ?i = Inr (None, j)"
    "0 \<le> j" "l \<noteq> [] \<Longrightarrow> j < int (length l)" by blast
  with Some l route_ok_set_idx [OF assms(1), of j] show ?thesis
    by (auto simp: proxy_sendMsg_def Let_def last_idx_def)
qed

lemma proxy_sendMsg_some:
  assumes "route_ok g (service_name h)" "next_connected g (service_name h) = Some j"
  defines "r \<equiv> service_list g (service_name h) ! nat j"
  shows "proxy_sendMsg P (Some h) (Some m) ev g =
      (case client_sendMsg P h m ev (clients g ! r) of (ok, head, c) \<Rightarrow>
         Inr (ok, head, g\<lparr>clientMapLastIdx := (clientMapLastIdx g)(service_name h \<mapsto> j),
           clientCbs := (clientCbs g)(ev \<mapsto> r), clients := (clients g)[r := c]\<rparr>))"
    and "r \<in> set (service_list g (service_name h))" "r < length (clients g)" "connected (clients g) r"
    and "0 \<le> j" "j < int (length (service_list g (service_name h)))"
proof -
  let ?l = "service_list g (service_name h)" and ?i = "last_idx g (service_name h)"
  from assms(2) obtain k where k: "find (\<lambda>k. connected (clients g) (?l ! nat ((?i + 1 + int k) mod int (length ?l))))
      [0..<length ?l] = Some k" "j = (?i + 1 + int k) mod int (length ?l)"
    by (auto simp: next_connected_def)
  have "k < length ?l" and c: "connected (clients g) r"
    using k by (auto simp: find_Some_iff r_def)
  then have ne: "?l \<noteq> []" by auto
  then have len: "0 < int (length ?l)" by simp
  then show j: "0 \<le> j" "j < int (length ?l)" by (simp_all add: k(2))
  from c show "connected (clients g) r" .
  show r: "r \<in> set ?l" using j by (simp add: r_def nat_less_iff)
  then show "r < length (clients g)" using assms(1) by (auto simp: route_ok_def list_ok_def)
  have cm: "clientMap g (service_name h) = Some ?l"
    using ne by (auto simp: service_list_def split: option.splits)
  have "find_connected (length ?l) ?l (clients g) ?i = Inr (Some r, j)"
    using find_connected_spec [of "clients g" ?l ?i "length ?l"] assms(1) ne k
    by (simp add: route_ok_def r_def Let_def)
  then show "proxy_sendMsg P (Some h) (Some m) ev g =
      (case client_sendMsg P h m ev (clients g ! r) of (ok, head, c) \<Rightarrow>
         Inr (ok, head, g\<lparr>clientMapLastIdx := (clientMapLastIdx g)(service_name h \<mapsto> j),
           clientCbs := (clientCbs g)(ev \<mapsto> r), clients := (clients g)[r := c]\<rparr>))"
    by (simp add: proxy_sendMsg_def Let_def cm last_idx_def case_prod_beta)
qed

lemma next_connected_iff:
  assumes "route_ok g name"
  shows "next_connected g name \<noteq> None \<longleftrightarrow> (\<exists>r \<in> set (service_list g name). connected (clients g) r)"
proof -
  let ?l = "service_list g name" and ?i = "last_idx g name"
  have "(\<exists>k < length ?l. connected (clients g) (?l ! nat ((?i + 1 + int k) mod int (length ?l)))) \<longleftrightarrow>
      (\<exists>q < length ?l. connected (clients g) (?l ! q))"
  proof
    assume "\<exists>k < length ?l. connected (clients g) (?l ! nat ((?i + 1 + int k) mod int (length ?l)))"
    then show "\<exists>q < length ?l. connected (clients g) (?l ! q)"
      by (metis gr_implies_not0 nat_less_iff of_nat_0_less_iff pos_mod_bound pos_mod_sign neq0_conv)
  next
    assume "\<exists>q < length ?l. connected (clients g) (?l ! q)"
    then obtain q where q: "q < length ?l" "connected (clients g) (?l ! q)" by blast
    let ?k = "nat ((int q - ?i - 1) mod int (length ?l))"
    have "0 < int (length ?l)" using q(1) by linarith
    then have k: "?k < length ?l" "int ?k = (int q - ?i - 1) mod int (length ?l)"
      by (simp_all add: nat_less_iff)
    have "(?i + 1 + int ?k) mod int (length ?l) = int q mod int (length ?l)"
      unfolding k(2) mod_add_right_eq by simp
    with q k(1) show "\<exists>k < length ?l. connected (clients g) (?l ! nat ((?i + 1 + int k) mod int (length ?l)))"
      by (intro exI [of _ ?k]) simp
  qed
  moreover have "next_connected g name \<noteq> None \<longleftrightarrow>
      (\<exists>k < length ?l. connected (clients g) (?l ! nat ((?i + 1 + int k) mod int (length ?l))))"
    by (auto simp: next_connected_def find_None_iff)
  ultimately show ?thesis by (metis in_set_conv_nth)
qed

lemma client_sendMsg_sel:
  assumes "client_sendMsg P h m ev c = (ok, head, c')"
  shows "callbackTasks c' = (callbackTasks c)(ev \<mapsto> ev)" "m_isConnected c' = m_isConnected c"
    "m_serverIp c' = m_serverIp c" "m_serverPort c' = m_serverPort c"
  using assms
  by (auto simp: client_sendMsg_def regEvent_def sendMsg_def writeMsg_def Let_def
      split: prod.splits option.splits if_splits)

text \<open>One request, on a gateway whose list for the service is in order.\<close>

lemma proxy_sendMsg_some_cases:
  assumes "route_ok g (service_name h)" "next_connected g (service_name h) = Some j"
    and "proxy_sendMsg P (Some h) (Some m) ev g = Inr (ok, head, g')"
  obtains r c where "r = service_list g (service_name h) ! nat j" "r < length (clients g)"
    "connected (clients g) r" "client_sendMsg P h m ev (clients g ! r) = (ok, head, c)"
    "g' = g\<lparr>clientMapLastIdx := (clientMapLastIdx g)(service_name h \<mapsto> j),
       clientCbs := (clientCbs g)(ev \<mapsto> r), clients := (clients g)[r := c]\<rparr>"
    "r \<in> set (service_list g (service_name h))" "0 \<le> j" "j < int (length (service_list g (service_name h)))"
proof -
  let ?r = "service_list g (service_name h) ! nat j"
  obtain ok' head' c where c: "client_sendMsg P h m ev (clients g ! ?r) = (ok', head', c)"
    by (cases "client_sendMsg P h m ev (clients g ! ?r)") auto
  note s = proxy_sendMsg_some [OF assms(1,2)]
  from s(1) [of P m ev] assms(3) c
  have "ok' = ok" "head' = head" "g' = g\<lparr>clientMapLastIdx := (clientMapLastIdx g)(service_name h \<mapsto> j),
       clientCbs := (clientCbs g)(ev \<mapsto> ?r), clients := (clients g)[?r := c]\<rparr>" by simp_all
  with c s(2-6) show thesis by (intro that [of ?r c]) simp_all
qed

lemma connected_upd:
  assumes "client_sendMsg P h m ev (cs ! r) = (ok, head, c)" "r < length cs"
  shows "connected (cs[r := c]) = connected cs"
  using client_sendMsg_sel(2) [OF assms(1)] assms(2)
  by (auto simp: connected_def fun_eq_iff nth_list_update)

section \<open>Round robin\<close>

text \<open>The gateway's choice, as the index it remembers, while every connection is up.\<close>

definition pick_service ::
    "'b platform \<Rightarrow> CMsgHead \<Rightarrow> CMsg \<Rightarrow> address \<Rightarrow> 'b gateway \<Rightarrow> (int \<times> 'b gateway) checked" where
  "pick_service P h m ev g = bind_ub (proxy_sendMsg P (Some h) (Some m) ev g) (\<lambda>(_, _, g).
     Inr (last_idx g (service_name h), g))"

definition all_connected :: "string \<Rightarrow> 'b gateway \<Rightarrow> bool" where
  "all_connected name g \<longleftrightarrow> route_ok g name \<and> service_list g name \<noteq> [] \<and>
     (\<forall>r \<in> set (service_list g name). connected (clients g) r)"

lemma pick_service_next:
  assumes "all_connected (service_name h) g"
  defines "name \<equiv> service_name h"
  defines "j \<equiv> (last_idx g name + 1) mod int (length (service_list g name))"
  shows "\<exists>g'. pick_service P h m ev g = Inr (j, g') \<and> last_idx g' name = j \<and>
    service_list g' name = service_list g name \<and> all_connected name g'"
proof -
  let ?l = "service_list g name"
  have ok: "route_ok g name" "?l \<noteq> []" "\<forall>r \<in> set ?l. connected (clients g) r"
    using assms(1) by (simp_all add: all_connected_def name_def)
  have len: "0 < int (length ?l)" using ok(2) by simp
  then have j: "0 \<le> j" "j < int (length ?l)" by (simp_all add: j_def)
  have "[0..<length ?l] = 0 # map Suc [0..<length ?l - 1]"
    using ok(2) by (metis length_greater_0_conv upt_conv_Cons map_Suc_upt Suc_diff_1)
  then have "find (\<lambda>k. connected (clients g) (?l ! nat ((last_idx g name + 1 + int k) mod int (length ?l))))
      [0..<length ?l] = Some 0"
    using ok(3) j by (simp add: j_def [symmetric] nat_less_iff)
  then have nx: "next_connected g (service_name h) = Some j"
    by (simp add: next_connected_def j_def name_def)
  let ?r = "?l ! nat j"
  obtain b head c where c: "client_sendMsg P h m ev (clients g ! ?r) = (b, head, c)"
    by (cases "client_sendMsg P h m ev (clients g ! ?r)") auto
  note s = proxy_sendMsg_some [OF ok(1) [unfolded name_def] nx, folded name_def]
  let ?g = "g\<lparr>clientMapLastIdx := (clientMapLastIdx g)(name \<mapsto> j),
       clientCbs := (clientCbs g)(ev \<mapsto> ?r), clients := (clients g)[?r := c]\<rparr>"
  have "proxy_sendMsg P (Some h) (Some m) ev g = Inr (b, head, ?g)"
    using s(1) [of P m ev] c by simp
  then have ch: "pick_service P h m ev g = Inr (j, ?g)"
    by (simp add: pick_service_def last_idx_def name_def)
  have sl: "service_list ?g name = ?l" "last_idx ?g name = j"
    by (simp_all add: service_list_def last_idx_def)
  have "connected (clients ?g) = connected (clients g)"
    using connected_upd [OF c s(3)] by simp
  then have "all_connected name ?g"
    using ok j unfolding all_connected_def route_ok_def sl by (simp add: list_ok_def)
  with ch sl show ?thesis by blast
qed

interpretation proxy_rr: round_robin "pick_service P h m ev" "\<lambda>g. last_idx g (service_name h)"
  "\<lambda>g. int (length (service_list g (service_name h)))" "all_connected (service_name h)"
  for P h m ev
proof
  fix g :: "'a gateway" assume ok: "all_connected (service_name h) g"
  then show "0 < int (length (service_list g (service_name h)))" by (simp add: all_connected_def)
  from pick_service_next [OF ok, of P m ev]
  show "\<exists>g'. pick_service P h m ev g =
      Inr ((last_idx g (service_name h) + 1) mod int (length (service_list g (service_name h))), g') \<and>
    last_idx g' (service_name h) = (last_idx g (service_name h) + 1) mod int (length (service_list g (service_name h))) \<and>
    int (length (service_list g' (service_name h))) = int (length (service_list g (service_name h))) \<and>
    all_connected (service_name h) g'" by force
qed

section \<open>Connections to the services\<close>

definition conn_endpoint :: "'b CServiceProxyClient list \<Rightarrow> nat \<Rightarrow> string checked \<times> int" where
  "conn_endpoint cs r = (c_str (m_serverIp (cs ! r)), m_serverPort (cs ! r))"

definition endpoints :: "'b gateway \<Rightarrow> string \<Rightarrow> (string checked \<times> int) set" where
  "endpoints g name = conn_endpoint (clients g) ` set (service_list g name)"

definition conns_ok :: "'b gateway \<Rightarrow> bool" where
  "conns_ok g \<longleftrightarrow> (\<forall>name. distinct (map (conn_endpoint (clients g)) (service_list g name)) \<and>
     (\<forall>r \<in> set (service_list g name). r < length (clients g) \<and>
        (\<exists>ip. c_str (m_serverIp (clients g ! r)) = Inr ip)))"

definition factory_ready :: "'b gateway \<Rightarrow> bool" where
  "factory_ready g \<longleftrightarrow> \<not> f_locked (gw_factory g) \<and> f_isInit (gw_factory g)"

text \<open>An address \<open>setServerIp\<close> can hold.\<close>

definition ip_ok :: "string \<Rightarrow> bool" where
  "ip_ok ip \<longleftrightarrow> NUL \<notin> set ip \<and> length ip < 16"

lemma has_connection_eq:
  assumes "\<forall>r \<in> set l. r < length cs \<and> (\<exists>ip. c_str (m_serverIp (cs ! r)) = Inr ip)"
  shows "has_connection cs ip port l = Inr ((Inr ip, port) \<in> conn_endpoint cs ` set l)"
  using assms by (induction l) (auto simp: conn_endpoint_def)

lemma startConnect_ok:
  assumes "cc_threadPool c = Some CCThreadPool_new"
  shows "\<exists>w' c'. startConnect os b this w c = Inr (w', c') \<and> m_serverIp c' = m_serverIp c \<and>
    m_serverPort c' = m_serverPort c"
proof -
  obtain w1 p1 where p: "pool_init os (int 1) w CCThreadPool_new = (w1, p1)" by force
  from dispatch_ok(1) [OF pool_init_ok(1) [OF _ p]] p assms show ?thesis
    by (simp add: startConnect_def)
qed

lemma CServiceProxyClient_new_sel:
  assumes "CServiceProxyClient_new sig f = Some (c, f')" "\<not> f_locked f" "f_isInit f"
  shows "cc_threadPool c = Some CCThreadPool_new" "f' = f"
  using assms by (auto simp: CServiceProxyClient_new_def pool_create_def CServiceClient.defs
      CServiceProxyClient.defs CMsgEvent.defs CComeTask.defs CMsgEvent_new_def)

lemma conn_endpoint_append:
  "r < length cs \<Longrightarrow> conn_endpoint (cs @ [c]) r = conn_endpoint cs r"
  by (simp add: conn_endpoint_def nth_append)

lemma add_connection_ok:
  fixes g :: "'b gateway"
  assumes "conns_ok g" "factory_ready g" "ip_ok (CService_ip s)"
  defines "e \<equiv> (Inr (CService_ip s), sint (CService_port s))"
  shows "\<exists>g'. add_connection sys name s g = Some (Inr g') \<and> conns_ok g' \<and> factory_ready g' \<and>
    endpoints g' = (endpoints g)(name := insert e (endpoints g name))"
proof -
  let ?g = "if clientMap g name = None then g\<lparr>clientMap := (clientMap g)(name \<mapsto> [])\<rparr> else g"
  have sl: "service_list ?g = service_list g" and rest: "clients ?g = clients g"
      "gw_factory ?g = gw_factory g" "gw_world ?g = gw_world g"
    by (auto simp: service_list_def fun_eq_iff)
  have cm: "the (clientMap ?g name) = service_list g name"
    by (auto simp: service_list_def split: option.split)
  have valid: "\<forall>r \<in> set (service_list g n). r < length (clients g) \<and>
      (\<exists>ip. c_str (m_serverIp (clients g ! r)) = Inr ip)" for n
    using assms(1) by (auto simp: conns_ok_def)
  have found: "has_connection (clients g) (CService_ip s) (sint (CService_port s)) (service_list g name) =
      Inr (e \<in> endpoints g name)"
    by (simp add: has_connection_eq [OF valid] e_def endpoints_def)
  show ?thesis
  proof (cases "e \<in> endpoints g name")
    case True
    then have "add_connection sys name s g = Some (Inr ?g)"
      using found unfolding add_connection_def Let_def cm rest by (simp add: bind_call_def)
    moreover have "endpoints ?g = endpoints g" by (rule ext) (simp only: endpoints_def sl rest)
    ultimately show ?thesis
      using assms(1,2) True by (auto simp: conns_ok_def factory_ready_def sl rest insert_absorb)
  next
    case False
    obtain c :: "'b CServiceProxyClient" and f' where
      new: "CServiceProxyClient_new (sys_sigpipe sys) (gw_factory g) = Some (c, f')"
      using assms(2) by (auto simp: factory_ready_def CServiceProxyClient_new_def pool_create_def)
    have c: "cc_threadPool c = Some CCThreadPool_new" "f' = gw_factory g"
      using CServiceProxyClient_new_sel [OF new] assms(2) by (simp_all add: factory_ready_def)
    let ?c = "(setServerIp (CService_ip s) c)\<lparr>m_serverPort := sint (CService_port s), m_autoDelete := False\<rparr>"
    have "cc_threadPool ?c = Some CCThreadPool_new" by (simp add: c setServerIp_def)
    from startConnect_ok [OF this] obtain w p where
      p: "startConnect (sys_thread sys) (sys_written sys) (length (clients g)) (gw_world g) ?c = Inr (w, p)"
        "m_serverIp p = m_serverIp ?c" "m_serverPort p = m_serverPort ?c" by blast
    let ?g' = "?g\<lparr>clients := clients g @ [p], gw_world := w, gw_factory := gw_factory g,
      clientMap := (clientMap ?g)(name \<mapsto> service_list g name @ [length (clients g)]),
      clientMapLastIdx := (clientMapLastIdx ?g)(name \<mapsto> 0)\<rparr>"
    have add: "add_connection sys name s g = Some (Inr ?g')"
      using found False new p(1) c(2) unfolding add_connection_def Let_def cm rest
      by (simp add: bind_call_def)
    have sl': "service_list ?g' = (service_list g)(name := service_list g name @ [length (clients g)])"
      by (auto simp: service_list_def fun_eq_iff)
    have ce: "conn_endpoint (clients g @ [p]) (length (clients g)) = e"
      using assms(3) p(2,3) by (simp add: conn_endpoint_def e_def ip_ok_def setServerIp_def c_str_strncpy)
    have old: "map (conn_endpoint (clients g @ [p])) (service_list g n) =
        map (conn_endpoint (clients g)) (service_list g n)" for n
      using valid [of n] by (auto simp: conn_endpoint_append)
    have ends: "set (map (conn_endpoint (clients g)) (service_list g n)) = endpoints g n" for n
      by (simp add: endpoints_def)
    have map': "map (conn_endpoint (clients ?g')) (service_list ?g' n) =
        map (conn_endpoint (clients g)) (service_list g n) @ (if n = name then [e] else [])" for n
      unfolding sl' using old [of n] ce by simp
    have "endpoints ?g' n = endpoints g n \<union> (if n = name then {e} else {})" for n
      using arg_cong [OF map' [of n], of set] ends [of n] by (simp add: endpoints_def)
    then have "endpoints ?g' = (endpoints g)(name := insert e (endpoints g name))"
      by (auto simp: fun_eq_iff)
    moreover have "distinct (map (conn_endpoint (clients ?g')) (service_list ?g' n))" for n
      unfolding map' using assms(1) False ends [of n] by (auto simp: conns_ok_def)
    moreover have "r < length (clients ?g') \<and> (\<exists>ip. c_str (m_serverIp (clients ?g' ! r)) = Inr ip)"
      if "r \<in> set (service_list ?g' n)" for r n
    proof (cases "r = length (clients g)")
      case True
      with ce show ?thesis by (simp add: conn_endpoint_def e_def)
    next
      case False
      with that sl' have "r \<in> set (service_list g n)" by (simp split: if_splits)
      with valid [of n] show ?thesis by (auto simp: nth_append)
    qed
    ultimately show ?thesis
      using add assms(2) unfolding conns_ok_def factory_ready_def by auto
  qed
qed

lemma for_each_abs:
  assumes "\<And>x s. x \<in> set xs \<Longrightarrow> I s \<Longrightarrow> \<exists>s'. f x s = Some (Inr s') \<and> I s' \<and> a s' = upd x (a s)"
    and "I s"
  shows "\<exists>s'. for_each f xs s = Some (Inr s') \<and> I s' \<and> a s' = fold upd xs (a s)"
  using assms
proof (induction xs arbitrary: s)
  case (Cons x xs)
  obtain s1 where s1: "f x s = Some (Inr s1)" "I s1" "a s1 = upd x (a s)"
    using Cons.prems(1) [of x s] Cons.prems(2) by auto
  obtain s2 where "for_each f xs s1 = Some (Inr s2)" "I s2" "a s2 = fold upd xs (a s1)"
    using Cons.IH [OF _ s1(2)] Cons.prems(1) by auto
  with s1 show ?case by (simp add: bind_call_def)
qed simp

definition service_endpoint :: "CServiceMap_CService \<Rightarrow> string checked \<times> int" where
  "service_endpoint s = (Inr (CService_ip s), sint (CService_port s))"

lemma add_services_ok:
  assumes "conns_ok g" "factory_ready g" "\<forall>s \<in> set l. ip_ok (CService_ip s)"
  shows "\<exists>g'. for_each (add_connection sys name) l g = Some (Inr g') \<and> (conns_ok g' \<and> factory_ready g') \<and>
    endpoints g' = (endpoints g)(name := endpoints g name \<union> service_endpoint ` set l)"
proof -
  let ?upd = "\<lambda>s E. E(name := insert (service_endpoint s) (E name))"
  have fold: "fold ?upd l E = E(name := E name \<union> service_endpoint ` set l)" for E :: "string \<Rightarrow> (string checked \<times> int) set"
    by (induction l arbitrary: E) (auto simp: fun_eq_iff)
  have "\<exists>g'. for_each (add_connection sys name) l g = Some (Inr g') \<and> (conns_ok g' \<and> factory_ready g') \<and>
      endpoints g' = fold ?upd l (endpoints g)"
  proof (rule for_each_abs)
    fix s g assume "s \<in> set l" "conns_ok g \<and> factory_ready g"
    with assms(3) show "\<exists>g'. add_connection sys name s g = Some (Inr g') \<and>
      (conns_ok g' \<and> factory_ready g') \<and> endpoints g' = ?upd s (endpoints g)"
      using add_connection_ok [of g s sys name] unfolding service_endpoint_def by simp
  qed (use assms in simp)
  then show ?thesis unfolding fold .
qed

definition names_services :: "CServiceMap \<Rightarrow> string \<Rightarrow> CServiceMap_CService list" where
  "names_services m name = CServiceList_service (the (sm_serviceMap m name))"

lemma add_connections_ok:
  assumes "conns_ok g" "factory_ready g"
    and "\<And>name s. name \<in> set (order (sm_serviceMap m)) \<Longrightarrow> s \<in> set (names_services m name) \<Longrightarrow> ip_ok (CService_ip s)"
  shows "\<exists>g'. add_connections order sys m g = Some (Inr g') \<and> (conns_ok g' \<and> factory_ready g') \<and>
    endpoints g' = (\<lambda>name. endpoints g name \<union>
      (if name \<in> set (order (sm_serviceMap m)) \<and> name \<noteq> API_GATEWAY_NAME
       then service_endpoint ` set (names_services m name) else {}))"
proof -
  let ?upd = "\<lambda>name E. if name = API_GATEWAY_NAME then E
    else E(name := E name \<union> service_endpoint ` set (names_services m name))"
  have fold: "fold ?upd ns E = (\<lambda>name. E name \<union> (if name \<in> set ns \<and> name \<noteq> API_GATEWAY_NAME
      then service_endpoint ` set (names_services m name) else {}))" for ns E
    by (induction ns arbitrary: E) (auto simp: fun_eq_iff)
  have "\<exists>g'. add_connections order sys m g = Some (Inr g') \<and> (conns_ok g' \<and> factory_ready g') \<and>
      endpoints g' = fold ?upd (order (sm_serviceMap m)) (endpoints g)"
    unfolding add_connections_def
  proof (rule for_each_abs)
    fix name g assume n: "name \<in> set (order (sm_serviceMap m))" and g: "conns_ok g \<and> factory_ready g"
    show "\<exists>g'. (if name = API_GATEWAY_NAME then \<lambda>g. Some (Inr g)
        else for_each (add_connection sys name) (CServiceList_service (the (sm_serviceMap m name)))) g = Some (Inr g') \<and>
      (conns_ok g' \<and> factory_ready g') \<and> endpoints g' = ?upd name (endpoints g)"
      using g add_services_ok [of g "names_services m name" sys name] assms(3) [OF n]
      by (auto simp: names_services_def)
  qed (use assms in simp)
  then show ?thesis unfolding fold .
qed

section \<open>Forwarding\<close>

text \<open>
  A request is always routed or refused, never lost in an undefined state. On a gateway
  whose list for the service is in order, \<open>sendMsg\<close> succeeds in returning, keeps the list in
  order for the next request, and when no connection of the service is up it returns false and
  neither sends anything nor registers the caller.
\<close>

theorem routing_is_total:
  assumes "route_ok g (service_name h)"
  shows "\<exists>ok head g'. proxy_sendMsg P (Some h) (Some m) ev g = Inr (ok, head, g') \<and>
    route_ok g' (service_name h) \<and>
    ((\<forall>r \<in> set (service_list g (service_name h)). \<not> m_isConnected (clients g ! r)) \<longrightarrow>
       \<not> ok \<and> head = Some h \<and> clients g' = clients g \<and> clientCbs g' = clientCbs g)"
proof (cases "next_connected g (service_name h)")
  case None
  from proxy_sendMsg_none [OF assms None] show ?thesis by fastforce
next
  case (Some j)
  note p = proxy_sendMsg_some [OF assms Some]
  let ?r = "service_list g (service_name h) ! nat j"
  obtain ok head c where c: "client_sendMsg P h m ev (clients g ! ?r) = (ok, head, c)"
    by (cases "client_sendMsg P h m ev (clients g ! ?r)") auto
  let ?g = "g\<lparr>clientMapLastIdx := (clientMapLastIdx g)(service_name h \<mapsto> j),
    clientCbs := (clientCbs g)(ev \<mapsto> ?r), clients := (clients g)[?r := c]\<rparr>"
  have "proxy_sendMsg P (Some h) (Some m) ev g = Inr (ok, head, ?g)" using p(1) [of P m ev] c by simp
  moreover have "service_list ?g (service_name h) = service_list g (service_name h)"
    "last_idx ?g (service_name h) = j" by (simp_all add: service_list_def last_idx_def)
  then have "route_ok ?g (service_name h)"
    using assms p(5,6) unfolding route_ok_def by (simp add: list_ok_def)
  moreover have "\<exists>r \<in> set (service_list g (service_name h)). m_isConnected (clients g ! r)"
    using p(2,4) by (auto simp: connected_def)
  ultimately show ?thesis by blast
qed

end
