(* ===== verification/Routing.thy ===== *)
theory Routing
  imports Proxy_Props RegisterServer_Props
begin

text \<open>
  The path of a request through the gateway and of its answer back, and what happens to it when
  the connection that asked is gone.
\<close>

section \<open>A sample gateway\<close>

definition sample_client :: "bool \<Rightarrow> buffers CServiceProxyClient" where
  "sample_client up = (fst (the (CServiceProxyClient_new True \<lparr>f_locked = False, f_isInit = True\<rparr>)))
     \<lparr>m_bev := Some \<lparr>inbuf = [], outbuf = []\<rparr>, m_isConnected := up\<rparr>"

lemma sample_client_sel [simp]:
  "m_isConnected (sample_client up) = up" "m_bev (sample_client up) = Some \<lparr>inbuf = [], outbuf = []\<rparr>"
  "callbackTasks (sample_client up) = Map.empty"
  by (simp_all add: sample_client_def CServiceProxyClient_new_def pool_create_def CServiceProxyClient.defs
      CServiceClient.defs CMsgEvent.defs CComeTask.defs CMsgEvent_new_def)

text \<open>Two services: three connections to \<open>DIR\<close>, one of them down, and one to \<open>LOG\<close>.\<close>

definition sample_gateway :: "buffers gateway" where
  "sample_gateway = \<lparr>clientMap = [''DIR'' \<mapsto> [0, 1, 2], ''LOG'' \<mapsto> [3]],
     clientMapLastIdx = [''DIR'' \<mapsto> 0, ''LOG'' \<mapsto> 0], clientCbs = Map.empty,
     clients = [sample_client True, sample_client False, sample_client True, sample_client True],
     routers = [5 \<mapsto> CMsgEvent_new\<lparr>m_bev := Some \<lparr>inbuf = [], outbuf = []\<rparr>\<rparr>],
     gw_world = empty_world, gw_factory = \<lparr>f_locked = False, f_isInit = True\<rparr>\<rparr>"

definition request_head :: "string \<Rightarrow> CMsgHead" where
  "request_head name = CMsgHead_Clear\<lparr>msg_type := MSG_DIR_REQ, service_name := name\<rparr>"

definition body :: "string \<Rightarrow> CMsg" where
  "body d = CMsg_new\<lparr>m_data := Some d, m_size := int (length d)\<rparr>"

lemma request_head_sel [simp]: "service_name (request_head name) = name"
  by (simp add: request_head_def)

lemma body_sel [simp]: "m_data (body d) = Some d" "m_size (body d) = int (length d)"
  by (simp_all add: body_def)

lemma sample_lists [simp]:
  "service_list sample_gateway ''DIR'' = [0, 1, 2]" "service_list sample_gateway ''LOG'' = [3]"
  "last_idx sample_gateway ''DIR'' = 0" "last_idx sample_gateway ''LOG'' = 0"
  "clients sample_gateway = [sample_client True, sample_client False, sample_client True, sample_client True]"
  "clientCbs sample_gateway = Map.empty"
  by (simp_all add: sample_gateway_def service_list_def last_idx_def)

lemma sample_route_ok [simp]: "route_ok sample_gateway ''DIR''" "route_ok sample_gateway ''LOG''"
  by (simp_all add: route_ok_def list_ok_def)

theorem routing_is_total_witness:
  "\<exists>ok head g'. proxy_sendMsg ref_platform (Some (request_head ''DIR'')) (Some (body ''abc'')) 5 sample_gateway =
     Inr (ok, head, g') \<and> route_ok g' ''DIR''"
  using routing_is_total [of sample_gateway "request_head ''DIR''" ref_platform "body ''abc''" 5]
  unfolding request_head_sel using sample_route_ok(1) by blast

section \<open>Requests\<close>

text \<open>
  A request is forwarded to one connected service of its name. When \<open>sendMsg\<close> returns true,
  the frame with the request, whose \<open>msg_id\<close> is now the address of the caller, has been sent on
  one connection of the service, which was up; that connection knows the caller; nothing is
  sent on another connection, and the callers' connections are as they were.
\<close>

theorem request_is_forwarded:
  assumes "channel P inb outb" "route_ok g (service_name h)" "m_data m = Some d" "m_size m = int (length d)"
    and "proxy_sendMsg P (Some h) (Some m) ev g = Inr (True, head, g')"
  shows "\<exists>r \<in> set (service_list g (service_name h)). m_isConnected (clients g ! r) \<and>
    sent outb (clients g' ! r) = sent outb (clients g ! r) @
      frame (h\<lparr>msg_id := ev, msg_size := word_of_nat (length d)\<rparr>, d) \<and>
    callbackTasks (clients g' ! r) ev = Some ev \<and> clientCbs g' ev = Some r \<and>
    (\<forall>q. q \<noteq> r \<longrightarrow> clients g' ! q = clients g ! q) \<and> routers g' = routers g"
proof (cases "next_connected g (service_name h)")
  case None
  from proxy_sendMsg_none [OF assms(2) None, of P m ev] assms(5) show ?thesis by auto
next
  case (Some j)
  obtain r c where r: "r < length (clients g)" "connected (clients g) r"
    "client_sendMsg P h m ev (clients g ! r) = (True, head, c)"
    "g' = g\<lparr>clientMapLastIdx := (clientMapLastIdx g)(service_name h \<mapsto> j),
       clientCbs := (clientCbs g)(ev \<mapsto> r), clients := (clients g)[r := c]\<rparr>"
    "r \<in> set (service_list g (service_name h))"
    by (rule proxy_sendMsg_some_cases [OF assms(2) Some assms(5)])
  obtain h1 where "sendMsg P (Some (h\<lparr>msg_id := ev\<rparr>)) (Some m) (regEvent ev (clients g ! r)) = (True, h1, c)"
    using r(3) by (simp add: client_sendMsg_def)
  from channel.sendMsg_written(1) [OF assms(1) this assms(3,4)]
  have "sent outb c = sent outb (clients g ! r) @ frame (h\<lparr>msg_id := ev, msg_size := word_of_nat (length d)\<rparr>, d)"
    by (simp add: sent_def regEvent_def)
  with r client_sendMsg_sel(1) [OF r(3)] show ?thesis
    by (intro bexI [of _ r]) (simp_all add: connected_def)
qed

lemma sample_next: "next_connected sample_gateway (service_name (request_head ''DIR'')) = Some 2"
  by (simp add: next_connected_def connected_def upt_rec)

lemma sample_forward:
  obtains head g' where "proxy_sendMsg ref_platform (Some (request_head ''DIR'')) (Some (body ''abc'')) 5 sample_gateway =
     Inr (True, head, g')"
proof -
  have "CMsgHead_Serialize h \<noteq> []" if "msg_type h = MSG_DIR_REQ" for h
    using that by (simp add: CMsgHead_Serialize_def MSG_DIR_REQ_def WriteEnumToArray_def WriteTagToArray_def)
  then show thesis using that
    by (simp add: proxy_sendMsg_def sample_gateway_def Let_def chk_int_def int_fits_def c_mod_def vec_at_def
        client_sendMsg_def sendMsg_def writeMsg_def ref_platform_def ref_libevent_def regEvent_def
        request_head_def body_def CMsg_new_def)
qed

theorem request_is_forwarded_witness:
  "\<exists>head g' r. proxy_sendMsg ref_platform (Some (request_head ''DIR'')) (Some (body ''abc'')) 5 sample_gateway =
     Inr (True, head, g') \<and> r < 3 \<and> sent outbuf (clients g' ! r) \<noteq> []"
proof -
  obtain head g' where f: "proxy_sendMsg ref_platform (Some (request_head ''DIR'')) (Some (body ''abc'')) 5
      sample_gateway = Inr (True, head, g')" by (rule sample_forward)
  have "frame x \<noteq> []" for x
    by (simp add: frame_def) (metis length_mem_of_int32 list.size(3) zero_neq_numeral)
  moreover have "r < 3" if "r \<in> set (service_list sample_gateway ''DIR'')" for r
    using that by auto
  ultimately show ?thesis
    using request_is_forwarded [OF ref_channel.channel_axioms _ body_sel f, unfolded request_head_sel,
        OF sample_route_ok(1)] f by (metis append_is_Nil_conv)
qed



section \<open>Answers\<close>

text \<open>
  The answer goes back to the caller. After a request of the connection at \<open>ev\<close> was
  forwarded on connection \<open>r\<close>, an answer that arrives there with the same \<open>msg_id\<close> is sent,
  as a frame with its head and body, to the connection at \<open>ev\<close> and to no other.
\<close>

theorem answer_is_returned:
  assumes "channel P inb outb" "route_ok g (service_name h)"
    and "proxy_sendMsg P (Some h) (Some m) ev g = Inr (True, head, g')" "clientCbs g' ev = Some r"
    and "msg_id a = ev" "routers g ev = Some t" "sendMsg P (Some a) (Some b) t = (True, a', t')"
    and "m_data b = Some d" "m_size b = int (length d)"
  shows "client_readCb P (Some a) (Some b) r g' = Inr (a', g'\<lparr>routers := (routers g)(ev \<mapsto> t')\<rparr>) \<and>
    sent outb t' = sent outb t @ frame (a\<lparr>msg_size := word_of_nat (length d)\<rparr>, d)"
proof -
  obtain j where Some: "next_connected g (service_name h) = Some j"
    using proxy_sendMsg_none [OF assms(2), of P m ev] assms(3) by fastforce
  obtain c where c: "r < length (clients g)" "client_sendMsg P h m ev (clients g ! r) = (True, head, c)"
    "g' = g\<lparr>clientMapLastIdx := (clientMapLastIdx g)(service_name h \<mapsto> j),
       clientCbs := (clientCbs g)(ev \<mapsto> r), clients := (clients g)[r := c]\<rparr>"
    by (rule proxy_sendMsg_some_cases [OF assms(2) Some assms(3)]) (use assms(4) in auto)
  have "vec_at (clients g') (int r) = Inr c"
    using vec_at_nat [of r "clients g'"] c by simp
  then have "client_readCb P (Some a) (Some b) r g' = Inr (a', g'\<lparr>routers := (routers g)(ev \<mapsto> t')\<rparr>)"
    using client_sendMsg_sel(1) [OF c(2)] assms(5-7) c(3) by (simp add: client_readCb_def)
  with channel.sendMsg_written(1) [OF assms(1,7,8,9)] show ?thesis by simp
qed

lemma sample_router: "routers sample_gateway 5 = Some (CMsgEvent_new\<lparr>m_bev := Some \<lparr>inbuf = [], outbuf = []\<rparr>\<rparr>)"
  by (simp add: sample_gateway_def)

definition answer_head :: CMsgHead where
  "answer_head = CMsgHead_Clear\<lparr>msg_type := MSG_DIR_RES, msg_id := 5\<rparr>"

lemma sample_answer:
  obtains a' t' where "sendMsg ref_platform (Some answer_head) (Some (body ''xyz''))
    (CMsgEvent_new\<lparr>m_bev := Some \<lparr>inbuf = [], outbuf = []\<rparr>\<rparr>) = (True, a', t')"
proof -
  have "CMsgHead_Serialize h \<noteq> []" if "msg_type h = MSG_DIR_RES" for h
    using that by (simp add: CMsgHead_Serialize_def MSG_DIR_RES_def WriteEnumToArray_def WriteTagToArray_def)
  then show thesis using that
    by (simp add: sendMsg_def writeMsg_def ref_platform_def ref_libevent_def answer_head_def body_def CMsg_new_def Let_def)
qed

theorem answer_is_returned_witness:
  "\<exists>head g' r a' g''. proxy_sendMsg ref_platform (Some (request_head ''DIR'')) (Some (body ''abc'')) 5 sample_gateway =
     Inr (True, head, g') \<and> client_readCb ref_platform (Some answer_head) (Some (body ''xyz'')) r g' = Inr (a', g'')"
proof -
  obtain head g' where f: "proxy_sendMsg ref_platform (Some (request_head ''DIR'')) (Some (body ''abc'')) 5
      sample_gateway = Inr (True, head, g')" by (rule sample_forward)
  obtain r where r: "clientCbs g' 5 = Some r"
    by (rule proxy_sendMsg_some_cases [OF _ sample_next f]) simp_all
  obtain a' t' where a: "sendMsg ref_platform (Some answer_head) (Some (body ''xyz''))
    (CMsgEvent_new\<lparr>m_bev := Some \<lparr>inbuf = [], outbuf = []\<rparr>\<rparr>) = (True, a', t')" by (rule sample_answer)
  from answer_is_returned [OF ref_channel.channel_axioms _ f r _ sample_router a] f show ?thesis
    by (auto simp: answer_head_def)
qed

section \<open>Callers that are gone\<close>



text \<open>
  A caller that is gone can still be called. The proxy remembers for a caller only the last
  connection its requests went to. When its requests went to two connections and it is then
  closed, which deletes it, the first connection still has it: an answer that arrives there
  is sent through the deleted object.
\<close>

theorem closed_caller_is_called:
  assumes "proxy_sendMsg P (Some h1) (Some m1) ev g = Inr (ok1, head1, g1)"
    and "proxy_sendMsg P (Some h2) (Some m2) ev g1 = Inr (ok2, head2, g2)"
    and "route_ok g (service_name h1)" "route_ok g1 (service_name h2)"
    and "clientCbs g ev = None" "clientCbs g1 ev = Some r1" "clientCbs g2 ev = Some r2" "r1 \<noteq> r2"
    and "routers g ev = Some t" "m_autoDelete t" "router_close ev g2 = Inr g3" "ev \<noteq> 0"
    and "msg_id a = ev"
  shows "client_readCb P (Some a) (Some b) r1 g3 = Inl UseAfterFree"
proof -
  have "next_connected g (service_name h1) \<noteq> None"
    using proxy_sendMsg_none [OF assms(3), of P m1 ev] assms(1,5,6) by fastforce
  then obtain j1 where j1: "next_connected g (service_name h1) = Some j1" by blast
  obtain c1 where c1: "r1 < length (clients g)" "client_sendMsg P h1 m1 ev (clients g ! r1) = (ok1, head1, c1)"
    "g1 = g\<lparr>clientMapLastIdx := (clientMapLastIdx g)(service_name h1 \<mapsto> j1),
       clientCbs := (clientCbs g)(ev \<mapsto> r1), clients := (clients g)[r1 := c1]\<rparr>"
    by (rule proxy_sendMsg_some_cases [OF assms(3) j1 assms(1)]) (use assms(6) in auto)
  have "next_connected g1 (service_name h2) \<noteq> None"
    using proxy_sendMsg_none [OF assms(4), of P m2 ev] assms(2,6,7,8) by fastforce
  then obtain j2 where j2: "next_connected g1 (service_name h2) = Some j2" by blast
  obtain c2 where c2: "r2 < length (clients g1)" "client_sendMsg P h2 m2 ev (clients g1 ! r2) = (ok2, head2, c2)"
    "g2 = g1\<lparr>clientMapLastIdx := (clientMapLastIdx g1)(service_name h2 \<mapsto> j2),
       clientCbs := (clientCbs g1)(ev \<mapsto> r2), clients := (clients g1)[r2 := c2]\<rparr>"
    by (rule proxy_sendMsg_some_cases [OF assms(4) j2 assms(2)]) (use assms(7) in auto)
  have t: "routers g2 ev = Some t" using assms(9) c1(3) c2(3) by simp
  obtain t' where t': "CMsgEvent_close t = Inr t'" and d: "proxy_delEvent ev
      (g2\<lparr>routers := (routers g2)(ev := if deleted t' then None else Some t')\<rparr>) = Inr g3"
    using assms(11) t by (auto simp: router_close_def bind_ub_Inr_iff)
  have "deleted t'"
    using closeBev_flags(4) [of "CMsgEvent_clear t" t'] t' assms(10) by (simp add: CMsgEvent_close_def CMsgEvent_clear_def)
  then have g3: "routers g3 ev = None" "clients g3 ! r1 = clients g2 ! r1" "length (clients g3) = length (clients g2)"
    using d assms(7,8,12) by (auto simp: proxy_delEvent_def bind_ub_Inr_iff)
  have "clients g2 ! r1 = c1" "r1 < length (clients g2)"
    using c1 c2 assms(8) by simp_all
  then have "vec_at (clients g3) (int r1) = Inr c1"
    using vec_at_nat [of r1 "clients g3"] g3 by simp
  then show ?thesis
    using client_sendMsg_sel(1) [OF c1(2)] g3(1) assms(13) by (simp add: client_readCb_def)
qed

lemma sample_closed:
  fixes m1 m2 :: CMsg
  obtains ok1 head1 g1 ok2 head2 g2 g3 where
    "proxy_sendMsg ref_platform (Some (request_head ''DIR'')) (Some m1) 5 sample_gateway = Inr (ok1, head1, g1)"
    "proxy_sendMsg ref_platform (Some (request_head ''LOG'')) (Some m2) 5 g1 = Inr (ok2, head2, g2)"
    "route_ok g1 ''LOG''" "clientCbs g1 5 = Some 2" "clientCbs g2 5 = Some 3" "router_close 5 g2 = Inr g3"
proof -
  note p1 = proxy_sendMsg_some(1) [OF _ sample_next, unfolded request_head_sel, OF sample_route_ok(1), of ref_platform m1 5]
  obtain ok1 head1 c1 where c1: "client_sendMsg ref_platform (request_head ''DIR'') m1 5
      (clients sample_gateway ! 2) = (ok1, head1, c1)"
    by (cases "client_sendMsg ref_platform (request_head ''DIR'') m1 5 (clients sample_gateway ! 2)") auto
  define g1 where "g1 = sample_gateway\<lparr>clientMapLastIdx := (clientMapLastIdx sample_gateway)(''DIR'' \<mapsto> 2),
    clientCbs := [5 \<mapsto> 2], clients := (clients sample_gateway)[2 := c1]\<rparr>"
  have s1: "proxy_sendMsg ref_platform (Some (request_head ''DIR'')) (Some m1) 5 sample_gateway = Inr (ok1, head1, g1)"
    using p1 c1 by (simp add: g1_def del: sample_lists(5))
  have g1: "service_list g1 ''LOG'' = [3]" "last_idx g1 ''LOG'' = 0" "clientCbs g1 = [5 \<mapsto> 2]"
    "clients g1 ! 3 = sample_client True" "length (clients g1) = 4" "routers g1 = routers sample_gateway"
    by (simp_all add: g1_def sample_gateway_def service_list_def last_idx_def)
  then have r1: "route_ok g1 ''LOG''" by (simp add: route_ok_def list_ok_def)
  have "next_connected g1 (service_name (request_head ''LOG'')) = Some 0"
    by (simp add: next_connected_def connected_def upt_rec g1)
  note p2 = proxy_sendMsg_some(1) [OF _ this, unfolded request_head_sel, OF r1, of ref_platform m2 5]
  obtain ok2 head2 c2 where c2: "client_sendMsg ref_platform (request_head ''LOG'') m2 5
      (clients g1 ! 3) = (ok2, head2, c2)"
    by (cases "client_sendMsg ref_platform (request_head ''LOG'') m2 5 (clients g1 ! 3)") auto
  define g2 where "g2 = g1\<lparr>clientMapLastIdx := (clientMapLastIdx g1)(''LOG'' \<mapsto> 0),
    clientCbs := (clientCbs g1)(5 \<mapsto> 3), clients := (clients g1)[3 := c2]\<rparr>"
  have s2: "proxy_sendMsg ref_platform (Some (request_head ''LOG'')) (Some m2) 5 g1 = Inr (ok2, head2, g2)"
    using p2 c2 by (simp add: g2_def g1(1))
  have "vec_at (clients g2) 3 = Inr c2"
    using vec_at_nat [of 3 "clients g2"] g1(5) by (simp add: g2_def)
  then have "\<exists>g3. router_close 5 g2 = Inr g3"
    by (simp add: router_close_def CMsgEvent_close_def closeBev_def Let_def proxy_delEvent_def g2_def g1 sample_router
        CMsgEvent_clear_def)
  with s1 s2 r1 g1(3) that show thesis by (auto simp: g2_def)
qed

theorem closed_caller_is_called_witness:
  "\<exists>g3. client_readCb ref_platform (Some answer_head) (Some (body ''xyz'')) 2 g3 = Inl UseAfterFree"
proof -
  obtain ok1 head1 g1 ok2 head2 g2 g3 where g:
    "proxy_sendMsg ref_platform (Some (request_head ''DIR'')) (Some (body ''abc'')) 5 sample_gateway = Inr (ok1, head1, g1)"
    "proxy_sendMsg ref_platform (Some (request_head ''LOG'')) (Some (body ''abc'')) 5 g1 = Inr (ok2, head2, g2)"
    "route_ok g1 ''LOG''" "clientCbs g1 5 = Some 2" "clientCbs g2 5 = Some 3" "router_close 5 g2 = Inr g3"
    by (rule sample_closed)
  have "client_readCb ref_platform (Some answer_head) (Some (body ''xyz'')) 2 g3 = Inl UseAfterFree"
    by (rule closed_caller_is_called [OF g(1,2) _ _ _ g(4,5) _ sample_router _ g(6)])
       (simp_all add: g(3) answer_head_def)
  then show ?thesis by blast
qed

text \<open>
  Closing a connection that never asked for anything. \<open>close\<close> of such a connection reaches
  \<open>delEvent\<close>, which logs that it does not know it and goes on with the end iterator.
\<close>

theorem close_unknown_caller:
  assumes "routers g ev = Some t" "\<not> deleted t" "clientCbs g ev = None" "ev \<noteq> 0"
  shows "router_close ev g = Inl NullDeref"
  using assms
  by (simp add: router_close_def CMsgEvent_close_def closeBev_def Let_def proxy_delEvent_def deref_def)

theorem close_unknown_caller_witness:
  "router_close 5 sample_gateway = Inl NullDeref"
  using close_unknown_caller [OF sample_router] by (simp add: sample_gateway_def)

text \<open>
  The gateway connects to every service, once. A pass over the list of services always
  succeeds when the addresses fit the 16-byte field; then there is a connection for each
  listed address and port of every service but the gateway's own, no connection was given
  up, and no service has two connections to the same address and port, however often the
  list is fetched.
\<close>

theorem gateway_connects_once:
  assumes "conns_ok g" "factory_ready g"
    and "\<And>name s. name \<in> set (order (sm_serviceMap m)) \<Longrightarrow> s \<in> set (names_services m name) \<Longrightarrow> ip_ok (CService_ip s)"
  shows "\<exists>g'. add_connections order sys m g = Some (Inr g') \<and> conns_ok g' \<and> factory_ready g' \<and>
    (\<forall>name. endpoints g' name = endpoints g name \<union>
      (if name \<in> set (order (sm_serviceMap m)) \<and> name \<noteq> API_GATEWAY_NAME
       then service_endpoint ` set (names_services m name) else {}))"
proof -
  have "\<exists>g'. add_connections order sys m g = Some (Inr g') \<and> (conns_ok g' \<and> factory_ready g') \<and>
    endpoints g' = (\<lambda>name. endpoints g name \<union>
      (if name \<in> set (order (sm_serviceMap m)) \<and> name \<noteq> API_GATEWAY_NAME
       then service_endpoint ` set (names_services m name) else {}))"
    by (rule add_connections_ok) (use assms in auto)
  then show ?thesis by (metis (no_types, lifting))
qed

definition sample_services :: CServiceMap where
  "sample_services = CServiceMap_Clear\<lparr>sm_serviceMap := [''log'' \<mapsto> CServiceMap_CServiceList_Clear
     \<lparr>CServiceList_service := [new_service ''log'' ''10.0.0.7'' 80]\<rparr>]\<rparr>"

theorem gateway_connects_once_witness:
  "\<exists>g'. add_connections key_order (system.make (\<lambda>_. (Some (3, 4), Some 0)) True True) sample_services (sample_gateway\<lparr>clientMap := Map.empty\<rparr>) = Some (Inr g') \<and>
    (Inr ''10.0.0.7'', 80) \<in> endpoints g' ''log''"
proof -
  have s: "names_services sample_services ''log'' = [new_service ''log'' ''10.0.0.7'' 80]"
    "set (key_order (sm_serviceMap sample_services)) = {''log''}"
    by (simp_all add: names_services_def sample_services_def key_order_def)
  let ?g = "sample_gateway\<lparr>clientMap := Map.empty\<rparr>"
  let ?sys = "system.make (\<lambda>_. (Some (3, 4), Some 0)) True True"
  have "conns_ok ?g" by (simp add: conns_ok_def service_list_def)
  moreover have "factory_ready ?g" by (simp add: factory_ready_def sample_gateway_def)
  moreover have "ip_ok (CService_ip t)" if "name \<in> set (key_order (sm_serviceMap sample_services))"
    "t \<in> set (names_services sample_services name)" for name t
    using that s by (auto simp: ip_ok_def new_service_def NUL_def)
  ultimately obtain g' where g': "add_connections key_order ?sys sample_services ?g = Some (Inr g')"
    "endpoints g' ''log'' = endpoints ?g ''log'' \<union> service_endpoint ` set (names_services sample_services ''log'')"
    using gateway_connects_once [of ?g key_order sample_services ?sys] s(2)
    by (auto simp: API_GATEWAY_NAME_def)
  have "service_endpoint (new_service ''log'' ''10.0.0.7'' 80) = (Inr ''10.0.0.7'', 80)"
    using endpoint_new_service [of 80 "''log''" "''10.0.0.7''"] by (simp add: service_endpoint_def endpoint_def)
  with g' s(1) show ?thesis by auto
qed

end
