(* ===== verification/Auth_Props.thy ===== *)
theory Auth_Props
  imports Auth_Facts ConfigServer_Props RegisterClient_Props Routing
begin

text \<open>
  A database of users and tokens in memory, as an instance of \<open>auth_sql\<close>; then what a login checks
  and gives, and how its answer reaches the client.
\<close>

section \<open>A database in memory\<close>

record memory_auth =
  ma_users :: "user_row list"
  ma_tokens :: "token_row list"
  ma_result :: "CData list list option"
  ma_affected :: uint64
  ma_insert :: uint64

text \<open>The text between the quote a string starts with and the next, and what follows.\<close>

definition unquote :: "string \<Rightarrow> string \<times> string" where
  "unquote s = (let t = tl s in
     (takeWhile (\<lambda>c. c \<noteq> CHR 0x27) t, tl (dropWhile (\<lambda>c. c \<noteq> CHR 0x27) t)))"

lemma unquote_quoted [simp]:
  "CHR 0x27 \<notin> set x \<Longrightarrow> unquote (CHR 0x27 # x @ CHR 0x27 # rest) = (x, rest)"
  by (simp add: unquote_def takeWhile_append dropWhile_append takeWhile_neq_all)

definition select_prefix :: string where
  "select_prefix = ''select cms_username,cms_rolename from cms_auth  where cms_username=''"

definition user_prefix :: string where
  "user_prefix = ''insert into `cms_auth`(`cms_password`,`cms_rolename`,`cms_username` )values(''"

definition token_prefix :: string where
  "token_prefix = ''insert into `cms_token`(`token`,`cms_rolename`,`cms_username`,`expired_time` )values(UUID(),''"

definition next_id :: "token_row list \<Rightarrow> int" where
  "next_id t = Max (insert 0 (t_id ` set t)) + 1"

definition auth_select :: "string \<Rightarrow> memory_auth \<Rightarrow> int \<times> memory_auth" where
  "auth_select s db =
     (let (name, s) = unquote s; (pass, _) = unquote (drop 18 s) in
      (0, db\<lparr>ma_result := Some (map (\<lambda>r. [cell (u_name r), cell (u_role r)])
        (filter (account (=) name pass) (ma_users db)))\<rparr>))"

definition auth_insert_user :: "string \<Rightarrow> memory_auth \<Rightarrow> int \<times> memory_auth" where
  "auth_insert_user s db =
     (let (pass, s) = unquote s; (role, s) = unquote (tl s); (name, s) = unquote (tl s) in
      if \<exists>r \<in> set (ma_users db). u_name r = name then (1, db)
      else (0, db\<lparr>ma_users := ma_users db @ [\<lparr>u_name = name, u_pass = pass, u_role = role\<rparr>], ma_affected := 1\<rparr>))"

definition uuid_of :: "int \<Rightarrow> string" where
  "uuid_of k = map (\<lambda>i. digit_char (nat (k div 10 ^ i mod 10))) [0..<36]"

lemma uuid_of_uuid: "uuid (uuid_of k)"
proof -
  have "map digit_char [0..<10] = ''0123456789''" by code_simp
  then have "set (map digit_char [0..<10]) = set ''0123456789''" by (rule arg_cong)
  then have digits: "digit_char ` {..<10} = set ''0123456789''" by (simp only: list.set_map set_upt lessThan_atLeast0)
  have "set (uuid_of k) \<subseteq> digit_char ` {..<10}" by (auto simp: uuid_of_def nat_less_iff)
  also have "\<dots> \<subseteq> set ''0123456789abcdef-''" unfolding digits by auto
  finally show ?thesis by (simp add: uuid_def uuid_of_def)
qed

definition auth_insert_token :: "string \<Rightarrow> memory_auth \<Rightarrow> int \<times> memory_auth" where
  "auth_insert_token s db =
     (let (role, s) = unquote s; (name, s) = unquote (tl s); (expires, s) = unquote (tl s);
          k = next_id (ma_tokens db) in
      (0, db\<lparr>ma_tokens := ma_tokens db @ [\<lparr>t_id = k, t_name = name, t_role = role,
          t_token = uuid_of k, t_expires = atoi expires\<rparr>],
        ma_affected := 1, ma_insert := word_of_int k\<rparr>))"

definition auth_query :: "memory_auth \<Rightarrow> string \<Rightarrow> int \<times> memory_auth" where
  "auth_query db sql =
     (case strip select_prefix sql of Some s \<Rightarrow> auth_select s db
      | None \<Rightarrow> (case strip user_prefix sql of Some s \<Rightarrow> auth_insert_user s db
      | None \<Rightarrow> (case strip token_prefix sql of Some s \<Rightarrow> auth_insert_token s db
      | None \<Rightarrow> (case strip ''select token from cms_token where id='' sql of
          Some s \<Rightarrow> (0, db\<lparr>ma_result := Some (map (\<lambda>r. [cell (t_token r)]) (filter (\<lambda>r. t_id r = atoi s) (ma_tokens db)))\<rparr>)
      | None \<Rightarrow> (case strip ''delete from cms_token where expired_time<'' sql of
          Some s \<Rightarrow> (0, db\<lparr>ma_tokens := filter (\<lambda>r. \<not> t_expires r < atoi s) (ma_tokens db)\<rparr>)
      | None \<Rightarrow> (1, db))))))"

definition auth_api :: "memory_auth mysql_api" where
  "auth_api = \<lparr>mysql_init = \<lambda>db. (True, db), mysql_close = \<lambda>db. db,
     mysql_real_connect = \<lambda>db _ _ _ _ _. (True, db), mysql_options = \<lambda>db _ _. (0, db),
     mysql_real_query = auth_query,
     mysql_store_result = \<lambda>db. (ma_result db, db\<lparr>ma_result := None\<rparr>),
     mysql_use_result = \<lambda>db. (ma_result db, db\<lparr>ma_result := None\<rparr>),
     mysql_affected_rows = ma_affected, mysql_insert_id = ma_insert,
     mysql_stmt_init = \<lambda>db. (False, db), mysql_stmt_prepare = \<lambda>db sql. (1, db),
     mysql_stmt_bind_param = \<lambda>db binds. (1, db), mysql_stmt_execute = \<lambda>db. (1, db),
     mysql_stmt_affected_rows = ma_affected, mysql_stmt_close = \<lambda>db. db\<rparr>"

lemma auth_query_select:
  assumes "plain name" "plain pass"
  shows "auth_query db (login_sql name pass) =
    (0, db\<lparr>ma_result := Some (map (\<lambda>r. [cell (u_name r), cell (u_role r)])
      (filter (account (=) name pass) (ma_users db)))\<rparr>)"
proof -
  have "login_sql name pass = select_prefix @ CHR 0x27 # name @ CHR 0x27 #
      '' and cms_password='' @ CHR 0x27 # pass @ CHR 0x27 # []"
    by (simp add: login_sql_def select_prefix_def)
  with assms show ?thesis by (simp add: auth_query_def auth_select_def plain_def)
qed

lemma auth_query_user:
  assumes "plain name" "plain pass" "plain role"
  shows "auth_query db (add_user_text name pass role) =
    (if \<exists>r \<in> set (ma_users db). u_name r = name then (1, db)
     else (0, db\<lparr>ma_users := ma_users db @ [\<lparr>u_name = name, u_pass = pass, u_role = role\<rparr>], ma_affected := 1\<rparr>))"
proof -
  have "add_user_text name pass role = user_prefix @ CHR 0x27 # pass @ CHR 0x27 # CHR '','' #
      CHR 0x27 # role @ CHR 0x27 # CHR '','' # CHR 0x27 # name @ CHR 0x27 # '' )''"
    by (simp add: add_user_text_def user_prefix_def)
  moreover have "strip select_prefix (add_user_text name pass role) = None"
    by (simp add: strip_def select_prefix_def add_user_text_def)
  ultimately show ?thesis using assms by (simp add: auth_query_def auth_insert_user_def plain_def)
qed

lemma auth_query_token:
  assumes "plain name" "plain role"
  shows "auth_query db (add_token_text name role expires) =
    (0, db\<lparr>ma_tokens := ma_tokens db @ [\<lparr>t_id = next_id (ma_tokens db), t_name = name, t_role = role,
          t_token = uuid_of (next_id (ma_tokens db)), t_expires = expires\<rparr>],
        ma_affected := 1, ma_insert := word_of_int (next_id (ma_tokens db))\<rparr>)"
proof -
  have "add_token_text name role expires = token_prefix @ CHR 0x27 # role @ CHR 0x27 # CHR '','' #
      CHR 0x27 # name @ CHR 0x27 # CHR '','' # CHR 0x27 # show_int expires @ CHR 0x27 # '' )''"
    by (simp add: add_token_text_def token_prefix_def)
  moreover have "strip select_prefix (add_token_text name role expires) = None"
    "strip user_prefix (add_token_text name role expires) = None"
    by (simp_all add: strip_def select_prefix_def user_prefix_def add_token_text_def)
  ultimately show ?thesis
    using assms digits_no_quote(1) [of expires] by (simp add: auth_query_def auth_insert_token_def plain_def Let_def)
qed

lemma auth_query_others:
  "auth_query db (token_sql k) =
    (0, db\<lparr>ma_result := Some (map (\<lambda>r. [cell (t_token r)]) (filter (\<lambda>r. t_id r = k) (ma_tokens db)))\<rparr>)"
  "auth_query db (expire_sql now) = (0, db\<lparr>ma_tokens := filter (\<lambda>r. \<not> t_expires r < now) (ma_tokens db)\<rparr>)"
  by (simp_all add: auth_query_def token_sql_def expire_sql_def strip_def select_prefix_def user_prefix_def token_prefix_def)

lemma next_id_fresh: "ids_left t \<Longrightarrow> 0 < next_id t \<and> next_id t < 2 ^ 31 \<and> next_id t \<notin> t_id ` set t"
proof -
  assume left: "ids_left t"
  let ?s = "insert 0 (t_id ` set t)"
  have m: "Max ?s \<in> ?s" by (rule Max_in) auto
  have "0 \<le> Max ?s" by (rule Max_ge) auto
  moreover have "Max ?s < 2 ^ 31 - 1" using m left by (auto simp: ids_left_def)
  moreover have "next_id t \<notin> t_id ` set t"
  proof
    assume "next_id t \<in> t_id ` set t"
    then have "next_id t \<le> Max ?s" by (intro Max_ge) auto
    then show False by (simp add: next_id_def)
  qed
  ultimately show ?thesis by (simp add: next_id_def)
qed

definition texts_stored :: "memory_auth \<Rightarrow> bool" where
  "texts_stored db \<longleftrightarrow> (\<forall>r \<in> set (ma_users db). plain (u_name r) \<and> plain (u_role r)) \<and>
     (\<forall>r \<in> set (ma_tokens db). NUL \<notin> set (t_token r))"

lemma as_c_str_plain: "NUL \<notin> set s \<Longrightarrow> as_c_str s = s"
  by (simp add: as_c_str_def takeWhile_neq_all)

interpretation memory_auth: auth_sql auth_api ma_users ma_tokens texts_stored "(=)"
proof
  fix m :: memory_auth and name pass role :: string and k now expires :: int
  assume up: "texts_stored m"
  have tok: "NUL \<notin> set (uuid_of i)" for i
    using uuid_chars [OF uuid_of_uuid] by blast
  show "\<exists>m' m'' rows. mysql_real_query auth_api m (token_sql k) = (0, m') \<and>
      mysql_store_result auth_api m' = (Some rows, m'') \<and> texts_stored m'' \<and> ma_users m'' = ma_users m \<and>
      ma_tokens m'' = ma_tokens m \<and>
      map (map chars_of) rows = map (\<lambda>r. [Inr (t_token r)]) (filter (\<lambda>r. t_id r = k) (ma_tokens m))"
    using up by (simp add: auth_api_def auth_query_others texts_stored_def comp_def as_c_str_plain)
  show "\<exists>m'. mysql_real_query auth_api m (expire_sql now) = (0, m') \<and> texts_stored m' \<and>
      ma_users m' = ma_users m \<and> ma_tokens m' = filter (\<lambda>r. \<not> t_expires r < now) (ma_tokens m)"
    using up by (simp add: auth_api_def auth_query_others texts_stored_def)
  assume name: "plain name"
  show "\<exists>m' k token. mysql_real_query auth_api m (add_token_text name role expires) = (0, m') \<and>
      mysql_affected_rows auth_api m' = 1 \<and> mysql_insert_id auth_api m' = word_of_int k \<and> 0 < k \<and> k < 2 ^ 31 \<and>
      k \<notin> t_id ` set (ma_tokens m) \<and> texts_stored m' \<and> ma_users m' = ma_users m \<and> uuid token \<and>
      ma_tokens m' = ma_tokens m @ [\<lparr>t_id = k, t_name = name, t_role = role, t_token = token, t_expires = expires\<rparr>]"
    if "ids_left (ma_tokens m)" "plain role"
    using next_id_fresh [OF that(1)] up tok [of "next_id (ma_tokens m)"]
    by (intro exI [of _ "next_id (ma_tokens m)"] exI [of _ "uuid_of (next_id (ma_tokens m))"]
          exI [of _ "snd (auth_query m (add_token_text name role expires))"])
       (simp add: auth_api_def auth_query_token [OF name that(2)] texts_stored_def uuid_of_uuid)
  assume pass: "plain pass"
  show "\<exists>m' m'' rows. mysql_real_query auth_api m (login_sql name pass) = (0, m') \<and>
      mysql_store_result auth_api m' = (Some rows, m'') \<and> texts_stored m'' \<and> ma_users m'' = ma_users m \<and>
      ma_tokens m'' = ma_tokens m \<and> list_all2 user_cells rows (filter (account (=) name pass) (ma_users m))"
    using up by (simp add: auth_api_def auth_query_select [OF name pass] texts_stored_def list_all2_map1 list_all2_same
        user_cells_def as_c_str_plain plain_def)
  assume role: "plain role"
  show "\<exists>m'. mysql_real_query auth_api m (add_user_text name pass role) = (0, m') \<and>
      mysql_affected_rows auth_api m' = 1 \<and> texts_stored m' \<and> ma_tokens m' = ma_tokens m \<and>
      ma_users m' = ma_users m @ [\<lparr>u_name = name, u_pass = pass, u_role = role\<rparr>]"
    if "\<forall>r \<in> set (ma_users m). u_name r \<noteq> name"
    using that up name role by (auto simp: auth_api_def auth_query_user [OF name pass role] texts_stored_def)
  show "\<exists>res m'. mysql_real_query auth_api m (add_user_text name pass role) = (res, m') \<and> res \<noteq> 0 \<and>
      texts_stored m' \<and> ma_tokens m' = ma_tokens m \<and> ma_users m' = ma_users m"
    if "\<exists>r \<in> set (ma_users m). u_name r = name"
    using that up by (simp add: auth_api_def auth_query_user [OF name pass role])
qed simp

text \<open>A database with one user, and a login.\<close>

definition auth_with :: "user_row list \<Rightarrow> memory_auth CMysql" where
  "auth_with t = \<lparr>my_db = \<lparr>ma_users = t, ma_tokens = [], ma_result = None, ma_affected = 0, ma_insert = 0\<rparr>,
     my_mysql = True, my_result = None\<rparr>"

definition ann :: user_row where
  "ann = \<lparr>u_name = ''ann'', u_pass = ''pw'', u_role = ''admin''\<rparr>"

definition login_of :: "string \<Rightarrow> string \<Rightarrow> CLoginReq" where
  "login_of name pass = CLoginReq_Clear\<lparr>CLoginReq_username := name, CLoginReq_password := pass\<rparr>"

lemma plain_samples [simp]: "plain ''ann''" "plain ''pw''" "plain ''admin''" "plain ''bob''" "plain ''no''"
  by (simp_all add: plain_def NUL_def)

lemma auth_with_sel [simp]:
  "ma_users (my_db (auth_with t)) = t" "ma_tokens (my_db (auth_with t)) = []"
  "ready texts_stored (auth_with t) \<longleftrightarrow> (\<forall>r \<in> set t. plain (u_name r) \<and> plain (u_role r))"
  by (simp_all add: auth_with_def ready_def texts_stored_def)

lemma ann_sel [simp]: "u_name ann = ''ann''" "u_pass ann = ''pw''" "u_role ann = ''admin''"
  by (simp_all add: ann_def)

lemma login_of_sel [simp]: "CLoginReq_username (login_of name pass) = name" "CLoginReq_password (login_of name pass) = pass"
  by (simp_all add: login_of_def)

lemma ids_left_Nil [simp]: "ids_left []"
  by (simp add: ids_left_def)

section \<open>Logins\<close>

text \<open>The requests whose texts the code does not have to escape.\<close>

definition plain_login :: "CLoginReq \<Rightarrow> bool" where
  "plain_login req \<longleftrightarrow> plain (CLoginReq_username req) \<and> plain (CLoginReq_password req) \<and>
     CHR '';'' \<notin> set (CLoginReq_username req)"





section \<open>The answer\<close>

definition polls :: "int \<Rightarrow> nat" where
  "polls timeoutMs = (if timeoutMs < 10 then 1 else nat (timeoutMs div 10))"

lemma polls_count: "nat (if ms_polls timeoutMs \<le> 0 then 1 else ms_polls timeoutMs) = polls timeoutMs"
proof (cases "timeoutMs < 10")
  case True
  then show ?thesis using ms_polls_neg [OF True] by (simp add: polls_def)
next
  case False
  then have "ms_polls timeoutMs = timeoutMs div 10" "0 < timeoutMs div 10"
    by (simp_all add: ms_polls_pos pos_imp_zdiv_pos_iff)
  then show ?thesis using False by (simp add: polls_def)
qed

text \<open>
  The answer of a login is found. When the client handles an answer that names a user, and asks
  for this user's login from before, polling every 10 ms, it returns at the first poll after the
  answer: with the answer when the login was OK, and with failure otherwise.
\<close>

theorem login_info_found:
  assumes "coded_input rt" "CLoginRes_wf rt res" "CLoginRes_username res \<noteq> []"
    and "msg_bytes msg = CLoginRes_Serialize res"
    and "\<forall>i < j. maps i (CLoginRes_username res) = None" "maps j = loginMap (CAuthClient_LoginRes rt msg c)"
    and "j < polls timeoutMs"
  shows "CAuthClient_getLoginInfo maps (CLoginRes_username res) (Some out) timeoutMs =
    (if CLoginRes_res res = CLoginRes_OK then (True, Some res, j) else (False, Some out, j))"
proof -
  have "CLoginRes_ParseFromArray rt (msg_bytes msg) = Some res"
    unfolding assms(4) by (rule coded_input.CLoginRes_roundtrip [OF assms(1,2)])
  then have "maps j (CLoginRes_username res) = Some res"
    using assms(3) by (simp add: assms(6) CAuthClient_LoginRes_def)
  with poll_finds [of j "\<lambda>i. maps i (CLoginRes_username res)" 0 res "polls timeoutMs"] assms(5,7)
  show ?thesis by (simp add: CAuthClient_getLoginInfo_def polls_count)
qed

theorem login_info_found_witness:
  "\<exists>res (c :: buffers CAuthClient). CLoginRes_token res = ''t'' \<and>
    CAuthClient_getLoginInfo (\<lambda>i. if i < 3 then Map.empty else loginMap (CAuthClient_LoginRes ref_rt
      (request_msg MSG_LOGIN_RES (CLoginRes_Serialize res)) c)) ''ann'' (Some CLoginRes_Clear) 100 = (True, Some res, 3)"
proof -
  define res where "res = CLoginRes_Clear\<lparr>CLoginRes_username := ''ann'', CLoginRes_token := ''t'', CLoginRes_res := CLoginRes_OK\<rparr>"
  fix c :: "buffers CAuthClient"
  have wf: "CLoginRes_wf ref_rt res" by (simp add: CLoginRes_wf_def res_def CLoginRes_Clear_def ref_rt_utf8)
  have sel: "CLoginRes_username res = ''ann''" "CLoginRes_res res = CLoginRes_OK" "CLoginRes_token res = ''t''"
    by (simp_all add: res_def)
  have "CAuthClient_getLoginInfo (\<lambda>i. if i < 3 then Map.empty else loginMap (CAuthClient_LoginRes ref_rt
      (request_msg MSG_LOGIN_RES (CLoginRes_Serialize res)) c)) (CLoginRes_username res) (Some CLoginRes_Clear) 100 =
      (if CLoginRes_res res = CLoginRes_OK then (True, Some res, 3) else (False, Some CLoginRes_Clear, 3))"
    by (rule login_info_found [OF ref.coded_input_axioms wf, where msg = "request_msg MSG_LOGIN_RES (CLoginRes_Serialize res)" and c = c])
       (simp_all add: sel polls_def)
  with sel show ?thesis by auto
qed

definition refused :: CLoginRes where
  "refused = CLoginRes_Clear\<lparr>CLoginRes_res := CLoginRes_ERROR, CLoginRes_token := ''username or password error!''\<rparr>"

lemma refused_sel [simp]: "CLoginRes_username refused = []" "CLoginRes_Serialize refused \<noteq> []"
  by (simp_all add: refused_def CLoginRes_Clear_def CLoginRes_Serialize_def CLoginRes_ERROR_def WriteEnumToArray_def
      WriteTagToArray_def)

text \<open>
  A refused login is never seen. The service answers a wrong name or password with an ERROR
  under the head of the request, which does not name the user; the client drops such an answer.
  So \<open>getLoginInfo\<close>, which would return at once on an ERROR, polls for its whole timeout.
\<close>

theorem refused_login_never_seen:
  assumes "channel P inb outb" "\<And>b d. fst (bufferevent_write (p_libevent P) b d) = 0" "m_bev t \<noteq> None"
    and "auth_sql api users tokens up same" "ready up c"
    and "CLoginReq_ParseFromArray (p_protobuf P) (msg_bytes msg) = Some req" "plain_login req"
    and "\<forall>r \<in> set (users (my_db c)). \<not> account same (CLoginReq_username req) (CLoginReq_password req) r"
    and "coded_input rt" "VerifyUtf8String rt ''username or password error!''" "VerifyUtf8String rt []"
  shows "\<exists>head' c' t' body. CAuthHandle_loginReq P api now head msg c t = Inr (head', c', t') \<and>
    sent outb t' = sent outb t @ frame (head', body) \<and> msg_id head' = msg_id head \<and>
    (\<forall>k :: 'e CAuthClient. CAuthClient_LoginRes rt (snd (delivered (head', body))) k = k) \<and>
    CLoginRes_ParseFromArray rt body = Some refused"
proof -
  have req: "plain (CLoginReq_username req)" "CHR '';'' \<notin> set (CLoginReq_username req)"
    "plain (CLoginReq_password req)"
    using assms(7) by (simp_all add: plain_login_def)
  have "filter (account same (CLoginReq_username req) (CLoginReq_password req)) (users (my_db c)) = []"
    using assms(8) by (simp add: filter_empty_conv)
  then obtain c' where l: "CAuthDAO_login api now req CLoginRes_Clear 1800 c = Inr (False, refused, c')"
    using auth_sql.login_refused [OF assms(4,5) req] unfolding refused_def by metis
  let ?b = "CLoginRes_Serialize refused"
  let ?h = "head\<lparr>msg_type := MSG_LOGIN_RES\<rparr>"
  have nz: "msg_type ?h \<noteq> 0" by (simp add: MSG_LOGIN_RES_def)
  obtain t' where t': "sendMsg_message P (Some ?h) (Some ?b) t = (True, Some (?h\<lparr>msg_size := word_of_nat (length ?b)\<rparr>), t')"
    "sent outb t' = sent outb t @ frame (?h\<lparr>msg_size := word_of_nat (length ?b)\<rparr>, ?b)"
    using channel.sendMsg_message_succeeds [OF assms(1-3) refused_sel(2) nz] by metis
  have "CAuthHandle_loginReq P api now head msg c t = Inr (?h\<lparr>msg_size := word_of_nat (length ?b)\<rparr>, c', t')"
    using assms(6) l t'(1) by (simp add: CAuthHandle_loginReq_def)
  moreover have "CLoginRes_wf rt refused"
    using assms(10,11) by (simp add: CLoginRes_wf_def refused_def CLoginRes_Clear_def)
  then have p: "CLoginRes_ParseFromArray rt ?b = Some refused"
    by (rule coded_input.CLoginRes_roundtrip [OF assms(9)])
  moreover have "CAuthClient_LoginRes rt (snd (delivered (h, ?b))) k = k" for h and k :: "'e CAuthClient"
    using p by (simp add: CAuthClient_LoginRes_def msg_bytes_delivered)
  ultimately show ?thesis
    using t'(2) by (intro exI [of _ "?h\<lparr>msg_size := word_of_nat (length ?b)\<rparr>"] exI [of _ c'] exI [of _ t'] exI [of _ ?b]) simp
qed

theorem refused_login_never_seen_witness:
  "\<exists>head' c' t' body. CAuthHandle_loginReq ref_platform auth_api 1000 sample_head
      (request_msg MSG_LOGIN_REQ (CLoginReq_Serialize (login_of ''ann'' ''no''))) (auth_with [ann]) (sample_event []) =
      Inr (head', c', t') \<and> sent outbuf t' = frame (head', body) \<and>
    (\<forall>k :: buffers CAuthClient. CAuthClient_LoginRes ref_rt (snd (delivered (head', body))) k = k)"
proof -
  have "CLoginReq_wf ref_rt (login_of ''ann'' ''no'')"
    by (simp add: CLoginReq_wf_def login_of_def CLoginReq_Clear_def ref_rt_utf8)
  then have parse: "CLoginReq_ParseFromArray (p_protobuf ref_platform)
      (msg_bytes (request_msg MSG_LOGIN_REQ (CLoginReq_Serialize (login_of ''ann'' ''no'')))) = Some (login_of ''ann'' ''no'')"
    using ref.CLoginReq_roundtrip by simp
  have hyps: "fst (bufferevent_write (p_libevent ref_platform) b d) = 0" "m_bev (sample_event []) \<noteq> None"
    "ready texts_stored (auth_with [ann])" "plain_login (login_of ''ann'' ''no'')"
    "\<forall>r \<in> set (ma_users (my_db (auth_with [ann]))). \<not> account (=) (CLoginReq_username (login_of ''ann'' ''no''))
       (CLoginReq_password (login_of ''ann'' ''no'')) r"
    "VerifyUtf8String ref_rt ''username or password error!''" "VerifyUtf8String ref_rt []" for b d
    by (simp_all add: ref_libevent_write plain_login_def account_def ref_rt_utf8)
  have "sent outbuf (sample_event []) = []" by (simp add: sent_def contents_def)
  with refused_login_never_seen [OF ref_channel.channel_axioms hyps(1,2) memory_auth.auth_sql_axioms hyps(3) parse hyps(4,5)
      ref.coded_input_axioms hyps(6,7), where now = 1000 and head = sample_head and ?'e = buffers]
  show ?thesis by (elim exE conjE) (intro exI conjI; simp)
qed

text \<open>
  An answer under a new head gets lost at the gateway. A request that comes through the gateway is
  answered by the id in its head. The answer to \<open>addUserReq\<close> is sent under a new head, with id 0:
  the gateway, which has no caller 0, drops it.
\<close>

theorem added_user_answer_is_dropped:
  assumes "channel P inb outb" "\<And>b d. fst (bufferevent_write (p_libevent P) b d) = 0" "m_bev t \<noteq> None"
    and "CAuthHandle_addUserReq P api msg c t = Inr (c', t')"
    and "i < length (clients g)" "callbackTasks (clients g ! i) 0 = None"
  shows "\<exists>head body. sent outb t' = sent outb t @ frame (head, body) \<and> msg_type head = MSG_ADD_USER_RES \<and>
    client_readCb P' (Some head) (Some (snd (delivered (head, body)))) i g = Inr (Some head, g)"
proof -
  obtain res where res: "t' = reply P MSG_ADD_USER_RES (CMessageRes_Serialize res) t" "CMessageRes_msg res \<noteq> []"
    using assms(4) by (auto simp: CAuthHandle_addUserReq_def bind_ub_Inr_iff message_res_def
        split: option.splits if_splits)
  let ?b = "CMessageRes_Serialize res"
  let ?h = "CMsgHead_Clear\<lparr>msg_type := MSG_ADD_USER_RES, msg_size := word_of_nat (length ?b)\<rparr>"
  have b: "?b \<noteq> []" using res(2) by (simp add: CMessageRes_Serialize_def WriteStringToArray_def WriteTagToArray_def)
  have nz: "MSG_ADD_USER_RES \<noteq> 0" by (simp add: MSG_ADD_USER_RES_def)
  have "sent outb t' = sent outb t @ frame (?h, ?b)"
    using channel.sendMsg_type_succeeds [OF assms(1-3) b nz] by (auto simp: res(1) reply_def)
  moreover have "client_readCb P' (Some ?h) (Some (snd (delivered (?h, ?b)))) i g = Inr (Some ?h, g)"
    using assms(5,6) by (simp add: client_readCb_def CMsgHead_Clear_def)
  ultimately show ?thesis by (intro exI [of _ ?h] exI [of _ ?b]) simp
qed

theorem added_user_answer_is_dropped_witness:
  "\<exists>c' t' head body. CAuthHandle_addUserReq ref_platform auth_api (request_msg MSG_ADD_USER_REQ []) (auth_with [ann])
      (sample_event []) = Inr (c', t') \<and> sent outbuf t' = frame (head, body) \<and>
    client_readCb ref_platform (Some head) (Some (snd (delivered (head, body)))) 0 sample_gateway = Inr (Some head, sample_gateway)"
proof -
  have hyps: "fst (bufferevent_write (p_libevent ref_platform) b d) = 0" "m_bev (sample_event []) \<noteq> None" for b d
    by (simp_all add: ref_libevent_write)
  have wf: "CAddUserReq_wf ref_rt CAddUserReq_Clear"
    by (simp add: CAddUserReq_wf_def CAddUserReq_Clear_def ref_rt_utf8)
  have "CAddUserReq_Serialize CAddUserReq_Clear = []" by (simp add: CAddUserReq_Serialize_def CAddUserReq_Clear_def)
  then have p: "CAddUserReq_ParseFromArray ref_rt [] = Some CAddUserReq_Clear"
    using ref.CAddUserReq_roundtrip [OF wf] by simp
  have "plain []" by (simp add: plain_def)
  then have e: "ready texts_stored (auth_with [ann])" "plain (CAddUserReq_username CAddUserReq_Clear)"
    "plain (CAddUserReq_password CAddUserReq_Clear)" "plain (CAddUserReq_rolename CAddUserReq_Clear)"
    by (simp_all add: CAddUserReq_Clear_def)
  obtain ok c1 where a: "CAuthDAO_addUser auth_api CAddUserReq_Clear (auth_with [ann]) = Inr (ok, c1)"
    using memory_auth.addUser_adds [OF e] by metis
  obtain t' where t': "CAuthHandle_addUserReq ref_platform auth_api (request_msg MSG_ADD_USER_REQ []) (auth_with [ann])
      (sample_event []) = Inr (c1, t')"
    using p a by (cases ok) (auto simp: CAuthHandle_addUserReq_def)
  have g: "0 < length (clients sample_gateway)" "callbackTasks (clients sample_gateway ! 0) 0 = None" by simp_all
  have "sent outbuf (sample_event []) = []" by (simp add: sent_def contents_def)
  with t' added_user_answer_is_dropped [OF ref_channel.channel_axioms hyps t' g, where P' = ref_platform]
  show ?thesis by (elim exE conjE) (intro exI conjI; simp)
qed

end
