(* ===== verification/Tools_Props.thy ===== *)
theory Tools_Props
  imports Tools Wire_Read
begin

text \<open>
  Base64 after RFC 4648, what OpenSSL's base64 filter is documented to do with it, and what follows
  for \<open>base64Encode\<close>, \<open>base64Decode\<close>, \<open>CMD5Base64\<close> and \<open>getDirData\<close>.
\<close>

section \<open>RFC 4648\<close>

definition b64_alphabet :: string where
  "b64_alphabet = ''ABCDEFGHIJKLMNOPQRSTUVWXYZabcdefghijklmnopqrstuvwxyz0123456789+/''"

definition b64_char :: "nat \<Rightarrow> char" where "b64_char n = b64_alphabet ! n"

definition b64_val :: "char \<Rightarrow> nat option" where "b64_val = map_of (zip b64_alphabet [0..<64])"

fun b64_encode :: "string \<Rightarrow> string" where
  "b64_encode [] = []"
| "b64_encode [a] =
     (let a = of_char a in [b64_char (a div 4), b64_char (a mod 4 * 16), CHR ''='', CHR ''=''])"
| "b64_encode [a, b] =
     (let a = of_char a; b = of_char b in
      [b64_char (a div 4), b64_char (a mod 4 * 16 + b div 16), b64_char (b mod 16 * 4), CHR ''=''])"
| "b64_encode (a # b # c # s) =
     (let a = of_char a; b = of_char b; c = of_char c in
      [b64_char (a div 4), b64_char (a mod 4 * 16 + b div 16), b64_char (b mod 16 * 4 + c div 64),
       b64_char (c mod 64)] @ b64_encode s)"

definition b64_first :: "nat \<Rightarrow> nat \<Rightarrow> char" where "b64_first w x = char_of (w * 4 + x div 16)"
definition b64_second :: "nat \<Rightarrow> nat \<Rightarrow> char" where "b64_second x y = char_of (x mod 16 * 16 + y div 4)"
definition b64_third :: "nat \<Rightarrow> nat \<Rightarrow> char" where "b64_third y z = char_of (y mod 4 * 64 + z)"

fun b64_decode :: "string \<Rightarrow> string option" where
  "b64_decode [] = Some []"
| "b64_decode (w # x # y # z # s) =
     (case (b64_val w, b64_val x, b64_val y, b64_val z) of
        (Some w, Some x, Some y, Some z) \<Rightarrow>
          map_option (\<lambda>t. b64_first w x # b64_second x y # b64_third y z # t) (b64_decode s)
      | (Some w, Some x, Some y, None) \<Rightarrow> if z = CHR ''='' \<and> s = [] then Some [b64_first w x, b64_second x y] else None
      | (Some w, Some x, None, None) \<Rightarrow> if y = CHR ''='' \<and> z = CHR ''='' \<and> s = [] then Some [b64_first w x] else None
      | _ \<Rightarrow> None)"
| "b64_decode _ = None"

lemma b64_alphabet_facts: "distinct b64_alphabet" "length b64_alphabet = 64" "CHR ''='' \<notin> set b64_alphabet"
  by (simp_all add: b64_alphabet_def)

lemma b64_val_char [simp]: "n < 64 \<Longrightarrow> b64_val (b64_char n) = Some n"
  using map_of_zip_nth [of b64_alphabet "[0..<64]" n] b64_alphabet_facts by (simp add: b64_val_def b64_char_def)

lemma b64_val_pad [simp]: "b64_val (CHR ''='') = None"
  using b64_alphabet_facts by (simp add: b64_val_def map_of_zip_is_None)

lemma of_char_256: "(of_char c :: nat) < 256"
  using of_char_mod_256 [of c] by (metis mod_less_divisor zero_less_numeral)

lemma packed: "y < k \<Longrightarrow> (x * k + y) div k = x" "y < k \<Longrightarrow> (x * k + y) mod k = y" for k :: nat
  by simp_all

lemma byte_parts:
  fixes a b c :: char
  shows "b64_first (of_char a div 4) (of_char a mod 4 * 16 + of_char b div 16) = a"
    "b64_second (of_char a mod 4 * 16 + of_char b div 16) (of_char b mod 16 * 4 + of_char c div 64) = b"
    "b64_third (of_char b mod 16 * 4 + of_char c div 64) (of_char c mod 64) = c"
proof -
  have bc: "of_char b div 16 < (16 :: nat)" "of_char c div 64 < (4 :: nat)"
    using of_char_256 [of b] of_char_256 [of c] by (simp_all add: div_less_iff_less_mult)
  show "b64_first (of_char a div 4) (of_char a mod 4 * 16 + of_char b div 16) = a"
    by (simp only: b64_first_def packed(1) [OF bc(1)] div_mult_mod_eq char_of_char)
  show "b64_second (of_char a mod 4 * 16 + of_char b div 16) (of_char b mod 16 * 4 + of_char c div 64) = b"
    by (simp only: b64_second_def packed(2) [OF bc(1)] packed(1) [OF bc(2)] div_mult_mod_eq char_of_char)
  show "b64_third (of_char b mod 16 * 4 + of_char c div 64) (of_char c mod 64) = c"
    by (simp only: b64_third_def packed(2) [OF bc(2)] div_mult_mod_eq char_of_char)
qed

lemma packed_less: "x < m \<Longrightarrow> y < k \<Longrightarrow> x * k + y < m * k" for k :: nat
  using mult_le_mono1 [of "Suc x" m k] by simp

lemma sextets:
  "(of_char a :: nat) div 4 < 64" "(of_char a :: nat) mod 4 * 16 + of_char b div 16 < 64"
  "(of_char b :: nat) mod 16 * 4 + of_char c div 64 < 64" "(of_char c :: nat) mod 64 < 64"
  "(of_char a :: nat) mod 4 * 16 < 64" "(of_char b :: nat) mod 16 * 4 < 64"
proof -
  have bc: "of_char a div 4 < (64 :: nat)" "of_char b div 16 < (16 :: nat)" "of_char c div 64 < (4 :: nat)"
    using of_char_256 [of a] of_char_256 [of b] of_char_256 [of c] by (simp_all add: div_less_iff_less_mult)
  from bc(1) show "(of_char a :: nat) div 4 < 64" .
  have m: "of_char a mod 4 < (4 :: nat)" "of_char b mod 16 < (16 :: nat)" by simp_all
  from packed_less [OF m(1) bc(2)] packed_less [OF m(2) bc(3)]
  show "(of_char a :: nat) mod 4 * 16 + of_char b div 16 < 64"
    "(of_char b :: nat) mod 16 * 4 + of_char c div 64 < 64" by simp_all
  from packed_less [OF m(1), of 0 16] packed_less [OF m(2), of 0 4]
  show "(of_char a :: nat) mod 4 * 16 < 64" "(of_char b :: nat) mod 16 * 4 < 64" by simp_all
qed simp

lemma last_parts:
  "b64_first (of_char a div 4) (of_char a mod 4 * 16) = a"
  "b64_second (of_char a mod 4 * 16 + of_char b div 16) (of_char b mod 16 * 4) = b"
  using byte_parts(1) [of a "CHR 0x00"] byte_parts(2) [of a b "CHR 0x00"] by simp_all

lemma b64_decode_encode: "b64_decode (b64_encode s) = Some s"
  by (induction s rule: b64_encode.induct) (simp_all add: Let_def sextets byte_parts last_parts)

lemma length_b64_encode: "length (b64_encode s) = 4 * ((length s + 2) div 3)"
proof (induction s rule: b64_encode.induct)
  case (4 a b c s)
  then have "length (b64_encode (a # b # c # s)) = 4 + 4 * ((length s + 2) div 3)" by (simp add: Let_def)
  also have "\<dots> = 4 * ((length s + 2 + 3) div 3)"
    unfolding div_add_self2 [OF numeral_neq_zero] by (simp only: distrib_left mult_1_right add.commute [of 4])
  also have "length s + 2 + 3 = length (a # b # c # s) + 2" by simp
  finally show ?case .
qed (simp_all add: Let_def)

lemma b64_encode_chars: "set (b64_encode s) \<subseteq> insert (CHR ''='') (set b64_alphabet)"
proof -
  have "n < 64 \<Longrightarrow> b64_char n \<in> set b64_alphabet" for n
    using b64_alphabet_facts(2) by (simp add: b64_char_def)
  then show ?thesis
    by (induction s rule: b64_encode.induct) (auto simp: Let_def sextets)
qed

lemma b64_chars_plain:
  assumes "c \<in> set (b64_encode s)"
  shows "c \<noteq> NUL" "c \<noteq> CHR 0x27" "c \<noteq> CHR 0x5C" "c \<noteq> CHR '';''" "(of_char c :: nat) < 128"
proof -
  have "\<forall>c \<in> insert (CHR ''='') (set b64_alphabet). c \<noteq> NUL \<and> c \<noteq> CHR 0x27 \<and> c \<noteq> CHR 0x5C \<and> c \<noteq> CHR '';'' \<and>
      (of_char c :: nat) < 128"
    by (simp add: b64_alphabet_def NUL_def)
  then show "c \<noteq> NUL" "c \<noteq> CHR 0x27" "c \<noteq> CHR 0x5C" "c \<noteq> CHR '';''" "(of_char c :: nat) < 128"
    using assms b64_encode_chars [of s] by blast+
qed

lemma b64_encode_inject: "b64_encode s = b64_encode t \<longleftrightarrow> s = t"
  by (metis b64_decode_encode option.inject)

section \<open>OpenSSL's filter\<close>

text \<open>
  The documentation of \<open>BIO_f_base64\<close>: what is written through the filter is encoded, the end when
  it is flushed; what is read through it is decoded. With \<open>BIO_FLAGS_BASE64_NO_NL\<close> all is one line.
\<close>

locale base64_bio =
  fixes B :: "'b bio_api"
  assumes writes: "BIO_new_mem B = Some m \<Longrightarrow> BIO_new_base64 B = Some f \<Longrightarrow> data \<noteq> [] \<Longrightarrow>
      \<exists>n b. BIO_write B (BIO_push B (BIO_set_flags B f BIO_FLAGS_BASE64_NO_NL) m) data = (n, b) \<and> 0 < n \<and>
        BIO_get_mem_ptr B (BIO_flush B b) = Some (b64_encode data)"
    and reads: "BIO_new_mem_buf B line = Some m \<Longrightarrow> BIO_new_base64 B = Some f \<Longrightarrow> b64_decode line = Some data \<Longrightarrow>
      data \<noteq> [] \<Longrightarrow> length data \<le> n \<Longrightarrow>
      BIO_read_ex B (BIO_push B (BIO_set_flags B f BIO_FLAGS_BASE64_NO_NL) m) n = Some data"
begin

lemma encode_ok:
  assumes "BIO_new_mem B \<noteq> None" "BIO_new_base64 B \<noteq> None" "data \<noteq> []"
  shows "base64Encode B (Some data) (int (length data)) (Some out) =
    (if length (b64_encode data) \<le> length out
     then Inr (int (length (b64_encode data)), Some (b64_encode data @ drop (length (b64_encode data)) out))
     else Inl OutOfBounds)"
proof -
  obtain m f where mf: "BIO_new_mem B = Some m" "BIO_new_base64 B = Some f" using assms(1,2) by blast
  from writes [OF this assms(3)] obtain n b where
    "BIO_write B (BIO_push B (BIO_set_flags B f BIO_FLAGS_BASE64_NO_NL) m) data = (n, b)" "0 < n"
    "BIO_get_mem_ptr B (BIO_flush B b) = Some (b64_encode data)" by blast
  then show ?thesis using mf assms(3) by (simp add: base64Encode_def mem_read_def memcpy_def)
qed

lemma decode_ok:
  assumes "BIO_new_mem_buf B (b64_encode data) \<noteq> None" "BIO_new_base64 B \<noteq> None" "data \<noteq> []" "length data \<le> length out"
  shows "base64Decode B (Some (b64_encode data @ rest)) (int (length (b64_encode data))) (Some out) =
    Inr (int (length data), Some (data @ drop (length data) out))"
proof -
  obtain m f where mf: "BIO_new_mem_buf B (b64_encode data) = Some m" "BIO_new_base64 B = Some f" using assms(1,2) by blast
  have le: "length data \<le> length (b64_encode data)" "b64_encode data \<noteq> []"
    using assms(3) length_b64_encode [of data] by (auto simp del: length_greater_0_conv simp flip: length_greater_0_conv)
  from reads [OF mf b64_decode_encode assms(3) le(1)] show ?thesis
    using mf assms(4) le(2) by (simp add: base64Decode_def mem_read_def memcpy_def)
qed

end

text \<open>Objects that keep what is written until it is flushed.\<close>

datatype sample_bio = Memory string | Base64 nat | Chain string string

definition sample_bios :: "sample_bio bio_api" where
  "sample_bios = \<lparr>BIO_new_mem = Some (Memory []), BIO_new_mem_buf = \<lambda>s. Some (Memory s), BIO_new_base64 = Some (Base64 0),
     BIO_set_flags = \<lambda>b n. (case b of Base64 _ \<Rightarrow> Base64 n | _ \<Rightarrow> b),
     BIO_push = \<lambda>f m. (case m of Memory s \<Rightarrow> Chain s [] | _ \<Rightarrow> f),
     BIO_write = \<lambda>b data. (case b of Chain s p \<Rightarrow> (int (length data), Chain s (p @ data)) | _ \<Rightarrow> (- 1, b)),
     BIO_flush = \<lambda>b. (case b of Chain s p \<Rightarrow> Chain (s @ b64_encode p) [] | _ \<Rightarrow> b),
     BIO_get_mem_ptr = \<lambda>b. (case b of Chain s p \<Rightarrow> Some s | Memory s \<Rightarrow> Some s | _ \<Rightarrow> None),
     BIO_read_ex = \<lambda>b n. (case b of Chain s p \<Rightarrow> map_option (take n) (b64_decode s) | _ \<Rightarrow> None)\<rparr>"

interpretation bios: base64_bio sample_bios
  by unfold_locales (auto simp: sample_bios_def)

section \<open>What the helpers do\<close>

text \<open>
  C24. Base64 round trip. What \<open>base64Encode\<close> writes takes four characters for every three bytes begun,
  and \<open>base64Decode\<close> reads the data back from it. An array that is too short for it is overrun,
  as the function is not told its size.
\<close>

theorem base64_roundtrip:
  assumes "base64_bio B" "BIO_new_mem B \<noteq> None" "BIO_new_base64 B \<noteq> None" "\<forall>s. BIO_new_mem_buf B s \<noteq> None"
    and "data \<noteq> []" "n = 4 * ((length data + 2) div 3)"
  shows "if n \<le> length out
    then \<exists>out'. base64Encode B (Some data) (int (length data)) (Some out) = Inr (int n, Some out') \<and>
      length out' = length out \<and> drop n out' = drop n out \<and>
      (\<forall>out2. length data \<le> length out2 \<longrightarrow>
        base64Decode B (Some out') (int n) (Some out2) = Inr (int (length data), Some (data @ drop (length data) out2)))
    else base64Encode B (Some data) (int (length data)) (Some out) = Inl OutOfBounds"
proof -
  have n: "n = length (b64_encode data)" by (simp add: assms(6) length_b64_encode)
  show ?thesis
    using base64_bio.encode_ok [OF assms(1-3,5), of out] base64_bio.decode_ok [OF assms(1) _ assms(3,5)] assms(4)
    by (simp add: n)
qed

theorem base64_roundtrip_witness:
  "\<exists>out'. base64Encode sample_bios (Some ''hello'') 5 (Some (zero_buf 10)) = Inr (8, Some out') \<and>
    base64Decode sample_bios (Some out') 8 (Some (zero_buf 5)) = Inr (5, Some ''hello'')"
proof -
  have "\<exists>out'. base64Encode sample_bios (Some ''hello'') (int (length ''hello'')) (Some (zero_buf 10)) = Inr (int 8, Some out') \<and>
      length out' = length (zero_buf 10) \<and> drop 8 out' = drop 8 (zero_buf 10) \<and>
      (\<forall>out2. length ''hello'' \<le> length out2 \<longrightarrow> base64Decode sample_bios (Some out') (int 8) (Some out2) =
        Inr (int (length ''hello''), Some (''hello'' @ drop (length ''hello'') out2)))"
    using base64_roundtrip [OF bios.base64_bio_axioms, of "''hello''" 8 "zero_buf 10"] by (simp add: sample_bios_def)
  then show ?thesis by (elim exE conjE, intro exI conjI) (auto dest: spec [of _ "zero_buf 5"])
qed

lemma CMD5Base64_eq:
  assumes "base64_bio B" "\<forall>s. length (hash s) = 16" "BIO_new_mem B \<noteq> None" "BIO_new_base64 B \<noteq> None"
  shows "CMD5Base64 B hash s = Inr (b64_encode (hash s))"
proof -
  have len: "length (b64_encode (hash s)) = 24" by (simp add: length_b64_encode assms(2))
  have "hash s \<noteq> []" using assms(2) by (metis list.size(3) zero_neq_numeral)
  from base64_bio.encode_ok [OF assms(1,3,4) this, of "zero_buf 25"]
  have "base64Encode B (Some (hash s)) 16 (Some (zero_buf 25)) = Inr (24, Some (b64_encode (hash s) @ [NUL]))"
    using len assms(2) by (simp add: numeral_eq_Suc)
  moreover have "(b64_encode (hash s) @ [NUL])[24 := NUL] = b64_encode (hash s) @ [NUL]"
    using len by (simp add: list_update_append)
  moreover have "NUL \<notin> set (b64_encode (hash s))" using b64_chars_plain(1) by blast
  ultimately show ?thesis
    by (simp add: CMD5Base64_def CMD5_def memcpy_def assms(2) c_str_def takeWhile_append takeWhile_neq_all)
qed

text \<open>
  C25. The text of a password. \<open>CMD5Base64\<close> of any data, whatever its bytes, is 24 characters of the
  base64 alphabet, so that it never leaves its 25 bytes, and the texts of two data are the same only
  when their MD5 are. But when OpenSSL cannot make its objects, it is empty for every password.
\<close>

theorem md5_base64_is_text:
  assumes "base64_bio B" "\<forall>s. length (hash s) = 16"
  shows "if BIO_new_mem B = None \<or> BIO_new_base64 B = None then CMD5Base64 B hash password = Inr []
    else \<exists>h. CMD5Base64 B hash password = Inr h \<and> length h = 24 \<and> set h \<subseteq> insert (CHR ''='') (set b64_alphabet) \<and>
      (\<forall>other. CMD5Base64 B hash other = Inr h \<longleftrightarrow> hash other = hash password)"
proof (cases "BIO_new_mem B = None \<or> BIO_new_base64 B = None")
  case True
  have "(zero_buf 25)[24 := NUL] = zero_buf 25" by (simp add: list_update_same_conv)
  then show ?thesis using True assms(2)
    by (cases "BIO_new_mem B")
       (auto simp: CMD5Base64_def CMD5_def memcpy_def base64Encode_def simp del: list_update.simps replicate.simps)
next
  case False
  have txt_of: "CMD5Base64 B hash s = Inr (b64_encode (hash s))" for s
    using CMD5Base64_eq [OF assms] False by blast
  have len: "length (b64_encode (hash password)) = 24" by (simp add: length_b64_encode assms(2))
  show ?thesis unfolding if_not_P [OF False]
    by (intro exI conjI allI, rule txt_of, rule len, rule b64_encode_chars) (simp add: txt_of b64_encode_inject)
qed

definition sample_md5 :: "string \<Rightarrow> string" where
  "sample_md5 s = take 16 (s @ replicate 16 (CHR 0xFF))"

lemma length_sample_md5 [simp]: "length (sample_md5 s) = 16"
  by (simp add: sample_md5_def)

theorem md5_base64_is_text_witness:
  "\<exists>h. CMD5Base64 sample_bios sample_md5 ''pw'' = Inr h \<and> length h = 24 \<and> CMD5Base64 sample_bios sample_md5 ''no'' \<noteq> Inr h"
proof -
  have "\<not> (BIO_new_mem sample_bios = None \<or> BIO_new_base64 sample_bios = None)" by (simp add: sample_bios_def)
  with md5_base64_is_text [where hash = sample_md5 and password = "''pw''", OF bios.base64_bio_axioms]
  obtain h where h: "CMD5Base64 sample_bios sample_md5 ''pw'' = Inr h" "length h = 24"
    "\<forall>other. CMD5Base64 sample_bios sample_md5 other = Inr h \<longleftrightarrow> sample_md5 other = sample_md5 ''pw''"
    by auto
  have "sample_md5 ''no'' \<noteq> sample_md5 ''pw''" by (simp add: sample_md5_def)
  with h(3) have "CMD5Base64 sample_bios sample_md5 ''no'' \<noteq> Inr h" by simp
  with h(1,2) show ?thesis by (intro exI conjI)
qed

section \<open>Listings\<close>

text \<open>The names and sizes that a listing shows, for names without the characters that separate them.\<close>

fun split_chr :: "char \<Rightarrow> string \<Rightarrow> string list" where
  "split_chr c [] = [[]]"
| "split_chr c (x # xs) =
     (if x = c then [] # split_chr c xs else (case split_chr c xs of [] \<Rightarrow> [[x]] | y # ys \<Rightarrow> (x # y) # ys))"

definition dir_entry :: "string \<Rightarrow> string \<times> int" where
  "dir_entry l = (takeWhile (\<lambda>c. c \<noteq> CHR '','') l, atoi (tl (dropWhile (\<lambda>c. c \<noteq> CHR '','') l)))"

definition dir_entries :: "string \<Rightarrow> (string \<times> int) list" where
  "dir_entries s = (if s = [] then [] else map dir_entry (split_chr (CHR '';'') s))"

lemma split_chr_single: "c \<notin> set a \<Longrightarrow> split_chr c a = [a]"
  by (induction a) auto

lemma split_chr_append: "c \<notin> set a \<Longrightarrow> split_chr c (a @ c # b) = a # split_chr c b"
  by (induction a) auto

definition file_line :: "string \<times> int \<Rightarrow> string" where
  "file_line f = fst f @ '','' @ show_int (snd f)"

lemma show_int_not_Nil: "show_int i \<noteq> []"
  by (simp add: show_int_def)

lemma digits_no_semicolon: "CHR '';'' \<notin> set (show_int i)"
proof -
  have "CHR '';'' \<notin> set (show_nat n)" for n
    using show_nat_digits [of n] by (auto simp: is_digit_def)
  then show ?thesis by (simp add: show_int_def)
qed

lemma dir_entries_lines:
  assumes "\<forall>f \<in> set files. CHR '';'' \<notin> set (fst f) \<and> CHR '','' \<notin> set (fst f)"
  shows "dir_entries (butlast (concat (map (\<lambda>f. file_line f @ '';'') files))) = files"
  using assms
proof (induction files)
  case Nil
  then show ?case by (simp add: dir_entries_def)
next
  case (Cons f fs)
  let ?rest = "concat (map (\<lambda>f. file_line f @ '';'') fs)"
  have l: "CHR '';'' \<notin> set (file_line f)" "dir_entry (file_line f) = f" "file_line f \<noteq> []"
    using Cons.prems digits_no_semicolon [of "snd f"]
    by (simp_all add: file_line_def dir_entry_def takeWhile_append dropWhile_append takeWhile_neq_all)
  show ?case
  proof (cases fs)
    case Nil
    then show ?thesis using l by (simp add: dir_entries_def split_chr_single)
  next
    case (Cons g gs)
    then have ne: "butlast ?rest \<noteq> []" "?rest \<noteq> []"
      using show_int_not_Nil [of "snd g"] by (auto simp: file_line_def butlast_append)
    have "map dir_entry (split_chr (CHR '';'') (butlast ?rest)) = fs"
      using Cons.IH Cons.prems ne(1) by (simp add: dir_entries_def)
    then show ?thesis
      using l ne by (simp add: dir_entries_def butlast_append split_chr_append)
  qed
qed

definition listed_files :: "dir_api \<Rightarrow> string \<Rightarrow> string list \<Rightarrow> (string \<times> int) list" where
  "listed_files D d names = map (\<lambda>n. (n, snd (the (lstat D d n)))) (filter (\<lambda>n. \<not> fst (the (lstat D d n))) names)"

lemma dir_loop_lines:
  assumes "\<forall>n \<in> set names. lstat D d n \<noteq> None" "\<forall>f \<in> set (listed_files D d names). length (file_line f) < 1023"
  shows "dir_loop D d names st data = Inr (data @ concat (map (\<lambda>f. file_line f @ '';'') (listed_files D d names)))"
  using assms by (induction names arbitrary: st data) (auto simp: listed_files_def file_line_def Let_def)

text \<open>
  A listing shows the files. When every entry can be examined and fits its line, the result lists
  the entries that are no directories, in order, with their sizes: reading it back gives exactly
  them when their names have neither of the two separators. The process is then in that directory,
  as the function changes into it and not back.
\<close>

theorem listing_shows_files:
  assumes "opendir D cwd path = Some names" "chdir D cwd path = Some d"
    and "\<forall>n \<in> set names. lstat D d n \<noteq> None" "\<forall>f \<in> set (listed_files D d names). length (file_line f) < 1023"
    and "\<forall>n \<in> set names. CHR '';'' \<notin> set n \<and> CHR '','' \<notin> set n"
  shows "\<exists>data. getDirData D cwd st path = Inr (data, d) \<and> dir_entries data = listed_files D d names"
proof -
  let ?lines = "concat (map (\<lambda>f. file_line f @ '';'') (listed_files D d names))"
  have "\<forall>f \<in> set (listed_files D d names). CHR '';'' \<notin> set (fst f) \<and> CHR '','' \<notin> set (fst f)"
    using assms(5) by (auto simp: listed_files_def)
  note entries = dir_entries_lines [OF this]
  have "getDirData D cwd st path = Inr (butlast ?lines, d)"
    using assms(1,2) dir_loop_lines [OF assms(3,4), of st "[]"] by (simp add: getDirData_def del: concat_eq_Nil_conv)
  with entries show ?thesis by blast
qed

definition sample_dirs :: dir_api where
  "sample_dirs = \<lparr>opendir = \<lambda>cwd p. if cwd = ''/'' \<and> p = ''d'' then Some [''.'', ''a'', ''b''] else None,
     chdir = \<lambda>cwd p. Some (cwd @ p), lstat = \<lambda>cwd n. Some (n = ''.'', 7)\<rparr>"

theorem listing_shows_files_witness:
  "\<exists>data. getDirData sample_dirs ''/'' (True, 0) ''d'' = Inr (data, ''/d'') \<and> dir_entries data = [(''a'', 7), (''b'', 7)] \<and>
    getDirData sample_dirs ''/d'' (True, 0) ''d'' = Inr ([], ''/d'')"
proof -
  have l: "listed_files sample_dirs ''/d'' [''.'', ''a'', ''b''] = [(''a'', 7), (''b'', 7)]"
    by (simp add: listed_files_def sample_dirs_def)
  have "length (file_line f) < 1023" if "f \<in> {(''a'', 7), (''b'', 7)}" for f
  proof -
    have "show_nat 7 = [digit_char 7]" by (subst show_nat.simps) simp
    then have "length (show_int 7) = 1" by (simp add: show_int_def)
    then show ?thesis using that by (auto simp: file_line_def)
  qed
  then have "\<exists>data. getDirData sample_dirs ''/'' (True, 0) ''d'' = Inr (data, ''/d'') \<and>
      dir_entries data = listed_files sample_dirs ''/d'' [''.'', ''a'', ''b'']"
    by (intro listing_shows_files) (simp_all add: l, simp_all add: sample_dirs_def ex_bool_eq)
  then show ?thesis by (simp add: l) (simp add: getDirData_def sample_dirs_def)
qed

end
