(* ===== verification/Login_Props.thy ===== *)
theory Login_Props
  imports Auth_Props Tools_Props
begin

text \<open>
  A whole login, from the name and password at the client to the token that \<open>getLoginInfo\<close> gives,
  through the frames both sides send, the service and its database.
\<close>

section \<open>Texts\<close>

text \<open>A text that protobuf transports; ASCII is UTF-8.\<close>

definition text_ok :: "pb_rt \<Rightarrow> string \<Rightarrow> bool" where
  "text_ok rt s \<longleftrightarrow> VerifyUtf8String rt s \<and> length s < 2 ^ 31"

definition ascii_utf8 :: "pb_rt \<Rightarrow> bool" where
  "ascii_utf8 rt \<longleftrightarrow> (\<forall>s. (\<forall>c \<in> set s. (of_char c :: nat) < 128) \<longrightarrow> VerifyUtf8String rt s)"

lemma ascii_utf8_ref: "ascii_utf8 ref_rt"
proof -
  have "(\<forall>c \<in> set s. (of_char c :: nat) < 128) \<Longrightarrow> utf8_ok s" for s
    by (induction s) (simp_all add: utf8_ok.simps)
  then show ?thesis by (simp add: ascii_utf8_def ref_rt_utf8)
qed

lemma uuid_text: "ascii_utf8 rt \<Longrightarrow> uuid s \<Longrightarrow> text_ok rt s"
  using uuid_chars [of s] by (auto simp: text_ok_def ascii_utf8_def uuid_def)

lemma hash_text:
  assumes "\<forall>s. length (hash s) = 16"
  shows "plain (b64_encode (hash s))" "ascii_utf8 rt \<Longrightarrow> text_ok rt (b64_encode (hash s))" "b64_encode (hash s) \<noteq> []"
proof -
  have len: "length (b64_encode (hash s)) = 24" by (simp add: length_b64_encode assms)
  show "plain (b64_encode (hash s))" unfolding plain_def using b64_chars_plain(1-3) by blast
  show "b64_encode (hash s) \<noteq> []" using len by auto
  show "ascii_utf8 rt \<Longrightarrow> text_ok rt (b64_encode (hash s))"
    using b64_chars_plain(5) by (simp add: text_ok_def ascii_utf8_def len)
qed

lemma ascii_refused: "ascii_utf8 rt \<Longrightarrow> CLoginRes_wf rt refused"
  by (simp add: ascii_utf8_def CLoginRes_wf_def refused_def CLoginRes_Clear_def)

definition accepted :: "string \<Rightarrow> string \<Rightarrow> string \<Rightarrow> int \<Rightarrow> CLoginRes" where
  "accepted name role tok expires = CLoginRes_Clear\<lparr>CLoginRes_username := name, CLoginRes_rolename := role,
     CLoginRes_res := CLoginRes_OK, CLoginRes_token := tok, CLoginRes_expired_time := word_of_int expires\<rparr>"

lemma accepted_sel [simp]:
  "CLoginRes_username (accepted name role tok expires) = name" "CLoginRes_rolename (accepted name role tok expires) = role"
  "CLoginRes_token (accepted name role tok expires) = tok" "CLoginRes_res (accepted name role tok expires) = CLoginRes_OK"
  by (simp_all add: accepted_def)

lemma accepted_wf:
  "text_ok rt name \<Longrightarrow> text_ok rt role \<Longrightarrow> text_ok rt tok \<Longrightarrow> CLoginRes_wf rt (accepted name role tok expires)"
  by (simp add: text_ok_def CLoginRes_wf_def accepted_def CLoginRes_Clear_def)

lemma accepted_nonempty: "name \<noteq> [] \<Longrightarrow> CLoginRes_Serialize (accepted name role tok expires) \<noteq> []"
  by (simp add: accepted_def CLoginRes_Serialize_def WriteStringToArray_def WriteTagToArray_def)

section \<open>The service\<close>

text \<open>The answer \<open>res\<close> of a login: acceptance with the role of a matching user and a stored tokenen, or refusal.\<close>

definition login_answer ::
    "(string \<Rightarrow> string \<Rightarrow> bool) \<Rightarrow> user_row list \<Rightarrow> string \<Rightarrow> string \<Rightarrow> int \<Rightarrow> CLoginRes \<Rightarrow> token_row list \<Rightarrow> bool" where
  "login_answer same us name pass expires res ts \<longleftrightarrow>
     (if \<exists>r \<in> set us. account same name pass r
      then \<exists>r tok k. r \<in> set us \<and> account same name pass r \<and> uuid tok \<and> res = accepted name (u_role r) tok expires \<and>
        \<lparr>t_id = k, t_name = name, t_role = u_role r, t_token = tok, t_expires = expires\<rparr> \<in> set ts
      else res = refused)"

lemma login_result:
  assumes "auth_sql api users tokens up same" "ready up c" "plain_login req" "0 \<le> timeoutSec" "int_fits (now + timeoutSec)"
    and "\<forall>r \<in> set (users (my_db c)). plain (u_role r)" "ids_left (tokens (my_db c))"
  obtains ok res c' where "CAuthDAO_login api now req CLoginRes_Clear timeoutSec c = Inr (ok, res, c')"
    "login_answer same (users (my_db c)) (CLoginReq_username req) (CLoginReq_password req) (now + timeoutSec) res (tokens (my_db c'))"
proof -
  have req: "plain (CLoginReq_username req)" "CHR '';'' \<notin> set (CLoginReq_username req)" "plain (CLoginReq_password req)"
    using assms(3) by (simp_all add: plain_login_def)
  show thesis
  proof (cases "filter (account same (CLoginReq_username req) (CLoginReq_password req)) (users (my_db c))")
    case Nil
    then show ?thesis
      using auth_sql.login_refused [OF assms(1,2) req Nil] that
      by (metis (no_types, lifting) filter_empty_conv login_answer_def refused_def)
  next
    case (Cons r rs)
    then have "r \<in> set (filter (account same (CLoginReq_username req) (CLoginReq_password req)) (users (my_db c)))"
      by (metis list.set_intros(1))
    then have r: "r \<in> set (users (my_db c))" "account same (CLoginReq_username req) (CLoginReq_password req) r"
      by simp_all
    obtain c' tok k where l: "CAuthDAO_login api now req CLoginRes_Clear timeoutSec c = Inr (True,
        accepted (CLoginReq_username req) (u_role r) tok (now + timeoutSec), c')" "uuid tok"
      "tokens (my_db c') = filter (\<lambda>t. \<not> t_expires t < now) (tokens (my_db c) @
         [\<lparr>t_id = k, t_name = CLoginReq_username req, t_role = u_role r, t_token = tok, t_expires = now + timeoutSec\<rparr>])"
      using auth_sql.login_accepted [OF assms(1,2) req assms(5) Cons _ assms(7), of CLoginRes_Clear] assms(6) r(1)
      unfolding accepted_def by metis
    have "\<lparr>t_id = k, t_name = CLoginReq_username req, t_role = u_role r, t_token = tok, t_expires = now + timeoutSec\<rparr>
        \<in> set (tokens (my_db c'))" using assms(4) by (simp add: l(3))
    with r l(2) have "login_answer same (users (my_db c)) (CLoginReq_username req) (CLoginReq_password req) (now + timeoutSec)
        (accepted (CLoginReq_username req) (u_role r) tok (now + timeoutSec)) (tokens (my_db c'))"
      unfolding login_answer_def by metis
    with l(1) show ?thesis by (rule that)
  qed
qed

lemma answer_nonempty: "login_answer same us name pass expires res ts \<Longrightarrow> name \<noteq> [] \<Longrightarrow> CLoginRes_Serialize res \<noteq> []"
  using accepted_nonempty by (auto simp: login_answer_def split: if_splits)

lemma loginReq_answers:
  assumes "channel P inb outb" "\<And>b d. fst (bufferevent_write (p_libevent P) b d) = 0" "m_bev t \<noteq> None"
    and "CLoginReq_ParseFromArray (p_protobuf P) (msg_bytes msg) = Some req"
    and "CAuthDAO_login api now req CLoginRes_Clear 1800 c = Inr (ok, res, c')" "CLoginRes_Serialize res \<noteq> []"
  obtains head' t' where "CAuthHandle_loginReq P api now head msg c t = Inr (head', c', t')"
    "sent outb t' = sent outb t @ frame (head', CLoginRes_Serialize res)" "msg_type head' = MSG_LOGIN_RES"
    "msg_id head' = msg_id head" "msg_size head' = word_of_nat (length (CLoginRes_Serialize res))"
proof -
  let ?h = "head\<lparr>msg_type := MSG_LOGIN_RES\<rparr>"
  have nz: "msg_type ?h \<noteq> 0" by (simp add: MSG_LOGIN_RES_def)
  obtain t' where t': "sendMsg_message P (Some ?h) (Some (CLoginRes_Serialize res)) t =
      (True, Some (?h\<lparr>msg_size := word_of_nat (length (CLoginRes_Serialize res))\<rparr>), t')"
    "sent outb t' = sent outb t @ frame (?h\<lparr>msg_size := word_of_nat (length (CLoginRes_Serialize res))\<rparr>, CLoginRes_Serialize res)"
    using channel.sendMsg_message_succeeds [OF assms(1-3,6) nz] by metis
  have "CAuthHandle_loginReq P api now head msg c t =
      Inr (?h\<lparr>msg_size := word_of_nat (length (CLoginRes_Serialize res))\<rparr>, c', t')"
    using assms(4,5) t'(1) by (simp add: CAuthHandle_loginReq_def)
  then show thesis by (rule that) (use t'(2) in simp_all)
qed

section \<open>The client\<close>

lemma poll_none: "\<forall>i < n. obs (k + i) = None \<Longrightarrow> poll obs k n = (None, k + n)"
proof (induction n arbitrary: k)
  case (Suc n)
  have "obs k = None" using Suc.prems [rule_format, of 0] by simp
  moreover have "poll obs (Suc k) n = (None, Suc k + n)"
    by (rule Suc.IH) (use Suc.prems in \<open>auto dest: spec [of _ "Suc _"]\<close>)
  ultimately show ?case by simp
qed simp

text \<open>What the polls of \<open>getLoginInfo\<close> see when the answer \<open>res\<close> is handled before poll \<open>j\<close>.\<close>

lemma getLoginInfo_answer:
  assumes "coded_input rt" "CLoginRes_wf rt res" "msg_bytes msg = CLoginRes_Serialize res" "loginMap k name = None"
    and "res = refused \<or> (\<exists>role tok expires. res = accepted name role tok expires)" "name \<noteq> []"
    and "\<forall>i < j. maps i name = None" "\<forall>i \<ge> j. maps i = loginMap (CAuthClient_LoginRes rt msg k)" "j < polls timeoutMs"
  shows "CAuthClient_getLoginInfo maps name (Some out) timeoutMs =
    (if res = refused then (False, Some out, polls timeoutMs) else (True, Some res, j))"
proof -
  have p: "CLoginRes_ParseFromArray rt (msg_bytes msg) = Some res"
    unfolding assms(3) by (rule coded_input.CLoginRes_roundtrip [OF assms(1,2)])
  show ?thesis
  proof (cases "res = refused")
    case True
    then have "CAuthClient_LoginRes rt msg k = k" using p by (simp add: CAuthClient_LoginRes_def)
    then have "maps i name = None" for i using assms(4,7,8) by (cases "i < j") simp_all
    then show ?thesis using True poll_none [of "polls timeoutMs" "\<lambda>i. maps i name" 0]
      by (simp add: CAuthClient_getLoginInfo_def polls_count)
  next
    case False
    with assms(5) have res: "CLoginRes_username res = name" "CLoginRes_res res = CLoginRes_OK" by auto
    then have "maps j name = Some res" using p assms(6,8) by (simp add: CAuthClient_LoginRes_def)
    with poll_finds [of j "\<lambda>i. maps i name" 0 res "polls timeoutMs"] assms(7,9) res False show ?thesis
      by (simp add: CAuthClient_getLoginInfo_def polls_count)
  qed
qed

section \<open>A whole login\<close>

lemma loginMap_only_bev: "only_bev k k' \<Longrightarrow> loginMap k' = loginMap k"
  unfolding only_bev_def by (elim exE conjE) simp

lemma answer_shape:
  assumes "login_answer same us name h expires res ts" "ascii_utf8 rt" "text_ok rt name" "name \<noteq> []"
    and "\<forall>r \<in> set us. plain (u_role r) \<and> text_ok rt (u_role r)"
  shows "CLoginRes_wf rt res" "CLoginRes_Serialize res \<noteq> []"
    "res = refused \<or> (\<exists>role tok expires. res = accepted name role tok expires)"
    "res = refused \<longleftrightarrow> \<not> (\<exists>r \<in> set us. account same name h r)"
proof -
  have n: "accepted name role tok expires \<noteq> refused" for role tok
    using assms(4) by (metis accepted_sel(1) refused_sel(1))
  consider (no) "\<not> (\<exists>r \<in> set us. account same name h r)" "res = refused"
    | (yes) r tok where "\<exists>r \<in> set us. account same name h r" "r \<in> set us" "uuid tok" "res = accepted name (u_role r) tok expires"
    using assms(1) unfolding login_answer_def by (auto split: if_splits)
  then have "CLoginRes_wf rt res \<and> CLoginRes_Serialize res \<noteq> [] \<and>
      (res = refused \<or> (\<exists>role tok expires. res = accepted name role tok expires)) \<and>
      (res = refused \<longleftrightarrow> \<not> (\<exists>r \<in> set us. account same name h r))"
  proof cases
    case no
    then show ?thesis using ascii_refused [OF assms(2)] refused_sel(2) by simp
  next
    case yes
    have "CLoginRes_wf rt res"
      unfolding yes(4) by (rule accepted_wf [OF assms(3) _ uuid_text [OF assms(2) yes(3)]]) (use assms(5) yes(2) in blast)
    moreover have "CLoginRes_Serialize res \<noteq> []" "res \<noteq> refused"
      unfolding yes(4) by (rule accepted_nonempty [OF assms(4)], rule n)
    ultimately show ?thesis using yes(1,4) by (intro conjI) auto
  qed
  then show "CLoginRes_wf rt res" "CLoginRes_Serialize res \<noteq> []"
    "res = refused \<or> (\<exists>role tok expires. res = accepted name role tok expires)"
    "res = refused \<longleftrightarrow> \<not> (\<exists>r \<in> set us. account same name h r)" by blast+
qed

lemma LoginReq_sends:
  assumes "channel P inb outb" "\<And>b d. fst (bufferevent_write (p_libevent P) b d) = 0" "m_bev k \<noteq> None"
    and "base64_bio B" "\<forall>s. length (hash s) = 16" "BIO_new_mem B \<noteq> None" "BIO_new_base64 B \<noteq> None" "username \<noteq> []"
  obtains k1 where "CAuthClient_LoginReq P B hash username password k = Inr k1" "loginMap k1 username = None"
    "sent outb k1 = sent outb k @ frame (typed MSG_LOGIN_REQ (CLoginReq_Serialize (login_of username (b64_encode (hash password)))))"
proof -
  let ?req = "login_of username (b64_encode (hash password))" and ?k = "k\<lparr>loginMap := (loginMap k)(username := None)\<rparr>"
  have ne: "CLoginReq_Serialize ?req \<noteq> []"
    using assms(8) by (simp add: login_of_def CLoginReq_Serialize_def WriteStringToArray_def WriteTagToArray_def)
  have nz: "MSG_LOGIN_REQ \<noteq> 0" by (simp add: MSG_LOGIN_REQ_def)
  have bev: "m_bev ?k \<noteq> None" using assms(3) by simp
  have "CAuthClient_LoginReq P B hash username password k = Inr (snd (sendMsg_type P MSG_LOGIN_REQ (Some (CLoginReq_Serialize ?req)) ?k))"
    by (simp add: CAuthClient_LoginReq_def CMD5Base64_eq [OF assms(4-7)] login_of_def)
  then show thesis
    by (rule that)
       (use channel.sendMsg_type_typed [OF assms(1,2) bev ne nz] loginMap_only_bev [OF sendMsg_type_bev, of P MSG_LOGIN_REQ "Some (CLoginReq_Serialize ?req)" ?k]
         in \<open>simp_all add: sent_def\<close>)
qed

text \<open>The whole exchange: request, answer, and what the client then sees.\<close>

lemma login_exchange:
  assumes "channel P inb outb" "\<And>b d. fst (bufferevent_write (p_libevent P) b d) = 0" "m_bev k \<noteq> None"
    and "channel P' inb' outb'" "\<And>b d. fst (bufferevent_write (p_libevent P') b d) = 0" "m_bev t \<noteq> None"
    and "base64_bio B" "\<forall>s. length (hash s) = 16" "BIO_new_mem B \<noteq> None" "BIO_new_base64 B \<noteq> None"
    and "auth_sql api users tokens up same" "ready up c" "int_fits (now + 1800)" "ids_left (tokens (my_db c))"
    and "\<forall>r \<in> set (users (my_db c)). plain (u_role r) \<and> text_ok (p_protobuf P) (u_role r)"
    and "ascii_utf8 (p_protobuf P)" "ascii_utf8 (p_protobuf P')"
    and "username \<noteq> []" "plain username" "CHR '';'' \<notin> set username"
    and "text_ok (p_protobuf P) username" "text_ok (p_protobuf P') username"
    and "h = b64_encode (hash password)" "ask = typed MSG_LOGIN_REQ (CLoginReq_Serialize (login_of username h))"
  shows "\<exists>k1 head c' t' res. CAuthClient_LoginReq P B hash username password k = Inr k1 \<and>
    sent outb k1 = sent outb k @ frame ask \<and>
    auth_dispatch P' api now (fst ask) (snd (delivered ask)) c t = Inr (head, c', t') \<and>
    sent outb' t' = sent outb' t @ frame (head, CLoginRes_Serialize res) \<and>
    login_answer same (users (my_db c)) username h (now + 1800) res (tokens (my_db c')) \<and>
    (\<forall>maps j out timeoutMs. (\<forall>i < j. maps i username = None) \<longrightarrow>
      (\<forall>i \<ge> j. maps i = loginMap (auth_client_dispatch (p_protobuf P) head (snd (delivered (head, CLoginRes_Serialize res))) k1)) \<longrightarrow>
      j < polls timeoutMs \<longrightarrow>
      CAuthClient_getLoginInfo maps username (Some out) timeoutMs =
        (if \<exists>r \<in> set (users (my_db c)). account same username h r then (True, Some res, j)
         else (False, Some out, polls timeoutMs)))"
proof -
  have rt: "coded_input (p_protobuf P)" "coded_input (p_protobuf P')" using assms(1,4) by (simp_all add: channel_def)
  obtain k1 where k1: "CAuthClient_LoginReq P B hash username password k = Inr k1" "loginMap k1 username = None"
    "sent outb k1 = sent outb k @ frame ask"
    unfolding assms(23,24) by (rule LoginReq_sends [OF assms(1-3,7-10,18)])
  let ?req = "login_of username h"
  have ne: "CLoginReq_Serialize ?req \<noteq> []"
    using assms(18) by (simp add: login_of_def CLoginReq_Serialize_def WriteStringToArray_def WriteTagToArray_def)
  have h: "plain h" "text_ok (p_protobuf P') h" using hash_text [OF assms(8)] assms(17) by (simp_all add: assms(23))
  have "CLoginReq_wf (p_protobuf P') ?req"
    using h(2) assms(22) by (simp add: CLoginReq_wf_def login_of_def text_ok_def CLoginReq_Clear_def)
  then have parse: "CLoginReq_ParseFromArray (p_protobuf P') (msg_bytes (snd (delivered ask))) = Some ?req"
    unfolding assms(24) msg_bytes_typed [OF ne] by (rule coded_input.CLoginReq_roundtrip [OF rt(2)])
  have pl: "plain_login ?req" using h(1) assms(19,20) by (simp add: plain_login_def)
  have roles: "\<forall>r \<in> set (users (my_db c)). plain (u_role r)" using assms(15) by blast
  obtain ok res c' where l: "CAuthDAO_login api now ?req CLoginRes_Clear 1800 c = Inr (ok, res, c')"
    "login_answer same (users (my_db c)) username h (now + 1800) res (tokens (my_db c'))"
    using login_result [OF assms(11,12) pl _ assms(13) roles assms(14)] by (metis login_of_sel zero_le_numeral)
  let ?acct = "\<exists>r \<in> set (users (my_db c)). account same username h r"
  have res: "CLoginRes_wf (p_protobuf P) res" "CLoginRes_Serialize res \<noteq> []"
    "res = refused \<or> (\<exists>role tok expires. res = accepted username role tok expires)" "res = refused \<longleftrightarrow> \<not> ?acct"
    using answer_shape [OF l(2) assms(16,21,18,15)] by blast+
  obtain head t' where s: "CAuthHandle_loginReq P' api now (fst ask) (snd (delivered ask)) c t = Inr (head, c', t')"
    "sent outb' t' = sent outb' t @ frame (head, CLoginRes_Serialize res)" "msg_type head = MSG_LOGIN_RES"
    by (rule loginReq_answers [OF assms(4-6) parse l(1) res(2)])
  have d: "auth_dispatch P' api now (fst ask) (snd (delivered ask)) c t = Inr (head, c', t')"
    using s(1) by (simp add: assms(24) auth_dispatch_def auth_regMsgCallback_def)
  have d': "auth_client_dispatch (p_protobuf P) head msg k1 = CAuthClient_LoginRes (p_protobuf P) msg k1" for msg
    by (simp add: auth_client_dispatch_def auth_client_regMsgCallback_def s(3))
  have b: "msg_bytes (snd (delivered (head, CLoginRes_Serialize res))) = CLoginRes_Serialize res"
    using res(2) by (simp add: msg_bytes_delivered)
  show ?thesis
  proof (intro exI conjI allI impI)
    fix maps :: "nat \<Rightarrow> string \<rightharpoonup> CLoginRes" and j out and timeoutMs :: int
    assume m: "\<forall>i < j. maps i username = None" "\<forall>i \<ge> j. maps i = loginMap (auth_client_dispatch (p_protobuf P) head
        (snd (delivered (head, CLoginRes_Serialize res))) k1)" "j < polls timeoutMs"
    show "CAuthClient_getLoginInfo maps username (Some out) timeoutMs =
        (if ?acct then (True, Some res, j) else (False, Some out, polls timeoutMs))"
      using getLoginInfo_answer [OF rt(1) res(1) b k1(2) res(3) assms(18) m(1) m(2) [unfolded d'] m(3)] res(4) by simp
  qed (use k1 d s l in simp_all)
qed

text \<open>
  C6. A login reaches the client. The client sends the name with the text of the password's MD5; the
  service looks for that account, and answers under the request's head. When the client handles the
  answer before its poll \<open>j\<close>, \<open>getLoginInfo\<close> returns at poll \<open>j\<close> with the role of a matching user and
  a token the database keeps for this user until half an hour from now. When there is no such
  account, it fails, but only after its whole timeout, as the client drops the refusal.
\<close>

theorem login_reaches_client:
  assumes "channel P inb outb" "\<And>b d. fst (bufferevent_write (p_libevent P) b d) = 0" "m_bev k \<noteq> None"
    and "channel P' inb' outb'" "\<And>b d. fst (bufferevent_write (p_libevent P') b d) = 0" "m_bev t \<noteq> None"
    and "base64_bio B" "\<forall>s. length (hash s) = 16" "BIO_new_mem B \<noteq> None" "BIO_new_base64 B \<noteq> None"
    and "auth_sql api users tokens up same" "ready up c" "int_fits (now + 1800)" "ids_left (tokens (my_db c))"
    and "\<forall>r \<in> set (users (my_db c)). plain (u_role r) \<and> text_ok (p_protobuf P) (u_role r)"
    and "ascii_utf8 (p_protobuf P)" "ascii_utf8 (p_protobuf P')"
    and "username \<noteq> []" "plain username" "CHR '';'' \<notin> set username"
    and "text_ok (p_protobuf P) username" "text_ok (p_protobuf P') username"
    and "h = b64_encode (hash password)" "ask = typed MSG_LOGIN_REQ (CLoginReq_Serialize (login_of username h))"
  shows "\<exists>k1 head c' t' res. CAuthClient_LoginReq P B hash username password k = Inr k1 \<and>
    sent outb k1 = sent outb k @ frame ask \<and>
    auth_dispatch P' api now (fst ask) (snd (delivered ask)) c t = Inr (head, c', t') \<and>
    sent outb' t' = sent outb' t @ frame (head, CLoginRes_Serialize res) \<and>
    login_answer same (users (my_db c)) username h (now + 1800) res (tokens (my_db c')) \<and>
    (\<forall>maps j out timeoutMs. (\<forall>i < j. maps i username = None) \<longrightarrow>
      (\<forall>i \<ge> j. maps i = loginMap (auth_client_dispatch (p_protobuf P) head (snd (delivered (head, CLoginRes_Serialize res))) k1)) \<longrightarrow>
      j < polls timeoutMs \<longrightarrow>
      CAuthClient_getLoginInfo maps username (Some out) timeoutMs =
        (if \<exists>r \<in> set (users (my_db c)). account same username h r then (True, Some res, j)
         else (False, Some out, polls timeoutMs)))"
  by (rule login_exchange [OF assms])

definition sample_auth_client :: "buffers CAuthClient" where
  "sample_auth_client = CServiceClient.extend (CMsgEvent.extend CMsgEvent_new (CServiceClient.fields (Some CCThreadPool_new)))
     (CAuthClient.fields Map.empty)\<lparr>m_bev := Some \<lparr>inbuf = [], outbuf = []\<rparr>\<rparr>"

definition hashed_ann :: user_row where
  "hashed_ann = \<lparr>u_name = ''ann'', u_pass = b64_encode (sample_md5 ''pw''), u_role = ''admin''\<rparr>"

theorem login_reaches_client_witness:
  "\<exists>k1 head c' t' res. CAuthClient_LoginReq ref_platform sample_bios sample_md5 ''ann'' ''pw'' sample_auth_client = Inr k1 \<and>
    auth_dispatch ref_platform auth_api 1000 (fst (typed MSG_LOGIN_REQ (CLoginReq_Serialize (login_of ''ann'' (u_pass hashed_ann)))))
      (snd (delivered (typed MSG_LOGIN_REQ (CLoginReq_Serialize (login_of ''ann'' (u_pass hashed_ann)))))) (auth_with [hashed_ann])
      (sample_event []) = Inr (head, c', t') \<and>
    CLoginRes_rolename res = ''admin'' \<and>
    CAuthClient_getLoginInfo (\<lambda>i. if i < 2 then Map.empty else loginMap (auth_client_dispatch ref_rt head
      (snd (delivered (head, CLoginRes_Serialize res))) k1)) ''ann'' (Some CLoginRes_Clear) 100 = (True, Some res, 2)"
proof -
  have rt: "p_protobuf ref_platform = ref_rt" by (simp add: ref_platform_def)
  have txt_ok: "text_ok ref_rt ''ann''" "text_ok ref_rt ''admin''"
    by (simp_all add: text_ok_def ref_rt_utf8 utf8_ok.simps)
  have acct: "\<exists>r \<in> set (ma_users (my_db (auth_with [hashed_ann]))). account (=) ''ann'' (u_pass hashed_ann) r"
    by (simp add: account_def hashed_ann_def)
  have hyps: "fst (bufferevent_write (p_libevent ref_platform) b d) = 0" "m_bev sample_auth_client \<noteq> None"
    "m_bev (sample_event []) \<noteq> None" "BIO_new_mem sample_bios \<noteq> None" "BIO_new_base64 sample_bios \<noteq> None"
    "ready texts_stored (auth_with [hashed_ann])" "int_fits (1000 + 1800)" "ids_left (ma_tokens (my_db (auth_with [hashed_ann])))"
    "\<forall>r \<in> set (ma_users (my_db (auth_with [hashed_ann]))). plain (u_role r) \<and> text_ok (p_protobuf ref_platform) (u_role r)"
    "ascii_utf8 (p_protobuf ref_platform)" "''ann'' \<noteq> []" "CHR '';'' \<notin> set ''ann''" "text_ok (p_protobuf ref_platform) ''ann''"
    "u_pass hashed_ann = b64_encode (sample_md5 ''pw'')" for b d
    by (simp_all add: ref_libevent_write sample_auth_client_def sample_bios_def hashed_ann_def int_fits_def rt txt_ok ascii_utf8_ref
        CServiceClient.defs CMsgEvent.defs CAuthClient.defs)
  obtain k1 head c' t' res where l:
    "CAuthClient_LoginReq ref_platform sample_bios sample_md5 ''ann'' ''pw'' sample_auth_client = Inr k1"
    "auth_dispatch ref_platform auth_api 1000 (fst (typed MSG_LOGIN_REQ (CLoginReq_Serialize (login_of ''ann'' (u_pass hashed_ann)))))
      (snd (delivered (typed MSG_LOGIN_REQ (CLoginReq_Serialize (login_of ''ann'' (u_pass hashed_ann)))))) (auth_with [hashed_ann])
      (sample_event []) = Inr (head, c', t')"
    "login_answer (=) (ma_users (my_db (auth_with [hashed_ann]))) ''ann'' (u_pass hashed_ann) (1000 + 1800) res (ma_tokens (my_db c'))"
    "\<forall>maps j out timeoutMs. (\<forall>i < j. maps i ''ann'' = None) \<longrightarrow>
      (\<forall>i \<ge> j. maps i = loginMap (auth_client_dispatch (p_protobuf ref_platform) head (snd (delivered (head, CLoginRes_Serialize res))) k1)) \<longrightarrow>
      j < polls timeoutMs \<longrightarrow> CAuthClient_getLoginInfo maps ''ann'' (Some out) timeoutMs = (True, Some res, j)"
    using login_reaches_client [OF ref_channel.channel_axioms hyps(1,2) ref_channel.channel_axioms hyps(1,3) bios.base64_bio_axioms
      allI [where P = "\<lambda>s. length (sample_md5 s) = 16", OF length_sample_md5] hyps(4,5) memory_auth.auth_sql_axioms hyps(6-10,10,11)
      plain_samples(1) hyps(12,13,13,14) refl] unfolding if_P [OF acct] by metis
  have role: "CLoginRes_rolename res = ''admin''" using l(3) acct by (auto simp: login_answer_def hashed_ann_def)
  show ?thesis
    by (rule exI [of _ k1], rule exI [of _ head], rule exI [of _ c'], rule exI [of _ t'], rule exI [of _ res], intro conjI,
        rule l(1), rule l(2), rule role, rule l(4) [rule_format, unfolded rt]) (simp_all add: polls_def)
qed

end
