(* ===== verification/DirService.thy ===== *)
theory DirService
  imports Service MsgEvent_Props Msg_Service
begin

text \<open>
  The directory service of the gateway's sources, \<open>cmsgateway/cdirservicehandle.cpp\<close>: it answers
  with ten made-up files, numbered by a counter of the process, which is the argument \<open>count\<close>.
\<close>

definition dir_file :: "int \<Rightarrow> int \<Rightarrow> CDirRes_CDir" where
  "dir_file count i = CDirRes_CDir_Clear\<lparr>CDir_filename := ''filename '' @ show_int count @ ''_'' @ show_int i,
     CDir_filesize := word_of_int ((i + 1) * 1024)\<rparr>"

fun dir_files :: "int list \<Rightarrow> int \<Rightarrow> CDirRes \<Rightarrow> (CDirRes \<times> int) checked" where
  "dir_files [] count res = Inr (res, count)"
| "dir_files (i # is) count res =
     bind_ub (chk_int (count + 1)) (\<lambda>count.
     dir_files is count (res\<lparr>CDirRes_dirs := CDirRes_dirs res @ [dir_file count i]\<rparr>))"

definition dirReqCb ::
    "'b platform \<Rightarrow> CMsgHead option \<Rightarrow> CMsg option \<Rightarrow> int \<Rightarrow> ('b, 'a) CMsgEvent_scheme \<Rightarrow>
     (CMsgHead option \<times> int \<times> ('b, 'a) CMsgEvent_scheme) checked" where
  "dirReqCb P head msg count t =
     (case (head, msg) of
        (Some h, Some m) \<Rightarrow>
          if m_data m = None \<or> m_size m \<le> 0 then Inr (head, count, t)
          else (case CDirReq_ParseFromArray (p_protobuf P) (msg_bytes m) of
            None \<Rightarrow> Inr (head, count, t)
          | Some req \<Rightarrow>
              bind_ub (dir_files [0..9] count CDirRes_Clear) (\<lambda>(res, count).
              let h = h\<lparr>msg_type := MSG_DIR_RES\<rparr>;
                  (_, head, t) = sendMsg_message P (Some h) (Some (CDirRes_Serialize res)) t in
              Inr (head, count, t)))
      | _ \<Rightarrow> Inr (head, count, t))"

datatype dir_handler = DirReq

definition dir_regMsgCb :: "(int32 \<times> dir_handler) list" where
  "dir_regMsgCb = [(MSG_DIR_REQ, DirReq)]"

definition dir_dispatch ::
    "'b platform \<Rightarrow> CMsgHead \<Rightarrow> CMsg \<Rightarrow> int \<Rightarrow> ('b, 'a) CMsgEvent_scheme \<Rightarrow>
     (CMsgHead \<times> int \<times> ('b, 'a) CMsgEvent_scheme) checked" where
  "dir_dispatch P head msg count t =
     (case map_of dir_regMsgCb (msg_type head) of
        None \<Rightarrow> Inr (head, count, CMsgEvent_clear t)
      | Some DirReq \<Rightarrow> bind_ub (dirReqCb P (Some head) (Some msg) count t) (\<lambda>(h, count, t).
          Inr (case h of None \<Rightarrow> head | Some h \<Rightarrow> h, count, t)))"

end
