(* ===== verification/Gateway_Props.thy ===== *)
theory Gateway_Props
  imports Login_Props DirService
begin

text \<open>
  A request through the gateway: the connection that asks, the connection of a service, the handler
  of the service and the way back. The locale \<open>answering\<close> is the contract between the gateway and
  a service, that it answers under the head of the request; the login and the directory service
  keep it.
\<close>

section \<open>The gateway\<close>

text \<open>A service has a connection that is up, and every connection that is up has its buffers.\<close>

definition path_ready :: "'b gateway \<Rightarrow> string \<Rightarrow> bool" where
  "path_ready g name \<longleftrightarrow> route_ok g name \<and> (\<exists>r \<in> set (service_list g name). connected (clients g) r) \<and>
     (\<forall>r \<in> set (service_list g name). connected (clients g) r \<longrightarrow> m_bev (clients g ! r) \<noteq> None)"

definition forwarded :: "CMsgHead \<Rightarrow> address \<Rightarrow> string \<Rightarrow> CMsgHead \<times> string" where
  "forwarded h ev d = (h\<lparr>msg_id := ev, msg_size := word_of_nat (length d)\<rparr>, d)"

lemma forwarded_sel [simp]:
  "msg_type (fst (forwarded h ev d)) = msg_type h" "msg_id (fst (forwarded h ev d)) = ev" "snd (forwarded h ev d) = d"
  by (simp_all add: forwarded_def)

lemma msg_bytes_forwarded: "d \<noteq> [] \<Longrightarrow> msg_bytes (snd (delivered (forwarded h ev d))) = d"
  by (simp add: forwarded_def msg_bytes_delivered)

lemma router_forwards:
  assumes "channel P inb outb" "\<And>b d. fst (bufferevent_write (p_libevent P) b d) = 0" "path_ready g (service_name h)"
    and "m_data m = Some d" "m_size m = int (length d)" "d \<noteq> []" "msg_type h \<noteq> 0"
  obtains r head g1 where "router_readCb P h m ev g = Inr (head, g1)" "r \<in> set (service_list g (service_name h))"
    "r < length (clients g)" "length (clients g1) = length (clients g)" "\<forall>q. q \<noteq> r \<longrightarrow> clients g1 ! q = clients g ! q"
    "m_isConnected (clients g ! r)" "sent outb (clients g1 ! r) = sent outb (clients g ! r) @ frame (forwarded h ev d)"
    "callbackTasks (clients g1 ! r) ev = Some ev" "routers g1 = routers g"
proof -
  have "next_connected g (service_name h) \<noteq> None"
    using assms(3) next_connected_iff [of g "service_name h"] by (simp add: path_ready_def)
  then obtain j where j: "next_connected g (service_name h) = Some j" by blast
  define r where "r = service_list g (service_name h) ! nat j"
  have ok: "route_ok g (service_name h)" using assms(3) by (simp add: path_ready_def)
  note s = proxy_sendMsg_some [OF ok j, folded r_def]
  have "m_bev (regEvent ev (clients g ! r)) \<noteq> None"
    using assms(3) s(2,4) by (simp add: path_ready_def regEvent_def)
  from channel.sendMsg_succeeds [OF assms(1,2) this assms(4-6), of "h\<lparr>msg_id := ev\<rparr>"] assms(7)
  obtain c where c: "client_sendMsg P h m ev (clients g ! r) = (True, Some (fst (forwarded h ev d)), c)"
    "sent outb c = sent outb (regEvent ev (clients g ! r)) @ frame (forwarded h ev d)"
    by (auto simp: client_sendMsg_def forwarded_def)
  have p: "proxy_sendMsg P (Some h) (Some m) ev g = Inr (True, Some (fst (forwarded h ev d)),
      g\<lparr>clientMapLastIdx := (clientMapLastIdx g)(service_name h \<mapsto> j), clientCbs := (clientCbs g)(ev \<mapsto> r),
        clients := (clients g)[r := c]\<rparr>)"
    using s(1) c(1) by simp
  have "router_readCb P h m ev g = Inr (fst (forwarded h ev d),
      g\<lparr>clientMapLastIdx := (clientMapLastIdx g)(service_name h \<mapsto> j), clientCbs := (clientCbs g)(ev \<mapsto> r),
        clients := (clients g)[r := c]\<rparr>)"
    by (simp add: router_readCb_def p)
  then show thesis
    by (rule that [where r = r])
       (use s(2-4) c client_sendMsg_sel(1) [OF c(1)] in \<open>simp_all add: connected_def sent_def regEvent_def\<close>)
qed

text \<open>An answer is a message whose head announces its body and keeps the id of the request.\<close>

definition answer_ok :: "CMsgHead \<Rightarrow> CMsgHead \<times> string \<Rightarrow> bool" where
  "answer_ok head a \<longleftrightarrow> snd a \<noteq> [] \<and> msg_type (fst a) \<noteq> 0 \<and> msg_id (fst a) = msg_id head \<and>
     msg_size (fst a) = word_of_nat (length (snd a))"

lemma proxy_returns:
  assumes "channel P inb outb" "\<And>b d. fst (bufferevent_write (p_libevent P) b d) = 0" "r < length (clients g)"
    and "callbackTasks (clients g ! r) ev = Some ev" "routers g ev = Some t" "m_bev t \<noteq> None"
    and "answer_ok head a" "msg_id head = ev"
  obtains t' where "client_readCb P (Some (fst a)) (Some (snd (delivered a))) r g =
      Inr (Some (fst a), g\<lparr>routers := (routers g)(ev \<mapsto> t')\<rparr>)" "sent outb t' = sent outb t @ frame a"
proof -
  obtain h body where a: "a = (h, body)" by (cases a)
  have ok: "body \<noteq> []" "msg_type h \<noteq> 0" "msg_id h = ev" "h\<lparr>msg_size := word_of_nat (length body)\<rparr> = h"
    using assms(7,8) by (simp_all add: answer_ok_def a)
  have d: "m_data (snd (delivered a)) = Some body" "m_size (snd (delivered a)) = int (length body)"
    using ok(1) by (simp_all add: a delivered_def)
  obtain t' where t': "sendMsg P (Some h) (Some (snd (delivered a))) t = (True, Some h, t')"
    "sent outb t' = sent outb t @ frame a"
    using channel.sendMsg_succeeds [OF assms(1,2,6) d ok(1,2)] unfolding ok(4) a by blast
  have "client_readCb P (Some h) (Some (snd (delivered a))) r g = Inr (Some h, g\<lparr>routers := (routers g)(ev \<mapsto> t')\<rparr>)"
    using assms(3-5) ok(3) t'(1) by (simp add: client_readCb_def)
  with t'(2) that show thesis by (simp add: a)
qed

section \<open>The contract of a service\<close>

text \<open>
  \<open>handle\<close> is a handler over a state that holds the connection, \<open>out\<close> what was sent on it, and
  \<open>asked\<close> tells the requests, by type and body, that it answers in a state.
\<close>

locale answering =
  fixes handle :: "CMsgHead \<Rightarrow> CMsg \<Rightarrow> 's \<Rightarrow> (CMsgHead \<times> 's) checked" and out :: "'s \<Rightarrow> string"
    and asked :: "int32 \<Rightarrow> string \<Rightarrow> 's \<Rightarrow> bool"
  assumes answers: "asked (msg_type head) (msg_bytes msg) s \<Longrightarrow>
      \<exists>a s'. handle head msg s = Inr (fst a, s') \<and> answer_ok head a \<and> out s' = out s @ frame a"
begin

lemma through_gateway:
  assumes "channel P inb outb" "\<And>b d. fst (bufferevent_write (p_libevent P) b d) = 0" "path_ready g (service_name h)"
    and "m_data m = Some d" "m_size m = int (length d)" "d \<noteq> []" "msg_type h \<noteq> 0"
    and "routers g ev = Some t" "m_bev t \<noteq> None" "asked (msg_type h) d s"
  obtains r head g1 a s' t' where "router_readCb P h m ev g = Inr (head, g1)" "r \<in> set (service_list g (service_name h))"
    "m_isConnected (clients g ! r)" "\<forall>q. q \<noteq> r \<longrightarrow> clients g1 ! q = clients g ! q"
    "sent outb (clients g1 ! r) = sent outb (clients g ! r) @ frame (forwarded h ev d)"
    "handle (fst (forwarded h ev d)) (snd (delivered (forwarded h ev d))) s = Inr (fst a, s')" "out s' = out s @ frame a"
    "client_readCb P (Some (fst a)) (Some (snd (delivered a))) r g1 =
       Inr (Some (fst a), g1\<lparr>routers := (routers g)(ev \<mapsto> t')\<rparr>)" "sent outb t' = sent outb t @ frame a"
proof -
  obtain r head g1 where f: "router_readCb P h m ev g = Inr (head, g1)" "r \<in> set (service_list g (service_name h))"
    "r < length (clients g)" "length (clients g1) = length (clients g)" "\<forall>q. q \<noteq> r \<longrightarrow> clients g1 ! q = clients g ! q"
    "m_isConnected (clients g ! r)" "sent outb (clients g1 ! r) = sent outb (clients g ! r) @ frame (forwarded h ev d)"
    "callbackTasks (clients g1 ! r) ev = Some ev" "routers g1 = routers g"
    by (rule router_forwards [OF assms(1-7)])
  have "asked (msg_type (fst (forwarded h ev d))) (msg_bytes (snd (delivered (forwarded h ev d)))) s"
    using assms(10) by (simp add: msg_bytes_forwarded [OF assms(6)])
  from answers [OF this] obtain a s' where a:
    "handle (fst (forwarded h ev d)) (snd (delivered (forwarded h ev d))) s = Inr (fst a, s')"
    "answer_ok (fst (forwarded h ev d)) a" "out s' = out s @ frame a" by blast
  have rt: "r < length (clients g1)" "routers g1 ev = Some t" using f(3,4,9) assms(8) by simp_all
  obtain t' where "client_readCb P (Some (fst a)) (Some (snd (delivered a))) r g1 =
      Inr (Some (fst a), g1\<lparr>routers := (routers g1)(ev \<mapsto> t')\<rparr>)" "sent outb t' = sent outb t @ frame a"
    by (rule proxy_returns [OF assms(1,2) rt(1) f(8) rt(2) assms(9) a(2)]) simp
  with f a show thesis by (intro that) simp_all
qed

end

section \<open>The login service\<close>

text \<open>The logins that are answered: of a name, with texts that need no escaping, while the database works.\<close>

definition login_asked ::
    "pb_rt \<Rightarrow> ('m \<Rightarrow> user_row list) \<Rightarrow> ('m \<Rightarrow> token_row list) \<Rightarrow> ('m \<Rightarrow> bool) \<Rightarrow> int32 \<Rightarrow> string \<Rightarrow>
     'm CMysql \<times> ('b, 'a) CMsgEvent_scheme \<Rightarrow> bool" where
  "login_asked rt users tokens up type d s \<longleftrightarrow> type = MSG_LOGIN_REQ \<and> ready up (fst s) \<and> m_bev (snd s) \<noteq> None \<and>
     ids_left (tokens (my_db (fst s))) \<and> (\<forall>r \<in> set (users (my_db (fst s))). plain (u_role r)) \<and>
     (\<exists>req. CLoginReq_ParseFromArray rt d = Some req \<and> plain_login req \<and> CLoginReq_username req \<noteq> [])"

lemma login_dispatched:
  assumes "channel P inb outb" "\<And>b d. fst (bufferevent_write (p_libevent P) b d) = 0" "auth_sql api users tokens up same"
    and "int_fits (now + 1800)" "login_asked (p_protobuf P) users tokens up (msg_type head) (msg_bytes msg) (c, t)"
    and "CLoginReq_ParseFromArray (p_protobuf P) (msg_bytes msg) = Some req"
  obtains head' c' t' res where "auth_dispatch P api now head msg c t = Inr (head', c', t')"
    "sent outb t' = sent outb t @ frame (head', CLoginRes_Serialize res)" "answer_ok head (head', CLoginRes_Serialize res)"
    "login_answer same (users (my_db c)) (CLoginReq_username req) (CLoginReq_password req) (now + 1800) res (tokens (my_db c'))"
proof -
  have a: "msg_type head = MSG_LOGIN_REQ" "ready up c" "m_bev t \<noteq> None" "ids_left (tokens (my_db c))"
    "\<forall>r \<in> set (users (my_db c)). plain (u_role r)" "plain_login req" "CLoginReq_username req \<noteq> []"
    using assms(5,6) by (auto simp: login_asked_def)
  obtain ok res c' where l: "CAuthDAO_login api now req CLoginRes_Clear 1800 c = Inr (ok, res, c')"
    "login_answer same (users (my_db c)) (CLoginReq_username req) (CLoginReq_password req) (now + 1800) res (tokens (my_db c'))"
    by (rule login_result [OF assms(3) a(2,6) _ assms(4) a(5,4)]) simp
  note ne = answer_nonempty [OF l(2) a(7)]
  obtain head' t' where s: "CAuthHandle_loginReq P api now head msg c t = Inr (head', c', t')"
    "sent outb t' = sent outb t @ frame (head', CLoginRes_Serialize res)" "msg_type head' = MSG_LOGIN_RES"
    "msg_id head' = msg_id head" "msg_size head' = word_of_nat (length (CLoginRes_Serialize res))"
    by (rule loginReq_answers [OF assms(1,2) a(3) assms(6) l(1) ne])
  have "auth_dispatch P api now head msg c t = Inr (head', c', t')"
    using s(1) by (simp add: a(1) auth_dispatch_def auth_regMsgCallback_def)
  moreover have "answer_ok head (head', CLoginRes_Serialize res)"
    using s(3-5) ne by (simp add: answer_ok_def MSG_LOGIN_RES_def)
  ultimately show thesis using s(2) l(2) that by blast
qed

lemma login_answering:
  assumes "channel P inb outb" "\<And>b d. fst (bufferevent_write (p_libevent P) b d) = 0" "auth_sql api users tokens up same"
    and "int_fits (now + 1800)"
  shows "answering (\<lambda>head msg s. auth_dispatch P api now head msg (fst s) (snd s)) (\<lambda>s. sent outb (snd s))
    (login_asked (p_protobuf P) users tokens up)"
proof (unfold_locales, goal_cases)
  case (1 head msg s)
  note a = 1
  obtain c t where s: "s = (c, t)" by (cases s)
  obtain req where req: "CLoginReq_ParseFromArray (p_protobuf P) (msg_bytes msg) = Some req"
    using a by (auto simp: login_asked_def)
  obtain head' c' t' res where "auth_dispatch P api now head msg c t = Inr (head', c', t')"
    "sent outb t' = sent outb t @ frame (head', CLoginRes_Serialize res)" "answer_ok head (head', CLoginRes_Serialize res)"
    by (rule login_dispatched [OF assms a [unfolded s] req])
  then show ?case
    by (intro exI [of _ "(head', CLoginRes_Serialize res)"] exI [of _ "(c', t')"]) (simp add: s)
qed

interpretation login_service: answering "\<lambda>head msg s. auth_dispatch ref_platform auth_api 1000 head msg (fst s) (snd s)"
  "\<lambda>s. sent outbuf (snd s)" "login_asked ref_rt ma_users ma_tokens texts_stored"
  by (rule login_answering [OF ref_channel.channel_axioms _ memory_auth.auth_sql_axioms, unfolded ref_platform_sel])
     (simp_all add: int_fits_def)

text \<open>
  C3. A login through the gateway. A client of the gateway sends a login for a service by name. The
  gateway forwards it, under the address of the client's connection, on one connection of the
  service that is up, and sends nothing on another. The service checks the account and answers
  under that head; when the answer arrives at the gateway, exactly this answer is sent to the
  connection that asked, and the other clients see nothing.
\<close>

theorem login_through_gateway:
  assumes "channel P inb outb" "\<And>b d. fst (bufferevent_write (p_libevent P) b d) = 0" "path_ready g (service_name h)"
    and "msg_type h = MSG_LOGIN_REQ" "d = CLoginReq_Serialize req" "m_data m = Some d" "m_size m = int (length d)"
    and "routers g ev = Some t" "m_bev t \<noteq> None"
    and "channel P' inb' outb'" "\<And>b d. fst (bufferevent_write (p_libevent P') b d) = 0" "m_bev s \<noteq> None"
    and "CLoginReq_wf (p_protobuf P') req" "plain_login req" "CLoginReq_username req \<noteq> []"
    and "auth_sql api users tokens up same" "ready up c" "int_fits (now + 1800)" "ids_left (tokens (my_db c))"
    and "\<forall>r \<in> set (users (my_db c)). plain (u_role r)"
  shows "\<exists>r head g1 head' res c' s' t'. router_readCb P h m ev g = Inr (head, g1) \<and>
    r \<in> set (service_list g (service_name h)) \<and> m_isConnected (clients g ! r) \<and>
    (\<forall>q. q \<noteq> r \<longrightarrow> clients g1 ! q = clients g ! q) \<and>
    sent outb (clients g1 ! r) = sent outb (clients g ! r) @ frame (forwarded h ev d) \<and>
    auth_dispatch P' api now (fst (forwarded h ev d)) (snd (delivered (forwarded h ev d))) c s = Inr (head', c', s') \<and>
    sent outb' s' = sent outb' s @ frame (head', CLoginRes_Serialize res) \<and>
    login_answer same (users (my_db c)) (CLoginReq_username req) (CLoginReq_password req) (now + 1800) res (tokens (my_db c')) \<and>
    client_readCb P (Some head') (Some (snd (delivered (head', CLoginRes_Serialize res)))) r g1 =
      Inr (Some head', g1\<lparr>routers := (routers g)(ev \<mapsto> t')\<rparr>) \<and>
    sent outb t' = sent outb t @ frame (head', CLoginRes_Serialize res)"
proof -
  have ne: "d \<noteq> []"
    using assms(15) by (simp add: assms(5) CLoginReq_Serialize_def WriteStringToArray_def WriteTagToArray_def)
  have rt: "coded_input (p_protobuf P')" using assms(10) by (simp add: channel_def)
  have parse: "CLoginReq_ParseFromArray (p_protobuf P') d = Some req"
    unfolding assms(5) by (rule coded_input.CLoginReq_roundtrip [OF rt assms(13)])
  have asked: "login_asked (p_protobuf P') users tokens up (msg_type h) d (c, s)"
    using assms(4,12,14,15,17,19,20) parse by (auto simp: login_asked_def)
  have nz: "msg_type h \<noteq> 0" by (simp add: assms(4) MSG_LOGIN_REQ_def)
  obtain r head g1 a s'' t' where w: "router_readCb P h m ev g = Inr (head, g1)" "r \<in> set (service_list g (service_name h))"
    "m_isConnected (clients g ! r)" "\<forall>q. q \<noteq> r \<longrightarrow> clients g1 ! q = clients g ! q"
    "sent outb (clients g1 ! r) = sent outb (clients g ! r) @ frame (forwarded h ev d)"
    "auth_dispatch P' api now (fst (forwarded h ev d)) (snd (delivered (forwarded h ev d))) (fst (c, s)) (snd (c, s)) = Inr (fst a, s'')"
    "sent outb' (snd s'') = sent outb' (snd (c, s)) @ frame a"
    "client_readCb P (Some (fst a)) (Some (snd (delivered a))) r g1 =
       Inr (Some (fst a), g1\<lparr>routers := (routers g)(ev \<mapsto> t')\<rparr>)" "sent outb t' = sent outb t @ frame a"
    by (rule answering.through_gateway [OF login_answering [OF assms(10,11,16,18)] assms(1-3,6,7) ne nz assms(8,9) asked])
  have asked': "login_asked (p_protobuf P') users tokens up (msg_type (fst (forwarded h ev d)))
      (msg_bytes (snd (delivered (forwarded h ev d)))) (c, s)"
    using asked by (simp add: msg_bytes_forwarded [OF ne])
  obtain head' c' s' res where l: "auth_dispatch P' api now (fst (forwarded h ev d)) (snd (delivered (forwarded h ev d))) c s =
      Inr (head', c', s')" "sent outb' s' = sent outb' s @ frame (head', CLoginRes_Serialize res)"
    "login_answer same (users (my_db c)) (CLoginReq_username req) (CLoginReq_password req) (now + 1800) res (tokens (my_db c'))"
    by (rule login_dispatched [OF assms(10,11,16,18) asked', of req]) (simp_all add: msg_bytes_forwarded [OF ne] parse)
  have "a = (head', CLoginRes_Serialize res)" "s'' = (c', s')"
    using w(6,7) l(1,2) by (auto simp: frame_def prod_eq_iff)
  with w l show ?thesis by (intro exI conjI) simp_all
qed

lemma sample_path_ready: "path_ready sample_gateway ''DIR''"
  using sample_route_ok(1) by (simp add: path_ready_def connected_def)

definition login_head :: CMsgHead where
  "login_head = CMsgHead_Clear\<lparr>msg_type := MSG_LOGIN_REQ, service_name := ''DIR''\<rparr>"

lemma login_head_sel [simp]: "msg_type login_head = MSG_LOGIN_REQ" "service_name login_head = ''DIR''"
  by (simp_all add: login_head_def)

theorem login_through_gateway_witness:
  "\<exists>r head g1 head' res c' s' t'.
    router_readCb ref_platform login_head (body (CLoginReq_Serialize (login_of ''ann'' ''pw''))) 5 sample_gateway = Inr (head, g1) \<and>
    auth_dispatch ref_platform auth_api 1000 (fst (forwarded login_head 5 (CLoginReq_Serialize (login_of ''ann'' ''pw''))))
      (snd (delivered (forwarded login_head 5 (CLoginReq_Serialize (login_of ''ann'' ''pw''))))) (auth_with [ann]) (sample_event []) =
      Inr (head', c', s') \<and> CLoginRes_rolename res = ''admin'' \<and>
    client_readCb ref_platform (Some head') (Some (snd (delivered (head', CLoginRes_Serialize res)))) r g1 =
      Inr (Some head', g1\<lparr>routers := (routers sample_gateway)(5 \<mapsto> t')\<rparr>) \<and>
    sent outbuf t' = frame (head', CLoginRes_Serialize res)"
proof -
  have wf: "CLoginReq_wf (p_protobuf ref_platform) (login_of ''ann'' ''pw'')"
    by (simp add: CLoginReq_wf_def login_of_def CLoginReq_Clear_def ref_rt_utf8 utf8_ok.simps)
  have hyps: "fst (bufferevent_write (p_libevent ref_platform) b d) = 0"
    "m_bev (CMsgEvent_new\<lparr>m_bev := Some \<lparr>inbuf = [], outbuf = []\<rparr>\<rparr>) \<noteq> None" "m_bev (sample_event []) \<noteq> None"
    "plain_login (login_of ''ann'' ''pw'')" "CLoginReq_username (login_of ''ann'' ''pw'') \<noteq> []"
    "ready texts_stored (auth_with [ann])" "int_fits (1000 + 1800)" "ids_left (ma_tokens (my_db (auth_with [ann])))"
    "\<forall>r \<in> set (ma_users (my_db (auth_with [ann]))). plain (u_role r)" for b d
    by (simp_all add: plain_login_def int_fits_def)
  have start: "sent outbuf (CMsgEvent_new\<lparr>m_bev := Some \<lparr>inbuf = [], outbuf = []\<rparr>\<rparr>) = []" by (simp add: sent_def contents_def)
  obtain r head g1 head' res c' s' t' where w:
    "router_readCb ref_platform login_head (body (CLoginReq_Serialize (login_of ''ann'' ''pw''))) 5 sample_gateway = Inr (head, g1)"
    "auth_dispatch ref_platform auth_api 1000 (fst (forwarded login_head 5 (CLoginReq_Serialize (login_of ''ann'' ''pw''))))
      (snd (delivered (forwarded login_head 5 (CLoginReq_Serialize (login_of ''ann'' ''pw''))))) (auth_with [ann]) (sample_event []) =
      Inr (head', c', s')"
    "login_answer (=) (ma_users (my_db (auth_with [ann]))) (CLoginReq_username (login_of ''ann'' ''pw''))
      (CLoginReq_password (login_of ''ann'' ''pw'')) (1000 + 1800) res (ma_tokens (my_db c'))"
    "client_readCb ref_platform (Some head') (Some (snd (delivered (head', CLoginRes_Serialize res)))) r g1 =
      Inr (Some head', g1\<lparr>routers := (routers sample_gateway)(5 \<mapsto> t')\<rparr>)"
    "sent outbuf t' = [] @ frame (head', CLoginRes_Serialize res)"
    using login_through_gateway [OF ref_channel.channel_axioms hyps(1) sample_path_ready [folded login_head_sel(2)] login_head_sel(1) refl
      body_sel sample_router hyps(2) ref_channel.channel_axioms hyps(1,3) wf hyps(4,5) memory_auth.auth_sql_axioms hyps(6-9)]
    unfolding start by blast
  have "CLoginRes_rolename res = ''admin''" using w(3) by (auto simp: login_answer_def account_def split: if_splits)
  with w(1,2,4,5) show ?thesis unfolding append_Nil by (intro exI conjI)
qed

section \<open>The directory service\<close>

text \<open>The files of an answer, when the counter of the process stands at \<open>count\<close> before it.\<close>

definition numbered_files :: "int \<Rightarrow> CDirRes_CDir list" where
  "numbered_files count = map (\<lambda>i. dir_file (count + i + 1) i) [0..9]"

fun numbered :: "int \<Rightarrow> int list \<Rightarrow> CDirRes_CDir list" where
  "numbered count [] = []"
| "numbered count (i # is) = dir_file (count + 1) i # numbered (count + 1) is"

lemma dir_files_all:
  "(\<And>k. 0 < k \<Longrightarrow> k \<le> int (length is) \<Longrightarrow> int_fits (count + k)) \<Longrightarrow>
   dir_files is count res = Inr (res\<lparr>CDirRes_dirs := CDirRes_dirs res @ numbered count is\<rparr>, count + int (length is))"
proof (induction "is" arbitrary: count res)
  case (Cons i "is")
  have "int_fits (count + 1)" using Cons.prems [of 1] by simp
  moreover have "int_fits (count + 1 + k)" if "0 < k" "k \<le> int (length is)" for k
    using Cons.prems [of "k + 1"] that by (simp add: algebra_simps)
  note Cons.IH [OF this]
  ultimately show ?case by (simp add: chk_int_def)
qed simp

lemma dir_files_ten:
  assumes "int_fits (count + 1)" "int_fits (count + 10)"
  shows "dir_files [0..9] count CDirRes_Clear = Inr (CDirRes_Clear\<lparr>CDirRes_dirs := numbered_files count\<rparr>, count + 10)"
proof -
  have fits: "int_fits (count + k)" if "0 < k" "k \<le> int (length [0..9 :: int])" for k
    using assms that by (simp add: int_fits_def)
  have "numbered count [0..9] = numbered_files count"
    by (simp add: numbered_files_def upto.simps algebra_simps)
  moreover have "int (length [0..9 :: int]) = 10" by simp
  ultimately show ?thesis
    using dir_files_all [of "[0..9]" count CDirRes_Clear, OF fits] by (simp add: CDirRes_Clear_def)
qed

definition dir_asked :: "pb_rt \<Rightarrow> int32 \<Rightarrow> string \<Rightarrow> int \<times> ('b, 'a) CMsgEvent_scheme \<Rightarrow> bool" where
  "dir_asked rt type d s \<longleftrightarrow> type = MSG_DIR_REQ \<and> d \<noteq> [] \<and> CDirReq_ParseFromArray rt d \<noteq> None \<and> m_bev (snd s) \<noteq> None \<and>
     int_fits (fst s + 1) \<and> int_fits (fst s + 10)"

definition dir_answer :: "int \<Rightarrow> CDirRes" where
  "dir_answer count = CDirRes_Clear\<lparr>CDirRes_dirs := numbered_files count\<rparr>"

lemma dir_answer_nonempty: "CDirRes_Serialize (dir_answer count) \<noteq> []"
proof -
  have "numbered_files count \<noteq> []" by (simp add: numbered_files_def upto.simps)
  then show ?thesis
    by (cases "numbered_files count") (simp_all add: dir_answer_def CDirRes_Serialize_def CDirRes_Clear_def WriteMessageToArray_def WriteTagToArray_def)
qed

lemma dir_dispatched:
  assumes "channel P inb outb" "\<And>b d. fst (bufferevent_write (p_libevent P) b d) = 0"
    and "dir_asked (p_protobuf P) (msg_type head) (msg_bytes msg) (count, t)"
  obtains head' t' where "dir_dispatch P head msg count t = Inr (head', count + 10, t')"
    "sent outb t' = sent outb t @ frame (head', CDirRes_Serialize (dir_answer count))"
    "answer_ok head (head', CDirRes_Serialize (dir_answer count))"
proof -
  have a: "msg_type head = MSG_DIR_REQ" "msg_bytes msg \<noteq> []" "CDirReq_ParseFromArray (p_protobuf P) (msg_bytes msg) \<noteq> None"
    "m_bev t \<noteq> None" "int_fits (count + 1)" "int_fits (count + 10)"
    using assms(3) by (simp_all add: dir_asked_def)
  have m: "m_data msg \<noteq> None" "\<not> m_size msg \<le> 0" using a(2) by (auto simp: msg_bytes_def split: option.splits)
  let ?h = "head\<lparr>msg_type := MSG_DIR_RES\<rparr>" and ?b = "CDirRes_Serialize (dir_answer count)"
  have nz: "msg_type ?h \<noteq> 0" by (simp add: MSG_DIR_RES_def)
  obtain t' where t': "sendMsg_message P (Some ?h) (Some ?b) t = (True, Some (?h\<lparr>msg_size := word_of_nat (length ?b)\<rparr>), t')"
    "sent outb t' = sent outb t @ frame (?h\<lparr>msg_size := word_of_nat (length ?b)\<rparr>, ?b)"
    using channel.sendMsg_message_succeeds [OF assms(1,2) a(4) dir_answer_nonempty nz] by metis
  have "dirReqCb P (Some head) (Some msg) count t = Inr (Some (?h\<lparr>msg_size := word_of_nat (length ?b)\<rparr>), count + 10, t')"
    using m a(3) t'(1) dir_files_ten [OF a(5,6)] by (auto simp: dirReqCb_def dir_answer_def)
  then have "dir_dispatch P head msg count t = Inr (?h\<lparr>msg_size := word_of_nat (length ?b)\<rparr>, count + 10, t')"
    by (simp add: dir_dispatch_def dir_regMsgCb_def a(1))
  then show thesis
    by (rule that) (use t'(2) dir_answer_nonempty in \<open>simp_all add: answer_ok_def MSG_DIR_RES_def\<close>)
qed

lemma dir_answering:
  assumes "channel P inb outb" "\<And>b d. fst (bufferevent_write (p_libevent P) b d) = 0"
  shows "answering (\<lambda>head msg s. dir_dispatch P head msg (fst s) (snd s)) (\<lambda>s. sent outb (snd s)) (dir_asked (p_protobuf P))"
proof (unfold_locales, goal_cases)
  case (1 head msg s)
  obtain count t where s: "s = (count, t)" by (cases s)
  obtain head' t' where "dir_dispatch P head msg count t = Inr (head', count + 10, t')"
    "sent outb t' = sent outb t @ frame (head', CDirRes_Serialize (dir_answer count))"
    "answer_ok head (head', CDirRes_Serialize (dir_answer count))"
    by (rule dir_dispatched [OF assms 1 [unfolded s]])
  then show ?case
    by (intro exI [of _ "(head', CDirRes_Serialize (dir_answer count))"] exI [of _ "(count + 10, t')"]) (simp add: s)
qed

interpretation dir_service: answering "\<lambda>head msg s. dir_dispatch ref_platform head msg (fst s) (snd s)"
  "\<lambda>s. sent outbuf (snd s)" "dir_asked ref_rt"
  by (rule dir_answering [OF ref_channel.channel_axioms, unfolded ref_platform_sel]) simp

text \<open>
  A directory request through the gateway. Whatever path a client asks for, when its request
  reaches the directory service by the gateway, the client gets one answer, with ten files that
  are numbered on from those of the answers before, whoever asked for them.
\<close>

theorem directory_through_gateway:
  assumes "channel P inb outb" "\<And>b d. fst (bufferevent_write (p_libevent P) b d) = 0" "path_ready g (service_name h)"
    and "msg_type h = MSG_DIR_REQ" "d = CDirReq_Serialize req" "CDirReq_path req \<noteq> []" "m_data m = Some d" "m_size m = int (length d)"
    and "routers g ev = Some t" "m_bev t \<noteq> None"
    and "channel P' inb' outb'" "\<And>b d. fst (bufferevent_write (p_libevent P') b d) = 0" "m_bev s \<noteq> None"
    and "CDirReq_wf (p_protobuf P') req" "int_fits (count + 1)" "int_fits (count + 10)"
  shows "\<exists>r head g1 head' s' t'. router_readCb P h m ev g = Inr (head, g1) \<and>
    r \<in> set (service_list g (service_name h)) \<and> m_isConnected (clients g ! r) \<and>
    sent outb (clients g1 ! r) = sent outb (clients g ! r) @ frame (forwarded h ev d) \<and>
    dir_dispatch P' (fst (forwarded h ev d)) (snd (delivered (forwarded h ev d))) count s = Inr (head', count + 10, s') \<and>
    client_readCb P (Some head') (Some (snd (delivered (head', CDirRes_Serialize (dir_answer count))))) r g1 =
      Inr (Some head', g1\<lparr>routers := (routers g)(ev \<mapsto> t')\<rparr>) \<and>
    sent outb t' = sent outb t @ frame (head', CDirRes_Serialize (dir_answer count))"
proof -
  have ne: "d \<noteq> []"
    using assms(6) by (simp add: assms(5) CDirReq_Serialize_def WriteStringToArray_def WriteTagToArray_def)
  have rt: "coded_input (p_protobuf P')" using assms(11) by (simp add: channel_def)
  have parse: "CDirReq_ParseFromArray (p_protobuf P') d = Some req"
    unfolding assms(5) by (rule coded_input.CDirReq_roundtrip [OF rt assms(14)])
  have asked: "dir_asked (p_protobuf P') (msg_type h) d (count, s)"
    using assms(4,13,15,16) parse ne by (simp add: dir_asked_def)
  have nz: "msg_type h \<noteq> 0" by (simp add: assms(4) MSG_DIR_REQ_def)
  obtain r head g1 a s'' t' where w: "router_readCb P h m ev g = Inr (head, g1)" "r \<in> set (service_list g (service_name h))"
    "m_isConnected (clients g ! r)"
    "sent outb (clients g1 ! r) = sent outb (clients g ! r) @ frame (forwarded h ev d)"
    "dir_dispatch P' (fst (forwarded h ev d)) (snd (delivered (forwarded h ev d))) (fst (count, s)) (snd (count, s)) = Inr (fst a, s'')"
    "sent outb' (snd s'') = sent outb' (snd (count, s)) @ frame a"
    "client_readCb P (Some (fst a)) (Some (snd (delivered a))) r g1 =
       Inr (Some (fst a), g1\<lparr>routers := (routers g)(ev \<mapsto> t')\<rparr>)" "sent outb t' = sent outb t @ frame a"
    by (rule answering.through_gateway [OF dir_answering [OF assms(11,12)] assms(1-3,7,8) ne nz assms(9,10) asked])
  have asked': "dir_asked (p_protobuf P') (msg_type (fst (forwarded h ev d))) (msg_bytes (snd (delivered (forwarded h ev d)))) (count, s)"
    using asked by (simp add: msg_bytes_forwarded [OF ne])
  obtain head' s' where l: "dir_dispatch P' (fst (forwarded h ev d)) (snd (delivered (forwarded h ev d))) count s =
      Inr (head', count + 10, s')" "sent outb' s' = sent outb' s @ frame (head', CDirRes_Serialize (dir_answer count))"
    by (rule dir_dispatched [OF assms(11,12) asked'])
  have "a = (head', CDirRes_Serialize (dir_answer count))" "s'' = (count + 10, s')"
    using w(5,6) l by (auto simp: frame_def prod_eq_iff)
  with w l show ?thesis by (intro exI conjI) simp_all
qed

definition dir_head :: CMsgHead where
  "dir_head = CMsgHead_Clear\<lparr>msg_type := MSG_DIR_REQ, service_name := ''DIR''\<rparr>"

lemma dir_head_sel [simp]: "msg_type dir_head = MSG_DIR_REQ" "service_name dir_head = ''DIR''"
  by (simp_all add: dir_head_def)

theorem directory_through_gateway_witness:
  "\<exists>r head g1 head' s' t'.
    router_readCb ref_platform dir_head (body (CDirReq_Serialize (CDirReq_Clear\<lparr>CDirReq_path := ''/''\<rparr>))) 5 sample_gateway =
      Inr (head, g1) \<and>
    dir_dispatch ref_platform (fst (forwarded dir_head 5 (CDirReq_Serialize (CDirReq_Clear\<lparr>CDirReq_path := ''/''\<rparr>))))
      (snd (delivered (forwarded dir_head 5 (CDirReq_Serialize (CDirReq_Clear\<lparr>CDirReq_path := ''/''\<rparr>))))) 20 (sample_event []) =
      Inr (head', 30, s') \<and>
    client_readCb ref_platform (Some head') (Some (snd (delivered (head', CDirRes_Serialize (dir_answer 20))))) r g1 =
      Inr (Some head', g1\<lparr>routers := (routers sample_gateway)(5 \<mapsto> t')\<rparr>) \<and>
    sent outbuf t' = frame (head', CDirRes_Serialize (dir_answer 20))"
proof -
  let ?req = "CDirReq_Clear\<lparr>CDirReq_path := ''/''\<rparr>"
  have hyps: "fst (bufferevent_write (p_libevent ref_platform) b d) = 0" "CDirReq_path ?req \<noteq> []"
    "m_bev (CMsgEvent_new\<lparr>m_bev := Some \<lparr>inbuf = [], outbuf = []\<rparr>\<rparr>) \<noteq> None" "m_bev (sample_event []) \<noteq> None"
    "CDirReq_wf (p_protobuf ref_platform) ?req" "int_fits (20 + 1)" "int_fits (20 + 10)" for b d
    by (simp_all add: int_fits_def CDirReq_wf_def CDirReq_Clear_def ref_rt_utf8 utf8_ok.simps)
  have start: "sent outbuf (CMsgEvent_new\<lparr>m_bev := Some \<lparr>inbuf = [], outbuf = []\<rparr>\<rparr>) = []" "(20 :: int) + 10 = 30"
    by (simp_all add: sent_def contents_def)
  show ?thesis
    using directory_through_gateway [OF ref_channel.channel_axioms hyps(1) sample_path_ready [folded dir_head_sel(2)] dir_head_sel(1)
      refl hyps(2) body_sel sample_router hyps(3) ref_channel.channel_axioms hyps(1,4,5,6,7)]
    unfolding start append_Nil by blast
qed

end
