(* ===== verification/Log.thy ===== *)
theory Log
  imports ConfigServer Msg_Service
begin

text \<open>
  The log service, \<open>clog/\<close>, and its client in every process, \<open>cplatform/clogclient.cpp\<close>: a message
  is queued at the client, sent by its timer, and stored by the service in a table. \<open>logTime\<close> is
  what \<open>cgetTime\<close> of \<open>ctools.cpp\<close> gives and \<open>now\<close> what \<open>time\<close> gives; \<open>half\<close> is what a parse that
  fails leaves.
\<close>

section \<open>CLogDAO\<close>

definition CLogDAO_init ::
    "'m mysql_api \<Rightarrow> bool \<Rightarrow> MysqlInfo \<Rightarrow> MysqlInfo option \<Rightarrow> 'm CMysql \<Rightarrow>
     bool \<times> MysqlInfo option \<times> 'm CMysql" where
  "CLogDAO_init api writable entered file c =
     (let (ok, c) = CMysql_init api c in
      if \<not> ok then (False, file, c)
      else
        let (_, c) = CMysql_setReconnect api True c;
            (_, c) = CMysql_setConnectTimeout api 3 c in
        CMysql_inputDBConfig api writable entered file c)"

definition log_table_sql :: string where
  "log_table_sql =
     (let sp = replicate 8 (CHR '' '') in
      ''CREATE TABLE IF NOT EXISTS `cms_log` ('' @
      sp @ ''`id` INT AUTO_INCREMENT, '' @
      sp @ ''`service_name` VARCHAR(16), '' @
      sp @ ''`service_ip` VARCHAR(16), '' @
      sp @ ''`service_port` INT, '' @
      sp @ ''`log_txt` VARCHAR(4096), '' @
      sp @ ''`log_time` INT, '' @
      sp @ ''`log_level` INT, '' @
      sp @ ''PRIMARY KEY(`id`));'')"

definition CLogDAO_install :: "'m mysql_api \<Rightarrow> 'm CMysql \<Rightarrow> bool \<times> 'm CMysql" where
  "CLogDAO_install api c = CMysql_query api (Some (string_c_str log_table_sql)) 0 c"

definition log_data :: "CAddLogReq \<Rightarrow> MData" where
  "log_data req =
     (let data = mdata_set ''service_name'' (CData_chars (Some (string_c_str (CAddLogReq_service_name req)))) [];
          data = mdata_set ''service_ip'' (CData_chars (Some (string_c_str (CAddLogReq_service_ip req)))) data;
          data = mdata_set ''service_port'' (CData_int (CAddLogReq_service_port req)) data;
          data = mdata_set ''log_txt'' (CData_chars (Some (string_c_str (CAddLogReq_log_txt req)))) data;
          data = mdata_set ''log_time'' (CData_int (CAddLogReq_log_time req)) data in
      mdata_set ''log_level'' (CData_int (CAddLogReq_log_level req)) data)"

definition CLogDAO_addLog ::
    "'m mysql_api \<Rightarrow> CAddLogReq option \<Rightarrow> 'm CMysql \<Rightarrow> (bool \<times> 'm CMysql) checked" where
  "CLogDAO_addLog api req c =
     (case req of None \<Rightarrow> Inr (False, c)
      | Some req \<Rightarrow> CMysql_insertBin api (log_data req) ''cms_log'' c)"

section \<open>CLogHandle\<close>

text \<open>A request that cannot be parsed is reported, and then stored as far as it was parsed.\<close>

definition CLogHandle_addLogReq ::
    "pb_rt \<Rightarrow> 'm mysql_api \<Rightarrow> (string \<Rightarrow> CAddLogReq) \<Rightarrow> CMsg \<Rightarrow> 'm CMysql \<Rightarrow> ('b, 'a) CMsgEvent_scheme \<Rightarrow>
     'm CMysql checked" where
  "CLogHandle_addLogReq rt api half msg c t =
     (let req = (case CAddLogReq_ParseFromArray rt (msg_bytes msg) of
            None \<Rightarrow> half (msg_bytes msg) | Some req \<Rightarrow> req) in
      bind_ub (if CAddLogReq_service_ip req = [] then c_str (m_clientIp t)
               else Inr (CAddLogReq_service_ip req)) (\<lambda>ip.
      bind_ub (CLogDAO_addLog api (Some (req\<lparr>CAddLogReq_service_ip := ip\<rparr>)) c) (\<lambda>(_, c).
      Inr c)))"

datatype log_handler = AddLogReq

definition log_regMsgCallback :: "(int32 \<times> log_handler) list" where
  "log_regMsgCallback = [(MSG_ADD_LOG_REQ, AddLogReq)]"

definition log_dispatch ::
    "'b platform \<Rightarrow> 'm mysql_api \<Rightarrow> (string \<Rightarrow> CAddLogReq) \<Rightarrow> CMsgHead \<Rightarrow> CMsg \<Rightarrow> 'm CMysql \<Rightarrow>
     ('b, 'a) CMsgEvent_scheme \<Rightarrow> ('m CMysql \<times> ('b, 'a) CMsgEvent_scheme) checked" where
  "log_dispatch P api half head msg c t =
     (case map_of log_regMsgCallback (msg_type head) of
        None \<Rightarrow> Inr (c, CMsgEvent_clear t)
      | Some AddLogReq \<Rightarrow> bind_ub (CLogHandle_addLogReq (p_protobuf P) api half msg c t) (\<lambda>c. Inr (c, t)))"

definition log_createServiceHandle :: "'a CService_scheme \<Rightarrow> 'b CMsgEvent \<times> 'a CService_scheme" where
  "log_createServiceHandle s = (CMsgEvent_new, s)"

section \<open>CLogClient\<close>

definition LOG_PORT :: int where "LOG_PORT = 20021"
definition LOG_LIST_MAX :: nat where "LOG_LIST_MAX = 100"
definition CLOG_DEBUG :: int32 where "CLOG_DEBUG = 0"
definition CLOG_INFO :: int32 where "CLOG_INFO = 1"
definition CLOG_ERROR :: int32 where "CLOG_ERROR = 2"
definition CLOG_FATAL :: int32 where "CLOG_FATAL = 3"

text \<open>
  \<open>logOfs\<close> is what was written to the local file since it was opened, if it is open, and
  \<open>logOfs_failed\<close> the fail bit of the stream, with which nothing more is written.
\<close>

record 'b CLogClient = "'b CServiceClient" +
  logLevel :: int32
  logOfs :: "string option"
  logOfs_failed :: bool
  log_servicePort :: int
  log_serviceName :: string
  logs :: "CAddLogReq list"

definition CLogClient_new :: "CCThreadPool option \<Rightarrow> 'b CLogClient" where
  "CLogClient_new pool = CServiceClient.extend (CMsgEvent.extend CMsgEvent_new (CServiceClient.fields pool))
     (CLogClient.fields CLOG_INFO None False 0 [] [])"

definition setLogLevel :: "int32 \<Rightarrow> 'b CLogClient \<Rightarrow> 'b CLogClient" where
  "setLogLevel l c = c\<lparr>logLevel := l\<rparr>"

definition setServicePort :: "int \<Rightarrow> 'b CLogClient \<Rightarrow> 'b CLogClient" where
  "setServicePort port c = c\<lparr>log_servicePort := port\<rparr>"

definition setServiceName :: "string \<Rightarrow> 'b CLogClient \<Rightarrow> 'b CLogClient" where
  "setServiceName name c = c\<lparr>log_serviceName := name\<rparr>"

text \<open>A stream that is open already is not opened again, and its fail bit is set.\<close>

definition setLocalFile :: "bool \<Rightarrow> 'b CLogClient \<Rightarrow> 'b CLogClient" where
  "setLocalFile opens c =
     (if logOfs c \<noteq> None \<or> \<not> opens then c\<lparr>logOfs_failed := True\<rparr>
      else c\<lparr>logOfs := Some [], logOfs_failed := False\<rparr>)"

definition level_str :: "int32 \<Rightarrow> string" where
  "level_str l =
     (if l = CLOG_DEBUG then ''DEBUG''
      else if l = CLOG_INFO then ''INFO''
      else if l = CLOG_ERROR then ''ERROR''
      else if l = CLOG_FATAL then ''FATAL''
      else ''DEBUG'')"

definition log_text :: "string \<Rightarrow> CAddLogReq \<Rightarrow> string" where
  "log_text logTime req =
     ''=================================================='' @ [CHR 0x0A] @
     logTime @ '' ['' @ level_str (CAddLogReq_log_level req) @ ''] '' @ CAddLogReq_filename req @ '':'' @
     show_int (sint (CAddLogReq_line req)) @ [CHR 0x0A] @
     CAddLogReq_log_txt req @ [CHR 0x0A]"

text \<open>The time, port and name go into a copy of the request; the request itself is queued.\<close>

definition CLogClient_addLog ::
    "string \<Rightarrow> int \<Rightarrow> CAddLogReq option \<Rightarrow> 'b CLogClient \<Rightarrow> 'b CLogClient" where
  "CLogClient_addLog logTime now req c =
     (case req of None \<Rightarrow> c
      | Some req \<Rightarrow>
          if sint (CAddLogReq_log_level req) < sint (logLevel c) then c
          else
            let c = (case logOfs c of None \<Rightarrow> c
                  | Some s \<Rightarrow> if logOfs_failed c then c else c\<lparr>logOfs := Some (s @ log_text logTime req)\<rparr>);
                tmp = req;
                tmp = (if sint (CAddLogReq_log_time tmp) \<le> 0 then tmp\<lparr>CAddLogReq_log_time := word_of_int now\<rparr> else tmp);
                tmp = tmp\<lparr>CAddLogReq_service_port := word_of_int (log_servicePort c)\<rparr>;
                tmp = tmp\<lparr>CAddLogReq_service_name := log_serviceName c\<rparr>;
                c = (if length (logs c) > LOG_LIST_MAX then c\<lparr>logs := tl (logs c)\<rparr> else c) in
            c\<lparr>logs := logs c @ [req]\<rparr>)"

definition cLog :: "string \<Rightarrow> int \<Rightarrow> int32 \<Rightarrow> string \<Rightarrow> string \<Rightarrow> int \<Rightarrow> 'b CLogClient \<Rightarrow> 'b CLogClient" where
  "cLog logTime now level msg filename line c =
     CLogClient_addLog logTime now (Some (CAddLogReq_Clear\<lparr>CAddLogReq_log_level := level,
       CAddLogReq_log_txt := msg, CAddLogReq_filename := filename, CAddLogReq_line := word_of_int line\<rparr>)) c"

lemma logs_only_bev [simp]: "only_bev c c' \<Longrightarrow> logs c' = logs c"
  unfolding only_bev_def by (elim exE conjE) simp

text \<open>The timer sends what is queued; that no message could be sent is ignored.\<close>

function CLogClient_timerCb :: "'b platform \<Rightarrow> 'b CLogClient \<Rightarrow> 'b CLogClient" where
  "CLogClient_timerCb P c =
     (case logs c of [] \<Rightarrow> c
      | log # rest \<Rightarrow> CLogClient_timerCb P
          (snd (sendMsg_type P MSG_ADD_LOG_REQ (Some (CAddLogReq_Serialize log)) (c\<lparr>logs := rest\<rparr>))))"
  by pat_completeness auto
termination
  by (relation "measure (\<lambda>(P, c). length (logs c))") (simp_all add: logs_only_bev [OF sendMsg_type_bev])

declare CLogClient_timerCb.simps [simp del]

definition startLog ::
    "(int \<Rightarrow> (int \<times> int) option \<times> nat option) \<Rightarrow> bool \<Rightarrow> nat \<Rightarrow> world \<Rightarrow> 'b CLogClient \<Rightarrow>
     (bool \<times> world \<times> 'b CLogClient) checked" where
  "startLog os written this w c =
     bind_ub (c_str (m_serverIp c)) (\<lambda>ip.
     let c = (if length ip = 0 then setServerIp ''127.0.0.1'' c else c);
         c = (if m_serverPort c \<le> 0 then c\<lparr>m_serverPort := LOG_PORT\<rparr> else c);
         c = setAutoConnect True c;
         c = c\<lparr>m_timerMs := 100\<rparr> in
     bind_ub (startConnect os written this w c) (\<lambda>(w, c).
     Inr (True, w, c)))"

end
