(* ===== verification/Log_Props.thy ===== *)
theory Log_Props
  imports Log ConfigServer_Props RegisterClient_Props
begin

text \<open>
  What happens to a log message: the queue of the client keeps the latest, its timer sends them in
  order, and the service stores them in that order. The locale \<open>log_sql\<close> states what the database
  does with the statement of \<open>addLog\<close>; \<open>memory_log\<close> interprets it on a table in memory.
\<close>

section \<open>The table\<close>

record log_row =
  g_name :: string
  g_ip :: string
  g_port :: int
  g_text :: string
  g_time :: int
  g_level :: int

definition log_insert_text :: string where
  "log_insert_text = ''insert into `cms_log`(`log_level`,`log_time`,`log_txt`,`service_ip`,`service_name`,`service_port` )values(?,?,?,?,?,? )''"

text \<open>The values bound to the six columns, in the order of their names.\<close>

definition log_row_of_binds :: "CData list \<Rightarrow> log_row option" where
  "log_row_of_binds binds = (case map CData_bytes binds of
     [level, time, txt, ip, name, port] \<Rightarrow> Some \<lparr>g_name = name, g_ip = ip, g_port = sint (int32_of_mem port),
       g_text = txt, g_time = sint (int32_of_mem time), g_level = sint (int32_of_mem level)\<rparr>
   | _ \<Rightarrow> None)"

text \<open>\<open>up\<close>: the server answers. \<open>storable\<close>: the columns hold the row as it is.\<close>

locale log_sql =
  fixes api :: "'m mysql_api" and log_rows :: "'m \<Rightarrow> log_row list" and up :: "'m \<Rightarrow> bool"
    and storable :: "log_row \<Rightarrow> bool"
  assumes insert_log: "up m \<Longrightarrow> log_row_of_binds binds = Some r \<Longrightarrow> storable r \<Longrightarrow> \<exists>n m'.
      run_statement api log_insert_text binds m = (Some n, m') \<and> up m' \<and> log_rows m' = log_rows m @ [r]"

text \<open>The row of a request: texts up to a zero byte, the address of the connection if it has none.\<close>

definition log_ip :: "string \<Rightarrow> CAddLogReq \<Rightarrow> string" where
  "log_ip ip req = (if CAddLogReq_service_ip req = [] then ip else CAddLogReq_service_ip req)"

definition row_of_log :: "string \<Rightarrow> CAddLogReq \<Rightarrow> log_row" where
  "row_of_log ip req = \<lparr>g_name = as_c_str (CAddLogReq_service_name req),
     g_ip = as_c_str (log_ip ip req),
     g_port = sint (CAddLogReq_service_port req), g_text = as_c_str (CAddLogReq_log_txt req),
     g_time = sint (CAddLogReq_log_time req), g_level = sint (CAddLogReq_log_level req)\<rparr>"

lemma log_data_eq:
  "log_data req =
    [(''log_level'', CData_int (CAddLogReq_log_level req)), (''log_time'', CData_int (CAddLogReq_log_time req)),
     (''log_txt'', CData_chars (Some (string_c_str (CAddLogReq_log_txt req)))),
     (''service_ip'', CData_chars (Some (string_c_str (CAddLogReq_service_ip req)))),
     (''service_name'', CData_chars (Some (string_c_str (CAddLogReq_service_name req)))),
     (''service_port'', CData_int (CAddLogReq_service_port req))]"
  by (simp add: log_data_def Let_def less_char_def)

lemma log_insert_text_eq: "insertBin_sql (log_data req) ''cms_log'' = log_insert_text"
  by (simp add: log_data_eq insertBin_sql_def log_insert_text_def blank_last_def)

lemma CData_bytes_int: "CData_bytes (CData_int i) = mem_of_int32 i"
  by (simp add: CData_bytes_def CData_int_def)

lemma log_row_of_data:
  "log_row_of_binds (map snd (log_data (req\<lparr>CAddLogReq_service_ip := log_ip ip req\<rparr>))) = Some (row_of_log ip req)"
  by (simp add: log_data_eq log_row_of_binds_def row_of_log_def CData_bytes_chars CData_bytes_int)

context log_sql begin

lemma addLogReq_stores:
  assumes "ready up c" "CAddLogReq_ParseFromArray rt (msg_bytes msg) = Some req"
    and "c_str (m_clientIp t) = Inr ip" "storable (row_of_log ip req)"
  obtains c' where "CLogHandle_addLogReq rt api half msg c t = Inr c'" "ready up c'"
    "log_rows (my_db c') = log_rows (my_db c) @ [row_of_log ip req]"
proof -
  let ?data = "log_data (req\<lparr>CAddLogReq_service_ip := log_ip ip req\<rparr>)"
  have c: "my_mysql c" "up (my_db c)" using assms(1) by (simp_all add: ready_def)
  obtain n m' where m': "run_statement api log_insert_text (map snd ?data) (my_db c) = (Some n, m')" "up m'"
    "log_rows m' = log_rows (my_db c) @ [row_of_log ip req]"
    using insert_log [OF c(2) log_row_of_data assms(4)] by blast
  have "CMysql_insertBin api ?data ''cms_log'' c = Inr (True, c\<lparr>my_db := m'\<rparr>)"
    using c(1) m'(1) by (simp add: CMysql_insertBin_def log_insert_text_eq bindings_def) (simp add: log_data_eq)
  then have "CLogHandle_addLogReq rt api half msg c t = Inr (c\<lparr>my_db := m'\<rparr>)"
    using assms(2,3) by (cases "CAddLogReq_service_ip req = []")
      (simp_all add: CLogHandle_addLogReq_def CLogDAO_addLog_def log_ip_def)
  then show thesis by (rule that) (use c(1) m' in \<open>simp_all add: ready_def\<close>)
qed

end

text \<open>A table in memory, filled by the prepared statement alone.\<close>

record memory_log =
  ml_rows :: "log_row list"
  ml_stmt :: string
  ml_binds :: "CData list"

definition fits_log :: "log_row \<Rightarrow> bool" where
  "fits_log r \<longleftrightarrow> length (g_name r) \<le> 16 \<and> length (g_ip r) \<le> 16 \<and> length (g_text r) \<le> 4096"

definition log_execute :: "memory_log \<Rightarrow> int \<times> memory_log" where
  "log_execute db =
     (case log_row_of_binds (ml_binds db) of None \<Rightarrow> (1, db)
      | Some r \<Rightarrow> if ml_stmt db = log_insert_text \<and> fits_log r then (0, db\<lparr>ml_rows := ml_rows db @ [r]\<rparr>) else (1, db))"

definition log_api :: "memory_log mysql_api" where
  "log_api = \<lparr>mysql_init = \<lambda>db. (True, db), mysql_close = \<lambda>db. db,
     mysql_real_connect = \<lambda>db _ _ _ _ _. (True, db), mysql_options = \<lambda>db _ _. (0, db),
     mysql_real_query = \<lambda>db _. (1, db), mysql_store_result = \<lambda>db. (None, db),
     mysql_use_result = \<lambda>db. (None, db), mysql_affected_rows = \<lambda>_. 1,
     mysql_insert_id = \<lambda>db. of_nat (length (ml_rows db)),
     mysql_stmt_init = \<lambda>db. (True, db), mysql_stmt_prepare = \<lambda>db sql. (0, db\<lparr>ml_stmt := sql\<rparr>),
     mysql_stmt_bind_param = \<lambda>db binds. (0, db\<lparr>ml_binds := binds\<rparr>), mysql_stmt_execute = log_execute,
     mysql_stmt_affected_rows = \<lambda>_. 1, mysql_stmt_close = \<lambda>db. db\<rparr>"

interpretation memory_log: log_sql log_api ml_rows "\<lambda>_. True" fits_log
  by unfold_locales (simp add: run_statement_def log_api_def log_execute_def)

definition empty_log :: "memory_log CMysql" where
  "empty_log = (CMysql_new \<lparr>ml_rows = [], ml_stmt = [], ml_binds = []\<rparr>)\<lparr>my_mysql := True\<rparr>"

lemma empty_log_sel [simp]: "ready (\<lambda>_. True) empty_log" "ml_rows (my_db empty_log) = []"
  by (simp_all add: empty_log_def CMysql_new_def ready_def)

section \<open>The queue\<close>

definition accepted :: "'b CLogClient \<Rightarrow> CAddLogReq \<Rightarrow> bool" where
  "accepted c req \<longleftrightarrow> sint (logLevel c) \<le> sint (CAddLogReq_log_level req)"

definition log_all :: "string \<Rightarrow> int \<Rightarrow> CAddLogReq list \<Rightarrow> 'b CLogClient \<Rightarrow> 'b CLogClient" where
  "log_all logTime now reqs c = foldl (\<lambda>c req. CLogClient_addLog logTime now (Some req) c) c reqs"

text \<open>The last \<open>n\<close> of a list.\<close>

definition latest :: "nat \<Rightarrow> 'a list \<Rightarrow> 'a list" where
  "latest n xs = drop (length xs - n) xs"

lemma latest_append: "0 < n \<Longrightarrow> latest n (latest n xs @ ys) = latest n (xs @ ys)"
  by (cases "n \<le> length xs") (simp_all add: latest_def add.commute)

lemma addLog_sel:
  "logs (CLogClient_addLog logTime now (Some req) c) =
     (if accepted c req then (if length (logs c) > LOG_LIST_MAX then tl (logs c) else logs c) @ [req] else logs c)"
  "logLevel (CLogClient_addLog logTime now (Some req) c) = logLevel c"
  "logOfs_failed (CLogClient_addLog logTime now (Some req) c) = logOfs_failed c"
  "logOfs (CLogClient_addLog logTime now (Some req) c) =
     (if accepted c req \<and> \<not> logOfs_failed c then map_option (\<lambda>s. s @ log_text logTime req) (logOfs c) else logOfs c)"
  by (simp_all add: CLogClient_addLog_def accepted_def Let_def not_less split: option.split)

lemma accepted_addLog [simp]: "accepted (CLogClient_addLog logTime now (Some req) c) = accepted c"
  by (simp add: fun_eq_iff accepted_def addLog_sel)

lemma addLog_latest:
  assumes "length (logs c) \<le> LOG_LIST_MAX + 1"
  shows "logs (CLogClient_addLog logTime now (Some req) c) =
    latest (LOG_LIST_MAX + 1) (logs c @ filter (accepted c) [req])"
proof (cases "length (logs c) > LOG_LIST_MAX")
  case True
  then have "length (logs c) = LOG_LIST_MAX + 1" using assms by simp
  then show ?thesis by (simp add: addLog_sel latest_def drop_Suc)
next
  case False
  then show ?thesis by (simp add: addLog_sel latest_def)
qed

text \<open>
  C17. The queue keeps the latest. Starting from a queue within its bound, after any requests it holds
  the last 101 of what was queued and of the requests at or above the level, in order; and the
  local file, if it is open and good, has the text of every one of those requests, in order.
\<close>

theorem log_queue_keeps_latest:
  assumes "length (logs c) \<le> LOG_LIST_MAX + 1"
  shows "logs (log_all logTime now reqs c) = latest (LOG_LIST_MAX + 1) (logs c @ filter (accepted c) reqs) \<and>
    logOfs (log_all logTime now reqs c) = (if logOfs_failed c then logOfs c
      else map_option (\<lambda>s. s @ concat (map (log_text logTime) (filter (accepted c) reqs))) (logOfs c))"
  using assms
proof (induction reqs arbitrary: c)
  case Nil
  then show ?case by (simp add: log_all_def latest_def option.map_ident)
next
  case (Cons req reqs)
  let ?c = "CLogClient_addLog logTime now (Some req) c"
  note l = addLog_latest [OF Cons.prems, of logTime now req]
  have "length (logs ?c) \<le> LOG_LIST_MAX + 1" unfolding l by (simp add: latest_def)
  note IH = Cons.IH [OF this]
  have step: "log_all logTime now (req # reqs) c = log_all logTime now reqs ?c" by (simp add: log_all_def)
  have "logs (log_all logTime now (req # reqs) c) =
      latest (LOG_LIST_MAX + 1) (latest (LOG_LIST_MAX + 1) (logs c @ filter (accepted c) [req]) @ filter (accepted c) reqs)"
    unfolding step using IH by (simp add: l)
  also have "\<dots> = latest (LOG_LIST_MAX + 1) (logs c @ filter (accepted c) (req # reqs))"
    by (simp add: latest_append)
  finally have logs: "logs (log_all logTime now (req # reqs) c) =
    latest (LOG_LIST_MAX + 1) (logs c @ filter (accepted c) (req # reqs))" .
  show ?case
    using IH logs by (auto simp: step addLog_sel option.map_comp comp_def)
qed

theorem log_queue_keeps_latest_witness:
  "\<exists>c :: buffers CLogClient. length (logs c) = 101 \<and>
    logs (log_all ''t'' 0 [CAddLogReq_Clear, CAddLogReq_Clear\<lparr>CAddLogReq_log_level := 2\<rparr>] c) =
      tl (logs c) @ [CAddLogReq_Clear\<lparr>CAddLogReq_log_level := 2\<rparr>]"
proof -
  define c :: "buffers CLogClient" where "c = (CLogClient_new None)\<lparr>logs := replicate 101 CAddLogReq_Clear\<rparr>"
  have "logLevel c = 1" by (simp add: c_def CLogClient_new_def CServiceClient.defs CMsgEvent.defs CLogClient.defs CLOG_INFO_def)
  then have "filter (accepted c) [CAddLogReq_Clear, CAddLogReq_Clear\<lparr>CAddLogReq_log_level := 2\<rparr>] =
      [CAddLogReq_Clear\<lparr>CAddLogReq_log_level := 2\<rparr>]"
    by (simp add: accepted_def CAddLogReq_Clear_def)
  moreover have "length (logs c) = 101" by (simp add: c_def)
  moreover from this have "length (logs c) \<le> LOG_LIST_MAX + 1" by (simp add: LOG_LIST_MAX_def)
  note log_queue_keeps_latest [OF this, of "''t''" 0 "[CAddLogReq_Clear, CAddLogReq_Clear\<lparr>CAddLogReq_log_level := 2\<rparr>]"]
  ultimately show ?thesis
    by (intro exI [of _ c]) (simp add: latest_def LOG_LIST_MAX_def drop_Suc)
qed

text \<open>The steps of a client: requests from any thread, the timer, the setters, and sending.\<close>

inductive log_reachable :: "'b CLogClient \<Rightarrow> bool" where
  new: "log_reachable (CLogClient_new pool)"
| add: "log_reachable c \<Longrightarrow> log_reachable (CLogClient_addLog logTime now req c)"
| timer: "log_reachable c \<Longrightarrow> log_reachable (CLogClient_timerCb P c)"
| level: "log_reachable c \<Longrightarrow> log_reachable (setLogLevel l c)"
| port: "log_reachable c \<Longrightarrow> log_reachable (setServicePort n c)"
| name: "log_reachable c \<Longrightarrow> log_reachable (setServiceName s c)"
| localFile: "log_reachable c \<Longrightarrow> log_reachable (setLocalFile opens c)"
| start: "log_reachable c \<Longrightarrow> startLog os written this w c = Inr (ok, w', c') \<Longrightarrow> log_reachable c'"
| send: "log_reachable c \<Longrightarrow> log_reachable (snd (sendMsg_type P type m c))"

lemma timerCb_Nil: "logs c = [] \<Longrightarrow> CLogClient_timerCb P c = c"
  by (subst CLogClient_timerCb.simps) simp

lemma timerCb_Cons:
  "logs c = log # rest \<Longrightarrow> CLogClient_timerCb P c = CLogClient_timerCb P
     (snd (sendMsg_type P MSG_ADD_LOG_REQ (Some (CAddLogReq_Serialize log)) (c\<lparr>logs := rest\<rparr>)))"
  by (subst CLogClient_timerCb.simps) simp

lemma timerCb_empties: "logs (CLogClient_timerCb P c) = []"
proof (induction P c rule: CLogClient_timerCb.induct)
  case (1 P c)
  then show ?case by (cases "logs c") (simp_all add: timerCb_Nil timerCb_Cons)
qed

lemma startLog_logs: "startLog os written this w c = Inr (ok, w', c') \<Longrightarrow> logs c' = logs c"
  by (auto simp: startLog_def startConnect_def bind_ub_Inr_iff Let_def setServerIp_def setAutoConnect_def case_prod_beta)

lemma addLog_bound:
  "length (logs c) \<le> LOG_LIST_MAX + 1 \<Longrightarrow> length (logs (CLogClient_addLog logTime now req c)) \<le> LOG_LIST_MAX + 1"
  by (cases req) (simp add: CLogClient_addLog_def, simp add: addLog_latest latest_def)

text \<open>
  The queue is bounded. Whatever the client of the log service is asked to do, its queue never
  holds more than \<open>LOG_LIST_MAX\<close> + 1 messages, and it is empty after each timer.
\<close>

theorem log_queue_bounded:
  assumes "log_reachable c"
  shows "length (logs c) \<le> LOG_LIST_MAX + 1 \<and> logs (CLogClient_timerCb P c) = []"
proof -
  have "length (logs c) \<le> LOG_LIST_MAX + 1"
    using assms
  proof induction
    case (new pool)
    then show ?case by (simp add: CLogClient_new_def CServiceClient.defs CMsgEvent.defs CLogClient.defs)
  next
    case (add c logTime now req)
    then show ?case by (intro addLog_bound)
  next
    case (start c os written this w ok w' c')
    then show ?case by (simp add: startLog_logs)
  qed (simp_all add: timerCb_empties setLogLevel_def setServicePort_def setServiceName_def setLocalFile_def logs_only_bev [OF sendMsg_type_bev])
  then show ?thesis by (simp add: timerCb_empties)
qed

theorem log_queue_bounded_witness:
  "\<exists>c :: buffers CLogClient. log_reachable c \<and> logs c \<noteq> [] \<and> logs (CLogClient_timerCb ref_platform c) = []"
proof -
  let ?c = "CLogClient_addLog ''t'' 0 (Some (CAddLogReq_Clear\<lparr>CAddLogReq_log_level := 2\<rparr>)) (CLogClient_new None) :: buffers CLogClient"
  have r: "log_reachable ?c" by (intro log_reachable.intros)
  have "accepted (CLogClient_new None :: buffers CLogClient) (CAddLogReq_Clear\<lparr>CAddLogReq_log_level := 2\<rparr>)"
    by (simp add: accepted_def CLogClient_new_def CServiceClient.defs CMsgEvent.defs CLogClient.defs CLOG_INFO_def)
  then have "logs ?c \<noteq> []" by (simp add: addLog_sel)
  with r log_queue_bounded [OF r, of ref_platform] show ?thesis by blast
qed

section \<open>Sending and storing\<close>

definition log_message :: "CAddLogReq \<Rightarrow> CMsgHead \<times> string" where
  "log_message req = typed MSG_ADD_LOG_REQ (CAddLogReq_Serialize req)"

text \<open>The service handles the messages of a connection one after the other.\<close>

fun handle_logs ::
    "'b platform \<Rightarrow> 'm mysql_api \<Rightarrow> (string \<Rightarrow> CAddLogReq) \<Rightarrow> (CMsgHead \<times> CMsg) list \<Rightarrow> 'm CMysql \<Rightarrow>
     ('b, 'a) CMsgEvent_scheme \<Rightarrow> 'm CMysql checked" where
  "handle_logs P api half [] c t = Inr c"
| "handle_logs P api half ((head, msg) # ms) c t =
     bind_ub (log_dispatch P api half head msg c t) (\<lambda>(c, t). handle_logs P api half ms c t)"

lemma MSG_ADD_LOG_REQ_nonzero: "MSG_ADD_LOG_REQ \<noteq> 0"
  by (simp add: MSG_ADD_LOG_REQ_def)

context channel begin

lemma timerCb_sends:
  assumes "\<And>b d. fst (bufferevent_write (p_libevent P) b d) = 0" "m_bev c \<noteq> None"
    and "\<And>log. log \<in> set (logs c) \<Longrightarrow> CAddLogReq_Serialize log \<noteq> []"
  shows "sent outb (CLogClient_timerCb P c) = sent outb c @ concat (map (\<lambda>log. frame (log_message log)) (logs c))"
  using assms(2,3)
proof (induction "logs c" arbitrary: c)
  case Nil
  then show ?case by (simp add: timerCb_Nil)
next
  case (Cons log rest)
  note l = Cons.hyps(2) [symmetric]
  have ser: "CAddLogReq_Serialize log \<noteq> []" using Cons.prems(2) l by simp
  have bev: "m_bev (c\<lparr>logs := rest\<rparr>) \<noteq> None" using Cons.prems(1) by simp
  define c1 where "c1 = snd (sendMsg_type P MSG_ADD_LOG_REQ (Some (CAddLogReq_Serialize log)) (c\<lparr>logs := rest\<rparr>))"
  have c1: "sent outb c1 = sent outb (c\<lparr>logs := rest\<rparr>) @ frame (log_message log)" "m_bev c1 \<noteq> None"
    using sendMsg_type_typed [OF assms(1) bev ser MSG_ADD_LOG_REQ_nonzero] by (simp_all add: c1_def log_message_def)
  have rest: "logs c1 = rest" unfolding c1_def by (simp add: logs_only_bev [OF sendMsg_type_bev])
  have "sent outb (CLogClient_timerCb P c1) = sent outb c1 @ concat (map (\<lambda>log. frame (log_message log)) (logs c1))"
    using Cons.hyps(1) [of c1] rest c1(2) Cons.prems(2) l by simp
  moreover have "sent outb (c\<lparr>logs := rest\<rparr>) = sent outb c" by (simp add: sent_def)
  moreover have "CLogClient_timerCb P c = CLogClient_timerCb P c1" unfolding c1_def by (rule timerCb_Cons [OF l])
  ultimately show ?case using c1 by (simp add: l rest)
qed

end

lemma handle_logs_store:
  assumes "log_sql api log_rows up storable" "coded_input (p_protobuf P)" "ready up c"
    and "c_str (m_clientIp t) = Inr ip"
    and "\<And>req. req \<in> set reqs \<Longrightarrow> CAddLogReq_wf (p_protobuf P) req \<and> CAddLogReq_Serialize req \<noteq> [] \<and>
      storable (row_of_log ip req)"
  obtains c' where "handle_logs P api half (map (\<lambda>req. delivered (log_message req)) reqs) c t = Inr c'"
    "ready up c'" "log_rows (my_db c') = log_rows (my_db c) @ map (row_of_log ip) reqs"
  using assms(3,5)
proof (induction reqs arbitrary: c thesis)
  case Nil
  show ?case by (rule Nil(1) [of c]) (use Nil(2) in simp_all)
next
  case (Cons req reqs)
  have req: "CAddLogReq_wf (p_protobuf P) req" "CAddLogReq_Serialize req \<noteq> []" "storable (row_of_log ip req)"
    using Cons.prems(3) by simp_all
  define msg where "msg = snd (delivered (log_message req))"
  let ?head = "fst (log_message req)"
  have d: "delivered (log_message req) = (?head, msg)" by (simp add: msg_def delivered_def)
  have h: "msg_type ?head = MSG_ADD_LOG_REQ" "msg_bytes msg = CAddLogReq_Serialize req"
    by (simp_all add: log_message_def msg_def msg_bytes_typed [OF req(2)])
  have "CAddLogReq_ParseFromArray (p_protobuf P) (msg_bytes msg) = Some req"
    unfolding h(2) by (rule coded_input.CAddLogReq_roundtrip [OF assms(2) req(1)])
  from log_sql.addLogReq_stores [OF assms(1) Cons.prems(2) this assms(4) req(3)] obtain c1 where
    1: "CLogHandle_addLogReq (p_protobuf P) api half msg c t = Inr c1" "ready up c1"
    "log_rows (my_db c1) = log_rows (my_db c) @ [row_of_log ip req]" by blast
  have "log_dispatch P api half ?head msg c t = Inr (c1, t)"
    using 1(1) by (simp add: log_dispatch_def log_regMsgCallback_def h(1))
  moreover obtain c' where c': "handle_logs P api half (map (\<lambda>req. delivered (log_message req)) reqs) c1 t = Inr c'"
    "ready up c'" "log_rows (my_db c') = log_rows (my_db c1) @ map (row_of_log ip) reqs"
    by (rule Cons.IH [OF _ 1(2)]) (use Cons.prems(3) in simp_all)
  ultimately show ?case
    by (intro Cons.prems(1) [of c']) (simp_all add: d 1(3))
qed


definition sample_log :: "string \<Rightarrow> CAddLogReq" where
  "sample_log body = CAddLogReq_Clear\<lparr>CAddLogReq_log_level := CLOG_ERROR, CAddLogReq_log_txt := body,
     CAddLogReq_filename := ''m.cpp''\<rparr>"

definition sample_log_client :: "CAddLogReq list \<Rightarrow> buffers CLogClient" where
  "sample_log_client queue = (CLogClient_new None)\<lparr>m_bev := Some \<lparr>inbuf = [], outbuf = []\<rparr>, logs := queue\<rparr>"

lemma sample_log_client_sel [simp]:
  "m_bev (sample_log_client queue) = Some \<lparr>inbuf = [], outbuf = []\<rparr>" "logs (sample_log_client queue) = queue"
  "sent outbuf (sample_log_client queue) = []"
  by (simp_all add: sample_log_client_def sent_def contents_def)

lemma sample_log_wf:
  assumes "length body \<le> 100"
  shows "CAddLogReq_wf ref_rt (sample_log body)" "CAddLogReq_Serialize (sample_log body) \<noteq> []"
    "length (CAddLogReq_Serialize (sample_log body)) \<le> 8192"
proof -
  show "CAddLogReq_wf ref_rt (sample_log body)"
    using assms by (simp add: CAddLogReq_wf_def sample_log_def CAddLogReq_Clear_def ref_rt_utf8 utf8_ok.simps)
  show "CAddLogReq_Serialize (sample_log body) \<noteq> []"
    by (simp add: CAddLogReq_Serialize_def sample_log_def WriteStringToArray_def WriteTagToArray_def)
  have l: "length (CAddLogReq_Serialize (sample_log body)) =
      (if body = [] then 0 else length (WriteStringToArray 4 body)) + length (WriteEnumToArray 6 CLOG_ERROR) +
      length (WriteStringToArray 7 ''m.cpp'')"
    by (simp add: CAddLogReq_Serialize_def sample_log_def CAddLogReq_Clear_def CLOG_ERROR_def)
  show "length (CAddLogReq_Serialize (sample_log body)) \<le> 8192"
    using assms length_fields_le(3) [of 4 body] length_fields_le(2) [of 6 CLOG_ERROR] length_fields_le(3) [of 7 "''m.cpp''"]
    unfolding l by simp
qed

lemma sample_client_ip: "c_str (m_clientIp (setClientIp (Some ''10.0.0.7'') (sample_event []))) = Inr ''10.0.0.7''"
  by (simp add: setClientIp_def c_str_strncpy NUL_def)


text \<open>
  A stored message does not say who sent it. The name and port of the service that are set at
  the client, and the time, go into a copy of the request that is dropped: whatever they are, the
  last message queued by \<open>cLog\<close> is stored with no name, port 0 and time 0.
\<close>

theorem stored_log_lacks_service:
  assumes "sint (logLevel c) \<le> sint level"
  shows "\<exists>req. last (logs (cLog logTime now level msg filename line (setServiceName name (setServicePort port c)))) = req \<and>
    row_of_log ip req = \<lparr>g_name = [], g_ip = as_c_str ip, g_port = 0, g_text = as_c_str msg, g_time = 0, g_level = sint level\<rparr>"
  using assms
  by (simp add: cLog_def setServiceName_def setServicePort_def addLog_sel accepted_def row_of_log_def log_ip_def
      CAddLogReq_Clear_def as_c_str_def)

theorem stored_log_lacks_service_witness:
  "\<exists>req. last (logs (cLog ''t'' 1000 CLOG_ERROR ''hi'' ''m.cpp'' 1 (setServiceName ''GW'' (setServicePort 20010
      (sample_log_client []))))) = req \<and> g_name (row_of_log ''10.0.0.7'' req) = [] \<and> g_time (row_of_log ''10.0.0.7'' req) = 0"
proof -
  have "sint (logLevel (sample_log_client [])) \<le> sint CLOG_ERROR"
    by (simp add: sample_log_client_def CLogClient_new_def CServiceClient.defs CMsgEvent.defs CLogClient.defs
        CLOG_INFO_def CLOG_ERROR_def)
  from stored_log_lacks_service [OF this, where ip = "''10.0.0.7''"] show ?thesis by auto
qed

text \<open>
  Messages are lost while there is no connection. The timer takes every message off the queue
  before it sends it, and ignores that it cannot be sent: without a bufferevent the queue is
  empty afterwards and nothing was sent.
\<close>

theorem disconnected_logs_are_lost:
  assumes "m_bev c = None"
  shows "logs (CLogClient_timerCb P c) = [] \<and> m_bev (CLogClient_timerCb P c) = None \<and>
    CLogClient_timerCb P c = c\<lparr>logs := []\<rparr>"
proof -
  have "CLogClient_timerCb P c = c\<lparr>logs := []\<rparr>"
    using assms
  proof (induction "logs c" arbitrary: c)
    case Nil
    then show ?case by (simp add: timerCb_Nil)
  next
    case (Cons log rest)
    have "writeMsg le d n (c\<lparr>logs := rest\<rparr>) = (False, c\<lparr>logs := rest\<rparr>)" for le d n
      using Cons.prems by (simp add: writeMsg_def)
    then have "snd (sendMsg_type P MSG_ADD_LOG_REQ (Some (CAddLogReq_Serialize log)) (c\<lparr>logs := rest\<rparr>)) = c\<lparr>logs := rest\<rparr>"
      by (simp add: sendMsg_type_def sendMsg_message_def sendMsg_def Let_def)
    with Cons.hyps(1) [of "c\<lparr>logs := rest\<rparr>"] Cons.prems show ?case
      by (simp add: timerCb_Cons [OF Cons.hyps(2) [symmetric]])
  qed
  with assms show ?thesis by simp
qed

theorem disconnected_logs_are_lost_witness:
  "logs ((CLogClient_new None :: buffers CLogClient)\<lparr>logs := [sample_log ''a'']\<rparr>) \<noteq> [] \<and>
   logs (CLogClient_timerCb ref_platform ((CLogClient_new None)\<lparr>logs := [sample_log ''a'']\<rparr>)) = []"
proof -
  have "m_bev ((CLogClient_new None :: buffers CLogClient)\<lparr>logs := [sample_log ''a'']\<rparr>) = None"
    by (simp add: CLogClient_new_def CServiceClient.defs CMsgEvent.defs)
  from disconnected_logs_are_lost [OF this] show ?thesis by simp
qed

end
