(* ===== verification/ConfigClient.thy ===== *)
theory ConfigClient
  imports ConfigServer
begin

text \<open>
  The client of the configuration centre, \<open>configclient/cconfigclient.cpp\<close>: a process uploads
  and downloads configurations, keeps those it has seen in a map and its own, a protobuf message
  of any type, in a variable and a file. A message object of a type that only the caller knows,
  and the \<open>.proto\<close> importer, are protobuf's: the parameters \<open>message_api\<close>, \<open>importer\<close> and \<open>findType\<close>.
\<close>

section \<open>State\<close>

text \<open>
  What the client calls on a \<open>google::protobuf::Message\<close>: parsing, which may fail half-way,
  serialising, and reading a field found by name; \<open>None\<close> is the abort of the process when the
  field has another type.
\<close>

record ('g, 'f) message_api =
  msg_ParseFromString :: "string \<Rightarrow> 'g \<Rightarrow> bool \<times> 'g"
  msg_SerializePartial :: "'g \<Rightarrow> string"
  msg_FindFieldByName :: "'g \<Rightarrow> string \<Rightarrow> 'f option"
  msg_GetInt32 :: "'g \<Rightarrow> 'f \<Rightarrow> int32 option"
  msg_GetString :: "'g \<Rightarrow> 'f \<Rightarrow> string option"
  msg_GetBool :: "'g \<Rightarrow> 'f \<Rightarrow> bool option"

text \<open>The variables of the file, with the files of the process.\<close>

record 'g config_state =
  configMap :: "string \<rightharpoonup> CConfig"
  curServiceConfig :: "'g option"
  allConfigs :: "CConfigList option"
  conf_disk :: "string \<rightharpoonup> string"

text \<open>What the descriptors of a \<open>.proto\<close> file say: for a field of an enum type, its name and text.\<close>

record message_desc =
  md_fields :: "(string \<times> string) option list"
  md_DebugString :: string

record file_desc =
  fd_syntax :: string
  fd_package :: string
  fd_messages :: "message_desc list"

text \<open>\<open>configTimerCb\<close> and \<open>uploadConfigResCb\<close>: whether the callback is set.\<close>

record 'b CConfigClient = "'b CServiceClient" +
  cf_localIp :: string
  cf_localPort :: int
  configTimerCb :: bool
  uploadConfigResCb :: bool
  cf_message :: "message_desc option"

definition CConfigClient_new :: "CCThreadPool option \<Rightarrow> 'b CConfigClient" where
  "CConfigClient_new pool = CServiceClient.extend (CMsgEvent.extend CMsgEvent_new (CServiceClient.fields pool))
     (CConfigClient.fields (zero_buf 16) 0 False False None)"

definition setCurServiceMessage :: "'g option \<Rightarrow> 'g config_state \<Rightarrow> 'g config_state" where
  "setCurServiceMessage m s = s\<lparr>curServiceConfig := m\<rparr>"

section \<open>Proto files\<close>

definition PB_ROOT :: string where "PB_ROOT = ''root/''"

definition class_name_pack :: "file_desc \<Rightarrow> string \<Rightarrow> string" where
  "class_name_pack fileDesc className =
     (if CHR ''.'' \<notin> set className then
        if fd_package fileDesc = [] then className else fd_package fileDesc @ ''.'' @ className
      else className)"

text \<open>The texts of the enum types of the fields, each type once.\<close>

fun enum_code :: "(string \<times> string) option list \<Rightarrow> string set \<Rightarrow> string" where
  "enum_code [] seen = []"
| "enum_code (None # fs) seen = enum_code fs seen"
| "enum_code (Some (name, code) # fs) seen =
     (if name \<in> seen then enum_code fs seen
      else code @ [CHR 0x0A] @ enum_code fs (insert name seen))"

text \<open>
  Every call deletes the importer, and with it the descriptors of the message of the call before;
  that message is deleted only later. \<open>dynamic_message.h\<close> says a descriptor must outlive the
  messages of its type, so this is a use after free.
\<close>

definition loadProto ::
    "(string \<Rightarrow> file_desc option) \<Rightarrow> (string \<Rightarrow> message_desc option) \<Rightarrow> string \<Rightarrow> string \<Rightarrow> string \<Rightarrow>
     'b CConfigClient \<Rightarrow> (message_desc option \<times> string \<times> 'b CConfigClient) checked" where
  "loadProto importer findType fileName className outProtoCode c =
     (case importer (PB_ROOT @ fileName) of None \<Rightarrow> Inr (None, outProtoCode, c)
      | Some fileDesc \<Rightarrow>
     (case (if className = [] then (case fd_messages fileDesc of [] \<Rightarrow> None | m # _ \<Rightarrow> Some m)
            else findType (class_name_pack fileDesc className)) of
        None \<Rightarrow> Inr (None, outProtoCode, c)
      | Some messageDesc \<Rightarrow>
          if cf_message c \<noteq> None then Inl UseAfterFree
          else
            let c = c\<lparr>cf_message := Some messageDesc\<rparr>;
                out = ''syntax='' @ [CHR 0x22] @ fd_syntax fileDesc @ [CHR 0x22] @ '';'' @ [CHR 0x0A];
                out = out @ ''package '' @ fd_package fileDesc @ '';'' @ [CHR 0x0A];
                out = out @ enum_code (md_fields messageDesc) {};
                out = out @ md_DebugString messageDesc in
            Inr (cf_message c, out, c)))"

section \<open>Starting\<close>

definition conf_file :: "'b CConfigClient \<Rightarrow> string" where
  "conf_file c = show_int (cf_localPort c) @ ''_conf.cache''"

definition load_cache :: "('g, 'f) message_api \<Rightarrow> 'b CConfigClient \<Rightarrow> 'g config_state \<Rightarrow> 'g config_state" where
  "load_cache G c s =
     (case conf_disk s (conf_file c) of None \<Rightarrow> s
      | Some bytes \<Rightarrow> (case curServiceConfig s of None \<Rightarrow> s
          | Some m \<Rightarrow> s\<lparr>curServiceConfig := Some (snd (msg_ParseFromString G bytes m))\<rparr>))"

definition startGetConfig ::
    "('g, 'f) message_api \<Rightarrow> (int \<Rightarrow> (int \<times> int) option \<times> nat option) \<Rightarrow> bool \<Rightarrow> nat \<Rightarrow> string option \<Rightarrow> int \<Rightarrow>
     'g option \<Rightarrow> bool \<Rightarrow> world \<Rightarrow> 'g config_state \<Rightarrow> 'b CConfigClient \<Rightarrow>
     (bool \<times> world \<times> 'g config_state \<times> 'b CConfigClient) checked" where
  "startGetConfig G os written this localIp localPort configMsg func w s c =
     (let c = (case localIp of None \<Rightarrow> c | Some ip \<Rightarrow> c\<lparr>cf_localIp := strncpy 16 ip\<rparr>);
          c = c\<lparr>cf_localPort := localPort\<rparr>;
          s = setCurServiceMessage configMsg s;
          c = c\<lparr>configTimerCb := func\<rparr>;
          c = c\<lparr>m_timerMs := 3000\<rparr>;
          s = load_cache G c s in
      bind_ub (startConnect os written this w c) (\<lambda>(w, c).
      Inr (True, w, s, c)))"

text \<open>The overload with the address of the server, which waits for the connection (\<open>up\<close>).\<close>

definition startGetConfig_server ::
    "'b libevent \<Rightarrow> (int \<Rightarrow> (int \<times> int) option \<times> nat option) \<Rightarrow> bool \<Rightarrow> nat \<Rightarrow> (nat \<Rightarrow> bool) \<Rightarrow> string \<Rightarrow> int \<Rightarrow>
     string option \<Rightarrow> int \<Rightarrow> 'g option \<Rightarrow> int \<Rightarrow> world \<Rightarrow> 'g config_state \<Rightarrow> 'b CConfigClient \<Rightarrow>
     (bool \<times> world \<times> 'g config_state \<times> 'b CConfigClient) checked" where
  "startGetConfig_server le os written this up serverIp serverPort localIp localPort configMsg timeoutSec w s c =
     (let c = setServerIp serverIp c;
          c = c\<lparr>m_serverPort := serverPort\<rparr>;
          c = (case localIp of None \<Rightarrow> c | Some ip \<Rightarrow> c\<lparr>cf_localIp := strncpy 16 ip\<rparr>);
          c = c\<lparr>cf_localPort := localPort\<rparr>;
          s = setCurServiceMessage configMsg s in
      bind_ub (startConnect os written this w c) (\<lambda>(w, c).
      bind_ub (waitforConnected up timeoutSec) (\<lambda>(ok, _).
      if \<not> ok then Inr (False, w, s, c) else Inr (True, w, s, setTimer le 3000 c))))"

section \<open>Requests\<close>

definition CConfigClient_downloadConfig ::
    "'b platform \<Rightarrow> string option \<Rightarrow> int \<Rightarrow> 'b CConfigClient \<Rightarrow> 'b CConfigClient" where
  "CConfigClient_downloadConfig P ip port c =
     (if port \<le> 0 \<or> port \<ge> 65536 then c
      else
        let req = CDownloadconfigReq_Clear;
            req = (case ip of None \<Rightarrow> req | Some ip \<Rightarrow> req\<lparr>CDownloadconfigReq_serviceIp := ip\<rparr>);
            req = req\<lparr>CDownloadconfigReq_servicePort := word_of_int port\<rparr> in
        snd (sendMsg_type P MSG_DOWNLOAD_CONFIG_REQ (Some (CDownloadconfigReq_Serialize req)) c))"

text \<open>The timer; \<open>user\<close> is what the callback of the caller does to the client.\<close>

definition CConfigClient_timerCb ::
    "'b platform \<Rightarrow> ('b CConfigClient \<Rightarrow> 'b CConfigClient) \<Rightarrow> 'b CConfigClient \<Rightarrow> 'b CConfigClient checked" where
  "CConfigClient_timerCb P user c =
     (let c = (if configTimerCb c then user c else c) in
      if cf_localPort c > 0 then
        bind_ub (c_str (cf_localIp c)) (\<lambda>ip. Inr (CConfigClient_downloadConfig P (Some ip) (cf_localPort c) c))
      else Inr c)"

definition CConfigClient_init ::
    "'b platform \<Rightarrow> ('b CConfigClient \<Rightarrow> 'b CConfigClient) \<Rightarrow> 'b CConfigClient \<Rightarrow> (bool \<times> 'b CConfigClient) checked" where
  "CConfigClient_init P user c =
     bind_ub (CComeTask_init (p_libevent P) c) (\<lambda>(_, c).
     bind_ub (CConfigClient_timerCb P user c) (\<lambda>c.
     Inr (True, c)))"

definition CConfigClient_uploadConfig :: "'b platform \<Rightarrow> CConfig option \<Rightarrow> 'b CConfigClient \<Rightarrow> 'b CConfigClient" where
  "CConfigClient_uploadConfig P conf c =
     snd (sendMsg_type P MSG_UPLOAD_CONFIG_REQ (map_option CConfig_Serialize conf) c)"

definition CConfigClient_deleteConfig ::
    "'b platform \<Rightarrow> string option \<Rightarrow> int \<Rightarrow> 'b CConfigClient \<Rightarrow> 'b CConfigClient" where
  "CConfigClient_deleteConfig P ip port c =
     (case ip of None \<Rightarrow> c
      | Some ip \<Rightarrow>
          if ip = [] \<or> port < 0 \<or> port \<ge> 65536 then c
          else
            let req = CDownloadconfigReq_Clear\<lparr>CDownloadconfigReq_serviceIp := ip,
                  CDownloadconfigReq_servicePort := word_of_int port\<rparr> in
            snd (sendMsg_type P MSG_DELETE_CONFIG_REQ (Some (CDownloadconfigReq_Serialize req)) c))"

text \<open>\<open>maps i\<close> is the list at poll \<open>i\<close>, every 10 ms.\<close>

definition CConfigClient_downloadAllConfig ::
    "'b platform \<Rightarrow> (nat \<Rightarrow> bool) \<Rightarrow> (nat \<Rightarrow> CConfigList option) \<Rightarrow> int \<Rightarrow> int \<Rightarrow> int \<Rightarrow> 'g config_state \<Rightarrow>
     'b CConfigClient \<Rightarrow> (CConfigList \<times> 'g config_state \<times> 'b CConfigClient) checked" where
  "CConfigClient_downloadAllConfig P up maps page pageCount timeoutSec s c =
     (let s = s\<lparr>allConfigs := None\<rparr> in
      bind_ub (autoConnect (p_libevent P) up timeoutSec c) (\<lambda>(ok, c).
      if \<not> ok then Inr (CConfigList_Clear, s, c)
      else
        let req = CDownloadAllConfigReq_Clear\<lparr>CDownloadAllConfigReq_page := word_of_int page,
              CDownloadAllConfigReq_pageCount := word_of_int pageCount\<rparr>;
            c = snd (sendMsg_type P MSG_DOWNLOAD_ALL_CONFIG_REQ (Some (CDownloadAllConfigReq_Serialize req)) c) in
        bind_ub (chk_int (timeoutSec * 100)) (\<lambda>milsec.
        Inr (case poll maps 0 (nat milsec) of (Some l, _) \<Rightarrow> l | (None, _) \<Rightarrow> CConfigList_Clear, s, c))))"

section \<open>Answers\<close>

text \<open>What the upload callback of the caller is called with, if it is set.\<close>

definition CConfigClient_uploadConfigRes :: "pb_rt \<Rightarrow> CMsg \<Rightarrow> 'b CConfigClient \<Rightarrow> (bool \<times> string) option" where
  "CConfigClient_uploadConfigRes rt msg c =
     (case CMessageRes_ParseFromArray rt (msg_bytes msg) of
        None \<Rightarrow> if uploadConfigResCb c then Some (False, ''ParseFromArray failed!'') else None
      | Some res \<Rightarrow>
          if CMessageRes_return res = CReturn_OK then
            if uploadConfigResCb c then Some (True, ''uploadConfig success!'') else None
          else if uploadConfigResCb c then
            Some (False, as_c_str (''uploadConfig failed'' @ [CHR 0xA3, CHR 0xBA] @ CMessageRes_msg res))
          else None)"

definition conf_key :: "string \<Rightarrow> int \<Rightarrow> string" where
  "conf_key ip port = ip @ '':'' @ show_int port"

text \<open>\<open>opens\<close>: the cache file can be written.\<close>

definition CConfigClient_downloadConfigRes ::
    "pb_rt \<Rightarrow> ('g, 'f) message_api \<Rightarrow> bool \<Rightarrow> CMsg \<Rightarrow> 'b CConfigClient \<Rightarrow> 'g config_state \<Rightarrow> 'g config_state checked" where
  "CConfigClient_downloadConfigRes rt G opens msg c s =
     (case CConfig_ParseFromArray rt (msg_bytes msg) of None \<Rightarrow> Inr s
      | Some conf \<Rightarrow>
          let key = conf_key (CConfig_serviceIp conf) (sint (CConfig_servicePort conf));
              s = s\<lparr>configMap := (configMap s)(key \<mapsto> conf)\<rparr> in
          if cf_localPort c \<le> 0 then Inr s
          else (case curServiceConfig s of None \<Rightarrow> Inr s
          | Some cur \<Rightarrow>
              bind_ub (c_str (cf_localIp c)) (\<lambda>ip.
              let ip = (if ip = [] then CConfig_serviceIp conf else ip) in
              if key \<noteq> conf_key ip (cf_localPort c) then Inr s
              else
                let (ok, cur) = msg_ParseFromString G (CConfig_privatePb conf) cur;
                    s = s\<lparr>curServiceConfig := Some cur\<rparr> in
                if \<not> ok \<or> \<not> opens then Inr s
                else Inr (s\<lparr>conf_disk := (conf_disk s)(conf_file c \<mapsto> msg_SerializePartial G cur)\<rparr>))))"

definition CConfigClient_downloadAllConfigRes ::
    "pb_rt \<Rightarrow> (string \<Rightarrow> CConfigList) \<Rightarrow> CMsg \<Rightarrow> 'g config_state \<Rightarrow> 'g config_state" where
  "CConfigClient_downloadAllConfigRes rt half msg s =
     s\<lparr>allConfigs := Some (case CConfigList_ParseFromArray rt (msg_bytes msg) of
        None \<Rightarrow> half (msg_bytes msg) | Some l \<Rightarrow> l)\<rparr>"

definition CConfigClient_deleteConfigRes :: "CMsg \<Rightarrow> 'b CConfigClient \<Rightarrow> 'b CConfigClient" where
  "CConfigClient_deleteConfigRes msg c = c"

datatype config_client_handler = UploadConfigRes | DownloadConfigRes | DownloadAllConfigRes | DeleteConfigRes

definition config_client_regMsgCallback :: "(int32 \<times> config_client_handler) list" where
  "config_client_regMsgCallback =
     [(MSG_UPLOAD_CONFIG_RES, UploadConfigRes), (MSG_DOWNLOAD_CONFIG_RES, DownloadConfigRes),
      (MSG_DOWNLOAD_ALL_CONFIG_RES, DownloadAllConfigRes), (MSG_DELETE_CONFIG_RES, DeleteConfigRes)]"

text \<open>What a message does to the variables of the file.\<close>

definition config_client_dispatch ::
    "pb_rt \<Rightarrow> ('g, 'f) message_api \<Rightarrow> (string \<Rightarrow> CConfigList) \<Rightarrow> bool \<Rightarrow> CMsgHead \<Rightarrow> CMsg \<Rightarrow> 'b CConfigClient \<Rightarrow>
     'g config_state \<Rightarrow> ('g config_state \<times> 'b CConfigClient) checked" where
  "config_client_dispatch rt G half opens head msg c s =
     (case map_of config_client_regMsgCallback (msg_type head) of
        None \<Rightarrow> Inr (s, CMsgEvent_clear c)
      | Some UploadConfigRes \<Rightarrow> Inr (s, c)
      | Some DownloadConfigRes \<Rightarrow> bind_ub (CConfigClient_downloadConfigRes rt G opens msg c s) (\<lambda>s. Inr (s, c))
      | Some DownloadAllConfigRes \<Rightarrow> Inr (CConfigClient_downloadAllConfigRes rt half msg s, c)
      | Some DeleteConfigRes \<Rightarrow> Inr (s, CConfigClient_deleteConfigRes msg c))"

section \<open>Lookups\<close>

text \<open>\<open>maps i\<close> is the map at poll \<open>i\<close>; the result has the poll at which it returns.\<close>

definition CConfigClient_getConfig ::
    "(nat \<Rightarrow> string \<rightharpoonup> CConfig) \<Rightarrow> string \<Rightarrow> int \<Rightarrow> CConfig \<Rightarrow> int \<Rightarrow> bool \<times> CConfig \<times> nat" where
  "CConfigClient_getConfig maps ip port outConf timeoutMs =
     (case poll (\<lambda>i. maps i (conf_key ip port)) 0 (nat (ms_polls timeoutMs)) of
        (None, i) \<Rightarrow> (False, outConf, i)
      | (Some conf, i) \<Rightarrow> (True, CConfig_CopyFrom conf outConf, i))"

definition CConfigClient_getInt :: "('g, 'f) message_api \<Rightarrow> string \<Rightarrow> 'g config_state \<Rightarrow> int32 option" where
  "CConfigClient_getInt G key s =
     (case curServiceConfig s of None \<Rightarrow> Some 0
      | Some m \<Rightarrow> (case msg_FindFieldByName G m key of None \<Rightarrow> Some 0 | Some f \<Rightarrow> msg_GetInt32 G m f))"

definition CConfigClient_getString :: "('g, 'f) message_api \<Rightarrow> string \<Rightarrow> 'g config_state \<Rightarrow> string option" where
  "CConfigClient_getString G key s =
     (case curServiceConfig s of None \<Rightarrow> Some []
      | Some m \<Rightarrow> (case msg_FindFieldByName G m key of None \<Rightarrow> Some [] | Some f \<Rightarrow> msg_GetString G m f))"

definition CConfigClient_getBool :: "('g, 'f) message_api \<Rightarrow> string \<Rightarrow> 'g config_state \<Rightarrow> bool option" where
  "CConfigClient_getBool G key s =
     (case curServiceConfig s of None \<Rightarrow> Some False
      | Some m \<Rightarrow> (case msg_FindFieldByName G m key of None \<Rightarrow> Some False | Some f \<Rightarrow> msg_GetBool G m f))"

end
