(* ===== verification/ConfigClient_Props.thy ===== *)
theory ConfigClient_Props
  imports ConfigClient ConfigServer_Props RegisterClient_Props
begin

text \<open>
  The configuration client together with the centre: what one process uploads another finds; the
  configuration of a process survives its restart. The locale \<open>message_codec\<close> states what the
  client needs of the message of its configuration, \<open>dir_config\<close> interprets it on \<open>CDirConfig\<close>.
\<close>

section \<open>Between client and centre\<close>

definition endpoint_req :: "string \<Rightarrow> int \<Rightarrow> CDownloadconfigReq" where
  "endpoint_req ip port = CDownloadconfigReq_Clear\<lparr>CDownloadconfigReq_serviceIp := ip,
     CDownloadconfigReq_servicePort := word_of_int port\<rparr>"

lemma endpoint_req_sel [simp]:
  "CDownloadconfigReq_serviceIp (endpoint_req ip port) = ip"
  "CDownloadconfigReq_servicePort (endpoint_req ip port) = word_of_int port"
  by (simp_all add: endpoint_req_def)

lemma sint_port: "0 \<le> port \<Longrightarrow> port < 65536 \<Longrightarrow> sint (word_of_int port :: int32) = port"
  by (simp add: signed_of_int signed_take_bit_int_eq_self)

lemma endpoint_req_nonempty: "ip \<noteq> [] \<Longrightarrow> CDownloadconfigReq_Serialize (endpoint_req ip port) \<noteq> []"
  by (simp add: CDownloadconfigReq_Serialize_def WriteStringToArray_def WriteTagToArray_def)

lemma CConfig_nonempty: "CConfig_servicePort conf \<noteq> 0 \<Longrightarrow> CConfig_Serialize conf \<noteq> []"
  by (simp add: CConfig_Serialize_def WriteInt32ToArray_def WriteTagToArray_def)

lemma endpoint_req_parses:
  assumes "coded_input rt" "VerifyUtf8String rt ip" "length ip < 2 ^ 31"
  shows "CDownloadconfigReq_ParseFromArray rt (CDownloadconfigReq_Serialize (endpoint_req ip port)) = Some (endpoint_req ip port)"
  by (rule coded_input.CDownloadconfigReq_roundtrip [OF assms(1)])
     (use assms(2,3) in \<open>simp add: CDownloadconfigReq_wf_def endpoint_req_def CDownloadconfigReq_Clear_def\<close>)

lemma only_bev_sel:
  "only_bev t t' \<Longrightarrow> m_clientIp t' = m_clientIp t"
  "only_bev k k' \<Longrightarrow> cf_localIp k' = cf_localIp k"
  "only_bev k k' \<Longrightarrow> cf_localPort k' = cf_localPort k"
  unfolding only_bev_def by (elim exE conjE; simp)+

lemma downloadConfig_sends:
  assumes "0 < port" "port < 65536"
  shows "CConfigClient_downloadConfig P (Some ip) port k =
    snd (sendMsg_type P MSG_DOWNLOAD_CONFIG_REQ (Some (CDownloadconfigReq_Serialize (endpoint_req ip port))) k)"
  using assms by (simp add: CConfigClient_downloadConfig_def endpoint_req_def)

lemma reply_typed:
  assumes "channel P inb outb" "\<And>b d. fst (bufferevent_write (p_libevent P) b d) = 0" "m_bev t \<noteq> None"
    and "body \<noteq> []" "type \<noteq> 0"
  shows "sent outb (reply P type body t) = sent outb t @ frame (typed type body)" "m_bev (reply P type body t) \<noteq> None"
    "m_clientIp (reply P type body t) = m_clientIp t"
  using channel.sendMsg_type_typed [OF assms] by (simp_all add: reply_def only_bev_sel(1) [OF sendMsg_type_bev])

lemma config_types_nonzero:
  "MSG_UPLOAD_CONFIG_REQ \<noteq> 0" "MSG_UPLOAD_CONFIG_RES \<noteq> 0" "MSG_DOWNLOAD_CONFIG_REQ \<noteq> 0" "MSG_DOWNLOAD_CONFIG_RES \<noteq> 0"
  by (simp_all add: MSG_UPLOAD_CONFIG_REQ_def MSG_UPLOAD_CONFIG_RES_def MSG_DOWNLOAD_CONFIG_REQ_def MSG_DOWNLOAD_CONFIG_RES_def)

lemma config_dispatch_typed:
  "config_dispatch P api half (fst (typed MSG_UPLOAD_CONFIG_REQ b)) msg dao t = CConfigHandle_uploadConfig P api msg dao t"
  "config_dispatch P api half (fst (typed MSG_DOWNLOAD_CONFIG_REQ b)) msg dao t = CConfigHandle_downloadConfig P api half msg dao t"
  "config_client_dispatch rt G halfl opens (fst (typed MSG_DOWNLOAD_CONFIG_RES b)) msg k s =
     bind_ub (CConfigClient_downloadConfigRes rt G opens msg k s) (\<lambda>s. Inr (s, k))"
  by (simp_all add: config_dispatch_def config_regMsgCallback_def config_client_dispatch_def
      config_client_regMsgCallback_def MSG_UPLOAD_CONFIG_REQ_def MSG_DOWNLOAD_CONFIG_REQ_def MSG_UPLOAD_CONFIG_RES_def
      MSG_DOWNLOAD_CONFIG_RES_def)

text \<open>What an answer does: it enters the map; that of the own address and port is also parsed.\<close>

definition own_answer :: "string \<Rightarrow> CConfig \<Rightarrow> 'b CConfigClient \<Rightarrow> bool" where
  "own_answer lip conf k \<longleftrightarrow> 0 < cf_localPort k \<and>
     conf_key (CConfig_serviceIp conf) (sint (CConfig_servicePort conf)) =
       conf_key (if lip = [] then CConfig_serviceIp conf else lip) (cf_localPort k)"

lemma downloadConfigRes_eq:
  assumes "CConfig_ParseFromArray rt (msg_bytes msg) = Some conf" "c_str (cf_localIp k) = Inr lip"
    and "s0 = s\<lparr>configMap := (configMap s)(conf_key (CConfig_serviceIp conf) (sint (CConfig_servicePort conf)) \<mapsto> conf)\<rparr>"
  shows "CConfigClient_downloadConfigRes rt G opens msg k s = Inr (case curServiceConfig s of
      None \<Rightarrow> s0
    | Some cur \<Rightarrow> if \<not> own_answer lip conf k then s0
        else let (ok, cur) = msg_ParseFromString G (CConfig_privatePb conf) cur;
                 s1 = s0\<lparr>curServiceConfig := Some cur\<rparr> in
          if ok \<and> opens then s1\<lparr>conf_disk := (conf_disk s)(conf_file k \<mapsto> msg_SerializePartial G cur)\<rparr> else s1)"
  using assms by (simp add: CConfigClient_downloadConfigRes_def own_answer_def Let_def case_prod_beta not_le
      split: option.split)

lemma downloadConfigRes_maps:
  assumes "CConfig_ParseFromArray rt (msg_bytes msg) = Some conf" "c_str (cf_localIp k) = Inr lip"
  obtains s' where "CConfigClient_downloadConfigRes rt G opens msg k s = Inr s'"
    "configMap s' = (configMap s)(conf_key (CConfig_serviceIp conf) (sint (CConfig_servicePort conf)) \<mapsto> conf)"
  by (rule that [OF downloadConfigRes_eq [OF assms refl]])
     (simp add: Let_def case_prod_beta split: option.split)

lemma getConfig_finds:
  assumes "maps j (conf_key ip port) = Some conf" "\<forall>i < j. maps i (conf_key ip port) = None"
    and "int j < timeoutMs div 10"
  shows "CConfigClient_getConfig maps ip port out timeoutMs = (True, conf, j)"
proof -
  have "0 \<le> timeoutMs" using assms(3) by (simp add: pos_imp_zdiv_nonneg_iff [symmetric])
  then have "j < nat (ms_polls timeoutMs)" using assms(3) by (simp add: ms_polls_pos)
  with poll_finds [of j "\<lambda>i. maps i (conf_key ip port)" 0 conf] assms(1,2) show ?thesis
    by (simp add: CConfigClient_getConfig_def)
qed


definition sample_config_client :: "buffers CConfigClient" where
  "sample_config_client = (CConfigClient_new (Some CCThreadPool_new))\<lparr>m_bev := Some \<lparr>inbuf = [], outbuf = []\<rparr>\<rparr>"

lemma sample_config_client_sel [simp]:
  "m_bev sample_config_client = Some \<lparr>inbuf = [], outbuf = []\<rparr>" "cf_localIp sample_config_client = zero_buf 16"
  "sent outbuf sample_config_client = []"
  by (simp_all add: sample_config_client_def CConfigClient_new_def CServiceClient.defs CMsgEvent.defs
      CConfigClient.defs sent_def contents_def)


section \<open>The own configuration\<close>

text \<open>A message is read back from what it is serialised to, whatever the object held before.\<close>

locale message_codec =
  fixes G :: "('g, 'f) message_api" and codec :: "'g \<Rightarrow> bool"
  assumes parse_serialize: "codec m \<Longrightarrow> msg_ParseFromString G (msg_SerializePartial G m) old = (True, m)"
begin

lemma own_answer_stored:
  assumes "codec m" "own_answer lip conf k" "CConfig_privatePb conf = msg_SerializePartial G m"
    and "CConfig_ParseFromArray rt (msg_bytes msg) = Some conf" "c_str (cf_localIp k) = Inr lip"
    and "curServiceConfig s = Some old" "CConfigClient_downloadConfigRes rt G True msg k s = Inr s'"
  shows "curServiceConfig s' = Some m" "conf_disk s' = (conf_disk s)(conf_file k \<mapsto> msg_SerializePartial G m)"
  using assms(7) unfolding downloadConfigRes_eq [OF assms(4,5) refl]
  using parse_serialize [OF assms(1)] assms(2,3,6) by (auto simp: Let_def)

lemma load_cache_reads:
  assumes "codec m" "conf_disk s (conf_file k) = Some (msg_SerializePartial G m)" "curServiceConfig s = Some old"
  shows "curServiceConfig (load_cache G k s) = Some m"
  using assms by (simp add: load_cache_def parse_serialize)

end

text \<open>\<open>CDirConfig\<close>, the configuration of the directory service, with its one field.\<close>

definition dir_config_api :: "pb_rt \<Rightarrow> (string \<Rightarrow> CDirConfig) \<Rightarrow> (CDirConfig, unit) message_api" where
  "dir_config_api rt half = \<lparr>
     msg_ParseFromString = \<lambda>bytes _. (case CDirConfig_ParseFromArray rt bytes of None \<Rightarrow> (False, half bytes) | Some m \<Rightarrow> (True, m)),
     msg_SerializePartial = CDirConfig_Serialize,
     msg_FindFieldByName = \<lambda>_ key. if key = ''root'' then Some () else None,
     msg_GetInt32 = \<lambda>_ _. None, msg_GetString = \<lambda>m _. Some (CDirConfig_root m), msg_GetBool = \<lambda>_ _. None\<rparr>"

interpretation dir_config: message_codec "dir_config_api ref_rt half" "CDirConfig_wf ref_rt"
  by unfold_locales (simp add: dir_config_api_def ref.CDirConfig_roundtrip)

lemma startGetConfig_config:
  assumes "startGetConfig G os written this localIp localPort configMsg func w s k = Inr (ok, w', s', k')"
  shows "s' = load_cache G (k\<lparr>cf_localPort := localPort\<rparr>) (s\<lparr>curServiceConfig := configMsg\<rparr>)"
  using assms by (auto simp: startGetConfig_def Let_def bind_ub_Inr_iff case_prod_beta setCurServiceMessage_def
      load_cache_def conf_file_def split: option.split)

text \<open>
  C16. The own configuration arrives and survives a restart. When a process handles an answer for its
  own address and port whose configuration is a serialised message, its current configuration
  is that message, and a process that starts again on the same port has it before it is even
  connected. An answer for another address or port changes neither.
\<close>

theorem own_config_survives_restart:
  assumes "message_codec G codec" "codec m" "CConfig_privatePb conf = msg_SerializePartial G m"
    and "CConfig_ParseFromArray rt (msg_bytes msg) = Some conf" "c_str (cf_localIp k) = Inr lip"
    and "curServiceConfig s = Some old" "CConfigClient_downloadConfigRes rt G True msg k s = Inr s'"
    and "startGetConfig G os written this localIp (cf_localPort k) (Some m0) func w s2 k2 = Inr (ok, w', s3, k3)"
    and "conf_disk s2 = conf_disk s'"
  shows "if own_answer lip conf k then curServiceConfig s' = Some m \<and> curServiceConfig s3 = Some m
    else curServiceConfig s' = curServiceConfig s \<and> conf_disk s' = conf_disk s"
proof (cases "own_answer lip conf k")
  case True
  note own = message_codec.own_answer_stored [OF assms(1,2) True assms(3-7)]
  have "conf_disk (s2\<lparr>curServiceConfig := Some m0\<rparr>) (conf_file (k2\<lparr>cf_localPort := cf_localPort k\<rparr>)) =
      Some (msg_SerializePartial G m)"
    using own(2) assms(9) by (simp add: conf_file_def)
  then have "curServiceConfig s3 = Some m"
    unfolding startGetConfig_config [OF assms(8)] by (rule message_codec.load_cache_reads [OF assms(1,2)]) simp
  with True own(1) show ?thesis by simp
next
  case False
  with assms(7) show ?thesis unfolding downloadConfigRes_eq [OF assms(4,5) refl] by (auto simp: assms(6))
qed

definition sample_state :: "CDirConfig config_state" where
  "sample_state = \<lparr>configMap = Map.empty, curServiceConfig = Some CDirConfig_Clear, allConfigs = None, conf_disk = Map.empty\<rparr>"

definition sample_dir :: CDirConfig where
  "sample_dir = CDirConfig_Clear\<lparr>CDirConfig_root := ''/srv''\<rparr>"

definition sample_own :: CConfig where
  "sample_own = sample_upload\<lparr>CConfig_privatePb := CDirConfig_Serialize sample_dir\<rparr>"

lemma startConnect_starts:
  assumes "cc_threadPool k = Some CCThreadPool_new"
  shows "\<exists>w' k'. startConnect (\<lambda>_. (Some (3, 4), Some 0)) True 1 empty_world k = Inr (w', k')"
  using assms
  by (simp add: startConnect_def case_prod_beta pool_init_def start_threads_ok CCThreadPool_new_def
      dispatch_def next_thread_def c_mod_def vec_at_def empty_world_def new_threads_def addTask_def)

theorem own_config_survives_restart_witness:
  "\<exists>s' ok w' s3 k3. CConfigClient_downloadConfigRes ref_rt (dir_config_api ref_rt (\<lambda>_. CDirConfig_Clear)) True
      (snd (delivered (typed MSG_DOWNLOAD_CONFIG_RES (CConfig_Serialize sample_own))))
      (sample_config_client\<lparr>cf_localPort := 80\<rparr>) sample_state = Inr s' \<and>
    startGetConfig (dir_config_api ref_rt (\<lambda>_. CDirConfig_Clear)) (\<lambda>_. (Some (3, 4), Some 0)) True 1 None 80
      (Some CDirConfig_Clear) False empty_world (sample_state\<lparr>conf_disk := conf_disk s'\<rparr>) sample_config_client =
      Inr (ok, w', s3, k3) \<and>
    CConfigClient_getString (dir_config_api ref_rt (\<lambda>_. CDirConfig_Clear)) ''root'' s3 = Some ''/srv''"
proof -
  let ?G = "dir_config_api ref_rt (\<lambda>_. CDirConfig_Clear)"
  let ?k = "sample_config_client\<lparr>cf_localPort := 80\<rparr>"
  let ?msg = "snd (delivered (typed MSG_DOWNLOAD_CONFIG_RES (CConfig_Serialize sample_own)))"
  have dir: "CDirConfig_wf ref_rt sample_dir" "length (CDirConfig_Serialize sample_dir) \<le> 24"
    using length_fields_le(3) [of 1 "''/srv''"]
    by (simp_all add: CDirConfig_wf_def sample_dir_def CDirConfig_Clear_def ref_rt_utf8 utf8_ok.simps CDirConfig_Serialize_def)
  have pb: "CConfig_privatePb sample_own = msg_SerializePartial ?G sample_dir" by (simp add: sample_own_def dir_config_api_def)
  have "CConfig_wf ref_rt sample_own" using sample_upload_wf dir(2) by (simp add: CConfig_wf_def sample_own_def)
  moreover have ne: "CConfig_Serialize sample_own \<noteq> []" by (rule CConfig_nonempty) (simp add: sample_own_def)
  ultimately have parse: "CConfig_ParseFromArray ref_rt (msg_bytes ?msg) = Some sample_own"
    by (simp only: msg_bytes_typed [OF ne]) (rule ref.CConfig_roundtrip)
  have lip: "c_str (cf_localIp ?k) = Inr []" by simp
  have own: "own_answer [] sample_own ?k" by (simp add: own_answer_def sample_own_def)
  have cur: "curServiceConfig sample_state = Some CDirConfig_Clear" by (simp add: sample_state_def)
  obtain s' where s': "CConfigClient_downloadConfigRes ref_rt ?G True ?msg ?k sample_state = Inr s'"
    by (rule downloadConfigRes_maps [OF parse lip])
  have "cc_threadPool (sample_config_client\<lparr>cf_localPort := 80, configTimerCb := False, m_timerMs := 3000\<rparr>) = Some CCThreadPool_new"
    by (simp add: sample_config_client_def CConfigClient_new_def CServiceClient.defs CMsgEvent.defs CConfigClient.defs)
  from startConnect_starts [OF this] obtain ok w' s3 k3 where
    st: "startGetConfig ?G (\<lambda>_. (Some (3, 4), Some 0)) True 1 None (cf_localPort ?k) (Some CDirConfig_Clear) False empty_world
      (sample_state\<lparr>conf_disk := conf_disk s'\<rparr>) sample_config_client = Inr (ok, w', s3, k3)"
    by (auto simp: startGetConfig_def)
  have "curServiceConfig s3 = Some sample_dir"
    using own_config_survives_restart [OF dir_config.message_codec_axioms dir(1) pb parse lip cur s' st] own by simp
  then have "CConfigClient_getString ?G ''root'' s3 = Some ''/srv''"
    by (simp add: CConfigClient_getString_def dir_config_api_def sample_dir_def)
  with s' st show ?thesis by auto
qed

section \<open>Pages\<close>

text \<open>
  The list of a page is the first answer to arrive. \<open>downloadAllConfig\<close> on a connection that is
  up returns the list of the first answer that is handled after it started, if that is in time,
  whatever page it was asked for: an answer to an earlier page that comes late is taken for it.
\<close>

theorem page_is_first_answer:
  assumes "m_isConnected k" "int_fits (timeoutSec * 100)" "int j < timeoutSec * 100"
    and "\<forall>i < j. maps i = None" "maps j = allConfigs (CConfigClient_downloadAllConfigRes rt half msg s0)"
    and "CConfigList_ParseFromArray rt (msg_bytes msg) = Some l"
  shows "\<exists>k'. CConfigClient_downloadAllConfig P up maps page pageCount timeoutSec s k =
    Inr (l, s\<lparr>allConfigs := None\<rparr>, k')"
proof -
  have "maps (0 + j) = Some l" using assms(5,6) by (simp add: CConfigClient_downloadAllConfigRes_def)
  then have "poll maps 0 (nat (timeoutSec * 100)) = (Some l, 0 + j)"
    by (intro poll_finds) (use assms(3,4) in simp_all)
  then show ?thesis
    using assms(1,2) by (simp add: CConfigClient_downloadAllConfig_def autoConnect_def chk_int_def)
qed

theorem page_is_first_answer_witness:
  "\<exists>k'. CConfigClient_downloadAllConfig ref_platform (\<lambda>_. True)
      (\<lambda>i. if i < 3 then None else allConfigs (CConfigClient_downloadAllConfigRes ref_rt (\<lambda>_. CConfigList_Clear)
        (request_msg MSG_DOWNLOAD_ALL_CONFIG_RES []) sample_state))
      2 10 1 sample_state (sample_config_client\<lparr>m_isConnected := True\<rparr>) = Inr (CConfigList_Clear, sample_state, k')"
proof -
  have "CConfigList_wf ref_rt CConfigList_Clear" by (simp add: CConfigList_wf_def CConfigList_Clear_def)
  moreover have "CConfigList_Serialize CConfigList_Clear = []" by (simp add: CConfigList_Serialize_def CConfigList_Clear_def)
  ultimately have p: "CConfigList_ParseFromArray ref_rt (msg_bytes (request_msg MSG_DOWNLOAD_ALL_CONFIG_RES [])) = Some CConfigList_Clear"
    using ref.CConfigList_roundtrip [of CConfigList_Clear] by simp
  have s: "sample_state\<lparr>allConfigs := None\<rparr> = sample_state" by (simp add: sample_state_def)
  show ?thesis
    using page_is_first_answer [OF _ _ _ _ _ p, of "sample_config_client\<lparr>m_isConnected := True\<rparr>" 1 3
      "\<lambda>i. if i < 3 then None else allConfigs (CConfigClient_downloadAllConfigRes ref_rt (\<lambda>_. CConfigList_Clear)
        (request_msg MSG_DOWNLOAD_ALL_CONFIG_RES []) sample_state)" "\<lambda>_. CConfigList_Clear" sample_state
      ref_platform "\<lambda>_. True" 2 10 sample_state] unfolding s
    by (simp add: int_fits_def)
qed

section \<open>Errors\<close>

text \<open>
  A second \<open>loadProto\<close> uses freed descriptors. After a call that gave a message, the next call that
  finds a message deletes it after the importer its descriptors belong to.
\<close>

theorem second_loadProto_uses_freed:
  assumes "loadProto importer findType fileName className code k = Inr (Some m, code', k')"
    and "importer2 (PB_ROOT @ fileName2) = Some fd" "fd_messages fd \<noteq> []"
  shows "loadProto importer2 findType2 fileName2 [] code2 k' = Inl UseAfterFree"
proof -
  have "cf_message k' \<noteq> None" using assms(1) by (auto simp: loadProto_def Let_def split: option.splits if_splits list.splits)
  with assms(2,3) show ?thesis by (auto simp: loadProto_def split: list.split)
qed

theorem second_loadProto_uses_freed_witness:
  "loadProto (\<lambda>_. Some \<lparr>fd_syntax = ''proto3'', fd_package = ''cmsg'', fd_messages = [\<lparr>md_fields = [], md_DebugString = ''m''\<rparr>]\<rparr>)
     (\<lambda>_. None) ''a.proto'' [] [] (snd (snd (projr (loadProto (\<lambda>_. Some \<lparr>fd_syntax = ''proto3'', fd_package = ''cmsg'',
       fd_messages = [\<lparr>md_fields = [], md_DebugString = ''m''\<rparr>]\<rparr>) (\<lambda>_. None) ''a.proto'' [] [] sample_config_client)))) = Inl UseAfterFree"
proof -
  let ?fd = "\<lparr>fd_syntax = ''proto3'', fd_package = ''cmsg'', fd_messages = [\<lparr>md_fields = [], md_DebugString = ''m''\<rparr>]\<rparr>"
  have "cf_message sample_config_client = None"
    by (simp add: sample_config_client_def CConfigClient_new_def CServiceClient.defs CMsgEvent.defs CConfigClient.defs)
  then obtain m code k' where l: "loadProto (\<lambda>_. Some ?fd) (\<lambda>_. None) ''a.proto'' [] [] sample_config_client = Inr (Some m, code, k')"
    by (simp add: loadProto_def)
  show ?thesis unfolding l sum.sel prod.sel
    by (rule second_loadProto_uses_freed [OF l, where fd = ?fd]) simp_all
qed

text \<open>
  A long address has no terminator. After \<open>startGetConfig\<close> with a local address of 16 characters or
  more and a port, the timer reads past the end of the address.
\<close>

theorem long_local_ip_overruns:
  assumes "startGetConfig G os written this (Some ip) port configMsg False w s k = Inr (ok, w', s', k')"
    and "NUL \<notin> set ip" "16 \<le> length ip" "0 < port"
  shows "CConfigClient_timerCb P user k' = Inl OutOfBounds"
proof -
  have "cf_localIp k' = strncpy 16 ip" "cf_localPort k' = port" "\<not> configTimerCb k'"
    using assms(1) by (auto simp: startGetConfig_def startConnect_def Let_def bind_ub_Inr_iff case_prod_beta)
  with assms(2-4) show ?thesis by (simp add: CConfigClient_timerCb_def c_str_strncpy_long)
qed

theorem long_local_ip_overruns_witness:
  "\<exists>ok w' s' k'. startGetConfig (dir_config_api ref_rt (\<lambda>_. CDirConfig_Clear)) (\<lambda>_. (Some (3, 4), Some 0)) True 1
      (Some ''2001:db8::1:2:3:4'') 80 None False empty_world sample_state sample_config_client = Inr (ok, w', s', k') \<and>
    CConfigClient_timerCb ref_platform (\<lambda>k. k) k' = Inl OutOfBounds"
proof -
  have "cc_threadPool (sample_config_client\<lparr>cf_localIp := strncpy 16 ''2001:db8::1:2:3:4'', cf_localPort := 80,
      configTimerCb := False, m_timerMs := 3000\<rparr>) = Some CCThreadPool_new"
    by (simp add: sample_config_client_def CConfigClient_new_def CServiceClient.defs CMsgEvent.defs CConfigClient.defs)
  from startConnect_starts [OF this] obtain ok w' s' k' where
    st: "startGetConfig (dir_config_api ref_rt (\<lambda>_. CDirConfig_Clear)) (\<lambda>_. (Some (3, 4), Some 0)) True 1
      (Some ''2001:db8::1:2:3:4'') 80 None False empty_world sample_state sample_config_client = Inr (ok, w', s', k')"
    by (auto simp: startGetConfig_def Let_def)
  have "NUL \<notin> set ''2001:db8::1:2:3:4''" by (simp add: NUL_def)
  from long_local_ip_overruns [OF st this] st show ?thesis by auto
qed

end
