(* ===== verification/Ssl.thy ===== *)
theory Ssl
  imports Prelude
begin

text \<open>
  The wrappers of OpenSSL, \<open>cplatform/cssl.cpp\<close> and \<open>cplatform/csslctx.cpp\<close>. Both classes hold a
  pointer and are copied by value, so the objects they point to are kept in a store, by address;
  what the library does with an object is the record \<open>ssl_api\<close>. Reports to \<open>cout\<close> and \<open>cerr\<close> are
  left out, with \<open>printCipher\<close> and \<open>printCert\<close>, which only report.
\<close>

record ('c, 's) ssl_api =
  SSL_CTX_new :: "bool \<Rightarrow> 'c option"
  SSL_CTX_use_certificate_file :: "'c \<Rightarrow> string option \<Rightarrow> int \<times> 'c"
  SSL_CTX_use_PrivateKey_file :: "'c \<Rightarrow> string option \<Rightarrow> int \<times> 'c"
  SSL_CTX_check_private_key :: "'c \<Rightarrow> int"
  SSL_CTX_set_verify :: "'c \<Rightarrow> 'c"
  SSL_CTX_load_verify_locations :: "'c \<Rightarrow> string \<Rightarrow> int \<times> 'c"
  SSL_new :: "'c \<Rightarrow> 's option"
  SSL_set_fd :: "'s \<Rightarrow> int \<Rightarrow> 's"
  SSL_accept :: "'s \<Rightarrow> int \<times> 's"
  SSL_connect :: "'s \<Rightarrow> int \<times> 's"
  SSL_write :: "'s \<Rightarrow> string \<Rightarrow> int \<times> 's"
  SSL_read :: "'s \<Rightarrow> nat \<Rightarrow> int \<times> string \<times> 's"

text \<open>Freed addresses hold \<open>None\<close>; the next object goes to the end.\<close>

record ('c, 's) ssl_store =
  ctxs :: "'c option list"
  ssls :: "'s option list"

definition object_at :: "'a option list \<Rightarrow> nat \<Rightarrow> 'a checked" where
  "object_at objects p =
     (if p < length objects then (case objects ! p of None \<Rightarrow> Inl UseAfterFree | Some x \<Rightarrow> Inr x) else Inl UseAfterFree)"

section \<open>CSSL\<close>

record CSSL =
  ssl_ptr :: "nat option"

definition CSSL_new :: CSSL where "CSSL_new = \<lparr>ssl_ptr = None\<rparr>"

definition CSSL_isEmpty :: "CSSL \<Rightarrow> bool" where "CSSL_isEmpty c \<longleftrightarrow> ssl_ptr c = None"

definition CSSL_setSSL :: "nat option \<Rightarrow> CSSL \<Rightarrow> CSSL" where "CSSL_setSSL p c = c\<lparr>ssl_ptr := p\<rparr>"

definition CSSL_ssl :: "CSSL \<Rightarrow> nat option" where "CSSL_ssl c = ssl_ptr c"

definition CSSL_accept :: "('c, 's) ssl_api \<Rightarrow> CSSL \<Rightarrow> ('c, 's) ssl_store \<Rightarrow> (bool \<times> ('c, 's) ssl_store) checked" where
  "CSSL_accept A c m =
     (case ssl_ptr c of None \<Rightarrow> Inr (False, m)
      | Some p \<Rightarrow> bind_ub (object_at (ssls m) p) (\<lambda>s.
          let (res, s) = SSL_accept A s; m = m\<lparr>ssls := (ssls m)[p := Some s]\<rparr> in
          if res \<le> 0 then Inr (False, m) else Inr (True, m)))"

definition CSSL_connect :: "('c, 's) ssl_api \<Rightarrow> CSSL \<Rightarrow> ('c, 's) ssl_store \<Rightarrow> (bool \<times> ('c, 's) ssl_store) checked" where
  "CSSL_connect A c m =
     (case ssl_ptr c of None \<Rightarrow> Inr (False, m)
      | Some p \<Rightarrow> bind_ub (object_at (ssls m) p) (\<lambda>s.
          let (res, s) = SSL_connect A s; m = m\<lparr>ssls := (ssls m)[p := Some s]\<rparr> in
          if res \<le> 0 then Inr (False, m) else Inr (True, m)))"

definition CSSL_write :: "('c, 's) ssl_api \<Rightarrow> string \<Rightarrow> CSSL \<Rightarrow> ('c, 's) ssl_store \<Rightarrow> (int \<times> ('c, 's) ssl_store) checked" where
  "CSSL_write A data c m =
     (case ssl_ptr c of None \<Rightarrow> Inr (0, m)
      | Some p \<Rightarrow> bind_ub (object_at (ssls m) p) (\<lambda>s.
          let (n, s) = SSL_write A s data in Inr (n, m\<lparr>ssls := (ssls m)[p := Some s]\<rparr>)))"

definition CSSL_read ::
    "('c, 's) ssl_api \<Rightarrow> nat \<Rightarrow> CSSL \<Rightarrow> ('c, 's) ssl_store \<Rightarrow> (int \<times> string \<times> ('c, 's) ssl_store) checked" where
  "CSSL_read A bufSize c m =
     (case ssl_ptr c of None \<Rightarrow> Inr (0, [], m)
      | Some p \<Rightarrow> bind_ub (object_at (ssls m) p) (\<lambda>s.
          let (n, buf, s) = SSL_read A s bufSize in Inr (n, buf, m\<lparr>ssls := (ssls m)[p := Some s]\<rparr>)))"

definition CSSL_close :: "CSSL \<Rightarrow> ('c, 's) ssl_store \<Rightarrow> (CSSL \<times> ('c, 's) ssl_store) checked" where
  "CSSL_close c m =
     (case ssl_ptr c of None \<Rightarrow> Inr (c, m)
      | Some p \<Rightarrow> bind_ub (object_at (ssls m) p) (\<lambda>_.
          Inr (c\<lparr>ssl_ptr := None\<rparr>, m\<lparr>ssls := (ssls m)[p := None]\<rparr>)))"

section \<open>CSSLCtx\<close>

record CSSLCtx =
  ctx_ptr :: "nat option"

text \<open>What a client or server demands of the certificate of the other side: nothing without a file.\<close>

definition CSSLCtx_verify ::
    "('c, 's) ssl_api \<Rightarrow> string option \<Rightarrow> CSSLCtx \<Rightarrow> ('c, 's) ssl_store \<Rightarrow> ('c, 's) ssl_store checked" where
  "CSSLCtx_verify A caCrt x m =
     (case (caCrt, ctx_ptr x) of
        (Some crt, Some p) \<Rightarrow>
          if crt = [] then Inr m
          else bind_ub (object_at (ctxs m) p) (\<lambda>c.
            let c = SSL_CTX_set_verify A c;
                (_, c) = SSL_CTX_load_verify_locations A c crt in
            Inr (m\<lparr>ctxs := (ctxs m)[p := Some c]\<rparr>))
      | _ \<Rightarrow> Inr m)"

text \<open>A context is made whatever \<open>sslCtx_\<close> held before.\<close>

definition CSSLCtx_initServer ::
    "('c, 's) ssl_api \<Rightarrow> string option \<Rightarrow> string option \<Rightarrow> string option \<Rightarrow> CSSLCtx \<Rightarrow> ('c, 's) ssl_store \<Rightarrow>
     (bool \<times> CSSLCtx \<times> ('c, 's) ssl_store) checked" where
  "CSSLCtx_initServer A crtFile keyFile caFile x m =
     (case SSL_CTX_new A True of None \<Rightarrow> Inr (False, x\<lparr>ctx_ptr := None\<rparr>, m)
      | Some c \<Rightarrow>
          let p = length (ctxs m); x = x\<lparr>ctx_ptr := Some p\<rparr>;
              put = (\<lambda>c. m\<lparr>ctxs := ctxs m @ [Some c]\<rparr>);
              (res, c) = SSL_CTX_use_certificate_file A c crtFile in
          if res \<le> 0 then Inr (False, x, put c)
          else let (res, c) = SSL_CTX_use_PrivateKey_file A c keyFile in
          if res \<le> 0 then Inr (False, x, put c)
          else if SSL_CTX_check_private_key A c \<le> 0 then Inr (False, x, put c)
          else bind_ub (CSSLCtx_verify A caFile x (put c)) (\<lambda>m. Inr (True, x, m)))"

definition CSSLCtx_initClient ::
    "('c, 's) ssl_api \<Rightarrow> string option \<Rightarrow> CSSLCtx \<Rightarrow> ('c, 's) ssl_store \<Rightarrow> (bool \<times> CSSLCtx \<times> ('c, 's) ssl_store) checked" where
  "CSSLCtx_initClient A caFile x m =
     (case SSL_CTX_new A False of None \<Rightarrow> Inr (False, x\<lparr>ctx_ptr := None\<rparr>, m)
      | Some c \<Rightarrow>
          let x = x\<lparr>ctx_ptr := Some (length (ctxs m))\<rparr>; m = m\<lparr>ctxs := ctxs m @ [Some c]\<rparr> in
          bind_ub (CSSLCtx_verify A caFile x m) (\<lambda>m. Inr (True, x, m)))"

definition CSSLCtx_newCSSL ::
    "('c, 's) ssl_api \<Rightarrow> int \<Rightarrow> CSSLCtx \<Rightarrow> ('c, 's) ssl_store \<Rightarrow> (CSSL \<times> ('c, 's) ssl_store) checked" where
  "CSSLCtx_newCSSL A socket x m =
     (let cssl = CSSL_new in
      case ctx_ptr x of None \<Rightarrow> Inr (cssl, m)
      | Some p \<Rightarrow> bind_ub (object_at (ctxs m) p) (\<lambda>c.
          case SSL_new A c of None \<Rightarrow> Inr (cssl, m)
          | Some s \<Rightarrow>
              let s = (if socket > 0 then SSL_set_fd A s socket else s) in
              Inr (CSSL_setSSL (Some (length (ssls m))) cssl, m\<lparr>ssls := ssls m @ [Some s]\<rparr>)))"

definition CSSLCtx_close :: "CSSLCtx \<Rightarrow> ('c, 's) ssl_store \<Rightarrow> (CSSLCtx \<times> ('c, 's) ssl_store) checked" where
  "CSSLCtx_close x m =
     (case ctx_ptr x of None \<Rightarrow> Inr (x, m)
      | Some p \<Rightarrow> bind_ub (object_at (ctxs m) p) (\<lambda>_.
          Inr (x\<lparr>ctx_ptr := None\<rparr>, m\<lparr>ctxs := (ctxs m)[p := None]\<rparr>)))"

end
