(* ===== verification/Ssl_Props.thy ===== *)
theory Ssl_Props
  imports Ssl
begin

text \<open>
  What the wrappers of OpenSSL promise: whose certificate is demanded, which object a handle
  reaches, and what becomes of the copies of a handle that is closed.
\<close>

section \<open>Certificates\<close>

text \<open>
  \<open>verifies\<close> tells the contexts that demand a certificate of the other side (\<open>SSL_VERIFY_PEER\<close>):
  a new one does not, and only \<open>SSL_CTX_set_verify\<close> changes it.
\<close>

locale ssl_peer =
  fixes A :: "('c, 's) ssl_api" and verifies :: "'c \<Rightarrow> bool"
  assumes new_ctx: "SSL_CTX_new A server = Some c \<Longrightarrow> \<not> verifies c"
    and use_certificate: "verifies (snd (SSL_CTX_use_certificate_file A c f)) = verifies c"
    and use_key: "verifies (snd (SSL_CTX_use_PrivateKey_file A c f)) = verifies c"
    and set_verify: "verifies (SSL_CTX_set_verify A c)"
    and load_verify: "verifies (snd (SSL_CTX_load_verify_locations A c g)) = verifies c"
begin

lemma verify_sets:
  assumes "CSSLCtx_verify A caCrt x m = Inr m'" "ctx_ptr x = Some (length cs)" "ctxs m = cs @ [Some c]" "\<not> verifies c"
  shows "\<exists>c'. ctxs m' = cs @ [Some c'] \<and> (verifies c' \<longleftrightarrow> caCrt \<noteq> None \<and> caCrt \<noteq> Some [])" "ssls m' = ssls m"
  using assms set_verify load_verify
  by (auto simp: CSSLCtx_verify_def object_at_def Let_def case_prod_beta split: option.splits if_splits)

lemma initServer_ctx:
  assumes "CSSLCtx_initServer A crtFile keyFile caFile x m = Inr (True, x', m')"
  shows "ctx_ptr x' = Some (length (ctxs m))" "ssls m' = ssls m"
    "\<exists>c'. ctxs m' = ctxs m @ [Some c'] \<and> (verifies c' \<longleftrightarrow> caFile \<noteq> None \<and> caFile \<noteq> Some [])"
proof -
  obtain c where c: "SSL_CTX_new A True = Some c"
    using assms by (auto simp: CSSLCtx_initServer_def split: option.splits)
  let ?c = "snd (SSL_CTX_use_PrivateKey_file A (snd (SSL_CTX_use_certificate_file A c crtFile)) keyFile)"
  have v: "\<not> verifies ?c" using new_ctx [OF c] use_certificate use_key by simp
  have x': "x' = x\<lparr>ctx_ptr := Some (length (ctxs m))\<rparr>"
    and ver: "CSSLCtx_verify A caFile x' (m\<lparr>ctxs := ctxs m @ [Some ?c]\<rparr>) = Inr m'"
    using assms c by (auto simp: CSSLCtx_initServer_def Let_def case_prod_beta bind_ub_Inr_iff split: if_splits)
  show "ctx_ptr x' = Some (length (ctxs m))" by (simp add: x')
  then show "ssls m' = ssls m"
    "\<exists>c'. ctxs m' = ctxs m @ [Some c'] \<and> (verifies c' \<longleftrightarrow> caFile \<noteq> None \<and> caFile \<noteq> Some [])"
    using verify_sets [OF ver _ _ v] by simp_all
qed

lemma initClient_ctx:
  assumes "CSSLCtx_initClient A caFile x m = Inr (True, x', m')"
  shows "ctx_ptr x' = Some (length (ctxs m))"
    "\<exists>c'. ctxs m' = ctxs m @ [Some c'] \<and> (verifies c' \<longleftrightarrow> caFile \<noteq> None \<and> caFile \<noteq> Some [])"
proof -
  obtain c where c: "SSL_CTX_new A False = Some c"
    using assms by (auto simp: CSSLCtx_initClient_def split: option.splits)
  have x': "x' = x\<lparr>ctx_ptr := Some (length (ctxs m))\<rparr>"
    and ver: "CSSLCtx_verify A caFile x' (m\<lparr>ctxs := ctxs m @ [Some c]\<rparr>) = Inr m'"
    using assms c by (auto simp: CSSLCtx_initClient_def Let_def bind_ub_Inr_iff)
  show "ctx_ptr x' = Some (length (ctxs m))" by (simp add: x')
  then show "\<exists>c'. ctxs m' = ctxs m @ [Some c'] \<and> (verifies c' \<longleftrightarrow> caFile \<noteq> None \<and> caFile \<noteq> Some [])"
    using verify_sets [OF ver _ _ new_ctx [OF c]] by simp
qed

end

text \<open>Contexts that record what was loaded; the key matches when the two files have the same name.\<close>

record sample_ctx =
  sc_crt :: "string option"
  sc_key :: "string option"
  sc_verify :: bool

definition sample_ssl :: "(sample_ctx, string) ssl_api" where
  "sample_ssl = \<lparr>SSL_CTX_new = \<lambda>_. Some \<lparr>sc_crt = None, sc_key = None, sc_verify = False\<rparr>,
     SSL_CTX_use_certificate_file = \<lambda>c f. (if f = None then 0 else 1, c\<lparr>sc_crt := f\<rparr>),
     SSL_CTX_use_PrivateKey_file = \<lambda>c f. (if f = None then 0 else 1, c\<lparr>sc_key := f\<rparr>),
     SSL_CTX_check_private_key = \<lambda>c. if sc_crt c = sc_key c then 1 else 0,
     SSL_CTX_set_verify = \<lambda>c. c\<lparr>sc_verify := True\<rparr>, SSL_CTX_load_verify_locations = \<lambda>c _. (1, c),
     SSL_new = \<lambda>_. Some [], SSL_set_fd = \<lambda>s _. s, SSL_accept = \<lambda>s. (1, s), SSL_connect = \<lambda>s. (1, s),
     SSL_write = \<lambda>s d. (int (length d), s @ d), SSL_read = \<lambda>s n. (int (length (take n s)), take n s, drop n s)\<rparr>"

interpretation sample_peer: ssl_peer sample_ssl sc_verify
  by unfold_locales (auto simp: sample_ssl_def)


definition no_objects :: "(sample_ctx, string) ssl_store" where
  "no_objects = \<lparr>ctxs = [], ssls = []\<rparr>"


section \<open>Handles\<close>

lemma newCSSL_object:
  assumes "CSSLCtx_newCSSL A socket x m = Inr (c, m1)" "\<not> CSSL_isEmpty c"
  obtains s where "ssl_ptr c = Some (length (ssls m))" "m1 = m\<lparr>ssls := ssls m @ [Some s]\<rparr>"
proof -
  have empty: "CSSL_isEmpty CSSL_new" by (simp add: CSSL_isEmpty_def CSSL_new_def)
  obtain p where p: "ctx_ptr x = Some p"
    using assms empty by (cases "ctx_ptr x") (simp_all add: CSSLCtx_newCSSL_def)
  obtain x' where x': "object_at (ctxs m) p = Inr x'"
    using assms(1) p by (cases "object_at (ctxs m) p") (simp_all add: CSSLCtx_newCSSL_def)
  obtain s where "SSL_new A x' = Some s"
    using assms p x' empty by (cases "SSL_new A x'") (simp_all add: CSSLCtx_newCSSL_def)
  with assms(1) p x' have "c = CSSL_setSSL (Some (length (ssls m))) CSSL_new"
    "m1 = m\<lparr>ssls := ssls m @ [Some (if socket > 0 then SSL_set_fd A s socket else s)]\<rparr>"
    by (simp_all add: CSSLCtx_newCSSL_def)
  with that show thesis by (simp add: CSSL_setSSL_def)
qed

text \<open>
  A closed handle, and its copies. A handle that \<open>newCSSL\<close> gives reaches a new object; closing it
  frees the object and empties the handle, which is then harmless: it writes, reads and closes
  nothing. A copy made before still points there, and every use of it is a use after free.
\<close>

theorem closed_copy_dangles:
  assumes "CSSLCtx_newCSSL A socket x m = Inr (c, m1)" "\<not> CSSL_isEmpty c"
  shows "\<exists>c' m2. CSSL_close c m1 = Inr (c', m2) \<and> CSSL_isEmpty c' \<and> ssls m = butlast (ssls m1) \<and>
    CSSL_write A d c' m2 = Inr (0, m2) \<and> CSSL_read A n c' m2 = Inr (0, [], m2) \<and> CSSL_close c' m2 = Inr (c', m2) \<and>
    CSSL_write A d c m2 = Inl UseAfterFree \<and> CSSL_read A n c m2 = Inl UseAfterFree \<and> CSSL_close c m2 = Inl UseAfterFree \<and>
    CSSL_accept A c m2 = Inl UseAfterFree \<and> CSSL_connect A c m2 = Inl UseAfterFree"
proof -
  obtain s where c: "ssl_ptr c = Some (length (ssls m))" "m1 = m\<lparr>ssls := ssls m @ [Some s]\<rparr>"
    by (rule newCSSL_object [OF assms])
  let ?m2 = "m1\<lparr>ssls := (ssls m1)[length (ssls m) := None]\<rparr>"
  have "CSSL_close c m1 = Inr (c\<lparr>ssl_ptr := None\<rparr>, ?m2)"
    by (simp add: CSSL_close_def c object_at_def)
  moreover have "object_at (ssls ?m2) (length (ssls m)) = Inl UseAfterFree" by (simp add: object_at_def c(2))
  ultimately show ?thesis using c
    by (intro exI [of _ "c\<lparr>ssl_ptr := None\<rparr>"] exI [of _ ?m2])
       (simp add: CSSL_isEmpty_def CSSL_write_def CSSL_read_def CSSL_close_def CSSL_accept_def CSSL_connect_def)
qed

theorem closed_copy_dangles_witness:
  "\<exists>x m c m1 c' m2. CSSLCtx_initClient sample_ssl None \<lparr>ctx_ptr = None\<rparr> no_objects = Inr (True, x, m) \<and>
    CSSLCtx_newCSSL sample_ssl 4 x m = Inr (c, m1) \<and> CSSL_close c m1 = Inr (c', m2) \<and>
    CSSL_write sample_ssl ''x'' c m2 = Inl UseAfterFree"
proof -
  let ?x = "\<lparr>ctx_ptr = Some 0\<rparr>" and ?ctx = "\<lparr>sc_crt = None, sc_key = None, sc_verify = False\<rparr>"
  let ?m = "\<lparr>ctxs = [Some ?ctx], ssls = []\<rparr>" and ?c = "\<lparr>ssl_ptr = Some 0\<rparr>"
  have i: "CSSLCtx_initClient sample_ssl None \<lparr>ctx_ptr = None\<rparr> no_objects = Inr (True, ?x, ?m)"
    by (simp add: CSSLCtx_initClient_def sample_ssl_def no_objects_def CSSLCtx_verify_def)
  have n: "CSSLCtx_newCSSL sample_ssl 4 ?x ?m = Inr (?c, ?m\<lparr>ssls := [Some []]\<rparr>)"
    by (simp add: CSSLCtx_newCSSL_def sample_ssl_def object_at_def CSSL_new_def CSSL_setSSL_def)
  have "\<not> CSSL_isEmpty ?c" by (simp add: CSSL_isEmpty_def)
  from closed_copy_dangles [OF n this, of "''x''"] i n show ?thesis by blast
qed

text \<open>
  A server that failed keeps its context. When a file cannot be loaded or the key does not match,
  \<open>initServer\<close> returns false but leaves the half-made context, and \<open>newCSSL\<close> goes on to make
  connections from it, without a certificate to show.
\<close>

theorem failed_server_keeps_context:
  assumes "CSSLCtx_initServer A crtFile keyFile caFile x m = Inr (False, x', m')" "SSL_CTX_new A True \<noteq> None"
    and "\<forall>c. SSL_new A c \<noteq> None"
  shows "ctx_ptr x' = Some (length (ctxs m)) \<and> (\<exists>cssl m2. CSSLCtx_newCSSL A socket x' m' = Inr (cssl, m2) \<and> \<not> CSSL_isEmpty cssl)"
proof -
  obtain c0 where c0: "SSL_CTX_new A True = Some c0" using assms(2) by blast
  obtain c where c: "ctx_ptr x' = Some (length (ctxs m))" "ctxs m' = ctxs m @ [Some c]"
    using assms(1) c0 by (auto simp: CSSLCtx_initServer_def Let_def case_prod_beta bind_ub_Inr_iff split: if_splits)
  obtain s where "SSL_new A c = Some s" using assms(3) by blast
  with c show ?thesis by (simp add: CSSLCtx_newCSSL_def object_at_def CSSL_isEmpty_def CSSL_setSSL_def)
qed

theorem failed_server_keeps_context_witness:
  "\<exists>x' m' cssl m2. CSSLCtx_initServer sample_ssl (Some ''s'') None None \<lparr>ctx_ptr = None\<rparr> no_objects = Inr (False, x', m') \<and>
    CSSLCtx_newCSSL sample_ssl 4 x' m' = Inr (cssl, m2) \<and> \<not> CSSL_isEmpty cssl"
proof -
  have "\<exists>x' m'. CSSLCtx_initServer sample_ssl (Some ''s'') None None \<lparr>ctx_ptr = None\<rparr> no_objects = Inr (False, x', m')"
    by (simp add: CSSLCtx_initServer_def sample_ssl_def no_objects_def)
  then obtain x' m' where i: "CSSLCtx_initServer sample_ssl (Some ''s'') None None \<lparr>ctx_ptr = None\<rparr> no_objects =
      Inr (False, x', m')" by blast
  have "SSL_CTX_new sample_ssl True \<noteq> None" "\<forall>c. SSL_new sample_ssl c \<noteq> None" by (simp_all add: sample_ssl_def)
  with failed_server_keeps_context [OF i] i show ?thesis by blast
qed

end
