(* ===== verification/Mysql_Text.thy ===== *)
theory Mysql_Text
  imports Mysql
begin

text \<open>
  The two functions of \<open>cmysql/\<close> that work on texts alone, in their Linux variants: reading a
  password from the terminal (\<open>getPassword\<close> of \<open>cmysql.cpp\<close>) and the conversion of a value
  between UTF-8 and GBK (\<open>CData::utf8ConvGbk\<close>), for which the library call \<open>iconv\<close> is a parameter.
\<close>

section \<open>The password\<close>

text \<open>
  \<open>input k\<close> is the character the terminal gives at read \<open>k\<close>; at the end of its input it gives
  \<open>EOF\<close>, byte 255, for ever. The result has the value returned, the buffer, whether the terminal
  echoes, and the number of reads. \<open>None\<close> is the loop that never ends.
\<close>

definition is_newline :: "char \<Rightarrow> bool" where
  "is_newline p \<longleftrightarrow> p = CHR 0x0D \<or> p = CHR 0x0A"

partial_function (option) password_loop ::
    "int \<Rightarrow> (nat \<Rightarrow> char) \<Rightarrow> nat \<Rightarrow> bool \<Rightarrow> nat \<Rightarrow> string \<Rightarrow> bool \<Rightarrow> (int \<times> string \<times> bool \<times> nat) checked option" where
  "password_loop outSize input k is_begin i out echo =
     (if int i < outSize then
        let p = input k;
            is_begin = (is_begin \<or> \<not> is_newline p) in
        if \<not> is_begin then password_loop outSize input (Suc k) is_begin i out False
        else if is_newline p then Some (Inr (int i, out, True, Suc k))
        else if length out \<le> i then Some (Inl OutOfBounds)
        else password_loop outSize input (Suc k) is_begin (Suc i) (out[i := p]) True
      else Some (Inr (0, out, echo, k)))"

declare password_loop.simps [code]

definition getPassword :: "(nat \<Rightarrow> char) \<Rightarrow> string \<Rightarrow> int \<Rightarrow> bool \<Rightarrow> (int \<times> string \<times> bool \<times> nat) checked option" where
  "getPassword input out outSize echo = password_loop outSize input 0 False 0 out echo"

section \<open>Character sets\<close>

text \<open>
  \<open>iconv_open to from\<close> gives a handle, or the value -1 when it has no such conversion.
  \<open>iconv_run cd text n\<close> gives the value \<open>iconv\<close> returns and the bytes it puts into an output buffer
  of \<open>n\<close> bytes.
\<close>

record iconv_api =
  iconv_open :: "string \<Rightarrow> string \<Rightarrow> int"
  iconv_run :: "int \<Rightarrow> string \<Rightarrow> nat \<Rightarrow> uint64 \<times> string"

datatype ConvType = UTF82GBK | GBK2UTF8

definition convert :: "iconv_api \<Rightarrow> string \<Rightarrow> string \<Rightarrow> string \<Rightarrow> string \<Rightarrow> uint64 \<times> string" where
  "convert ic fromChar toChar text_in out =
     (let cd = iconv_open ic toChar fromChar in
      if cd = 0 then (- 1, out)
      else
        let out = replicate (length out) NUL;
            (res, bytes) = iconv_run ic cd text_in (length out) in
        (res, bytes @ drop (length bytes) out))"

text \<open>A length that does not fit an \<open>int\<close> may become negative, then \<open>iconv\<close> reads past the end.\<close>

definition CData_utf8ConvGbk :: "iconv_api \<Rightarrow> ConvType \<Rightarrow> CData \<Rightarrow> string checked" where
  "CData_utf8ConvGbk ic direction d =
     (let res = replicate 1024 NUL in
      bind_ub (chars_of d) (\<lambda>s.
      let inLen = sint (word_of_nat (length s) :: int32) in
      if inLen < 0 then Inl OutOfBounds
      else
        let (_, res) = (case direction of
              UTF82GBK \<Rightarrow> convert ic ''utf-8'' ''gbk'' (take (nat inLen) s) res
            | GBK2UTF8 \<Rightarrow> convert ic ''gbk'' ''utf-8'' (take (nat inLen) s) res) in
        Inr (takeWhile (\<lambda>c. c \<noteq> NUL) res)))"

section \<open>What is typed\<close>

lemma password_newlines:
  assumes "\<forall>j < n. is_newline (input (k + j))" "0 < outSize" "0 < n"
  shows "password_loop outSize input k False 0 out echo = password_loop outSize input (k + n) False 0 out False"
  using assms(1,3)
proof (induction n arbitrary: k echo)
  case (Suc n)
  have "is_newline (input k)" using Suc.prems(1) [rule_format, of 0] by simp
  then have step: "password_loop outSize input k False 0 out echo = password_loop outSize input (Suc k) False 0 out False"
    using assms(2) by (subst password_loop.simps) simp
  show ?case
  proof (cases n)
    case 0
    with step show ?thesis by simp
  next
    case (Suc m)
    then have "password_loop outSize input (Suc k) False 0 out False = password_loop outSize input (Suc k + n) False 0 out False"
      using Suc.prems by (intro Suc.IH) (auto dest: spec [of _ "Suc _"])
    with step show ?thesis by simp
  qed
qed simp

lemma password_typed:
  assumes "\<forall>j < length pw. input (k + j) = pw ! j \<and> \<not> is_newline (pw ! j)"
    and "int (i + length pw) \<le> outSize" "outSize \<le> int (length out)" "pw \<noteq> []"
  shows "password_loop outSize input k b i out echo =
    password_loop outSize input (k + length pw) True (i + length pw) (take i out @ pw @ drop (i + length pw) out) True"
  using assms
proof (induction pw arbitrary: k i out b echo)
  case (Cons p pw)
  have p: "input k = p" "\<not> is_newline p" using Cons.prems(1) [rule_format, of 0] by simp_all
  have i: "i < length out" "int i < outSize" using Cons.prems(2,3) by simp_all
  have step: "password_loop outSize input k b i out echo = password_loop outSize input (Suc k) True (Suc i) (out[i := p]) True"
    using p i by (subst password_loop.simps) simp
  have out: "take (Suc i) (out[i := p]) = take i out @ [p]" "drop (Suc (i + n)) (out[i := p]) = drop (Suc (i + n)) out" for n
    using i(1) by (simp_all add: take_Suc_conv_app_nth)
  show ?case
  proof (cases pw)
    case Nil
    have "out[i := p] = take i out @ p # drop (Suc i) out" using i(1) by (simp add: upd_conv_take_nth_drop)
    with Nil step show ?thesis by simp
  next
    case (Cons q qs)
    have "password_loop outSize input (Suc k) True (Suc i) (out[i := p]) True =
        password_loop outSize input (Suc k + length pw) True (Suc i + length pw)
          (take (Suc i) (out[i := p]) @ pw @ drop (Suc i + length pw) (out[i := p])) True"
      using Cons.prems Cons by (intro Cons.IH) (auto dest: spec [of _ "Suc _"])
    with step out show ?thesis by simp
  qed
qed simp

text \<open>
  The line that is typed is the password, after any empty lines: a line that leaves room is read
  whole, and the terminal echoes again. Of a line that fills the buffer the first characters are
  kept, but the length returned is 0; the rest of the line is left to the next read.
\<close>

theorem getPassword_reads:
  assumes "\<forall>j < n. is_newline (input j)"
    and "\<forall>j < length pw. input (n + j) = pw ! j \<and> \<not> is_newline (pw ! j)" "pw \<noteq> []"
    and "int (length pw) < outSize \<Longrightarrow> is_newline (input (n + length pw))"
    and "0 < outSize" "outSize \<le> int (length out)"
  shows "getPassword input out outSize echo = Some (Inr
    (if int (length pw) < outSize then (int (length pw), pw @ drop (length pw) out, True, Suc (n + length pw))
     else (0, take (nat outSize) pw @ drop (nat outSize) out, True, n + nat outSize)))"
proof -
  let ?pw = "take (nat outSize) pw"
  have start: "\<exists>e. getPassword input out outSize echo = password_loop outSize input n False 0 out e"
    using password_newlines [of n input 0 outSize out echo] assms(1,5) by (cases n) (auto simp: getPassword_def)
  have "password_loop outSize input n False 0 out e =
      password_loop outSize input (n + length ?pw) True (length ?pw) (?pw @ drop (length ?pw) out) True" for e
    using password_typed [of ?pw input n 0 outSize out False e] assms(2,3,5,6) by simp
  with start have run: "getPassword input out outSize echo =
      password_loop outSize input (n + length ?pw) True (length ?pw) (?pw @ drop (length ?pw) out) True" by auto
  show ?thesis
  proof (cases "int (length pw) < outSize")
    case True
    then have "?pw = pw" by simp
    moreover have "password_loop outSize input (n + length pw) True (length pw) out' True =
        Some (Inr (int (length pw), out', True, Suc (n + length pw)))" for out'
      using True assms(4) by (subst password_loop.simps) simp
    ultimately show ?thesis using run True by simp
  next
    case False
    then have "length ?pw = nat outSize" by simp
    moreover have "password_loop outSize input k True (nat outSize) out' True = Some (Inr (0, out', True, k))" for k out'
      using assms(5) by (subst password_loop.simps) simp
    ultimately show ?thesis using run False by simp
  qed
qed

theorem getPassword_reads_witness:
  "getPassword (\<lambda>k. if k = 0 then CHR 0x0A else if k < 4 then CHR ''x'' else CHR 0x0D) (replicate 9 NUL) 9 True =
    Some (Inr (3, ''xxx'' @ replicate 6 NUL, True, 5))"
  using getPassword_reads [of 1 "\<lambda>k. if k = 0 then CHR 0x0A else if k < 4 then CHR ''x'' else CHR 0x0D" "''xxx''" 9
      "replicate 9 NUL" True]
  by (simp add: is_newline_def less_Suc_eq nth_Cons' numeral_eq_Suc)

text \<open>As long as only empty lines are typed, the function does not return.\<close>

lemma getPassword_waits:
  assumes "\<forall>j. is_newline (input j)" "0 < outSize"
  shows "getPassword input out outSize echo = None"
proof -
  let ?P = "\<lambda>s f (k :: nat) b i (o' :: string) (e :: bool) (r :: (int \<times> string \<times> bool \<times> nat) checked).
    \<not> (s = outSize \<and> f = input \<and> \<not> b \<and> i = (0 :: nat))"
  have "?P s f k b i o' e r" if "password_loop s f k b i o' e = Some r" for s f k b i o' e r
  proof (rule password_loop.raw_induct [where P = ?P, OF _ that])
    fix loop s f k b i o' e r
    assume IH: "\<And>s f k b i o' e r. loop s f k b i o' e = Some r \<Longrightarrow> ?P s f k b i o' e r"
      and step: "(if int i < s then let p = f k; is_begin = b \<or> \<not> is_newline p in
          if \<not> is_begin then loop s f (Suc k) is_begin i o' False
          else if is_newline p then Some (Inr (int i, o', True, Suc k))
          else if length o' \<le> i then Some (Inl OutOfBounds)
          else loop s f (Suc k) is_begin (Suc i) (o'[i := p]) True
        else Some (Inr (0, o', e, k))) = Some r"
    show "?P s f k b i o' e r"
    proof
      assume a: "s = outSize \<and> f = input \<and> \<not> b \<and> i = 0"
      with assms step have "loop s f (Suc k) False i o' False = Some r" by simp
      with IH a show False by blast
    qed
  qed
  then show ?thesis unfolding getPassword_def by (metis not_Some_eq)
qed

section \<open>What is converted\<close>

text \<open>
  What a conversion between two character sets promises: a handle that is not 0, and the text in
  the other set, if the buffer is large enough.
\<close>

locale charsets =
  fixes ic :: iconv_api and gbk :: "string \<Rightarrow> string option"
  assumes opens: "iconv_open ic ''gbk'' ''utf-8'' \<noteq> 0" "iconv_open ic ''utf-8'' ''gbk'' \<noteq> 0"
    and to_gbk: "gbk u = Some g \<Longrightarrow> length g \<le> n \<Longrightarrow> snd (iconv_run ic (iconv_open ic ''gbk'' ''utf-8'') u n) = g"
    and from_gbk: "gbk u = Some g \<Longrightarrow> length u \<le> n \<Longrightarrow> snd (iconv_run ic (iconv_open ic ''utf-8'' ''gbk'') g n) = u"
    and no_NUL: "gbk u = Some g \<Longrightarrow> NUL \<in> set g \<longleftrightarrow> NUL \<in> set u"
begin

lemma converted:
  assumes "gbk u = Some g" "length g \<le> 1024" "length u \<le> 1024" "NUL \<notin> set u"
  shows "CData_utf8ConvGbk ic UTF82GBK (CData_chars (Some (string_c_str u))) = Inr g"
    "CData_utf8ConvGbk ic GBK2UTF8 (CData_chars (Some (string_c_str g))) = Inr u"
proof -
  have len: "sint (word_of_nat (length s) :: int32) = int (length s)" if "length s \<le> 1024" for s :: string
    using that by (simp add: signed_of_nat signed_take_bit_int_eq_self)
  have cut: "takeWhile (\<lambda>c. c \<noteq> NUL) (s @ replicate m NUL) = s" if "NUL \<notin> set s" for s m
    using that by (induction s) (cases m, auto)
  have chars: "chars_of (CData_chars (Some (string_c_str s))) = Inr s" if "NUL \<notin> set s" for s
    using cut [OF that, of 1] by (simp add: chars_of_def CData_chars_def string_c_str_def c_str_def)
  have g: "NUL \<notin> set g" using assms(1,4) no_NUL by blast
  show "CData_utf8ConvGbk ic UTF82GBK (CData_chars (Some (string_c_str u))) = Inr g"
    using chars [OF assms(4)] len [OF assms(3)] to_gbk [OF assms(1,2)] opens(1) cut [OF g]
    by (simp add: CData_utf8ConvGbk_def convert_def case_prod_beta Let_def)
  show "CData_utf8ConvGbk ic GBK2UTF8 (CData_chars (Some (string_c_str g))) = Inr u"
    using chars [OF g] len [OF assms(2)] from_gbk [OF assms(1,3)] opens(2) cut [OF assms(4)]
    by (simp add: CData_utf8ConvGbk_def convert_def case_prod_beta Let_def)
qed

end

text \<open>A library that knows the characters the two sets share.\<close>

definition ascii_iconv :: iconv_api where
  "ascii_iconv = \<lparr>iconv_open = \<lambda>_ _. 1, iconv_run = \<lambda>_ s n. (0, take n s)\<rparr>"

interpretation ascii: charsets ascii_iconv "\<lambda>s. if \<forall>c \<in> set s. of_char c < (128 :: nat) then Some s else None"
  by unfold_locales (auto simp: ascii_iconv_def split: if_splits)

lemma ascii_converted:
  "CData_utf8ConvGbk ascii_iconv UTF82GBK (CData_chars (Some (string_c_str ''name''))) = Inr ''name''"
  by (rule ascii.converted(1)) (simp_all add: NUL_def)

text \<open>A conversion the library does not have is not noticed: the handle is -1, and the code looks for 0.\<close>

lemma missing_conversion_is_used:
  assumes "iconv_open ic ''gbk'' ''utf-8'' = - 1"
  shows "convert ic ''utf-8'' ''gbk'' s out =
    (let (res, bytes) = iconv_run ic (- 1) s (length out) in (res, bytes @ replicate (length out - length bytes) NUL))"
  using assms by (simp add: convert_def case_prod_beta Let_def)

end
