(* ===== verification/Protocol.thy ===== *)
theory Protocol
  imports Gateway_Props Log_Props ConfigClient_Props
begin

text \<open>
  The types of the messages. \<open>cmsgtype.proto\<close> says beside every message type which message its body
  is; a receiver parses the body by the type alone. \<open>carries\<close> is that typing, and the theorems
  say that what the services answer and the clients ask is well typed.
\<close>

section \<open>The typing\<close>

inductive carries :: "int32 \<Rightarrow> string \<Rightarrow> bool" where
  login_req: "carries MSG_LOGIN_REQ (CLoginReq_Serialize m)"
| login_res: "carries MSG_LOGIN_RES (CLoginRes_Serialize m')"
| dir_req: "carries MSG_DIR_REQ (CDirReq_Serialize d)"
| dir_res: "carries MSG_DIR_RES (CDirRes_Serialize d')"
| register_req: "carries MSG_REGISTER_REQ (CRegisterReq_Serialize r)"
| register_res: "carries MSG_REGISTER_RES (CMessageRes_Serialize a)"
| get_service_req: "carries MSG_GET_SERVICE_REQ (CGetServiceReq_Serialize g)"
| get_service_res: "carries MSG_GET_SERVICE_RES (CServiceMap_Serialize order s)"
| upload_config_req: "carries MSG_UPLOAD_CONFIG_REQ (CConfig_Serialize c)"
| upload_config_res: "carries MSG_UPLOAD_CONFIG_RES (CMessageRes_Serialize a)"
| download_config_req: "carries MSG_DOWNLOAD_CONFIG_REQ (CDownloadconfigReq_Serialize q)"
| download_config_res: "carries MSG_DOWNLOAD_CONFIG_RES (CConfig_Serialize c)"
| download_all_config_req: "carries MSG_DOWNLOAD_ALL_CONFIG_REQ (CDownloadAllConfigReq_Serialize p)"
| download_all_config_res: "carries MSG_DOWNLOAD_ALL_CONFIG_RES (CConfigList_Serialize l)"
| delete_config_req: "carries MSG_DELETE_CONFIG_REQ (CDownloadconfigReq_Serialize q)"
| delete_config_res: "carries MSG_DELETE_CONFIG_RES (CMessageRes_Serialize a)"
| add_user_req: "carries MSG_ADD_USER_REQ (CAddUserReq_Serialize u)"
| add_user_res: "carries MSG_ADD_USER_RES (CMessageRes_Serialize a)"
| add_log_req: "carries MSG_ADD_LOG_REQ (CAddLogReq_Serialize e)"
| heart_req: "carries MSG_HEART_REQ (CMsgHeart_Serialize h)"

lemma carries_nonzero: "carries type payload \<Longrightarrow> type \<noteq> 0"
  by (erule carries.cases) (simp_all add: msg_types)

text \<open>From one state of a connection to another, only well-typed frames were sent.\<close>

definition sends_typed :: "('b \<Rightarrow> string) \<Rightarrow> ('b, 'a) CMsgEvent_scheme \<Rightarrow> ('b, 'a) CMsgEvent_scheme \<Rightarrow> bool" where
  "sends_typed outb t t' \<longleftrightarrow> m_bev t' \<noteq> None \<and>
     (\<exists>ms. sent outb t' = sent outb t @ concat (map frame ms) \<and> (\<forall>(head, payload) \<in> set ms. carries (msg_type head) payload))"

lemma sends_typed_none: "m_bev t \<noteq> None \<Longrightarrow> m_bev t' = m_bev t \<Longrightarrow> sends_typed outb t t'"
  unfolding sends_typed_def sent_def by (intro conjI exI [of _ "[]"]) simp_all

lemma sends_typed_start: "sent outb t = sent outb s \<Longrightarrow> sends_typed outb t t' \<Longrightarrow> sends_typed outb s t'"
  by (simp add: sends_typed_def)

lemma sends_typed_trans:
  assumes "sends_typed outb t t'" "sends_typed outb t' t''"
  shows "sends_typed outb t t''"
proof -
  obtain ms ms' where "sent outb t' = sent outb t @ concat (map frame ms)" "\<forall>(head, payload) \<in> set ms. carries (msg_type head) payload"
    "sent outb t'' = sent outb t' @ concat (map frame ms')" "\<forall>(head, payload) \<in> set ms'. carries (msg_type head) payload"
    using assms unfolding sends_typed_def by blast
  then show ?thesis using assms(2) unfolding sends_typed_def by (intro conjI exI [of _ "ms @ ms'"]) auto
qed

context channel
begin

text \<open>A message is written whole, also when its body is empty.\<close>

lemma sends_message:
  assumes "\<And>b d. fst (bufferevent_write (p_libevent P) b d) = 0" "m_bev t \<noteq> None" "carries (msg_type h) payload"
  shows "sends_typed outb t (snd (snd (sendMsg_message P (Some h) (Some payload) t)))"
proof -
  note nz = carries_nonzero [OF assms(3)]
  have "\<exists>t' r h'. sendMsg_message P (Some h) (Some payload) t = (r, h', t') \<and>
      sent outb t' = sent outb t @ frame (h\<lparr>msg_size := word_of_nat (length payload)\<rparr>, payload)"
  proof (cases "payload = []")
    case True
    have "CMsgHead_Serialize (h\<lparr>msg_size := 0\<rparr>) \<noteq> []"
      using nz by (simp add: CMsgHead_Serialize_def WriteEnumToArray_def WriteTagToArray_def)
    from sendMsg_empty [OF assms(1,2) this] True show ?thesis by auto
  next
    case False
    from sendMsg_message_succeeds [OF assms(1,2) False nz] show ?thesis by blast
  qed
  then obtain t' where t': "snd (snd (sendMsg_message P (Some h) (Some payload) t)) = t'"
    "sent outb t' = sent outb t @ frame (h\<lparr>msg_size := word_of_nat (length payload)\<rparr>, payload)" by auto
  have "only_bev t t'"
    using sendMsg_bev [of t P "Some h"] t'(1) by (auto simp: sendMsg_message_def)
  then have "m_bev t' \<noteq> None" using assms(2) unfolding only_bev_def by (elim exE conjE) simp
  then show ?thesis unfolding sends_typed_def t'(1)
    by (intro conjI exI [of _ "[(h\<lparr>msg_size := word_of_nat (length payload)\<rparr>, payload)]"]) (use t'(2) assms(3) in simp_all)
qed

lemma sends_type:
  assumes "\<And>b d. fst (bufferevent_write (p_libevent P) b d) = 0" "m_bev t \<noteq> None" "carries type payload"
  shows "sends_typed outb t (snd (sendMsg_type P type (Some payload) t))"
  using sends_message [OF assms(1,2), of "CMsgHead_Clear\<lparr>msg_type := type\<rparr>" payload] assms(3)
  by (simp add: sendMsg_type_def case_prod_beta)

lemmas sends_reply = sends_type [folded reply_def]

end

section \<open>Services\<close>

text \<open>
  What a connection of a service does with a message: one step for each service, each with any
  state of its own. The deletion of a configuration that fails is left out: it is answered
  under another type (\<open>failed_delete_answers_download\<close>).
\<close>

definition delete_fails :: "pb_rt \<Rightarrow> 'm mysql_api \<Rightarrow> CMsgHead \<Rightarrow> CMsg \<Rightarrow> 'm ConfigDAO \<Rightarrow> bool" where
  "delete_fails rt api head msg dao \<longleftrightarrow> msg_type head = MSG_DELETE_CONFIG_REQ \<and>
     (case CDownloadconfigReq_ParseFromArray rt (msg_bytes msg) of None \<Rightarrow> False
      | Some req \<Rightarrow> \<not> fst (ConfigDAO_deleteConfig api (Some (as_c_str (CDownloadconfigReq_serviceIp req)))
          (sint (CDownloadconfigReq_servicePort req)) dao))"

inductive service_step ::
    "'b platform \<Rightarrow> 'm mysql_api \<Rightarrow> 'n mysql_api \<Rightarrow> 'k mysql_api \<Rightarrow>
     ('b, 'a) CMsgEvent_scheme \<Rightarrow> ('b, 'a) CMsgEvent_scheme \<Rightarrow> bool"
  for P :: "'b platform" and api :: "'m mysql_api" and api2 :: "'n mysql_api" and api3 :: "'k mysql_api" where
  registering: "register_dispatch P order head msg m t = Inr (m', t') \<Longrightarrow> service_step P api api2 api3 t t'"
| configuring: "config_dispatch P api half head msg dao t = Inr (dao', t') \<Longrightarrow> \<not> delete_fails (p_protobuf P) api head msg dao \<Longrightarrow>
    service_step P api api2 api3 t t'"
| authenticating: "auth_dispatch P api2 now head msg c t = Inr (head', c', t') \<Longrightarrow> service_step P api api2 api3 t t'"
| listing_dirs: "dir_dispatch P head msg count t = Inr (head', count', t') \<Longrightarrow> service_step P api api2 api3 t t'"
| storing_log: "log_dispatch P api3 half' head msg d t = Inr (d', t') \<Longrightarrow> service_step P api api2 api3 t t'"

lemma sends_typed_quiet:
  assumes "m_bev t \<noteq> None"
  shows "sends_typed outb t t" "sends_typed outb t (CMsgEvent_clear t)"
  by (rule sends_typed_none [OF assms], simp add: CMsgEvent_clear_def)+

context channel
begin

lemma register_typed:
  assumes "\<And>b d. fst (bufferevent_write (p_libevent P) b d) = 0" "m_bev t \<noteq> None"
    and "register_dispatch P order head msg m t = Inr (m', t')"
  shows "sends_typed outb t t'"
proof -
  note s = sends_type [OF assms(1,2)]
  have r: "sends_typed outb t (register_res P code m t)" for code m
    unfolding register_res_def by (rule s) (rule carries.register_res)
  show ?thesis
    using assms(3) assms(2)
    by (auto simp: register_dispatch_def registerReq_def getServiceReq_def heartRes_def Let_def bind_ub_Inr_iff case_prod_beta
        intro!: r s carries.get_service_res sends_typed_quiet split: option.splits register_handler.splits if_splits)
qed

lemma config_typed:
  assumes "\<And>b d. fst (bufferevent_write (p_libevent P) b d) = 0" "m_bev t \<noteq> None"
    and "config_dispatch P api half head msg dao t = Inr (dao', t')" "\<not> delete_fails (p_protobuf P) api head msg dao"
  shows "sends_typed outb t t'"
proof -
  note s = sends_reply [OF assms(1,2)]
  have h: "map_of config_regMsgCallback type = Some DeleteConfig \<Longrightarrow> type = MSG_DELETE_CONFIG_REQ" for type
    by (auto simp: config_regMsgCallback_def split: if_splits)
  show ?thesis
  proof (cases "map_of config_regMsgCallback (msg_type head)")
    case None
    with assms(2,3) show ?thesis by (auto simp: config_dispatch_def intro: sends_typed_quiet)
  next
    case (Some handler)
    show ?thesis
    proof (cases handler)
      case UploadConfig
      with Some assms(2,3) show ?thesis
        by (auto simp: config_dispatch_def CConfigHandle_uploadConfig_def bind_ub_Inr_iff case_prod_beta
            intro!: s carries.upload_config_res split: option.splits if_splits)
    next
      case DownloadConfig
      with Some assms(2,3) show ?thesis
        by (auto simp: config_dispatch_def CConfigHandle_downloadConfig_def bind_ub_Inr_iff case_prod_beta
            intro!: s carries.download_config_res sends_typed_quiet split: option.splits if_splits)
    next
      case DownloadAllConfig
      with Some assms(2,3) show ?thesis
        by (auto simp: config_dispatch_def CConfigHandle_downloadAllConfig_def bind_ub_Inr_iff case_prod_beta
            intro!: s carries.download_all_config_res sends_typed_quiet split: option.splits if_splits)
    next
      case DeleteConfig
      with Some h assms(2-4) show ?thesis
        by (auto simp: config_dispatch_def CConfigHandle_deleteConfig_def delete_fails_def case_prod_beta
            intro!: s carries.delete_config_res sends_typed_quiet split: option.splits if_splits)
    qed
  qed
qed

lemma auth_typed:
  assumes "\<And>b d. fst (bufferevent_write (p_libevent P) b d) = 0" "m_bev t \<noteq> None"
    and "auth_dispatch P api now head msg c t = Inr (head', c', t')"
  shows "sends_typed outb t t'"
proof -
  have l: "sends_typed outb t (snd (snd (sendMsg_message P (Some (h\<lparr>msg_type := MSG_LOGIN_RES\<rparr>)) (Some (CLoginRes_Serialize res)) t)))" for h res
    by (rule sends_message [OF assms(1,2)]) (simp add: carries.login_res)
  show ?thesis
    using assms(2,3)
    by (auto simp: auth_dispatch_def CAuthHandle_loginReq_def CAuthHandle_addUserReq_def Let_def bind_ub_Inr_iff case_prod_beta
        intro!: l sends_reply [OF assms(1,2)] carries.add_user_res sends_typed_quiet split: option.splits auth_handler.splits if_splits)
qed

lemma dir_typed:
  assumes "\<And>b d. fst (bufferevent_write (p_libevent P) b d) = 0" "m_bev t \<noteq> None"
    and "dir_dispatch P head msg count t = Inr (head', count', t')"
  shows "sends_typed outb t t'"
proof -
  have l: "sends_typed outb t (snd (snd (sendMsg_message P (Some (h\<lparr>msg_type := MSG_DIR_RES\<rparr>)) (Some (CDirRes_Serialize res)) t)))" for h res
    by (rule sends_message [OF assms(1,2)]) (simp add: carries.dir_res)
  show ?thesis
    using assms(2,3)
    by (auto simp: dir_dispatch_def dirReqCb_def Let_def bind_ub_Inr_iff case_prod_beta
        intro!: l sends_typed_quiet split: option.splits dir_handler.splits if_splits)
qed

lemma log_typed:
  assumes "m_bev t \<noteq> None" "log_dispatch P api half head msg c t = Inr (c', t')"
  shows "sends_typed outb t t'"
  using assms by (auto simp: log_dispatch_def bind_ub_Inr_iff intro!: sends_typed_quiet split: option.splits log_handler.splits)

lemma step_typed:
  assumes "\<And>b d. fst (bufferevent_write (p_libevent P) b d) = 0" "m_bev t \<noteq> None" "service_step P api api2 api3 t t'"
  shows "sends_typed outb t t'"
  using assms(3)
proof cases
  case registering
  then show ?thesis using register_typed [OF assms(1,2)] by blast
next
  case configuring
  then show ?thesis using config_typed [OF assms(1,2)] by blast
next
  case authenticating
  then show ?thesis using auth_typed [OF assms(1,2)] by blast
next
  case listing_dirs
  then show ?thesis using dir_typed [OF assms(1,2)] by blast
next
  case storing_log
  then show ?thesis using log_typed [OF assms(2)] by blast
qed

lemma steps_typed:
  assumes "\<And>b d. fst (bufferevent_write (p_libevent P) b d) = 0" "m_bev t \<noteq> None" "(service_step P api api2 api3)\<^sup>*\<^sup>* t t'"
  shows "sends_typed outb t t'"
  using assms(3)
proof (induction rule: rtranclp_induct)
  case base
  then show ?case by (rule sends_typed_none [OF assms(2) refl])
next
  case (step t1 t2)
  then have "m_bev t1 \<noteq> None" by (simp add: sends_typed_def)
  from sends_typed_trans [OF step.IH step_typed [OF assms(1) this step.hyps(2)]] show ?case .
qed

section \<open>Clients\<close>

lemma log_queue_typed:
  assumes "\<And>b d. fst (bufferevent_write (p_libevent P) b d) = 0" "m_bev k \<noteq> None"
  shows "sends_typed outb k (CLogClient_timerCb P k)"
  using assms(2)
proof (induction "length (logs k)" arbitrary: k)
  case 0
  then show ?case by (subst CLogClient_timerCb.simps) (simp add: sends_typed_quiet)
next
  case (Suc n)
  obtain log rest where l: "logs k = log # rest" using Suc.hyps(2) by (cases "logs k") auto
  let ?k = "snd (sendMsg_type P MSG_ADD_LOG_REQ (Some (CAddLogReq_Serialize log)) (k\<lparr>logs := rest\<rparr>))"
  have s: "sends_typed outb k ?k"
    by (rule sends_typed_start [OF _ sends_type [OF assms(1) _ carries.add_log_req]]) (use Suc.prems in \<open>simp_all add: sent_def\<close>)
  have "logs ?k = rest" by (simp add: logs_only_bev [OF sendMsg_type_bev])
  with Suc.hyps l s have "sends_typed outb ?k (CLogClient_timerCb P ?k)" by (intro Suc.hyps(1)) (auto simp: sends_typed_def)
  with s l show ?case by (subst CLogClient_timerCb.simps) (auto intro: sends_typed_trans)
qed

end

section \<open>Properties\<close>

text \<open>
  C11. The services answer by the types of the protocol. Whatever messages the connections of the
  register centre, the configuration centre, the login, directory and log services handle,
  in any order and with any state of the services, what they send is a sequence of frames whose
  bodies are of the message that the type in the head stands for; only a configuration that
  cannot be deleted is answered otherwise.
\<close>

theorem services_are_well_typed:
  assumes "channel P inb outb" "\<And>b d. fst (bufferevent_write (p_libevent P) b d) = 0" "m_bev t \<noteq> None"
    and "(service_step P api api2 api3)\<^sup>*\<^sup>* t t'"
  shows "\<exists>ms. sent outb t' = sent outb t @ concat (map frame ms) \<and> (\<forall>(head, payload) \<in> set ms. carries (msg_type head) payload)"
  using channel.steps_typed [OF assms] by (simp add: sends_typed_def)

theorem services_are_well_typed_witness:
  "\<exists>m' t' ms. register_dispatch ref_platform key_order (fst (typed MSG_GET_SERVICE_REQ [])) CMsg_new None (sample_event []) = Inr (m', t') \<and>
    sent outbuf t' = concat (map frame ms) \<and> (\<forall>(head, payload) \<in> set ms. carries (msg_type head) payload)"
proof -
  have d: "register_dispatch ref_platform key_order (fst (typed MSG_GET_SERVICE_REQ [])) CMsg_new None (sample_event []) =
      Inr (getServiceReq ref_platform key_order CMsg_new None (sample_event []))"
    by (simp add: register_dispatch_def register_regMsgCallback_def msg_types)
  obtain m' t' where g: "getServiceReq ref_platform key_order CMsg_new None (sample_event []) = (m', t')" by fastforce
  have "register_dispatch ref_platform key_order (fst (typed MSG_GET_SERVICE_REQ [])) CMsg_new None (sample_event []) = Inr (m', t')"
    by (simp only: d g)
  then have "service_step ref_platform memory_api auth_api log_api (sample_event []) t'"
    by (rule service_step.registering)
  then have steps: "(service_step ref_platform memory_api auth_api log_api)\<^sup>*\<^sup>* (sample_event []) t'" by blast
  have "fst (bufferevent_write (p_libevent ref_platform) b d) = 0" "m_bev (sample_event []) \<noteq> None" for b d
    by (simp_all add: ref_libevent_write)
  from services_are_well_typed [OF ref_channel.channel_axioms this steps] d g show ?thesis
    by (auto simp: sent_def contents_def)
qed

text \<open>
  The clients ask by the types of the protocol. Every request of the register client, the
  configuration client, the login client and the log client, and what their timers send, is a
  sequence of frames with a body of the message that the type in the head stands for.
\<close>

theorem clients_are_well_typed:
  assumes "channel P inb outb" "\<And>b d. fst (bufferevent_write (p_libevent P) b d) = 0"
    and "m_bev r \<noteq> None" "m_bev k \<noteq> None" "m_bev a \<noteq> None" "m_bev l \<noteq> None"
    and "register_connetedCb P r = Inr r1" "CAuthClient_LoginReq P B hash username password a = Inr a1"
    and "CAuthClient_addUserReq P B hash user a = Inr a2" "CConfigClient_timerCb P (\<lambda>k. k) k = Inr k1"
  shows "sends_typed outb r r1 \<and> sends_typed outb r (client_getServiceReq P name r) \<and>
    sends_typed outb r (snd (register_timerCb P s r)) \<and>
    sends_typed outb k k1 \<and> sends_typed outb k (CConfigClient_downloadConfig P ip port k) \<and>
    sends_typed outb k (CConfigClient_uploadConfig P conf k) \<and> sends_typed outb k (CConfigClient_deleteConfig P ip port k) \<and>
    sends_typed outb a a1 \<and> sends_typed outb a a2 \<and> sends_typed outb l (CLogClient_timerCb P l)"
proof (intro conjI)
  note s = channel.sends_type [OF assms(1,2)]
  have download: "sends_typed outb k (CConfigClient_downloadConfig P ip port k)" for ip port
    using assms(4) by (auto simp: CConfigClient_downloadConfig_def Let_def intro!: s carries.download_config_req sends_typed_quiet split: option.split)
  show "sends_typed outb r r1"
    using assms(3,7) by (auto simp: register_connetedCb_def Let_def bind_ub_Inr_iff intro!: s carries.register_req)
  show "sends_typed outb r (client_getServiceReq P name r)"
    using assms(3) by (auto simp: client_getServiceReq_def Let_def intro!: s carries.get_service_req)
  show "sends_typed outb r (snd (register_timerCb P s r))"
    using assms(3) by (auto simp: register_timerCb_def Let_def intro!: s carries.heart_req)
  show "sends_typed outb k (CConfigClient_downloadConfig P ip port k)" by (rule download)
  show "sends_typed outb k k1"
    using assms(4,10) by (auto simp: CConfigClient_timerCb_def Let_def bind_ub_Inr_iff intro!: download sends_typed_quiet split: if_splits)
  show "sends_typed outb k (CConfigClient_uploadConfig P conf k)"
    using assms(4) by (cases conf) (auto simp: CConfigClient_uploadConfig_def sendMsg_type_def [of _ _ None] intro!: s carries.upload_config_req sends_typed_quiet)
  show "sends_typed outb k (CConfigClient_deleteConfig P ip port k)"
    using assms(4) by (auto simp: CConfigClient_deleteConfig_def Let_def intro!: s carries.delete_config_req sends_typed_quiet split: option.split)
  show "sends_typed outb a a1"
  proof -
    obtain req and c where "a1 = snd (sendMsg_type P MSG_LOGIN_REQ (Some (CLoginReq_Serialize req)) (a\<lparr>loginMap := c\<rparr>))"
      using assms(8) by (auto simp: CAuthClient_LoginReq_def Let_def bind_ub_Inr_iff)
    moreover have "sends_typed outb (a\<lparr>loginMap := c\<rparr>) (snd (sendMsg_type P MSG_LOGIN_REQ (Some (CLoginReq_Serialize req)) (a\<lparr>loginMap := c\<rparr>)))"
      by (rule s) (use assms(5) in \<open>simp_all add: carries.login_req\<close>)
    moreover have "sent outb (a\<lparr>loginMap := c\<rparr>) = sent outb a" by (simp add: sent_def)
    ultimately show ?thesis using sends_typed_start by blast
  qed
  show "sends_typed outb a a2"
    using assms(5,9) by (auto simp: CAuthClient_addUserReq_def Let_def bind_ub_Inr_iff intro!: s carries.add_user_req sends_typed_quiet split: option.splits)
  show "sends_typed outb l (CLogClient_timerCb P l)" by (rule channel.log_queue_typed [OF assms(1,2,6)])
qed

theorem clients_are_well_typed_witness:
  "\<exists>r1 a1. register_connetedCb ref_platform sample_register_client = Inr r1 \<and> sends_typed outbuf sample_register_client r1 \<and>
    CAuthClient_LoginReq ref_platform sample_bios sample_md5 ''ann'' ''pw'' sample_auth_client = Inr a1 \<and>
    sends_typed outbuf sample_auth_client a1 \<and>
    sends_typed outbuf (sample_log_client [sample_log ''x'']) (CLogClient_timerCb ref_platform (sample_log_client [sample_log ''x'']))"
proof -
  have h: "fst (bufferevent_write (p_libevent ref_platform) b d) = 0" "m_bev sample_register_client \<noteq> None"
    "m_bev sample_config_client \<noteq> None" "m_bev sample_auth_client \<noteq> None" "m_bev (sample_log_client [sample_log ''x'']) \<noteq> None" for b d
    by (simp_all add: ref_libevent_write sample_auth_client_def CServiceClient.defs CMsgEvent.defs CAuthClient.defs)
  obtain r1 where r: "register_connetedCb ref_platform sample_register_client = Inr r1" by (simp add: register_connetedCb_def)
  obtain a1 where a: "CAuthClient_LoginReq ref_platform sample_bios sample_md5 ''ann'' ''pw'' sample_auth_client = Inr a1"
    by (rule LoginReq_sends [OF ref_channel.channel_axioms h(1,4) bios.base64_bio_axioms, where username = "''ann''" and password = "''pw''" and hash = sample_md5])
      (simp_all add: length_sample_md5 sample_bios_def)
  have u: "CAuthClient_addUserReq ref_platform sample_bios sample_md5 None sample_auth_client = Inr sample_auth_client"
    by (simp add: CAuthClient_addUserReq_def)
  obtain k1 where k: "CConfigClient_timerCb ref_platform (\<lambda>k. k) sample_config_client = Inr k1"
    by (cases "0 < cf_localPort sample_config_client") (simp_all add: CConfigClient_timerCb_def Let_def)
  show ?thesis
    using clients_are_well_typed [OF ref_channel.channel_axioms h(1-5) r a u k] r a by blast
qed

end
