(* ===== verification/EditForm.thy ===== *)
theory EditForm
  imports ConfigClient Auth Proxy
begin

text \<open>
  The dialog of the configuration editor, \<open>configgui/configedit.cpp\<close>: it edits a configuration
  through a form generated from its message type. Qt is not part of the repository: its widgets, form layout and table are the records
  \<open>qt_widgets\<close>, \<open>qt_form\<close> and \<open>qt_table\<close>, protobuf's reflection is \<open>reflection_api\<close>. A
  function here gives \<open>None\<close> where protobuf ends the process.
\<close>

section \<open>Qt and reflection\<close>

text \<open>
  Widgets as values; the \<open>is_\<close> functions are \<open>dynamic_cast\<close>. The texts are UTF-8, a \<open>double\<close> is of
  type \<open>'d\<close>. \<open>addItem\<close> is given a \<open>bool\<close> or an \<open>int\<close> as the data of the item.
\<close>

record ('w, 'd) qt_widgets =
  new_QSpinBox :: 'w
  is_QSpinBox :: "'w \<Rightarrow> bool"
  spin_setMaximum :: "int32 \<Rightarrow> 'w \<Rightarrow> 'w"
  spin_setValue :: "int32 \<Rightarrow> 'w \<Rightarrow> 'w"
  spin_value :: "'w \<Rightarrow> int32"
  new_QDoubleSpinBox :: 'w
  is_QDoubleSpinBox :: "'w \<Rightarrow> bool"
  dspin_setMaximum :: "'d \<Rightarrow> 'w \<Rightarrow> 'w"
  dspin_setValue :: "'d \<Rightarrow> 'w \<Rightarrow> 'w"
  dspin_value :: "'w \<Rightarrow> 'd"
  new_QLineEdit :: 'w
  is_QLineEdit :: "'w \<Rightarrow> bool"
  line_setText :: "string \<Rightarrow> 'w \<Rightarrow> 'w"
  line_text :: "'w \<Rightarrow> string"
  new_QComboBox :: 'w
  is_QComboBox :: "'w \<Rightarrow> bool"
  combo_addItem :: "string \<Rightarrow> bool + int32 \<Rightarrow> 'w \<Rightarrow> 'w"
  combo_setCurrentIndex :: "int \<Rightarrow> 'w \<Rightarrow> 'w"
  combo_findData :: "int32 \<Rightarrow> 'w \<Rightarrow> int"
  combo_toBool :: "'w \<Rightarrow> bool"
  combo_toInt :: "'w \<Rightarrow> int32"
  edit_setText :: "string \<Rightarrow> 'w \<Rightarrow> 'w"
  edit_toPlainText :: "'w \<Rightarrow> string"

text \<open>
  A \<open>QFormLayout\<close> keeps pointers: a row is added with its label text and the number of a widget
  of the dialog. \<open>form_label\<close> is the text of the label of a row, if it has one that is a
  \<open>QLabel\<close>, \<open>form_field\<close> the widget in its field column.
\<close>

record 'l qt_form =
  form_rowCount :: "'l \<Rightarrow> int"
  form_addRow :: "string \<Rightarrow> nat \<Rightarrow> 'l \<Rightarrow> 'l"
  form_removeRow :: "int \<Rightarrow> 'l \<Rightarrow> 'l"
  form_label :: "'l \<Rightarrow> int \<Rightarrow> string option"
  form_field :: "'l \<Rightarrow> int \<Rightarrow> nat option"

record 't qt_table =
  tbl_rowCount :: "'t \<Rightarrow> int"
  tbl_removeRow :: "int \<Rightarrow> 't \<Rightarrow> 't"
  tbl_setRowCount :: "int \<Rightarrow> 't \<Rightarrow> 't"
  tbl_setItem :: "int \<Rightarrow> int \<Rightarrow> string \<Rightarrow> 't \<Rightarrow> 't"
  tbl_item :: "'t \<Rightarrow> int \<Rightarrow> int \<Rightarrow> string option"
  tbl_currentRow :: "'t \<Rightarrow> int"

datatype field_type = TYPE_INT64 | TYPE_INT32 | TYPE_DOUBLE | TYPE_FLOAT | TYPE_BYTES | TYPE_STRING
  | TYPE_BOOL | TYPE_ENUM | TYPE_OTHER

datatype ('d, 'e) field_value = V_Int64 int64 | V_Int32 int32 | V_Double 'd | V_Float 'e
  | V_String string | V_Bool bool | V_Enum int32

text \<open>
  \<open>rf_Get\<close> stands for \<open>GetInt64\<close>, \<open>GetInt32\<close> and so on, \<open>rf_Set\<close> for the setters: the constructor
  of the value tells which one. Both end the process, \<open>None\<close>, on a field of another type and
  on a repeated field.
\<close>

record ('g, 'f, 'd, 'e) reflection_api = "('g, 'f) message_api" +
  rf_fields :: "'g \<Rightarrow> 'f list"
  rf_name :: "'f \<Rightarrow> string"
  rf_type :: "'f \<Rightarrow> field_type"
  rf_enum_values :: "'f \<Rightarrow> (string \<times> int32) list"
  rf_GetTypeName :: "'g \<Rightarrow> string"
  rf_Get :: "'g \<Rightarrow> 'f \<Rightarrow> ('d, 'e) field_value option"
  rf_Set :: "'g \<Rightarrow> 'f \<Rightarrow> ('d, 'e) field_value \<Rightarrow> 'g option"
  rf_SerializeAsString :: "'g \<Rightarrow> string"

text \<open>The floating point numbers of the compiler.\<close>

record ('d, 'e) floats =
  fl_DBL_MAX :: 'd
  fl_FLT_MAX :: 'e
  fl_widen :: "'e \<Rightarrow> 'd"
  fl_narrow :: "'d \<Rightarrow> 'e"

record ('w, 'l, 'd, 'e, 'g, 'f) desktop =
  dk_widgets :: "('w, 'd) qt_widgets"
  dk_form :: "'l qt_form"
  dk_reflection :: "('g, 'f, 'd, 'e) reflection_api"
  dk_floats :: "('d, 'e) floats"

section \<open>ConfigEdit: the form\<close>

text \<open>
  \<open>ed_widgets\<close> are the widgets made for the fields of the message; the form refers to them. The
  boxes are the texts the user was shown.
\<close>

record ('w, 'l, 'g) ConfigEdit =
  ui_formLayout :: 'l
  ui_typeLineEdit :: 'w
  ui_serviceNameLineEdit :: 'w
  ui_serviceIpLineEdit :: 'w
  ui_servicePortSpinBox :: 'w
  ui_protoTextEdit :: 'w
  ed_widgets :: "'w list"
  configRowCount :: int
  ed_message :: "'g option"
  ed_config :: "CConfig option"
  ed_boxes :: "string list"
  ed_accepted :: bool

text \<open>The constructor, on the widgets that the generated \<open>setupUi\<close> has made.\<close>

definition ConfigEdit_new ::
    "'l qt_form \<Rightarrow> ('w, 'l, 'g) ConfigEdit \<Rightarrow> 'b CConfigClient \<Rightarrow> ('w, 'l, 'g) ConfigEdit \<times> 'b CConfigClient" where
  "ConfigEdit_new L ui c =
     (let e = ui\<lparr>ed_widgets := [], ed_message := None, ed_config := None, ed_boxes := [], ed_accepted := False\<rparr>;
          c = c\<lparr>uploadConfigResCb := True\<rparr>;
          e = e\<lparr>configRowCount := form_rowCount L (ui_formLayout e)\<rparr> in
      (if ed_config e = None then e\<lparr>ed_config := Some CConfig_Clear\<rparr> else e, c))"

definition information :: "string \<Rightarrow> ('w, 'l, 'g) ConfigEdit \<Rightarrow> ('w, 'l, 'g) ConfigEdit" where
  "information t e = e\<lparr>ed_boxes := ed_boxes e @ [t]\<rparr>"

definition ConfigEdit_messageCb :: "bool \<Rightarrow> string \<Rightarrow> ('w, 'l, 'g) ConfigEdit \<Rightarrow> ('w, 'l, 'g) ConfigEdit" where
  "ConfigEdit_messageCb isOk msg e = (if \<not> isOk then information msg e else e\<lparr>ed_accepted := True\<rparr>)"

text \<open>The callback of an upload; \<open>curEdit\<close> is the dialog that is open.\<close>

definition configMessageCb ::
    "bool \<Rightarrow> string \<Rightarrow> ('w, 'l, 'g) ConfigEdit option \<Rightarrow> ('w, 'l, 'g) ConfigEdit option" where
  "configMessageCb isOk msg curEdit = map_option (ConfigEdit_messageCb isOk msg) curEdit"

definition put_row ::
    "'l qt_form \<Rightarrow> string \<Rightarrow> 'w \<Rightarrow> ('w, 'l, 'g) ConfigEdit \<Rightarrow> ('w, 'l, 'g) ConfigEdit" where
  "put_row L name w e = e\<lparr>ed_widgets := ed_widgets e @ [w],
     ui_formLayout := form_addRow L (as_c_str name) (length (ed_widgets e)) (ui_formLayout e)\<rparr>"

definition INT64_MAX :: int64 where "INT64_MAX = 0x7FFFFFFFFFFFFFFF"
definition INT32_MAX :: int32 where "INT32_MAX = 0x7FFFFFFF"

fun add_items :: "('w, 'd) qt_widgets \<Rightarrow> (string \<times> int32) list \<Rightarrow> 'w \<Rightarrow> 'w" where
  "add_items Q [] w = w"
| "add_items Q ((name, val) # vs) w = add_items Q vs (combo_addItem Q (as_c_str name) (Inr val) w)"

text \<open>
  One field of the message: the body of the loop. The conversions of an \<open>int64\<close> to the \<open>int\<close> of
  the spin box are those of the calls.
\<close>

definition init_field ::
    "('w, 'l, 'd, 'e, 'g, 'f) desktop \<Rightarrow> 'g \<Rightarrow> 'f \<Rightarrow> ('w, 'l, 'g) ConfigEdit \<Rightarrow> ('w, 'l, 'g) ConfigEdit option" where
  "init_field D message field e =
     (let Q = dk_widgets D; L = dk_form D; ref = dk_reflection D; F = dk_floats D; name = rf_name ref field in
      case rf_type ref field of
        TYPE_INT64 \<Rightarrow> (case rf_Get ref message field of
          Some (V_Int64 v) \<Rightarrow>
            let w = spin_setMaximum Q (ucast INT64_MAX) (new_QSpinBox Q);
                w = spin_setValue Q (ucast v) w in
            Some (put_row L name w e)
        | _ \<Rightarrow> None)
      | TYPE_INT32 \<Rightarrow> (case rf_Get ref message field of
          Some (V_Int32 v) \<Rightarrow>
            let w = spin_setMaximum Q INT32_MAX (new_QSpinBox Q);
                w = spin_setValue Q v w in
            Some (put_row L name w e)
        | _ \<Rightarrow> None)
      | TYPE_DOUBLE \<Rightarrow> (case rf_Get ref message field of
          Some (V_Double v) \<Rightarrow>
            let w = dspin_setMaximum Q (fl_DBL_MAX F) (new_QDoubleSpinBox Q);
                w = dspin_setValue Q v w in
            Some (put_row L name w e)
        | _ \<Rightarrow> None)
      | TYPE_FLOAT \<Rightarrow> (case rf_Get ref message field of
          Some (V_Float v) \<Rightarrow>
            let w = dspin_setMaximum Q (fl_widen F (fl_FLT_MAX F)) (new_QDoubleSpinBox Q);
                w = dspin_setValue Q (fl_widen F v) w in
            Some (put_row L name w e)
        | _ \<Rightarrow> None)
      | TYPE_OTHER \<Rightarrow> Some e
      | TYPE_BOOL \<Rightarrow> (case rf_Get ref message field of
          Some (V_Bool v) \<Rightarrow>
            let w = combo_addItem Q ''true'' (Inl True) (new_QComboBox Q);
                w = combo_addItem Q ''false'' (Inl False) w;
                w = combo_setCurrentIndex Q (if v then 0 else 1) w in
            Some (put_row L name w e)
        | _ \<Rightarrow> None)
      | TYPE_ENUM \<Rightarrow>
          let w = add_items Q (rf_enum_values ref field) (new_QComboBox Q);
              e = put_row L name w e in
          (case rf_Get ref message field of
            Some (V_Enum v) \<Rightarrow>
              let w = combo_setCurrentIndex Q (combo_findData Q v w) w in
              Some (e\<lparr>ed_widgets := (ed_widgets e)[length (ed_widgets e) - 1 := w]\<rparr>)
          | _ \<Rightarrow> None)
      | _ \<Rightarrow> (case rf_Get ref message field of
          Some (V_String v) \<Rightarrow>
            Some (put_row L name (line_setText Q (as_c_str v) (new_QLineEdit Q)) e)
        | _ \<Rightarrow> None))"

fun init_fields ::
    "('w, 'l, 'd, 'e, 'g, 'f) desktop \<Rightarrow> 'g \<Rightarrow> 'f list \<Rightarrow> ('w, 'l, 'g) ConfigEdit \<Rightarrow> ('w, 'l, 'g) ConfigEdit option" where
  "init_fields D message [] e = Some e"
| "init_fields D message (f # fs) e = Option.bind (init_field D message f e) (init_fields D message fs)"

text \<open>The rows after those of the constructor, removed one by one; the loop tests for inequality.\<close>

partial_function (option) clear_rows :: "'l qt_form \<Rightarrow> int \<Rightarrow> 'l \<Rightarrow> 'l option" where
  "clear_rows L n l = (if form_rowCount L l = n then Some l else clear_rows L n (form_removeRow L n l))"

definition initGui ::
    "('w, 'l, 'd, 'e, 'g, 'f) desktop \<Rightarrow> ('w, 'l, 'g) ConfigEdit \<Rightarrow> ('w, 'l, 'g) ConfigEdit option" where
  "initGui D e =
     (let Q = dk_widgets D; ref = dk_reflection D in
      Option.bind (clear_rows (dk_form D) (configRowCount e) (ui_formLayout e)) (\<lambda>l.
      let e = e\<lparr>ui_formLayout := l\<rparr>;
          e = (case ed_config e of None \<Rightarrow> e
               | Some conf \<Rightarrow> e\<lparr>
                   ui_serviceIpLineEdit := line_setText Q (as_c_str (CConfig_serviceIp conf)) (ui_serviceIpLineEdit e),
                   ui_serviceNameLineEdit := line_setText Q (as_c_str (CConfig_serviceName conf)) (ui_serviceNameLineEdit e),
                   ui_servicePortSpinBox := spin_setValue Q (CConfig_servicePort conf) (ui_servicePortSpinBox e),
                   ui_protoTextEdit := edit_setText Q (as_c_str (CConfig_proto conf)) (ui_protoTextEdit e)\<rparr>) in
      case ed_message e of None \<Rightarrow> Some e
      | Some message \<Rightarrow>
          let e = e\<lparr>ui_typeLineEdit := line_setText Q (as_c_str (rf_GetTypeName ref message)) (ui_typeLineEdit e)\<rparr> in
          init_fields D message (rf_fields ref message) e))"

section \<open>ConfigEdit: saving\<close>

text \<open>The value of a widget is put into the message; a widget of another class is skipped.\<close>

definition save_field ::
    "('w, 'l, 'd, 'e, 'g, 'f) desktop \<Rightarrow> 'w \<Rightarrow> 'f \<Rightarrow> 'g \<Rightarrow> 'g option" where
  "save_field D w field message =
     (let Q = dk_widgets D; ref = dk_reflection D; F = dk_floats D in
      case rf_type ref field of
        TYPE_INT64 \<Rightarrow> if \<not> is_QSpinBox Q w then Some message
          else rf_Set ref message field (V_Int64 (scast (spin_value Q w)))
      | TYPE_INT32 \<Rightarrow> if \<not> is_QSpinBox Q w then Some message
          else rf_Set ref message field (V_Int32 (spin_value Q w))
      | TYPE_DOUBLE \<Rightarrow> if \<not> is_QDoubleSpinBox Q w then Some message
          else rf_Set ref message field (V_Double (dspin_value Q w))
      | TYPE_FLOAT \<Rightarrow> if \<not> is_QDoubleSpinBox Q w then Some message
          else rf_Set ref message field (V_Float (fl_narrow F (dspin_value Q w)))
      | TYPE_BOOL \<Rightarrow> if \<not> is_QComboBox Q w then Some message
          else rf_Set ref message field (V_Bool (combo_toBool Q w))
      | TYPE_ENUM \<Rightarrow> if \<not> is_QComboBox Q w then Some message
          else rf_Set ref message field (V_Enum (combo_toInt Q w))
      | TYPE_OTHER \<Rightarrow> Some message
      | _ \<Rightarrow> if \<not> is_QLineEdit Q w then Some message
          else rf_Set ref message field (V_String (line_text Q w)))"

definition save_row ::
    "('w, 'l, 'd, 'e, 'g, 'f) desktop \<Rightarrow> ('w, 'l, 'g) ConfigEdit \<Rightarrow> int \<Rightarrow> 'g \<Rightarrow> 'g option" where
  "save_row D e i message =
     (case form_label (dk_form D) (ui_formLayout e) i of None \<Rightarrow> Some message
      | Some fieldName \<Rightarrow>
     (case form_field (dk_form D) (ui_formLayout e) i of None \<Rightarrow> Some message
      | Some fieldEdit \<Rightarrow>
     (case msg_FindFieldByName (dk_reflection D) message fieldName of None \<Rightarrow> Some message
      | Some fieldDesc \<Rightarrow>
          if fieldEdit < length (ed_widgets e) then save_field D (ed_widgets e ! fieldEdit) fieldDesc message
          else Some message)))"

fun save_rows ::
    "('w, 'l, 'd, 'e, 'g, 'f) desktop \<Rightarrow> ('w, 'l, 'g) ConfigEdit \<Rightarrow> int \<Rightarrow> nat \<Rightarrow> 'g \<Rightarrow> 'g option" where
  "save_rows D e i 0 message = Some message"
| "save_rows D e i (Suc n) message = Option.bind (save_row D e i message) (save_rows D e (i + 1) n)"

definition no_proto :: string where "no_proto = ''proto file not set!''"

definition no_value :: string where
  "no_value = ''make sure serviceName/serviceIp/protoType has valid value!''"

definition ConfigEdit_save ::
    "'b platform \<Rightarrow> ('w, 'l, 'd, 'e, 'g, 'f) desktop \<Rightarrow> ('w, 'l, 'g) ConfigEdit \<Rightarrow> 'b CConfigClient \<Rightarrow>
     (('w, 'l, 'g) ConfigEdit \<times> 'b CConfigClient) option" where
  "ConfigEdit_save P D e c =
     (let Q = dk_widgets D in
      case ed_message e of None \<Rightarrow> Some (information no_proto e, c)
      | Some message \<Rightarrow>
          if line_text Q (ui_serviceNameLineEdit e) = [] \<or> line_text Q (ui_serviceIpLineEdit e) = []
             \<or> edit_toPlainText Q (ui_protoTextEdit e) = []
          then Some (information no_value e, c)
          else
            Option.bind (save_rows D e (configRowCount e)
                (nat (form_rowCount (dk_form D) (ui_formLayout e) - configRowCount e)) message) (\<lambda>message.
            let e = e\<lparr>ed_message := Some message\<rparr>;
                config = CConfig_Clear\<lparr>CConfig_serviceName := line_text Q (ui_serviceNameLineEdit e)\<rparr>;
                config = config\<lparr>CConfig_serviceIp := line_text Q (ui_serviceIpLineEdit e)\<rparr>;
                config = config\<lparr>CConfig_servicePort := spin_value Q (ui_servicePortSpinBox e)\<rparr>;
                config = config\<lparr>CConfig_proto := edit_toPlainText Q (ui_protoTextEdit e)\<rparr>;
                msgPb = rf_SerializeAsString (dk_reflection D) message;
                config = config\<lparr>CConfig_privatePb := msgPb\<rparr> in
            Some (e, CConfigClient_uploadConfig P (Some config) c)))"

section \<open>ConfigEdit: loading\<close>

text \<open>
  What the importer says of a file depends on the files of the process: \<open>import_from\<close>. \<open>instance\<close> is
  a new message of a type.
\<close>

record 'g proto_loader =
  pl_import_from :: "(string \<rightharpoonup> string) \<Rightarrow> string \<Rightarrow> file_desc option"
  pl_findType :: "string \<Rightarrow> message_desc option"
  pl_instance :: "message_desc \<Rightarrow> 'g"

text \<open>\<open>filename\<close> is what the user chooses in the file dialog, empty when he cancels it.\<close>

definition ConfigEdit_loadProto ::
    "('w, 'l, 'd, 'e, 'g, 'f) desktop \<Rightarrow> 'g proto_loader \<Rightarrow> string \<Rightarrow> 'g config_state \<Rightarrow>
     ('w, 'l, 'g) ConfigEdit \<Rightarrow> 'b CConfigClient \<Rightarrow> (('w, 'l, 'g) ConfigEdit \<times> 'b CConfigClient) checked option" where
  "ConfigEdit_loadProto D pl filename s e c =
     (let className = line_text (dk_widgets D) (ui_typeLineEdit e) in
      if filename = [] then Some (Inr (e, c))
      else
        bind_call (Some (loadProto (pl_import_from pl (conf_disk s)) (pl_findType pl) filename className [] c))
          (\<lambda>(desc, protoCode, c).
        let e = e\<lparr>ed_message := map_option (pl_instance pl) desc\<rparr> in
        if ed_message e = None then Some (Inr (e, c))
        else case ed_config e of None \<Rightarrow> Some (Inl NullDeref)
        | Some conf \<Rightarrow>
            let e = e\<lparr>ed_config := Some (conf\<lparr>CConfig_proto := protoCode\<rparr>)\<rparr> in
            map_option (\<lambda>e. Inr (e, c)) (initGui D e)))"

text \<open>The hundred calls of \<open>getConfig\<close>; \<open>maps i\<close> is what the map is during call \<open>i\<close>.\<close>

fun config_loop ::
    "(nat \<Rightarrow> nat \<Rightarrow> string \<rightharpoonup> CConfig) \<Rightarrow> string \<Rightarrow> int \<Rightarrow> nat \<Rightarrow> nat \<Rightarrow> CConfig \<Rightarrow> bool \<times> CConfig" where
  "config_loop maps ip port i 0 conf = (False, conf)"
| "config_loop maps ip port i (Suc n) conf =
     (case CConfigClient_getConfig (maps i) ip port conf 100 of
        (True, conf, _) \<Rightarrow> (True, conf)
      | (False, conf, _) \<Rightarrow> config_loop maps ip port (Suc i) n conf)"

definition tmp_proto :: string where "tmp_proto = ''tmp.proto''"

text \<open>\<open>opens\<close>: the file \<open>tmp.proto\<close> can be written.\<close>

definition loadConfig ::
    "'b platform \<Rightarrow> ('w, 'l, 'd, 'e, 'g, 'f) desktop \<Rightarrow> 'g proto_loader \<Rightarrow> bool \<Rightarrow>
     (nat \<Rightarrow> nat \<Rightarrow> string \<rightharpoonup> CConfig) \<Rightarrow> string \<Rightarrow> int \<Rightarrow> 'g config_state \<Rightarrow> ('w, 'l, 'g) ConfigEdit \<Rightarrow>
     'b CConfigClient \<Rightarrow> (bool \<times> 'g config_state \<times> ('w, 'l, 'g) ConfigEdit \<times> 'b CConfigClient) checked option" where
  "loadConfig P D pl opens maps ip port s e c =
     (let c = CConfigClient_downloadConfig P (Some ip) port c;
          conf = (case ed_config e of None \<Rightarrow> CConfig_Clear | Some conf \<Rightarrow> conf);
          (isGet, conf) = config_loop maps ip port 0 100 conf;
          e = e\<lparr>ed_config := Some conf\<rparr> in
      if \<not> isGet then Some (Inr (False, s, e, c))
      else if CConfig_proto conf = [] then Some (Inr (False, s, e, c))
      else
        let s = (if opens then s\<lparr>conf_disk := (conf_disk s)(tmp_proto \<mapsto> CConfig_proto conf)\<rparr> else s) in
        bind_call (Some (loadProto (pl_import_from pl (conf_disk s)) (pl_findType pl) tmp_proto [] [] c))
          (\<lambda>(desc, _, c).
        case desc of None \<Rightarrow> Some (Inr (False, s, e\<lparr>ed_message := None\<rparr>, c))
        | Some desc \<Rightarrow>
            let (ok, message) = msg_ParseFromString (dk_reflection D) (CConfig_privatePb conf) (pl_instance pl desc);
                e = e\<lparr>ed_message := Some message\<rparr> in
            if \<not> ok then Some (Inr (False, s, e, c))
            else map_option (\<lambda>e. Inr (True, s, e, c)) (initGui D e)))"

end
