(* ===== verification/ConfigGui.thy ===== *)
theory ConfigGui
  imports EditForm
begin

text \<open>
  The window of the configuration editor, \<open>configgui/configgui.cpp\<close>, with the table of the
  configurations, and its login dialog, \<open>clogingui.cpp\<close>.
\<close>

section \<open>CLoginGui\<close>

record 'w CLoginGui =
  lg_usernameEdit :: 'w
  lg_passwordEdit :: 'w
  lg_boxes :: "bool list"     \<comment> \<open>the messages shown: whether it was that a field is empty\<close>
  lg_accepted :: bool

text \<open>\<open>maps i\<close> is the cache of logins at poll \<open>i\<close> of \<open>getLoginInfo\<close>.\<close>

definition CLoginGui_login ::
    "'b platform \<Rightarrow> 'o bio_api \<Rightarrow> (string \<Rightarrow> string) \<Rightarrow> ('w, 'd) qt_widgets \<Rightarrow> (nat \<Rightarrow> string \<rightharpoonup> CLoginRes) \<Rightarrow>
     'w CLoginGui \<Rightarrow> 'b CAuthClient \<Rightarrow> ('w CLoginGui \<times> 'b CAuthClient) checked" where
  "CLoginGui_login P B md5 Q maps g a =
     (if line_text Q (lg_usernameEdit g) = [] \<or> line_text Q (lg_passwordEdit g) = [] then
        Inr (g\<lparr>lg_boxes := lg_boxes g @ [True]\<rparr>, a)
      else
        let username = line_text Q (lg_usernameEdit g);
            password = line_text Q (lg_passwordEdit g) in
        bind_ub (CAuthClient_LoginReq P B md5 username password a) (\<lambda>a.
        let (re, login, _) = CAuthClient_getLoginInfo maps username (Some CLoginRes_Clear) 1000 in
        if \<not> re then Inr (g\<lparr>lg_boxes := lg_boxes g @ [False]\<rparr>, a)
        else Inr (g\<lparr>lg_accepted := True\<rparr>, a)))"

section \<open>ConfigGui: state\<close>

text \<open>What the window logs, in place of the texts: each is shown with the time.\<close>

datatype gui_log = Refreshing | ServerFailed | ServerConnected | ListLoaded | ConfigAdded
  | ConfigDeleted string string int | ConfigFailed | ConfigChanged

text \<open>The list of logs has the latest first. \<open>mousePress\<close> and \<open>mousePoint\<close> are variables of the file.\<close>

record ('w, 't) ConfigGui =
  ui_tableWidget :: 't
  ui_serverIpEdit :: 'w
  ui_servicePortBox :: 'w
  ui_logListWidget :: "(string \<times> gui_log) list"
  gui_pos :: "int \<times> int"
  mousePress :: bool
  mousePoint :: "int \<times> int"

definition gui_addLog :: "string \<Rightarrow> gui_log \<Rightarrow> ('w, 't) ConfigGui \<Rightarrow> ('w, 't) ConfigGui" where
  "gui_addLog now log g = g\<lparr>ui_logListWidget := (now, log) # ui_logListWidget g\<rparr>"

text \<open>The result tells whether the event is left to \<open>QWidget\<close>.\<close>

definition mouseMoveEvent :: "int \<times> int \<Rightarrow> ('w, 't) ConfigGui \<Rightarrow> bool \<times> ('w, 't) ConfigGui" where
  "mouseMoveEvent globalPos g =
     (if \<not> mousePress g then (True, g)
      else (False, g\<lparr>gui_pos := (fst globalPos - fst (mousePoint g), snd globalPos - snd (mousePoint g))\<rparr>))"

definition mousePressEvent :: "bool \<Rightarrow> int \<times> int \<Rightarrow> ('w, 't) ConfigGui \<Rightarrow> ('w, 't) ConfigGui" where
  "mousePressEvent leftButton pos g =
     (if leftButton then g\<lparr>mousePress := True, mousePoint := pos\<rparr> else g)"

definition mouseReleaseEvent :: "('w, 't) ConfigGui \<Rightarrow> ('w, 't) ConfigGui" where
  "mouseReleaseEvent g = g\<lparr>mousePress := False\<rparr>"

section \<open>ConfigGui: the table\<close>

partial_function (option) clear_table :: "'t qt_table \<Rightarrow> 't \<Rightarrow> 't option" where
  "clear_table T t = (if tbl_rowCount T t > 0 then clear_table T (tbl_removeRow T 0 t) else Some t)"

definition config_row :: "'t qt_table \<Rightarrow> int \<Rightarrow> CConfig \<Rightarrow> 't \<Rightarrow> 't" where
  "config_row T i config t =
     (let t = tbl_setItem T i 0 (as_c_str (CConfig_serviceName config)) t;
          t = tbl_setItem T i 1 (as_c_str (CConfig_serviceIp config)) t;
          servicePort = show_int (sint (CConfig_servicePort config)) in
      tbl_setItem T i 2 servicePort t)"

fun fill_table :: "'t qt_table \<Rightarrow> int \<Rightarrow> CConfig list \<Rightarrow> 't \<Rightarrow> 't" where
  "fill_table T i [] t = t"
| "fill_table T i (config # configs) t = fill_table T (i + 1) configs (config_row T i config t)"

text \<open>
  What surrounds a refresh: whether the login dialog was accepted, when the connection is up and
  what the list of configurations is while the client waits for each.
\<close>

record surroundings =
  su_login :: bool
  su_up :: "nat \<Rightarrow> bool"
  su_up_again :: "nat \<Rightarrow> bool"
  su_lists :: "nat \<Rightarrow> CConfigList option"
  su_now :: string

definition gui_refresh ::
    "'b platform \<Rightarrow> ('w, 'd) qt_widgets \<Rightarrow> 't qt_table \<Rightarrow> surroundings \<Rightarrow> 'g config_state \<Rightarrow> ('w, 't) ConfigGui \<Rightarrow>
     'b CConfigClient \<Rightarrow> ('g config_state \<times> ('w, 't) ConfigGui \<times> 'b CConfigClient) checked option" where
  "gui_refresh P Q T su s g c =
     (let g = gui_addLog (su_now su) Refreshing g in
      Option.bind (clear_table T (ui_tableWidget g)) (\<lambda>t.
      let g = g\<lparr>ui_tableWidget := t\<rparr>;
          serverIp = line_text Q (ui_serverIpEdit g);
          serverPort = sint (spin_value Q (ui_servicePortBox g)) in
      if \<not> su_login su then Some (Inr (s, g, c))
      else
        let c = setServerIp serverIp c;
            c = c\<lparr>m_serverPort := serverPort\<rparr>;
            c = c\<lparr>m_autoDelete := False\<rparr> in
        bind_call (Some (CMsgEvent_close c)) (\<lambda>c.
        bind_call (Some (autoConnect (p_libevent P) (su_up su) 3 c)) (\<lambda>(ok, c).
        if \<not> ok then Some (Inr (s, gui_addLog (su_now su) ServerFailed g, c))
        else
          let g = gui_addLog (su_now su) ServerConnected g in
          bind_call (Some (CConfigClient_downloadAllConfig P (su_up_again su) (su_lists su) 1 10000 10 s c))
            (\<lambda>(configs, s, c).
          let rows = CConfigList_config configs;
              t = tbl_setRowCount T (int (length rows)) (ui_tableWidget g);
              t = fill_table T 0 rows t;
              g = g\<lparr>ui_tableWidget := t\<rparr>;
              g = gui_addLog (su_now su) ListLoaded g in
          Some (Inr (s, g, c)))))))"

text \<open>An item of the table that is not there is a null pointer.\<close>

definition item_text :: "'t qt_table \<Rightarrow> 't \<Rightarrow> int \<Rightarrow> int \<Rightarrow> string checked" where
  "item_text T t row col = (case tbl_item T t row col of None \<Rightarrow> Inl NullDeref | Some s \<Rightarrow> Inr s)"

text \<open>\<open>yes\<close>: the answer to the question whether to delete.\<close>

definition delConfig ::
    "'b platform \<Rightarrow> ('w, 'd) qt_widgets \<Rightarrow> 't qt_table \<Rightarrow> surroundings \<Rightarrow> bool \<Rightarrow> 'g config_state \<Rightarrow>
     ('w, 't) ConfigGui \<Rightarrow> 'b CConfigClient \<Rightarrow> ('g config_state \<times> ('w, 't) ConfigGui \<times> 'b CConfigClient) checked option" where
  "delConfig P Q T su yes s g c =
     (if tbl_rowCount T (ui_tableWidget g) = 0 then Some (Inr (s, g, c))
      else
        let row = tbl_currentRow T (ui_tableWidget g) in
        if row < 0 then Some (Inr (s, g, c))
        else
          bind_call (Some (item_text T (ui_tableWidget g) row 0)) (\<lambda>name.
          bind_call (Some (item_text T (ui_tableWidget g) row 1)) (\<lambda>ip.
          bind_call (Some (item_text T (ui_tableWidget g) row 2)) (\<lambda>itemPort.
          let port = atoi itemPort in
          if \<not> yes then Some (Inr (s, g, c))
          else
            let c = CConfigClient_deleteConfig P (Some ip) port c;
                g = gui_addLog (su_now su) (ConfigDeleted name ip port) g in
            gui_refresh P Q T su s g c))))"

text \<open>
  A dialog is an object of its own: \<open>dialog\<close> is what happens from its opening to its end, its
  result whether it was accepted.
\<close>

definition addConfig ::
    "'b platform \<Rightarrow> ('w, 'l, 'd, 'e, 'g, 'f) desktop \<Rightarrow> 't qt_table \<Rightarrow> surroundings \<Rightarrow> ('w, 'l, 'g) ConfigEdit \<Rightarrow>
     ('g config_state \<Rightarrow> ('w, 'l, 'g) ConfigEdit \<Rightarrow> 'b CConfigClient \<Rightarrow> (bool \<times> 'g config_state \<times> 'b CConfigClient) checked option) \<Rightarrow>
     'g config_state \<Rightarrow> ('w, 't) ConfigGui \<Rightarrow> 'b CConfigClient \<Rightarrow>
     ('g config_state \<times> ('w, 't) ConfigGui \<times> 'b CConfigClient) checked option" where
  "addConfig P D T su ui dialog s g c =
     (let (edit, c) = ConfigEdit_new (dk_form D) ui c in
      bind_call (dialog s edit c) (\<lambda>(accepted, s, c).
      let g = (if accepted then gui_addLog (su_now su) ConfigAdded g else g) in
      gui_refresh P (dk_widgets D) T su s g c))"

definition editConfig ::
    "'b platform \<Rightarrow> ('w, 'l, 'd, 'e, 'g, 'f) desktop \<Rightarrow> 't qt_table \<Rightarrow> surroundings \<Rightarrow> ('w, 'l, 'g) ConfigEdit \<Rightarrow>
     'g proto_loader \<Rightarrow> bool \<Rightarrow> (nat \<Rightarrow> nat \<Rightarrow> string \<rightharpoonup> CConfig) \<Rightarrow>
     ('g config_state \<Rightarrow> ('w, 'l, 'g) ConfigEdit \<Rightarrow> 'b CConfigClient \<Rightarrow> (bool \<times> 'g config_state \<times> 'b CConfigClient) checked option) \<Rightarrow>
     'g config_state \<Rightarrow> ('w, 't) ConfigGui \<Rightarrow> 'b CConfigClient \<Rightarrow>
     ('g config_state \<times> ('w, 't) ConfigGui \<times> 'b CConfigClient) checked option" where
  "editConfig P D T su ui pl opens maps dialog s g c =
     (if tbl_rowCount T (ui_tableWidget g) = 0 then Some (Inr (s, g, c))
      else
        let row = tbl_currentRow T (ui_tableWidget g) in
        if row < 0 then Some (Inr (s, g, c))
        else
          bind_call (Some (item_text T (ui_tableWidget g) row 1)) (\<lambda>ip.
          bind_call (Some (item_text T (ui_tableWidget g) row 2)) (\<lambda>itemPort.
          let port = atoi itemPort;
              (edit, c) = ConfigEdit_new (dk_form D) ui c in
          bind_call (loadConfig P D pl opens maps (as_c_str ip) port s edit c) (\<lambda>(ok, s, edit, c).
          if \<not> ok then Some (Inr (s, gui_addLog (su_now su) ConfigFailed g, c))
          else
            bind_call (dialog s edit c) (\<lambda>(accepted, s, c).
            let g = (if accepted then gui_addLog (su_now su) ConfigChanged g else g) in
            gui_refresh P (dk_widgets D) T su s g c)))))"

text \<open>The window when it opens: it refreshes at once.\<close>

definition ConfigGui_new ::
    "'b platform \<Rightarrow> ('w, 'd) qt_widgets \<Rightarrow> 't qt_table \<Rightarrow> surroundings \<Rightarrow> 'g config_state \<Rightarrow> ('w, 't) ConfigGui \<Rightarrow>
     'b CConfigClient \<Rightarrow> ('g config_state \<times> ('w, 't) ConfigGui \<times> 'b CConfigClient) checked option" where
  "ConfigGui_new P Q T su s ui c =
     gui_refresh P Q T su s (ui\<lparr>ui_logListWidget := [], mousePress := False, mousePoint := (0, 0)\<rparr>) c"

end
