(* ===== verification/EditForm_Facts.thy ===== *)
theory EditForm_Facts
  imports EditForm
begin

text \<open>
  What the editor relies on in protobuf's reflection and in Qt, as locales, and what follows for
  the form: the widget of a field, the rows, and what saving puts into the message.
\<close>

section \<open>Reflection\<close>

fun of_type :: "field_type \<Rightarrow> ('d, 'e) field_value \<Rightarrow> bool" where
  "of_type t (V_Int64 _) \<longleftrightarrow> t = TYPE_INT64"
| "of_type t (V_Int32 _) \<longleftrightarrow> t = TYPE_INT32"
| "of_type t (V_Double _) \<longleftrightarrow> t = TYPE_DOUBLE"
| "of_type t (V_Float _) \<longleftrightarrow> t = TYPE_FLOAT"
| "of_type t (V_String _) \<longleftrightarrow> t = TYPE_BYTES \<or> t = TYPE_STRING"
| "of_type t (V_Bool _) \<longleftrightarrow> t = TYPE_BOOL"
| "of_type t (V_Enum _) \<longleftrightarrow> t = TYPE_ENUM"

fun set_all :: "('g, 'f, 'd, 'e) reflection_api \<Rightarrow> ('f \<Rightarrow> ('d, 'e) field_value) \<Rightarrow> 'f list \<Rightarrow> 'g \<Rightarrow> 'g option" where
  "set_all R val [] m = Some m"
| "set_all R val (f # fs) m = Option.bind (rf_Set R m f (val f)) (set_all R val fs)"

text \<open>
  \<open>msg_ok\<close> are the messages of the type; \<open>single\<close> says that a field is singular and has no presence,
  as the fields of proto3 outside a oneof. Getting, setting and finding obey the documented laws.
\<close>

locale reflection =
  fixes R :: "('g, 'f, 'd, 'e) reflection_api" and msg_ok :: "'g \<Rightarrow> bool" and single :: "'f \<Rightarrow> bool"
  assumes distinct_names: "msg_ok m \<Longrightarrow> distinct (map (rf_name R) (rf_fields R m))"
    and name_text: "msg_ok m \<Longrightarrow> f \<in> set (rf_fields R m) \<Longrightarrow> NUL \<notin> set (rf_name R f)"
    and find_field: "msg_ok m \<Longrightarrow> f \<in> set (rf_fields R m) \<Longrightarrow> msg_FindFieldByName R m (rf_name R f) = Some f"
    and get_kind: "msg_ok m \<Longrightarrow> f \<in> set (rf_fields R m) \<Longrightarrow> single f \<Longrightarrow> rf_type R f \<noteq> TYPE_OTHER \<Longrightarrow>
      \<exists>v. rf_Get R m f = Some v \<and> of_type (rf_type R f) v"
    and set_field: "msg_ok m \<Longrightarrow> f \<in> set (rf_fields R m) \<Longrightarrow> single f \<Longrightarrow> of_type (rf_type R f) v \<Longrightarrow>
      \<exists>m'. rf_Set R m f v = Some m' \<and> msg_ok m' \<and> rf_fields R m' = rf_fields R m \<and> rf_Get R m' f = Some v \<and>
        (\<forall>f' \<in> set (rf_fields R m). f' \<noteq> f \<longrightarrow> rf_Get R m' f' = rf_Get R m f')"
    and set_same: "msg_ok m \<Longrightarrow> f \<in> set (rf_fields R m) \<Longrightarrow> single f \<Longrightarrow> rf_Get R m f = Some v \<Longrightarrow> rf_Set R m f v = Some m"
begin

lemma set_all_sets:
  assumes "msg_ok m" "distinct fs" "set fs \<subseteq> set (rf_fields R m)" "\<forall>f \<in> set fs. single f \<and> of_type (rf_type R f) (val f)"
  shows "\<exists>m'. set_all R val fs m = Some m' \<and> msg_ok m' \<and> rf_fields R m' = rf_fields R m \<and>
    (\<forall>f \<in> set fs. rf_Get R m' f = Some (val f)) \<and>
    (\<forall>f \<in> set (rf_fields R m) - set fs. rf_Get R m' f = rf_Get R m f)"
  using assms
proof (induction fs arbitrary: m)
  case (Cons f fs)
  obtain m1 where m1: "rf_Set R m f (val f) = Some m1" "msg_ok m1" "rf_fields R m1 = rf_fields R m" "rf_Get R m1 f = Some (val f)"
    "\<forall>f' \<in> set (rf_fields R m). f' \<noteq> f \<longrightarrow> rf_Get R m1 f' = rf_Get R m f'"
    using set_field [of m f "val f"] Cons.prems by auto
  obtain m2 where m2: "set_all R val fs m1 = Some m2" "msg_ok m2" "rf_fields R m2 = rf_fields R m1"
    "\<forall>f \<in> set fs. rf_Get R m2 f = Some (val f)"
    "\<forall>f \<in> set (rf_fields R m1) - set fs. rf_Get R m2 f = rf_Get R m1 f"
    using Cons.IH [of m1] Cons.prems m1(2,3) by auto
  have "rf_Get R m2 f = Some (val f)"
    using m2(5) m1(3,4) Cons.prems(2,3) by simp
  then show ?case using m1 m2 by (intro exI [of _ m2]) auto
qed simp

lemma set_all_same:
  assumes "msg_ok m" "set fs \<subseteq> set (rf_fields R m)" "\<forall>f \<in> set fs. single f \<and> rf_Get R m f = Some (val f)"
  shows "set_all R val fs m = Some m"
  using assms by (induction fs) (auto simp: set_same)

end

section \<open>Widgets\<close>

definition clamp :: "int32 \<times> int32 \<Rightarrow> int32 \<Rightarrow> int32" where
  "clamp r v = (if sint v < sint (fst r) then fst r else if sint (snd r) < sint v then snd r else v)"

text \<open>The place of the first item with the data, -1 if there is none.\<close>

fun item_index :: "int32 \<Rightarrow> (string \<times> (bool + int32)) list \<Rightarrow> int \<Rightarrow> int" where
  "item_index v [] i = -1"
| "item_index v ((t, d) # its) i = (if d = Inr v then i else item_index v its (i + 1))"

text \<open>
  What Qt documents. A spin box is new with the range 0 to 99; setting the maximum lowers the
  minimum if needed; setting the value bounds it. What a double box, a line edit and a text
  edit show of what they are given is \<open>shown_d\<close> with the maximum, \<open>shown_t\<close> and \<open>shown_p\<close>.
\<close>

locale widgets =
  fixes Q :: "('w, 'd) qt_widgets"
    and limits :: "'w \<Rightarrow> int32 \<times> int32"
    and items :: "'w \<Rightarrow> (string \<times> (bool + int32)) list" and idx :: "'w \<Rightarrow> int"
    and shown_d :: "'d \<Rightarrow> 'd \<Rightarrow> 'd" and shown_t :: "string \<Rightarrow> string" and shown_p :: "string \<Rightarrow> string"
  assumes spin_new: "is_QSpinBox Q (new_QSpinBox Q)" "limits (new_QSpinBox Q) = (0, 99)"
    and spin_max: "is_QSpinBox Q w \<Longrightarrow> is_QSpinBox Q (spin_setMaximum Q M w) \<and>
      limits (spin_setMaximum Q M w) = (if sint M < sint (fst (limits w)) then M else fst (limits w), M)"
    and spin_set: "is_QSpinBox Q w \<Longrightarrow> is_QSpinBox Q (spin_setValue Q v w) \<and>
      limits (spin_setValue Q v w) = limits w \<and> spin_value Q (spin_setValue Q v w) = clamp (limits w) v"
    and dspin_shows: "is_QDoubleSpinBox Q (dspin_setValue Q x (dspin_setMaximum Q X (new_QDoubleSpinBox Q)))"
      "dspin_value Q (dspin_setValue Q x (dspin_setMaximum Q X (new_QDoubleSpinBox Q))) = shown_d X x"
    and line_new: "is_QLineEdit Q (new_QLineEdit Q)"
    and line_set: "is_QLineEdit Q w \<Longrightarrow> is_QLineEdit Q (line_setText Q t w) \<and> line_text Q (line_setText Q t w) = shown_t t"
    and edit_set: "edit_toPlainText Q (edit_setText Q t w) = shown_p t"
    and combo_new: "is_QComboBox Q (new_QComboBox Q)" "items (new_QComboBox Q) = []"
    and combo_add: "is_QComboBox Q w \<Longrightarrow> is_QComboBox Q (combo_addItem Q t d w) \<and> items (combo_addItem Q t d w) = items w @ [(t, d)]"
    and combo_index: "is_QComboBox Q w \<Longrightarrow> -1 \<le> i \<Longrightarrow> i < int (length (items w)) \<Longrightarrow>
      is_QComboBox Q (combo_setCurrentIndex Q i w) \<and> items (combo_setCurrentIndex Q i w) = items w \<and>
      idx (combo_setCurrentIndex Q i w) = i"
    and combo_find: "is_QComboBox Q w \<Longrightarrow> combo_findData Q v w = item_index v (items w) 0"
    and combo_bool: "is_QComboBox Q w \<Longrightarrow> 0 \<le> idx w \<Longrightarrow> idx w < int (length (items w)) \<Longrightarrow>
      snd (items w ! nat (idx w)) = Inl b \<Longrightarrow> combo_toBool Q w = b"
    and combo_int: "is_QComboBox Q w \<Longrightarrow> 0 \<le> idx w \<Longrightarrow> idx w < int (length (items w)) \<Longrightarrow>
      snd (items w ! nat (idx w)) = Inr v \<Longrightarrow> combo_toInt Q w = v"
    and combo_none: "is_QComboBox Q w \<Longrightarrow> idx w = -1 \<Longrightarrow> combo_toInt Q w = 0"
begin

lemma spin_shows:
  "is_QSpinBox Q (spin_setValue Q v (spin_setMaximum Q M (new_QSpinBox Q)))"
  "spin_value Q (spin_setValue Q v (spin_setMaximum Q M (new_QSpinBox Q))) = clamp (if sint M < 0 then M else 0, M) v"
  using spin_set [of "spin_setMaximum Q M (new_QSpinBox Q)" v] spin_max [of "new_QSpinBox Q" M] spin_new by simp_all

lemma add_items:
  "is_QComboBox Q w \<Longrightarrow> is_QComboBox Q (add_items Q vs w) \<and>
    items (add_items Q vs w) = items w @ map (\<lambda>(name, val). (as_c_str name, Inr val)) vs"
  by (induction vs arbitrary: w) (auto simp: combo_add)

end

lemma item_index_range:
  "item_index v its i = -1 \<or> (\<exists>k < length its. item_index v its i = i + int k \<and> snd (its ! k) = Inr v)"
proof (induction v its i rule: item_index.induct)
  case (2 v t d its i)
  show ?case
  proof (cases "d = Inr v")
    case False
    from 2 [OF False] show ?thesis
    proof (elim disjE exE conjE)
      fix k assume "k < length its" "item_index v its (i + 1) = i + 1 + int k" "snd (its ! k) = Inr v"
      with False show ?thesis by (intro disjI2 exI [of _ "Suc k"]) simp
    qed (use False in simp)
  qed (auto intro!: exI [of _ 0])
qed simp

lemma item_index_none: "0 \<le> i \<Longrightarrow> item_index v its i = -1 \<longleftrightarrow> Inr v \<notin> snd ` set its"
  by (induction v its i rule: item_index.induct) auto

section \<open>The form\<close>

locale form_layout =
  fixes L :: "'l qt_form" and rows :: "'l \<Rightarrow> (string option \<times> nat option) list"
  assumes row_count: "form_rowCount L l = int (length (rows l))"
    and add_row: "rows (form_addRow L t r l) = rows l @ [(Some t, Some r)]"
    and remove_row: "0 \<le> i \<Longrightarrow> i < int (length (rows l)) \<Longrightarrow>
      rows (form_removeRow L i l) = take (nat i) (rows l) @ drop (Suc (nat i)) (rows l)"
    and row_label: "0 \<le> i \<Longrightarrow> i < int (length (rows l)) \<Longrightarrow> form_label L l i = fst (rows l ! nat i)"
    and row_field: "0 \<le> i \<Longrightarrow> i < int (length (rows l)) \<Longrightarrow> form_field L l i = snd (rows l ! nat i)"
begin

lemma clear_rows_ends:
  "b \<le> length (rows l) \<Longrightarrow> \<exists>l'. clear_rows L (int b) l = Some l' \<and> rows l' = take b (rows l)"
proof (induction "length (rows l) - b" arbitrary: l)
  case 0
  then have "form_rowCount L l = int b" by (simp add: row_count)
  with 0 show ?case by (subst clear_rows.simps) simp
next
  case (Suc n)
  then have b: "b < length (rows l)" by simp
  let ?l = "form_removeRow L (int b) l"
  have r: "rows ?l = take b (rows l) @ drop (Suc b) (rows l)" using remove_row [of "int b" l] b by simp
  have "n = length (rows ?l) - b" "b \<le> length (rows ?l)" using r b Suc.hyps(2) by auto
  from Suc.hyps(1) [OF this] obtain l' where "clear_rows L (int b) ?l = Some l'" "rows l' = take b (rows ?l)"
    by blast
  moreover have "form_rowCount L l \<noteq> int b" using b by (simp add: row_count)
  ultimately show ?case using r b by (subst clear_rows.simps) simp
qed

end

fun field_rows :: "('f \<Rightarrow> string) \<Rightarrow> 'f list \<Rightarrow> nat \<Rightarrow> (string option \<times> nat option) list" where
  "field_rows name [] n = []"
| "field_rows name (f # fs) n = (Some (name f), Some n) # field_rows name fs (Suc n)"

lemma length_field_rows [simp]: "length (field_rows name fs n) = length fs"
  by (induction fs arbitrary: n) simp_all

section \<open>The widget of a field\<close>

text \<open>What a field of the form shows of a value.\<close>

fun shown_value :: "('d, 'e) floats \<Rightarrow> ('d \<Rightarrow> 'd \<Rightarrow> 'd) \<Rightarrow> (string \<Rightarrow> string) \<Rightarrow> (string \<times> int32) list \<Rightarrow>
    ('d, 'e) field_value \<Rightarrow> ('d, 'e) field_value" where
  "shown_value F sd st vs (V_Int64 v) = V_Int64 (-1)"
| "shown_value F sd st vs (V_Int32 v) = V_Int32 (if sint v < 0 then 0 else v)"
| "shown_value F sd st vs (V_Double x) = V_Double (sd (fl_DBL_MAX F) x)"
| "shown_value F sd st vs (V_Float x) = V_Float (fl_narrow F (sd (fl_widen F (fl_FLT_MAX F)) (fl_widen F x)))"
| "shown_value F sd st vs (V_String s) = V_String (st (as_c_str s))"
| "shown_value F sd st vs (V_Bool b) = V_Bool b"
| "shown_value F sd st vs (V_Enum v) = V_Enum (if v \<in> snd ` set vs then v else 0)"

lemma of_type_shown [simp]: "of_type t (shown_value F sd st vs v) \<longleftrightarrow> of_type t v"
  by (cases v) simp_all

definition field_widget :: "('w, 'l, 'd, 'e, 'g, 'f) desktop \<Rightarrow> ('d, 'e) field_value \<Rightarrow> 'f \<Rightarrow> 'w" where
  "field_widget D v f =
     (let Q = dk_widgets D; F = dk_floats D in
      case v of
        V_Int64 v \<Rightarrow> spin_setValue Q (ucast v) (spin_setMaximum Q (ucast INT64_MAX) (new_QSpinBox Q))
      | V_Int32 v \<Rightarrow> spin_setValue Q v (spin_setMaximum Q INT32_MAX (new_QSpinBox Q))
      | V_Double x \<Rightarrow> dspin_setValue Q x (dspin_setMaximum Q (fl_DBL_MAX F) (new_QDoubleSpinBox Q))
      | V_Float x \<Rightarrow> dspin_setValue Q (fl_widen F x) (dspin_setMaximum Q (fl_widen F (fl_FLT_MAX F)) (new_QDoubleSpinBox Q))
      | V_String s \<Rightarrow> line_setText Q (as_c_str s) (new_QLineEdit Q)
      | V_Bool b \<Rightarrow> combo_setCurrentIndex Q (if b then 0 else 1)
          (combo_addItem Q ''false'' (Inl False) (combo_addItem Q ''true'' (Inl True) (new_QComboBox Q)))
      | V_Enum v \<Rightarrow> let w = add_items Q (rf_enum_values (dk_reflection D) f) (new_QComboBox Q) in
          combo_setCurrentIndex Q (combo_findData Q v w) w)"

lemma init_field_row:
  assumes "rf_Get (dk_reflection D) m f = Some v" "of_type (rf_type (dk_reflection D) f) v"
  shows "init_field D m f e = Some (put_row (dk_form D) (rf_name (dk_reflection D) f) (field_widget D v f) e)"
  using assms by (cases v) (auto simp: init_field_def field_widget_def Let_def put_row_def)

lemma init_field_other: "rf_type (dk_reflection D) f = TYPE_OTHER \<Longrightarrow> init_field D m f e = Some e"
  by (simp add: init_field_def Let_def)

section \<open>The form and the message\<close>

text \<open>The fields of a message that have a row.\<close>

definition shown_fields :: "('g, 'f, 'd, 'e) reflection_api \<Rightarrow> 'g \<Rightarrow> 'f list" where
  "shown_fields R m = filter (\<lambda>f. rf_type R f \<noteq> TYPE_OTHER) (rf_fields R m)"

locale edit_form =
  reflection "dk_reflection D" msg_ok single + widgets "dk_widgets D" limits items idx shown_d shown_t shown_p +
  form_layout "dk_form D" rows
  for D :: "('w, 'l, 'd, 'e, 'g, 'f) desktop" and msg_ok single limits items idx shown_d shown_t shown_p rows
begin

abbreviation R where "R \<equiv> dk_reflection D"

abbreviation shown where "shown f v \<equiv> shown_value (dk_floats D) shown_d shown_t (rf_enum_values R f) v"

lemma bool_box:
  fixes b
  defines "w \<equiv> combo_setCurrentIndex (dk_widgets D) (if b then 0 else 1)
    (combo_addItem (dk_widgets D) ''false'' (Inl False) (combo_addItem (dk_widgets D) ''true'' (Inl True) (new_QComboBox (dk_widgets D))))"
  shows "is_QComboBox (dk_widgets D) w" "combo_toBool (dk_widgets D) w = b"
proof -
  let ?w = "combo_addItem (dk_widgets D) ''false'' (Inl False) (combo_addItem (dk_widgets D) ''true'' (Inl True) (new_QComboBox (dk_widgets D)))"
  have its: "is_QComboBox (dk_widgets D) ?w" "items ?w = [(''true'', Inl True), (''false'', Inl False)]"
    by (simp_all add: combo_add combo_new)
  have w: "is_QComboBox (dk_widgets D) w" "items w = items ?w" "idx w = (if b then 0 else 1)"
    unfolding w_def using combo_index [OF its(1), of "if b then 0 else 1"] its(2) by simp_all
  then show "is_QComboBox (dk_widgets D) w" "combo_toBool (dk_widgets D) w = b"
    using combo_bool [OF w(1), of b] its(2) by simp_all
qed

lemma enum_box:
  fixes v vs
  defines "w \<equiv> add_items (dk_widgets D) vs (new_QComboBox (dk_widgets D))"
  defines "w' \<equiv> combo_setCurrentIndex (dk_widgets D) (combo_findData (dk_widgets D) v w) w"
  shows "is_QComboBox (dk_widgets D) w'" "combo_toInt (dk_widgets D) w' = (if v \<in> snd ` set vs then v else 0)"
proof -
  have its: "is_QComboBox (dk_widgets D) w" "items w = map (\<lambda>(name, val). (as_c_str name, Inr val)) vs"
    unfolding w_def using add_items [OF combo_new(1)] combo_new(2) by simp_all
  let ?i = "item_index v (items w) 0"
  have i: "combo_findData (dk_widgets D) v w = ?i" by (rule combo_find [OF its(1)])
  have listed: "?i = -1 \<longleftrightarrow> v \<notin> snd ` set vs"
    unfolding item_index_none [OF order_refl] its(2) by force
  have r: "?i = -1 \<or> (\<exists>k < length (items w). ?i = int k \<and> snd (items w ! k) = Inr v)"
    using item_index_range [of v "items w" 0] by simp
  then have "-1 \<le> ?i" "?i < int (length (items w))" by auto
  from combo_index [OF its(1) this]
  have w': "is_QComboBox (dk_widgets D) w'" "items w' = items w" "idx w' = ?i" unfolding w'_def i by simp_all
  from r listed combo_int [OF w'(1), of v] combo_none [OF w'(1)] w'(2,3)
  show "combo_toInt (dk_widgets D) w' = (if v \<in> snd ` set vs then v else 0)" by auto
  show "is_QComboBox (dk_widgets D) w'" by (rule w'(1))
qed

lemma save_widget:
  assumes "of_type (rf_type R f) v"
  shows "save_field D (field_widget D v f) f m = rf_Set R m f (shown f v)"
proof (cases v)
  case (V_Int64 x)
  have "(ucast INT64_MAX :: int32) = -1" by (simp add: INT64_MAX_def)
  moreover have "clamp (-1, -1) y = -1" for y
  proof -
    have "(of_int (sint y) :: int32) = y" by simp
    then show ?thesis by (cases "sint y = -1") (auto simp: clamp_def)
  qed
  ultimately show ?thesis using assms V_Int64 spin_shows [of "ucast x" "-1"]
    by (simp add: save_field_def field_widget_def Let_def)
next
  case (V_Int32 x)
  have "sint x \<le> 2147483647" using sint_lt [of x] by simp
  then have "clamp (0, INT32_MAX) x = (if sint x < 0 then 0 else x)"
    by (simp add: clamp_def INT32_MAX_def)
  with assms V_Int32 spin_shows [of x INT32_MAX] show ?thesis
    by (simp add: save_field_def field_widget_def Let_def INT32_MAX_def)
next
  case (V_Bool x)
  with assms bool_box [of x] show ?thesis by (simp add: save_field_def field_widget_def Let_def)
next
  case (V_Enum x)
  with assms enum_box [of x "rf_enum_values R f"] show ?thesis by (simp add: save_field_def field_widget_def Let_def)
next
  case (V_String x)
  with assms line_set [OF line_new, of "as_c_str x"] show ?thesis
    by (auto simp: save_field_def field_widget_def Let_def)
qed (use assms in \<open>simp_all add: save_field_def field_widget_def Let_def dspin_shows\<close>)

text \<open>The rows that \<open>init_fields\<close> adds.\<close>

abbreviation field_value_of where "field_value_of m f \<equiv> the (rf_Get R m f)"

lemma init_fields_rows:
  assumes "\<forall>f \<in> set fs. NUL \<notin> set (rf_name R f) \<and> (rf_type R f \<noteq> TYPE_OTHER \<longrightarrow>
      (\<exists>v. rf_Get R m f = Some v \<and> of_type (rf_type R f) v))"
    and "fs' = filter (\<lambda>f. rf_type R f \<noteq> TYPE_OTHER) fs"
  shows "\<exists>l. init_fields D m fs e = Some (e\<lparr>
      ed_widgets := ed_widgets e @ map (\<lambda>f. field_widget D (field_value_of m f) f) fs', ui_formLayout := l\<rparr>) \<and>
    rows l = rows (ui_formLayout e) @ field_rows (rf_name R) fs' (length (ed_widgets e))"
  using assms
proof (induction fs arbitrary: e fs')
  case (Cons f fs)
  show ?case
  proof (cases "rf_type R f = TYPE_OTHER")
    case True
    with Cons.IH [of fs' e] Cons.prems show ?thesis by (simp add: init_field_other)
  next
    case False
    then obtain v where v: "rf_Get R m f = Some v" "of_type (rf_type R f) v" using Cons.prems(1) by auto
    let ?e = "put_row (dk_form D) (rf_name R f) (field_widget D v f) e"
    have "as_c_str (rf_name R f) = rf_name R f"
      using Cons.prems(1) by (simp add: as_c_str_def takeWhile_neq_all)
    then have r: "rows (ui_formLayout ?e) = rows (ui_formLayout e) @ [(Some (rf_name R f), Some (length (ed_widgets e)))]"
      "ed_widgets ?e = ed_widgets e @ [field_widget D v f]"
      by (simp_all add: put_row_def add_row)
    obtain l where l: "init_fields D m fs ?e = Some (?e\<lparr>ed_widgets := ed_widgets ?e @
        map (\<lambda>f. field_widget D (field_value_of m f) f) (filter (\<lambda>f. rf_type R f \<noteq> TYPE_OTHER) fs), ui_formLayout := l\<rparr>)"
      "rows l = rows (ui_formLayout ?e) @ field_rows (rf_name R) (filter (\<lambda>f. rf_type R f \<noteq> TYPE_OTHER) fs) (length (ed_widgets ?e))"
      using Cons.IH [of _ ?e] Cons.prems(1) by auto
    have upd: "?e\<lparr>ed_widgets := ed_widgets ?e @ ws, ui_formLayout := l\<rparr> =
        e\<lparr>ed_widgets := ed_widgets e @ field_widget D v f # ws, ui_formLayout := l\<rparr>" for ws
      by (simp add: put_row_def)
    have i: "init_fields D m (f # fs) e = init_fields D m fs ?e" by (simp add: init_field_row [OF v])
    have "fs' = f # filter (\<lambda>f. rf_type R f \<noteq> TYPE_OTHER) fs" using False Cons.prems(2) by simp
    then show ?thesis unfolding i l(1) upd by (intro exI [of _ l]) (simp add: l(2) r v)
  qed
next
  case Nil
  then show ?case by (intro exI [of _ "ui_formLayout e"]) simp
qed

text \<open>What saving a run of rows does, whatever the widgets hold by then.\<close>

lemma save_rows_sets:
  assumes "rows (ui_formLayout e) = pre @ field_rows (rf_name R) fs n" "ed_widgets e = wpre @ ws" "length wpre = n"
    and "list_all2 (\<lambda>f w. \<forall>m. save_field D w f m = rf_Set R m f (val f)) fs ws"
    and "msg_ok m" "set fs \<subseteq> set (rf_fields R m)" "\<forall>f \<in> set fs. single f \<and> of_type (rf_type R f) (val f)"
  shows "save_rows D e (int (length pre)) (length fs) m = set_all R val fs m"
  using assms
proof (induction fs arbitrary: pre n wpre ws m)
  case (Cons f fs)
  obtain w ws' where ws: "ws = w # ws'" "\<forall>m. save_field D w f m = rf_Set R m f (val f)"
    "list_all2 (\<lambda>f w. \<forall>m. save_field D w f m = rf_Set R m f (val f)) fs ws'"
    using Cons.prems(4) by (auto simp: list_all2_Cons1)
  have at: "rows (ui_formLayout e) ! length pre = (Some (rf_name R f), Some n)" "length pre < length (rows (ui_formLayout e))"
    using Cons.prems(1) by simp_all
  have "n < length (ed_widgets e)" "ed_widgets e ! n = w"
    using Cons.prems(2,3) ws(1) by auto
  then have "save_row D e (int (length pre)) m = rf_Set R m f (val f)"
    using at row_label [of "int (length pre)" "ui_formLayout e"] row_field [of "int (length pre)" "ui_formLayout e"]
      find_field [OF Cons.prems(5), of f] Cons.prems(6) ws(2)
    by (simp add: save_row_def)
  moreover obtain m1 where m1: "rf_Set R m f (val f) = Some m1" "msg_ok m1" "rf_fields R m1 = rf_fields R m"
    using set_field [OF Cons.prems(5), of f "val f"] Cons.prems(6,7) by auto
  moreover have "save_rows D e (int (length (pre @ [(Some (rf_name R f), Some n)]))) (length fs) m1 = set_all R val fs m1"
    by (rule Cons.IH [where wpre = "wpre @ [w]" and n = "Suc n", OF _ _ _ ws(3) m1(2)])
       (use Cons.prems ws(1) m1(3) in simp_all)
  ultimately show ?case by (simp add: add.commute)
qed simp

text \<open>The form after \<open>initGui\<close>: the first rows as they were, then one for each field.\<close>

definition filled :: "CConfig \<Rightarrow> 'g \<Rightarrow> nat \<Rightarrow> ('w, 'l, 'g) ConfigEdit \<Rightarrow> ('w, 'l, 'g) ConfigEdit \<Rightarrow> bool" where
  "filled conf m b e e' \<longleftrightarrow> (let Q = dk_widgets D; fs = shown_fields R m in
     ed_message e' = Some m \<and> configRowCount e' = int b \<and> ed_config e' = Some conf \<and>
     ui_serviceIpLineEdit e' = line_setText Q (as_c_str (CConfig_serviceIp conf)) (ui_serviceIpLineEdit e) \<and>
     ui_serviceNameLineEdit e' = line_setText Q (as_c_str (CConfig_serviceName conf)) (ui_serviceNameLineEdit e) \<and>
     ui_servicePortSpinBox e' = spin_setValue Q (CConfig_servicePort conf) (ui_servicePortSpinBox e) \<and>
     ui_protoTextEdit e' = edit_setText Q (as_c_str (CConfig_proto conf)) (ui_protoTextEdit e) \<and>
     ed_widgets e' = ed_widgets e @ map (\<lambda>f. field_widget D (field_value_of m f) f) fs \<and>
     rows (ui_formLayout e') = take b (rows (ui_formLayout e)) @ field_rows (rf_name R) fs (length (ed_widgets e)))"

lemma initGui_fills:
  assumes "msg_ok m" "\<forall>f \<in> set (rf_fields R m). single f" "ed_message e = Some m" "ed_config e = Some conf"
    and "configRowCount e = int b" "b \<le> length (rows (ui_formLayout e))"
  shows "\<exists>e'. initGui D e = Some e' \<and> filled conf m b e e'"
proof -
  obtain l where l: "clear_rows (dk_form D) (int b) (ui_formLayout e) = Some l" "rows l = take b (rows (ui_formLayout e))"
    using clear_rows_ends [OF assms(6)] by blast
  let ?Q = "dk_widgets D"
  let ?e = "e\<lparr>ui_formLayout := l,
    ui_serviceIpLineEdit := line_setText ?Q (as_c_str (CConfig_serviceIp conf)) (ui_serviceIpLineEdit e),
    ui_serviceNameLineEdit := line_setText ?Q (as_c_str (CConfig_serviceName conf)) (ui_serviceNameLineEdit e),
    ui_servicePortSpinBox := spin_setValue ?Q (CConfig_servicePort conf) (ui_servicePortSpinBox e),
    ui_protoTextEdit := edit_setText ?Q (as_c_str (CConfig_proto conf)) (ui_protoTextEdit e),
    ui_typeLineEdit := line_setText ?Q (as_c_str (rf_GetTypeName R m)) (ui_typeLineEdit e)\<rparr>"
  have i: "initGui D e = init_fields D m (rf_fields R m) ?e"
    using assms(3-5) l(1) by (simp add: initGui_def Let_def)
  have "\<forall>f \<in> set (rf_fields R m). NUL \<notin> set (rf_name R f) \<and> (rf_type R f \<noteq> TYPE_OTHER \<longrightarrow>
      (\<exists>v. rf_Get R m f = Some v \<and> of_type (rf_type R f) v))"
    using name_text [OF assms(1)] get_kind [OF assms(1)] assms(2) by blast
  from init_fields_rows [OF this refl, of ?e] obtain l' where
    i': "initGui D e = Some (?e\<lparr>ed_widgets := ed_widgets e @ map (\<lambda>f. field_widget D (field_value_of m f) f) (shown_fields R m), ui_formLayout := l'\<rparr>)"
    and "rows l' = take b (rows (ui_formLayout e)) @ field_rows (rf_name R) (shown_fields R m) (length (ed_widgets e))"
    using l(2) by (auto simp: i shown_fields_def)
  then have "filled conf m b e (?e\<lparr>ed_widgets := ed_widgets e @ map (\<lambda>f. field_widget D (field_value_of m f) f) (shown_fields R m), ui_formLayout := l'\<rparr>)"
    using assms(3-5) by (simp add: filled_def Let_def)
  with i' show ?thesis by blast
qed

lemma shown_fields_sub:
  assumes "msg_ok m"
  shows "set (shown_fields R m) \<subseteq> set (rf_fields R m)" "distinct (shown_fields R m)"
  using distinct_names [OF assms] by (auto simp: shown_fields_def distinct_map)

text \<open>Saving after the user has changed the widgets: \<open>val\<close> is what they hold.\<close>

lemma filled_saves:
  assumes "filled conf m b e e1" "ui_formLayout e2 = ui_formLayout e1" "configRowCount e2 = configRowCount e1"
    and "ed_widgets e2 = ed_widgets e @ ws" "b \<le> length (rows (ui_formLayout e))"
    and "list_all2 (\<lambda>f w. \<forall>m. save_field D w f m = rf_Set R m f (val f)) (shown_fields R m) ws"
    and "msg_ok m" "\<forall>f \<in> set (rf_fields R m). single f" "\<forall>f \<in> set (shown_fields R m). of_type (rf_type R f) (val f)"
  shows "save_rows D e2 (configRowCount e2) (nat (form_rowCount (dk_form D) (ui_formLayout e2) - configRowCount e2)) m =
    set_all R val (shown_fields R m) m"
proof -
  let ?fs = "shown_fields R m"
  have r: "rows (ui_formLayout e2) = take b (rows (ui_formLayout e)) @ field_rows (rf_name R) ?fs (length (ed_widgets e))"
    "configRowCount e2 = int b"
    using assms(1-3) by (simp_all add: filled_def Let_def)
  have b: "length (take b (rows (ui_formLayout e))) = b" using assms(5) by simp
  have "nat (form_rowCount (dk_form D) (ui_formLayout e2) - configRowCount e2) = length ?fs"
    using assms(5) by (simp add: row_count r)
  moreover have "save_rows D e2 (int (length (take b (rows (ui_formLayout e))))) (length ?fs) m = set_all R val ?fs m"
    by (rule save_rows_sets [OF r(1) assms(4) refl assms(6,7)])
       (use shown_fields_sub [OF assms(7)] assms(8,9) in auto)
  ultimately show ?thesis using r(2) b by simp
qed

end

end
