(* ===== verification/EditForm_Props.thy ===== *)
theory EditForm_Props
  imports EditForm_Facts ConfigClient_Props Login_Props
begin

text \<open>
  What the dialog guarantees: a configuration that is opened and saved comes back as the form
  shows it. The laws of \<open>EditForm_Facts\<close> are interpreted on a small Qt written after its
  documentation and on the message \<open>CMsgHead\<close> of the platform, the first one of \<open>cmsgcom.proto\<close>.
\<close>

section \<open>A small Qt and a message\<close>

datatype sample_widget = Spin int32 int32 int32 | Dspin int int | Line string | TextEdit string
  | Combo "(string \<times> (bool + int32)) list" int

fun sample_limits :: "sample_widget \<Rightarrow> int32 \<times> int32" where
  "sample_limits (Spin lo hi v) = (lo, hi)"
| "sample_limits _ = (0, 0)"

fun sample_items :: "sample_widget \<Rightarrow> (string \<times> (bool + int32)) list" where
  "sample_items (Combo its i) = its"
| "sample_items _ = []"

fun sample_idx :: "sample_widget \<Rightarrow> int" where
  "sample_idx (Combo its i) = i"
| "sample_idx _ = -1"

text \<open>Doubles are counted in thousandths; a double box shows two decimals, from 0 to its maximum.\<close>

definition sample_shown :: "int \<Rightarrow> int \<Rightarrow> int" where
  "sample_shown X x = max 0 (min X (x div 10 * 10))"

definition sample_current :: "sample_widget \<Rightarrow> (bool + int32) option" where
  "sample_current w = (if 0 \<le> sample_idx w \<and> nat (sample_idx w) < length (sample_items w)
     then Some (snd (sample_items w ! nat (sample_idx w))) else None)"

definition sample_qt :: "(sample_widget, int) qt_widgets" where
  "sample_qt = \<lparr>
     new_QSpinBox = Spin 0 99 0,
     is_QSpinBox = \<lambda>w. (case w of Spin _ _ _ \<Rightarrow> True | _ \<Rightarrow> False),
     spin_setMaximum = \<lambda>M w. (case w of Spin lo hi v \<Rightarrow> let lo = (if sint M < sint lo then M else lo) in Spin lo M (clamp (lo, M) v) | w \<Rightarrow> w),
     spin_setValue = \<lambda>v w. (case w of Spin lo hi _ \<Rightarrow> Spin lo hi (clamp (lo, hi) v) | w \<Rightarrow> w),
     spin_value = \<lambda>w. (case w of Spin _ _ v \<Rightarrow> v | _ \<Rightarrow> 0),
     new_QDoubleSpinBox = Dspin 99990 0,
     is_QDoubleSpinBox = \<lambda>w. (case w of Dspin _ _ \<Rightarrow> True | _ \<Rightarrow> False),
     dspin_setMaximum = \<lambda>X w. (case w of Dspin _ x \<Rightarrow> Dspin X (min X x) | w \<Rightarrow> w),
     dspin_setValue = \<lambda>x w. (case w of Dspin X _ \<Rightarrow> Dspin X (sample_shown X x) | w \<Rightarrow> w),
     dspin_value = \<lambda>w. (case w of Dspin _ x \<Rightarrow> x | _ \<Rightarrow> 0),
     new_QLineEdit = Line [],
     is_QLineEdit = \<lambda>w. (case w of Line _ \<Rightarrow> True | _ \<Rightarrow> False),
     line_setText = \<lambda>t w. (case w of Line _ \<Rightarrow> Line t | w \<Rightarrow> w),
     line_text = \<lambda>w. (case w of Line t \<Rightarrow> t | _ \<Rightarrow> []),
     new_QComboBox = Combo [] (-1),
     is_QComboBox = \<lambda>w. (case w of Combo _ _ \<Rightarrow> True | _ \<Rightarrow> False),
     combo_addItem = \<lambda>t d w. (case w of Combo its i \<Rightarrow> Combo (its @ [(t, d)]) (if its = [] then 0 else i) | w \<Rightarrow> w),
     combo_setCurrentIndex = \<lambda>i w. (case w of Combo its _ \<Rightarrow> Combo its i | w \<Rightarrow> w),
     combo_findData = \<lambda>v w. item_index v (sample_items w) 0,
     combo_toBool = \<lambda>w. (case sample_current w of Some (Inl b) \<Rightarrow> b | _ \<Rightarrow> False),
     combo_toInt = \<lambda>w. (case sample_current w of Some (Inr v) \<Rightarrow> v | _ \<Rightarrow> 0),
     edit_setText = \<lambda>t w. TextEdit t,
     edit_toPlainText = \<lambda>w. (case w of TextEdit t \<Rightarrow> t | _ \<Rightarrow> [])\<rparr>"

definition sample_form :: "(string option \<times> nat option) list qt_form" where
  "sample_form = \<lparr>
     form_rowCount = \<lambda>l. int (length l),
     form_addRow = \<lambda>t r l. l @ [(Some t, Some r)],
     form_removeRow = \<lambda>i l. take (nat i) l @ drop (Suc (nat i)) l,
     form_label = \<lambda>l i. (if 0 \<le> i \<and> nat i < length l then fst (l ! nat i) else None),
     form_field = \<lambda>l i. (if 0 \<le> i \<and> nat i < length l then snd (l ! nat i) else None)\<rparr>"

definition sample_floats :: "(int, int) floats" where
  "sample_floats = \<lparr>fl_DBL_MAX = 10 ^ 15, fl_FLT_MAX = 10 ^ 12, fl_widen = (\<lambda>x. x), fl_narrow = (\<lambda>x. x)\<rparr>"

text \<open>The message \<open>CMsgHead\<close> with its enum \<open>CMsgType\<close>.\<close>

datatype head_field = F_size | F_type | F_token | F_service | F_id

definition CMsgType_values :: "(string \<times> int32) list" where
  "CMsgType_values = [(''NONE_DO_NOT_USE'', 0), (''MSG_LOGIN_REQ'', MSG_LOGIN_REQ), (''MSG_LOGIN_RES'', MSG_LOGIN_RES),
     (''MSG_DIR_REQ'', MSG_DIR_REQ), (''MSG_DIR_RES'', MSG_DIR_RES), (''MSG_REGISTER_REQ'', MSG_REGISTER_REQ),
     (''MSG_REGISTER_RES'', MSG_REGISTER_RES), (''MSG_GET_SERVICE_REQ'', MSG_GET_SERVICE_REQ),
     (''MSG_GET_SERVICE_RES'', MSG_GET_SERVICE_RES), (''MSG_UPLOAD_CONFIG_REQ'', MSG_UPLOAD_CONFIG_REQ),
     (''MSG_UPLOAD_CONFIG_RES'', MSG_UPLOAD_CONFIG_RES), (''MSG_DOWNLOAD_CONFIG_REQ'', MSG_DOWNLOAD_CONFIG_REQ),
     (''MSG_DOWNLOAD_CONFIG_RES'', MSG_DOWNLOAD_CONFIG_RES), (''MSG_DOWNLOAD_ALL_CONFIG_REQ'', MSG_DOWNLOAD_ALL_CONFIG_REQ),
     (''MSG_DOWNLOAD_ALL_CONFIG_RES'', MSG_DOWNLOAD_ALL_CONFIG_RES), (''MSG_DELETE_CONFIG_REQ'', MSG_DELETE_CONFIG_REQ),
     (''MSG_DELETE_CONFIG_RES'', MSG_DELETE_CONFIG_RES), (''MSG_ADD_USER_REQ'', MSG_ADD_USER_REQ),
     (''MSG_ADD_USER_RES'', MSG_ADD_USER_RES), (''MSG_ADD_LOG_REQ'', MSG_ADD_LOG_REQ),
     (''MSG_HEART_REQ'', MSG_HEART_REQ), (''MSG_MAX_TYPE'', 65535)]"

fun head_name :: "head_field \<Rightarrow> string" where
  "head_name F_size = ''msg_size''"
| "head_name F_type = ''msg_type''"
| "head_name F_token = ''token''"
| "head_name F_service = ''service_name''"
| "head_name F_id = ''msg_id''"

fun head_type :: "head_field \<Rightarrow> field_type" where
  "head_type F_size = TYPE_INT32"
| "head_type F_type = TYPE_ENUM"
| "head_type F_id = TYPE_INT64"
| "head_type _ = TYPE_STRING"

fun head_get :: "CMsgHead \<Rightarrow> head_field \<Rightarrow> (int, int) field_value" where
  "head_get m F_size = V_Int32 (msg_size m)"
| "head_get m F_type = V_Enum (msg_type m)"
| "head_get m F_token = V_String (token m)"
| "head_get m F_service = V_String (service_name m)"
| "head_get m F_id = V_Int64 (msg_id m)"

fun head_set :: "CMsgHead \<Rightarrow> head_field \<Rightarrow> (int, int) field_value \<Rightarrow> CMsgHead option" where
  "head_set m F_size (V_Int32 v) = Some (m\<lparr>msg_size := v\<rparr>)"
| "head_set m F_type (V_Enum v) = Some (m\<lparr>msg_type := v\<rparr>)"
| "head_set m F_token (V_String v) = Some (m\<lparr>token := v\<rparr>)"
| "head_set m F_service (V_String v) = Some (m\<lparr>service_name := v\<rparr>)"
| "head_set m F_id (V_Int64 v) = Some (m\<lparr>msg_id := v\<rparr>)"
| "head_set m f v = None"

definition head_fields :: "head_field list" where
  "head_fields = [F_size, F_type, F_token, F_service, F_id]"

definition head_reflection :: "pb_rt \<Rightarrow> (CMsgHead, head_field, int, int) reflection_api" where
  "head_reflection rt = \<lparr>
     msg_ParseFromString = \<lambda>bytes m. (case CMsgHead_ParseFromArray rt bytes of None \<Rightarrow> (False, m) | Some m \<Rightarrow> (True, m)),
     msg_SerializePartial = CMsgHead_Serialize,
     msg_FindFieldByName = \<lambda>_ key. find (\<lambda>f. head_name f = key) head_fields,
     msg_GetInt32 = \<lambda>m f. (case head_get m f of V_Int32 v \<Rightarrow> Some v | _ \<Rightarrow> None),
     msg_GetString = \<lambda>m f. (case head_get m f of V_String v \<Rightarrow> Some v | _ \<Rightarrow> None),
     msg_GetBool = \<lambda>m f. None,
     rf_fields = \<lambda>_. head_fields,
     rf_name = head_name,
     rf_type = head_type,
     rf_enum_values = \<lambda>f. (if f = F_type then CMsgType_values else []),
     rf_GetTypeName = \<lambda>_. ''cmsg.CMsgHead'',
     rf_Get = \<lambda>m f. Some (head_get m f),
     rf_Set = head_set,
     rf_SerializeAsString = CMsgHead_Serialize\<rparr>"

lemma head_reflection_sel [simp]:
  "rf_fields (head_reflection rt) m = head_fields" "rf_name (head_reflection rt) = head_name"
  "rf_type (head_reflection rt) = head_type" "rf_Get (head_reflection rt) m f = Some (head_get m f)"
  "rf_Set (head_reflection rt) = head_set" "rf_SerializeAsString (head_reflection rt) = CMsgHead_Serialize"
  "rf_enum_values (head_reflection rt) f = (if f = F_type then CMsgType_values else [])"
  by (simp_all add: head_reflection_def)

definition sample_desktop ::
    "(sample_widget, (string option \<times> nat option) list, int, int, CMsgHead, head_field) desktop" where
  "sample_desktop = \<lparr>dk_widgets = sample_qt, dk_form = sample_form, dk_reflection = head_reflection ref_rt,
     dk_floats = sample_floats\<rparr>"

lemma head_set_get:
  "of_type (head_type f) v \<Longrightarrow> \<exists>m'. head_set m f v = Some m' \<and> head_get m' f = v \<and> (\<forall>f'. f' \<noteq> f \<longrightarrow> head_get m' f' = head_get m f')"
  by (cases f; cases v) (auto, (case_tac f', auto)+)

lemma head_set_same: "head_set m f (head_get m f) = Some m"
  by (cases f) simp_all

interpretation head_form: reflection "head_reflection ref_rt" "\<lambda>_. True" "\<lambda>_. True"
proof (unfold_locales, goal_cases)
  case (2 m f)
  then show ?case by (cases f) (simp_all add: head_reflection_def NUL_def)
next
  case (3 m f)
  then show ?case by (cases f) (simp_all add: head_reflection_def head_fields_def)
next
  case (4 m f)
  then show ?case by (cases f) (simp_all add: head_reflection_def)
next
  case (5 m f v)
  then have "of_type (head_type f) v" by (simp add: head_reflection_def)
  from head_set_get [OF this, of m] show ?case by (auto simp: head_reflection_def)
next
  case (6 m f v)
  then show ?case using head_set_same [of m f] by (auto simp: head_reflection_def)
qed (simp add: head_reflection_def head_fields_def)

interpretation sample_box: widgets sample_qt sample_limits sample_items sample_idx sample_shown "\<lambda>t. t" "\<lambda>t. t"
proof (unfold_locales, goal_cases)
  case (3 w M)
  then show ?case by (cases w) (auto simp: sample_qt_def Let_def)
next
  case (4 w v)
  then show ?case by (cases w) (auto simp: sample_qt_def)
next
  case (8 w t)
  then show ?case by (cases w) (auto simp: sample_qt_def)
next
  case (12 w t d)
  then show ?case by (cases w) (auto simp: sample_qt_def)
next
  case (13 w i)
  then show ?case by (cases w) (auto simp: sample_qt_def)
next
  case (15 w b)
  then show ?case by (cases w) (auto simp: sample_qt_def sample_current_def)
next
  case (16 w v)
  then show ?case by (cases w) (auto simp: sample_qt_def sample_current_def)
next
  case (17 w)
  then show ?case by (cases w) (auto simp: sample_qt_def sample_current_def)
qed (simp_all add: sample_qt_def)

interpretation sample_rows: form_layout sample_form "\<lambda>l. l"
  by unfold_locales (auto simp: sample_form_def nat_less_iff)

interpretation sample_edit: edit_form sample_desktop "\<lambda>_. True" "\<lambda>_. True" sample_limits sample_items
    sample_idx sample_shown "\<lambda>t. t" "\<lambda>t. t" "\<lambda>l. l"
  unfolding edit_form_def sample_desktop_def desktop.select_convs
  by (intro conjI head_form.reflection_axioms sample_box.widgets_axioms sample_rows.form_layout_axioms)

section \<open>Filling and saving\<close>

text \<open>The configuration that is uploaded, from what the form shows of \<open>conf\<close>.\<close>

definition shown_config :: "(string \<Rightarrow> string) \<Rightarrow> (string \<Rightarrow> string) \<Rightarrow> int32 \<times> int32 \<Rightarrow> CConfig \<Rightarrow> string \<Rightarrow> CConfig" where
  "shown_config st sp r conf pb = CConfig_Clear\<lparr>CConfig_serviceName := st (as_c_str (CConfig_serviceName conf)),
     CConfig_serviceIp := st (as_c_str (CConfig_serviceIp conf)), CConfig_servicePort := clamp r (CConfig_servicePort conf),
     CConfig_proto := sp (as_c_str (CConfig_proto conf)), CConfig_privatePb := pb\<rparr>"

text \<open>The fixed part of the dialog, as the generated code sets it up.\<close>

definition dialog_ok :: "('w, 'd) qt_widgets \<Rightarrow> ('w \<Rightarrow> int32 \<times> int32) \<Rightarrow> ('w, 'l, 'g) ConfigEdit \<Rightarrow> bool" where
  "dialog_ok Q limits e \<longleftrightarrow> is_QLineEdit Q (ui_serviceNameLineEdit e) \<and> is_QLineEdit Q (ui_serviceIpLineEdit e) \<and>
     is_QSpinBox Q (ui_servicePortSpinBox e) \<and> limits (ui_servicePortSpinBox e) = (1, 65535)"

definition all_shown :: "(string \<Rightarrow> string) \<Rightarrow> (string \<Rightarrow> string) \<Rightarrow> CConfig \<Rightarrow> bool" where
  "all_shown st sp conf \<longleftrightarrow> st (as_c_str (CConfig_serviceName conf)) \<noteq> [] \<and> st (as_c_str (CConfig_serviceIp conf)) \<noteq> [] \<and>
     sp (as_c_str (CConfig_proto conf)) \<noteq> []"

context edit_form
begin

lemma save_uploads:
  assumes f: "filled conf m b e e1" and d: "dialog_ok (dk_widgets D) limits e" and s: "all_shown shown_t shown_p conf"
    and b: "b \<le> length (rows (ui_formLayout e))" and m: "msg_ok m" "\<forall>f \<in> set (rf_fields R m). single f"
    and e2: "e2 = e1\<lparr>ed_widgets := ed_widgets e @ ws\<rparr>"
    and ws: "list_all2 (\<lambda>f w. \<forall>m. save_field D w f m = rf_Set R m f (val f)) (shown_fields R m) ws"
    and v: "\<forall>f \<in> set (shown_fields R m). of_type (rf_type R f) (val f)"
  shows "\<exists>e3 m'. ConfigEdit_save P D e2 c = Some (e3, CConfigClient_uploadConfig P
        (Some (shown_config shown_t shown_p (1, 65535) conf (rf_SerializeAsString R m'))) c) \<and>
      ed_message e3 = Some m' \<and> (\<forall>f \<in> set (shown_fields R m). rf_Get R m' f = Some (val f)) \<and>
      ((\<forall>f \<in> set (shown_fields R m). rf_Get R m f = Some (val f)) \<longrightarrow> m' = m)"
proof -
  note sub = shown_fields_sub [OF m(1)]
  have "save_rows D e2 (configRowCount e2) (nat (form_rowCount (dk_form D) (ui_formLayout e2) - configRowCount e2)) m =
      set_all R val (shown_fields R m) m"
    by (rule filled_saves [OF f _ _ _ b ws m v]) (simp_all add: e2)
  moreover obtain m' where m': "set_all R val (shown_fields R m) m = Some m'"
    "\<forall>f \<in> set (shown_fields R m). rf_Get R m' f = Some (val f)"
    using set_all_sets [OF m(1) sub(2,1)] m(2) sub(1) v by blast
  moreover have "m' = m" if g: "\<forall>f \<in> set (shown_fields R m). rf_Get R m f = Some (val f)"
  proof -
    have "\<forall>f \<in> set (shown_fields R m). single f \<and> rf_Get R m f = Some (val f)" using g m(2) sub(1) by blast
    from set_all_same [OF m(1) sub(1) this] m'(1) show ?thesis by simp
  qed
  moreover have "line_text (dk_widgets D) (ui_serviceNameLineEdit e2) = shown_t (as_c_str (CConfig_serviceName conf))"
    "line_text (dk_widgets D) (ui_serviceIpLineEdit e2) = shown_t (as_c_str (CConfig_serviceIp conf))"
    "edit_toPlainText (dk_widgets D) (ui_protoTextEdit e2) = shown_p (as_c_str (CConfig_proto conf))"
    "spin_value (dk_widgets D) (ui_servicePortSpinBox e2) = clamp (1, 65535) (CConfig_servicePort conf)"
    "ed_message e2 = Some m"
    using f d by (simp_all add: e2 filled_def dialog_ok_def Let_def line_set edit_set spin_set)
  ultimately show ?thesis
    using s by (simp add: ConfigEdit_save_def Let_def all_shown_def shown_config_def)
qed

text \<open>What the widgets of a form that the user left alone put into the message.\<close>

abbreviation kept_value where "kept_value m f \<equiv> shown f (field_value_of m f)"

lemma untouched_widgets:
  assumes "msg_ok m" "\<forall>f \<in> set (rf_fields R m). single f"
  shows "list_all2 (\<lambda>f w. \<forall>m'. save_field D w f m' = rf_Set R m' f (kept_value m f)) (shown_fields R m)
      (map (\<lambda>f. field_widget D (field_value_of m f) f) (shown_fields R m))"
    "\<forall>f \<in> set (shown_fields R m). of_type (rf_type R f) (field_value_of m f) \<and> rf_Get R m f = Some (field_value_of m f)"
proof -
  show t: "\<forall>f \<in> set (shown_fields R m). of_type (rf_type R f) (field_value_of m f) \<and> rf_Get R m f = Some (field_value_of m f)"
  proof
    fix f assume f: "f \<in> set (shown_fields R m)"
    then have "f \<in> set (rf_fields R m)" "rf_type R f \<noteq> TYPE_OTHER" by (simp_all add: shown_fields_def)
    with get_kind [OF assms(1), of f] assms(2)
    show "of_type (rf_type R f) (field_value_of m f) \<and> rf_Get R m f = Some (field_value_of m f)" by auto
  qed
  show "list_all2 (\<lambda>f w. \<forall>m'. save_field D w f m' = rf_Set R m' f (kept_value m f)) (shown_fields R m)
      (map (\<lambda>f. field_widget D (field_value_of m f) f) (shown_fields R m))"
    using t by (simp add: list_all2_map2 list_all2_same save_widget)
qed

lemma untouched_form_saves:
  assumes "filled conf m b e e1" "dialog_ok (dk_widgets D) limits e" "all_shown shown_t shown_p conf"
    and "b \<le> length (rows (ui_formLayout e))" "msg_ok m" "\<forall>f \<in> set (rf_fields R m). single f"
  shows "\<exists>e3 m'. ConfigEdit_save P D e1 c = Some (e3, CConfigClient_uploadConfig P
        (Some (shown_config shown_t shown_p (1, 65535) conf (rf_SerializeAsString R m'))) c) \<and>
      ed_message e3 = Some m' \<and>
      (\<forall>f \<in> set (shown_fields R m). \<exists>v. rf_Get R m f = Some v \<and> rf_Get R m' f = Some (shown f v)) \<and>
      ((\<forall>f \<in> set (shown_fields R m). \<exists>v. rf_Get R m f = Some v \<and> shown f v = v) \<longrightarrow> m' = m)"
proof -
  note w = untouched_widgets [OF assms(5,6)]
  have e: "e1 = e1\<lparr>ed_widgets := ed_widgets e @ map (\<lambda>f. field_widget D (field_value_of m f) f) (shown_fields R m)\<rparr>"
    using assms(1) by (simp add: filled_def Let_def)
  have "\<forall>f \<in> set (shown_fields R m). of_type (rf_type R f) (kept_value m f)" using w(2) by simp
  from save_uploads [OF assms e w(1) this, of P c] w(2) show ?thesis by fastforce
qed

end

section \<open>Opening a configuration\<close>

text \<open>The first of the hundred calls of \<open>getConfig\<close>, with ten polls each, that finds something finds \<open>conf\<close>.\<close>

definition first_found :: "(nat \<Rightarrow> nat \<Rightarrow> string \<rightharpoonup> CConfig) \<Rightarrow> string \<Rightarrow> CConfig \<Rightarrow> bool" where
  "first_found maps key conf \<longleftrightarrow> (\<exists>k < 100. \<exists>j < 10. maps k j key = Some conf \<and> (\<forall>j' < j. maps k j' key = None) \<and>
     (\<forall>i < k. \<forall>j' < 10. maps i j' key = None))"

lemma config_loop_finds:
  "maps (i + k) j (conf_key ip port) = Some conf \<Longrightarrow> \<forall>j' < j. maps (i + k) j' (conf_key ip port) = None \<Longrightarrow> j < 10 \<Longrightarrow>
   \<forall>i' < k. \<forall>j' < 10. maps (i + i') j' (conf_key ip port) = None \<Longrightarrow> k < n \<Longrightarrow>
   config_loop maps ip port i n out = (True, conf)"
proof (induction n arbitrary: i k)
  case (Suc n)
  show ?case
  proof (cases k)
    case 0
    with Suc.prems have "CConfigClient_getConfig (maps i) ip port out 100 = (True, conf, j)"
      by (intro getConfig_finds) simp_all
    then show ?thesis by simp
  next
    case (Suc k')
    have "\<forall>j' < 10. maps i j' (conf_key ip port) = None" using Suc.prems(4) Suc by (metis add_0_right zero_less_Suc)
    then have "poll (\<lambda>j. maps i j (conf_key ip port)) 0 10 = (None, 10)"
      using poll_none [of 10 "\<lambda>j. maps i j (conf_key ip port)" 0] by simp
    then have "CConfigClient_getConfig (maps i) ip port out 100 = (False, out, 10)"
      by (simp add: CConfigClient_getConfig_def ms_polls_pos)
    moreover have "config_loop maps ip port (Suc i) n out = (True, conf)"
    proof (rule Suc.IH)
      show "maps (Suc i + k') j (conf_key ip port) = Some conf" "\<forall>j' < j. maps (Suc i + k') j' (conf_key ip port) = None"
        "j < 10" "k' < n" using Suc.prems Suc by simp_all
      show "\<forall>i' < k'. \<forall>j' < 10. maps (Suc i + i') j' (conf_key ip port) = None"
      proof (intro allI impI)
        fix i' j' :: nat assume "i' < k'" "j' < 10"
        with Suc.prems(4) Suc have "maps (i + Suc i') j' (conf_key ip port) = None" by blast
        then show "maps (Suc i + i') j' (conf_key ip port) = None" by simp
      qed
    qed
    ultimately show ?thesis by simp
  qed
qed simp

lemma first_found_loop: "first_found maps (conf_key ip port) conf \<Longrightarrow> config_loop maps ip port 0 100 out = (True, conf)"
  unfolding first_found_def by (elim exE conjE) (rule config_loop_finds, simp_all)

lemma downloadConfig_bev: "only_bev c (CConfigClient_downloadConfig P ip port c)"
  by (simp add: CConfigClient_downloadConfig_def Let_def sendMsg_type_bev)

lemma downloadConfig_message [simp]: "cf_message (CConfigClient_downloadConfig P ip port c) = cf_message c"
  using downloadConfig_bev [of c P ip port] unfolding only_bev_def by (elim exE conjE) simp

lemma dialog_opens:
  assumes "ConfigEdit_new L ui c0 = (e, c)"
  shows "ed_config e = Some CConfig_Clear" "configRowCount e = form_rowCount L (ui_formLayout ui)"
    "ui_formLayout e = ui_formLayout ui" "cf_message c = cf_message c0" "dialog_ok Q limits e = dialog_ok Q limits ui"
    "c = c0\<lparr>uploadConfigResCb := True\<rparr>"
  using assms by (auto simp: ConfigEdit_new_def Let_def dialog_ok_def)

text \<open>What a load does when the configuration is found and its message can be parsed.\<close>

context edit_form
begin

lemma loadConfig_fills:
  assumes "ConfigEdit_new (dk_form D) ui c0 = (e, c)" "cf_message c0 = None"
    and "first_found maps (conf_key ip port) conf" "CConfig_proto conf \<noteq> []"
    and "pl_import_from pl ((conf_disk s)(tmp_proto \<mapsto> CConfig_proto conf)) (PB_ROOT @ tmp_proto) = Some fd"
    and "fd_messages fd = desc # ds"
    and "msg_ParseFromString R (CConfig_privatePb conf) (pl_instance pl desc) = (True, m)"
    and "msg_ok m" "\<forall>f \<in> set (rf_fields R m). single f"
  obtains e0 e1 where "loadConfig P D pl True maps ip port s e c = Some (Inr (True,
        s\<lparr>conf_disk := (conf_disk s)(tmp_proto \<mapsto> CConfig_proto conf)\<rparr>, e1,
        (CConfigClient_downloadConfig P (Some ip) port c)\<lparr>cf_message := Some desc\<rparr>))"
    and "filled conf m (length (rows (ui_formLayout ui))) e0 e1"
    and "ui_formLayout e0 = ui_formLayout ui" "dialog_ok (dk_widgets D) limits e0 = dialog_ok (dk_widgets D) limits ui"
proof -
  note n = dialog_opens [OF assms(1)]
  let ?s = "s\<lparr>conf_disk := (conf_disk s)(tmp_proto \<mapsto> CConfig_proto conf)\<rparr>"
  let ?c = "CConfigClient_downloadConfig P (Some ip) port c"
  let ?e = "e\<lparr>ed_config := Some conf, ed_message := Some m\<rparr>"
  have "cf_message ?c = None" using n(4) assms(2) by simp
  then obtain code where "loadProto (pl_import_from pl (conf_disk ?s)) (pl_findType pl) tmp_proto [] [] ?c =
      Inr (Some desc, code, ?c\<lparr>cf_message := Some desc\<rparr>)"
    using assms(5,6) by (auto simp: loadProto_def Let_def)
  then have l: "loadConfig P D pl True maps ip port s e c = map_option (\<lambda>e. Inr (True, ?s, e, ?c\<lparr>cf_message := Some desc\<rparr>)) (initGui D ?e)"
    using first_found_loop [OF assms(3)] assms(4,7) n(1) by (simp add: loadConfig_def Let_def bind_call_def)
  obtain e1 where "initGui D ?e = Some e1" "filled conf m (length (rows (ui_formLayout ui))) ?e e1"
    using initGui_fills [OF assms(8,9), of ?e conf "length (rows (ui_formLayout ui))"] n(2,3) by (auto simp: row_count)
  moreover have "dialog_ok (dk_widgets D) limits ?e = dialog_ok (dk_widgets D) limits ui"
    using n(5) [of "dk_widgets D" limits] by (simp add: dialog_ok_def)
  ultimately show thesis by (intro that [of e1 ?e]) (simp_all add: l n(3))
qed

end

text \<open>The user types a text into the line edit of one field.\<close>

definition typed_text :: "('w, 'd) qt_widgets \<Rightarrow> nat \<Rightarrow> string \<Rightarrow> ('w, 'l, 'g) ConfigEdit \<Rightarrow> ('w, 'l, 'g) ConfigEdit" where
  "typed_text Q k t e = e\<lparr>ed_widgets := (ed_widgets e)[k := line_setText Q t (ed_widgets e ! k)]\<rparr>"

context edit_form
begin

lemma typed_form_saves:
  assumes f: "filled conf m b e e1" and "dialog_ok (dk_widgets D) limits e" "all_shown shown_t shown_p conf"
    and "b \<le> length (rows (ui_formLayout e))" and m: "msg_ok m" "\<forall>f \<in> set (rf_fields R m). single f"
    and i: "i < length (shown_fields R m)" "shown_fields R m ! i = f" "rf_type R f = TYPE_STRING \<or> rf_type R f = TYPE_BYTES"
  shows "\<exists>e3 m'. ConfigEdit_save P D (typed_text (dk_widgets D) (length (ed_widgets e) + i) t e1) c =
        Some (e3, CConfigClient_uploadConfig P
          (Some (shown_config shown_t shown_p (1, 65535) conf (rf_SerializeAsString R m'))) c) \<and>
      ed_message e3 = Some m' \<and> rf_Get R m' f = Some (V_String (shown_t t)) \<and>
      (\<forall>f' \<in> set (shown_fields R m) - {f}. \<exists>v. rf_Get R m f' = Some v \<and> rf_Get R m' f' = Some (shown f' v))"
proof -
  let ?fs = "shown_fields R m" and ?Q = "dk_widgets D"
  let ?w = "\<lambda>f. field_widget D (field_value_of m f) f"
  let ?ws = "(map ?w ?fs)[i := line_setText ?Q t (?w f)]"
  let ?val = "\<lambda>f'. if f' = f then V_String (shown_t t) else kept_value m f'"
  note u = untouched_widgets [OF m]
  have d: "distinct ?fs" by (rule shown_fields_sub(2) [OF m(1)])
  have "of_type (rf_type R f) (field_value_of m f)" using u(2) i(1,2) by (metis nth_mem)
  with i(3) obtain s where s: "field_value_of m f = V_String s" by (cases "field_value_of m f") auto
  have line: "is_QLineEdit ?Q (?w f)" unfolding s using line_set [OF line_new] by (simp add: field_widget_def Let_def)
  have saves: "save_field D (line_setText ?Q t (?w f)) f m' = rf_Set R m' f (V_String (shown_t t))" for m'
    using line_set [OF line, of t] i(3) by (auto simp: save_field_def Let_def)
  have ws: "list_all2 (\<lambda>f w. \<forall>m'. save_field D w f m' = rf_Set R m' f (?val f)) ?fs ?ws"
  proof (rule list_all2_all_nthI)
    fix j assume j: "j < length ?fs"
    show "\<forall>m'. save_field D (?ws ! j) (?fs ! j) m' = rf_Set R m' (?fs ! j) (?val (?fs ! j))"
    proof (cases "j = i")
      case True
      with j i(2) saves show ?thesis by simp
    next
      case False
      then have "?fs ! j \<noteq> f" using d j i(1,2) nth_eq_iff_index_eq by metis
      with False j list_all2_nthD [OF u(1) j] show ?thesis by simp
    qed
  qed simp
  have e: "typed_text (dk_widgets D) (length (ed_widgets e) + i) t e1 = e1\<lparr>ed_widgets := ed_widgets e @ ?ws\<rparr>"
    using f i(1,2) by (simp add: typed_text_def filled_def Let_def nth_append list_update_append)
  have v: "\<forall>f' \<in> set ?fs. of_type (rf_type R f') (?val f')" using u(2) i(3) by auto
  have "f \<in> set ?fs" using i(1,2) nth_mem by blast
  moreover obtain e3 m' where "ConfigEdit_save P D (typed_text (dk_widgets D) (length (ed_widgets e) + i) t e1) c = Some (e3,
      CConfigClient_uploadConfig P (Some (shown_config shown_t shown_p (1, 65535) conf (rf_SerializeAsString R m'))) c)"
    "ed_message e3 = Some m'" "\<forall>f' \<in> set ?fs. rf_Get R m' f' = Some (?val f')"
    using save_uploads [OF assms(1-4) m e ws v, of P c] by blast
  ultimately show ?thesis using u(2) by (intro exI [of _ e3] exI [of _ m'] conjI ballI) auto
qed

end

section \<open>A sample dialog\<close>

definition edited_head :: CMsgHead where
  "edited_head = CMsgHead_Clear\<lparr>msg_size := -5, msg_type := MSG_LOGIN_REQ, token := ''t'', msg_id := 7\<rparr>"

definition sample_opened :: CConfig where
  "sample_opened = CConfig_Clear\<lparr>CConfig_serviceName := ''auth'', CConfig_serviceIp := ''10.0.0.7'', CConfig_servicePort := 80,
     CConfig_proto := ''message'', CConfig_privatePb := CMsgHead_Serialize edited_head\<rparr>"

definition sample_ui :: "(sample_widget, (string option \<times> nat option) list, CMsgHead) ConfigEdit" where
  "sample_ui = \<lparr>ui_formLayout = [(Some ''type'', None), (Some ''name'', None)], ui_typeLineEdit = Line [],
     ui_serviceNameLineEdit = Line [], ui_serviceIpLineEdit = Line [], ui_servicePortSpinBox = Spin 1 65535 1,
     ui_protoTextEdit = TextEdit [], ed_widgets = [], configRowCount = 0, ed_message = None, ed_config = None,
     ed_boxes = [], ed_accepted = False\<rparr>"

definition head_desc :: message_desc where
  "head_desc = \<lparr>md_fields = [], md_DebugString = ''message CMsgHead''\<rparr>"

definition sample_loader :: "CMsgHead proto_loader" where
  "sample_loader = \<lparr>
     pl_import_from = \<lambda>files path. (if path = PB_ROOT @ tmp_proto \<and> files tmp_proto \<noteq> None
       then Some \<lparr>fd_syntax = ''proto3'', fd_package = ''cmsg'', fd_messages = [head_desc]\<rparr> else None),
     pl_findType = \<lambda>_. None, pl_instance = \<lambda>_. CMsgHead_Clear\<rparr>"

definition sample_maps :: "nat \<Rightarrow> nat \<Rightarrow> string \<rightharpoonup> CConfig" where
  "sample_maps i j = [conf_key ''10.0.0.7'' 80 \<mapsto> sample_opened]"

definition sample_editor :: "(sample_widget, (string option \<times> nat option) list, CMsgHead) ConfigEdit" where
  "sample_editor = sample_ui\<lparr>ed_message := Some edited_head, ed_config := Some sample_opened, configRowCount := 2\<rparr>"

definition head_state :: "CMsgHead config_state" where
  "head_state = \<lparr>configMap = Map.empty, curServiceConfig = None, allConfigs = None, conf_disk = Map.empty\<rparr>"

lemma sample_desktop_sel [simp]:
  "dk_widgets sample_desktop = sample_qt" "dk_form sample_desktop = sample_form"
  "dk_reflection sample_desktop = head_reflection ref_rt" "dk_floats sample_desktop = sample_floats"
  by (simp_all add: sample_desktop_def)

lemma edited_head_parses:
  "msg_ParseFromString (head_reflection ref_rt) (CConfig_privatePb sample_opened) (pl_instance sample_loader d) = (True, edited_head)"
proof -
  have "CMsgHead_wf ref_rt edited_head"
    by (simp add: CMsgHead_wf_def edited_head_def CMsgHead_Clear_def ref_rt_utf8 utf8_ok.simps)
  then show ?thesis by (simp add: head_reflection_def sample_opened_def ref.CMsgHead_roundtrip)
qed

lemma sample_dialog:
  "dialog_ok sample_qt sample_limits sample_ui" "dialog_ok sample_qt sample_limits sample_editor"
  "all_shown (\<lambda>t. t) (\<lambda>t. t) sample_opened" "CConfig_proto sample_opened \<noteq> []"
  "first_found sample_maps (conf_key ''10.0.0.7'' 80) sample_opened"
  "cf_message sample_config_client = None"
  "pl_import_from sample_loader (files(tmp_proto \<mapsto> CConfig_proto sample_opened)) (PB_ROOT @ tmp_proto) =
    Some \<lparr>fd_syntax = ''proto3'', fd_package = ''cmsg'', fd_messages = [head_desc]\<rparr>"
  "shown_fields (head_reflection ref_rt) m = head_fields"
proof -
  show "first_found sample_maps (conf_key ''10.0.0.7'' 80) sample_opened"
    unfolding first_found_def by (rule exI [of _ 0], simp, rule exI [of _ 0]) (simp add: sample_maps_def)
  show "cf_message sample_config_client = None"
    by (simp add: sample_config_client_def CConfigClient_new_def CServiceClient.defs CMsgEvent.defs CConfigClient.defs)
qed (simp_all add: dialog_ok_def sample_ui_def sample_editor_def sample_qt_def all_shown_def sample_opened_def as_c_str_def NUL_def
    sample_loader_def shown_fields_def head_fields_def)

lemma sample_editor_sel [simp]:
  "ed_message sample_editor = Some edited_head" "ed_config sample_editor = Some sample_opened"
  "configRowCount sample_editor = int 2" "ed_widgets sample_editor = []" "length (ui_formLayout sample_editor) = 2"
  by (simp_all add: sample_editor_def sample_ui_def)

section \<open>Properties\<close>



text \<open>
  C22. What the user types is saved, and nothing else changes. After a text is typed into the line
  edit of a text field, saving uploads a message in which that field has the text as the line
  edit shows it and every other field the value its own widget shows.
\<close>

theorem typed_text_is_saved:
  assumes "edit_form D msg_ok single limits items idx shown_d shown_t shown_p rows"
    and "ed_message e = Some m" "ed_config e = Some conf" "configRowCount e = int b" "b \<le> length (rows (ui_formLayout e))"
    and "initGui D e = Some e1" "msg_ok m" "\<forall>f \<in> set (rf_fields (dk_reflection D) m). single f"
    and "dialog_ok (dk_widgets D) limits e" "all_shown shown_t shown_p conf"
    and "i < length (shown_fields (dk_reflection D) m)" "shown_fields (dk_reflection D) m ! i = f"
    and "rf_type (dk_reflection D) f = TYPE_STRING \<or> rf_type (dk_reflection D) f = TYPE_BYTES"
  shows "\<exists>e3 m'. ConfigEdit_save P D (typed_text (dk_widgets D) (length (ed_widgets e) + i) t e1) c = Some (e3, CConfigClient_uploadConfig P
        (Some (shown_config shown_t shown_p (1, 65535) conf (rf_SerializeAsString (dk_reflection D) m'))) c) \<and>
    rf_Get (dk_reflection D) m' f = Some (V_String (shown_t t)) \<and>
    (\<forall>f' \<in> set (shown_fields (dk_reflection D) m) - {f}. \<exists>v. rf_Get (dk_reflection D) m f' = Some v \<and>
      rf_Get (dk_reflection D) m' f' =
        Some (shown_value (dk_floats D) shown_d shown_t (rf_enum_values (dk_reflection D) f') v))"
proof -
  have f: "edit_form.filled D rows conf m b e e1"
    using edit_form.initGui_fills [OF assms(1,7,8,2-5)] assms(6) by simp
  from edit_form.typed_form_saves [OF assms(1) f assms(9,10,5,7,8,11-13), where P = P and t = t and c = c]
  show ?thesis by blast
qed

theorem typed_text_is_saved_witness:
  "\<exists>e1 e3 m'. initGui sample_desktop sample_editor = Some e1 \<and>
    ConfigEdit_save ref_platform sample_desktop (typed_text sample_qt 2 ''new'' e1) sample_config_client =
      Some (e3, CConfigClient_uploadConfig ref_platform (Some (sample_opened\<lparr>CConfig_privatePb := CMsgHead_Serialize m'\<rparr>)) sample_config_client) \<and>
    token m' = ''new'' \<and> msg_type m' = MSG_LOGIN_REQ"
proof -
  have h: "2 \<le> length (ui_formLayout sample_editor)" "\<forall>f \<in> set (rf_fields (dk_reflection sample_desktop) edited_head). True"
    "2 < length (shown_fields (dk_reflection sample_desktop) edited_head)" "shown_fields (dk_reflection sample_desktop) edited_head ! 2 = F_token"
    "rf_type (dk_reflection sample_desktop) F_token = TYPE_STRING \<or> rf_type (dk_reflection sample_desktop) F_token = TYPE_BYTES"
    "dialog_ok (dk_widgets sample_desktop) sample_limits sample_editor"
    using sample_dialog(2) by (simp_all add: sample_dialog(8) head_fields_def)
  obtain e1 where i: "initGui sample_desktop sample_editor = Some e1"
    using sample_edit.initGui_fills [OF TrueI h(2) sample_editor_sel(1-3) h(1)] by blast
  obtain e3 m' where s: "ConfigEdit_save ref_platform sample_desktop
        (typed_text (dk_widgets sample_desktop) (length (ed_widgets sample_editor) + 2) ''new'' e1) sample_config_client =
      Some (e3, CConfigClient_uploadConfig ref_platform (Some (shown_config (\<lambda>t. t) (\<lambda>t. t) (1, 65535) sample_opened
        (rf_SerializeAsString (dk_reflection sample_desktop) m'))) sample_config_client)"
    "rf_Get (dk_reflection sample_desktop) m' F_token = Some (V_String ''new'')"
    and g: "\<forall>f' \<in> set (shown_fields (dk_reflection sample_desktop) edited_head) - {F_token}. \<exists>v.
      rf_Get (dk_reflection sample_desktop) edited_head f' = Some v \<and> rf_Get (dk_reflection sample_desktop) m' f' =
        Some (shown_value (dk_floats sample_desktop) sample_shown (\<lambda>t. t) (rf_enum_values (dk_reflection sample_desktop) f') v)"
    using typed_text_is_saved [OF sample_edit.edit_form_axioms sample_editor_sel(1-3) h(1) i TrueI h(2,6) sample_dialog(3) h(3-5),
      where P = ref_platform and t = "''new''" and c = sample_config_client] by blast
  have "msg_type m' = MSG_LOGIN_REQ"
    using g [rule_format, of F_type]
    by (simp add: sample_dialog(8) head_fields_def edited_head_def CMsgType_values_def)
  moreover have "token m' = ''new''" using s(2) by simp
  moreover have "shown_config (\<lambda>t. t) (\<lambda>t. t) (1, 65535) sample_opened (rf_SerializeAsString (dk_reflection sample_desktop) m') =
      sample_opened\<lparr>CConfig_privatePb := CMsgHead_Serialize m'\<rparr>"
    by (simp add: shown_config_def sample_opened_def as_c_str_def NUL_def clamp_def)
  moreover from s(1) this have "ConfigEdit_save ref_platform sample_desktop (typed_text sample_qt 2 ''new'' e1) sample_config_client =
      Some (e3, CConfigClient_uploadConfig ref_platform (Some (sample_opened\<lparr>CConfig_privatePb := CMsgHead_Serialize m'\<rparr>)) sample_config_client)"
    by (simp add: numeral_2_eq_2)
  ultimately show ?thesis using i by blast
qed

text \<open>
  C37. The form cannot show every number. Whatever an \<open>int64\<close> field holds, a saved form sets it to
  -1, and a negative \<open>int32\<close> becomes 0: the spin box of the first has the maximum -1, as
  \<open>INT64_MAX\<close> is passed as an \<open>int\<close>, that of the second the minimum 0.
\<close>

theorem numbers_are_lost:
  assumes "edit_form D msg_ok single limits items idx shown_d shown_t shown_p rows"
    and "ed_message e = Some m" "ed_config e = Some conf" "configRowCount e = int b" "b \<le> length (rows (ui_formLayout e))"
    and "initGui D e = Some e1" "msg_ok m" "\<forall>f \<in> set (rf_fields (dk_reflection D) m). single f"
    and "dialog_ok (dk_widgets D) limits e" "all_shown shown_t shown_p conf"
    and "ConfigEdit_save P D e1 c = Some (e2, c2)" "ed_message e2 = Some m'" "f \<in> set (rf_fields (dk_reflection D) m)"
  shows "(rf_type (dk_reflection D) f = TYPE_INT64 \<longrightarrow> rf_Get (dk_reflection D) m' f = Some (V_Int64 (-1))) \<and>
    (\<forall>v. rf_type (dk_reflection D) f = TYPE_INT32 \<and> rf_Get (dk_reflection D) m f = Some (V_Int32 v) \<and> sint v < 0 \<longrightarrow>
      rf_Get (dk_reflection D) m' f = Some (V_Int32 0))"
proof -
  have fl: "edit_form.filled D rows conf m b e e1"
    using edit_form.initGui_fills [OF assms(1,7,8,2-5)] assms(6) by simp
  have kept: "rf_type (dk_reflection D) f \<noteq> TYPE_OTHER \<Longrightarrow> \<exists>v. rf_Get (dk_reflection D) m f = Some v \<and> rf_Get (dk_reflection D) m' f =
      Some (shown_value (dk_floats D) shown_d shown_t (rf_enum_values (dk_reflection D) f) v)"
    using edit_form.untouched_form_saves [OF assms(1) fl assms(9,10,5,7,8), where P = P and c = c] assms(11-13)
    by (auto simp: shown_fields_def)
  have kind: "rf_type (dk_reflection D) f \<noteq> TYPE_OTHER \<Longrightarrow> rf_Get (dk_reflection D) m f = Some v \<Longrightarrow> of_type (rf_type (dk_reflection D) f) v" for v
    using reflection.get_kind [OF edit_form.axioms(1) [OF assms(1)] assms(7,13)] assms(8,13) by auto
  show ?thesis
  proof (intro conjI allI impI, goal_cases)
    case 1
    with kept obtain v where v: "rf_Get (dk_reflection D) m f = Some v"
      "rf_Get (dk_reflection D) m' f = Some (shown_value (dk_floats D) shown_d shown_t (rf_enum_values (dk_reflection D) f) v)"
      by auto
    with kind [OF _ v(1)] 1 show ?case by (cases v) auto
  next
    case (2 v)
    with kept show ?case by auto
  qed
qed

theorem numbers_are_lost_witness:
  "\<exists>e1 e2 c2 m'. initGui sample_desktop sample_editor = Some e1 \<and>
    ConfigEdit_save ref_platform sample_desktop e1 sample_config_client = Some (e2, c2) \<and> ed_message e2 = Some m' \<and>
    msg_id edited_head = 7 \<and> msg_id m' = -1 \<and> msg_size edited_head = -5 \<and> msg_size m' = 0"
proof -
  have h: "2 \<le> length (ui_formLayout sample_editor)" "\<forall>f \<in> set (rf_fields (dk_reflection sample_desktop) edited_head). True"
    "dialog_ok (dk_widgets sample_desktop) sample_limits sample_editor"
    using sample_dialog(2) by simp_all
  obtain e1 where i: "initGui sample_desktop sample_editor = Some e1" "sample_edit.filled sample_opened edited_head 2 sample_editor e1"
    using sample_edit.initGui_fills [OF TrueI h(2) sample_editor_sel(1-3) h(1)] by blast
  obtain e2 c2 m' where s: "ConfigEdit_save ref_platform sample_desktop e1 sample_config_client = Some (e2, c2)" "ed_message e2 = Some m'"
    using sample_edit.untouched_form_saves [OF i(2) h(3) sample_dialog(3) h(1) TrueI h(2), where P = ref_platform and c = sample_config_client]
    by blast
  have fs: "F_id \<in> set (rf_fields (dk_reflection sample_desktop) edited_head)" "F_size \<in> set (rf_fields (dk_reflection sample_desktop) edited_head)"
    by (simp_all add: head_fields_def)
  note lost = numbers_are_lost [OF sample_edit.edit_form_axioms sample_editor_sel(1-3) h(1) i(1) TrueI h(2,3) sample_dialog(3) s]
  from lost [OF fs(1)] lost [OF fs(2)] have "msg_id m' = -1" "msg_size m' = 0"
    by (simp_all add: edited_head_def)
  with i(1) s show ?thesis by (auto simp: edited_head_def)
qed

text \<open>
  C38. A second configuration cannot be edited. Once a dialog has made a message from a proto text,
  opening another configuration of a valid proto text uses the freed descriptors of the first.
\<close>

theorem second_edit_uses_freed:
  assumes "loadConfig P D pl opens maps ip port s e c = Some (Inr (True, s1, e1, c1))"
    and "ConfigEdit_new (dk_form D) ui c1 = (e2, c2)"
    and "first_found maps2 (conf_key ip2 port2) conf" "CConfig_proto conf \<noteq> []"
    and "pl_import_from pl2 ((conf_disk s2)(tmp_proto \<mapsto> CConfig_proto conf)) (PB_ROOT @ tmp_proto) = Some fd"
    and "fd_messages fd \<noteq> []"
  shows "loadConfig P D pl2 True maps2 ip2 port2 s2 e2 c2 = Some (Inl UseAfterFree)"
proof -
  have "cf_message c1 \<noteq> None"
    using assms(1)
    by (auto simp: loadConfig_def Let_def bind_call_def loadProto_def split: prod.splits if_splits option.splits sum.splits list.splits)
  then have "cf_message (CConfigClient_downloadConfig P (Some ip2) port2 c2) \<noteq> None"
    using dialog_opens(4) [OF assms(2)] by simp
  with assms(5,6) have "loadProto (pl_import_from pl2 ((conf_disk s2)(tmp_proto \<mapsto> CConfig_proto conf))) (pl_findType pl2) tmp_proto [] []
      (CConfigClient_downloadConfig P (Some ip2) port2 c2) = Inl UseAfterFree"
    by (auto simp: loadProto_def split: list.split)
  with first_found_loop [OF assms(3)] assms(4) show ?thesis by (simp add: loadConfig_def Let_def bind_call_def)
qed

theorem second_edit_uses_freed_witness:
  "\<exists>e c s1 e1 c1 e2 c2. ConfigEdit_new sample_form sample_ui sample_config_client = (e, c) \<and>
    loadConfig ref_platform sample_desktop sample_loader True sample_maps ''10.0.0.7'' 80 head_state e c = Some (Inr (True, s1, e1, c1)) \<and>
    ConfigEdit_new sample_form sample_ui c1 = (e2, c2) \<and>
    loadConfig ref_platform sample_desktop sample_loader True sample_maps ''10.0.0.7'' 80 s1 e2 c2 = Some (Inl UseAfterFree)"
proof -
  obtain e c where n: "ConfigEdit_new sample_form sample_ui sample_config_client = (e, c)" by fastforce
  then have n': "ConfigEdit_new (dk_form sample_desktop) sample_ui sample_config_client = (e, c)" by simp
  have p: "msg_ParseFromString (dk_reflection sample_desktop) (CConfig_privatePb sample_opened) (pl_instance sample_loader head_desc) =
      (True, edited_head)" using edited_head_parses by simp
  have all: "\<forall>f \<in> set (rf_fields (dk_reflection sample_desktop) edited_head). True" by simp
  obtain s1 e1 c1 where
    l: "loadConfig ref_platform sample_desktop sample_loader True sample_maps ''10.0.0.7'' 80 head_state e c = Some (Inr (True, s1, e1, c1))"
    using sample_edit.loadConfig_fills [OF n' sample_dialog(6,5,4,7) file_desc.select_convs(3) p TrueI all,
      where P = ref_platform and s = head_state] by blast
  obtain e2 c2 where n2: "ConfigEdit_new sample_form sample_ui c1 = (e2, c2)" by fastforce
  then have "ConfigEdit_new (dk_form sample_desktop) sample_ui c1 = (e2, c2)" by simp
  from second_edit_uses_freed [OF l this sample_dialog(5,4,7)] n l n2 show ?thesis by auto
qed

end
