(* ===== verification/ConfigGui_Props.thy ===== *)
theory ConfigGui_Props
  imports ConfigGui EditForm_Props
begin

text \<open>
  What the window of the editor guarantees: its table shows the configurations of the centre, a
  selected row stands for its own configuration, and only a user with an account gets past
  the login dialog.
\<close>

section \<open>The table\<close>

text \<open>
  What Qt documents of a table of three columns: rows are removed, added empty or cut off at the
  end, and an item that was set is found.
\<close>

locale qt_grid =
  fixes T :: "'t qt_table" and cells :: "'t \<Rightarrow> string option list list"
  assumes grid_count: "tbl_rowCount T t = int (length (cells t))"
    and grid_width: "r \<in> set (cells t) \<Longrightarrow> length r = 3"
    and grid_remove: "cells t \<noteq> [] \<Longrightarrow> cells (tbl_removeRow T 0 t) = tl (cells t)"
    and grid_grow: "cells t = [] \<Longrightarrow> cells (tbl_setRowCount T (int n) t) = replicate n (replicate 3 None)"
    and grid_set: "i < length (cells t) \<Longrightarrow> j < 3 \<Longrightarrow>
      cells (tbl_setItem T (int i) (int j) s t) = (cells t)[i := (cells t ! i)[j := Some s]]"
    and grid_item: "i < length (cells t) \<Longrightarrow> j < 3 \<Longrightarrow> tbl_item T t (int i) (int j) = cells t ! i ! j"
begin

lemma clear_table_ends: "\<exists>t'. clear_table T t = Some t' \<and> cells t' = []"
proof (induction "length (cells t)" arbitrary: t)
  case 0
  then show ?case by (subst clear_table.simps) (simp add: grid_count)
next
  case (Suc n)
  then have ne: "cells t \<noteq> []" by auto
  then have "n = length (cells (tbl_removeRow T 0 t))" using Suc.hyps(2) by (simp add: grid_remove)
  from Suc.hyps(1) [OF this] ne show ?case by (subst clear_table.simps) (simp add: grid_count)
qed

lemma config_row_cells:
  assumes "i < length (cells t)"
  shows "cells (config_row T (int i) conf t) = (cells t)[i := [Some (as_c_str (CConfig_serviceName conf)),
    Some (as_c_str (CConfig_serviceIp conf)), Some (show_int (sint (CConfig_servicePort conf)))]]"
proof -
  have w: "length (cells t ! i) = 3" using grid_width [of "cells t ! i" t] assms by simp
  then obtain a b c where abc: "cells t ! i = [a, b, c]" by (auto simp: numeral_3_eq_3 length_Suc_conv)
  let ?t0 = "tbl_setItem T (int i) (int 0) (as_c_str (CConfig_serviceName conf)) t"
  let ?t1 = "tbl_setItem T (int i) (int 1) (as_c_str (CConfig_serviceIp conf)) ?t0"
  have 0: "cells ?t0 = (cells t)[i := [Some (as_c_str (CConfig_serviceName conf)), b, c]]"
    using grid_set [OF assms, of 0] abc by simp
  have 1: "cells ?t1 = (cells t)[i := [Some (as_c_str (CConfig_serviceName conf)), Some (as_c_str (CConfig_serviceIp conf)), c]]"
    using grid_set [of i ?t0 1] assms 0 by simp
  have "cells (tbl_setItem T (int i) (int 2) (show_int (sint (CConfig_servicePort conf))) ?t1) = (cells t)[i :=
      [Some (as_c_str (CConfig_serviceName conf)), Some (as_c_str (CConfig_serviceIp conf)), Some (show_int (sint (CConfig_servicePort conf)))]]"
    using grid_set [of i ?t1 2] assms 1 by (simp add: numeral_2_eq_2)
  then show ?thesis by (simp add: config_row_def Let_def)
qed

end

text \<open>A row of the table that shows a configuration.\<close>

definition row_texts :: "CConfig \<Rightarrow> string option list" where
  "row_texts conf = [Some (as_c_str (CConfig_serviceName conf)), Some (as_c_str (CConfig_serviceIp conf)),
     Some (show_int (sint (CConfig_servicePort conf)))]"

context qt_grid
begin

lemma fill_table_cells:
  "i + length confs = length (cells t) \<Longrightarrow>
    cells (fill_table T (int i) confs t) = take i (cells t) @ map row_texts confs"
proof (induction confs arbitrary: i t)
  case (Cons conf confs)
  then have i: "i < length (cells t)" by simp
  have c: "cells (config_row T (int i) conf t) = (cells t)[i := row_texts conf]"
    by (simp add: config_row_cells [OF i] row_texts_def)
  have "cells (fill_table T (int (Suc i)) confs (config_row T (int i) conf t)) =
      take (Suc i) ((cells t)[i := row_texts conf]) @ map row_texts confs"
    using Cons.IH [of "Suc i" "config_row T (int i) conf t"] Cons.prems by (simp add: c)
  then show ?case using i by (simp add: add.commute take_Suc_conv_app_nth)
qed simp

lemma row_items:
  assumes "cells t = map row_texts confs" "r < length confs"
  shows "item_text T t (int r) 0 = Inr (as_c_str (CConfig_serviceName (confs ! r)))"
    "item_text T t (int r) 1 = Inr (as_c_str (CConfig_serviceIp (confs ! r)))"
    "item_text T t (int r) 2 = Inr (show_int (sint (CConfig_servicePort (confs ! r))))"
  using grid_item [of r t 0] grid_item [of r t 1] grid_item [of r t 2] assms
  by (simp_all add: item_text_def row_texts_def)

end

section \<open>A small table\<close>

record grid =
  gr_rows :: "(string option \<times> string option \<times> string option) list"
  gr_current :: int

definition grid_cells :: "grid \<Rightarrow> string option list list" where
  "grid_cells g = map (\<lambda>(a, b, c). [a, b, c]) (gr_rows g)"

fun set_column :: "int \<Rightarrow> string \<Rightarrow> string option \<times> string option \<times> string option \<Rightarrow> string option \<times> string option \<times> string option" where
  "set_column j s (a, b, c) = (if j = 0 then (Some s, b, c) else if j = 1 then (a, Some s, c) else if j = 2 then (a, b, Some s) else (a, b, c))"

definition sample_table :: "grid qt_table" where
  "sample_table = \<lparr>
     tbl_rowCount = \<lambda>g. int (length (gr_rows g)),
     tbl_removeRow = \<lambda>i g. g\<lparr>gr_rows := take (nat i) (gr_rows g) @ drop (Suc (nat i)) (gr_rows g)\<rparr>,
     tbl_setRowCount = \<lambda>n g. g\<lparr>gr_rows := take (nat n) (gr_rows g) @ replicate (nat n - length (gr_rows g)) (None, None, None)\<rparr>,
     tbl_setItem = \<lambda>i j s g. (if 0 \<le> i \<and> nat i < length (gr_rows g)
       then g\<lparr>gr_rows := (gr_rows g)[nat i := set_column j s (gr_rows g ! nat i)]\<rparr> else g),
     tbl_item = \<lambda>g i j. (if 0 \<le> i \<and> nat i < length (gr_rows g) \<and> 0 \<le> j \<and> j < 3
       then (case gr_rows g ! nat i of (a, b, c) \<Rightarrow> [a, b, c] ! nat j) else None),
     tbl_currentRow = gr_current\<rparr>"

lemma less_3: "j < 3 \<Longrightarrow> j = 0 \<or> j = Suc 0 \<or> j = 2" for j :: nat
  by arith

interpretation sample_grid: qt_grid sample_table grid_cells
proof (unfold_locales, goal_cases)
  case (2 r t)
  then show ?case by (auto simp: grid_cells_def)
next
  case (3 t)
  then show ?case by (cases "gr_rows t") (simp_all add: sample_table_def grid_cells_def)
next
  case (4 t n)
  then show ?case by (simp add: sample_table_def grid_cells_def numeral_3_eq_3)
next
  case (5 i t j s)
  obtain a b c where "gr_rows t ! i = (a, b, c)" by (cases "gr_rows t ! i")
  with 5 less_3 [of j] show ?case by (auto simp: sample_table_def grid_cells_def map_update)
next
  case (6 i t j)
  obtain a b c where "gr_rows t ! i = (a, b, c)" by (cases "gr_rows t ! i")
  with 6 less_3 [of j] show ?case by (auto simp: sample_table_def grid_cells_def)
qed (simp_all add: sample_table_def grid_cells_def)

section \<open>Connecting\<close>

lemma close_disconnects:
  assumes "\<not> deleted c" "\<not> m_autoDelete c"
  obtains c1 where "CMsgEvent_close c = Inr c1" "m_serverIp c1 = m_serverIp c" "\<not> m_isConnected c1"
  using assms by (simp add: CMsgEvent_close_def closeBev_def CMsgEvent_clear_def Let_def)

lemma connect_total:
  assumes "c_str (m_serverIp t) = Inr ip"
  obtains ok t' where "connect le t = Inr (ok, t')" "m_serverIp t' = m_serverIp t" "\<not> m_isConnected t'"
proof -
  have "connect le t \<noteq> Inl u" for u using assms by (simp add: connect_def Let_def)
  then obtain ok t' where c: "connect le t = Inr (ok, t')" by (cases "connect le t") auto
  then have "m_serverIp t' = m_serverIp t"
    by (auto simp: connect_def bind_ub_Inr_iff Let_def case_prod_beta split: option.splits if_splits)
  with c connect_flags(1) [OF c] show thesis by (intro that) simp_all
qed

lemma autoConnect_waits:
  assumes "c_str (m_serverIp t) = Inr ip" "\<not> m_isConnected t" "int_fits (n * 100)"
  obtains t' where "autoConnect le up n t = Inr (fst (wait_loop up 0 (nat (n * 100))), t')" "m_serverIp t' = m_serverIp t"
    "\<not> m_isConnected t'"
proof (cases "m_isConnecting t")
  case True
  then show thesis using assms by (intro that [of t]) (simp_all add: autoConnect_def waitforConnected_def chk_int_def case_prod_beta)
next
  case False
  obtain ok t' where "connect le t = Inr (ok, t')" "m_serverIp t' = m_serverIp t" "\<not> m_isConnected t'"
    by (rule connect_total [OF assms(1)])
  with False assms show thesis by (intro that [of t']) (simp_all add: autoConnect_def waitforConnected_def chk_int_def case_prod_beta)
qed

lemma wait_loop_sees: "up k \<Longrightarrow> k \<le> n \<Longrightarrow> fst (wait_loop up 0 n)"
  using wait_loop_result [of up 0 n] by (cases "wait_loop up 0 n") auto

text \<open>The client after the address of the chosen server is set.\<close>

definition server_set :: "('w, 'd) qt_widgets \<Rightarrow> ('w, 't) ConfigGui \<Rightarrow> 'b CConfigClient \<Rightarrow> 'b CConfigClient" where
  "server_set Q g c = (setServerIp (line_text Q (ui_serverIpEdit g)) c)\<lparr>
     m_serverPort := sint (spin_value Q (ui_servicePortBox g)), m_autoDelete := False\<rparr>"

section \<open>Properties\<close>


definition sample_window :: "(sample_widget, grid) ConfigGui" where
  "sample_window = \<lparr>ui_tableWidget = \<lparr>gr_rows = [(Some ''old'', None, None)], gr_current = 0\<rparr>, ui_serverIpEdit = Line ''10.0.0.1'',
     ui_servicePortBox = Spin 1 65535 20030, ui_logListWidget = [], gui_pos = (0, 0), mousePress = False, mousePoint = (0, 0)\<rparr>"

definition sample_list :: CConfigList where
  "sample_list = CConfigList_Clear\<lparr>CConfigList_config := [sample_opened]\<rparr>"

definition sample_around :: surroundings where
  "sample_around = \<lparr>su_login = True, su_up = (\<lambda>i. i > 4), su_up_again = (\<lambda>_. True),
     su_lists = (\<lambda>i. if i < 3 then None else Some sample_list), su_now = ''12:00:00''\<rparr>"

lemma sample_opened_sel: "CConfig_serviceIp sample_opened = ''10.0.0.7''" "CConfig_servicePort sample_opened = 80"
  by (simp_all add: sample_opened_def)

lemma sample_row: "row_texts sample_opened = [Some ''auth'', Some ''10.0.0.7'', Some (show_int 80)]"
  by (simp add: row_texts_def sample_opened_def as_c_str_def NUL_def)


text \<open>
  A selected row stands for its configuration. When the table shows a list of configurations
  and a row is selected, deleting it, once confirmed, asks the centre to delete exactly the
  address and port of that configuration and refreshes; editing it opens exactly this
  configuration, and after the dialog the table is refreshed.
\<close>

theorem selected_row_is_meant:
  assumes "qt_grid T cells" "cells (ui_tableWidget g) = map row_texts confs"
    and "tbl_currentRow T (ui_tableWidget g) = int r" "r < length confs" "conf = confs ! r"
    and "ip = CConfig_serviceIp conf" "ip \<noteq> []" "NUL \<notin> set ip" "port = sint (CConfig_servicePort conf)" "0 < port" "port < 65536"
    and "ConfigEdit_new (dk_form D) ui c = (edit, ce)"
    and "loadConfig P D pl opens maps ip port s edit ce = Some (Inr (ok, s1, edit1, c1))"
    and "dialog s1 edit1 c1 = Some (Inr (acc, s2, c2))"
  shows "delConfig P Q T su True s g c = gui_refresh P Q T su s
      (gui_addLog (su_now su) (ConfigDeleted (as_c_str (CConfig_serviceName conf)) ip port) g)
      (snd (sendMsg_type P MSG_DELETE_CONFIG_REQ (Some (CDownloadconfigReq_Serialize (endpoint_req ip port))) c)) \<and>
    editConfig P D T su ui pl opens maps dialog s g c =
      (if ok then gui_refresh P (dk_widgets D) T su s2 (if acc then gui_addLog (su_now su) ConfigChanged g else g) c2
       else Some (Inr (s1, gui_addLog (su_now su) ConfigFailed g, c1)))"
proof -
  have n: "tbl_rowCount T (ui_tableWidget g) \<noteq> 0"
    using assms(2,4) by (auto simp: qt_grid.grid_count [OF assms(1)])
  have ip: "as_c_str ip = ip" using assms(8) by (simp add: as_c_str_def takeWhile_neq_all)
  note items = qt_grid.row_items [OF assms(1,2,4), folded assms(5), folded assms(6,9), unfolded ip]
  have "CConfigClient_deleteConfig P (Some ip) port c =
      snd (sendMsg_type P MSG_DELETE_CONFIG_REQ (Some (CDownloadconfigReq_Serialize (endpoint_req ip port))) c)"
    using assms(7,10,11) by (simp add: CConfigClient_deleteConfig_def endpoint_req_def)
  then have "delConfig P Q T su True s g c = gui_refresh P Q T su s
      (gui_addLog (su_now su) (ConfigDeleted (as_c_str (CConfig_serviceName conf)) ip port) g)
      (snd (sendMsg_type P MSG_DELETE_CONFIG_REQ (Some (CDownloadconfigReq_Serialize (endpoint_req ip port))) c))"
    using n assms(3) items by (simp add: delConfig_def Let_def bind_call_def)
  moreover have "editConfig P D T su ui pl opens maps dialog s g c =
      (if ok then gui_refresh P (dk_widgets D) T su s2 (if acc then gui_addLog (su_now su) ConfigChanged g else g) c2
       else Some (Inr (s1, gui_addLog (su_now su) ConfigFailed g, c1)))"
    using n assms(3,12-14) items ip by (simp add: editConfig_def Let_def bind_call_def)
  ultimately show ?thesis by blast
qed

definition sample_selected :: "(sample_widget, grid) ConfigGui" where
  "sample_selected = sample_window\<lparr>ui_tableWidget := \<lparr>gr_rows = [(Some ''auth'', Some ''10.0.0.7'', Some (show_int 80))], gr_current = 0\<rparr>\<rparr>"

theorem selected_row_is_meant_witness:
  "\<exists>s1 c1 m. delConfig ref_platform sample_qt sample_table sample_around True head_state sample_selected sample_config_client =
      gui_refresh ref_platform sample_qt sample_table sample_around head_state
        (gui_addLog ''12:00:00'' (ConfigDeleted ''auth'' ''10.0.0.7'' 80) sample_selected)
        (snd (sendMsg_type ref_platform MSG_DELETE_CONFIG_REQ m sample_config_client)) \<and>
    editConfig ref_platform sample_desktop sample_table sample_around sample_ui sample_loader True sample_maps
        (\<lambda>s e c. Some (Inr (False, s, c))) head_state sample_selected sample_config_client =
      gui_refresh ref_platform sample_qt sample_table sample_around s1 sample_selected c1"
proof -
  obtain e c where "ConfigEdit_new sample_form sample_ui sample_config_client = (e, c)" by fastforce
  then have n: "ConfigEdit_new (dk_form sample_desktop) sample_ui sample_config_client = (e, c)" by simp
  have p: "msg_ParseFromString (dk_reflection sample_desktop) (CConfig_privatePb sample_opened) (pl_instance sample_loader head_desc) =
      (True, edited_head)" using edited_head_parses by simp
  have all: "\<forall>f \<in> set (rf_fields (dk_reflection sample_desktop) edited_head). True" by simp
  obtain s1 e1 c1 where
    l: "loadConfig ref_platform sample_desktop sample_loader True sample_maps ''10.0.0.7'' 80 head_state e c = Some (Inr (True, s1, e1, c1))"
    using sample_edit.loadConfig_fills [OF n sample_dialog(6,5,4,7) file_desc.select_convs(3) p TrueI all,
      where P = ref_platform and s = head_state] by blast
  have h: "grid_cells (ui_tableWidget sample_selected) = map row_texts [sample_opened]"
    "tbl_currentRow sample_table (ui_tableWidget sample_selected) = int 0" "0 < length [sample_opened]"
    "sample_opened = [sample_opened] ! 0" "''10.0.0.7'' = CConfig_serviceIp sample_opened" "''10.0.0.7'' \<noteq> []" "NUL \<notin> set ''10.0.0.7''"
    "80 = sint (CConfig_servicePort sample_opened)" "(0 :: int) < 80" "(80 :: int) < 65536"
    by (simp_all add: sample_selected_def sample_row grid_cells_def sample_table_def NUL_def sample_opened_sel)
  have name: "as_c_str (CConfig_serviceName sample_opened) = ''auth''" "su_now sample_around = ''12:00:00''"
    by (simp_all add: sample_opened_def as_c_str_def NUL_def sample_around_def)
  from selected_row_is_meant [where Q = sample_qt and su = sample_around and dialog = "\<lambda>s e c. Some (Inr (False, s, c))",
      OF sample_grid.qt_grid_axioms h n l refl]
  show ?thesis unfolding name if_True if_False sample_desktop_sel(1) by blast
qed

text \<open>
  C13. Only an account gets past the login dialog. The dialog sends the name and the text of the
  password's MD5 that the user typed; the login service looks for that account and answers. When
  the answer is handled within the second that the dialog waits, the dialog is accepted if there
  is such an account, and else says that name or password is wrong and stays open.
\<close>

theorem login_dialog_checks_account:
  assumes "channel P inb outb" "\<And>b d. fst (bufferevent_write (p_libevent P) b d) = 0" "m_bev k \<noteq> None"
    and "channel P' inb' outb'" "\<And>b d. fst (bufferevent_write (p_libevent P') b d) = 0" "m_bev t \<noteq> None"
    and "base64_bio B" "\<forall>s. length (hash s) = 16" "BIO_new_mem B \<noteq> None" "BIO_new_base64 B \<noteq> None"
    and "auth_sql api users tokens up same" "ready up c" "int_fits (now + 1800)" "ids_left (tokens (my_db c))"
    and "\<forall>r \<in> set (users (my_db c)). plain (u_role r) \<and> text_ok (p_protobuf P) (u_role r)"
    and "ascii_utf8 (p_protobuf P)" "ascii_utf8 (p_protobuf P')"
    and "username \<noteq> []" "plain username" "CHR '';'' \<notin> set username"
    and "text_ok (p_protobuf P) username" "text_ok (p_protobuf P') username"
    and "h = b64_encode (hash password)" "ask = typed MSG_LOGIN_REQ (CLoginReq_Serialize (login_of username h))"
    and "line_text Q (lg_usernameEdit g) = username" "line_text Q (lg_passwordEdit g) = password" "password \<noteq> []"
  shows "\<exists>k1 head c' t' res. sent outb k1 = sent outb k @ frame ask \<and>
    auth_dispatch P' api now (fst ask) (snd (delivered ask)) c t = Inr (head, c', t') \<and>
    sent outb' t' = sent outb' t @ frame (head, CLoginRes_Serialize res) \<and>
    (\<forall>maps j. (\<forall>i < j. maps i username = None) \<longrightarrow>
      (\<forall>i \<ge> j. maps i = loginMap (auth_client_dispatch (p_protobuf P) head (snd (delivered (head, CLoginRes_Serialize res))) k1)) \<longrightarrow>
      j < 100 \<longrightarrow>
      CLoginGui_login P B hash Q maps g k = Inr (if \<exists>r \<in> set (users (my_db c)). account same username h r
        then g\<lparr>lg_accepted := True\<rparr> else g\<lparr>lg_boxes := lg_boxes g @ [False]\<rparr>, k1))"
proof -
  obtain k1 head c' t' res where e: "CAuthClient_LoginReq P B hash username password k = Inr k1"
    "sent outb k1 = sent outb k @ frame ask"
    "auth_dispatch P' api now (fst ask) (snd (delivered ask)) c t = Inr (head, c', t')"
    "sent outb' t' = sent outb' t @ frame (head, CLoginRes_Serialize res)"
    and get: "\<forall>maps j out timeoutMs. (\<forall>i < j. maps i username = None) \<longrightarrow>
      (\<forall>i \<ge> j. maps i = loginMap (auth_client_dispatch (p_protobuf P) head (snd (delivered (head, CLoginRes_Serialize res))) k1)) \<longrightarrow>
      j < polls timeoutMs \<longrightarrow>
      CAuthClient_getLoginInfo maps username (Some out) timeoutMs =
        (if \<exists>r \<in> set (users (my_db c)). account same username h r then (True, Some res, j)
         else (False, Some out, polls timeoutMs))"
    using login_exchange [OF assms(1-24)] by blast
  have "polls 1000 = 100" by (simp add: polls_def)
  then have "CLoginGui_login P B hash Q maps g k = Inr (if \<exists>r \<in> set (users (my_db c)). account same username h r
        then g\<lparr>lg_accepted := True\<rparr> else g\<lparr>lg_boxes := lg_boxes g @ [False]\<rparr>, k1)"
    if "\<forall>i < j. maps i username = None" "\<forall>i \<ge> j. maps i = loginMap (auth_client_dispatch (p_protobuf P) head
        (snd (delivered (head, CLoginRes_Serialize res))) k1)" "j < 100" for maps j
    using get [rule_format, of j maps 1000 CLoginRes_Clear] that assms(18,25-27) e(1) by (simp add: CLoginGui_login_def)
  with e show ?thesis by blast
qed

theorem login_dialog_checks_account_witness:
  "\<exists>maps k1. CLoginGui_login ref_platform sample_bios sample_md5 sample_qt maps
      \<lparr>lg_usernameEdit = Line ''ann'', lg_passwordEdit = Line ''pw'', lg_boxes = [], lg_accepted = False\<rparr> sample_auth_client =
    Inr (\<lparr>lg_usernameEdit = Line ''ann'', lg_passwordEdit = Line ''pw'', lg_boxes = [], lg_accepted = True\<rparr>, k1)"
proof -
  let ?g = "\<lparr>lg_usernameEdit = Line ''ann'', lg_passwordEdit = Line ''pw'', lg_boxes = [], lg_accepted = False\<rparr>"
  have rt: "p_protobuf ref_platform = ref_rt" by (simp add: ref_platform_def)
  have txt_ok: "text_ok ref_rt ''ann''" "text_ok ref_rt ''admin''"
    by (simp_all add: text_ok_def ref_rt_utf8 utf8_ok.simps)
  have acct: "\<exists>r \<in> set (ma_users (my_db (auth_with [hashed_ann]))). account (=) ''ann'' (u_pass hashed_ann) r"
    by (simp add: account_def hashed_ann_def)
  have hyps: "fst (bufferevent_write (p_libevent ref_platform) b d) = 0" "m_bev sample_auth_client \<noteq> None"
    "m_bev (sample_event []) \<noteq> None" "BIO_new_mem sample_bios \<noteq> None" "BIO_new_base64 sample_bios \<noteq> None"
    "ready texts_stored (auth_with [hashed_ann])" "int_fits (1000 + 1800)" "ids_left (ma_tokens (my_db (auth_with [hashed_ann])))"
    "\<forall>r \<in> set (ma_users (my_db (auth_with [hashed_ann]))). plain (u_role r) \<and> text_ok (p_protobuf ref_platform) (u_role r)"
    "ascii_utf8 (p_protobuf ref_platform)" "''ann'' \<noteq> []" "CHR '';'' \<notin> set ''ann''" "text_ok (p_protobuf ref_platform) ''ann''"
    "u_pass hashed_ann = b64_encode (sample_md5 ''pw'')" for b d
    by (simp_all add: ref_libevent_write sample_auth_client_def sample_bios_def hashed_ann_def int_fits_def rt txt_ok ascii_utf8_ref
        CServiceClient.defs CMsgEvent.defs CAuthClient.defs)
  have lines: "line_text sample_qt (lg_usernameEdit ?g) = ''ann''" "line_text sample_qt (lg_passwordEdit ?g) = ''pw''" "''pw'' \<noteq> []"
    by (simp_all add: sample_qt_def)
  obtain k1 head res where l: "\<forall>maps j. (\<forall>i < j. maps i ''ann'' = None) \<longrightarrow>
      (\<forall>i \<ge> j. maps i = loginMap (auth_client_dispatch (p_protobuf ref_platform) head (snd (delivered (head, CLoginRes_Serialize res))) k1)) \<longrightarrow>
      j < 100 \<longrightarrow> CLoginGui_login ref_platform sample_bios sample_md5 sample_qt maps ?g sample_auth_client = Inr (?g\<lparr>lg_accepted := True\<rparr>, k1)"
    using login_dialog_checks_account [OF ref_channel.channel_axioms hyps(1,2) ref_channel.channel_axioms hyps(1,3) bios.base64_bio_axioms
      allI [where P = "\<lambda>s. length (sample_md5 s) = 16", OF length_sample_md5] hyps(4,5) memory_auth.auth_sql_axioms hyps(6-10,10,11)
      plain_samples(1) hyps(12,13,13,14) refl lines] unfolding if_P [OF acct] by metis
  let ?maps = "\<lambda>i :: nat. if i < 2 then Map.empty else loginMap (auth_client_dispatch (p_protobuf ref_platform) head
    (snd (delivered (head, CLoginRes_Serialize res))) k1)"
  have "CLoginGui_login ref_platform sample_bios sample_md5 sample_qt ?maps ?g sample_auth_client = Inr (?g\<lparr>lg_accepted := True\<rparr>, k1)"
    by (rule l [rule_format, of 2]) simp_all
  then show ?thesis by (intro exI) simp
qed

end
