(* ===== verification/Programs.thy ===== *)
theory Programs
  imports ConfigGui_Props Log_Props Proxy_Props "HOL-Library.Stream"
begin

text \<open>
  The \<open>main\<close> functions of the programs and \<open>cplatform/watchdog.cpp\<close>. What a \<open>main\<close> does up to the
  endless wait for its threads is a function of its arguments and of the singletons, which
  are threaded through; the numbers \<open>this\<close> are the addresses of the objects that are queued on
  threads.
\<close>

section \<open>The servers\<close>

definition AUTH_PORT :: int where "AUTH_PORT = 20020"
definition API_GATEWAY_PORT :: int where "API_GATEWAY_PORT = 20010"

text \<open>The threads of a program: what the system gives for a new one, and whether its pipe can be written.\<close>

record threads =
  thr_os :: "int \<Rightarrow> (int \<times> int) option \<times> nat option"
  thr_written :: bool

definition register_main ::
    "threads \<Rightarrow> nat \<Rightarrow> string list \<Rightarrow> CService \<Rightarrow> world \<Rightarrow> (bool \<times> world \<times> CService) checked" where
  "register_main T this argv server w =
     CService_start (thr_os T) (thr_written T) this w (register_mainFunc argv server)"

definition config_main ::
    "'b platform \<Rightarrow> (string \<Rightarrow> CServiceMap) \<Rightarrow> 'm mysql_api \<Rightarrow> threads \<Rightarrow> nat \<Rightarrow> nat \<Rightarrow> 'm \<Rightarrow> string list \<Rightarrow> 'm ConfigDAO \<Rightarrow>
     CService \<Rightarrow> world \<Rightarrow> register_cache \<Rightarrow> 'b CRegisterClient \<Rightarrow>
     (CConfigList \<times> 'm ConfigDAO \<times> CService \<times> world \<times> register_cache \<times> 'b CRegisterClient) checked" where
  "config_main P half api T this this_client db argv dao configServer w cache c =
     (let (ok, dao) = ConfigDAO_init api db ''127.0.0.1'' ''root'' ''123456'' ''cms'' 3306 dao;
          dao = (if ok then snd (ConfigDAO_install api dao) else dao) in
      bind_ub (ConfigDAO_downloadAllConfig api 1 10000 dao) (\<lambda>(res, dao).
      bind_ub (config_mainFunc P half (thr_os T) (thr_written T) this_client argv configServer w cache c)
        (\<lambda>(configServer, w, cache, c).
      bind_ub (CService_start (thr_os T) (thr_written T) this w configServer) (\<lambda>(_, w, configServer).
      Inr (res, dao, configServer, w, cache, c)))))"

text \<open>The login and the log service, which ask for their database on the terminal; the result has the configuration file.\<close>

definition auth_main ::
    "'m mysql_api \<Rightarrow> threads \<Rightarrow> nat \<Rightarrow> bool \<Rightarrow> MysqlInfo \<Rightarrow> MysqlInfo option \<Rightarrow> 'm CMysql \<Rightarrow> CService \<Rightarrow> world \<Rightarrow>
     (MysqlInfo option \<times> 'm CMysql \<times> world \<times> CService) checked" where
  "auth_main api T this writable entered file mysql service w =
     (let (_, file, mysql) = CAuthDAO_init api writable entered file mysql;
          (_, mysql) = CAuthDAO_install api mysql;
          service = setServerPort AUTH_PORT service in
      bind_ub (CService_start (thr_os T) (thr_written T) this w service) (\<lambda>(_, w, service).
      Inr (file, mysql, w, service)))"

definition log_main ::
    "'m mysql_api \<Rightarrow> threads \<Rightarrow> nat \<Rightarrow> bool \<Rightarrow> MysqlInfo \<Rightarrow> MysqlInfo option \<Rightarrow> 'm CMysql \<Rightarrow> CService \<Rightarrow> world \<Rightarrow>
     (MysqlInfo option \<times> 'm CMysql \<times> world \<times> CService) checked" where
  "log_main api T this writable entered file mysql server w =
     (let (_, file, mysql) = CLogDAO_init api writable entered file mysql;
          (_, mysql) = CLogDAO_install api mysql;
          server = setServerPort LOG_PORT server in
      bind_ub (CService_start (thr_os T) (thr_written T) this w server) (\<lambda>(_, w, server).
      Inr (file, mysql, w, server)))"

section \<open>The gateway\<close>

text \<open>
  What the other threads of the gateway do meanwhile: when the connections to the register and
  the configuration centre are up, and the cache of services as \<open>getServices\<close> polls it.
\<close>

record gateway_run =
  run_up_register :: "nat \<Rightarrow> bool"
  run_up_services :: "nat \<Rightarrow> bool"
  run_services :: "int \<Rightarrow> CServiceMap option"
  run_up_config :: "nat \<Rightarrow> bool"

record ('b, 'g) gateway_process =
  gp_world :: world
  gp_cache :: register_cache
  gp_register :: "'b CRegisterClient"
  gp_state :: "'g config_state"
  gp_config :: "'b CConfigClient"
  gp_service :: CService

text \<open>
  The proxy is started in a thread of its own (\<open>proxy_mainFunc_pass\<close>), its \<open>init\<close> does nothing.
  \<open>gatewayConf\<close> is the configuration object of the gateway.
\<close>

definition gateway_main ::
    "'b platform \<Rightarrow> (string \<Rightarrow> CServiceMap) \<Rightarrow> threads \<Rightarrow> nat \<Rightarrow> nat \<Rightarrow> nat \<Rightarrow> gateway_run \<Rightarrow> 'g \<Rightarrow> string list \<Rightarrow>
     ('b, 'g) gateway_process \<Rightarrow> ('b, 'g) gateway_process checked" where
  "gateway_main P half T this this_register this_config run gatewayConf argv p =
     (let serverPort = (if length argv > 1 then atoi (argv ! 1) else API_GATEWAY_PORT);
          registerIp = (if length argv > 2 then argv ! 2 else ''127.0.0.1'');
          registerPort = (if length argv > 3 then atoi (argv ! 3) else REGISTER_PORT);
          c = setServerIp registerIp (gp_register p);
          c = c\<lparr>m_serverPort := registerPort\<rparr> in
      bind_ub (registerServer P half (thr_os T) (thr_written T) this_register (Some API_GATEWAY_NAME) serverPort None
          (gp_world p) (gp_cache p) c) (\<lambda>(w, cache, c).
      bind_ub (waitforConnected (run_up_register run) 3) (\<lambda>_.
      let c = client_getServiceReq P None c in
      bind_ub (getServices P half (run_up_services run) (run_services run) CONFIG_NAME 10 cache c) (\<lambda>(configs, cache, c).
      bind_ub (case CServiceList_service configs of
          [] \<Rightarrow> Inr (w, gp_state p, gp_config p)
        | config # _ \<Rightarrow>
            bind_ub (startGetConfig_server (p_libevent P) (thr_os T) (thr_written T) this_config (run_up_config run)
                (as_c_str (CService_ip config)) (sint (CService_port config)) None serverPort (Some gatewayConf) 10
                w (gp_state p) (gp_config p)) (\<lambda>(_, w, s, k). Inr (w, s, k))) (\<lambda>(w, s, k).
      let service = setServerPort serverPort (gp_service p) in
      bind_ub (CService_start (thr_os T) (thr_written T) this w service) (\<lambda>(_, w, service).
      Inr \<lparr>gp_world = w, gp_cache = cache, gp_register = c, gp_state = s, gp_config = k, gp_service = service\<rparr>))))))"

section \<open>The configuration editor\<close>

text \<open>
  The client of the configuration centre and that of the login service are started before the
  window is made; \<open>up\<close> is the connection to the first.
\<close>

definition editor_main ::
    "'b platform \<Rightarrow> threads \<Rightarrow> nat \<Rightarrow> nat \<Rightarrow> (nat \<Rightarrow> bool) \<Rightarrow> ('w, 'd) qt_widgets \<Rightarrow> 't qt_table \<Rightarrow> surroundings \<Rightarrow>
     ('w, 't) ConfigGui \<Rightarrow> world \<Rightarrow> 'g config_state \<Rightarrow> 'b CConfigClient \<Rightarrow> 'b CAuthClient \<Rightarrow>
     (world \<times> 'g config_state \<times> ('w, 't) ConfigGui \<times> 'b CConfigClient \<times> 'b CAuthClient) checked option" where
  "editor_main P T this_config this_auth up Q tbl su ui w s k a =
     bind_call (Some (startGetConfig_server (p_libevent P) (thr_os T) (thr_written T) this_config up
         ''127.0.0.1'' CONFIG_PORT None 0 None 10 w s k)) (\<lambda>(_, w, s, k).
     let a = setServerIp ''127.0.0.1'' a;
         a = a\<lparr>m_serverPort := AUTH_PORT\<rparr> in
     bind_call (Some (startConnect (thr_os T) (thr_written T) this_auth w a)) (\<lambda>(w, a).
     bind_call (ConfigGui_new P Q tbl su s ui k) (\<lambda>(s, g, k).
     Some (Inr (w, s, g, k, a)))))"

section \<open>The watchdog\<close>

datatype watchdog_event = System string | Sleep "32 word"

definition watchdog_command :: "string list \<Rightarrow> string" where
  "watchdog_command argv = concat (map (\<lambda>arg. '' '' @ arg) (drop 2 argv))"

text \<open>The loop of the daemon, without an end; \<open>asleep\<close> is which of its two statements is next.\<close>

primcorec watchdog_loop :: "bool \<Rightarrow> string \<Rightarrow> int \<Rightarrow> watchdog_event stream" where
  "watchdog_loop asleep cmd timeval =
     (if asleep then Sleep (word_of_int timeval) else System cmd) ## watchdog_loop (\<not> asleep) cmd timeval"

text \<open>\<open>pid\<close> is the result of \<open>fork\<close>. A process that ends gives its exit code, the daemon what it does.\<close>

definition watchdog_main :: "int \<Rightarrow> string list \<Rightarrow> int + watchdog_event stream" where
  "watchdog_main pid argv =
     (if length argv < 3 then Inl (-1)
      else if pid > 0 then Inl 0
      else Inr (watchdog_loop False (watchdog_command argv) (atoi (argv ! 1))))"

section \<open>What the programs start\<close>

lemma CService_start_port:
  "CService_start os b this w s = Inr (ok, w', s') \<Longrightarrow> sv_serverPort s' = sv_serverPort s"
  by (auto simp: CService_start_def bind_ub_Inr_iff case_prod_beta)

lemma startConnect_keeps:
  fixes c :: "'b CRegisterClient"
  assumes "startConnect os b this w c = Inr (w', c')"
  shows "rc_serviceName c' = rc_serviceName c" "rc_servicePort c' = rc_servicePort c" "m_serverIp c' = m_serverIp c"
    "m_serverPort c' = m_serverPort c"
  using assms by (auto simp: startConnect_def bind_ub_Inr_iff case_prod_beta)

text \<open>What a successful \<open>registerServer\<close> leaves in the client.\<close>

lemma registerServer_sets:
  assumes "registerServer P half os b this (Some name) port None w s c = Inr (w', s', c')" "NUL \<notin> set name"
  shows "c_str (rc_serviceName c') = Inr name" "rc_servicePort c' = port"
    "m_serverIp c' = (if m_serverIp c ! 0 = NUL then strncpy 16 ''127.0.0.1'' else m_serverIp c)"
    "m_serverPort c' = (if m_serverPort c \<le> 0 then REGISTER_PORT else m_serverPort c)"
proof -
  obtain name' where n: "strcpy 32 (rc_serviceName c) name = Inr name'"
    using assms(1) by (auto simp: registerServer_def bind_ub_Inr_iff)
  define c1 where "c1 = (let c = c\<lparr>rc_serviceName := name', rc_serviceIp := rc_serviceIp c, rc_servicePort := port\<rparr>;
         c = (setAutoConnect True c)\<lparr>m_timerMs := 3000\<rparr>;
         c = (if m_serverIp c ! 0 = NUL then setServerIp ''127.0.0.1'' c else c) in
         if m_serverPort c \<le> 0 then c\<lparr>m_serverPort := REGISTER_PORT\<rparr> else c)"
  have "bind_ub (startConnect os b this w c1) (\<lambda>(w, c).
      bind_ub (loadLocalFile (p_protobuf P) half c s) (\<lambda>(_, s). Inr (w, s, c))) = Inr (w', s', c')"
    using assms(1) unfolding registerServer_def c1_def Let_def option.case n bind_ub_simps .
  then obtain w1 where st: "startConnect os b this w c1 = Inr (w1, c')" by (auto simp: bind_ub_Inr_iff)
  have "length name < 32" using n assms(2) by (auto simp: strcpy_def Let_def takeWhile_neq_all split: if_splits)
  then have "c_str name' = Inr name" using c_str_strcpy [OF assms(2), of 32 "rc_serviceName c"] n by simp
  then show "c_str (rc_serviceName c') = Inr name" "rc_servicePort c' = port"
    "m_serverIp c' = (if m_serverIp c ! 0 = NUL then strncpy 16 ''127.0.0.1'' else m_serverIp c)"
    "m_serverPort c' = (if m_serverPort c \<le> 0 then REGISTER_PORT else m_serverPort c)"
    by (simp_all add: startConnect_keeps [OF st] c1_def Let_def setAutoConnect_def setServerIp_def)
qed

end
