(* ===== verification/Programs_Props.thy ===== *)
theory Programs_Props
  imports Programs
begin

text \<open>
  The programs together: a server that is started listens on the port under which it is
  registered, at the register centre where the others look for it, and the gateway takes its
  configuration from the configuration centre it finds there.
\<close>

section \<open>Starting\<close>

text \<open>A server whose pools are new starts.\<close>

definition server_new :: "CService \<Rightarrow> bool" where
  "server_new s \<longleftrightarrow> sv_listenPool s = Some CCThreadPool_new \<and> sv_clientPool s = Some CCThreadPool_new"

lemma CService_starts:
  assumes "server_new s"
  shows "\<exists>w' s'. CService_start os b this w s = Inr (True, w', s') \<and> sv_serverPort s' = sv_serverPort s"
proof -
  have "\<exists>w' s'. CService_start os b this w s = Inr (True, w', s')"
    using assms
    by (simp add: server_new_def CService_start_def case_prod_beta pool_init_def start_threads_ok CCThreadPool_new_def
        dispatch_def next_thread_def c_mod_def vec_at_def new_threads_def addTask_def Let_def)
  then show ?thesis using CService_start_port by blast
qed

lemma registerServer_starts_default:
  assumes "NUL \<notin> set name" "length name < 32" "c_str (rc_serviceIp c) = Inr ip"
    and "cc_threadPool c = Some CCThreadPool_new"
  shows "\<exists>w' s' c'. registerServer P half os b this (Some name) port None w s c = Inr (w', s', c')"
proof -
  obtain name' where n: "strcpy 32 (rc_serviceName c) name = Inr name'" "c_str name' = Inr name"
    using c_str_strcpy [OF assms(1,2), of "rc_serviceName c"] by (auto simp: bind_ub_Inr_iff)
  define c1 where "c1 = (let c = c\<lparr>rc_serviceName := name', rc_serviceIp := rc_serviceIp c, rc_servicePort := port\<rparr>;
         c = (setAutoConnect True c)\<lparr>m_timerMs := 3000\<rparr>;
         c = (if m_serverIp c ! 0 = NUL then setServerIp ''127.0.0.1'' c else c) in
         if m_serverPort c \<le> 0 then c\<lparr>m_serverPort := REGISTER_PORT\<rparr> else c)"
  have c1: "rc_serviceName c1 = name'" "rc_serviceIp c1 = rc_serviceIp c" "cc_threadPool c1 = Some CCThreadPool_new"
    using assms(4) by (simp_all add: c1_def Let_def setAutoConnect_def setServerIp_def)
  obtain w1 p1 where p: "pool_init os (int 1) w CCThreadPool_new = (w1, p1)" by force
  obtain w' c' where st: "startConnect os b this w c1 = Inr (w', c')" "rc_serviceName c' = name'"
    "rc_serviceIp c' = rc_serviceIp c"
    using dispatch_ok(1) [OF pool_init_ok(1) [OF _ p], of b this] p c1 by (simp add: startConnect_def)
  obtain f where f: "cache_file c' = Inr f" using n(2) st(2,3) assms(3) by (simp add: cache_file_def)
  obtain ok s' where l: "loadLocalFile (p_protobuf P) half c' s = Inr (ok, s')"
    using f by (cases "disk s f"; cases "pbServiceMap s") (auto simp: loadLocalFile_def Let_def)
  show ?thesis using n(1) st(1) l unfolding registerServer_def c1_def Let_def by simp
qed

text \<open>Asking for services changes the connection only.\<close>

lemma client_getServiceReq_bev: "only_bev c (client_getServiceReq P name c)"
  unfolding client_getServiceReq_def Let_def by (rule sendMsg_type_bev)

lemma sends_bev: "(\<And>c. only_bev c (f c)) \<Longrightarrow> only_bev c (sends n f c)"
  by (induction n arbitrary: c) (simp, metis only_bev_trans sends.simps(2))

lemma only_bev_register:
  fixes c c' :: "'b CRegisterClient"
  assumes "only_bev c c'"
  shows "rc_serviceName c' = rc_serviceName c" "rc_servicePort c' = rc_servicePort c"
    "m_serverIp c' = m_serverIp c" "m_serverPort c' = m_serverPort c"
  using assms unfolding only_bev_def by (elim exE conjE; simp)+

lemma getServices_bev:
  assumes "getServices P half up maps name timeoutSec s c = Inr (l, s', c')"
  shows "only_bev c c'"
proof (cases "wait_loop up 0 (nat (timeoutSec * 100))")
  case (Pair connected k)
  note bev = sends_bev [where f = "client_getServiceReq P (Some name)", OF client_getServiceReq_bev]
  show ?thesis
    using assms Pair only_bev_trans [OF client_getServiceReq_bev bev]
    by (auto simp: getServices_def bind_ub_Inr_iff chk_int_def Let_def case_prod_beta split: if_splits)
qed

section \<open>The gateway\<close>

text \<open>A gateway whose threads are not started.\<close>

definition gateway_fresh :: "('b, 'g) gateway_process \<Rightarrow> bool" where
  "gateway_fresh p \<longleftrightarrow> (\<exists>ip. c_str (rc_serviceIp (gp_register p)) = Inr ip) \<and>
     cc_threadPool (gp_register p) = Some CCThreadPool_new \<and> cc_threadPool (gp_config p) = Some CCThreadPool_new \<and>
     server_new (gp_service p)"

lemma startGetConfig_server_starts:
  assumes "cc_threadPool c = Some CCThreadPool_new" "int_fits (timeoutSec * 100)"
  shows "\<exists>ok w' c'. startGetConfig_server le os b this up ip port None localPort configMsg timeoutSec w s c =
      Inr (ok, w', s\<lparr>curServiceConfig := configMsg\<rparr>, c') \<and>
    m_serverIp c' = strncpy 16 ip \<and> m_serverPort c' = port \<and> cf_localPort c' = localPort"
proof -
  define c1 where "c1 = (setServerIp ip c)\<lparr>m_serverPort := port, cf_localPort := localPort\<rparr>"
  have c1: "cc_threadPool c1 = Some CCThreadPool_new" "m_serverIp c1 = strncpy 16 ip" "m_serverPort c1 = port"
    "cf_localPort c1 = localPort"
    using assms(1) by (simp_all add: c1_def setServerIp_def)
  obtain w1 p1 where p: "pool_init os (int 1) w CCThreadPool_new = (w1, p1)" by force
  obtain w' c' where st: "startConnect os b this w c1 = Inr (w', c')" "m_serverIp c' = strncpy 16 ip"
    "m_serverPort c' = port" "cf_localPort c' = localPort"
    using dispatch_ok(1) [OF pool_init_ok(1) [OF _ p], of b this] p c1 by (simp add: startConnect_def)
  have "cf_localPort (setTimer le 3000 c') = localPort"
    using st(4) by (simp add: setTimer_def called_def split: option.split)
  moreover have "startGetConfig_server le os b this up ip port None localPort configMsg timeoutSec w s c =
      bind_ub (startConnect os b this w c1) (\<lambda>(w, c). bind_ub (waitforConnected up timeoutSec) (\<lambda>(ok, _).
        if \<not> ok then Inr (False, w, s\<lparr>curServiceConfig := configMsg\<rparr>, c)
        else Inr (True, w, s\<lparr>curServiceConfig := configMsg\<rparr>, setTimer le 3000 c)))"
    unfolding startGetConfig_server_def c1_def Let_def option.case setCurServiceMessage_def ..
  ultimately show ?thesis
    using st assms(2) by (cases "fst (wait_loop up 0 (nat (timeoutSec * 100)))")
      (auto simp: waitforConnected_def chk_int_def case_prod_beta)
qed

text \<open>
  C10. The gateway starts, and finds its configuration centre. Given the connection to the register
  centre within ten seconds, and an answer that lists a configuration centre ten polls before they
  are over, \<open>main\<close> reaches its endless wait, with any arguments: the gateway is registered under the
  port on which its service listens, and the client of the configuration centre is directed to the
  first one that was listed, to fetch the configuration for that same port.
\<close>

theorem gateway_starts:
  assumes "gateway_fresh p"
    and "wait_loop (run_up_services run) 0 1000 = (True, k)"
    and "\<forall>i. j \<le> i \<and> i < 1000 \<longrightarrow> (\<exists>m l. run_services run i = Some m \<and> sm_serviceMap m CONFIG_NAME = Some l)"
    and "max (int k) j + 9 < 1000"
    and "\<forall>i m l. run_services run i = Some m \<longrightarrow> sm_serviceMap m CONFIG_NAME = Some l \<longrightarrow> CServiceList_service l \<noteq> []"
  shows "\<exists>p' i m l. gateway_main P half T this this_register this_config run conf argv p = Inr p' \<and>
    sv_serverPort (gp_service p') = (if length argv > 1 then atoi (argv ! 1) else API_GATEWAY_PORT) \<and>
    c_str (rc_serviceName (gp_register p')) = Inr API_GATEWAY_NAME \<and>
    rc_servicePort (gp_register p') = sv_serverPort (gp_service p') \<and>
    run_services run i = Some m \<and> sm_serviceMap m CONFIG_NAME = Some l \<and>
    m_serverIp (gp_config p') = strncpy 16 (as_c_str (CService_ip (hd (CServiceList_service l)))) \<and>
    m_serverPort (gp_config p') = sint (CService_port (hd (CServiceList_service l))) \<and>
    cf_localPort (gp_config p') = sv_serverPort (gp_service p') \<and> curServiceConfig (gp_state p') = Some conf"
proof -
  define port where "port = (if length argv > 1 then atoi (argv ! 1) else API_GATEWAY_PORT)"
  define c where "c = (setServerIp (if length argv > 2 then argv ! 2 else ''127.0.0.1'') (gp_register p))
    \<lparr>m_serverPort := if length argv > 3 then atoi (argv ! 3) else REGISTER_PORT\<rparr>"
  obtain ip where ip: "c_str (rc_serviceIp c) = Inr ip" and pool: "cc_threadPool c = Some CCThreadPool_new"
    using assms(1) by (auto simp: gateway_fresh_def c_def setServerIp_def)
  have name: "NUL \<notin> set API_GATEWAY_NAME" "length API_GATEWAY_NAME < 32" by (simp_all add: API_GATEWAY_NAME_def NUL_def)
  obtain w1 cache1 c1 where reg: "registerServer P half (thr_os T) (thr_written T) this_register (Some API_GATEWAY_NAME)
      port None (gp_world p) (gp_cache p) c = Inr (w1, cache1, c1)"
    using registerServer_starts_default [OF name ip pool] by metis
  note set1 = registerServer_sets [OF reg name(1)]
  obtain r where up: "waitforConnected (run_up_register run) 3 = Inr r"
    by (simp add: waitforConnected_def chk_int_def int_fits_def)
  let ?c2 = "client_getServiceReq P None c1"
  have t: "(0 :: int) \<le> 10" "int_fits (10 * 100)" by (simp_all add: int_fits_def)
  obtain l c3 i m where serv: "getServices P half (run_up_services run) (run_services run) CONFIG_NAME 10 cache1 ?c2 =
      Inr (l, cache1, c3)" "run_services run i = Some m" "sm_serviceMap m CONFIG_NAME = Some l"
    using getServices_finds [OF t, of "run_up_services run" k j "run_services run" CONFIG_NAME P half cache1 ?c2]
      assms(2-4) by auto
  have bev: "only_bev c1 c3" by (rule only_bev_trans [OF client_getServiceReq_bev getServices_bev [OF serv(1)]])
  obtain e rest where e: "CServiceList_service l = e # rest"
    using assms(5) serv(2,3) by (cases "CServiceList_service l") auto
  have pool_c: "cc_threadPool (gp_config p) = Some CCThreadPool_new" using assms(1) by (simp add: gateway_fresh_def)
  obtain ok w2 k2 where conf: "startGetConfig_server (p_libevent P) (thr_os T) (thr_written T) this_config (run_up_config run)
      (as_c_str (CService_ip e)) (sint (CService_port e)) None port (Some conf) 10 w1 (gp_state p) (gp_config p) =
      Inr (ok, w2, (gp_state p)\<lparr>curServiceConfig := Some conf\<rparr>, k2)"
    "m_serverIp k2 = strncpy 16 (as_c_str (CService_ip e))" "m_serverPort k2 = sint (CService_port e)"
    "cf_localPort k2 = port"
    using startGetConfig_server_starts [OF pool_c t(2), of "p_libevent P" "thr_os T" "thr_written T" this_config
        "run_up_config run" "as_c_str (CService_ip e)" "sint (CService_port e)" port "Some conf" w1 "gp_state p"]
    by blast
  have new: "server_new (setServerPort port (gp_service p))"
    using assms(1) by (simp add: gateway_fresh_def server_new_def setServerPort_def)
  obtain w3 sv where sv: "CService_start (thr_os T) (thr_written T) this w2 (setServerPort port (gp_service p)) =
      Inr (True, w3, sv)" "sv_serverPort sv = port"
    using CService_starts [OF new, of "thr_os T" "thr_written T" this w2] by (auto simp: setServerPort_def)
  have "gateway_main P half T this this_register this_config run conf argv p =
      Inr \<lparr>gp_world = w3, gp_cache = cache1, gp_register = c3, gp_state = (gp_state p)\<lparr>curServiceConfig := Some conf\<rparr>,
        gp_config = k2, gp_service = sv\<rparr>"
    unfolding gateway_main_def Let_def c_def [symmetric] port_def [symmetric] reg up serv(1) e
    by (simp add: up serv(1) e conf(1) sv(1))
  moreover have "c_str (rc_serviceName c3) = Inr API_GATEWAY_NAME" "rc_servicePort c3 = port"
    using set1 only_bev_register [OF bev] by simp_all
  ultimately show ?thesis
    unfolding port_def [symmetric] using serv(2,3) conf(2-4) sv(2) e by fastforce
qed

text \<open>A gateway to be started, and what the register centre answers it after half a second.\<close>

definition sample_process :: "(buffers, CGatewayConfig) gateway_process" where
  "sample_process = \<lparr>gp_world = empty_world, gp_cache = fresh_cache Map.empty,
     gp_register = CRegisterClient_new (Some CCThreadPool_new),
     gp_state = \<lparr>configMap = Map.empty, curServiceConfig = None, allConfigs = None, conf_disk = Map.empty\<rparr>,
     gp_config = CConfigClient_new (Some CCThreadPool_new), gp_service = sample_server\<rparr>"

definition sample_centre :: CServiceMap where
  "sample_centre = CServiceMap_Clear\<lparr>sm_serviceMap := [CONFIG_NAME \<mapsto> CServiceMap_CServiceList_Clear
     \<lparr>CServiceList_service := [new_service CONFIG_NAME ''10.0.0.9'' 20011]\<rparr>]\<rparr>"

definition sample_run :: gateway_run where
  "sample_run = \<lparr>run_up_register = \<lambda>i. i > 7, run_up_services = \<lambda>_. True,
     run_services = \<lambda>i. if i < 50 then None else Some sample_centre, run_up_config = \<lambda>i. i > 3\<rparr>"

definition sample_threads :: threads where
  "sample_threads = \<lparr>thr_os = \<lambda>_. (Some (3, 4), Some 0), thr_written = True\<rparr>"

lemma sample_server_is_new: "server_new sample_server"
  by (simp add: server_new_def sample_server_def CService_new_def pool_create_def)

lemma sample_process_fresh: "gateway_fresh sample_process"
  by (auto simp: gateway_fresh_def sample_process_def sample_server_is_new CRegisterClient_new_def CConfigClient_new_def
      CRegisterClient.defs CConfigClient.defs CServiceClient.defs CMsgEvent.defs CComeTask.defs CMsgEvent_new_def)

theorem gateway_starts_witness:
  "\<exists>p'. gateway_main ref_platform (\<lambda>_. CServiceMap_Clear) sample_threads 1 2 3 sample_run CGatewayConfig_Clear
      [''gateway'', ''20030'', ''10.0.0.1''] sample_process = Inr p' \<and>
    sv_serverPort (gp_service p') = atoi ''20030'' \<and> rc_servicePort (gp_register p') = atoi ''20030'' \<and>
    m_serverIp (gp_config p') = strncpy 16 ''10.0.0.9'' \<and> m_serverPort (gp_config p') = 20011"
proof -
  have w: "wait_loop (run_up_services sample_run) 0 1000 = (True, 0)"
    using wait_loop.simps(2) [of "run_up_services sample_run" 0 999] by (simp add: sample_run_def)
  have s: "\<forall>i. 50 \<le> i \<and> i < 1000 \<longrightarrow> (\<exists>m l. run_services sample_run i = Some m \<and> sm_serviceMap m CONFIG_NAME = Some l)"
    by (simp add: sample_run_def sample_centre_def)
  have n: "\<forall>i m l. run_services sample_run i = Some m \<longrightarrow> sm_serviceMap m CONFIG_NAME = Some l \<longrightarrow> CServiceList_service l \<noteq> []"
    by (auto simp: sample_run_def sample_centre_def split: if_splits)
  from gateway_starts [OF sample_process_fresh w s _ n, where P = ref_platform and half = "\<lambda>_. CServiceMap_Clear"
      and T = sample_threads and this = 1 and this_register = 2 and this_config = 3 and conf = CGatewayConfig_Clear
      and argv = "[''gateway'', ''20030'', ''10.0.0.1'']"]
  obtain p' i m l where p': "gateway_main ref_platform (\<lambda>_. CServiceMap_Clear) sample_threads 1 2 3 sample_run
      CGatewayConfig_Clear [''gateway'', ''20030'', ''10.0.0.1''] sample_process = Inr p'"
    "sv_serverPort (gp_service p') = atoi ''20030''" "rc_servicePort (gp_register p') = sv_serverPort (gp_service p')"
    "run_services sample_run i = Some m" "sm_serviceMap m CONFIG_NAME = Some l"
    "m_serverIp (gp_config p') = strncpy 16 (as_c_str (CService_ip (hd (CServiceList_service l))))"
    "m_serverPort (gp_config p') = sint (CService_port (hd (CServiceList_service l)))"
    by auto
  have l: "CServiceList_service l = [new_service CONFIG_NAME ''10.0.0.9'' 20011]"
    using p'(4,5) by (auto simp: sample_run_def sample_centre_def split: if_splits)
  have "as_c_str ''10.0.0.9'' = ''10.0.0.9''" by (simp add: as_c_str_def NUL_def)
  then have "m_serverIp (gp_config p') = strncpy 16 ''10.0.0.9''" "m_serverPort (gp_config p') = 20011"
    using p'(6,7) l by (simp_all add: new_service_def)
  with p'(1-3) show ?thesis by auto
qed

section \<open>The centres\<close>

text \<open>
  C23. The configuration centre starts, and registers where the register centre listens. When its
  database can list the first page, \<open>main\<close> of the configuration centre reaches its endless wait,
  registered under the port on which it listens; with no arguments for either, the centre it
  registers at is the register centre's own port on the local host.
\<close>

theorem centres_find_each_other:
  assumes "server_new centre" "server_new server" "c_str (rc_serviceIp c) = Inr ip"
    and "cc_threadPool c = Some CCThreadPool_new"
    and "\<And>dao. \<exists>res dao'. ConfigDAO_downloadAllConfig api 1 10000 dao = Inr (res, dao' :: 'm ConfigDAO)"
  shows "\<exists>w1 centre' res dao' server' w' cache' c'.
    register_main T this [prog] centre wr = Inr (True, w1, centre') \<and>
    config_main P half api T' this' this_client db argv dao server w cache c =
      Inr (res, dao', server', w', cache', c') \<and>
    sv_serverPort server' = (if length argv > 3 then atoi (argv ! 3) else CONFIG_PORT) \<and>
    c_str (rc_serviceName c') = Inr CONFIG_NAME \<and> rc_servicePort c' = sv_serverPort server' \<and>
    (length argv \<le> 1 \<longrightarrow> c_str (m_serverIp c') = Inr ''127.0.0.1'' \<and> m_serverPort c' = sv_serverPort centre')"
proof -
  define port where "port = (if length argv > 3 then atoi (argv ! 3) else CONFIG_PORT)"
  define c1 where "c1 = (setServerIp (if length argv > 1 then argv ! 1 else ''127.0.0.1'') c)
    \<lparr>m_serverPort := if length argv > 2 then atoi (argv ! 2) else REGISTER_PORT\<rparr>"
  have c1: "c_str (rc_serviceIp c1) = Inr ip" "cc_threadPool c1 = Some CCThreadPool_new"
    using assms(3,4) by (simp_all add: c1_def setServerIp_def)
  have name: "NUL \<notin> set CONFIG_NAME" "length CONFIG_NAME < 32" by (simp_all add: CONFIG_NAME_def NUL_def)
  obtain w1 cache1 c' where reg: "registerServer P half (thr_os T') (thr_written T') this_client (Some CONFIG_NAME) port None
      w cache c1 = Inr (w1, cache1, c')"
    using registerServer_starts_default [OF name c1] by metis
  note set1 = registerServer_sets [OF reg name(1)]
  have local: "c_str (m_serverIp c') = Inr ''127.0.0.1'' \<and> m_serverPort c' = REGISTER_PORT" if "length argv \<le> 1"
    using that set1(3,4) c_str_strncpy [of "''127.0.0.1''" 16]
    by (simp add: c1_def setServerIp_def NUL_def REGISTER_PORT_def strncpy_def)
  obtain ok dao1 where init: "ConfigDAO_init api db ''127.0.0.1'' ''root'' ''123456'' ''cms'' 3306 dao = (ok, dao1)" by force
  obtain res dao' where list: "ConfigDAO_downloadAllConfig api 1 10000 (if ok then snd (ConfigDAO_install api dao1) else dao1) =
      Inr (res, dao')"
    using assms(5) by blast
  have "server_new (setServerPort port server)" using assms(2) by (simp add: server_new_def setServerPort_def)
  from CService_starts [OF this, of "thr_os T'" "thr_written T'" this' w1] obtain w' server' where
    sv: "CService_start (thr_os T') (thr_written T') this' w1 (setServerPort port server) = Inr (True, w', server')"
      "sv_serverPort server' = port"
    by (auto simp: setServerPort_def)
  have "config_mainFunc P half (thr_os T') (thr_written T') this_client argv server w cache c =
      Inr (setServerPort port server, w1, cache1, c')"
    unfolding config_mainFunc_def Let_def port_def [symmetric] c1_def [symmetric] reg by simp
  then have main: "config_main P half api T' this' this_client db argv dao server w cache c = Inr (res, dao', server', w', cache1, c')"
    using sv(1) list by (simp add: config_main_def init)
  have "server_new (register_mainFunc [prog] centre)" "sv_serverPort (register_mainFunc [prog] centre) = REGISTER_PORT"
    using assms(1) by (simp_all add: register_mainFunc_def server_new_def setServerPort_def)
  with CService_starts [of "register_mainFunc [prog] centre" "thr_os T" "thr_written T" this wr] obtain w2 centre' where
    centre: "register_main T this [prog] centre wr = Inr (True, w2, centre')" "sv_serverPort centre' = REGISTER_PORT"
    by (auto simp: register_main_def)
  show ?thesis
    unfolding port_def [symmetric] using main centre sv(2) set1(1,2) local by fastforce
qed

lemma memory_lists_page: "\<exists>res dao'. ConfigDAO_downloadAllConfig memory_api 1 10000 dao = Inr (res, dao')"
proof (cases dao)
  case (Some c)
  show ?thesis
  proof (cases "my_mysql c")
    case True
    then have "ready (\<lambda>_. True) c" by (simp add: ready_def)
    then obtain res c' where "ConfigDAO_downloadAllConfig memory_api 1 10000 (Some c) = Inr (res, Some c')"
      by (rule memory.downloadAllConfig_page [of c 1 10000]) (simp_all add: int_fits_def)
    with Some show ?thesis by blast
  next
    case False
    with Some show ?thesis
      by (simp add: ConfigDAO_downloadAllConfig_def CMysql_getResult_def CMysql_query_def CMysql_freeResult_def chk_int_def
          int_fits_def Let_def)
  qed
qed (simp add: ConfigDAO_downloadAllConfig_def)

theorem centres_find_each_other_witness:
  "\<exists>w1 centre' res dao' server' w' cache' c'.
    register_main sample_threads 1 [''registerserver''] sample_server empty_world = Inr (True, w1, centre') \<and>
    config_main ref_platform (\<lambda>_. CServiceMap_Clear) memory_api sample_threads 1 2 (my_db (memory_with []))
      [''configserver''] None sample_server empty_world (fresh_cache Map.empty)
      (CRegisterClient_new (Some CCThreadPool_new)) = Inr (res, dao', server', w', cache', c') \<and>
    sv_serverPort server' = CONFIG_PORT \<and> rc_servicePort c' = CONFIG_PORT \<and>
    m_serverPort c' = sv_serverPort centre'"
proof -
  have c: "c_str (rc_serviceIp (CRegisterClient_new (Some CCThreadPool_new))) = Inr []"
    "cc_threadPool (CRegisterClient_new (Some CCThreadPool_new)) = Some CCThreadPool_new"
    by (simp_all add: CRegisterClient_new_def CRegisterClient.defs CServiceClient.defs CMsgEvent.defs CComeTask.defs CMsgEvent_new_def)
  from centres_find_each_other [OF sample_server_is_new sample_server_is_new c memory_lists_page, where T = sample_threads
      and T' = sample_threads and this = 1 and this' = 1 and this_client = 2 and wr = empty_world and w = empty_world
      and prog = "''registerserver''" and argv = "[''configserver'']" and P = ref_platform
      and half = "\<lambda>_. CServiceMap_Clear" and db = "my_db (memory_with [])" and dao = None and cache = "fresh_cache Map.empty"]
  show ?thesis by auto
qed

section \<open>The watchdog\<close>

text \<open>
  The daemon runs its command for ever, and pauses after every run: no run of the command, however
  it ends, is the last.
\<close>

lemma watchdog_alternates:
  "watchdog_loop False cmd pause !! (2 * n) = System cmd"
  "watchdog_loop False cmd pause !! Suc (2 * n) = Sleep (word_of_int pause)"
  by (induction n) simp_all

end
