(* ===== verification/Spec2Isabelle.thy ===== *)
theory Spec2Isabelle
  imports Codec_Props Gateway_Props Log_Props ConfigClient_Props Ssl_Props Mysql_Text Protocol Programs_Props
begin

text \<open>
  A verification development of the message platform \<open>cms\<close> (sources under \<open>src/src/\<close>).

  The platform is a set of processes that exchange framed protobuf messages over TCP. A service
  registers itself at the register centre; the gateway asks the centre for all services, keeps
  a connection to each, and routes the requests of its clients there and the answers back.

  How the parts build on each other, bottom up, with the theories that model them:

  \<^item> \<open>Prelude\<close>: the C++ world the model lives in. Machine integers, the outcomes of
    undefined behaviour (\<open>ub\<close>, \<open>checked\<close>, \<open>bind_ub\<close>), C string buffers, number texts.
  \<^item> \<open>Wire\<close>, \<open>Wire_Facts\<close>, \<open>Wire_Read\<close>: the inline parts of protobuf's
    \<open>coded_stream.h\<close>, \<open>wire_format_lite.h\<close> and \<open>port.h\<close> that the generated code calls. The
    out-of-line readers are the record \<open>pb_rt\<close>; the locale \<open>coded_input\<close> states what their
    documentation says and is interpreted on readers written after it (\<open>ref\<close>).
  \<^item> \<open>Msg_Head\<close>, \<open>Msg_Registry\<close>, \<open>Msg_ServiceMap\<close>, \<open>Msg_Config\<close>, \<open>Msg_Auth\<close>,
    \<open>Msg_Service\<close>: the messages of \<open>cplatform/cmsgcom.pb.cc\<close>, each with the functions of the
    generated class. \<open>Codec_Props\<close>: what is written is read back, and its size is announced.
  \<^item> \<open>Msg\<close>: \<open>CMsg\<close> of \<open>cplatform/cmsg.h\<close> and the message types.
  \<^item> \<open>ComeTask\<close>: \<open>CTask\<close> and \<open>CComeTask\<close>, a connection over a libevent bufferevent.
    Libevent is the record \<open>libevent\<close>; the locale \<open>bufferevent\<close> states that reading takes from
    the front of the input and writing appends to the output (\<open>bufs\<close> interprets it).
  \<^item> \<open>MsgEvent\<close>, \<open>MsgEvent_Facts\<close>, \<open>MsgEvent_Props\<close>: \<open>CMsgEvent\<close>, the framing. The
    locale \<open>channel\<close> joins \<open>bufferevent\<close> and \<open>coded_input\<close>; \<open>ref_channel\<close> interprets it.
  \<^item> \<open>ThreadPool\<close>: \<open>CThread\<close>, \<open>CCThreadPool\<close> and the factory. The locale \<open>round_robin\<close> is the
    cyclic choice of the pool (\<open>pool_rr\<close>) and of the gateway (\<open>proxy_rr\<close>).
  \<^item> \<open>Service\<close>: \<open>CService\<close>, which accepts connections, and \<open>CServiceClient\<close>.
  \<^item> \<open>RegisterServer\<close>, \<open>RegisterServer_Props\<close>: the register centre, \<open>registerserver/\<close>.
  \<^item> \<open>Proxy\<close>, \<open>Proxy_Props\<close>, \<open>Routing\<close>: the gateway, \<open>cmsgateway/\<close>.

  \<^item> \<open>RegisterClient\<close>, \<open>RegisterClient_Props\<close>: the client of the register centre,
    \<open>registerclient/\<close>, and its cache of services.
  \<^item> \<open>Mysql\<close>: the wrapper of the MySQL client library, \<open>cmysql/\<close>; the library and the server
    are the record \<open>mysql_api\<close> over a state of both. \<open>Mysql_Text\<close>: \<open>getPassword\<close> and the conversion
    between UTF-8 and GBK; the locale \<open>charsets\<close> is what a conversion of \<open>iconv\<close> gives, and \<open>ascii\<close>
    interprets it.
  \<^item> \<open>ConfigServer\<close>, \<open>ConfigServer_Facts\<close>, \<open>ConfigServer_Props\<close>: the configuration centre,
    \<open>configserver/\<close>. The locale \<open>config_sql\<close> states what the database does with the statements of
    the code; \<open>memory\<close> interprets it on a database in memory that reads their texts.
  \<^item> \<open>Auth\<close>, \<open>Auth_Facts\<close>, \<open>Auth_Props\<close>: the login service and its client, \<open>cauth/\<close>, and how
    a database account is found (\<open>inputDBConfig\<close>). The locale \<open>auth_sql\<close> states what the database
    does with its statements; \<open>memory_auth\<close> interprets it.
  \<^item> \<open>Tools\<close>, \<open>Tools_Props\<close>: \<open>cplatform/ctools.cpp\<close>, base64, MD5, directory listings. OpenSSL's
    objects are the record \<open>bio_api\<close>; the locale \<open>base64_bio\<close> states that its filter encodes and
    decodes after RFC 4648, which is written out; \<open>bios\<close> interprets it.
  \<^item> \<open>Login_Props\<close>: a login from the client's password to the token it gets.
  \<^item> \<open>DirService\<close>: the directory service of \<open>cmsgateway/\<close>. \<open>Gateway_Props\<close>: a request through the
    gateway and its answer back. The locale \<open>answering\<close> is what the gateway relies on, that a
    service answers under the head of the request; \<open>login_service\<close> and \<open>dir_service\<close> interpret it.
  \<^item> \<open>Ssl\<close>, \<open>Ssl_Props\<close>: \<open>CSSL\<close> and \<open>CSSLCtx\<close>, over the record \<open>ssl_api\<close>. The locale \<open>ssl_peer\<close>
    states which contexts demand a certificate; \<open>sample_peer\<close> interprets it.
  \<^item> \<open>Log\<close>, \<open>Log_Props\<close>: the log service, \<open>clog/\<close>, and its client with the queue of logs not yet
    sent, \<open>cplatform/clogclient\<close>. The locale \<open>log_sql\<close> states what the database does with the
    insertion of a log; \<open>memory_log\<close> interprets it.
  \<^item> \<open>ConfigClient\<close>, \<open>ConfigClient_Props\<close>: the client of the configuration centre,
    \<open>configclient/\<close>. A configuration object of any message type is the record \<open>message_api\<close>;
    the locale \<open>message_codec\<close> states that it parses what it serialised, \<open>dir_config\<close> interprets
    it on the generated class \<open>CDirConfig\<close>.
  \<^item> \<open>EditForm\<close>, \<open>EditForm_Facts\<close>, \<open>EditForm_Props\<close>: the dialog for one configuration,
    \<open>configgui/configedit.cpp\<close>, which makes a form from the fields of a message and saves the
    form into it. Qt and the reflection of protobuf are records of operations; the locales
    \<open>widgets\<close>, \<open>form_layout\<close> and \<open>reflection\<close> state what their documentation says, \<open>edit_form\<close> joins
    them, and \<open>sample_edit\<close> interprets it on the generated class \<open>CMsgHead\<close>.
  \<^item> \<open>ConfigGui\<close>, \<open>ConfigGui_Props\<close>: the window with the table of configurations and the login
    dialog, \<open>configgui/\<close>. The locale \<open>qt_grid\<close> is the table; \<open>sample_grid\<close> interprets it.
  \<^item> \<open>Protocol\<close>: which message each type of \<open>cmsgtype.proto\<close> carries (\<open>carries\<close>), and that services
    and clients keep to it, over every sequence of handled messages (\<open>service_step\<close>).
  \<^item> \<open>Programs\<close>, \<open>Programs_Props\<close>: the \<open>main\<close> functions and the watchdog, and how the programs find
    each other.

  Conventions. A class is a record, a derived class extends the record of its base; a member
  \<open>x_\<close> is the field \<open>m_x\<close>. An operation takes the object last and gives it back. Where the
  code may leave the defined part of C++ the result is \<open>ub + result\<close>. Where a call may not
  return, the result is an option. Log output, which no behaviour depends on, is left out, and
  a mutex that brackets a whole operation is the atomicity of that operation.

  Bounds. The parse loop of a message runs at most once more than it has bytes left, as every
  field takes at least one byte, so that the bound is never what ends it for a written
  message (the round trips prove this). \<open>readCb\<close> has no bound: that it ends is
  \<open>readCb_terminates\<close>.

  Not modelled: the sample programs \<open>registerclient.cpp\<close> and \<open>configclient.cpp\<close>, which call the
  clients for ever; the Windows variants; the work of libraries outside the repository (libevent,
  OpenSSL, the MySQL client, iconv, Qt, the run-time part of protobuf), which is a parameter; the
  reflection, arena and text format parts of the generated protobuf code; the looks of the windows
  (the generated \<open>setupUi\<close>); data races between the threads.
\<close>

end
